(* ===== verification/Prelude.thy ===== *)
theory Prelude
  imports Main "HOL-Library.Sublist" "HOL-Library.Char_ord"
begin

text \<open>
  Shared vocabulary of the development.

  \<^item> Results: a TypeScript function that may throw is a function into \<open>'e + 'a\<close>, the
    thrown value on the left; \<open>rbind\<close> sequences two of them.
  \<^item> Strings: a JavaScript string is a list of code units. The model uses \<open>string\<close>
    (characters of 8 bits), so it covers the strings whose code units are below 256; the
    white space of \<open>trim\<close> and \<open>\s\<close> and the case mapping of \<open>toLowerCase\<close> are
    those of that range.
  \<^item> \<open>Map\<close> objects: an association list in insertion order (\<open>jm_get\<close>, \<open>jm_set\<close>,
    \<open>jm_delete\<close>), since several components iterate over a map or take its first key.
    The locale \<open>map_object\<close> is the interface its clients rely on.
  \<^item> State machines: the locale \<open>invariant_system\<close> lifts an invariant of single steps to
    every state of every run; each stateful component interprets it.
\<close>

named_theorems js_simps \<open>unfolding of the JavaScript library functions used by the models\<close>

section \<open>Results\<close>

definition rbind :: "'e + 'a \<Rightarrow> ('a \<Rightarrow> 'e + 'b) \<Rightarrow> 'e + 'b" where
  "rbind r f = (case r of Inl e \<Rightarrow> Inl e | Inr x \<Rightarrow> f x)"

lemma rbind_simps [simp]:
  "rbind (Inl e) f = Inl e"
  "rbind (Inr x) f = f x"
  by (simp_all add: rbind_def)

lemma rbind_eq_Inr [simp]: "rbind r f = Inr y \<longleftrightarrow> (\<exists>x. r = Inr x \<and> f x = Inr y)"
  by (cases r) simp_all

lemma rbind_eq_Inl [simp]:
  "rbind r f = Inl e \<longleftrightarrow> r = Inl e \<or> (\<exists>x. r = Inr x \<and> f x = Inl e)"
  by (cases r) simp_all

definition guard :: "bool \<Rightarrow> 'e \<Rightarrow> 'e + unit" where
  "guard b e = (if b then Inl e else Inr ())"

lemma guard_simps [simp]:
  "guard True e = Inl e"
  "guard False e = Inr ()"
  by (simp_all add: guard_def)

lemma guard_eq_Inr [simp]: "guard b e = Inr u \<longleftrightarrow> \<not> b"
  by (simp add: guard_def)

lemma guard_eq_Inl [simp]: "guard b e = Inl e' \<longleftrightarrow> b \<and> e' = e"
  by (auto simp: guard_def)

definition is_ok :: "'e + 'a \<Rightarrow> bool" where
  "is_ok r = (case r of Inl _ \<Rightarrow> False | Inr _ \<Rightarrow> True)"

lemma is_ok_simps [simp]:
  "is_ok (Inl e) = False"
  "is_ok (Inr x) = True"
  by (simp_all add: is_ok_def)

lemma is_ok_iff: "is_ok r \<longleftrightarrow> (\<exists>x. r = Inr x)"
  by (cases r) simp_all

text \<open>\<open>xs.map(f)\<close> with an \<open>f\<close> that may throw: the first error ends the loop.\<close>

fun rmap :: "('a \<Rightarrow> 'e + 'b) \<Rightarrow> 'a list \<Rightarrow> 'e + 'b list" where
  "rmap f [] = Inr []"
| "rmap f (x # xs) = rbind (f x) (\<lambda>y. rbind (rmap f xs) (\<lambda>ys. Inr (y # ys)))"

lemma rmap_Inr_length: "rmap f xs = Inr ys \<Longrightarrow> length ys = length xs"
  by (induction xs arbitrary: ys) auto

lemma rmap_Inr_set: "rmap f xs = Inr ys \<Longrightarrow> y \<in> set ys \<Longrightarrow> \<exists>x \<in> set xs. f x = Inr y"
  by (induction xs arbitrary: ys) auto

section \<open>Optional values\<close>

text \<open>\<open>if (value)\<close> on a \<open>string | undefined\<close>: \<open>undefined\<close> and the empty string are falsy.\<close>

definition truthy :: "string option \<Rightarrow> bool" where
  "truthy v = (case v of None \<Rightarrow> False | Some s \<Rightarrow> s \<noteq> [])"

lemma truthy_simps [simp]:
  "truthy None = False"
  "truthy (Some s) = (s \<noteq> [])"
  by (simp_all add: truthy_def)

lemma truthy_iff: "truthy v \<longleftrightarrow> (\<exists>s. v = Some s \<and> s \<noteq> [])"
  by (cases v) simp_all

text \<open>\<open>value ?? fallback\<close>.\<close>

definition or_else :: "'a option \<Rightarrow> 'a \<Rightarrow> 'a" where
  "or_else v d = (case v of None \<Rightarrow> d | Some x \<Rightarrow> x)"

lemma or_else_simps [simp]:
  "or_else None d = d"
  "or_else (Some x) d = x"
  by (simp_all add: or_else_def)

section \<open>Strings\<close>

definition startsWith :: "string \<Rightarrow> string \<Rightarrow> bool" where
  "startsWith s p = prefix p s"

definition endsWith :: "string \<Rightarrow> string \<Rightarrow> bool" where
  "endsWith s p = suffix p s"

fun js_includes :: "string \<Rightarrow> string \<Rightarrow> bool" where
  "js_includes [] p = (p = [])"
| "js_includes (c # s) p = (prefix p (c # s) \<or> js_includes s p)"

lemma js_includes_iff: "js_includes s p \<longleftrightarrow> (\<exists>a b. s = a @ p @ b)"
proof (induction s)
  case Nil
  then show ?case by simp
next
  case (Cons c s)
  have "js_includes (c # s) p \<longleftrightarrow> prefix p (c # s) \<or> (\<exists>a b. s = a @ p @ b)"
    using Cons.IH by simp
  also have "\<dots> \<longleftrightarrow> (\<exists>a b. c # s = a @ p @ b)"
  proof
    assume "prefix p (c # s) \<or> (\<exists>a b. s = a @ p @ b)"
    then show "\<exists>a b. c # s = a @ p @ b"
    proof
      assume "prefix p (c # s)"
      then obtain b where "c # s = [] @ p @ b" by (auto elim: prefixE)
      then show ?thesis by blast
    next
      assume "\<exists>a b. s = a @ p @ b"
      then obtain a b where "c # s = (c # a) @ p @ b" by auto
      then show ?thesis by blast
    qed
  next
    assume "\<exists>a b. c # s = a @ p @ b"
    then obtain a b where ab: "c # s = a @ p @ b" by blast
    show "prefix p (c # s) \<or> (\<exists>a b. s = a @ p @ b)"
    proof (cases a)
      case Nil
      with ab show ?thesis by (auto intro: prefixI)
    next
      case (Cons d a')
      with ab show ?thesis by auto
    qed
  qed
  finally show ?case .
qed

text \<open>The single-character separators of \<open>split\<close> and the matching \<open>join\<close>.\<close>

fun split_on :: "char \<Rightarrow> string \<Rightarrow> string list" where
  "split_on c [] = [[]]"
| "split_on c (x # xs) =
     (if x = c then [] # split_on c xs
      else (case split_on c xs of [] \<Rightarrow> [[x]] | w # ws \<Rightarrow> (x # w) # ws))"

fun join :: "string \<Rightarrow> string list \<Rightarrow> string" where
  "join sep [] = []"
| "join sep [x] = x"
| "join sep (x # y # xs) = x @ sep @ join sep (y # xs)"

lemma split_on_nonempty [simp]: "split_on c s \<noteq> []"
  by (cases s) (auto split: list.splits)

lemma split_on_no_sep: "w \<in> set (split_on c s) \<Longrightarrow> c \<notin> set w"
proof (induction s arbitrary: w)
  case Nil
  then show ?case by simp
next
  case (Cons x s)
  then show ?case by (auto split: if_splits list.splits)
qed

lemma join_split_on: "join [c] (split_on c s) = s"
proof (induction s)
  case Nil
  then show ?case by simp
next
  case (Cons x s)
  obtain w ws where w: "split_on c s = w # ws"
    by (cases "split_on c s") auto
  with Cons show ?case by (cases ws) auto
qed

lemma split_on_single: "c \<notin> set w \<Longrightarrow> split_on c w = [w]"
  by (induction w) auto

lemma split_on_append: "c \<notin> set w \<Longrightarrow> split_on c (w @ c # s) = w # split_on c s"
  by (induction w) auto

lemma split_on_join:
  "ws \<noteq> [] \<Longrightarrow> (\<forall>w \<in> set ws. c \<notin> set w) \<Longrightarrow> split_on c (join [c] ws) = ws"
proof (induction ws)
  case Nil
  then show ?case by simp
next
  case (Cons w ws)
  then show ?case by (cases ws) (auto simp: split_on_single split_on_append)
qed

text \<open>\<open>value.replace(/x/g, r)\<close> for a single character \<open>x\<close>.\<close>

definition replace_all :: "char \<Rightarrow> string \<Rightarrow> string \<Rightarrow> string" where
  "replace_all x r s = concat (map (\<lambda>c. if c = x then r else [c]) s)"

lemma replace_all_simps [simp]:
  "replace_all x r [] = []"
  "replace_all x r (c # s) = (if c = x then r else [c]) @ replace_all x r s"
  by (simp_all add: replace_all_def)

lemma replace_all_append: "replace_all x r (s @ t) = replace_all x r s @ replace_all x r t"
  by (simp add: replace_all_def)

lemma replace_all_absent: "x \<notin> set r \<Longrightarrow> x \<notin> set (replace_all x r s)"
  by (induction s) auto

lemma replace_all_id: "x \<notin> set s \<Longrightarrow> replace_all x r s = s"
  by (induction s) auto

lemma set_join_subset: "set (join sep ws) \<subseteq> set sep \<union> (\<Union>w \<in> set ws. set w)"
  by (induction sep ws rule: join.induct) auto

lemma split_on_chars: "w \<in> set (split_on c s) \<Longrightarrow> set w \<subseteq> set s"
proof (induction s arbitrary: w)
  case (Cons x s)
  obtain v vs where v: "split_on c s = v # vs" by (cases "split_on c s") auto
  from Cons.IH have "set v \<subseteq> set s" and "\<And>u. u \<in> set vs \<Longrightarrow> set u \<subseteq> set s" using v by auto
  with Cons.prems v show ?case by (cases "x = c") auto
qed simp

text \<open>White space, \<open>trim\<close>, and the split at runs of white space.\<close>

definition is_ws :: "char \<Rightarrow> bool" where
  "is_ws c = (let n = (of_char c :: nat) in (9 \<le> n \<and> n \<le> 13) \<or> n = 32 \<or> n = 160)"

definition trimStart :: "string \<Rightarrow> string" where
  "trimStart s = dropWhile is_ws s"

definition trim :: "string \<Rightarrow> string" where
  "trim s = rev (dropWhile is_ws (rev (dropWhile is_ws s)))"

lemma dropWhile_idem_hd: "xs = [] \<or> \<not> P (hd xs) \<Longrightarrow> dropWhile P xs = xs"
  by (cases xs) auto

lemma dropWhile_rev_hd:
  assumes "ys = [] \<or> \<not> P (hd ys)"
  shows "rev (dropWhile P (rev ys)) = [] \<or> \<not> P (hd (rev (dropWhile P (rev ys))))"
proof (cases "dropWhile P (rev ys)")
  case Nil
  then show ?thesis by simp
next
  case (Cons a as)
  define zs where "zs = rev (dropWhile P (rev ys))"
  have "rev ys = takeWhile P (rev ys) @ dropWhile P (rev ys)" by simp
  then have "ys = zs @ rev (takeWhile P (rev ys))"
    unfolding zs_def by (metis rev_append rev_rev_ident)
  moreover have "zs \<noteq> []" using Cons by (simp add: zs_def)
  ultimately have "hd ys = hd zs" and "ys \<noteq> []" by (metis hd_append2, auto)
  with assms show ?thesis by (simp add: zs_def)
qed

lemma trim_idem [simp]: "trim (trim s) = trim s"
proof -
  let ?l = "dropWhile is_ws s"
  have l: "?l = [] \<or> \<not> is_ws (hd ?l)"
    by (metis hd_dropWhile)
  have "dropWhile is_ws (trim s) = trim s"
    unfolding trim_def by (rule dropWhile_idem_hd, rule dropWhile_rev_hd, rule l)
  then show ?thesis by (simp add: trim_def)
qed

function split_ws :: "string \<Rightarrow> string list" where
  "split_ws s =
     (let w = takeWhile (\<lambda>c. \<not> is_ws c) s; r = dropWhile (\<lambda>c. \<not> is_ws c) s
      in if r = [] then [w] else w # split_ws (dropWhile is_ws r))"
  by pat_completeness auto
termination
proof (relation "measure length", simp)
  fix w r and s :: string
  assume r: "r = dropWhile (\<lambda>c. \<not> is_ws c) s" and ne: "r \<noteq> []"
  then have "is_ws (hd r)" using hd_dropWhile [of "\<lambda>c. \<not> is_ws c" s] by simp
  with ne have "length (dropWhile is_ws r) < length r"
    by (cases r) (auto simp: less_Suc_eq_le length_dropWhile_le)
  also have "\<dots> \<le> length s" using r by (simp add: length_dropWhile_le)
  finally show "(dropWhile is_ws r, s) \<in> measure length" by simp
qed

declare split_ws.simps [simp del]

text \<open>\<open>s.split(/\s+/).filter(Boolean)\<close>.\<close>

definition ws_words :: "string \<Rightarrow> string list" where
  "ws_words s = filter (\<lambda>w. w \<noteq> []) (split_ws s)"

text \<open>\<open>toLowerCase\<close> on the code units below 256 (U+00D7 is the multiplication sign).\<close>

definition lower_char :: "char \<Rightarrow> char" where
  "lower_char c =
     (let n = (of_char c :: nat)
      in if (65 \<le> n \<and> n \<le> 90) \<or> (192 \<le> n \<and> n \<le> 222 \<and> n \<noteq> 215) then char_of (n + 32) else c)"

definition toLowerCase :: "string \<Rightarrow> string" where
  "toLowerCase s = map lower_char s"

text \<open>Decimal digits, \<open>Number\<close> of a digit string and \<open>String\<close> of an integer.\<close>

definition is_digit :: "char \<Rightarrow> bool" where
  "is_digit c = (let n = (of_char c :: nat) in 48 \<le> n \<and> n \<le> 57)"

definition digit_val :: "char \<Rightarrow> nat" where
  "digit_val c = (of_char c :: nat) - 48"

definition digits_val :: "string \<Rightarrow> nat" where
  "digits_val s = foldl (\<lambda>acc c. 10 * acc + digit_val c) 0 s"

fun show_nat :: "nat \<Rightarrow> string" where
  "show_nat n = (if n < 10 then [char_of (48 + n)] else show_nat (n div 10) @ [char_of (48 + n mod 10)])"

declare show_nat.simps [simp del]

definition show_int :: "int \<Rightarrow> string" where
  "show_int i = (if i < 0 then ''-'' @ show_nat (nat (- i)) else show_nat (nat i))"

lemma of_char_char_of_small: "n < 256 \<Longrightarrow> of_char (char_of n :: char) = (n :: nat)"
  by (simp add: of_char_of)

lemma digit_val_char_of: "d < 10 \<Longrightarrow> digit_val (char_of (48 + d)) = d"
  by (simp add: digit_val_def of_char_char_of_small)

lemma is_digit_char_of: "d < 10 \<Longrightarrow> is_digit (char_of (48 + d :: nat))"
  by (simp add: is_digit_def of_char_char_of_small)

lemma digits_val_snoc: "digits_val (s @ [c]) = 10 * digits_val s + digit_val c"
  by (simp add: digits_val_def)

lemma digits_val_show_nat: "digits_val (show_nat n) = n"
proof (induction n rule: show_nat.induct)
  case (1 n)
  show ?case
  proof (cases "n < 10")
    case True
    then show ?thesis
      by (simp add: show_nat.simps [of n] digits_val_def digit_val_char_of)
  next
    case False
    with 1 have "digits_val (show_nat (n div 10)) = n div 10" by simp
    moreover have "digit_val (char_of (48 + n mod 10)) = n mod 10"
      by (rule digit_val_char_of) simp
    ultimately show ?thesis
      using False by (simp add: show_nat.simps [of n] digits_val_snoc del: of_char_of)
  qed
qed

lemma show_nat_digits: "list_all is_digit (show_nat n)"
proof (induction n rule: show_nat.induct)
  case (1 n)
  have "is_digit (char_of (48 + n mod 10))" by (rule is_digit_char_of) simp
  with 1 show ?case
    by (simp add: show_nat.simps [of n] is_digit_char_of)
qed

lemma show_nat_nonempty [simp]: "show_nat n \<noteq> []"
  by (simp add: show_nat.simps [of n])

lemma show_nat_inj: "show_nat m = show_nat n \<longleftrightarrow> m = n"
  by (metis digits_val_show_nat)

section \<open>Duplicate removal\<close>

text \<open>\<open>[...new Set(xs)]\<close>: the first occurrence of each element, in order.\<close>

fun js_uniq :: "'a list \<Rightarrow> 'a list" where
  "js_uniq [] = []"
| "js_uniq (x # xs) = x # filter (\<lambda>y. y \<noteq> x) (js_uniq xs)"

lemma set_js_uniq [simp]: "set (js_uniq xs) = set xs"
  by (induction xs) auto

lemma distinct_js_uniq [simp]: "distinct (js_uniq xs)"
  by (induction xs) auto

lemma js_uniq_eq_Nil [simp]: "js_uniq xs = [] \<longleftrightarrow> xs = []"
  by (cases xs) simp_all

section \<open>Map objects\<close>

type_synonym ('k, 'v) jmap = "('k \<times> 'v) list"

definition jm_get :: "('k, 'v) jmap \<Rightarrow> 'k \<Rightarrow> 'v option" where
  "jm_get m k = map_of m k"

fun jm_set :: "'k \<Rightarrow> 'v \<Rightarrow> ('k, 'v) jmap \<Rightarrow> ('k, 'v) jmap" where
  "jm_set k v [] = [(k, v)]"
| "jm_set k v ((k', v') # m) = (if k' = k then (k, v) # m else (k', v') # jm_set k v m)"

definition jm_delete :: "'k \<Rightarrow> ('k, 'v) jmap \<Rightarrow> ('k, 'v) jmap" where
  "jm_delete k m = filter (\<lambda>e. fst e \<noteq> k) m"

definition jm_has :: "('k, 'v) jmap \<Rightarrow> 'k \<Rightarrow> bool" where
  "jm_has m k = (jm_get m k \<noteq> None)"

definition jm_wf :: "('k, 'v) jmap \<Rightarrow> bool" where
  "jm_wf m = distinct (map fst m)"

lemma jm_get_Nil [simp]: "jm_get [] k = None"
  by (simp add: jm_get_def)

lemma jm_get_Cons [simp]: "jm_get ((k', v) # m) k = (if k = k' then Some v else jm_get m k)"
  by (simp add: jm_get_def)

lemma jm_get_set [simp]: "jm_get (jm_set k v m) k' = (if k' = k then Some v else jm_get m k')"
  by (induction k v m rule: jm_set.induct) auto

lemma jm_get_filter:
  "jm_wf m \<Longrightarrow> jm_get (filter P m) k =
     (case jm_get m k of None \<Rightarrow> None | Some v \<Rightarrow> if P (k, v) then Some v else None)"
proof (induction m)
  case Nil
  then show ?case by simp
next
  case (Cons e m)
  obtain k' v' where e: "e = (k', v')" by (cases e)
  have "k' \<notin> fst ` set m" and wf: "jm_wf m"
    using Cons.prems by (simp_all add: jm_wf_def e)
  then have "jm_get m k' = None"
    by (simp add: jm_get_def map_of_eq_None_iff)
  with Cons.IH [OF wf] show ?case by (auto simp: e)
qed

lemma jm_get_delete [simp]: "jm_get (jm_delete k m) k' = (if k' = k then None else jm_get m k')"
  by (induction m) (auto simp: jm_delete_def)

lemma jm_set_keys: "fst ` set (jm_set k v m) = insert k (fst ` set m)"
  by (induction k v m rule: jm_set.induct) auto

lemma jm_wf_Nil [simp]: "jm_wf []"
  by (simp add: jm_wf_def)

lemma jm_wf_set [simp]: "jm_wf m \<Longrightarrow> jm_wf (jm_set k v m)"
proof (induction k v m rule: jm_set.induct)
  case (2 k v k' v' m)
  then have m: "distinct (map fst m)" and k': "k' \<notin> fst ` set m" by (simp_all add: jm_wf_def)
  then have "k' \<noteq> k \<Longrightarrow> k' \<notin> fst ` set (jm_set k v m)" by (simp only: jm_set_keys) simp
  with 2 m k' show ?case by (auto simp: jm_wf_def)
qed (simp add: jm_wf_def)

lemma jm_wf_filter [simp]: "jm_wf m \<Longrightarrow> jm_wf (filter P m)"
  by (induction m) (auto simp: jm_wf_def)

lemma jm_wf_delete [simp]: "jm_wf m \<Longrightarrow> jm_wf (jm_delete k m)"
  by (simp add: jm_delete_def)

lemma jm_set_absent: "jm_get m k = None \<Longrightarrow> jm_set k v m = m @ [(k, v)]"
  by (induction k v m rule: jm_set.induct) (auto split: if_splits)

lemma jm_get_None_iff: "jm_get m k = None \<longleftrightarrow> k \<notin> fst ` set m"
  by (simp add: jm_get_def map_of_eq_None_iff)

lemma jm_get_SomeD: "jm_get m k = Some v \<Longrightarrow> (k, v) \<in> set m"
  by (simp add: jm_get_def map_of_SomeD)

lemma jm_get_SomeI: "jm_wf m \<Longrightarrow> (k, v) \<in> set m \<Longrightarrow> jm_get m k = Some v"
  by (simp add: jm_get_def jm_wf_def)

lemma jm_delete_length_le: "length (jm_delete k m) \<le> length m"
  by (simp add: jm_delete_def)

lemma jm_set_length_le: "length (jm_set k v m) \<le> Suc (length m)"
  by (induction k v m rule: jm_set.induct) auto

text \<open>The interface the clients of a \<open>Map\<close> object rely on.\<close>

locale map_object =
  fixes get :: "'m \<Rightarrow> 'k \<Rightarrow> 'v option"
    and put :: "'k \<Rightarrow> 'v \<Rightarrow> 'm \<Rightarrow> 'm"
    and del :: "'k \<Rightarrow> 'm \<Rightarrow> 'm"
    and wf :: "'m \<Rightarrow> bool"
  assumes get_put: "get (put k v m) k' = (if k' = k then Some v else get m k')"
    and get_del: "get (del k m) k' = (if k' = k then None else get m k')"
    and wf_put: "wf m \<Longrightarrow> wf (put k v m)"
    and wf_del: "wf m \<Longrightarrow> wf (del k m)"
begin

lemma get_fold_del: "get (fold del ks m) k = (if k \<in> set ks then None else get m k)"
  by (induction ks arbitrary: m) (auto simp: get_del)

lemma wf_fold_del: "wf m \<Longrightarrow> wf (fold del ks m)"
  by (induction ks arbitrary: m) (auto simp: wf_del)

lemma get_put_other: "k' \<noteq> k \<Longrightarrow> get (put k v m) k' = get m k'"
  by (simp add: get_put)

lemma put_all_values:
  assumes "\<And>k' v'. get m k' = Some v' \<Longrightarrow> P k' v'" and "P k v"
  shows "get (put k v m) k' = Some v' \<Longrightarrow> P k' v'"
  using assms by (auto simp: get_put split: if_splits)

lemma del_all_values:
  assumes "\<And>k' v'. get m k' = Some v' \<Longrightarrow> P k' v'"
  shows "get (del k m) k' = Some v' \<Longrightarrow> P k' v'"
  using assms by (auto simp: get_del split: if_splits)

end

interpretation jm: map_object jm_get jm_set jm_delete jm_wf
  by unfold_locales simp_all

section \<open>Invariants of state machines\<close>

text \<open>
  A component is a start predicate and a step relation labelled with events. An invariant
  of the start states and of single steps holds along every run.
\<close>

inductive run :: "('s \<Rightarrow> 'e \<Rightarrow> 's \<Rightarrow> bool) \<Rightarrow> 's \<Rightarrow> 'e list \<Rightarrow> 's \<Rightarrow> bool" for step where
  run_nil: "run step s [] s"
| run_cons: "step s e s' \<Longrightarrow> run step s' es s'' \<Longrightarrow> run step s (e # es) s''"

inductive_cases run_nilE [elim!]: "run step s [] s'"
inductive_cases run_consE [elim!]: "run step s (e # es) s'"

lemma run_append: "run step s (es @ fs) s'' \<longleftrightarrow> (\<exists>s'. run step s es s' \<and> run step s' fs s'')"
proof (induction es arbitrary: s)
  case Nil
  show ?case by (auto intro: run_nil)
next
  case (Cons e es)
  then show ?case unfolding append_Cons by (blast intro: run_cons)
qed

locale invariant_system =
  fixes start :: "'s \<Rightarrow> bool"
    and step :: "'s \<Rightarrow> 'e \<Rightarrow> 's \<Rightarrow> bool"
    and inv :: "'s \<Rightarrow> bool"
  assumes inv_start: "start s \<Longrightarrow> inv s"
    and inv_step: "step s e s' \<Longrightarrow> inv s \<Longrightarrow> inv s'"
begin

lemma inv_run: "run step s es s' \<Longrightarrow> inv s \<Longrightarrow> inv s'"
  by (induction rule: run.induct) (auto intro: inv_step)

lemma inv_reachable: "start s \<Longrightarrow> run step s es s' \<Longrightarrow> inv s'"
  by (blast intro: inv_start inv_run)

end

end
