(* ===== verification/Paths.thy ===== *)
theory Paths
  imports Prelude
begin

text \<open>
  POSIX path handling shared by the two policy engines: \<open>path.posix.normalize\<close> and
  \<open>path.resolve\<close> of the standard library, the normalisers of \<open>src/policy.ts\<close> and the
  segment-boundary prefix test. The central facts relate the string operations to lists of
  path segments: a normalised absolute path is \<open>/\<close> followed by segments none of which is
  empty, \<open>.\<close> or \<open>..\<close>, and the string test of \<open>isSegmentBoundaryPathMatch\<close> holds
  exactly when one segment list is a prefix of the other.
\<close>

section \<open>Normalisation by segments\<close>

text \<open>
  The loop of \<open>normalizeString\<close>: the stack holds the segments kept so far, last one first.
\<close>

fun norm_segs :: "bool \<Rightarrow> string list \<Rightarrow> string list \<Rightarrow> string list" where
  "norm_segs up st [] = rev st"
| "norm_segs up st (x # xs) =
     (if x = '''' \<or> x = ''.'' then norm_segs up st xs
      else if x = ''..'' then
        (case st of
           [] \<Rightarrow> norm_segs up (if up then [''..''] else []) xs
         | t # ts \<Rightarrow>
             if t = ''..'' then norm_segs up (if up then ''..'' # st else st) xs
             else norm_segs up ts xs)
      else norm_segs up (x # st) xs)"

definition posix_normalize :: "string \<Rightarrow> string" where
  "posix_normalize p =
     (if p = [] then ''.''
      else let isAbsolute = startsWith p ''/'';
               trailing = endsWith p ''/'';
               r = join ''/'' (norm_segs (\<not> isAbsolute) [] (split_on (CHR ''/'') p))
           in if r = [] then (if isAbsolute then ''/'' else if trailing then ''./'' else ''.'')
              else let r' = (if trailing then r @ ''/'' else r)
                   in if isAbsolute then ''/'' @ r' else r')"

text \<open>\<open>path.resolve(p)\<close> on a POSIX host whose working directory is \<open>cwd\<close> (absolute).\<close>

definition path_resolve :: "string \<Rightarrow> string \<Rightarrow> string" where
  "path_resolve cwd p =
     (let full = (if startsWith p ''/'' then p else if p = [] then cwd else cwd @ ''/'' @ p)
      in ''/'' @ join ''/'' (norm_segs False [] (split_on (CHR ''/'') full)))"

text \<open>\<open>path.parse(p).root\<close> on a POSIX host.\<close>

definition path_root :: "string \<Rightarrow> string" where
  "path_root p = (if startsWith p ''/'' then ''/'' else '''')"

section \<open>Segments\<close>

definition seg_ok :: "string \<Rightarrow> bool" where
  "seg_ok w = (w \<noteq> '''' \<and> w \<noteq> ''.'' \<and> w \<noteq> ''..'' \<and> CHR ''/'' \<notin> set w)"

lemma seg_okD: "seg_ok w \<Longrightarrow> CHR ''/'' \<notin> set w" "seg_ok w \<Longrightarrow> w \<noteq> []"
  by (simp_all add: seg_ok_def)

lemma norm_segs_absolute_ok:
  assumes "\<forall>w \<in> set xs. CHR ''/'' \<notin> set w" and "\<forall>w \<in> set st. seg_ok w"
  shows "\<forall>w \<in> set (norm_segs False st xs). seg_ok w"
  using assms
proof (induction xs arbitrary: st)
  case Nil
  then show ?case by simp
next
  case (Cons x xs)
  have IH: "\<forall>w \<in> set (norm_segs False st' xs). seg_ok w" if "\<forall>w \<in> set st'. seg_ok w" for st'
    using Cons.IH Cons.prems(1) that by simp
  consider "x = '''' \<or> x = ''.''" | "x = ''..''" | "seg_ok x"
    using Cons.prems(1) by (auto simp: seg_ok_def)
  then show ?case
  proof cases
    case 1
    with IH [OF Cons.prems(2)] show ?thesis by auto
  next
    case 2
    show ?thesis
    proof (cases st)
      case Nil
      with 2 IH [of "[]"] show ?thesis by simp
    next
      case (Cons t ts)
      then have "t \<noteq> ''..''" using Cons.prems(2) by (auto simp: seg_ok_def)
      with 2 Cons IH [of ts] Cons.prems(2) show ?thesis by simp
    qed
  next
    case 3
    then have eq: "norm_segs False st (x # xs) = norm_segs False (x # st) xs"
      by (simp add: seg_ok_def)
    have "\<forall>w \<in> set (x # st). seg_ok w" using 3 Cons.prems(2) by simp
    then show ?thesis unfolding eq by (rule IH)
  qed
qed

lemma norm_segs_fixpoint:
  "\<forall>w \<in> set xs. seg_ok w \<Longrightarrow> norm_segs up st xs = rev st @ xs"
proof (induction xs arbitrary: st)
  case (Cons x xs)
  then have eq: "norm_segs up st (x # xs) = norm_segs up (x # st) xs"
    by (simp add: seg_ok_def)
  from Cons have "norm_segs up (x # st) xs = rev (x # st) @ xs" by simp
  then show ?case unfolding eq by simp
qed simp

text \<open>The segments that a path denotes once it is read as an absolute POSIX path.\<close>

definition abs_segs :: "string \<Rightarrow> string list" where
  "abs_segs p = norm_segs False [] (split_on (CHR ''/'') p)"

lemma abs_segs_ok: "w \<in> set (abs_segs p) \<Longrightarrow> seg_ok w"
  unfolding abs_segs_def
  using norm_segs_absolute_ok [of "split_on (CHR ''/'') p" "[]"] split_on_no_sep by fastforce

lemma norm_segs_subset: "set (norm_segs False st xs) \<subseteq> set st \<union> set xs"
proof (induction xs arbitrary: st)
  case (Cons x xs)
  have "set (norm_segs False st' xs) \<subseteq> set st \<union> set (x # xs)" if "set st' \<subseteq> insert x (set st)" for st'
    using Cons.IH [of st'] that by auto
  from this [of st] this [of "[]"] this [of "tl st"] this [of "x # st"] show ?case
    by (cases st) (simp_all split: if_splits, auto)
qed simp

lemma abs_segs_chars: "w \<in> set (abs_segs p) \<Longrightarrow> set w \<subseteq> set p"
  using norm_segs_subset [of "[]" "split_on (CHR ''/'') p"] split_on_chars
  by (fastforce simp: abs_segs_def)

lemma abs_segs_Cons_slash: "abs_segs (CHR ''/'' # p) = abs_segs p"
  by (simp add: abs_segs_def)

lemma join_slash_eq_Nil: "\<forall>w \<in> set ws. seg_ok w \<Longrightarrow> join ''/'' ws = [] \<longleftrightarrow> ws = []"
  by (cases ws rule: join.cases [of "(''/'', ws)" for ws, simplified]) (auto dest: seg_okD)

text \<open>The string that stands for a list of segments, as the normalisers print it.\<close>

definition render_abs :: "string list \<Rightarrow> string" where
  "render_abs ws = ''/'' @ join ''/'' ws"

lemma notin_render_abs:
  "c \<noteq> CHR ''/'' \<Longrightarrow> (\<And>w. w \<in> set ws \<Longrightarrow> c \<notin> set w) \<Longrightarrow> c \<notin> set (render_abs ws)"
  using set_join_subset [of "''/''" ws] by (auto simp: render_abs_def dest: subsetD)

lemma abs_segs_render: "\<forall>w \<in> set ws. seg_ok w \<Longrightarrow> abs_segs (render_abs ws) = ws"
proof (cases "ws = []")
  case True
  then show ?thesis by (simp add: render_abs_def abs_segs_def)
next
  case False
  assume ok: "\<forall>w \<in> set ws. seg_ok w"
  then have "split_on (CHR ''/'') (join ''/'' ws) = ws"
    using False by (intro split_on_join) (auto dest: seg_okD)
  with ok show ?thesis
    by (simp add: render_abs_def abs_segs_Cons_slash) (simp add: abs_segs_def norm_segs_fixpoint)
qed

lemma render_abs_inj:
  assumes "\<forall>w \<in> set ws. seg_ok w" and "\<forall>w \<in> set vs. seg_ok w"
  shows "render_abs ws = render_abs vs \<longleftrightarrow> ws = vs"
  using abs_segs_render assms by metis

lemma join_append:
  "ws \<noteq> [] \<Longrightarrow> vs \<noteq> [] \<Longrightarrow> join sep (ws @ vs) = join sep ws @ sep @ join sep vs"
proof (induction ws)
  case (Cons w ws)
  then show ?case by (cases ws; cases vs) auto
qed simp

lemma split_on_join_append:
  "ws \<noteq> [] \<Longrightarrow> (\<forall>w \<in> set ws. c \<notin> set w) \<Longrightarrow>
     split_on c (join [c] ws @ c # r) = ws @ split_on c r"
proof (induction ws)
  case (Cons w ws)
  then show ?case by (cases ws) (auto simp: split_on_append)
qed simp

section \<open>The segment-boundary test\<close>

definition isSegmentBoundaryPathMatch :: "string \<Rightarrow> string \<Rightarrow> string \<Rightarrow> bool" where
  "isSegmentBoundaryPathMatch candidate pre separator =
     (candidate = pre \<or> startsWith candidate (pre @ separator))"

lemma segment_match_iff:
  assumes xs: "\<forall>w \<in> set xs. seg_ok w" and ys: "\<forall>w \<in> set ys. seg_ok w" and ne: "ys \<noteq> []"
  shows "isSegmentBoundaryPathMatch (render_abs xs) (render_abs ys) ''/'' \<longleftrightarrow> prefix ys xs"
proof
  assume "isSegmentBoundaryPathMatch (render_abs xs) (render_abs ys) ''/''"
  then consider "render_abs xs = render_abs ys"
    | r where "join ''/'' xs = join ''/'' ys @ CHR ''/'' # r"
    by (auto simp: isSegmentBoundaryPathMatch_def startsWith_def render_abs_def elim!: prefixE)
  then show "prefix ys xs"
  proof cases
    case 1
    then have "ys = xs" using render_abs_inj [OF xs ys] by simp
    then show ?thesis by simp
  next
    case 2
    have "xs \<noteq> []"
    proof
      assume "xs = []"
      with 2 show False by simp
    qed
    then have "xs = split_on (CHR ''/'') (join ''/'' xs)"
      using xs by (subst split_on_join) (auto dest: seg_okD)
    also have "\<dots> = ys @ split_on (CHR ''/'') r"
      unfolding 2 using ys ne by (intro split_on_join_append) (auto dest: seg_okD)
    finally show ?thesis by (rule prefixI)
  qed
next
  assume "prefix ys xs"
  then obtain zs where zs: "xs = ys @ zs" by (elim prefixE)
  show "isSegmentBoundaryPathMatch (render_abs xs) (render_abs ys) ''/''"
  proof (cases "zs = []")
    case True
    with zs show ?thesis by (simp add: isSegmentBoundaryPathMatch_def)
  next
    case False
    then have "render_abs xs = (render_abs ys @ ''/'') @ join ''/'' zs"
      using zs ne by (simp add: render_abs_def join_append)
    then show ?thesis
      unfolding isSegmentBoundaryPathMatch_def startsWith_def by (metis prefixI)
  qed
qed

section \<open>Trailing separators\<close>

definition slice_end :: "string \<Rightarrow> nat \<Rightarrow> string" where
  "slice_end s n = (if n = 0 then [] else take (length s - n) s)"

function stripTrailingSeparators :: "string \<Rightarrow> string \<Rightarrow> string \<Rightarrow> string" where
  "stripTrailingSeparators value separator root =
     (if length root < length value \<and> endsWith value separator
      then stripTrailingSeparators (slice_end value (length separator)) separator root
      else value)"
  by pat_completeness auto
termination
  by (relation "measure (\<lambda>(value, separator, root). length value)") (auto simp: slice_end_def intro!: diff_less)

declare stripTrailingSeparators.simps [simp del]

lemma strip_no_trailing:
  "\<not> endsWith value separator \<or> length value \<le> length root \<Longrightarrow>
     stripTrailingSeparators value separator root = value"
  by (subst stripTrailingSeparators.simps) auto

lemma strip_slash_snoc:
  "s \<noteq> [] \<Longrightarrow> stripTrailingSeparators (s @ ''/'') ''/'' ''/'' = stripTrailingSeparators s ''/'' ''/''"
  by (subst stripTrailingSeparators.simps)
     (simp add: endsWith_def slice_end_def Suc_lessI length_greater_0_conv)

lemma last_join_slash:
  assumes "ws \<noteq> []" and "\<forall>w \<in> set ws. seg_ok w"
  shows "join ''/'' ws \<noteq> [] \<and> last (join ''/'' ws) \<noteq> CHR ''/''"
  using assms
proof (induction ws)
  case (Cons w ws)
  from Cons.prems have "seg_ok w" by simp
  then have w: "w \<noteq> []" "last w \<noteq> CHR ''/''"
    by (rule seg_okD) (metis \<open>seg_ok w\<close> last_in_set seg_okD)
  show ?case
  proof (cases ws)
    case Nil
    with w show ?thesis by simp
  next
    case ws: (Cons v vs)
    then have "join ''/'' ws \<noteq> [] \<and> last (join ''/'' ws) \<noteq> CHR ''/''"
      using Cons.IH Cons.prems(2) by simp
    then show ?thesis unfolding ws by simp
  qed
qed simp

lemma suffix_slash_iff: "suffix ''/'' s \<longleftrightarrow> s \<noteq> [] \<and> last s = CHR ''/''"
  by (cases s rule: rev_cases) (auto simp: suffix_def)

lemma strip_render_abs:
  "\<forall>w \<in> set ws. seg_ok w \<Longrightarrow>
     stripTrailingSeparators (render_abs ws) ''/'' ''/'' = render_abs ws"
proof (cases "ws = []")
  case True
  then show ?thesis by (simp add: render_abs_def strip_no_trailing)
next
  case False
  assume "\<forall>w \<in> set ws. seg_ok w"
  then have "\<not> endsWith (render_abs ws) ''/''"
    using last_join_slash [OF False] by (simp add: endsWith_def suffix_slash_iff render_abs_def)
  then show ?thesis by (simp add: strip_no_trailing)
qed

section \<open>Normalisation of absolute paths\<close>

lemma posix_normalize_absolute:
  assumes "startsWith p ''/''"
  shows "posix_normalize p =
     (if abs_segs p = [] then ''/''
      else if endsWith p ''/'' then render_abs (abs_segs p) @ ''/'' else render_abs (abs_segs p))"
proof -
  have "p \<noteq> []" using assms by (auto simp: startsWith_def)
  moreover have "join ''/'' (abs_segs p) = [] \<longleftrightarrow> abs_segs p = []"
    by (rule join_slash_eq_Nil) (auto intro: abs_segs_ok)
  ultimately show ?thesis
    using assms by (simp add: posix_normalize_def Let_def render_abs_def abs_segs_def)
qed

lemma strip_posix_normalize:
  assumes "startsWith p ''/''"
  shows "stripTrailingSeparators (posix_normalize p) ''/'' ''/'' = render_abs (abs_segs p)"
proof -
  have ok: "\<forall>w \<in> set (abs_segs p). seg_ok w" by (auto intro: abs_segs_ok)
  have ne: "render_abs (abs_segs p) \<noteq> []" by (simp add: render_abs_def)
  show ?thesis
  proof (cases "abs_segs p = []")
    case True
    then have "posix_normalize p = render_abs (abs_segs p)"
      using assms by (simp add: posix_normalize_absolute render_abs_def)
    then show ?thesis using strip_render_abs [OF ok] by simp
  next
    case False
    then show ?thesis
      using assms strip_render_abs [OF ok] strip_slash_snoc [OF ne]
      by (simp add: posix_normalize_absolute)
  qed
qed

lemma path_resolve_render:
  "path_resolve cwd p =
     render_abs (abs_segs (if startsWith p ''/'' then p else if p = [] then cwd else cwd @ ''/'' @ p))"
  by (simp add: path_resolve_def render_abs_def abs_segs_def Let_def)

text \<open>The segments of a path of a remote host: a backslash counts as a separator.\<close>

definition remote_segs :: "string \<Rightarrow> string list" where
  "remote_segs p = abs_segs (replace_all (CHR 0x5C) ''/'' p)"

lemma remote_segs_ok: "\<forall>w \<in> set (remote_segs p). seg_ok w"
  by (auto simp: remote_segs_def intro: abs_segs_ok)

end
