(* ===== verification/Errors.thy ===== *)
theory Errors
  imports Prelude
begin

text \<open>
  The structured errors of \<open>src/types.ts\<close> (\<open>ErrorCode\<close>, \<open>SSHMCPError\<close>) and the
  constructors of \<open>src/errors.ts\<close>. A value thrown in JavaScript is an \<open>SSHMCPError\<close>,
  another \<open>Error\<close> (with its message) or something else (with its \<open>String(...)\<close> form).
\<close>

datatype ErrorCode =
  EAUTH | ECONN | ETIMEOUT | ENOSUDO | EPMGR | EFS | EPATCH | EBADREQ | EPOLICY | EHOSTKEY
| ELIMIT | EUNSUPPORTED

record SSHMCPError =
  err_code :: ErrorCode
  err_message :: string
  err_hint :: "string option"
  userFriendlyMessage :: "string option"
  recoverable :: bool
  suggestedAction :: "string option"

datatype thrown = ThrownSSHMCP SSHMCPError | ThrownError string | ThrownOther string

definition new_SSHMCPError ::
  "ErrorCode \<Rightarrow> string \<Rightarrow> string option \<Rightarrow> string \<Rightarrow> bool \<Rightarrow> string \<Rightarrow> SSHMCPError" where
  "new_SSHMCPError c m h u r a =
     \<lparr>err_code = c, err_message = m, err_hint = h, userFriendlyMessage = Some u,
      recoverable = r, suggestedAction = Some a\<rparr>"

definition createAuthError :: "string \<Rightarrow> string option \<Rightarrow> SSHMCPError" where
  "createAuthError message hint = new_SSHMCPError EAUTH message hint
     ''SSH authentication failed. Please check your credentials or SSH key.'' True
     ''Use ssh_open_session with different auth method (password, key, or agent)''"

definition createConnectionError :: "string \<Rightarrow> string option \<Rightarrow> SSHMCPError" where
  "createConnectionError message hint = new_SSHMCPError ECONN message hint
     ''Unable to connect to the SSH server. The server may be down or unreachable.'' True
     ''Check network connectivity and verify host/port are correct''"

definition createTimeoutError :: "string \<Rightarrow> string option \<Rightarrow> SSHMCPError" where
  "createTimeoutError message hint = new_SSHMCPError ETIMEOUT message hint
     ''The operation timed out. The server may be slow or unresponsive.'' True
     ''Try increasing timeout or check server load''"

definition createSudoError :: "string \<Rightarrow> string option \<Rightarrow> SSHMCPError" where
  "createSudoError message hint = new_SSHMCPError ENOSUDO message hint
     ''Root/sudo privileges are required but not available.'' True
     ''Configure a restricted NOPASSWD sudoers profile for approved commands''"

definition createPackageManagerError :: "string \<Rightarrow> string option \<Rightarrow> SSHMCPError" where
  "createPackageManagerError message hint = new_SSHMCPError EPMGR message hint
     ''Package manager operation failed. Check if the package name is correct.'' True
     ''Verify package name and try ensure_package with correct packageName''"

definition createFilesystemError :: "string \<Rightarrow> string option \<Rightarrow> SSHMCPError" where
  "createFilesystemError message hint = new_SSHMCPError EFS message hint
     ''File system operation failed. Check path and permissions.'' True
     ''Verify the path exists and you have proper permissions''"

definition createPatchError :: "string \<Rightarrow> string option \<Rightarrow> SSHMCPError" where
  "createPatchError message hint = new_SSHMCPError EPATCH message hint
     ''Failed to apply text patch. The file content may have changed.'' True
     ''Re-read the file with fs_read and try again with updated content''"

definition createBadRequestError :: "string \<Rightarrow> string option \<Rightarrow> SSHMCPError" where
  "createBadRequestError message hint = new_SSHMCPError EBADREQ message hint
     ''Invalid request parameters.'' False
     ''Check the parameter format and values''"

definition createPolicyError :: "string \<Rightarrow> string option \<Rightarrow> SSHMCPError" where
  "createPolicyError message hint = new_SSHMCPError EPOLICY message hint
     ''The operation was denied by the configured safety policy.'' False
     ''Review the policy or run the request in explain mode before changing guardrails''"

definition createHostKeyError :: "string \<Rightarrow> string option \<Rightarrow> SSHMCPError" where
  "createHostKeyError message hint = new_SSHMCPError EHOSTKEY message hint
     ''SSH host key verification failed.'' True
     ''Verify known_hosts or expectedHostKeySha256 before reconnecting''"

definition createLimitError :: "string \<Rightarrow> string option \<Rightarrow> SSHMCPError" where
  "createLimitError message hint = new_SSHMCPError ELIMIT message hint
     ''The operation exceeded a configured safety limit.'' False
     ''Use a smaller request, transfer the file, or raise the configured limit intentionally''"

definition createUnsupportedError :: "string \<Rightarrow> string option \<Rightarrow> SSHMCPError" where
  "createUnsupportedError message hint = new_SSHMCPError EUNSUPPORTED message hint
     ''The requested operation is not supported for this host or transport.'' False
     ''Use a supported tool for this platform or check the capability resource''"

definition thrown_message :: "thrown \<Rightarrow> string" where
  "thrown_message t =
     (case t of ThrownSSHMCP e \<Rightarrow> err_message e | ThrownError m \<Rightarrow> m | ThrownOther s \<Rightarrow> s)"

definition wrapError :: "thrown \<Rightarrow> ErrorCode \<Rightarrow> string option \<Rightarrow> SSHMCPError" where
  "wrapError error c hint =
     (case error of
        ThrownSSHMCP e \<Rightarrow> e
      | _ \<Rightarrow> new_SSHMCPError c (thrown_message error) hint
              ''An unexpected error occurred.'' True
              ''Try the operation again or check server status'')"

lemmas error_constructors =
  createAuthError_def createConnectionError_def createTimeoutError_def createSudoError_def
  createPackageManagerError_def createFilesystemError_def createPatchError_def
  createBadRequestError_def createPolicyError_def createHostKeyError_def createLimitError_def
  createUnsupportedError_def new_SSHMCPError_def

lemma wrapError_message: "err_message (wrapError t c h) = thrown_message t"
  by (cases t) (simp_all add: wrapError_def thrown_message_def new_SSHMCPError_def)

lemma wrapError_idem: "wrapError (ThrownSSHMCP (wrapError t c h)) c' h' = wrapError t c h"
  by (simp add: wrapError_def)

end
