(* ===== verification/Safety.thy ===== *)
theory Safety
  imports Prelude
begin

text \<open>
  The command safety check of \<open>src/safety.ts\<close>. Its regular expressions are written in
  the datatype \<open>rx\<close>, which has the constructs the sixteen patterns use; they all carry the
  flag \<open>i\<close>. \<open>rx_suffixes\<close> is the executable matcher (every way a pattern can match a
  prefix), \<open>rx_match\<close> the declarative meaning of a pattern, and \<open>rx_suffixes_iff\<close> and
  \<open>rx_test_iff\<close> say that they agree.
\<close>

section \<open>Regular expressions\<close>

datatype cclass = CChar char | CSpace | CAny | CRange char char

datatype rx =
  REps | RCls cclass | RSeq rx rx | RAlt rx rx | RStar cclass | REnd

text \<open>The flag \<open>i\<close> identifies the two cases of an ASCII letter.\<close>

definition fold_case :: "char \<Rightarrow> char" where
  "fold_case c = (let n = (of_char c :: nat) in if 65 \<le> n \<and> n \<le> 90 then char_of (n + 32) else c)"

fun cc_match :: "cclass \<Rightarrow> char \<Rightarrow> bool" where
  "cc_match (CChar a) c = (fold_case a = fold_case c)"
| "cc_match CSpace c = is_ws c"
| "cc_match CAny c = (c \<noteq> CHR 0x0A \<and> c \<noteq> CHR 0x0D)"
| "cc_match (CRange a b) c = (fold_case a \<le> fold_case c \<and> fold_case c \<le> fold_case b)"

fun star_suffixes :: "cclass \<Rightarrow> string \<Rightarrow> string list" where
  "star_suffixes k [] = [[]]"
| "star_suffixes k (c # s) = (c # s) # (if cc_match k c then star_suffixes k s else [])"

fun rx_suffixes :: "rx \<Rightarrow> string \<Rightarrow> string list" where
  "rx_suffixes REps s = [s]"
| "rx_suffixes (RCls k) [] = []"
| "rx_suffixes (RCls k) (c # s) = (if cc_match k c then [s] else [])"
| "rx_suffixes (RSeq r q) s = concat (map (rx_suffixes q) (rx_suffixes r s))"
| "rx_suffixes (RAlt r q) s = rx_suffixes r s @ rx_suffixes q s"
| "rx_suffixes (RStar k) s = star_suffixes k s"
| "rx_suffixes REnd s = (if s = [] then [[]] else [])"

text \<open>\<open>pattern.test(s)\<close>: a match may start anywhere.\<close>

fun rx_test :: "rx \<Rightarrow> string \<Rightarrow> bool" where
  "rx_test r [] = (rx_suffixes r [] \<noteq> [])"
| "rx_test r (c # s) = (rx_suffixes r (c # s) \<noteq> [] \<or> rx_test r s)"

text \<open>The declarative meaning: \<open>rx_match r s t\<close> if \<open>r\<close> can consume \<open>s\<close> up to \<open>t\<close>.\<close>

inductive rx_match :: "rx \<Rightarrow> string \<Rightarrow> string \<Rightarrow> bool" where
  m_eps: "rx_match REps s s"
| m_cls: "cc_match k c \<Longrightarrow> rx_match (RCls k) (c # s) s"
| m_seq: "rx_match r s t \<Longrightarrow> rx_match q t u \<Longrightarrow> rx_match (RSeq r q) s u"
| m_altl: "rx_match r s t \<Longrightarrow> rx_match (RAlt r q) s t"
| m_altr: "rx_match q s t \<Longrightarrow> rx_match (RAlt r q) s t"
| m_star0: "rx_match (RStar k) s s"
| m_star1: "cc_match k c \<Longrightarrow> rx_match (RStar k) s t \<Longrightarrow> rx_match (RStar k) (c # s) t"
| m_end: "rx_match REnd [] []"

inductive_simps rx_match_simps:
  "rx_match REps s t"
  "rx_match (RCls k) s t"
  "rx_match (RSeq r q) s t"
  "rx_match (RAlt r q) s t"
  "rx_match REnd s t"

lemma star_suffixes_iff: "t \<in> set (star_suffixes k s) \<longleftrightarrow> rx_match (RStar k) s t"
proof
  show "t \<in> set (star_suffixes k s) \<Longrightarrow> rx_match (RStar k) s t"
    by (induction k s rule: star_suffixes.induct)
       (auto intro: rx_match.intros split: if_splits)
next
  assume "rx_match (RStar k) s t"
  then show "t \<in> set (star_suffixes k s)"
  proof (induction "RStar k" s t rule: rx_match.induct)
    case (m_star0 s)
    then show ?case by (cases s) auto
  qed simp
qed

lemma rx_suffixes_iff: "t \<in> set (rx_suffixes r s) \<longleftrightarrow> rx_match r s t"
proof (induction r arbitrary: s t)
  case (RCls k)
  then show ?case by (cases s) (auto simp: rx_match_simps)
next
  case (RStar k)
  then show ?case by (simp add: star_suffixes_iff)
qed (auto simp: rx_match_simps)

lemma rx_test_iff: "rx_test r s \<longleftrightarrow> (\<exists>a b t. s = a @ b \<and> rx_match r b t)"
proof (induction s)
  case Nil
  have "rx_suffixes r [] \<noteq> [] \<longleftrightarrow> (\<exists>t. t \<in> set (rx_suffixes r []))"
    by (metis empty_iff empty_set last_in_set)
  then show ?case by (simp add: rx_suffixes_iff)
next
  case (Cons c s)
  have "rx_suffixes r (c # s) \<noteq> [] \<longleftrightarrow> (\<exists>t. rx_match r (c # s) t)"
    by (metis rx_suffixes_iff empty_iff empty_set last_in_set)
  moreover have "(\<exists>a b t. c # s = a @ b \<and> rx_match r b t) \<longleftrightarrow>
      (\<exists>t. rx_match r (c # s) t) \<or> (\<exists>a b t. s = a @ b \<and> rx_match r b t)"
    by (metis Cons_eq_append_conv)
  ultimately show ?case using Cons.IH by simp
qed

section \<open>Writing the patterns\<close>

definition rlit :: "string \<Rightarrow> rx" where
  "rlit s = foldr (\<lambda>c r. RSeq (RCls (CChar c)) r) s REps"

definition rseq :: "rx list \<Rightarrow> rx" where
  "rseq rs = foldr RSeq rs REps"

fun ralt :: "rx list \<Rightarrow> rx" where
  "ralt [] = REps"
| "ralt [r] = r"
| "ralt (r # q # rs) = RAlt r (ralt (q # rs))"

definition ropt :: "rx \<Rightarrow> rx" where
  "ropt r = RAlt r REps"

definition rplus :: "cclass \<Rightarrow> rx" where
  "rplus k = RSeq (RCls k) (RStar k)"

lemmas rx_notation = rlit_def rseq_def ropt_def rplus_def

datatype riskLevel = Low | Medium | High | Critical

record dangerous_pattern =
  pattern :: rx
  dp_riskLevel :: riskLevel
  dp_warning :: string
  dp_suggestion :: "string option"

definition dangerous :: "rx list \<Rightarrow> riskLevel \<Rightarrow> string \<Rightarrow> string \<Rightarrow> dangerous_pattern" where
  "dangerous rs l w s =
     \<lparr>pattern = rseq rs, dp_riskLevel = l, dp_warning = w, dp_suggestion = Some s\<rparr>"

text \<open>The group \<open>(-rf?|--recursive)\<close> of the three \<open>rm\<close> patterns.\<close>

definition rm_flags :: rx where
  "rm_flags = ralt [rseq [rlit ''-r'', ropt (rlit ''f'')], rlit ''--recursive'']"

definition DANGEROUS_PATTERNS :: "dangerous_pattern list" where
  "DANGEROUS_PATTERNS =
    [dangerous [rlit ''rm'', rplus CSpace, rm_flags, rplus CSpace, rlit ''/'', RStar CSpace, REnd]
       Critical ''This command will delete the entire root filesystem!''
       ''Double-check the path before executing'',
     dangerous [rlit ''rm'', rplus CSpace, rm_flags, rplus CSpace, rlit ''/*'', RStar CSpace, REnd]
       Critical ''This command will delete all files in the root directory!''
       ''Double-check the path before executing'',
     dangerous [rlit ''mkfs.'']
       Critical ''This command will format a filesystem, causing data loss!''
       ''Verify the target device carefully'',
     dangerous [rlit ''dd'', rplus CSpace, RStar CAny, rlit ''of=/dev/'',
                ralt [rlit ''sd'', rlit ''hd'', rlit ''nvme'', rlit ''vd'']]
       Critical ''This command writes directly to a disk device!''
       ''Verify input and output devices before executing'',
     dangerous [rlit ''chmod'', rplus CSpace, ropt (rseq [rlit ''-R'', rplus CSpace]), rlit ''777'',
                rplus CSpace, rlit ''/'']
       High ''Setting 777 permissions on root is a security risk!''
       ''Use more restrictive permissions'',
     dangerous [rlit ''chown'', rplus CSpace, rlit ''-R'', rplus CSpace, RStar CAny, rplus CSpace,
                rlit ''/'', RStar CSpace, REnd]
       High ''Changing ownership of root directory recursively!''
       ''Verify the target path'',
     dangerous [rlit '':(){'', RStar CSpace, rlit '':|:&'', RStar CSpace, rlit ''};'', RStar CSpace,
                rlit '':'']
       Critical ''Fork bomb detected! This will crash the system!''
       ''Do not execute this command'',
     dangerous [rlit ''>'', RStar CSpace, rlit ''/dev/sd'', RCls (CRange (CHR ''a'') (CHR ''z'')), REnd]
       Critical ''Writing directly to disk device!''
       ''Verify the target device'',
     dangerous [ralt [rlit ''shutdown'', rlit ''reboot'',
                      rseq [rlit ''init'', rplus CSpace, RCls (CRange (CHR ''0'') (CHR ''6''))],
                      rlit ''poweroff'']]
       Medium ''This command will shutdown or reboot the system''
       ''Ensure you have physical or out-of-band access'',
     dangerous [rlit ''systemctl'', rplus CSpace, ralt [rlit ''stop'', rlit ''disable''],
                rplus CSpace, ralt [rlit ''sshd'', rlit ''ssh'', rlit ''networking'', rlit ''network'']]
       High ''Stopping this service may disconnect your SSH session!''
       ''Have alternative access method ready'',
     dangerous [rlit ''iptables'', rplus CSpace, rlit ''-F'']
       Medium ''Flushing firewall rules may expose the system''
       ''Have a backup of current rules'',
     dangerous [rlit ''ufw'', rplus CSpace, rlit ''disable'']
       Medium ''Disabling firewall will expose all ports''
       ''Consider using specific allow rules instead'',
     dangerous [rlit ''rm'', rplus CSpace, rm_flags, rplus CSpace, rlit ''.'', RStar CSpace, REnd]
       Low ''This will delete the current directory recursively''
       ''Verify you are in the correct directory'',
     dangerous [rlit ''>'', RStar CSpace, rlit ''/etc/'',
                ralt [rlit ''passwd'', rlit ''shadow'', rlit ''sudoers'']]
       High ''Overwriting critical system file!''
       ''Use proper editing tools like visudo'',
     dangerous [rlit ''curl'', rplus CSpace, RStar CAny, rlit ''|'', RStar CSpace,
                ropt (rseq [rlit ''sudo'', rplus CSpace]), ralt [rlit ''bash'', rlit ''sh'']]
       Medium ''Piping remote script directly to shell''
       ''Review the script before executing'',
     dangerous [rlit ''wget'', rplus CSpace, RStar CAny, rlit ''|'', RStar CSpace,
                ropt (rseq [rlit ''sudo'', rplus CSpace]), ralt [rlit ''bash'', rlit ''sh'']]
       Medium ''Piping remote script directly to shell''
       ''Review the script before executing'']"

section \<open>The check\<close>

record SafetyCheckResult =
  safe :: bool
  warning :: "string option"
  riskLevel :: "riskLevel option"
  suggestion :: "string option"

definition safe_result :: SafetyCheckResult where
  "safe_result = \<lparr>safe = True, warning = None, riskLevel = None, suggestion = None\<rparr>"

definition unsafe_result :: "dangerous_pattern \<Rightarrow> SafetyCheckResult" where
  "unsafe_result d =
     \<lparr>safe = False, warning = Some (dp_warning d), riskLevel = Some (dp_riskLevel d),
      suggestion = (if truthy (dp_suggestion d) then dp_suggestion d else None)\<rparr>"

text \<open>The loop over the table returns at the first pattern that matches.\<close>

fun first_danger :: "dangerous_pattern list \<Rightarrow> string \<Rightarrow> SafetyCheckResult" where
  "first_danger [] s = safe_result"
| "first_danger (d # ds) s = (if rx_test (pattern d) s then unsafe_result d else first_danger ds s)"

definition checkCommandSafety :: "string \<Rightarrow> SafetyCheckResult" where
  "checkCommandSafety command =
     (if command = [] then safe_result else first_danger DANGEROUS_PATTERNS (trim command))"

lemma unsafe_result_safe [simp]: "safe (unsafe_result d) = False"
  by (simp add: unsafe_result_def)

lemma safe_result_safe [simp]: "safe safe_result = True"
  by (simp add: safe_result_def)

lemma first_danger_unsafe_iff:
  "\<not> safe (first_danger ds s) \<longleftrightarrow> (\<exists>d \<in> set ds. rx_test (pattern d) s)"
  by (induction ds) auto

lemma first_danger_first:
  "first_danger (ds @ d # es) s = unsafe_result d"
  if "rx_test (pattern d) s" and "\<forall>e \<in> set ds. \<not> rx_test (pattern e) s"
  using that by (induction ds) auto

end
