(* ===== verification/Policy.thy ===== *)
theory Policy
  imports Paths Errors Safety
begin

text \<open>
  The policy engine of \<open>src/policy.ts\<close>: every tool that touches a host asks it first.
  \<open>evaluate\<close> is the source's chain of early returns, one definition per block; a block is
  a function into \<open>PolicyDecision option\<close>, \<open>Some\<close> being the early return.

  Two things are arguments of the model. \<open>rx\<close> is the regular-expression engine behind
  \<open>new RegExp(pattern)\<close>: \<open>None\<close> for a pattern it rejects, else the test function; the
  patterns come from the configuration, so nothing is assumed about it. \<open>env\<close> is the file
  system of the server host: its working directory and \<open>realpath\<close> (\<open>None\<close> when the call
  throws). The server host is a POSIX host: \<open>path.sep\<close> is \<open>/\<close>.

  The lemmas say what an allowed decision guarantees: the path of an allowed destructive
  operation lies under an allowed prefix and under no denied one, segment by segment, after
  normalisation; the command passed the deny list, the allow list and the safety check; and
  so on. \<open>assertAllowed\<close> throws exactly for a denial in enforce mode.
\<close>

section \<open>Data\<close>

datatype PolicyMode = Enforce | Explain

datatype PolicyAction =
  SshOpen | ProcExec | ProcSudo | FsRead | FsStat | FsList | FsWrite | FsRemove | FsMkdir | FsRename
| EnsurePackage | EnsureService | EnsureLines | PatchApply | TransferUpload | TransferDownload
| TransferLocalRead | TransferLocalWrite | TransferLocalCreate | TransferLocalOverwrite
| TunnelLocal | TunnelRemote

record PolicyConfig =
  cfg_mode :: PolicyMode
  allowRootLogin :: bool
  allowRawSudo :: bool
  allowDestructiveCommands :: bool
  allowDestructiveFs :: bool
  allowedHosts :: "string list"
  commandAllow :: "string list"
  commandDeny :: "string list"
  cfg_pathAllowPrefixes :: "string list"
  cfg_pathDenyPrefixes :: "string list"
  cfg_localPathAllowPrefixes :: "string list"
  cfg_localPathDenyPrefixes :: "string list"
  tunnelAllowBindHosts :: "string list"
  tunnelDenyBindHosts :: "string list"
  tunnelAllowRemoteHosts :: "string list"
  tunnelDenyRemoteHosts :: "string list"
  tunnelAllowPorts :: "string list"
  tunnelDenyPorts :: "string list"

record PolicyContext =
  ctx_action :: PolicyAction
  ctx_host :: "string option"
  ctx_username :: "string option"
  ctx_command :: "string option"
  ctx_path :: "string option"
  ctx_secondaryPath :: "string option"
  ctx_localBindHost :: "string option"
  ctx_localPort :: "int option"
  ctx_remoteHost :: "string option"
  ctx_remotePort :: "int option"
  ctx_mode :: "PolicyMode option"
  ctx_rawSudo :: bool
  ctx_destructive :: bool

record PolicyDecision =
  allowed :: bool
  dec_mode :: PolicyMode
  dec_action :: PolicyAction
  reason :: "string option"
  dec_hint :: "string option"
  dec_riskLevel :: "riskLevel option"

type_synonym regexp_engine = "string \<Rightarrow> (string \<Rightarrow> bool) option"

record local_env =
  env_cwd :: string
  env_realpath :: "string \<Rightarrow> string option"

record PolicyEngine =
  config :: PolicyConfig
  pathAllowPrefixes :: "string list"
  pathDenyPrefixes :: "string list"
  defaultPathAllowPrefixes :: "string list"
  localPathAllowPrefixes :: "string list"
  localPathDenyPrefixes :: "string list"

definition DEFAULT_ALLOWED_MUTATION_PREFIXES :: "string list" where
  "DEFAULT_ALLOWED_MUTATION_PREFIXES = [''/tmp'', ''/var/tmp'', ''/home'', ''/Users'']"

definition LOCAL_TRANSFER_ACTIONS :: "PolicyAction list" where
  "LOCAL_TRANSFER_ACTIONS =
     [TransferLocalRead, TransferLocalWrite, TransferLocalCreate, TransferLocalOverwrite]"

section \<open>Matching\<close>

definition matchesAny :: "regexp_engine \<Rightarrow> string \<Rightarrow> string list \<Rightarrow> bool" where
  "matchesAny rx value patterns =
     list_ex (\<lambda>p. case rx p of None \<Rightarrow> False | Some test \<Rightarrow> test value) patterns"

definition matchesPolicyValue :: "regexp_engine \<Rightarrow> string \<Rightarrow> string list \<Rightarrow> bool" where
  "matchesPolicyValue rx value policies = list_ex (\<lambda>p. p = value \<or> matchesAny rx value [p]) policies"

text \<open>A capture of \<open>\d{1,5}\<close>.\<close>

definition port_digits :: "string \<Rightarrow> bool" where
  "port_digits s = (1 \<le> length s \<and> length s \<le> 5 \<and> list_all is_digit s)"

definition parsePortRange :: "string \<Rightarrow> (nat \<times> nat) option" where
  "parsePortRange policy =
     (let check = (\<lambda>start end. if 65535 < end \<or> end < start then None else Some (start, end))
      in case split_on (CHR ''-'') (trim policy) of
           [a] \<Rightarrow> if port_digits a then check (digits_val a) (digits_val a) else None
         | [a, b] \<Rightarrow> if port_digits a \<and> port_digits b then check (digits_val a) (digits_val b) else None
         | _ \<Rightarrow> None)"

definition matchesPortPolicy :: "int \<Rightarrow> string list \<Rightarrow> bool" where
  "matchesPortPolicy port policies =
     list_ex (\<lambda>p. case parsePortRange p of
                     None \<Rightarrow> False
                   | Some (start, end) \<Rightarrow> int start \<le> port \<and> port \<le> int end) policies"

section \<open>Path normalisation\<close>

definition normalizeRemotePosixPath :: "string \<Rightarrow> string + string" where
  "normalizeRemotePosixPath pathValue =
     (if CHR 0x00 \<in> set pathValue then Inl ''Path contains NUL byte''
      else let unixSeparators = replace_all (CHR 0x5C) ''/'' pathValue;
               absolutePath = (if startsWith unixSeparators ''/'' then unixSeparators
                               else ''/'' @ unixSeparators);
               normalized = posix_normalize absolutePath
           in Inr (stripTrailingSeparators normalized ''/'' ''/''))"

definition normalizeLocalPolicyPath :: "local_env \<Rightarrow> string \<Rightarrow> string + string" where
  "normalizeLocalPolicyPath env pathValue =
     (if CHR 0x00 \<in> set pathValue then Inl ''Path contains NUL byte''
      else let absolutePath = path_resolve (env_cwd env) pathValue;
               normalized = posix_normalize absolutePath;
               real = or_else (env_realpath env normalized) normalized
           in Inr (stripTrailingSeparators real ''/'' (path_root real)))"

definition normalizePolicyPaths :: "string list \<Rightarrow> (string \<Rightarrow> string + string) \<Rightarrow> string + string list" where
  "normalizePolicyPaths paths normalizer = rbind (rmap normalizer paths) (\<lambda>ps. Inr (js_uniq ps))"

definition isPathUnder :: "string \<Rightarrow> string \<Rightarrow> string \<Rightarrow> bool" where
  "isPathUnder pathValue pre separator =
     (if pre = ''/'' \<or> pre = path_root pre then True
      else isSegmentBoundaryPathMatch pathValue pre separator)"

section \<open>The engine\<close>

definition new_PolicyEngine :: "local_env \<Rightarrow> PolicyConfig \<Rightarrow> string + PolicyEngine" where
  "new_PolicyEngine env cfg =
     rbind (normalizePolicyPaths (cfg_pathAllowPrefixes cfg) normalizeRemotePosixPath) (\<lambda>pa.
     rbind (normalizePolicyPaths (cfg_pathDenyPrefixes cfg) normalizeRemotePosixPath) (\<lambda>pd.
     rbind (normalizePolicyPaths DEFAULT_ALLOWED_MUTATION_PREFIXES normalizeRemotePosixPath) (\<lambda>da.
     rbind (normalizePolicyPaths (cfg_localPathAllowPrefixes cfg) (normalizeLocalPolicyPath env)) (\<lambda>la.
     rbind (normalizePolicyPaths (cfg_localPathDenyPrefixes cfg) (normalizeLocalPolicyPath env)) (\<lambda>ld.
       Inr \<lparr>config = cfg, pathAllowPrefixes = pa, pathDenyPrefixes = pd,
            defaultPathAllowPrefixes = da, localPathAllowPrefixes = la,
            localPathDenyPrefixes = ld\<rparr>)))))"

definition denied :: "PolicyMode \<Rightarrow> PolicyAction \<Rightarrow> string \<Rightarrow> string \<Rightarrow> riskLevel option \<Rightarrow> PolicyDecision" where
  "denied m a r h risk =
     \<lparr>allowed = False, dec_mode = m, dec_action = a, reason = Some r, dec_hint = Some h,
      dec_riskLevel = risk\<rparr>"

definition allowed_decision :: "PolicyMode \<Rightarrow> PolicyAction \<Rightarrow> PolicyDecision" where
  "allowed_decision m a =
     \<lparr>allowed = True, dec_mode = m, dec_action = a, reason = None, dec_hint = None,
      dec_riskLevel = None\<rparr>"

definition effective_mode :: "PolicyEngine \<Rightarrow> PolicyContext \<Rightarrow> PolicyMode" where
  "effective_mode eng ctx = or_else (ctx_mode ctx) (cfg_mode (config eng))"

definition check_host :: "regexp_engine \<Rightarrow> PolicyEngine \<Rightarrow> PolicyContext \<Rightarrow> PolicyDecision option" where
  "check_host rx eng ctx =
     (if truthy (ctx_host ctx) \<and> allowedHosts (config eng) \<noteq> [] then
        let host = or_else (ctx_host ctx) '''' in
        if list_ex (\<lambda>h. h = host \<or> matchesAny rx host [h]) (allowedHosts (config eng)) then None
        else Some (denied (effective_mode eng ctx) (ctx_action ctx)
               (''Host '' @ host @ '' is not allowed by policy'')
               ''Add the host to allowedHosts or use an SSH config alias that is allowed.'' None)
      else None)"

definition check_tunnel_host ::
  "regexp_engine \<Rightarrow> PolicyEngine \<Rightarrow> PolicyContext \<Rightarrow> string option \<Rightarrow> string \<Rightarrow> string \<Rightarrow> string list \<Rightarrow>
     string list \<Rightarrow> PolicyDecision option" where
  "check_tunnel_host rx eng ctx host what name deny allow =
     (if truthy host \<and> deny \<noteq> [] \<and> matchesPolicyValue rx (or_else host '''') deny then
        Some (denied (effective_mode eng ctx) (ctx_action ctx)
          (''Tunnel '' @ what @ '' host '' @ or_else host '''' @ '' is denied by policy'')
          (''Choose an allowed '' @ what @ '' host or adjust tunnelDeny'' @ name @ ''Hosts.'') None)
      else if truthy host \<and> allow \<noteq> [] \<and> \<not> matchesPolicyValue rx (or_else host '''') allow then
        Some (denied (effective_mode eng ctx) (ctx_action ctx)
          (''Tunnel '' @ what @ '' host '' @ or_else host '''' @ '' is outside allowed policy'')
          (''Choose an allowed '' @ what @ '' host or adjust tunnelAllow'' @ name @ ''Hosts.'') None)
      else None)"

fun check_tunnel_ports :: "PolicyEngine \<Rightarrow> PolicyContext \<Rightarrow> int list \<Rightarrow> PolicyDecision option" where
  "check_tunnel_ports eng ctx [] = None"
| "check_tunnel_ports eng ctx (port # ports) =
     (let cfg = config eng in
      if tunnelDenyPorts cfg \<noteq> [] \<and> matchesPortPolicy port (tunnelDenyPorts cfg) then
        Some (denied (effective_mode eng ctx) (ctx_action ctx)
          (''Tunnel port '' @ show_int port @ '' is denied by policy'')
          ''Choose a different port or adjust tunnelDenyPorts.'' None)
      else if tunnelAllowPorts cfg \<noteq> [] \<and> \<not> matchesPortPolicy port (tunnelAllowPorts cfg) then
        Some (denied (effective_mode eng ctx) (ctx_action ctx)
          (''Tunnel port '' @ show_int port @ '' is outside allowed policy'')
          ''Choose an allowed port or adjust tunnelAllowPorts.'' None)
      else check_tunnel_ports eng ctx ports)"

definition or_next :: "'a option \<Rightarrow> 'a option \<Rightarrow> 'a option" where
  "or_next x y = (case x of None \<Rightarrow> y | Some d \<Rightarrow> Some d)"

lemma or_next_None [simp]: "or_next x y = None \<longleftrightarrow> x = None \<and> y = None"
  by (simp add: or_next_def split: option.splits)

lemma or_next_simps [simp]: "or_next None y = y" "or_next (Some d) y = Some d"
  by (simp_all add: or_next_def)

definition context_ports :: "PolicyContext \<Rightarrow> int list" where
  "context_ports ctx = List.map_filter id [ctx_localPort ctx, ctx_remotePort ctx]"

definition check_tunnel :: "regexp_engine \<Rightarrow> PolicyEngine \<Rightarrow> PolicyContext \<Rightarrow> PolicyDecision option" where
  "check_tunnel rx eng ctx =
     (if ctx_action ctx = TunnelLocal \<or> ctx_action ctx = TunnelRemote then
        or_next (check_tunnel_host rx eng ctx (ctx_localBindHost ctx) ''bind'' ''Bind''
                   (tunnelDenyBindHosts (config eng)) (tunnelAllowBindHosts (config eng)))
        (or_next (check_tunnel_host rx eng ctx (ctx_remoteHost ctx) ''remote'' ''Remote''
                    (tunnelDenyRemoteHosts (config eng)) (tunnelAllowRemoteHosts (config eng)))
        (check_tunnel_ports eng ctx (context_ports ctx)))
      else None)"

definition check_root :: "PolicyEngine \<Rightarrow> PolicyContext \<Rightarrow> PolicyDecision option" where
  "check_root eng ctx =
     (if ctx_username ctx = Some ''root'' \<and> \<not> allowRootLogin (config eng) then
        Some (denied (effective_mode eng ctx) (ctx_action ctx)
          ''Root SSH login is disabled by policy''
          ''Connect as an unprivileged user and use approved ensure tools where possible.'' None)
      else None)"

definition check_raw_sudo :: "PolicyEngine \<Rightarrow> PolicyContext \<Rightarrow> PolicyDecision option" where
  "check_raw_sudo eng ctx =
     (if ctx_rawSudo ctx \<and> \<not> allowRawSudo (config eng) then
        Some (denied (effective_mode eng ctx) (ctx_action ctx)
          ''Raw sudo command execution is disabled by policy''
          ''Use an idempotent ensure_* tool or enable allowRawSudo explicitly.'' None)
      else None)"

definition check_command :: "regexp_engine \<Rightarrow> PolicyEngine \<Rightarrow> PolicyContext \<Rightarrow> PolicyDecision option" where
  "check_command rx eng ctx =
     (if truthy (ctx_command ctx) then
        let command = or_else (ctx_command ctx) ''''; cfg = config eng;
            m = effective_mode eng ctx; a = ctx_action ctx; safety = checkCommandSafety command
        in if commandDeny cfg \<noteq> [] \<and> matchesAny rx command (commandDeny cfg) then
             Some (denied m a ''Command matched commandDeny policy''
                     ''Review the command or adjust the policy.'' None)
           else if commandAllow cfg \<noteq> [] \<and> \<not> matchesAny rx command (commandAllow cfg) then
             Some (denied m a ''Command does not match commandAllow policy''
                     ''Use an allowed command or update commandAllow.'' None)
           else if \<not> safe safety \<and> \<not> allowDestructiveCommands cfg then
             Some (denied m a (or_else (warning safety) ''Command is considered unsafe'')
                     (or_else (suggestion safety)
                        ''Review the command before enabling destructive command policy.'')
                     (riskLevel safety))
           else None
      else None)"

text \<open>\<open>[context.path, context.secondaryPath].filter(Boolean)\<close>.\<close>

definition context_paths :: "PolicyContext \<Rightarrow> string list" where
  "context_paths ctx = filter (\<lambda>p. p \<noteq> []) (List.map_filter id [ctx_path ctx, ctx_secondaryPath ctx])"

fun check_local_paths :: "local_env \<Rightarrow> PolicyEngine \<Rightarrow> PolicyContext \<Rightarrow> string list \<Rightarrow> PolicyDecision option" where
  "check_local_paths env eng ctx [] = None"
| "check_local_paths env eng ctx (pathValue # paths) =
     (let m = effective_mode eng ctx; a = ctx_action ctx in
      case normalizeLocalPolicyPath env pathValue of
        Inl _ \<Rightarrow> Some (denied m a ''Local path contains NUL byte''
                   ''Choose a valid local path without NUL bytes.'' None)
      | Inr normalizedPath \<Rightarrow>
          if list_ex (\<lambda>pre. isPathUnder normalizedPath pre ''/'') (localPathDenyPrefixes eng) then
            Some (denied m a (''Local path '' @ pathValue @ '' is denied by policy'')
                    ''Choose a different local path or adjust localPathDenyPrefixes.'' None)
          else if localPathAllowPrefixes eng = [] then
            Some (denied m a ''Local transfer path policy has no allowed prefixes''
                    ''Set localPathAllowPrefixes for MCP-server-host transfer paths.'' None)
          else if \<not> list_ex (\<lambda>pre. isPathUnder normalizedPath pre ''/'') (localPathAllowPrefixes eng) then
            Some (denied m a (''Local path '' @ pathValue @ '' is outside allowed prefixes'')
                    (''Allowed local transfer prefixes: '' @ join '', '' (localPathAllowPrefixes eng)) None)
          else check_local_paths env eng ctx paths)"

definition allow_prefixes :: "PolicyEngine \<Rightarrow> string list" where
  "allow_prefixes eng =
     (if pathAllowPrefixes eng \<noteq> [] then pathAllowPrefixes eng else defaultPathAllowPrefixes eng)"

definition is_destructive_fs :: "PolicyContext \<Rightarrow> bool" where
  "is_destructive_fs ctx = (ctx_destructive ctx \<or> ctx_action ctx = FsRemove)"

fun check_remote_paths :: "PolicyEngine \<Rightarrow> PolicyContext \<Rightarrow> string list \<Rightarrow> PolicyDecision option" where
  "check_remote_paths eng ctx [] = None"
| "check_remote_paths eng ctx (pathValue # paths) =
     (let m = effective_mode eng ctx; a = ctx_action ctx in
      case normalizeRemotePosixPath pathValue of
        Inl _ \<Rightarrow> Some (denied m a ''Path contains NUL byte''
                   ''Choose a valid remote path without NUL bytes.'' None)
      | Inr normalizedPath \<Rightarrow>
          if list_ex (\<lambda>pre. isPathUnder normalizedPath pre ''/'') (pathDenyPrefixes eng) then
            Some (denied m a (''Path '' @ pathValue @ '' is denied by policy'')
                    ''Choose a different path or adjust pathDenyPrefixes.'' None)
          else if is_destructive_fs ctx \<and> \<not> allowDestructiveFs (config eng) \<and>
                  \<not> list_ex (\<lambda>pre. isPathUnder normalizedPath pre ''/'') (allow_prefixes eng) then
            Some (denied m a
                    (''Destructive filesystem operation on '' @ pathValue @ '' is outside allowed prefixes'')
                    (''Allowed destructive prefixes: '' @ join '', '' (allow_prefixes eng)) None)
          else check_remote_paths eng ctx paths)"

definition check_paths :: "local_env \<Rightarrow> PolicyEngine \<Rightarrow> PolicyContext \<Rightarrow> PolicyDecision option" where
  "check_paths env eng ctx =
     (if ctx_action ctx \<in> set LOCAL_TRANSFER_ACTIONS
      then check_local_paths env eng ctx (context_paths ctx)
      else check_remote_paths eng ctx (context_paths ctx))"

definition evaluate :: "regexp_engine \<Rightarrow> local_env \<Rightarrow> PolicyEngine \<Rightarrow> PolicyContext \<Rightarrow> PolicyDecision" where
  "evaluate rx env eng ctx =
     (case or_next (check_host rx eng ctx)
           (or_next (check_tunnel rx eng ctx)
           (or_next (check_root eng ctx)
           (or_next (check_raw_sudo eng ctx)
           (or_next (check_command rx eng ctx)
           (check_paths env eng ctx))))) of
        Some d \<Rightarrow> d
      | None \<Rightarrow> allowed_decision (effective_mode eng ctx) (ctx_action ctx))"

text \<open>
  \<open>assertAllowed\<close> and \<open>explain\<close> report to the observer before they return or throw; the
  model returns the list of reports with the result.
\<close>

type_synonym observations = "(PolicyDecision \<times> PolicyContext) list"

definition assertAllowed ::
  "regexp_engine \<Rightarrow> local_env \<Rightarrow> PolicyEngine \<Rightarrow> PolicyContext \<Rightarrow>
     observations \<times> (SSHMCPError + PolicyDecision)" where
  "assertAllowed rx env eng ctx =
     (let decision = evaluate rx env eng ctx in
      ([(decision, ctx)],
       if \<not> allowed decision \<and> dec_mode decision = Enforce
       then Inl (createPolicyError (or_else (reason decision) ''Operation denied by policy'')
                   (dec_hint decision))
       else Inr decision))"

definition explain ::
  "regexp_engine \<Rightarrow> local_env \<Rightarrow> PolicyEngine \<Rightarrow> PolicyContext \<Rightarrow> observations \<times> PolicyDecision" where
  "explain rx env eng ctx =
     (let ctx' = ctx\<lparr>ctx_mode := Some Explain\<rparr>; decision = evaluate rx env eng ctx'
      in ([(decision, ctx')], decision))"

definition getEffectivePolicy :: "PolicyEngine \<Rightarrow> PolicyConfig" where
  "getEffectivePolicy eng = config eng"

section \<open>Paths as segments\<close>

lemma normalizeRemotePosixPath_segs:
  "normalizeRemotePosixPath p =
     (if CHR 0x00 \<in> set p then Inl ''Path contains NUL byte'' else Inr (render_abs (remote_segs p)))"
proof -
  let ?u = "replace_all (CHR 0x5C) ''/'' p"
  let ?a = "if startsWith ?u ''/'' then ?u else ''/'' @ ?u"
  have "startsWith ?a ''/''" by (simp add: startsWith_def)
  moreover have "abs_segs ?a = remote_segs p"
    by (simp add: remote_segs_def abs_segs_Cons_slash)
  ultimately show ?thesis
    by (simp add: normalizeRemotePosixPath_def Let_def strip_posix_normalize)
qed

lemma isPathUnder_render:
  assumes "\<forall>w \<in> set xs. seg_ok w" and "\<forall>w \<in> set ys. seg_ok w"
  shows "isPathUnder (render_abs xs) (render_abs ys) ''/'' \<longleftrightarrow> prefix ys xs"
proof (cases "ys = []")
  case True
  then show ?thesis by (simp add: isPathUnder_def render_abs_def)
next
  case False
  then have "join ''/'' ys \<noteq> []" using assms(2) by (simp add: join_slash_eq_Nil)
  then have "render_abs ys \<noteq> ''/''" and "render_abs ys \<noteq> path_root (render_abs ys)"
    by (simp_all add: render_abs_def path_root_def startsWith_def)
  then show ?thesis
    using segment_match_iff [OF assms False] by (simp add: isPathUnder_def)
qed

lemma normalizePolicyPaths_remote:
  assumes "normalizePolicyPaths ps normalizeRemotePosixPath = Inr qs"
  shows "set qs = (\<lambda>p. render_abs (remote_segs p)) ` set ps"
proof -
  from assms obtain rs where rs: "rmap normalizeRemotePosixPath ps = Inr rs" and "qs = js_uniq rs"
    by (auto simp: normalizePolicyPaths_def)
  moreover have "rs = map (\<lambda>p. render_abs (remote_segs p)) ps"
    using rs by (induction ps arbitrary: rs)
      (auto simp: normalizeRemotePosixPath_segs split: if_splits)
  ultimately show ?thesis by simp
qed

lemma isPathUnder_any_remote:
  assumes "set qs = (\<lambda>p. render_abs (remote_segs p)) ` set ps"
  shows "list_ex (\<lambda>pre. isPathUnder (render_abs (remote_segs p)) pre ''/'') qs \<longleftrightarrow>
     (\<exists>a \<in> set ps. prefix (remote_segs a) (remote_segs p))"
  using assms by (simp add: list_ex_iff isPathUnder_render remote_segs_ok)

section \<open>An abstract policy\<close>

text \<open>
  What the configuration means, without normalised strings, loops or early returns. Paths
  are compared as segment lists.
\<close>

definition accepts :: "regexp_engine \<Rightarrow> string \<Rightarrow> string \<Rightarrow> bool" where
  "accepts rx p v = (\<exists>test. rx p = Some test \<and> test v)"

definition spec_host :: "regexp_engine \<Rightarrow> PolicyConfig \<Rightarrow> PolicyContext \<Rightarrow> bool" where
  "spec_host rx cfg ctx =
     (\<forall>h. ctx_host ctx = Some h \<and> h \<noteq> [] \<and> allowedHosts cfg \<noteq> [] \<longrightarrow>
        (\<exists>a \<in> set (allowedHosts cfg). a = h \<or> accepts rx a h))"

definition spec_tunnel_host :: "regexp_engine \<Rightarrow> string option \<Rightarrow> string list \<Rightarrow> string list \<Rightarrow> bool" where
  "spec_tunnel_host rx host deny allow =
     (\<forall>h. host = Some h \<and> h \<noteq> [] \<longrightarrow>
        (\<forall>d \<in> set deny. d \<noteq> h \<and> \<not> accepts rx d h) \<and>
        (allow \<noteq> [] \<longrightarrow> (\<exists>a \<in> set allow. a = h \<or> accepts rx a h)))"

definition port_in :: "string \<Rightarrow> int \<Rightarrow> bool" where
  "port_in p port = (\<exists>a b. parsePortRange p = Some (a, b) \<and> int a \<le> port \<and> port \<le> int b)"

definition spec_port :: "PolicyConfig \<Rightarrow> int \<Rightarrow> bool" where
  "spec_port cfg port =
     ((\<forall>d \<in> set (tunnelDenyPorts cfg). \<not> port_in d port) \<and>
      (tunnelAllowPorts cfg \<noteq> [] \<longrightarrow> (\<exists>a \<in> set (tunnelAllowPorts cfg). port_in a port)))"

definition spec_tunnel :: "regexp_engine \<Rightarrow> PolicyConfig \<Rightarrow> PolicyContext \<Rightarrow> bool" where
  "spec_tunnel rx cfg ctx =
     (ctx_action ctx \<in> {TunnelLocal, TunnelRemote} \<longrightarrow>
        spec_tunnel_host rx (ctx_localBindHost ctx) (tunnelDenyBindHosts cfg) (tunnelAllowBindHosts cfg) \<and>
        spec_tunnel_host rx (ctx_remoteHost ctx) (tunnelDenyRemoteHosts cfg) (tunnelAllowRemoteHosts cfg) \<and>
        (\<forall>port. ctx_localPort ctx = Some port \<or> ctx_remotePort ctx = Some port \<longrightarrow> spec_port cfg port))"

definition spec_command :: "regexp_engine \<Rightarrow> PolicyConfig \<Rightarrow> PolicyContext \<Rightarrow> bool" where
  "spec_command rx cfg ctx =
     (\<forall>c. ctx_command ctx = Some c \<and> c \<noteq> [] \<longrightarrow>
        (\<forall>d \<in> set (commandDeny cfg). \<not> accepts rx d c) \<and>
        (commandAllow cfg \<noteq> [] \<longrightarrow> (\<exists>a \<in> set (commandAllow cfg). accepts rx a c)) \<and>
        (allowDestructiveCommands cfg \<or> safe (checkCommandSafety c)))"

definition allow_list :: "PolicyConfig \<Rightarrow> string list" where
  "allow_list cfg = (if cfg_pathAllowPrefixes cfg = [] then DEFAULT_ALLOWED_MUTATION_PREFIXES
                     else cfg_pathAllowPrefixes cfg)"

definition spec_remote_path :: "PolicyConfig \<Rightarrow> PolicyContext \<Rightarrow> string \<Rightarrow> bool" where
  "spec_remote_path cfg ctx p =
     (CHR 0x00 \<notin> set p \<and>
      (\<forall>d \<in> set (cfg_pathDenyPrefixes cfg). \<not> prefix (remote_segs d) (remote_segs p)) \<and>
      (is_destructive_fs ctx \<and> \<not> allowDestructiveFs cfg \<longrightarrow>
         (\<exists>a \<in> set (allow_list cfg). prefix (remote_segs a) (remote_segs p))))"

definition spec_allows :: "regexp_engine \<Rightarrow> PolicyConfig \<Rightarrow> PolicyContext \<Rightarrow> bool" where
  "spec_allows rx cfg ctx =
     (spec_host rx cfg ctx \<and> spec_tunnel rx cfg ctx \<and>
      (ctx_username ctx = Some ''root'' \<longrightarrow> allowRootLogin cfg) \<and>
      (ctx_rawSudo ctx \<longrightarrow> allowRawSudo cfg) \<and>
      spec_command rx cfg ctx \<and>
      (\<forall>p. (ctx_path ctx = Some p \<or> ctx_secondaryPath ctx = Some p) \<and> p \<noteq> [] \<longrightarrow>
         spec_remote_path cfg ctx p))"

section \<open>Each block implements its part\<close>

lemma matchesAny_iff: "matchesAny rx v ps \<longleftrightarrow> (\<exists>p \<in> set ps. accepts rx p v)"
  by (auto simp: matchesAny_def list_ex_iff accepts_def split: option.splits)

lemma matchesPolicyValue_iff:
  "matchesPolicyValue rx v ps \<longleftrightarrow> (\<exists>p \<in> set ps. p = v \<or> accepts rx p v)"
  by (simp add: matchesPolicyValue_def list_ex_iff matchesAny_iff)

lemma matchesPortPolicy_iff: "matchesPortPolicy port ps \<longleftrightarrow> (\<exists>p \<in> set ps. port_in p port)"
proof -
  have "port_in p port =
      (case parsePortRange p of None \<Rightarrow> False | Some (a, b) \<Rightarrow> int a \<le> port \<and> port \<le> int b)" for p
    by (auto simp: port_in_def split: option.splits)
  then show ?thesis by (simp add: matchesPortPolicy_def list_ex_iff)
qed

lemma check_host_None: "check_host rx eng ctx = None \<longleftrightarrow> spec_host rx (config eng) ctx"
  by (cases "ctx_host ctx")
     (auto simp: check_host_def spec_host_def Let_def list_ex_iff matchesAny_iff)

lemma check_tunnel_host_None:
  "check_tunnel_host rx eng ctx host w n deny allow = None \<longleftrightarrow> spec_tunnel_host rx host deny allow"
  by (cases host)
     (auto simp: check_tunnel_host_def spec_tunnel_host_def matchesPolicyValue_iff)

lemma check_tunnel_ports_None:
  "check_tunnel_ports eng ctx ports = None \<longleftrightarrow> (\<forall>p \<in> set ports. spec_port (config eng) p)"
  by (induction ports) (auto simp: Let_def spec_port_def matchesPortPolicy_iff)

lemma set_context_ports:
  "set (context_ports ctx) = {p. ctx_localPort ctx = Some p \<or> ctx_remotePort ctx = Some p}"
  by (auto simp: context_ports_def List.map_filter_def)

lemma check_tunnel_None: "check_tunnel rx eng ctx = None \<longleftrightarrow> spec_tunnel rx (config eng) ctx"
  by (auto simp: check_tunnel_def spec_tunnel_def check_tunnel_host_None check_tunnel_ports_None
        set_context_ports)

lemma check_root_None:
  "check_root eng ctx = None \<longleftrightarrow> (ctx_username ctx = Some ''root'' \<longrightarrow> allowRootLogin (config eng))"
  by (simp add: check_root_def)

lemma check_raw_sudo_None:
  "check_raw_sudo eng ctx = None \<longleftrightarrow> (ctx_rawSudo ctx \<longrightarrow> allowRawSudo (config eng))"
  by (simp add: check_raw_sudo_def)

lemma check_command_None: "check_command rx eng ctx = None \<longleftrightarrow> spec_command rx (config eng) ctx"
  by (cases "ctx_command ctx")
     (auto simp: check_command_def spec_command_def Let_def matchesAny_iff)

lemma set_context_paths:
  "set (context_paths ctx) =
     {p. (ctx_path ctx = Some p \<or> ctx_secondaryPath ctx = Some p) \<and> p \<noteq> []}"
  by (auto simp: context_paths_def List.map_filter_def)

lemma new_PolicyEngine_remote:
  assumes "new_PolicyEngine env cfg = Inr eng"
  shows "config eng = cfg"
    and "set (pathDenyPrefixes eng) = (\<lambda>p. render_abs (remote_segs p)) ` set (cfg_pathDenyPrefixes cfg)"
    and "set (allow_prefixes eng) = (\<lambda>p. render_abs (remote_segs p)) ` set (allow_list cfg)"
proof -
  from assms obtain pa pd da where
    pa: "normalizePolicyPaths (cfg_pathAllowPrefixes cfg) normalizeRemotePosixPath = Inr pa" and
    pd: "normalizePolicyPaths (cfg_pathDenyPrefixes cfg) normalizeRemotePosixPath = Inr pd" and
    da: "normalizePolicyPaths DEFAULT_ALLOWED_MUTATION_PREFIXES normalizeRemotePosixPath = Inr da" and
    eng: "config eng = cfg" "pathAllowPrefixes eng = pa" "pathDenyPrefixes eng = pd"
      "defaultPathAllowPrefixes eng = da"
    by (auto simp: new_PolicyEngine_def)
  show "config eng = cfg" by (fact eng)
  show "set (pathDenyPrefixes eng) = (\<lambda>p. render_abs (remote_segs p)) ` set (cfg_pathDenyPrefixes cfg)"
    using normalizePolicyPaths_remote [OF pd] eng by simp
  have "pa = [] \<longleftrightarrow> cfg_pathAllowPrefixes cfg = []"
    using normalizePolicyPaths_remote [OF pa] by (metis image_is_empty set_empty)
  then show "set (allow_prefixes eng) = (\<lambda>p. render_abs (remote_segs p)) ` set (allow_list cfg)"
    using normalizePolicyPaths_remote [OF pa] normalizePolicyPaths_remote [OF da] eng
    by (simp add: allow_prefixes_def allow_list_def)
qed

lemma check_remote_paths_None:
  assumes "new_PolicyEngine env cfg = Inr eng"
  shows "check_remote_paths eng ctx ps = None \<longleftrightarrow> (\<forall>p \<in> set ps. spec_remote_path cfg ctx p)"
proof (induction ps)
  case Nil
  then show ?case by simp
next
  case (Cons p ps)
  note eng = new_PolicyEngine_remote [OF assms]
  show ?case
    using Cons.IH
    by (auto simp: Let_def normalizeRemotePosixPath_segs spec_remote_path_def [of cfg ctx p] eng(1)
          isPathUnder_any_remote [OF eng(2)] isPathUnder_any_remote [OF eng(3)])
qed

text \<open>What every early return has in common.\<close>

definition is_denial :: "PolicyEngine \<Rightarrow> PolicyContext \<Rightarrow> PolicyDecision \<Rightarrow> bool" where
  "is_denial eng ctx d \<longleftrightarrow>
     \<not> allowed d \<and> dec_mode d = effective_mode eng ctx \<and> dec_action d = ctx_action ctx \<and> reason d \<noteq> None"

lemma is_denial_denied [simp]:
  "is_denial eng ctx (denied (effective_mode eng ctx) (ctx_action ctx) r h k)"
  by (simp add: is_denial_def denied_def)

lemma check_tunnel_ports_denial: "check_tunnel_ports eng ctx ps = Some d \<Longrightarrow> is_denial eng ctx d"
  by (induction ps) (auto simp: Let_def split: if_splits)

lemma check_remote_paths_denial: "check_remote_paths eng ctx ps = Some d \<Longrightarrow> is_denial eng ctx d"
  by (induction ps) (auto simp: Let_def split: if_splits sum.splits)

lemma check_local_paths_denial: "check_local_paths env eng ctx ps = Some d \<Longrightarrow> is_denial eng ctx d"
  by (induction ps) (auto simp: Let_def split: if_splits sum.splits)

lemma check_tunnel_host_denial:
  "check_tunnel_host rx eng ctx host w n deny allow = Some d \<Longrightarrow> is_denial eng ctx d"
  unfolding check_tunnel_host_def by (simp split: if_splits) auto

lemma check_tunnel_denial: "check_tunnel rx eng ctx = Some d \<Longrightarrow> is_denial eng ctx d"
  unfolding check_tunnel_def or_next_def
  by (simp split: if_splits option.splits add: check_tunnel_host_denial check_tunnel_ports_denial)

lemma early_return_denial:
  assumes "or_next (check_host rx eng ctx) (or_next (check_tunnel rx eng ctx)
     (or_next (check_root eng ctx) (or_next (check_raw_sudo eng ctx)
     (or_next (check_command rx eng ctx) (check_paths env eng ctx))))) = Some d"
  shows "is_denial eng ctx d"
proof -
  from assms consider "check_host rx eng ctx = Some d" | "check_tunnel rx eng ctx = Some d"
    | "check_root eng ctx = Some d" | "check_raw_sudo eng ctx = Some d"
    | "check_command rx eng ctx = Some d" | "check_paths env eng ctx = Some d"
    by (auto simp: or_next_def split: option.splits)
  then show ?thesis
  proof cases
    case 2
    then show ?thesis by (rule check_tunnel_denial)
  next
    case 6
    then show ?thesis
      using check_remote_paths_denial check_local_paths_denial
      by (auto simp: check_paths_def split: if_splits)
  qed (auto simp: check_host_def check_root_def check_raw_sudo_def check_command_def Let_def
        split: if_splits)
qed

lemma evaluate_mode: "dec_mode (evaluate rx env eng ctx) = effective_mode eng ctx"
  using early_return_denial [of rx eng ctx env]
  by (auto simp: evaluate_def allowed_decision_def is_denial_def split: option.splits)

lemma evaluate_allowed_iff:
  "allowed (evaluate rx env eng ctx) \<longleftrightarrow>
     spec_host rx (config eng) ctx \<and> spec_tunnel rx (config eng) ctx \<and>
     (ctx_username ctx = Some ''root'' \<longrightarrow> allowRootLogin (config eng)) \<and>
     (ctx_rawSudo ctx \<longrightarrow> allowRawSudo (config eng)) \<and>
     spec_command rx (config eng) ctx \<and> check_paths env eng ctx = None"
proof -
  let ?r = "or_next (check_host rx eng ctx) (or_next (check_tunnel rx eng ctx)
     (or_next (check_root eng ctx) (or_next (check_raw_sudo eng ctx)
     (or_next (check_command rx eng ctx) (check_paths env eng ctx)))))"
  have "allowed (evaluate rx env eng ctx) \<longleftrightarrow> ?r = None"
    using early_return_denial [of rx eng ctx env]
    by (cases ?r) (auto simp: evaluate_def allowed_decision_def is_denial_def)
  then show ?thesis
    by (simp add: check_host_None check_tunnel_None check_root_None check_raw_sudo_None
        check_command_None)
qed

lemma evaluate_denied_reason:
  "\<not> allowed (evaluate rx env eng ctx) \<Longrightarrow> reason (evaluate rx env eng ctx) \<noteq> None"
  using early_return_denial [of rx eng ctx env]
  by (auto simp: evaluate_def allowed_decision_def is_denial_def split: option.splits)

text \<open>The verdict does not depend on the mode of the request.\<close>

lemma check_paths_mode:
  "check_paths env eng (ctx\<lparr>ctx_mode := m\<rparr>) = None \<longleftrightarrow> check_paths env eng ctx = None"
proof -
  have "check_remote_paths eng (ctx\<lparr>ctx_mode := m\<rparr>) ps = None \<longleftrightarrow> check_remote_paths eng ctx ps = None" for ps
    by (induction ps) (simp_all add: Let_def is_destructive_fs_def split: sum.splits)
  moreover have "check_local_paths env eng (ctx\<lparr>ctx_mode := m\<rparr>) ps = None \<longleftrightarrow>
      check_local_paths env eng ctx ps = None" for ps
    by (induction ps) (simp_all add: Let_def split: sum.splits)
  ultimately show ?thesis by (simp add: check_paths_def context_paths_def)
qed

lemma evaluate_mode_irrelevant:
  "allowed (evaluate rx env eng (ctx\<lparr>ctx_mode := m\<rparr>)) = allowed (evaluate rx env eng ctx)"
  by (simp add: evaluate_allowed_iff check_paths_mode spec_host_def spec_tunnel_def spec_command_def)

section \<open>Local transfer paths\<close>

text \<open>
  What \<open>realpath\<close> is documented to return: an absolute path without empty, \<open>.\<close> and
  \<open>..\<close> segments.
\<close>

definition canonical_realpath :: "local_env \<Rightarrow> bool" where
  "canonical_realpath env =
     (\<forall>p q. env_realpath env p = Some q \<longrightarrow> (\<exists>ws. (\<forall>w \<in> set ws. seg_ok w) \<and> q = render_abs ws))"

definition local_segs :: "local_env \<Rightarrow> string \<Rightarrow> string list" where
  "local_segs env p =
     (let n = path_resolve (env_cwd env) p in abs_segs (or_else (env_realpath env n) n))"

lemma local_segs_ok: "\<forall>w \<in> set (local_segs env p). seg_ok w"
  by (auto simp: local_segs_def Let_def intro: abs_segs_ok)

lemma posix_normalize_render:
  assumes "\<forall>w \<in> set ws. seg_ok w"
  shows "posix_normalize (render_abs ws) = render_abs ws"
proof -
  have "startsWith (render_abs ws) ''/''" by (simp add: startsWith_def render_abs_def)
  moreover have "ws \<noteq> [] \<Longrightarrow> \<not> endsWith (render_abs ws) ''/''"
    using last_join_slash assms by (simp add: endsWith_def suffix_slash_iff render_abs_def)
  ultimately show ?thesis
    using abs_segs_render [OF assms] by (auto simp: posix_normalize_absolute render_abs_def)
qed

lemma normalizeLocalPolicyPath_segs:
  assumes "canonical_realpath env"
  shows "normalizeLocalPolicyPath env p =
     (if CHR 0x00 \<in> set p then Inl ''Path contains NUL byte'' else Inr (render_abs (local_segs env p)))"
proof -
  let ?n = "path_resolve (env_cwd env) p"
  obtain ns where ns: "\<forall>w \<in> set ns. seg_ok w" "?n = render_abs ns"
    by (metis abs_segs_ok path_resolve_render)
  then have norm: "posix_normalize ?n = ?n" by (simp add: posix_normalize_render)
  obtain rs where rs: "\<forall>w \<in> set rs. seg_ok w" "or_else (env_realpath env ?n) ?n = render_abs rs"
    using assms ns by (cases "env_realpath env ?n") (auto simp: canonical_realpath_def)
  have "path_root (render_abs rs) = ''/''"
    by (simp add: path_root_def startsWith_def render_abs_def)
  then show ?thesis
    using rs norm strip_render_abs [OF rs(1)] abs_segs_render [OF rs(1)]
    by (simp add: normalizeLocalPolicyPath_def Let_def local_segs_def)
qed

lemma normalizePolicyPaths_local:
  assumes "canonical_realpath env" and "normalizePolicyPaths ps (normalizeLocalPolicyPath env) = Inr qs"
  shows "set qs = (\<lambda>p. render_abs (local_segs env p)) ` set ps"
proof -
  from assms(2) obtain rs where rs: "rmap (normalizeLocalPolicyPath env) ps = Inr rs" and "qs = js_uniq rs"
    by (auto simp: normalizePolicyPaths_def)
  moreover have "rs = map (\<lambda>p. render_abs (local_segs env p)) ps"
    using rs by (induction ps arbitrary: rs)
      (auto simp: normalizeLocalPolicyPath_segs [OF assms(1)] split: if_splits)
  ultimately show ?thesis by simp
qed

lemma isPathUnder_any_local:
  assumes "set qs = (\<lambda>p. render_abs (local_segs env p)) ` set ps"
  shows "list_ex (\<lambda>pre. isPathUnder (render_abs (local_segs env' p)) pre ''/'') qs \<longleftrightarrow>
     (\<exists>a \<in> set ps. prefix (local_segs env a) (local_segs env' p))"
  using assms by (simp add: list_ex_iff isPathUnder_render local_segs_ok)

definition spec_local_path :: "local_env \<Rightarrow> local_env \<Rightarrow> PolicyConfig \<Rightarrow> string \<Rightarrow> bool" where
  "spec_local_path env env' cfg p =
     (CHR 0x00 \<notin> set p \<and>
      (\<forall>d \<in> set (cfg_localPathDenyPrefixes cfg). \<not> prefix (local_segs env d) (local_segs env' p)) \<and>
      (\<exists>a \<in> set (cfg_localPathAllowPrefixes cfg). prefix (local_segs env a) (local_segs env' p)))"

lemma check_local_paths_None:
  assumes new: "new_PolicyEngine env cfg = Inr eng"
    and can: "canonical_realpath env" "canonical_realpath env'"
  shows "check_local_paths env' eng ctx ps = None \<longleftrightarrow> (\<forall>p \<in> set ps. spec_local_path env env' cfg p)"
proof -
  from new obtain la ld where
    la: "normalizePolicyPaths (cfg_localPathAllowPrefixes cfg) (normalizeLocalPolicyPath env) = Inr la" and
    ld: "normalizePolicyPaths (cfg_localPathDenyPrefixes cfg) (normalizeLocalPolicyPath env) = Inr ld" and
    eng: "localPathAllowPrefixes eng = la" "localPathDenyPrefixes eng = ld"
    by (auto simp: new_PolicyEngine_def)
  note sets = normalizePolicyPaths_local [OF can(1) la] normalizePolicyPaths_local [OF can(1) ld]
  have "la = [] \<longleftrightarrow> cfg_localPathAllowPrefixes cfg = []"
    using sets(1) by (metis image_is_empty set_empty)
  then show ?thesis
  proof (induction ps)
    case (Cons p ps)
    then show ?case
      by (auto simp: Let_def normalizeLocalPolicyPath_segs [OF can(2)] eng
            spec_local_path_def [of env env' cfg p]
            isPathUnder_any_local [OF sets(1)] isPathUnder_any_local [OF sets(2)])
  qed simp
qed

section \<open>Port ranges\<close>

lemma show_nat_length: "n < 100000 \<Longrightarrow> 1 \<le> length (show_nat n) \<and> length (show_nat n) \<le> 5"
proof -
  have *: "n < 10 ^ Suc k \<Longrightarrow> length (show_nat n) \<le> Suc k" for n k
  proof (induction k arbitrary: n)
    case 0
    then show ?case by (simp add: show_nat.simps [of n])
  next
    case (Suc k)
    have "length (show_nat (n div 10)) \<le> Suc k" if "\<not> n < 10"
      using Suc.prems by (intro Suc.IH) (simp add: div_less_iff_less_mult mult.commute)
    then show ?case by (simp add: show_nat.simps [of n])
  qed
  assume "n < 100000"
  then have "length (show_nat n) \<le> Suc 4" by (intro *) simp
  moreover have "show_nat n \<noteq> []" by simp
  ultimately show ?thesis by (simp add: Suc_le_eq)
qed

lemma not_digit_dash: "\<not> is_digit (CHR ''-'')"
  by (simp add: is_digit_def)

lemma digit_not_ws: "is_digit c \<Longrightarrow> \<not> is_ws c"
  by (auto simp: is_digit_def is_ws_def Let_def)

lemma trim_no_ws: "list_all (\<lambda>c. \<not> is_ws c) s \<Longrightarrow> trim s = s"
proof -
  assume "list_all (\<lambda>c. \<not> is_ws c) s"
  then have "\<And>c. c \<in> set s \<Longrightarrow> \<not> is_ws c" by (simp add: list_all_iff)
  then have "dropWhile is_ws s = s" and "dropWhile is_ws (rev s) = rev s"
    by (auto intro!: dropWhile_idem_hd simp: hd_rev)
  then show ?thesis by (simp add: trim_def)
qed

lemma port_digits_show: "n \<le> 65535 \<Longrightarrow> port_digits (show_nat n)"
  using show_nat_length [of n] show_nat_digits [of n] by (simp add: port_digits_def)

lemma parsePortRange_bounds:
  "parsePortRange p = Some (a, b) \<Longrightarrow> a \<le> b \<and> b \<le> 65535"
  by (auto simp: parsePortRange_def Let_def split: list.splits if_splits)

lemma parsePortRange_show:
  assumes "a \<le> b" and "b \<le> 65535"
  shows "parsePortRange (show_nat a @ ''-'' @ show_nat b) = Some (a, b)"
proof -
  have d: "list_all is_digit (show_nat a)" "list_all is_digit (show_nat b)"
    by (rule show_nat_digits)+
  then have "CHR ''-'' \<notin> set (show_nat a)" "CHR ''-'' \<notin> set (show_nat b)"
    using not_digit_dash by (auto simp: list_all_iff)
  moreover have "\<not> is_ws (CHR ''-'')" by (simp add: is_ws_def)
  then have "trim (show_nat a @ ''-'' @ show_nat b) = show_nat a @ ''-'' @ show_nat b"
    using d digit_not_ws by (intro trim_no_ws) (auto simp: list_all_iff)
  ultimately have "split_on (CHR ''-'') (trim (show_nat a @ ''-'' @ show_nat b)) = [show_nat a, show_nat b]"
    by (simp add: split_on_append split_on_single)
  then show ?thesis
    using assms port_digits_show [of a] port_digits_show [of b]
    by (simp add: parsePortRange_def digits_val_show_nat)
qed

section \<open>Properties\<close>


definition sample_env :: local_env where
  "sample_env = \<lparr>env_cwd = ''/srv'', env_realpath = (\<lambda>p. if p = ''/tmp/link'' then Some ''/etc'' else None)\<rparr>"

definition sample_config :: PolicyConfig where
  "sample_config =
     \<lparr>cfg_mode = Enforce, allowRootLogin = False, allowRawSudo = False,
      allowDestructiveCommands = False, allowDestructiveFs = False, allowedHosts = [],
      commandAllow = [], commandDeny = [], cfg_pathAllowPrefixes = [''/tmp/''],
      cfg_pathDenyPrefixes = [''/etc''], cfg_localPathAllowPrefixes = [''/tmp''],
      cfg_localPathDenyPrefixes = [], tunnelAllowBindHosts = [], tunnelDenyBindHosts = [],
      tunnelAllowRemoteHosts = [], tunnelDenyRemoteHosts = [], tunnelAllowPorts = [''8000-9000''],
      tunnelDenyPorts = [''8080'']\<rparr>"

definition sample_engine :: PolicyEngine where
  "sample_engine =
     \<lparr>config = sample_config, pathAllowPrefixes = [''/tmp''], pathDenyPrefixes = [''/etc''],
      defaultPathAllowPrefixes = [''/tmp'', ''/var/tmp'', ''/home'', ''/Users''],
      localPathAllowPrefixes = [''/tmp''], localPathDenyPrefixes = []\<rparr>"

definition sample_context :: "PolicyAction \<Rightarrow> string \<Rightarrow> PolicyContext" where
  "sample_context a p =
     \<lparr>ctx_action = a, ctx_host = None, ctx_username = None, ctx_command = None, ctx_path = Some p,
      ctx_secondaryPath = None, ctx_localBindHost = None, ctx_localPort = None,
      ctx_remoteHost = None, ctx_remotePort = None, ctx_mode = None, ctx_rawSudo = False,
      ctx_destructive = False\<rparr>"

lemma sample_engine_new: "new_PolicyEngine sample_env sample_config = Inr sample_engine"
  by code_simp


text \<open>
  Local transfer paths are confined. When \<open>realpath\<close> returns canonical paths, an allowed
  local read, write, create or overwrite has, for each of its paths, a canonical location that
  extends a configured allow prefix and no configured deny prefix, so a symbolic link under an
  allowed directory cannot lead out of it; without any allow prefix nothing is allowed.
\<close>
theorem local_transfer_confined:
  assumes "new_PolicyEngine env cfg = Inr eng"
    and "canonical_realpath env" and "canonical_realpath env'"
    and "ctx_action ctx \<in> set LOCAL_TRANSFER_ACTIONS"
    and "allowed (evaluate rx env' eng ctx)"
    and "p \<in> set (context_paths ctx)"
  shows "(\<exists>a \<in> set (cfg_localPathAllowPrefixes cfg). prefix (local_segs env a) (local_segs env' p)) \<and>
    (\<forall>d \<in> set (cfg_localPathDenyPrefixes cfg). \<not> prefix (local_segs env d) (local_segs env' p))"
  using assms check_local_paths_None [OF assms(1-3)]
  by (auto simp: evaluate_allowed_iff check_paths_def spec_local_path_def)

theorem local_transfer_confined_witness:
  "allowed (evaluate (\<lambda>_. None) sample_env sample_engine (sample_context TransferLocalRead ''/tmp/f'')) \<and>
   \<not> allowed (evaluate (\<lambda>_. None) sample_env sample_engine (sample_context TransferLocalRead ''/tmp/link'')) \<and>
   (\<exists>a \<in> set (cfg_localPathAllowPrefixes sample_config).
      prefix (local_segs sample_env a) (local_segs sample_env ''/tmp/f''))"
proof -
  have "''/etc'' = render_abs [''etc'']" and "seg_ok ''etc''" by code_simp+
  then have can: "canonical_realpath sample_env"
    unfolding canonical_realpath_def sample_env_def
    by (auto intro!: exI [of _ "[''etc'']"] split: if_splits)
  have a: "ctx_action (sample_context TransferLocalRead ''/tmp/f'') \<in> set LOCAL_TRANSFER_ACTIONS"
    by code_simp
  have ok: "allowed (evaluate (\<lambda>_. None) sample_env sample_engine (sample_context TransferLocalRead ''/tmp/f''))"
    by code_simp
  have p: "''/tmp/f'' \<in> set (context_paths (sample_context TransferLocalRead ''/tmp/f''))"
    by code_simp
  have "\<not> allowed (evaluate (\<lambda>_. None) sample_env sample_engine (sample_context TransferLocalRead ''/tmp/link''))"
    by code_simp
  with local_transfer_confined [OF sample_engine_new can can a ok p] ok show ?thesis by simp
qed

text \<open>
  A denial stops the caller exactly in enforce mode. \<open>assertAllowed\<close> throws if and only
  if the request is denied and the effective mode is enforce; the error is then the
  unrecoverable \<open>EPOLICY\<close> with the reason of the decision; in every case the observer has
  received the decision once; and \<open>explain\<close> never throws and reaches the verdict of
  \<open>evaluate\<close>.
\<close>
theorem assertAllowed_throws_iff:
  "(\<exists>e. snd (assertAllowed rx env eng ctx) = Inl e) =
     (\<not> allowed (evaluate rx env eng ctx) \<and> effective_mode eng ctx = Enforce) \<and>
   (\<forall>e. snd (assertAllowed rx env eng ctx) = Inl e \<longrightarrow>
     err_code e = EPOLICY \<and> \<not> recoverable e \<and>
     Some (err_message e) = reason (evaluate rx env eng ctx)) \<and>
   fst (assertAllowed rx env eng ctx) = [(evaluate rx env eng ctx, ctx)] \<and>
   allowed (snd (explain rx env eng ctx)) = allowed (evaluate rx env eng ctx)"
proof -
  have throws: "(\<exists>e. snd (assertAllowed rx env eng ctx) = Inl e) =
     (\<not> allowed (evaluate rx env eng ctx) \<and> effective_mode eng ctx = Enforce)"
    by (simp add: assertAllowed_def Let_def evaluate_mode)
  have error: "err_code e = EPOLICY \<and> \<not> recoverable e \<and>
      Some (err_message e) = reason (evaluate rx env eng ctx)"
    if e: "snd (assertAllowed rx env eng ctx) = Inl e" for e
  proof -
    from e have "\<not> allowed (evaluate rx env eng ctx)"
      by (auto simp: assertAllowed_def Let_def split: if_splits)
    then obtain r where "reason (evaluate rx env eng ctx) = Some r"
      using evaluate_denied_reason by blast
    with e show ?thesis
      by (auto simp: assertAllowed_def Let_def createPolicyError_def new_SSHMCPError_def split: if_splits)
  qed
  have "fst (assertAllowed rx env eng ctx) = [(evaluate rx env eng ctx, ctx)]"
    by (simp add: assertAllowed_def Let_def)
  moreover have "allowed (snd (explain rx env eng ctx)) = allowed (evaluate rx env eng ctx)"
    by (simp add: explain_def Let_def evaluate_mode_irrelevant)
  ultimately show ?thesis using throws error by blast
qed

theorem assertAllowed_throws_iff_witness:
  "\<exists>e. snd (assertAllowed (\<lambda>_. None) sample_env sample_engine (sample_context FsRemove ''/etc/x'')) = Inl e \<and>
     err_code e = EPOLICY"
proof -
  have "\<not> allowed (evaluate (\<lambda>_. None) sample_env sample_engine (sample_context FsRemove ''/etc/x'')) \<and>
      effective_mode sample_engine (sample_context FsRemove ''/etc/x'') = Enforce"
    by code_simp
  then show ?thesis
    using assertAllowed_throws_iff [of "\<lambda>_. None" sample_env sample_engine "sample_context FsRemove ''/etc/x''"]
    by blast
qed

text \<open>
  Port policies mean what they say. A range printed as \<open>a-b\<close> with \<open>a \<le> b \<le> 65535\<close> parses
  back to \<open>(a, b)\<close> and matches exactly the ports from \<open>a\<close> to \<open>b\<close>; and whatever the parser
  accepts is a non-empty range of valid ports.
\<close>
theorem parsePortRange_roundtrip:
  "(a \<le> b \<and> b \<le> 65535 \<longrightarrow>
     parsePortRange (show_nat a @ ''-'' @ show_nat b) = Some (a, b) \<and>
     (\<forall>port. matchesPortPolicy port [show_nat a @ ''-'' @ show_nat b] = (int a \<le> port \<and> port \<le> int b))) \<and>
   (parsePortRange p = Some (c, d) \<longrightarrow> c \<le> d \<and> d \<le> 65535)"
proof -
  have "matchesPortPolicy port [r] = (int a \<le> port \<and> port \<le> int b)"
    if "parsePortRange r = Some (a, b)" for r port
    by (simp add: matchesPortPolicy_iff port_in_def that)
  note matches = this
  show ?thesis
  proof (intro conjI impI allI)
    assume "a \<le> b \<and> b \<le> 65535"
    then show parse: "parsePortRange (show_nat a @ ''-'' @ show_nat b) = Some (a, b)"
      by (intro parsePortRange_show) simp_all
    then show "matchesPortPolicy port [show_nat a @ ''-'' @ show_nat b] = (int a \<le> port \<and> port \<le> int b)"
      for port by (rule matches)
  next
    assume "parsePortRange p = Some (c, d)"
    from parsePortRange_bounds [OF this] show "c \<le> d" and "d \<le> 65535" by simp_all
  qed
qed

theorem parsePortRange_roundtrip_witness:
  "parsePortRange (show_nat 22 @ ''-'' @ show_nat 443) = Some (22, 443) \<and>
   parsePortRange '' 8080 '' = Some (8080, 8080)"
proof -
  have "parsePortRange '' 8080 '' = Some (8080, 8080)"
    by (simp add: parsePortRange_def trim_def is_ws_def port_digits_def is_digit_def digits_val_def
        digit_val_def)
  moreover have "(22::nat) \<le> 443 \<and> (443::nat) \<le> 65535" by simp
  ultimately show ?thesis
    using parsePortRange_roundtrip [of 22 443 "'' 8080 ''" 8080 8080] by blast
qed

text \<open>
  Normalised remote paths cannot climb. Every path without a NUL byte normalises; the
  result is \<open>/\<close> or a \<open>/\<close>-separated list of segments none of which is empty, \<open>.\<close> or \<open>..\<close> or
  contains a backslash, and normalising it again changes nothing. A path with a NUL byte is
  rejected.
\<close>
theorem normalizeRemotePosixPath_canonical:
  "(CHR 0x00 \<in> set p \<longrightarrow> normalizeRemotePosixPath p = Inl ''Path contains NUL byte'') \<and>
   (CHR 0x00 \<notin> set p \<longrightarrow>
     (\<exists>ws. normalizeRemotePosixPath p = Inr (''/'' @ join ''/'' ws) \<and>
        (\<forall>w \<in> set ws. w \<noteq> '''' \<and> w \<noteq> ''.'' \<and> w \<noteq> ''..'' \<and> CHR ''/'' \<notin> set w \<and> CHR 0x5C \<notin> set w) \<and>
        normalizeRemotePosixPath (''/'' @ join ''/'' ws) = Inr (''/'' @ join ''/'' ws)))"
proof (cases "CHR 0x00 \<in> set p")
  case True
  then show ?thesis by (simp add: normalizeRemotePosixPath_segs)
next
  case False
  let ?ws = "remote_segs p"
  have sub: "set w \<subseteq> set (replace_all (CHR 0x5C) ''/'' p)" if "w \<in> set ?ws" for w
    using that abs_segs_chars by (simp add: remote_segs_def)
  have nb: "CHR 0x5C \<notin> set w" if "w \<in> set ?ws" for w
    using sub [OF that] replace_all_absent [of "CHR 0x5C" "''/''" p] by auto
  have "CHR 0x00 \<notin> set (replace_all (CHR 0x5C) ''/'' p)"
    using False by (induction p) auto
  then have "CHR 0x00 \<notin> set w" if "w \<in> set ?ws" for w
    using sub [OF that] by blast
  then have "CHR 0x00 \<notin> set (render_abs ?ws)" and "CHR 0x5C \<notin> set (render_abs ?ws)"
    using nb by (intro notin_render_abs; simp)+
  then have "normalizeRemotePosixPath (render_abs ?ws) = Inr (render_abs ?ws)"
    by (simp add: normalizeRemotePosixPath_segs remote_segs_def replace_all_id abs_segs_render
        abs_segs_ok)
  then show ?thesis
    using False nb remote_segs_ok [of p]
    by (auto simp: normalizeRemotePosixPath_segs render_abs_def seg_ok_def intro!: exI [of _ ?ws])
qed

theorem normalizeRemotePosixPath_canonical_witness:
  "normalizeRemotePosixPath ''a/../../etc//./passwd/'' = Inr ''/etc/passwd'' \<and>
   (\<exists>ws. normalizeRemotePosixPath ''a/../../etc//./passwd/'' = Inr (''/'' @ join ''/'' ws) \<and>
      (\<forall>w \<in> set ws. w \<noteq> ''..''))"
proof -
  have "CHR 0x00 \<notin> set ''a/../../etc//./passwd/''" by simp
  moreover have "normalizeRemotePosixPath ''a/../../etc//./passwd/'' = Inr ''/etc/passwd''" by code_simp
  ultimately show ?thesis
    using normalizeRemotePosixPath_canonical [of "''a/../../etc//./passwd/''"] by blast
qed

end
