(* ===== verification/Shell.thy ===== *)
theory Shell
  imports Prelude
begin

text \<open>
  The command builders of \<open>src/shell.ts\<close> and the quoting they rest on. What a shell makes
  of a quoted string is specified here: \<open>sh_word\<close> reads one word of a POSIX shell (single
  and double quotes, backslash; a character that would start an expansion is an error),
  \<open>ps_word\<close> one PowerShell argument. The locale \<open>quoting\<close> is the contract between a
  quoting function and the reader of its words; in it, a command line built from quoted and
  bare arguments is read back as exactly these arguments. It is interpreted for the quoting
  functions of \<open>src/shell.ts\<close>, and in other theories for those of the control plane and of
  the agent.
\<close>

section \<open>Quoting\<close>

definition shellQuote :: "string \<Rightarrow> string" where
  "shellQuote value = [CHR 0x27] @ replace_all (CHR 0x27) [CHR 0x27, CHR 0x22, CHR 0x27, CHR 0x22, CHR 0x27] value @ [CHR 0x27]"

definition powerShellQuote :: "string \<Rightarrow> string" where
  "powerShellQuote value = [CHR 0x27] @ replace_all (CHR 0x27) [CHR 0x27, CHR 0x27] value @ [CHR 0x27]"

section \<open>What a shell reads\<close>

datatype sh_mode = Plain | SQuote | DQuote

text \<open>Blanks and operators end a word; the active characters start an expansion.\<close>

definition sh_meta :: "char \<Rightarrow> bool" where
  "sh_meta c = (c \<in> set '' ;&|<>()'' \<or> c = CHR 0x09 \<or> c = CHR 0x0A)"

definition sh_active :: "char \<Rightarrow> bool" where
  "sh_active c = (c \<in> set ''$*?[]{}~!#%'' \<or> c = CHR 0x60)"

definition word_cons :: "char \<Rightarrow> (string \<times> string) option \<Rightarrow> (string \<times> string) option" where
  "word_cons c r = map_option (\<lambda>(w, s). (c # w, s)) r"

fun sh_word_in :: "sh_mode \<Rightarrow> string \<Rightarrow> (string \<times> string) option" where
  "sh_word_in Plain [] = Some ([], [])"
| "sh_word_in SQuote [] = None"
| "sh_word_in DQuote [] = None"
| "sh_word_in SQuote (c # s) =
     (if c = CHR 0x27 then sh_word_in Plain s else word_cons c (sh_word_in SQuote s))"
| "sh_word_in DQuote (c # s) =
     (if c = CHR 0x22 then sh_word_in Plain s
      else if c = CHR ''$'' \<or> c = CHR 0x60 \<or> c = CHR 0x5C then None
      else word_cons c (sh_word_in DQuote s))"
| "sh_word_in Plain (c # s) =
     (if c = CHR 0x27 then sh_word_in SQuote s
      else if c = CHR 0x22 then sh_word_in DQuote s
      else if c = CHR 0x5C then (case s of [] \<Rightarrow> None | d # s' \<Rightarrow> word_cons d (sh_word_in Plain s'))
      else if sh_meta c then Some ([], c # s)
      else if sh_active c then None
      else word_cons c (sh_word_in Plain s))"

definition sh_word :: "string \<Rightarrow> (string \<times> string) option" where
  "sh_word s = sh_word_in Plain s"

fun ps_word_in :: "bool \<Rightarrow> string \<Rightarrow> (string \<times> string) option" where
  "ps_word_in False [] = Some ([], [])"
| "ps_word_in True [] = None"
| "ps_word_in True [c] = (if c = CHR 0x27 then Some ([], []) else None)"
| "ps_word_in True (c # d # s) =
     (if c = CHR 0x27 then
        (if d = CHR 0x27 then word_cons (CHR 0x27) (ps_word_in True s) else ps_word_in False (d # s))
      else word_cons c (ps_word_in True (d # s)))"
| "ps_word_in False (c # s) =
     (if c = CHR 0x27 then ps_word_in True s
      else if sh_meta c then Some ([], c # s)
      else if sh_active c \<or> c = CHR 0x22 \<or> c = CHR 0x5C then None
      else word_cons c (ps_word_in False s))"

definition ps_word :: "string \<Rightarrow> (string \<times> string) option" where
  "ps_word s = ps_word_in False s"

text \<open>A character that stands for itself in a word of either shell.\<close>

definition inert :: "char \<Rightarrow> bool" where
  "inert c = (\<not> sh_meta c \<and> \<not> sh_active c \<and> c \<noteq> CHR 0x27 \<and> c \<noteq> CHR 0x22 \<and> c \<noteq> CHR 0x5C)"

definition at_break :: "string \<Rightarrow> bool" where
  "at_break s = (case s of [] \<Rightarrow> True | c # _ \<Rightarrow> c = CHR '' '')"

lemma at_break_simps [simp]: "at_break []" "at_break (c # s) \<longleftrightarrow> c = CHR '' ''"
  by (simp_all add: at_break_def)

text \<open>Reading the arguments of one simple command, up to an operator.\<close>

fun lex_args :: "(string \<Rightarrow> (string \<times> string) option) \<Rightarrow> nat \<Rightarrow> string \<Rightarrow> (string list \<times> string) option" where
  "lex_args word 0 s = None"
| "lex_args word (Suc n) [] = Some ([], [])"
| "lex_args word (Suc n) (c # s) =
     (if c = CHR '' '' then lex_args word n s
      else if sh_meta c then Some ([], c # s)
      else case word (c # s) of
             None \<Rightarrow> None
           | Some (w, r) \<Rightarrow> map_option (\<lambda>(ws, t). (w # ws, t)) (lex_args word n r))"

text \<open>One unit of fuel per character is enough, since every word consumes one.\<close>

definition lex_command :: "(string \<Rightarrow> (string \<times> string) option) \<Rightarrow> string \<Rightarrow> (string list \<times> string) option" where
  "lex_command word s = lex_args word (Suc (length s)) s"

datatype arg = Bare string | Quoted string

definition arg_value :: "arg \<Rightarrow> string" where
  "arg_value a = (case a of Bare s \<Rightarrow> s | Quoted s \<Rightarrow> s)"

definition bare_ok :: "arg \<Rightarrow> bool" where
  "bare_ok a = (case a of Bare s \<Rightarrow> s \<noteq> [] \<and> list_all inert s | Quoted s \<Rightarrow> True)"

locale quoting =
  fixes quote :: "string \<Rightarrow> string"
    and word :: "string \<Rightarrow> (string \<times> string) option"
  assumes word_quote: "at_break s \<Longrightarrow> word (quote v @ s) = Some (v, s)"
    and word_bare: "list_all inert w \<Longrightarrow> w \<noteq> [] \<Longrightarrow> at_break s \<Longrightarrow> word (w @ s) = Some (w, s)"
    and quote_start: "\<exists>c t. quote v = c # t \<and> \<not> sh_meta c"
begin

definition render_arg :: "arg \<Rightarrow> string" where
  "render_arg a = (case a of Bare s \<Rightarrow> s | Quoted s \<Rightarrow> quote s)"

lemma render_arg_start:
  "bare_ok a \<Longrightarrow> \<exists>c t. render_arg a = c # t \<and> \<not> sh_meta c"
proof (cases a)
  case (Bare s)
  assume "bare_ok a"
  with Bare show ?thesis
    by (cases s) (auto simp: bare_ok_def render_arg_def inert_def)
next
  case (Quoted s)
  then show ?thesis using quote_start by (simp add: render_arg_def)
qed

lemma word_render:
  assumes "bare_ok a" and "at_break s"
  shows "word (render_arg a @ s) = Some (arg_value a, s)"
proof (cases a)
  case (Bare w)
  with assms show ?thesis by (simp add: render_arg_def bare_ok_def arg_value_def word_bare)
next
  case (Quoted v)
  with assms show ?thesis by (simp add: render_arg_def arg_value_def word_quote)
qed

text \<open>A line of rendered arguments, then an operator or the end.\<close>

lemma lex_args_render:
  assumes "list_all bare_ok as"
    and "s = [] \<or> (\<exists>c t. s = CHR '' '' # c # t \<and> c \<noteq> CHR '' '' \<and> sh_meta c)"
    and "length (join '' '' (map render_arg as) @ s) < n"
  shows "lex_args word n (join '' '' (map render_arg as) @ s) = Some (map arg_value as, drop 1 s)"
  using assms
proof (induction as arbitrary: n)
  case Nil
  obtain m where m: "n = Suc m" using Nil.prems(3) by (cases n) auto
  show ?case
  proof (cases s)
    case Nil
    with m show ?thesis by simp
  next
    case (Cons b u)
    then obtain c t where s: "s = CHR '' '' # c # t" "c \<noteq> CHR '' ''" "sh_meta c" using Nil.prems(2) by auto
    moreover obtain k where "m = Suc k" using Nil.prems(3) s m by (cases m) auto
    ultimately show ?thesis using m by simp
  qed
next
  case (Cons a as)
  let ?tail = "if as = [] then s else CHR '' '' # join '' '' (map render_arg as) @ s"
  have line: "join '' '' (map render_arg (a # as)) @ s = render_arg a @ ?tail"
    by (cases as) simp_all
  have brk: "at_break ?tail" using Cons.prems(2) by (auto simp: at_break_def)
  from Cons.prems(1) have a: "bare_ok a" and as: "list_all bare_ok as" by simp_all
  from render_arg_start [OF a] obtain c t where ct: "render_arg a = c # t" "\<not> sh_meta c" by blast
  then have c: "c \<noteq> CHR '' ''" by (auto simp: sh_meta_def)
  obtain m where m: "n = Suc m" using Cons.prems(3) by (cases n) auto
  have w: "word (c # t @ ?tail) = Some (arg_value a, ?tail)"
    using word_render [OF a brk] ct by simp
  have step: "lex_args word n (render_arg a @ ?tail) =
      map_option (\<lambda>(ws, u). (arg_value a # ws, u)) (lex_args word m ?tail)"
    using m ct c w by simp
  have "lex_args word m ?tail = Some (map arg_value as, drop 1 s)"
  proof (cases "as = []")
    case True
    have "length s < m" using Cons.prems(3) m ct True by simp
    with Cons.IH [of m] Cons.prems(2) True show ?thesis by simp
  next
    case False
    obtain k where k: "m = Suc k" using Cons.prems(3) m ct unfolding line by (cases m) auto
    have "length (join '' '' (map render_arg as) @ s) < k"
      using Cons.prems(3) m k ct unfolding line using False by simp
    with Cons.IH [OF as Cons.prems(2)] False k show ?thesis by simp
  qed
  then show ?case unfolding line step by simp
qed

lemma lex_command_render:
  assumes "list_all bare_ok as"
  shows "lex_command word (join '' '' (map render_arg as)) = Some (map arg_value as, [])"
  using lex_args_render [OF assms, of "[]"] by (simp add: lex_command_def)

lemma lex_command_render_op:
  assumes "list_all bare_ok as" and "sh_meta c" and "c \<noteq> CHR '' ''"
  shows "lex_command word (join '' '' (map render_arg as) @ CHR '' '' # c # t) =
     Some (map arg_value as, c # t)"
  using lex_args_render [OF assms(1), of "CHR '' '' # c # t"] assms(2,3) by (simp add: lex_command_def)

end

section \<open>The quoting functions keep the contract\<close>

lemma word_cons_Some [simp]: "word_cons c (Some (w, s)) = Some (c # w, s)"
  by (simp add: word_cons_def)

lemma sh_word_single_quoted:
  "sh_word_in SQuote (replace_all (CHR 0x27) [CHR 0x27, CHR 0x22, CHR 0x27, CHR 0x22, CHR 0x27] v @ CHR 0x27 # s) =
     map_option (\<lambda>(w, t). (v @ w, t)) (sh_word_in Plain s)"
proof (induction v)
  case Nil
  then show ?case by (simp add: option.map_ident)
next
  case (Cons c v)
  then show ?case
    by (cases "c = CHR 0x27") (auto simp: word_cons_def option.map_comp comp_def case_prod_beta)
qed

lemma sh_word_break: "at_break s \<Longrightarrow> sh_word_in Plain s = Some ([], s)"
  by (cases s) (auto simp: sh_meta_def)

lemma sh_word_bare: "list_all inert w \<Longrightarrow> at_break s \<Longrightarrow> sh_word_in Plain (w @ s) = Some (w, s)"
  by (induction w) (auto simp: sh_word_break inert_def)

interpretation sh: quoting shellQuote sh_word
proof
  show "sh_word (shellQuote v @ s) = Some (v, s)" if "at_break s" for v s
    using that by (simp add: sh_word_def shellQuote_def sh_word_single_quoted sh_word_break)
  show "sh_word (w @ s) = Some (w, s)" if "list_all inert w" "w \<noteq> []" "at_break s" for w s
    using that by (simp add: sh_word_def sh_word_bare)
  show "\<exists>c t. shellQuote v = c # t \<and> \<not> sh_meta c" for v
    by (simp add: shellQuote_def sh_meta_def)
qed

lemma ps_word_single_quoted:
  "at_break s \<Longrightarrow>
   ps_word_in True (replace_all (CHR 0x27) [CHR 0x27, CHR 0x27] v @ CHR 0x27 # s) = Some (v, s)"
proof (induction v)
  case Nil
  then show ?case by (cases s) (auto simp: sh_meta_def)
next
  case (Cons c v)
  obtain d u where du: "replace_all (CHR 0x27) [CHR 0x27, CHR 0x27] v @ CHR 0x27 # s = d # u"
    by (cases "replace_all (CHR 0x27) [CHR 0x27, CHR 0x27] v") auto
  with Cons show ?case by (cases "c = CHR 0x27") auto
qed

lemma ps_word_bare: "list_all inert w \<Longrightarrow> at_break s \<Longrightarrow> ps_word_in False (w @ s) = Some (w, s)"
proof (induction w)
  case Nil
  then show ?case by (cases s) (auto simp: sh_meta_def)
qed (auto simp: inert_def)

interpretation ps: quoting powerShellQuote ps_word
proof
  show "ps_word (powerShellQuote v @ s) = Some (v, s)" if "at_break s" for v s
    using that by (simp add: ps_word_def powerShellQuote_def ps_word_single_quoted)
  show "ps_word (w @ s) = Some (w, s)" if "list_all inert w" "w \<noteq> []" "at_break s" for w s
    using that by (simp add: ps_word_def ps_word_bare)
  show "\<exists>c t. powerShellQuote v = c # t \<and> \<not> sh_meta c" for v
    by (simp add: powerShellQuote_def sh_meta_def)
qed

section \<open>Command builders\<close>

datatype Platform = Linux | Darwin | Windows | UnknownPlatform

datatype PackageManager =
  Apt | Dnf | Yum | Pacman | Apk | Zypper | Brew | Choco | Winget | UnknownPackageManager

datatype InitSystem = Systemd | InitService | Launchd | WindowsService | UnknownInit

datatype ShellType = ShBash | ShSh | ShPowershell | ShCmd | ShUnknown

record OSInfo =
  platform :: Platform
  distro :: string
  os_version :: string
  arch :: string
  shell :: string
  packageManager :: PackageManager
  init :: InitSystem
  defaultShell :: "ShellType option"
  tempDir :: "string option"

type_synonym environment = "(string \<times> string) list"

definition is_alpha_us :: "char \<Rightarrow> bool" where
  "is_alpha_us c =
     (let n = (of_char c :: nat) in (65 \<le> n \<and> n \<le> 90) \<or> (97 \<le> n \<and> n \<le> 122) \<or> n = 95)"

text \<open>\<open>POSIX_ENV_KEY_PATTERN\<close>: a letter or underscore, then letters, digits, underscores.\<close>

definition env_key_ok :: "string \<Rightarrow> bool" where
  "env_key_ok key =
     (case key of [] \<Rightarrow> False | c # s \<Rightarrow> is_alpha_us c \<and> list_all (\<lambda>d. is_alpha_us d \<or> is_digit d) s)"

fun assertValidEnvironment :: "environment \<Rightarrow> string + unit" where
  "assertValidEnvironment [] = Inr ()"
| "assertValidEnvironment ((key, _) # env) =
     (if env_key_ok key then assertValidEnvironment env
      else Inl (''Invalid environment variable name: '' @ (if key = [] then ''<empty>'' else key) @
                ''. Expected ^[A-Za-z_][A-Za-z0-9_]*$''))"

definition posix_script :: "string \<Rightarrow> string option \<Rightarrow> environment \<Rightarrow> string" where
  "posix_script command cwd env =
     (let withEnv = (if env = [] then command
                     else join ''; '' (map (\<lambda>(key, value). ''export '' @ key @ ''='' @ shellQuote value) env) @
                          ''; '' @ command)
      in if truthy cwd then ''cd '' @ shellQuote (or_else cwd '''') @ '' && '' @ withEnv else withEnv)"

definition buildPosixCommand :: "string \<Rightarrow> string option \<Rightarrow> environment \<Rightarrow> string \<Rightarrow> string + string" where
  "buildPosixCommand command cwd env shellName =
     rbind (assertValidEnvironment env) (\<lambda>_.
       Inr (shellName @ '' -lc '' @ shellQuote (posix_script command cwd env)))"

definition powershell_script :: "string \<Rightarrow> string option \<Rightarrow> environment \<Rightarrow> string" where
  "powershell_script command cwd env =
     (let envPrefix = (if env = [] then ''''
                       else join ''; '' (map (\<lambda>(key, value). ''$env:'' @ key @ '' = '' @ powerShellQuote value) env) @ ''; '');
          cwdPrefix = (if truthy cwd then ''Set-Location -Path '' @ powerShellQuote (or_else cwd '''') @ ''; '' else '''')
      in envPrefix @ cwdPrefix @ command)"

definition buildPowerShellCommand :: "string \<Rightarrow> string option \<Rightarrow> environment \<Rightarrow> string + string" where
  "buildPowerShellCommand command cwd env =
     rbind (assertValidEnvironment env) (\<lambda>_.
       Inr (''powershell -NoLogo -NoProfile -NonInteractive -ExecutionPolicy Bypass -Command '' @
            powerShellQuote (powershell_script command cwd env)))"

definition shell_name :: "OSInfo \<Rightarrow> string" where
  "shell_name osInfo = (if defaultShell osInfo = Some ShBash then ''bash'' else ''sh'')"

definition buildRemoteCommand :: "string \<Rightarrow> OSInfo \<Rightarrow> string option \<Rightarrow> environment \<Rightarrow> string + string" where
  "buildRemoteCommand command osInfo cwd env =
     (if platform osInfo = Windows then buildPowerShellCommand command cwd env
      else buildPosixCommand command cwd env (shell_name osInfo))"

text \<open>\<open>Math.max(1, Math.ceil(timeoutMs / 1000))\<close> for an integral number of milliseconds.\<close>

definition timeout_seconds :: "int \<Rightarrow> int" where
  "timeout_seconds timeoutMs = max 1 (- ((- timeoutMs) div 1000))"

definition buildRemoteCommandWithTimeout ::
  "string \<Rightarrow> OSInfo \<Rightarrow> int \<Rightarrow> string option \<Rightarrow> environment \<Rightarrow> string + string" where
  "buildRemoteCommandWithTimeout command osInfo timeoutMs cwd env =
     rbind (buildRemoteCommand command osInfo cwd env) (\<lambda>remoteCommand.
       if platform osInfo = Windows then Inr remoteCommand
       else Inr (join '' ''
         [''if command -v timeout >/dev/null 2>&1; then'',
          ''timeout -k 2s '' @ show_int (timeout_seconds timeoutMs) @ ''s '' @ remoteCommand @ '';'',
          ''else'',
          remoteCommand @ '';'',
          ''fi'']))"

definition sudo_script :: "string \<Rightarrow> string option \<Rightarrow> string" where
  "sudo_script command cwd =
     ''sudo -n '' @
     (if truthy cwd then ''cd '' @ shellQuote (or_else cwd '''') @ '' && '' @ command else command)"

definition buildSudoCommand :: "string \<Rightarrow> OSInfo \<Rightarrow> string option \<Rightarrow> string + string" where
  "buildSudoCommand command osInfo cwd =
     (if platform osInfo = Windows then Inl ''Sudo is not supported on Windows hosts''
      else buildPosixCommand (sudo_script command cwd) None [] (shell_name osInfo))"

text \<open>\<open>.replace(/\\\\/g, "/")\<close>: two backslashes at a time.\<close>

fun replace_double_backslash :: "string \<Rightarrow> string" where
  "replace_double_backslash (a # b # s) =
     (if a = CHR 0x5C \<and> b = CHR 0x5C then CHR ''/'' # replace_double_backslash s
      else a # replace_double_backslash (b # s))"
| "replace_double_backslash s = s"

definition resolveRemoteTempDir :: "OSInfo \<Rightarrow> string" where
  "resolveRemoteTempDir osInfo =
     (if truthy (tempDir osInfo)
      then replace_all (CHR 0x5C) ''/'' (replace_double_backslash (or_else (tempDir osInfo) ''''))
      else if platform osInfo = Windows then ''C:/Windows/Temp'' else ''/tmp'')"

section \<open>Properties\<close>

lemma shell_name_inert: "bare_ok (Bare (shell_name os))" "bare_ok (Bare ''-lc'')"
  by (auto simp: bare_ok_def shell_name_def inert_def sh_meta_def sh_active_def)

lemma lex_posix_command:
  assumes "buildPosixCommand command cwd env (shell_name os) = Inr line"
  shows "lex_command sh_word line = Some ([shell_name os, ''-lc'', posix_script command cwd env], [])"
proof -
  have "line = join '' '' (map sh.render_arg [Bare (shell_name os), Bare ''-lc'', Quoted (posix_script command cwd env)])"
    using assms by (auto simp: buildPosixCommand_def sh.render_arg_def)
  moreover have ok: "list_all bare_ok [Bare (shell_name os), Bare ''-lc'', Quoted (posix_script command cwd env)]"
    using shell_name_inert by (simp add: bare_ok_def [of "Quoted x" for x])
  ultimately show ?thesis
    using sh.lex_command_render [OF ok] by (simp add: arg_value_def)
qed

lemma lex_cd_prefix:
  "lex_command sh_word (''cd '' @ shellQuote dir @ '' && '' @ rest) = Some ([''cd'', dir], ''&& '' @ rest)"
proof -
  have "list_all bare_ok [Bare ''cd'', Quoted dir]"
    by (simp add: bare_ok_def inert_def sh_meta_def sh_active_def)
  from sh.lex_command_render_op [OF this, of "CHR ''&''" "''& '' @ rest"] show ?thesis
    by (simp add: sh.render_arg_def arg_value_def sh_meta_def)
qed

text \<open>
  C8: Command lines survive quoting. For a POSIX host, whatever the command, working directory
  and environment values are, a shell that reads the line of \<open>buildRemoteCommand\<close> runs the
  host's shell with exactly two arguments, \<open>-lc\<close> and the script; and when a working directory
  is given, the first command of that script is \<open>cd\<close> with exactly that directory, so neither
  can inject a command.
\<close>
theorem buildRemoteCommand_quoting:
  assumes "platform osInfo \<noteq> Windows"
    and "buildRemoteCommand command osInfo cwd env = Inr line"
  shows "lex_command sh_word line =
      Some ([shell_name osInfo, ''-lc'', posix_script command cwd env], []) \<and>
    (truthy cwd \<longrightarrow> (\<exists>rest. lex_command sh_word (posix_script command cwd env) =
      Some ([''cd'', the cwd], ''&& '' @ rest)))"
proof
  show "lex_command sh_word line = Some ([shell_name osInfo, ''-lc'', posix_script command cwd env], [])"
    using assms by (intro lex_posix_command) (simp add: buildRemoteCommand_def)
  show "truthy cwd \<longrightarrow> (\<exists>rest. lex_command sh_word (posix_script command cwd env) =
      Some ([''cd'', the cwd], ''&& '' @ rest))"
    using lex_cd_prefix by (auto simp: posix_script_def Let_def truthy_iff)
qed

definition sample_os :: OSInfo where
  "sample_os = \<lparr>platform = Linux, distro = ''debian'', os_version = ''12'', arch = ''x86_64'',
     shell = ''/bin/bash'', packageManager = Apt, init = Systemd, defaultShell = Some ShBash, tempDir = None\<rparr>"

definition quote_dir :: string where
  "quote_dir = ''/srv/x'' @ [CHR 0x27] @ ''; reboot''"

theorem buildRemoteCommand_quoting_witness:
  "\<exists>line. buildRemoteCommand ''ls'' sample_os (Some quote_dir) [(''A'', ''b c'')] = Inr line \<and>
     lex_command sh_word line = Some ([''bash'', ''-lc'', posix_script ''ls'' (Some quote_dir) [(''A'', ''b c'')]], [])"
proof -
  obtain line where line: "buildRemoteCommand ''ls'' sample_os (Some quote_dir) [(''A'', ''b c'')] = Inr line"
    by (simp add: buildRemoteCommand_def buildPosixCommand_def sample_os_def env_key_ok_def is_alpha_us_def)
  have p: "platform sample_os \<noteq> Windows" and n: "shell_name sample_os = ''bash''"
    by (simp_all add: sample_os_def shell_name_def)
  show ?thesis using buildRemoteCommand_quoting [OF p line] line n by auto
qed

text \<open>
  Environment names are validated. On every platform the builder returns a command exactly
  when all names match \<open>^[A-Za-z_][A-Za-z0-9_]*$\<close>, and otherwise throws, naming the first bad name.
\<close>
theorem buildRemoteCommand_env:
  "(is_ok (buildRemoteCommand command osInfo cwd env) = (\<forall>(key, value) \<in> set env. env_key_ok key)) \<and>
   ((\<forall>(key, value) \<in> set pre. env_key_ok key) \<and> \<not> env_key_ok bad \<longrightarrow>
     buildRemoteCommand command osInfo cwd (pre @ (bad, v) # post) =
       Inl (''Invalid environment variable name: '' @ (if bad = [] then ''<empty>'' else bad) @
            ''. Expected ^[A-Za-z_][A-Za-z0-9_]*$''))"
proof -
  have ok: "is_ok (assertValidEnvironment e) = (\<forall>(key, value) \<in> set e. env_key_ok key)" for e
    by (induction e rule: assertValidEnvironment.induct) auto
  have bad: "\<forall>(key, value) \<in> set p. env_key_ok key \<Longrightarrow> \<not> env_key_ok bad \<Longrightarrow>
      assertValidEnvironment (p @ (bad, v) # post) =
       Inl (''Invalid environment variable name: '' @ (if bad = [] then ''<empty>'' else bad) @
            ''. Expected ^[A-Za-z_][A-Za-z0-9_]*$'')" for p
    by (induction p rule: assertValidEnvironment.induct) auto
  have "is_ok (buildRemoteCommand command osInfo cwd env) = is_ok (assertValidEnvironment env)"
    by (cases "assertValidEnvironment env")
       (simp_all add: buildRemoteCommand_def buildPosixCommand_def buildPowerShellCommand_def)
  then show ?thesis
    using ok bad by (auto simp: buildRemoteCommand_def buildPosixCommand_def buildPowerShellCommand_def)
qed

theorem buildRemoteCommand_env_witness:
  "buildRemoteCommand ''ls'' sample_os None ([(''PATH'', ''x'')] @ (''A;B'', ''y'') # []) =
     Inl (''Invalid environment variable name: '' @ ''A;B'' @ ''. Expected ^[A-Za-z_][A-Za-z0-9_]*$'')"
proof -
  have "\<forall>(key, value) \<in> set [(''PATH'', ''x'')]. env_key_ok key" and "\<not> env_key_ok ''A;B''"
    by code_simp+
  then show ?thesis
    using buildRemoteCommand_env [of "''ls''" sample_os None "[]" "[(''PATH'', ''x'')]" "''A;B''" "''y''" "[]"]
    by (simp split del: if_split)
qed

text \<open>
  With a working directory, \<open>buildSudoCommand\<close> gives \<open>sudo\<close> the \<open>cd\<close> and not the command:
  the first simple command of the script is \<open>sudo -n cd <dir>\<close>, and the requested command
  follows after \<open>&&\<close> outside \<open>sudo\<close>. Without one, the script is \<open>sudo -n\<close> and the command.
\<close>
theorem buildSudoCommand_cwd:
  assumes "platform osInfo \<noteq> Windows" and "buildSudoCommand command osInfo cwd = Inr line"
  shows "lex_command sh_word line = Some ([shell_name osInfo, ''-lc'', sudo_script command cwd], []) \<and>
    (truthy cwd \<longrightarrow>
       lex_command sh_word (sudo_script command cwd) =
         Some ([''sudo'', ''-n'', ''cd'', the cwd], ''&& '' @ command)) \<and>
    (\<not> truthy cwd \<longrightarrow> sudo_script command cwd = ''sudo -n '' @ command)"
proof -
  have "lex_command sh_word line = Some ([shell_name osInfo, ''-lc'', sudo_script command cwd], [])"
    using lex_posix_command [of "sudo_script command cwd" None "[]" osInfo line] assms
    by (simp add: buildSudoCommand_def posix_script_def)
  moreover have "lex_command sh_word (sudo_script command cwd) =
      Some ([''sudo'', ''-n'', ''cd'', the cwd], ''&& '' @ command)" if cwd: "truthy cwd"
  proof -
    obtain d where d: "cwd = Some d" "d \<noteq> []" using cwd by (auto simp: truthy_iff)
    have "list_all bare_ok [Bare ''sudo'', Bare ''-n'', Bare ''cd'', Quoted d]"
      by (simp add: bare_ok_def inert_def sh_meta_def sh_active_def)
    from sh.lex_command_render_op [OF this, of "CHR ''&''" "''& '' @ command"] show ?thesis
      using d by (simp add: sh.render_arg_def arg_value_def sh_meta_def sudo_script_def)
  qed
  ultimately show ?thesis by (simp add: sudo_script_def)
qed

theorem buildSudoCommand_cwd_witness:
  "lex_command sh_word (sudo_script ''id'' (Some ''/srv'')) =
     Some ([''sudo'', ''-n'', ''cd'', ''/srv''], ''&& id'')"
proof -
  have p: "platform sample_os \<noteq> Windows" by (simp add: sample_os_def)
  obtain line where line: "buildSudoCommand ''id'' sample_os (Some ''/srv'') = Inr line"
    by (simp add: buildSudoCommand_def buildPosixCommand_def sample_os_def)
  from buildSudoCommand_cwd [OF p line] show ?thesis by simp
qed

end
