(* ===== verification/RateLimiter.thy ===== *)
theory RateLimiter
  imports Prelude
begin

text \<open>
  The sliding-window-log rate limiter of \<open>src/rate-limiter.ts\<close>. The time of a call
  (\<open>Date.now()\<close>) is an argument. The limiter as a state machine (\<open>rl_step\<close>) interleaves
  checks, the cleanup timer, resets and \<open>destroy\<close>, with a clock that does not go back; the
  component \<open>granted\<close> is a ghost that records the checks that were let through since the
  last reset. The invariant \<open>rl_inv\<close> ties the log of each key to it.
\<close>

record RateLimiterConfig =
  maxRequests :: int
  windowMs :: int
  blockOnLimit :: bool

record RateLimitResult =
  rl_allowed :: bool
  remaining :: int
  resetIn :: int
  blocked :: bool

type_synonym logs = "(string, int list) jmap"

definition new_RateLimiterConfig :: "int option \<Rightarrow> int option \<Rightarrow> bool option \<Rightarrow> RateLimiterConfig" where
  "new_RateLimiterConfig mr wm bl =
     \<lparr>maxRequests = or_else mr 100, windowMs = or_else wm 60000, blockOnLimit = or_else bl True\<rparr>"

definition first_or :: "int list \<Rightarrow> int \<Rightarrow> int" where
  "first_or xs d = (case xs of [] \<Rightarrow> d | x # _ \<Rightarrow> x)"

definition check :: "RateLimiterConfig \<Rightarrow> int \<Rightarrow> string \<Rightarrow> logs \<Rightarrow> logs \<times> RateLimitResult" where
  "check cfg now key ls =
     (let cutoff = now - windowMs cfg;
          log = dropWhile (\<lambda>t. t \<le> cutoff) (or_else (jm_get ls key) [])
      in if maxRequests cfg \<le> int (length log) then
           (jm_set key log ls,
            \<lparr>rl_allowed = \<not> blockOnLimit cfg, remaining = 0,
             resetIn = first_or log now + windowMs cfg - now, blocked = blockOnLimit cfg\<rparr>)
         else let log' = log @ [now] in
           (jm_set key log' ls,
            \<lparr>rl_allowed = True, remaining = max 0 (maxRequests cfg - int (length log')),
             resetIn = windowMs cfg, blocked = False\<rparr>))"

definition reset :: "string \<Rightarrow> logs \<Rightarrow> logs" where
  "reset key ls = jm_delete key ls"

definition getUsage :: "RateLimiterConfig \<Rightarrow> int \<Rightarrow> string \<Rightarrow> logs \<Rightarrow> (int \<times> int \<times> int) option" where
  "getUsage cfg now key ls =
     (case jm_get ls key of
        None \<Rightarrow> None
      | Some log \<Rightarrow>
          let active = filter (\<lambda>t. now - windowMs cfg < t) log in
          if active = [] then None
          else Some (int (length active), max 0 (maxRequests cfg - int (length active)),
                     first_or active now + windowMs cfg - now))"

definition pruneExpiredLogs :: "RateLimiterConfig \<Rightarrow> int \<Rightarrow> logs \<Rightarrow> logs" where
  "pruneExpiredLogs cfg now ls =
     filter (\<lambda>e. snd e \<noteq> []) (map (\<lambda>(k, log). (k, filter (\<lambda>t. now - windowMs cfg < t) log)) ls)"

definition destroy :: "logs \<Rightarrow> logs" where
  "destroy ls = []"

section \<open>The limiter as a state machine\<close>

record limiter =
  rl_logs :: logs
  rl_clock :: int
  granted :: "(string \<times> int) list"

datatype rl_event = Check string int RateLimitResult | Prune int | Reset string | Destroy

definition new_limiter :: "limiter \<Rightarrow> bool" where
  "new_limiter s \<longleftrightarrow> rl_logs s = [] \<and> granted s = []"

inductive rl_step :: "RateLimiterConfig \<Rightarrow> limiter \<Rightarrow> rl_event \<Rightarrow> limiter \<Rightarrow> bool" for cfg where
  rl_check: "rl_clock s \<le> now \<Longrightarrow> check cfg now key (rl_logs s) = (ls, r) \<Longrightarrow>
     rl_step cfg s (Check key now r)
       (s\<lparr>rl_logs := ls, rl_clock := now,
          granted := if rl_allowed r then granted s @ [(key, now)] else granted s\<rparr>)"
| rl_prune: "rl_clock s \<le> now \<Longrightarrow>
     rl_step cfg s (Prune now) (s\<lparr>rl_logs := pruneExpiredLogs cfg now (rl_logs s), rl_clock := now\<rparr>)"
| rl_reset: "rl_step cfg s (Reset key)
     (s\<lparr>rl_logs := reset key (rl_logs s), granted := filter (\<lambda>g. fst g \<noteq> key) (granted s)\<rparr>)"
| rl_destroy: "rl_step cfg s Destroy (s\<lparr>rl_logs := destroy (rl_logs s), granted := []\<rparr>)"

inductive_cases rl_CheckE: "rl_step cfg s (Check key now r) s'"
inductive_cases rl_PruneE: "rl_step cfg s (Prune now) s'"
inductive_cases rl_ResetE: "rl_step cfg s (Reset key) s'"
inductive_cases rl_DestroyE: "rl_step cfg s Destroy s'"

section \<open>Windows\<close>

definition in_window :: "int \<Rightarrow> int \<Rightarrow> int list \<Rightarrow> int list" where
  "in_window w t xs = filter (\<lambda>x. t - w < x \<and> x \<le> t) xs"

definition granted_of :: "string \<Rightarrow> (string \<times> int) list \<Rightarrow> int list" where
  "granted_of k gs = map snd (filter (\<lambda>g. fst g = k) gs)"

lemma granted_of_simps [simp]:
  "granted_of k [] = []"
  "granted_of k (gs @ hs) = granted_of k gs @ granted_of k hs"
  "granted_of k [(k', t)] = (if k' = k then [t] else [])"
  by (simp_all add: granted_of_def)

lemma granted_of_filter:
  "granted_of k (filter (\<lambda>g. fst g \<noteq> key) gs) = (if k = key then [] else granted_of k gs)"
  unfolding granted_of_def by (induction gs) auto

lemma dropWhile_sorted: "sorted xs \<Longrightarrow> dropWhile (\<lambda>t. t \<le> c) xs = filter (\<lambda>t. c < (t::int)) xs"
proof (induction xs)
  case (Cons x xs)
  show ?case
  proof (cases "x \<le> c")
    case False
    then have "\<forall>y \<in> set (x # xs). c < y" using Cons.prems by auto
    then show ?thesis using False by (simp add: filter_id_conv)
  qed (use Cons in auto)
qed simp

text \<open>
  \<open>hist\<close> are the grants of a key, \<open>log\<close> its log, \<open>now\<close> the time of the last event: both are
  ordered, they agree on everything still inside the window, and no window that ends at a
  grant holds more than \<open>m\<close> of them.
\<close>

definition key_inv :: "int \<Rightarrow> nat \<Rightarrow> int \<Rightarrow> int list \<Rightarrow> int list \<Rightarrow> bool" where
  "key_inv w m now hist log \<longleftrightarrow>
     sorted hist \<and> sorted log \<and> (\<forall>x \<in> set hist. x \<le> now) \<and> (\<forall>x \<in> set log. x \<le> now) \<and>
     filter (\<lambda>x. now - w < x) log = filter (\<lambda>x. now - w < x) hist \<and>
     (\<forall>x \<in> set hist. length (in_window w x hist) \<le> m)"

lemma filter_later:
  assumes "filter (\<lambda>x. a < x) xs = filter (\<lambda>x. a < x) ys" and "a \<le> (b::int)"
  shows "filter (\<lambda>x. b < x) xs = filter (\<lambda>x. b < x) ys"
proof -
  have "filter (\<lambda>x. b < x) zs = filter (\<lambda>x. b < x) (filter (\<lambda>x. a < x) zs)" for zs
    using assms(2) by (simp add: filter_filter) (rule filter_cong, auto)
  then show ?thesis using assms(1) by metis
qed

lemma key_inv_drop:
  assumes "key_inv w m now hist log" and "now \<le> now'"
  shows "key_inv w m now' hist (filter (\<lambda>x. now' - w < x) log)"
    and "filter (\<lambda>x. now' - w < x) log = filter (\<lambda>x. now' - w < x) hist"
proof -
  have eq: "filter (\<lambda>x. now' - w < x) log = filter (\<lambda>x. now' - w < x) hist"
  proof (rule filter_later)
    show "filter (\<lambda>x. now - w < x) log = filter (\<lambda>x. now - w < x) hist"
      using assms(1) unfolding key_inv_def by blast
    show "now - w \<le> now' - w" using assms(2) by simp
  qed
  then show "filter (\<lambda>x. now' - w < x) log = filter (\<lambda>x. now' - w < x) hist" .
  have "sorted (filter (\<lambda>x. now' - w < x) log)"
    using assms sorted_filter [of "\<lambda>x. x" log] by (simp add: key_inv_def)
  moreover have "\<forall>x \<in> set hist. x \<le> now'" "\<forall>x \<in> set (filter (\<lambda>x. now' - w < x) log). x \<le> now'"
    using assms by (auto simp: key_inv_def)
  moreover have "filter (\<lambda>x. now' - w < x) (filter (\<lambda>x. now' - w < x) log) = filter (\<lambda>x. now' - w < x) hist"
    using eq by simp
  ultimately show "key_inv w m now' hist (filter (\<lambda>x. now' - w < x) log)"
    using assms(1) unfolding key_inv_def by blast
qed

lemma in_window_append_later:
  "x < t \<Longrightarrow> in_window w x (xs @ [t]) = in_window w x xs"
  by (simp add: in_window_def)

lemma key_inv_grant:
  assumes inv: "key_inv w m now hist log" and now: "now \<le> now'" and w: "0 < w"
    and room: "length (filter (\<lambda>x. now' - w < x) log) < m"
  shows "key_inv w m now' (hist @ [now']) (filter (\<lambda>x. now' - w < x) log @ [now'])"
proof -
  note drop = key_inv_drop [OF inv now]
  have le: "\<forall>x \<in> set hist. x \<le> now'" using inv now by (auto simp: key_inv_def)
  have "in_window w now' hist = filter (\<lambda>x. now' - w < x) hist"
    using le by (auto simp: in_window_def intro!: filter_cong)
  then have "length (in_window w now' (hist @ [now'])) \<le> m"
    using room w drop(2) by (simp add: in_window_def)
  moreover have "length (in_window w x (hist @ [now'])) \<le> m" if "x \<in> set hist" "x < now'" for x
    using inv that by (simp add: in_window_append_later key_inv_def)
  ultimately have "\<forall>x \<in> set (hist @ [now']). length (in_window w x (hist @ [now'])) \<le> m"
    using le by (metis Un_iff empty_iff empty_set le_neq_trans set_ConsD set_append)
  then show ?thesis
    using drop inv now w le by (auto simp: key_inv_def sorted_append sorted_filter [where f = id, simplified])
qed

text \<open>A window that ends anywhere is contained in one that ends at a grant.\<close>

lemma window_bound:
  assumes "\<forall>x \<in> set hist. length (in_window w x hist) \<le> m"
  shows "length (in_window w t hist) \<le> m"
proof (cases "in_window w t hist = []")
  case False
  define x where "x = Max (set (in_window w t hist))"
  have fin: "finite (set (in_window w t hist))" by simp
  have xin: "x \<in> set (in_window w t hist)" unfolding x_def using False by (intro Max_in) auto
  have "in_window w t hist = filter (\<lambda>y. t - w < y) (in_window w x hist)"
  proof -
    have "y \<le> x" if "y \<in> set hist" "t - w < y" "y \<le> t" for y
      unfolding x_def using that by (intro Max_ge [OF fin]) (simp add: in_window_def)
    moreover have "x \<le> t" using xin by (simp add: in_window_def)
    ultimately show ?thesis by (auto simp: in_window_def intro!: filter_cong)
  qed
  then have "length (in_window w t hist) \<le> length (in_window w x hist)"
    by (metis length_filter_le)
  also have "\<dots> \<le> m" using assms xin by (simp add: in_window_def)
  finally show ?thesis .
qed simp

section \<open>The invariant\<close>

definition rl_inv :: "int \<Rightarrow> nat \<Rightarrow> limiter \<Rightarrow> bool" where
  "rl_inv w m s \<longleftrightarrow> jm_wf (rl_logs s) \<and>
     (\<forall>k. key_inv w m (rl_clock s) (granted_of k (granted s)) (or_else (jm_get (rl_logs s) k) []))"

lemma rl_inv_new: "new_limiter s \<Longrightarrow> rl_inv w m s"
  by (simp add: new_limiter_def rl_inv_def key_inv_def)

lemma prune_get:
  "jm_wf ls \<Longrightarrow> or_else (jm_get (pruneExpiredLogs cfg now ls) k) [] =
     filter (\<lambda>t. now - windowMs cfg < t) (or_else (jm_get ls k) [])"
proof (induction ls)
  case (Cons e ls)
  obtain k' log where e: "e = (k', log)" by (cases e)
  from Cons.prems have "jm_wf ls" and "k' \<notin> fst ` set ls" by (simp_all add: jm_wf_def e)
  then have "jm_get ls k' = None" by (simp add: jm_get_None_iff)
  with Cons.IH [OF \<open>jm_wf ls\<close>] show ?case by (auto simp: pruneExpiredLogs_def e)
qed (simp add: pruneExpiredLogs_def)

lemma prune_wf: "jm_wf ls \<Longrightarrow> jm_wf (pruneExpiredLogs cfg now ls)"
  unfolding pruneExpiredLogs_def
  by (rule jm_wf_filter) (simp add: jm_wf_def comp_def case_prod_beta)

lemma key_inv_clock:
  assumes "key_inv w m now hist log" and "now \<le> now'"
  shows "key_inv w m now' hist log"
proof -
  have "filter (\<lambda>x. now' - w < x) log = filter (\<lambda>x. now' - w < x) hist"
    by (rule key_inv_drop(2) [OF assms])
  with assms show ?thesis by (auto simp: key_inv_def)
qed

lemma rl_inv_check:
  assumes inv: "rl_inv (windowMs cfg) m s" and m: "maxRequests cfg = int m"
    and block: "blockOnLimit cfg" and w: "0 < windowMs cfg"
    and clock: "rl_clock s \<le> now" and chk: "check cfg now key (rl_logs s) = (ls, r)"
  shows "rl_inv (windowMs cfg) m
    (s\<lparr>rl_logs := ls, rl_clock := now, granted := if rl_allowed r then granted s @ [(key, now)] else granted s\<rparr>)"
proof -
  let ?log = "or_else (jm_get (rl_logs s) key) []"
  let ?live = "filter (\<lambda>t. now - windowMs cfg < t) ?log"
  have k: "key_inv (windowMs cfg) m (rl_clock s) (granted_of key (granted s)) ?log"
    using inv by (simp add: rl_inv_def)
  then have live: "dropWhile (\<lambda>t. t \<le> now - windowMs cfg) ?log = ?live"
    by (intro dropWhile_sorted) (simp add: key_inv_def)
  have other: "key_inv (windowMs cfg) m now (granted_of k (granted s)) (or_else (jm_get (rl_logs s) k) [])" for k
    using inv unfolding rl_inv_def by (blast intro: key_inv_clock clock)
  show ?thesis
  proof (cases "m \<le> length ?live")
    case True
    then have "ls = jm_set key ?live (rl_logs s)" and "\<not> rl_allowed r"
      using chk m block live by (auto simp: check_def Let_def)
    then have "rl_inv (windowMs cfg) m (s\<lparr>rl_logs := ls, rl_clock := now, granted := granted s\<rparr>)"
      unfolding rl_inv_def using inv other key_inv_drop(1) [OF k clock] by (simp add: rl_inv_def)
    with \<open>\<not> rl_allowed r\<close> show ?thesis by simp
  next
    case False
    then have "ls = jm_set key (?live @ [now]) (rl_logs s)" and "rl_allowed r"
      using chk m live by (auto simp: check_def Let_def)
    moreover have "key_inv (windowMs cfg) m now (granted_of key (granted s) @ [now]) (?live @ [now])"
      using key_inv_grant [OF k clock w] False by simp
    ultimately show ?thesis
      unfolding rl_inv_def using inv other by (simp add: rl_inv_def)
  qed
qed

lemma rl_inv_step:
  assumes "rl_step cfg s e s'" and "rl_inv (windowMs cfg) m s"
    and "maxRequests cfg = int m" and "blockOnLimit cfg" and "0 < windowMs cfg"
  shows "rl_inv (windowMs cfg) m s'"
  using assms(1)
proof cases
  case (rl_check now key ls r)
  then show ?thesis using rl_inv_check [OF assms(2-5)] by blast
next
  case (rl_prune now)
  then show ?thesis
    using assms(2) by (auto simp: rl_inv_def prune_wf prune_get intro: key_inv_drop(1))
next
  case (rl_reset key)
  then show ?thesis
    using assms(2) by (auto simp: rl_inv_def reset_def granted_of_filter key_inv_def)
next
  case rl_destroy
  then show ?thesis by (simp add: rl_inv_def destroy_def key_inv_def)
qed

text \<open>The interface of the limiter: a configuration that blocks, with a positive window.\<close>

locale blocking_limiter =
  fixes cfg :: RateLimiterConfig and m :: nat
  assumes limit: "maxRequests cfg = int m" and block: "blockOnLimit cfg" and window: "0 < windowMs cfg"
begin

sublocale invariant_system new_limiter "rl_step cfg" "rl_inv (windowMs cfg) m"
  by unfold_locales (auto intro: rl_inv_new rl_inv_step simp: limit block window)

lemma granted_bound:
  "new_limiter s \<Longrightarrow> run (rl_step cfg) s es s' \<Longrightarrow>
     length (in_window (windowMs cfg) t (granted_of k (granted s'))) \<le> m"
  using inv_reachable [of s es s'] by (auto simp: rl_inv_def key_inv_def intro: window_bound)

lemma live_log:
  assumes "new_limiter s" and "run (rl_step cfg) s es s'" and "rl_clock s' \<le> now"
    and log: "log = or_else (jm_get (rl_logs s') key) []"
    and live: "live = dropWhile (\<lambda>t. t \<le> now - windowMs cfg) log"
  shows "sorted live" and "length live \<le> m" and "\<forall>x \<in> set live. x \<le> now \<and> now - windowMs cfg < x"
proof -
  have k: "key_inv (windowMs cfg) m (rl_clock s') (granted_of key (granted s')) log"
    using inv_reachable [OF assms(1,2)] unfolding log rl_inv_def by blast
  have eq: "live = filter (\<lambda>t. now - windowMs cfg < t) log"
    unfolding live using k by (intro dropWhile_sorted) (simp add: key_inv_def)
  have le: "\<forall>x \<in> set log. x \<le> now" using k assms(3) by (auto simp: key_inv_def)
  show "sorted live" using k unfolding eq by (simp add: key_inv_def sorted_filter [where f = id, simplified])
  show "\<forall>x \<in> set live. x \<le> now \<and> now - windowMs cfg < x" using le by (auto simp: eq)
  have "live = filter (\<lambda>t. now - windowMs cfg < t) (granted_of key (granted s'))"
    unfolding eq by (rule key_inv_drop(2) [OF k assms(3)])
  also have "\<dots> = in_window (windowMs cfg) now (granted_of key (granted s'))"
    using k assms(3) by (auto simp: in_window_def key_inv_def intro!: filter_cong)
  finally show "length live \<le> m" using granted_bound [OF assms(1,2)] by simp
qed

lemma blocked_until:
  assumes "new_limiter s" and "run (rl_step cfg) s es s'" and "rl_clock s' \<le> now" and "0 < m"
    and chk: "check cfg now key (rl_logs s') = (ls, r)" and "blocked r" and "now \<le> t"
  shows "0 < resetIn r \<and> resetIn r \<le> windowMs cfg \<and>
    (rl_allowed (snd (check cfg t key ls)) \<longleftrightarrow> now + resetIn r \<le> t)"
proof -
  define live where "live = dropWhile (\<lambda>t. t \<le> now - windowMs cfg) (or_else (jm_get (rl_logs s') key) [])"
  note live = live_log [OF assms(1-3) refl live_def]
  have full: "m \<le> length live" and ls: "ls = jm_set key live (rl_logs s')"
    and r: "resetIn r = first_or live now + windowMs cfg - now"
    using chk \<open>blocked r\<close> limit by (auto simp: check_def Let_def live_def split: if_splits)
  then obtain x xs where lx: "live = x # xs" using \<open>0 < m\<close> by (cases live) auto
  have x: "x \<le> now" "now - windowMs cfg < x" using live(3) by (simp_all add: lx)
  have again: "dropWhile (\<lambda>u. u \<le> t - windowMs cfg) live =
      (if now + resetIn r \<le> t then dropWhile (\<lambda>u. u \<le> t - windowMs cfg) xs else live)"
    by (simp add: lx r first_or_def)
  have "length (dropWhile (\<lambda>u. u \<le> t - windowMs cfg) xs) < m"
    using live(2) length_dropWhile_le [of "\<lambda>u. u \<le> t - windowMs cfg" xs] by (simp add: lx)
  then have "rl_allowed (snd (check cfg t key ls)) \<longleftrightarrow> now + resetIn r \<le> t"
    using full again by (simp add: check_def Let_def ls limit block)
  then show ?thesis using x by (simp add: r lx first_or_def)
qed

end

text \<open>Every configuration whose window is positive and that blocks is such a limiter.\<close>

lemma blocking_limiterI:
  "0 \<le> maxRequests cfg \<Longrightarrow> blockOnLimit cfg \<Longrightarrow> 0 < windowMs cfg \<Longrightarrow>
     blocking_limiter cfg (nat (maxRequests cfg))"
  by unfold_locales simp_all

interpretation default_limiter: blocking_limiter "new_RateLimiterConfig None None None" 100
  by unfold_locales (simp_all add: new_RateLimiterConfig_def)

section \<open>Properties\<close>


definition two_per_second :: RateLimiterConfig where
  "two_per_second = new_RateLimiterConfig (Some 2) (Some 1000) None"

definition fresh_limiter :: limiter where
  "fresh_limiter = \<lparr>rl_logs = [], rl_clock = 0, granted = []\<rparr>"

lemma two_per_second_run:
  "run (rl_step two_per_second) fresh_limiter
     [Check ''k'' 10 \<lparr>rl_allowed = True, remaining = 1, resetIn = 1000, blocked = False\<rparr>,
      Check ''k'' 20 \<lparr>rl_allowed = True, remaining = 0, resetIn = 1000, blocked = False\<rparr>]
     \<lparr>rl_logs = [(''k'', [10, 20])], rl_clock = 20, granted = [(''k'', 10), (''k'', 20)]\<rparr>"
proof -
  let ?s1 = "\<lparr>rl_logs = [(''k'', [10])], rl_clock = 10, granted = [(''k'', 10::int)]\<rparr>"
  have 1: "rl_step two_per_second fresh_limiter
     (Check ''k'' 10 \<lparr>rl_allowed = True, remaining = 1, resetIn = 1000, blocked = False\<rparr>) ?s1"
    using rl_check [of fresh_limiter 10 two_per_second "''k''" "[(''k'', [10])]"
      "\<lparr>rl_allowed = True, remaining = 1, resetIn = 1000, blocked = False\<rparr>"]
    by (simp add: check_def fresh_limiter_def two_per_second_def new_RateLimiterConfig_def)
  have 2: "rl_step two_per_second ?s1
     (Check ''k'' 20 \<lparr>rl_allowed = True, remaining = 0, resetIn = 1000, blocked = False\<rparr>)
     \<lparr>rl_logs = [(''k'', [10, 20])], rl_clock = 20, granted = [(''k'', 10), (''k'', 20)]\<rparr>"
    using rl_check [of ?s1 20 two_per_second "''k''" "[(''k'', [10, 20])]"
      "\<lparr>rl_allowed = True, remaining = 0, resetIn = 1000, blocked = False\<rparr>"]
    by (simp add: check_def two_per_second_def new_RateLimiterConfig_def)
  show ?thesis by (rule run_cons, rule 1, rule run_cons, rule 2, rule run_nil)
qed


text \<open>
  The \<open>resetIn\<close> of a refused check is exact. It is positive and at most the window,
  and if nothing happens in between, the next check of that key at time \<open>t\<close> succeeds
  precisely when \<open>t\<close> is at least \<open>resetIn\<close> after the refusal.
\<close>

theorem blocked_resetIn_exact:
  assumes "0 < maxRequests cfg" and "blockOnLimit cfg" and "0 < windowMs cfg"
    and "new_limiter s" and "run (rl_step cfg) s es s'" and "rl_clock s' \<le> now"
    and "check cfg now key (rl_logs s') = (ls, r)" and "blocked r" and "now \<le> t"
  shows "0 < resetIn r \<and> resetIn r \<le> windowMs cfg \<and>
    (rl_allowed (snd (check cfg t key ls)) \<longleftrightarrow> now + resetIn r \<le> t)"
  using blocking_limiter.blocked_until [OF blocking_limiterI assms(4-6) _ assms(7-9)] assms(1-3) by simp

theorem blocked_resetIn_exact_witness:
  "check two_per_second 500 ''k'' [(''k'', [10, 20])] =
     ([(''k'', [10, 20])], \<lparr>rl_allowed = False, remaining = 0, resetIn = 510, blocked = True\<rparr>) \<and>
   (rl_allowed (snd (check two_per_second 1010 ''k'' [(''k'', [10, 20])])) \<longleftrightarrow> 500 + 510 \<le> (1010::int))"
proof -
  have c: "check two_per_second 500 ''k'' [(''k'', [10, 20])] =
     ([(''k'', [10, 20])], \<lparr>rl_allowed = False, remaining = 0, resetIn = 510, blocked = True\<rparr>)"
    by (simp add: check_def two_per_second_def new_RateLimiterConfig_def first_or_def)
  show ?thesis
    using c blocked_resetIn_exact [OF _ _ _ _ two_per_second_run, of 500 "''k''" "[(''k'', [10, 20])]"
      "\<lparr>rl_allowed = False, remaining = 0, resetIn = 510, blocked = True\<rparr>" 1010]
    by (simp add: two_per_second_def new_RateLimiterConfig_def new_limiter_def fresh_limiter_def)
qed

end
