(* ===== verification/Retry.thy ===== *)
theory Retry
  imports Errors Complex_Main
begin

text \<open>
  The retry loop of \<open>src/retry.ts\<close>. Numbers that may be fractional (delays, the multiplier,
  \<open>Math.random()\<close>) are rationals. What the loop observes of its surroundings is the record
  \<open>retry_env\<close>: the outcome of the \<open>n\<close>-th call of \<open>fn\<close>, the value of \<open>Math.random()\<close> drawn
  after it and \<open>Date.now()\<close> at its end (at \<open>0\<close>: at the start). The model returns the result
  together with the sleeps it went through, which are the calls of \<open>onRetry\<close> as well.
\<close>

record RetryOptions =
  maxAttempts :: int
  initialDelayMs :: rat
  maxDelayMs :: rat
  backoffMultiplier :: rat
  jitter :: bool
  isRetryable :: "(thrown \<Rightarrow> bool) option"

record 'a RetryResult =
  success :: bool
  retry_result :: "'a option"
  retry_error :: "thrown option"
  attempts :: int
  totalTimeMs :: int

record 'a retry_env =
  fn :: "nat \<Rightarrow> thrown + 'a"
  random :: "nat \<Rightarrow> rat"
  clock :: "nat \<Rightarrow> int"

definition DEFAULT_OPTIONS :: RetryOptions where
  "DEFAULT_OPTIONS = \<lparr>maxAttempts = 3, initialDelayMs = 1000, maxDelayMs = 30000,
     backoffMultiplier = 2, jitter = True, isRetryable = None\<rparr>"

definition defaultIsRetryable :: "thrown \<Rightarrow> bool" where
  "defaultIsRetryable error =
     (case error of
        ThrownOther _ \<Rightarrow> False
      | _ \<Rightarrow> let message = toLowerCase (thrown_message error) in
          js_includes message ''timeout'' \<or> js_includes message ''etimedout'' \<or>
          js_includes message ''econnreset'' \<or> js_includes message ''econnrefused'' \<or>
          js_includes message ''epipe'' \<or> js_includes message ''network'' \<or>
          js_includes message ''socket hang up'')"

definition calculateDelay :: "rat \<Rightarrow> nat \<Rightarrow> RetryOptions \<Rightarrow> rat" where
  "calculateDelay rnd attempt opts =
     (let exponentialDelay = initialDelayMs opts * backoffMultiplier opts ^ (attempt - 1);
          cappedDelay = min exponentialDelay (maxDelayMs opts)
      in if jitter opts then
           let jitterRange = cappedDelay * (1/4); jit = (rnd * 2 - 1) * jitterRange
           in max 0 (cappedDelay + jit)
         else cappedDelay)"

text \<open>\<open>{ ...DEFAULT_OPTIONS, ...options }\<close>: the given fields replace the defaults.\<close>

record partial_options =
  p_maxAttempts :: "int option"
  p_initialDelayMs :: "rat option"
  p_maxDelayMs :: "rat option"
  p_backoffMultiplier :: "rat option"
  p_jitter :: "bool option"
  p_isRetryable :: "(thrown \<Rightarrow> bool) option"

definition merge_options :: "partial_options \<Rightarrow> RetryOptions" where
  "merge_options p =
     \<lparr>maxAttempts = or_else (p_maxAttempts p) (maxAttempts DEFAULT_OPTIONS),
      initialDelayMs = or_else (p_initialDelayMs p) (initialDelayMs DEFAULT_OPTIONS),
      maxDelayMs = or_else (p_maxDelayMs p) (maxDelayMs DEFAULT_OPTIONS),
      backoffMultiplier = or_else (p_backoffMultiplier p) (backoffMultiplier DEFAULT_OPTIONS),
      jitter = or_else (p_jitter p) (jitter DEFAULT_OPTIONS),
      isRetryable = p_isRetryable p\<rparr>"

text \<open>\<open>opts.isRetryable ?? defaultIsRetryable\<close>.\<close>

definition retry_predicate :: "RetryOptions \<Rightarrow> thrown \<Rightarrow> bool" where
  "retry_predicate opts = or_else (isRetryable opts) defaultIsRetryable"

type_synonym sleeps = "(nat \<times> thrown \<times> rat) list"

definition failed_result :: "'a retry_env \<Rightarrow> RetryOptions \<Rightarrow> nat \<Rightarrow> thrown option \<Rightarrow> 'a RetryResult" where
  "failed_result env opts calls lastError =
     \<lparr>success = False, retry_result = None, retry_error = lastError,
      attempts = maxAttempts opts, totalTimeMs = clock env calls - clock env 0\<rparr>"

text \<open>The \<open>for\<close> loop, entered with the next attempt and the last error.\<close>

function retry_loop :: "'a retry_env \<Rightarrow> RetryOptions \<Rightarrow> nat \<Rightarrow> thrown option \<Rightarrow> 'a RetryResult \<times> sleeps" where
  "retry_loop env opts attempt lastError =
     (if int attempt \<le> maxAttempts opts then
        (case fn env attempt of
           Inr result \<Rightarrow>
             (\<lparr>success = True, retry_result = Some result, retry_error = None,
               attempts = int attempt, totalTimeMs = clock env attempt - clock env 0\<rparr>, [])
         | Inl error \<Rightarrow>
             if maxAttempts opts \<le> int attempt \<or> \<not> retry_predicate opts error then
               (failed_result env opts attempt (Some error), [])
             else
               let delayMs = calculateDelay (random env attempt) attempt opts;
                   (r, sl) = retry_loop env opts (attempt + 1) (Some error)
               in (r, (attempt, error, delayMs) # sl))
      else (failed_result env opts (attempt - 1) lastError, []))"
  by pat_completeness auto
termination
  by (relation "measure (\<lambda>(env, opts, attempt, _). nat (maxAttempts opts + 1 - int attempt))") auto

declare retry_loop.simps [simp del]

text \<open>\<open>withRetry\<close> once the options are merged; \<open>retry\<close> throws the error of a failed result
  (\<open>undefined\<close> when there was no attempt).\<close>

definition withRetry :: "'a retry_env \<Rightarrow> RetryOptions \<Rightarrow> 'a RetryResult \<times> sleeps" where
  "withRetry env opts = retry_loop env opts 1 None"

definition retry :: "'a retry_env \<Rightarrow> partial_options \<Rightarrow> thrown option + 'a option" where
  "retry env options =
     (let r = fst (withRetry env (merge_options options)) in if success r then Inr (retry_result r) else Inl (retry_error r))"

section \<open>The loop stops at the first success or the first error it does not retry\<close>

definition retries :: "'a retry_env \<Rightarrow> RetryOptions \<Rightarrow> nat \<Rightarrow> bool" where
  "retries env opts i \<longleftrightarrow> int i < maxAttempts opts \<and> (\<exists>e. fn env i = Inl e \<and> retry_predicate opts e)"

lemma retry_loop_stop:
  assumes "attempt \<le> n" and "\<forall>i \<in> {attempt..<n}. retries env opts i"
    and "\<not> retries env opts n" and "int n \<le> maxAttempts opts"
  shows "retry_loop env opts attempt le =
    ((case fn env n of
        Inr x \<Rightarrow> \<lparr>success = True, retry_result = Some x, retry_error = None, attempts = int n,
                 totalTimeMs = clock env n - clock env 0\<rparr>
      | Inl e \<Rightarrow> failed_result env opts n (Some e)),
     map (\<lambda>i. (i, projl (fn env i), calculateDelay (random env i) i opts)) [attempt..<n])"
  using assms
proof (induction env opts attempt le rule: retry_loop.induct)
  case (1 env opts attempt le)
  show ?case
  proof (cases "attempt = n")
    case True
    then show ?thesis
      using "1.prems" by (subst retry_loop.simps) (auto simp: retries_def split: sum.splits)
  next
    case False
    then have lt: "attempt < n" using "1.prems" by simp
    then have "retries env opts attempt" using "1.prems" by simp
    then obtain e where e: "fn env attempt = Inl e" "retry_predicate opts e" "int attempt < maxAttempts opts"
      by (auto simp: retries_def)
    have IH: "retry_loop env opts (attempt + 1) (Some e) =
      ((case fn env n of
        Inr x \<Rightarrow> \<lparr>success = True, retry_result = Some x, retry_error = None, attempts = int n,
                 totalTimeMs = clock env n - clock env 0\<rparr>
      | Inl e \<Rightarrow> failed_result env opts n (Some e)),
     map (\<lambda>i. (i, projl (fn env i), calculateDelay (random env i) i opts)) [attempt + 1..<n])"
      using "1.IH" [of e "calculateDelay (random env attempt) attempt opts"] e lt "1.prems" by auto
    show ?thesis
      using e lt by (simp add: retry_loop.simps [of env opts attempt] IH [simplified] upt_conv_Cons)
  qed
qed

lemma retry_stop_exists:
  assumes "1 \<le> maxAttempts opts"
  obtains n where "1 \<le> n" and "int n \<le> maxAttempts opts" and "\<forall>i \<in> {1..<n}. retries env opts i"
    and "\<not> retries env opts n"
proof -
  define P where "P n \<longleftrightarrow> 1 \<le> n \<and> \<not> retries env opts n" for n
  have "P (nat (maxAttempts opts))" using assms by (auto simp: P_def retries_def)
  then obtain n where n: "P n" "\<forall>i < n. \<not> P i" "n \<le> nat (maxAttempts opts)"
    by (metis LeastI_ex Least_le not_less_Least)
  then show thesis using assms by (intro that [of n]) (auto simp: P_def)
qed

lemma calculateDelay_bounds:
  assumes "0 \<le> initialDelayMs opts" and "0 \<le> backoffMultiplier opts" and "0 \<le> maxDelayMs opts"
    and "0 \<le> rnd" and "rnd \<le> 1"
  shows "0 \<le> calculateDelay rnd n opts" and "calculateDelay rnd n opts \<le> maxDelayMs opts * (5/4)"
proof -
  define c where "c = min (initialDelayMs opts * backoffMultiplier opts ^ (n - 1)) (maxDelayMs opts)"
  have c: "0 \<le> c" "c \<le> maxDelayMs opts" using assms by (simp_all add: c_def)
  have eq: "calculateDelay rnd n opts = (if jitter opts then max 0 (c + (rnd * 2 - 1) * (c * (1/4))) else c)"
    by (simp add: calculateDelay_def c_def Let_def)
  show "0 \<le> calculateDelay rnd n opts" using c by (simp add: eq)
  have "(rnd * 2 - 1) * (c * (1/4)) \<le> 1 * (c * (1/4))"
    using assms(5) c by (intro mult_right_mono) auto
  then have "c + (rnd * 2 - 1) * (c * (1/4)) \<le> c * (5/4)" by linarith
  also have "\<dots> \<le> maxDelayMs opts * (5/4)" using c by linarith
  finally have "max 0 (c + (rnd * 2 - 1) * (c * (1/4))) \<le> maxDelayMs opts * (5/4)"
    using assms(3) by (intro max.boundedI) auto
  moreover have "c \<le> maxDelayMs opts * (5/4)" using c by linarith
  ultimately show "calculateDelay rnd n opts \<le> maxDelayMs opts * (5/4)" unfolding eq by (cases "jitter opts") auto
qed

section \<open>Properties\<close>

text \<open>
  The retry loop is correct. With at least one attempt it ends after some call \<open>n\<close>, no later than
  \<open>maxAttempts\<close>; every call before it failed with a retryable error and was followed by
  one sleep of \<open>calculateDelay\<close>, and it succeeds exactly when call \<open>n\<close> does, with that
  call's value and number. A failure carries the error of call \<open>n\<close>, which is the last
  one allowed or is not retryable.
\<close>

theorem withRetry_correct:
  assumes "1 \<le> maxAttempts opts"
  shows "\<exists>n. 1 \<le> n \<and> int n \<le> maxAttempts opts \<and>
    (\<forall>i \<in> {1..<n}. \<exists>e. fn env i = Inl e \<and> retry_predicate opts e) \<and>
    snd (withRetry env opts) =
      map (\<lambda>i. (i, projl (fn env i), calculateDelay (random env i) i opts)) [1..<n] \<and>
    (case fn env n of
       Inr x \<Rightarrow> success (fst (withRetry env opts)) \<and> retry_result (fst (withRetry env opts)) = Some x \<and>
                attempts (fst (withRetry env opts)) = int n
     | Inl e \<Rightarrow> \<not> success (fst (withRetry env opts)) \<and> retry_error (fst (withRetry env opts)) = Some e \<and>
                (int n = maxAttempts opts \<or> \<not> retry_predicate opts e))"
proof -
  obtain n where n: "1 \<le> n" "int n \<le> maxAttempts opts" "\<forall>i \<in> {1..<n}. retries env opts i"
    "\<not> retries env opts n"
    using retry_stop_exists [OF assms] by blast
  note eq = retry_loop_stop [OF n(1,3,4,2), of None, folded withRetry_def]
  show ?thesis
    using n by (intro exI [of _ n]) (auto simp: eq retries_def failed_result_def split: sum.splits)
qed

definition flaky_env :: "string retry_env" where
  "flaky_env = \<lparr>fn = (\<lambda>n. if n < 3 then Inl (ThrownError ''read ECONNRESET'') else Inr ''ok''),
     random = (\<lambda>_. 1/2), clock = int\<rparr>"

theorem withRetry_correct_witness:
  "\<exists>n. 1 \<le> n \<and> int n \<le> maxAttempts DEFAULT_OPTIONS \<and>
    snd (withRetry flaky_env DEFAULT_OPTIONS) =
      map (\<lambda>i. (i, projl (fn flaky_env i), calculateDelay (random flaky_env i) i DEFAULT_OPTIONS)) [1..<n]"
  using withRetry_correct [of DEFAULT_OPTIONS flaky_env] by (auto simp: DEFAULT_OPTIONS_def)

text \<open>
  Every sleep between two attempts is bounded: not negative and at most \<open>5/4\<close> of
  \<open>maxDelayMs\<close>, whatever \<open>Math.random()\<close> returns.
\<close>

theorem withRetry_delays_bounded:
  assumes "1 \<le> maxAttempts opts" and "0 \<le> initialDelayMs opts" and "0 \<le> backoffMultiplier opts"
    and "0 \<le> maxDelayMs opts" and "\<forall>i. 0 \<le> random env i \<and> random env i < 1"
    and "(i, e, delay) \<in> set (snd (withRetry env opts))"
  shows "0 \<le> delay \<and> delay \<le> maxDelayMs opts * (5/4)"
proof -
  obtain n where n: "1 \<le> n" "int n \<le> maxAttempts opts" "\<forall>i \<in> {1..<n}. retries env opts i"
    "\<not> retries env opts n"
    using retry_stop_exists [OF assms(1)] by blast
  have "delay = calculateDelay (random env i) i opts"
    using assms(6) unfolding withRetry_def retry_loop_stop [OF n(1,3,4,2)] by auto
  moreover have "0 \<le> random env i" "random env i \<le> 1" using assms(5) by (simp_all add: less_imp_le)
  ultimately show ?thesis using calculateDelay_bounds [OF assms(2-4)] by simp
qed

lemma flaky_sleeps:
  "snd (withRetry flaky_env DEFAULT_OPTIONS) =
     [(1, ThrownError ''read ECONNRESET'', 1000), (2, ThrownError ''read ECONNRESET'', 2000)]"
proof -
  have r: "retry_predicate DEFAULT_OPTIONS (ThrownError ''read ECONNRESET'')"
    by (simp add: retry_predicate_def DEFAULT_OPTIONS_def) code_simp
  have "\<forall>i \<in> {1..<3}. retries flaky_env DEFAULT_OPTIONS i"
    using r by (auto simp: retries_def flaky_env_def DEFAULT_OPTIONS_def)
  note eq = retry_loop_stop [OF _ this, of None, folded withRetry_def]
  show ?thesis
    by (subst eq) (simp_all add: retries_def flaky_env_def DEFAULT_OPTIONS_def upt_rec calculateDelay_def)
qed

theorem withRetry_delays_bounded_witness:
  "(2, ThrownError ''read ECONNRESET'', 2000) \<in> set (snd (withRetry flaky_env DEFAULT_OPTIONS)) \<and>
   0 \<le> (2000::rat) \<and> 2000 \<le> maxDelayMs DEFAULT_OPTIONS * (5/4)"
proof -
  have "1 \<le> maxAttempts DEFAULT_OPTIONS" "0 \<le> initialDelayMs DEFAULT_OPTIONS"
    "0 \<le> backoffMultiplier DEFAULT_OPTIONS" "0 \<le> maxDelayMs DEFAULT_OPTIONS"
    "\<forall>i. 0 \<le> random flaky_env i \<and> random flaky_env i < 1"
    by (simp_all add: DEFAULT_OPTIONS_def flaky_env_def)
  note bound = withRetry_delays_bounded [OF this, of 2 "ThrownError ''read ECONNRESET''" 2000]
  show ?thesis using bound by (simp add: flaky_sleeps)
qed

text \<open>
  A failure always reports \<open>maxAttempts\<close> attempts, also when the loop gave up early: if
  the first call fails with an error that is not retryable, exactly one call was made (there
  is no sleep and the clock is the one after call 1) and the result still says
  \<open>maxAttempts\<close>.
\<close>

theorem withRetry_attempts_overcount:
  assumes "1 \<le> maxAttempts opts" and "fn env 1 = Inl e" and "\<not> retry_predicate opts e"
  shows "withRetry env opts =
    (\<lparr>success = False, retry_result = None, retry_error = Some e, attempts = maxAttempts opts,
      totalTimeMs = clock env 1 - clock env 0\<rparr>, [])"
  unfolding withRetry_def using assms by (subst retry_loop.simps) (simp add: failed_result_def)

definition auth_failure_env :: "string retry_env" where
  "auth_failure_env = \<lparr>fn = (\<lambda>_. Inl (ThrownError ''denied'')), random = (\<lambda>_. 0), clock = int\<rparr>"

theorem withRetry_attempts_overcount_witness:
  "attempts (fst (withRetry auth_failure_env DEFAULT_OPTIONS)) = 3"
proof -
  have "\<not> retry_predicate DEFAULT_OPTIONS (ThrownError ''denied'')"
    by (simp add: retry_predicate_def DEFAULT_OPTIONS_def) code_simp
  then show ?thesis
    using withRetry_attempts_overcount [of DEFAULT_OPTIONS auth_failure_env "ThrownError ''denied''"]
    by (simp add: DEFAULT_OPTIONS_def auth_failure_env_def)
qed

end
