(* ===== verification/RemoteTypes.thy ===== *)
theory RemoteTypes
  imports Prelude
begin

text \<open>
  The vocabulary of the remote-agent control plane (\<open>src/remote/types.ts\<close>): capabilities,
  tools and error codes as enumerations, their printed names, the tables that tie scopes
  and tools to capabilities, and the records the control plane, the store and the agent
  exchange. Times that the code keeps as ISO strings are the milliseconds they stand for.
\<close>

section \<open>Capabilities\<close>

datatype RemoteCapability =
  HostsRead | AgentsRead | AgentsAdmin | SystemRead | LogsRead | ServiceManage | DockerManage
| FilesRead | FilesWrite | ShellExec | SudoExec | AgentAdmin | AuditRead

definition REMOTE_CAPABILITIES :: "RemoteCapability list" where
  "REMOTE_CAPABILITIES =
     [HostsRead, AgentsRead, AgentsAdmin, SystemRead, LogsRead, ServiceManage, DockerManage,
      FilesRead, FilesWrite, ShellExec, SudoExec, AgentAdmin, AuditRead]"

instantiation RemoteCapability :: enum
begin

definition enum_RemoteCapability_def: "enum_class.enum = REMOTE_CAPABILITIES"

definition enum_all_RemoteCapability_def:
  "enum_class.enum_all P = list_all (P :: RemoteCapability \<Rightarrow> bool) REMOTE_CAPABILITIES"

definition enum_ex_RemoteCapability_def:
  "enum_class.enum_ex P = list_ex (P :: RemoteCapability \<Rightarrow> bool) REMOTE_CAPABILITIES"

instance
proof
  have all: "c \<in> set REMOTE_CAPABILITIES" for c
    by (cases c) (simp_all add: REMOTE_CAPABILITIES_def)
  show univ: "(UNIV :: RemoteCapability set) = set enum_class.enum"
    using all by (auto simp: enum_RemoteCapability_def)
  show "distinct (enum_class.enum :: RemoteCapability list)"
    by (simp add: enum_RemoteCapability_def REMOTE_CAPABILITIES_def)
  show "enum_class.enum_all P \<longleftrightarrow> Ball UNIV P" for P :: "RemoteCapability \<Rightarrow> bool"
    unfolding univ by (simp add: enum_all_RemoteCapability_def enum_RemoteCapability_def list_all_iff)
  show "enum_class.enum_ex P \<longleftrightarrow> Bex UNIV P" for P :: "RemoteCapability \<Rightarrow> bool"
    unfolding univ by (simp add: enum_ex_RemoteCapability_def enum_RemoteCapability_def list_ex_iff)
qed

end

lemma REMOTE_CAPABILITIES_complete [simp]: "set REMOTE_CAPABILITIES = UNIV"
  using UNIV_enum [where 'a = RemoteCapability] by (simp add: enum_RemoteCapability_def)

lemma REMOTE_CAPABILITIES_distinct [simp]: "distinct REMOTE_CAPABILITIES"
  using enum_distinct [where 'a = RemoteCapability] by (simp add: enum_RemoteCapability_def)

fun capability_name :: "RemoteCapability \<Rightarrow> string" where
  "capability_name HostsRead = ''hosts.read''"
| "capability_name AgentsRead = ''agents.read''"
| "capability_name AgentsAdmin = ''agents.admin''"
| "capability_name SystemRead = ''system.read''"
| "capability_name LogsRead = ''logs.read''"
| "capability_name ServiceManage = ''service.manage''"
| "capability_name DockerManage = ''docker.manage''"
| "capability_name FilesRead = ''files.read''"
| "capability_name FilesWrite = ''files.write''"
| "capability_name ShellExec = ''shell.exec''"
| "capability_name SudoExec = ''sudo.exec''"
| "capability_name AgentAdmin = ''agent.admin''"
| "capability_name AuditRead = ''audit.read''"

section \<open>Scopes\<close>

definition REMOTE_SCOPES :: "string list" where
  "REMOTE_SCOPES =
     [''hosts:read'', ''agents:read'', ''agents:admin'', ''status:read'', ''logs:read'',
      ''service:manage'', ''docker:manage'', ''files:read'', ''files:write'', ''shell:exec'',
      ''sudo:exec'']"

definition SCOPE_CAPABILITY_MAP :: "(string \<times> RemoteCapability list) list" where
  "SCOPE_CAPABILITY_MAP =
     [(''hosts:read'', [HostsRead]),
      (''agents:read'', [AgentsRead]),
      (''agents:admin'', [AgentsAdmin, AgentAdmin, AuditRead]),
      (''status:read'', [SystemRead]),
      (''logs:read'', [LogsRead]),
      (''service:manage'', [ServiceManage]),
      (''docker:manage'', [DockerManage]),
      (''files:read'', [FilesRead]),
      (''files:write'', [FilesWrite]),
      (''shell:exec'', [ShellExec]),
      (''sudo:exec'', [SudoExec])]"

lemma scope_map_keys: "map fst SCOPE_CAPABILITY_MAP = REMOTE_SCOPES"
  by (simp add: SCOPE_CAPABILITY_MAP_def REMOTE_SCOPES_def)

lemma REMOTE_SCOPES_distinct: "distinct REMOTE_SCOPES"
  by (simp add: REMOTE_SCOPES_def)

section \<open>Agent policies\<close>

datatype AgentProfileName = ReadOnly | Operations | FullAdmin | Custom

record AgentPolicy =
  ap_profile :: AgentProfileName
  capabilities :: "RemoteCapability \<Rightarrow> bool"
  allowPaths :: "string list"
  denyPaths :: "string list"
  allowServices :: "string list"
  allowContainers :: "string list"
  maxOutputBytes :: int
  maxActionTimeoutSeconds :: int
  policy_ver :: int

section \<open>Tools\<close>

datatype RemoteToolName =
  ListHosts | ListAgents | CreateEnrollmentToken | GetAgentInstallCommand | GetSystemStatus
| TailLogs | RestartService | DockerPs | DockerLogs | DockerRestart | FileRead | FileWrite
| RunShell | RunShellAsRoot | UpdateAgentPolicy | RevokeAgent | GetAuditEvents

definition REMOTE_TOOLS :: "RemoteToolName list" where
  "REMOTE_TOOLS =
     [ListHosts, ListAgents, CreateEnrollmentToken, GetAgentInstallCommand, GetSystemStatus,
      TailLogs, RestartService, DockerPs, DockerLogs, DockerRestart, FileRead, FileWrite,
      RunShell, RunShellAsRoot, UpdateAgentPolicy, RevokeAgent, GetAuditEvents]"

lemma REMOTE_TOOLS_complete [simp]: "t \<in> set REMOTE_TOOLS"
  by (cases t) (simp_all add: REMOTE_TOOLS_def)

lemma REMOTE_TOOLS_distinct [simp]: "distinct REMOTE_TOOLS"
  by (simp add: REMOTE_TOOLS_def)

fun tool_name :: "RemoteToolName \<Rightarrow> string" where
  "tool_name ListHosts = ''list_hosts''"
| "tool_name ListAgents = ''list_agents''"
| "tool_name CreateEnrollmentToken = ''create_enrollment_token''"
| "tool_name GetAgentInstallCommand = ''get_agent_install_command''"
| "tool_name GetSystemStatus = ''get_system_status''"
| "tool_name TailLogs = ''tail_logs''"
| "tool_name RestartService = ''restart_service''"
| "tool_name DockerPs = ''docker_ps''"
| "tool_name DockerLogs = ''docker_logs''"
| "tool_name DockerRestart = ''docker_restart''"
| "tool_name FileRead = ''file_read''"
| "tool_name FileWrite = ''file_write''"
| "tool_name RunShell = ''run_shell''"
| "tool_name RunShellAsRoot = ''run_shell_as_root''"
| "tool_name UpdateAgentPolicy = ''update_agent_policy''"
| "tool_name RevokeAgent = ''revoke_agent''"
| "tool_name GetAuditEvents = ''get_audit_events''"

fun TOOL_CAPABILITY_MAP :: "RemoteToolName \<Rightarrow> RemoteCapability" where
  "TOOL_CAPABILITY_MAP ListHosts = HostsRead"
| "TOOL_CAPABILITY_MAP ListAgents = AgentsRead"
| "TOOL_CAPABILITY_MAP CreateEnrollmentToken = AgentsAdmin"
| "TOOL_CAPABILITY_MAP GetAgentInstallCommand = AgentsAdmin"
| "TOOL_CAPABILITY_MAP GetSystemStatus = SystemRead"
| "TOOL_CAPABILITY_MAP TailLogs = LogsRead"
| "TOOL_CAPABILITY_MAP RestartService = ServiceManage"
| "TOOL_CAPABILITY_MAP DockerPs = DockerManage"
| "TOOL_CAPABILITY_MAP DockerLogs = DockerManage"
| "TOOL_CAPABILITY_MAP DockerRestart = DockerManage"
| "TOOL_CAPABILITY_MAP FileRead = FilesRead"
| "TOOL_CAPABILITY_MAP FileWrite = FilesWrite"
| "TOOL_CAPABILITY_MAP RunShell = ShellExec"
| "TOOL_CAPABILITY_MAP RunShellAsRoot = SudoExec"
| "TOOL_CAPABILITY_MAP UpdateAgentPolicy = AgentsAdmin"
| "TOOL_CAPABILITY_MAP RevokeAgent = AgentsAdmin"
| "TOOL_CAPABILITY_MAP GetAuditEvents = AuditRead"

text \<open>\<open>toolSchema\<close>: the tool a name stands for.\<close>

definition tool_of_name :: "string \<Rightarrow> RemoteToolName option" where
  "tool_of_name s = find (\<lambda>t. tool_name t = s) REMOTE_TOOLS"

lemma tool_names_distinct: "distinct (map tool_name REMOTE_TOOLS)"
  by code_simp

lemma tool_name_inj: "tool_name a = tool_name b \<longleftrightarrow> a = b"
  using tool_names_distinct by (auto simp: distinct_map inj_on_def)

lemma tool_of_name_name [simp]: "tool_of_name (tool_name t) = Some t"
proof -
  have "tool_of_name (tool_name t) \<noteq> None"
    using REMOTE_TOOLS_complete [of t] by (auto simp: tool_of_name_def find_None_iff)
  then show ?thesis by (auto simp: tool_of_name_def tool_name_inj find_Some_iff)
qed

section \<open>Errors\<close>

datatype RemoteErrorCode =
  UNAUTHORIZED | FORBIDDEN | INVALID_TOKEN | INVALID_SCOPE | INVALID_CLIENT
| INVALID_REDIRECT_URI | PKCE_VALIDATION_FAILED | AGENT_NOT_FOUND | AGENT_OFFLINE
| AGENT_REVOKED | AGENT_TIMEOUT | POLICY_DENIED | CAPABILITY_DENIED | ACTION_EXPIRED
| ACTION_REPLAY_DETECTED | SIGNATURE_INVALID | COMMAND_TIMEOUT | OUTPUT_TRUNCATED
| UNSUPPORTED_PLATFORM | UNSUPPORTED_PLATFORM_OR_PRIVILEGE | INTERNAL_ERROR

section \<open>Records\<close>

record OAuthClient =
  oc_id :: string
  oc_clientId :: string
  oc_clientName :: string
  oc_redirectUris :: "string list"
  oc_grantTypes :: "string list"
  oc_responseTypes :: "string list"
  oc_createdAt :: int

record OAuthAuthorizationCode =
  ac_id :: string
  ac_codeHash :: string
  ac_clientId :: string
  ac_userId :: string
  ac_redirectUri :: string
  ac_codeChallenge :: string
  ac_resource :: string
  ac_scope :: string
  ac_expiresAt :: int
  ac_usedAt :: "int option"
  ac_createdAt :: int

record AgentHostMetadata =
  hm_hostname :: string
  hm_os :: string
  hm_arch :: string
  hm_platform :: string

datatype agent_status = Pending | Online | Offline | Revoked

record RemoteAgentRecord =
  ag_id :: string
  ag_userId :: string
  ag_alias :: string
  ag_status :: agent_status
  ag_publicKey :: "string option"
  ag_profile :: AgentProfileName
  ag_policy :: AgentPolicy
  ag_policyVersion :: int
  ag_hostMetadata :: "AgentHostMetadata option"
  ag_lastSeenAt :: "int option"
  ag_createdAt :: int
  ag_updatedAt :: int

record AgentEnrollmentTokenRecord =
  et_id :: string
  et_agentId :: string
  et_userId :: string
  et_tokenHash :: string
  et_expiresAt :: int
  et_usedAt :: "int option"
  et_createdAt :: int

end
