(* ===== verification/RemotePolicy.thy ===== *)
theory RemotePolicy
  imports RemoteTypes Paths
begin

text \<open>
  The agent-side policy of \<open>src/remote/policy.ts\<close>, the scopes of \<open>src/remote/scopes.ts\<close>,
  the list parser of \<open>src/remote/util.ts\<close> and the tool listing of
  \<open>src/remote/mcp-tools.ts\<close> (names and capabilities; the descriptions and JSON schemas are
  data for the client). A policy patch has the optional fields of \<open>AgentPolicyPatch\<close>.
\<close>

section \<open>Profiles\<close>

definition allCapabilities :: "bool \<Rightarrow> RemoteCapability \<Rightarrow> bool" where
  "allCapabilities v = (\<lambda>_. v)"

definition profile_capabilities :: "AgentProfileName \<Rightarrow> RemoteCapability \<Rightarrow> bool" where
  "profile_capabilities profile =
     (case profile of
        ReadOnly \<Rightarrow> (allCapabilities False)
          (HostsRead := True, AgentsRead := True, SystemRead := True, LogsRead := True, AuditRead := True)
      | Operations \<Rightarrow> (allCapabilities False)
          (HostsRead := True, AgentsRead := True, SystemRead := True, LogsRead := True,
           ServiceManage := True, DockerManage := True, FilesRead := True, AuditRead := True)
      | FullAdmin \<Rightarrow> fold (\<lambda>c b. b(c := True)) REMOTE_CAPABILITIES (allCapabilities False)
      | Custom \<Rightarrow> allCapabilities False)"

definition createAgentPolicy :: "AgentProfileName \<Rightarrow> AgentPolicy" where
  "createAgentPolicy profile =
     \<lparr>ap_profile = profile,
      capabilities = profile_capabilities profile,
      allowPaths = [''/tmp'', ''/var/tmp''],
      denyPaths = [''/'', ''/etc'', ''/boot'', ''/dev'', ''/proc'', ''/sys''],
      allowServices = (if profile = FullAdmin then [''*''] else []),
      allowContainers = (if profile = FullAdmin then [''*''] else []),
      maxOutputBytes = 200000,
      maxActionTimeoutSeconds = 120,
      policy_ver = 1\<rparr>"

record AgentPolicyPatch =
  pp_profile :: "AgentProfileName option"
  pp_capabilities :: "RemoteCapability \<Rightarrow> bool option"
  pp_allowPaths :: "string list option"
  pp_denyPaths :: "string list option"
  pp_allowServices :: "string list option"
  pp_allowContainers :: "string list option"
  pp_maxOutputBytes :: "int option"
  pp_maxActionTimeoutSeconds :: "int option"
  pp_version :: "int option"

definition mergeCustomPolicy :: "AgentPolicyPatch \<Rightarrow> AgentPolicy" where
  "mergeCustomPolicy p =
     (let base = createAgentPolicy (or_else (pp_profile p) Custom) in
      \<lparr>ap_profile = or_else (pp_profile p) Custom,
       capabilities = (\<lambda>c. or_else (pp_capabilities p c) (capabilities base c)),
       allowPaths = or_else (pp_allowPaths p) (allowPaths base),
       denyPaths = or_else (pp_denyPaths p) (denyPaths base),
       allowServices = or_else (pp_allowServices p) (allowServices base),
       allowContainers = or_else (pp_allowContainers p) (allowContainers base),
       maxOutputBytes = or_else (pp_maxOutputBytes p) (maxOutputBytes base),
       maxActionTimeoutSeconds = or_else (pp_maxActionTimeoutSeconds p) (maxActionTimeoutSeconds base),
       policy_ver = or_else (pp_version p) (policy_ver base)\<rparr>)"

section \<open>Paths, services, containers\<close>

definition strip_one_slash :: "string \<Rightarrow> string" where
  "strip_one_slash s = (if endsWith s ''/'' then butlast s else s)"

definition normalizePolicyPath :: "string \<Rightarrow> string" where
  "normalizePolicyPath value =
     (let r = strip_one_slash (posix_normalize (replace_all (CHR 0x5C) ''/'' value))
      in if r = [] then ''/'' else r)"

definition policy_prefix_match :: "string \<Rightarrow> string \<Rightarrow> bool" where
  "policy_prefix_match normalized rawPrefix =
     (let pre = normalizePolicyPath rawPrefix in
      if pre = ''/'' then normalized = ''/''
      else normalized = pre \<or> startsWith normalized (pre @ ''/''))"

definition isPathAllowed :: "AgentPolicy \<Rightarrow> string \<Rightarrow> bool" where
  "isPathAllowed policy filePath =
     (let normalized = normalizePolicyPath filePath in
      if list_ex (policy_prefix_match normalized) (denyPaths policy) then False
      else list_ex (policy_prefix_match normalized) (allowPaths policy))"

definition isServiceAllowed :: "AgentPolicy \<Rightarrow> string \<Rightarrow> bool" where
  "isServiceAllowed policy service =
     (''*'' \<in> set (allowServices policy) \<or> service \<in> set (allowServices policy))"

definition isContainerAllowed :: "AgentPolicy \<Rightarrow> string \<Rightarrow> bool" where
  "isContainerAllowed policy container =
     (''*'' \<in> set (allowContainers policy) \<or> container \<in> set (allowContainers policy))"

section \<open>Scopes\<close>

definition parseScopes :: "string option \<Rightarrow> string list" where
  "parseScopes scope =
     (if truthy scope
      then filter (\<lambda>item. item \<in> set REMOTE_SCOPES) (ws_words (or_else scope ''''))
      else [])"

text \<open>Iterating over the missing entry of an unknown scope is a \<open>TypeError\<close>.\<close>

fun add_capabilities :: "RemoteCapability list \<Rightarrow> string list \<Rightarrow> string + RemoteCapability list" where
  "add_capabilities acc [] = Inr acc"
| "add_capabilities acc (s # ss) =
     (case map_of SCOPE_CAPABILITY_MAP s of
        None \<Rightarrow> Inl ''TypeError: SCOPE_CAPABILITY_MAP[scope] is not iterable''
      | Some cs \<Rightarrow> add_capabilities (fold (\<lambda>c a. if c \<in> set a then a else a @ [c]) cs acc) ss)"

definition capabilitiesFromScopes :: "string list \<Rightarrow> string + RemoteCapability list" where
  "capabilitiesFromScopes scopes = add_capabilities [] scopes"

definition hasCapability :: "RemoteCapability list \<Rightarrow> RemoteCapability \<Rightarrow> bool" where
  "hasCapability cs c = (c \<in> set cs)"

definition listRemoteToolDescriptors :: "RemoteCapability list \<Rightarrow> (RemoteToolName \<times> RemoteCapability) list" where
  "listRemoteToolDescriptors cs =
     map (\<lambda>name. (name, TOOL_CAPABILITY_MAP name))
       (filter (\<lambda>name. TOOL_CAPABILITY_MAP name \<in> set cs) REMOTE_TOOLS)"

fun split_any :: "char set \<Rightarrow> string \<Rightarrow> string list" where
  "split_any cs [] = [[]]"
| "split_any cs (x # xs) =
     (if x \<in> cs then [] # split_any cs xs
      else (case split_any cs xs of [] \<Rightarrow> [[x]] | w # ws \<Rightarrow> (x # w) # ws))"

definition parseList :: "string option \<Rightarrow> string list" where
  "parseList value =
     (if truthy value
      then filter (\<lambda>w. w \<noteq> []) (map trim (split_any {CHR 0x0A, CHR '',''} (or_else value '''')))
      else [])"

section \<open>Lemmas on paths\<close>

abbreviation unback :: "string \<Rightarrow> string" where
  "unback \<equiv> replace_all (CHR 0x5C) ''/''"

definition is_absolute :: "string \<Rightarrow> bool" where
  "is_absolute p = startsWith (unback p) ''/''"

lemma normalizePolicyPath_absolute:
  assumes "is_absolute p"
  shows "normalizePolicyPath p = render_abs (remote_segs p)"
proof -
  have ok: "\<forall>w \<in> set (remote_segs p). seg_ok w" by (rule remote_segs_ok)
  have norm: "posix_normalize (unback p) =
     (if remote_segs p = [] then ''/''
      else if endsWith (unback p) ''/'' then render_abs (remote_segs p) @ ''/'' else render_abs (remote_segs p))"
    using posix_normalize_absolute [of "unback p"] assms by (simp add: is_absolute_def remote_segs_def)
  show ?thesis
  proof (cases "remote_segs p = []")
    case True
    then show ?thesis
      unfolding normalizePolicyPath_def norm by (simp add: strip_one_slash_def endsWith_def render_abs_def)
  next
    case False
    then have "\<not> endsWith (render_abs (remote_segs p)) ''/''"
      using last_join_slash [OF False ok] by (simp add: endsWith_def suffix_slash_iff render_abs_def)
    with False show ?thesis
      unfolding normalizePolicyPath_def norm
      by (simp add: strip_one_slash_def endsWith_def suffix_slash_iff render_abs_def butlast_append)
  qed
qed

text \<open>A relative path stays relative: its segments are not empty and hold no separator.\<close>

definition rel_seg :: "string \<Rightarrow> bool" where
  "rel_seg w \<longleftrightarrow> w \<noteq> [] \<and> CHR ''/'' \<notin> set w"

lemma norm_segs_nonempty:
  assumes "\<forall>w \<in> set xs. CHR ''/'' \<notin> set w" and "\<forall>w \<in> set st. rel_seg w"
  shows "\<forall>w \<in> set (norm_segs True st xs). rel_seg w"
  using assms
proof (induction xs arbitrary: st)
  case (Cons x xs)
  have IH: "\<forall>w \<in> set (norm_segs True st' xs). rel_seg w" if "\<forall>w \<in> set st'. rel_seg w" for st'
    by (rule Cons.IH) (use Cons.prems(1) that in simp_all)
  consider "x = [] \<or> x = ''.''" | "x = ''..''" | "x \<noteq> []" "x \<noteq> ''.''" "x \<noteq> ''..''" by blast
  then show ?case
  proof cases
    case 1
    then have "norm_segs True st (x # xs) = norm_segs True st xs" by auto
    with IH [OF Cons.prems(2)] show ?thesis by simp
  next
    case 2
    define st' where "st' = (case st of [] \<Rightarrow> [''..''] | t # ts \<Rightarrow> if t = ''..'' then ''..'' # st else ts)"
    have st': "norm_segs True st (x # xs) = norm_segs True st' xs" "set st' \<subseteq> insert ''..'' (set st)"
      by (cases st; simp add: 2 st'_def) (auto simp: st'_def split: list.splits if_splits)
    have "rel_seg ''..''" by (simp add: rel_seg_def)
    then have "\<forall>w \<in> set st'. rel_seg w" using Cons.prems(2) st'(2) by blast
    then show ?thesis unfolding st'(1) by (rule IH)
  next
    case 3
    then have eq: "norm_segs True st (x # xs) = norm_segs True (x # st) xs" by simp
    have "rel_seg x" using 3(1) Cons.prems(1) by (simp add: rel_seg_def)
    then have "\<forall>w \<in> set (x # st). rel_seg w" using Cons.prems(2) by simp
    then show ?thesis unfolding eq by (rule IH)
  qed
qed simp

lemma join_slash_hd:
  "\<forall>w \<in> set ws. rel_seg w \<Longrightarrow> \<not> prefix ''/'' (join ''/'' ws)"
proof (cases ws)
  case (Cons w vs)
  assume "\<forall>w \<in> set ws. rel_seg w"
  with Cons have "rel_seg w" by simp
  then obtain c cs where "w = c # cs" and "c \<noteq> CHR ''/''" by (cases w) (auto simp: rel_seg_def)
  with Cons show ?thesis by (cases vs) auto
qed simp

lemma normalizePolicyPath_relative:
  assumes "\<not> is_absolute p"
  shows "\<not> prefix ''/'' (normalizePolicyPath p)" and "normalizePolicyPath p \<noteq> []"
proof -
  let ?r = "join ''/'' (norm_segs True [] (split_on (CHR ''/'') (unback p)))"
  have seg: "\<forall>w \<in> set (split_on (CHR ''/'') (unback p)). CHR ''/'' \<notin> set w"
    by (auto dest: split_on_no_sep)
  have r: "\<not> prefix ''/'' ?r" by (rule join_slash_hd, rule norm_segs_nonempty [OF seg]) simp
  have n: "posix_normalize (unback p) = (if unback p = [] then ''.'' else
      if ?r = [] then (if endsWith (unback p) ''/'' then ''./'' else ''.'')
      else if endsWith (unback p) ''/'' then ?r @ ''/'' else ?r)"
    using assms by (simp add: posix_normalize_def Let_def is_absolute_def)
  have "\<not> prefix ''/'' (posix_normalize (unback p)) \<and> posix_normalize (unback p) \<noteq> [] \<and>
    posix_normalize (unback p) \<noteq> ''/''"
    using r by (cases ?r) (simp_all add: n)
  then have "\<not> prefix ''/'' (strip_one_slash (posix_normalize (unback p))) \<and>
    strip_one_slash (posix_normalize (unback p)) \<noteq> []"
    by (cases "posix_normalize (unback p)" rule: list.exhaust)
       (auto simp: strip_one_slash_def endsWith_def suffix_slash_iff split: if_splits)
  then show "\<not> prefix ''/'' (normalizePolicyPath p)" and "normalizePolicyPath p \<noteq> []"
    by (simp_all add: normalizePolicyPath_def Let_def)
qed

text \<open>What one entry of \<open>allowPaths\<close> or \<open>denyPaths\<close> covers: the directory and
  everything below it, except that the root covers only itself.\<close>

definition covers :: "string \<Rightarrow> string \<Rightarrow> bool" where
  "covers pre p \<longleftrightarrow> is_absolute pre \<and>
     (if remote_segs pre = [] then remote_segs p = [] else prefix (remote_segs pre) (remote_segs p))"

lemma policy_prefix_match_covers:
  assumes "is_absolute p"
  shows "policy_prefix_match (normalizePolicyPath p) pre \<longleftrightarrow> covers pre p"
proof (cases "is_absolute pre")
  case True
  have root: "render_abs (remote_segs q) = ''/'' \<longleftrightarrow> remote_segs q = []" for q
    using remote_segs_ok [of q] by (simp add: render_abs_def join_slash_eq_Nil)
  show ?thesis
    using segment_match_iff [OF remote_segs_ok remote_segs_ok, of pre p] True
    by (simp add: policy_prefix_match_def Let_def normalizePolicyPath_absolute assms covers_def root
        isSegmentBoundaryPathMatch_def)
next
  case False
  note rel = normalizePolicyPath_relative [OF False]
  obtain c cs where c: "normalizePolicyPath pre = c # cs" "c \<noteq> CHR ''/''"
    using rel by (cases "normalizePolicyPath pre") auto
  then show ?thesis
    using False by (simp add: policy_prefix_match_def normalizePolicyPath_absolute assms covers_def
        render_abs_def startsWith_def)
qed

section \<open>Lemmas on scopes\<close>

lemma fold_add_capability:
  "set (fold (\<lambda>c a. if c \<in> set a then a else a @ [c]) cs acc) = set acc \<union> set cs"
  by (induction cs arbitrary: acc) auto

lemma fold_add_distinct:
  "distinct acc \<Longrightarrow> distinct (fold (\<lambda>c a. if c \<in> set a then a else a @ [c]) cs acc)"
  by (induction cs arbitrary: acc) auto

lemma scope_known_iff: "(\<exists>cs. map_of SCOPE_CAPABILITY_MAP s = Some cs) \<longleftrightarrow> s \<in> set REMOTE_SCOPES"
  by (metis map_of_eq_None_iff not_None_eq set_map scope_map_keys)

lemma add_capabilities_correct:
  "(\<forall>s \<in> set ss. s \<in> set REMOTE_SCOPES) \<Longrightarrow> distinct acc \<Longrightarrow>
     \<exists>cs. add_capabilities acc ss = Inr cs \<and> distinct cs \<and>
       set cs = set acc \<union> (\<Union>s \<in> set ss. set (the (map_of SCOPE_CAPABILITY_MAP s)))"
proof (induction ss arbitrary: acc)
  case (Cons s ss)
  obtain ds where ds: "map_of SCOPE_CAPABILITY_MAP s = Some ds"
    using Cons.prems(1) scope_known_iff [of s] by auto
  let ?acc = "fold (\<lambda>c a. if c \<in> set a then a else a @ [c]) ds acc"
  have "distinct ?acc" by (rule fold_add_distinct) (rule Cons.prems)
  then obtain cs where "add_capabilities ?acc ss = Inr cs" "distinct cs"
    "set cs = set ?acc \<union> (\<Union>s \<in> set ss. set (the (map_of SCOPE_CAPABILITY_MAP s)))"
    using Cons.IH [of ?acc] Cons.prems(1) by auto
  then show ?case by (auto simp: ds fold_add_capability)
qed simp

lemma parseScopes_known: "set (parseScopes s) \<subseteq> set REMOTE_SCOPES"
  by (auto simp: parseScopes_def)

lemma profile_capabilities_mono:
  "profile_capabilities Custom c \<Longrightarrow> profile_capabilities ReadOnly c"
  "profile_capabilities ReadOnly c \<Longrightarrow> profile_capabilities Operations c"
  "profile_capabilities FullAdmin c"
proof -
  have f: "fold (\<lambda>c b. b(c := True)) cs b c = (c \<in> set cs \<or> b c)" for cs b and c :: RemoteCapability
    by (induction cs arbitrary: b) auto
  show "profile_capabilities FullAdmin c" by (simp add: profile_capabilities_def f)
qed (auto simp: profile_capabilities_def allCapabilities_def split: if_splits)

section \<open>Properties\<close>

text \<open>
  The file policy of an agent works on path segments. For an absolute path (backslashes
  count as slashes, dot segments are resolved), \<open>isPathAllowed\<close> holds exactly when some
  entry of \<open>allowPaths\<close> covers it and no entry of \<open>denyPaths\<close> does; an entry covers the
  paths whose segments extend its own, so \<open>/etcetera\<close> is not below \<open>/etc\<close> and
  \<open>/tmp/../etc\<close> is, and the root entry covers the root only.
\<close>

theorem isPathAllowed_iff:
  assumes "is_absolute p"
  shows "isPathAllowed policy p \<longleftrightarrow>
    (\<exists>a \<in> set (allowPaths policy). covers a p) \<and> \<not> (\<exists>d \<in> set (denyPaths policy). covers d p)"
  using policy_prefix_match_covers [OF assms]
  by (simp add: isPathAllowed_def list_ex_iff Let_def)

theorem isPathAllowed_iff_witness:
  "isPathAllowed (createAgentPolicy ReadOnly) ''/tmp/a/../b'' \<longleftrightarrow>
    (\<exists>a \<in> set (allowPaths (createAgentPolicy ReadOnly)). covers a ''/tmp/a/../b'') \<and>
    \<not> (\<exists>d \<in> set (denyPaths (createAgentPolicy ReadOnly)). covers d ''/tmp/a/../b'')"
  by (rule isPathAllowed_iff) (simp add: is_absolute_def startsWith_def)

text \<open>
  Scopes grant exactly their capabilities. Whatever scope string is asked for,
  \<open>parseScopes\<close> followed by \<open>capabilitiesFromScopes\<close> succeeds, without duplicates, and a
  capability is granted exactly when some white-space separated word of the string is a
  known scope whose entry of \<open>SCOPE_CAPABILITY_MAP\<close> lists it. The tools offered for those
  capabilities are exactly the ones whose capability is granted.
\<close>

theorem scopes_grant_exactly:
  "\<exists>cs. capabilitiesFromScopes (parseScopes (Some s)) = Inr cs \<and> distinct cs \<and>
     (\<forall>c. c \<in> set cs \<longleftrightarrow> (\<exists>w ds. w \<in> set (ws_words s) \<and> map_of SCOPE_CAPABILITY_MAP w = Some ds \<and> c \<in> set ds)) \<and>
     (\<forall>t. (t, TOOL_CAPABILITY_MAP t) \<in> set (listRemoteToolDescriptors cs) \<longleftrightarrow> TOOL_CAPABILITY_MAP t \<in> set cs)"
proof -
  have w: "set (parseScopes (Some s)) = {w \<in> set (ws_words s). w \<in> set REMOTE_SCOPES}"
  proof (cases "s = []")
    case True
    then show ?thesis by (simp add: parseScopes_def ws_words_def split_ws.simps)
  qed (auto simp: parseScopes_def)
  obtain cs where cs: "capabilitiesFromScopes (parseScopes (Some s)) = Inr cs" "distinct cs"
    "set cs = (\<Union>w \<in> set (parseScopes (Some s)). set (the (map_of SCOPE_CAPABILITY_MAP w)))"
    using add_capabilities_correct [of "parseScopes (Some s)" "[]"] w
    by (auto simp: capabilitiesFromScopes_def)
  have "c \<in> set cs \<longleftrightarrow>
    (\<exists>w ds. w \<in> set (ws_words s) \<and> map_of SCOPE_CAPABILITY_MAP w = Some ds \<and> c \<in> set ds)" for c
    unfolding cs(3) w using scope_known_iff by force
  then show ?thesis using cs(1,2) by (auto simp: listRemoteToolDescriptors_def)
qed

end
