(* ===== verification/RemoteCrypto.thy ===== *)
theory RemoteCrypto
  imports RemotePolicy "HOL-Library.List_Lexorder" "HOL-Library.Multiset"
begin

text \<open>
  JSON values and the canonical text of \<open>src/remote/crypto.ts\<close> over which envelopes are
  signed, the signing and checking of envelopes, and the principal of an access token.

  A value is what \<open>JSON.parse\<close> or an object literal of the code yields; numbers are
  integers. \<open>JUndefined\<close> stands for the value of an optional field that is not set. The
  hash, the signature scheme and the token verification are parameters
  (\<open>node:crypto\<close>, \<open>jose\<close>).
\<close>

section \<open>Values and their text\<close>

datatype json =
    JUndefined
  | JNull
  | JBool bool
  | JNum int
  | JStr string
  | JArr "json list"
  | JObj "(string \<times> json) list"

definition hex_digit :: "nat \<Rightarrow> char" where
  "hex_digit n = (if n < 10 then char_of (48 + n) else char_of (87 + n))"

text \<open>\<open>JSON.stringify\<close> of one code unit of a string.\<close>

definition json_char :: "char \<Rightarrow> string" where
  "json_char c =
     (let n = (of_char c :: nat) in
      if c = CHR 0x22 then [CHR 0x5C, CHR 0x22]
      else if c = CHR 0x5C then [CHR 0x5C, CHR 0x5C]
      else if n = 8 then [CHR 0x5C, CHR ''b'']
      else if n = 9 then [CHR 0x5C, CHR ''t'']
      else if n = 10 then [CHR 0x5C, CHR ''n'']
      else if n = 12 then [CHR 0x5C, CHR ''f'']
      else if n = 13 then [CHR 0x5C, CHR ''r'']
      else if n < 32 then [CHR 0x5C, CHR ''u'', CHR ''0'', CHR ''0'', hex_digit (n div 16), hex_digit (n mod 16)]
      else [c])"

definition json_string :: "string \<Rightarrow> string" where
  "json_string s = [CHR 0x22] @ concat (map json_char s) @ [CHR 0x22]"

lemma entry_size: "(k, v) \<in> set es \<Longrightarrow> size v < Suc (size_list (size_prod (\<lambda>_. 0) size) es)"
  by (induction es) auto

lemma item_size: "v \<in> set vs \<Longrightarrow> size v < Suc (size_list size vs)"
  by (induction vs) auto

function canonicalJson :: "json \<Rightarrow> string" where
  "canonicalJson JUndefined = []"
| "canonicalJson JNull = ''null''"
| "canonicalJson (JBool b) = (if b then ''true'' else ''false'')"
| "canonicalJson (JNum n) = show_int n"
| "canonicalJson (JStr s) = json_string s"
| "canonicalJson (JArr items) = ''['' @ join '','' (map canonicalJson items) @ '']''"
| "canonicalJson (JObj es) =
     (let entries = sort_key fst (filter (\<lambda>e. snd e \<noteq> JUndefined) es)
      in ''{'' @ join '','' (map (\<lambda>e. json_string (fst e) @ '':'' @ canonicalJson (snd e)) entries) @ ''}'')"
  by pat_completeness auto
termination
  by (relation "measure size") (auto simp: item_size dest: entry_size)

section \<open>Envelopes\<close>

record node_crypto =
  sha256Base64Url :: "string \<Rightarrow> string"
  node_sign :: "string \<Rightarrow> string \<Rightarrow> string"
  node_verify :: "string \<Rightarrow> string \<Rightarrow> string \<Rightarrow> bool"

type_synonym envelope = "(string \<times> json) list"

definition unsigned :: "envelope \<Rightarrow> json" where
  "unsigned e = JObj (filter (\<lambda>f. fst f \<noteq> ''signature'') e)"

definition signEnvelope :: "node_crypto \<Rightarrow> envelope \<Rightarrow> string \<Rightarrow> string" where
  "signEnvelope cr e privateKey = node_sign cr privateKey (canonicalJson (unsigned e))"

definition envelope_signature :: "envelope \<Rightarrow> string" where
  "envelope_signature e = (case map_of e ''signature'' of Some (JStr s) \<Rightarrow> s | _ \<Rightarrow> '''')"

definition verifyEnvelope :: "node_crypto \<Rightarrow> envelope \<Rightarrow> string \<Rightarrow> bool" where
  "verifyEnvelope cr e publicKey =
     (if envelope_signature e = [] then False
      else node_verify cr publicKey (canonicalJson (unsigned e)) (envelope_signature e))"

definition hashSecret :: "node_crypto \<Rightarrow> string \<Rightarrow> string" where
  "hashSecret cr value = sha256Base64Url cr value"

definition keyId :: "node_crypto \<Rightarrow> string \<Rightarrow> string" where
  "keyId cr publicKeyPem = take 24 (sha256Base64Url cr publicKeyPem)"

text \<open>\<open>safeSecretEqual\<close>: equal hashes (\<open>timingSafeEqual\<close> is equality on equal lengths).\<close>

definition safeSecretEqual :: "node_crypto \<Rightarrow> string \<Rightarrow> string \<Rightarrow> bool" where
  "safeSecretEqual cr provided expectedHash =
     (if length (hashSecret cr provided) \<noteq> length expectedHash then False
      else hashSecret cr provided = expectedHash)"

section \<open>Principals\<close>

record RemotePrincipal =
  pr_userId :: string
  pr_githubId :: string
  pr_githubLogin :: string
  pr_scopes :: "string list"
  pr_capabilities :: "RemoteCapability list"
  pr_tokenId :: string

record JWTPayload =
  jwt_sub :: string
  jwt_jti :: string
  jwt_scope :: "string option"
  jwt_github_id :: "string option"
  jwt_github_login :: "string option"

definition principalFromPayload :: "JWTPayload \<Rightarrow> string + RemotePrincipal" where
  "principalFromPayload p =
     (let scopes = (case jwt_scope p of Some s \<Rightarrow> ws_words s | None \<Rightarrow> [])
      in rbind (capabilitiesFromScopes scopes) (\<lambda>cs.
           Inr \<lparr>pr_userId = jwt_sub p, pr_githubId = or_else (jwt_github_id p) '''',
                pr_githubLogin = or_else (jwt_github_login p) '''', pr_scopes = scopes,
                pr_capabilities = cs, pr_tokenId = jwt_jti p\<rparr>))"

section \<open>Which values have the same text\<close>

text \<open>A value as \<open>JSON.parse\<close> or an object literal yields it: no field twice, no
  \<open>undefined\<close> in an array.\<close>

function json_ok :: "json \<Rightarrow> bool" where
  "json_ok (JArr vs) = (\<forall>v \<in> set vs. v \<noteq> JUndefined \<and> json_ok v)"
| "json_ok (JObj es) = (distinct (map fst es) \<and> (\<forall>e \<in> set es. json_ok (snd e)))"
| "json_ok JUndefined = True"
| "json_ok JNull = True"
| "json_ok (JBool b) = True"
| "json_ok (JNum n) = True"
| "json_ok (JStr s) = True"
  by pat_completeness auto
termination
  by (relation "measure size") (auto simp: item_size dest: entry_size)

definition field :: "(string \<times> json) list \<Rightarrow> string \<Rightarrow> json option" where
  "field es k = map_of (filter (\<lambda>e. snd e \<noteq> JUndefined) es) k"

text \<open>Equality of values, where the fields of an object have no order and a field that is
  \<open>undefined\<close> is as good as absent.\<close>

inductive same_json :: "json \<Rightarrow> json \<Rightarrow> bool" where
  same_undefined: "same_json JUndefined JUndefined"
| same_null: "same_json JNull JNull"
| same_bool: "same_json (JBool b) (JBool b)"
| same_num: "same_json (JNum n) (JNum n)"
| same_str: "same_json (JStr s) (JStr s)"
| same_arr: "list_all2 same_json vs ws \<Longrightarrow> same_json (JArr vs) (JArr ws)"
| same_obj: "(\<And>k. rel_option same_json (field es k) (field fs k)) \<Longrightarrow> same_json (JObj es) (JObj fs)"

text \<open>The normal form: undefined fields dropped, fields sorted by name.\<close>

fun canon :: "json \<Rightarrow> json" where
  "canon (JArr vs) = JArr (map canon vs)"
| "canon (JObj es) =
     JObj (sort_key fst (filter (\<lambda>e. snd e \<noteq> JUndefined) (map (\<lambda>(k, v). (k, canon v)) es)))"
| "canon v = v"

text \<open>The text of a normal form.\<close>

fun text_of :: "json \<Rightarrow> string" where
  "text_of (JArr vs) = ''['' @ join '','' (map text_of vs) @ '']''"
| "text_of (JObj es) =
     ''{'' @ join '','' (map (\<lambda>(k, v). json_string k @ '':'' @ text_of v) es) @ ''}''"
| "text_of v = canonicalJson v"

lemma insort_key_map: "insort_key f (g x) (map g xs) = map g (insort_key (f \<circ> g) x xs)"
  by (induction xs) auto

lemma sort_key_map: "sort_key f (map g xs) = map g (sort_key (f \<circ> g) xs)"
  by (induction xs) (simp_all add: insort_key_map comp_def)

lemma canon_undefined [simp]: "canon v = JUndefined \<longleftrightarrow> v = JUndefined"
  by (cases v) auto

lemma canon_obj:
  "canon (JObj es) = JObj (map (\<lambda>e. (fst e, canon (snd e))) (sort_key fst (filter (\<lambda>e. snd e \<noteq> JUndefined) es)))"
proof -
  let ?g = "\<lambda>e :: string \<times> json. (fst e, canon (snd e))"
  have "filter (\<lambda>e. snd e \<noteq> JUndefined) (map ?g es) = map ?g (filter (\<lambda>e. snd e \<noteq> JUndefined) es)"
    by (simp add: filter_map comp_def)
  then show ?thesis
    using sort_key_map [of fst ?g "filter (\<lambda>e. snd e \<noteq> JUndefined) es"]
    by (simp add: case_prod_beta' comp_def)
qed

lemma canonicalJson_text: "canonicalJson v = text_of (canon v)"
proof (induction v rule: canonicalJson.induct)
  case (6 items)
  then have "map canonicalJson items = map (text_of \<circ> canon) items" by simp
  then show ?case by (simp del: map_eq_conv)
next
  case (7 es)
  let ?es = "sort_key fst (filter (\<lambda>e. snd e \<noteq> JUndefined) es)"
  have "map (\<lambda>e. json_string (fst e) @ '':'' @ canonicalJson (snd e)) ?es =
      map (\<lambda>e. json_string (fst e) @ '':'' @ text_of (canon (snd e))) ?es"
    using 7 by (intro map_cong) auto
  then show ?case
    by (simp only: canonicalJson.simps canon_obj text_of.simps Let_def map_map comp_def case_prod_beta' fst_conv snd_conv)
qed simp_all

section \<open>The text determines the value\<close>

text \<open>Reading back one escaped code unit.\<close>

definition unhex :: "char \<Rightarrow> nat" where
  "unhex c = (let n = of_char c in if n < 58 then n - 48 else n - 87)"

fun read_char :: "string \<Rightarrow> (char \<times> string) option" where
  "read_char (c # d # s) =
     (if c \<noteq> CHR 0x5C then Some (c, d # s)
      else if d = CHR ''b'' then Some (CHR 0x08, s)
      else if d = CHR ''t'' then Some (CHR 0x09, s)
      else if d = CHR ''n'' then Some (CHR 0x0A, s)
      else if d = CHR ''f'' then Some (CHR 0x0C, s)
      else if d = CHR ''r'' then Some (CHR 0x0D, s)
      else if d = CHR ''u'' then
        (case s of x # y # a # b # r \<Rightarrow> Some (char_of (16 * unhex a + unhex b), r) | _ \<Rightarrow> None)
      else Some (d, s))"
| "read_char [c] = Some (c, [])"
| "read_char [] = None"

lemma unhex_hex: "n < 16 \<Longrightarrow> unhex (hex_digit n) = n"
  by (simp add: unhex_def hex_digit_def of_char_char_of_small)

lemma control_chars:
  "char_of (8::nat) = CHR 0x08" "char_of (9::nat) = CHR 0x09" "char_of (10::nat) = CHR 0x0A"
  "char_of (12::nat) = CHR 0x0C" "char_of (13::nat) = CHR 0x0D"
  by code_simp+

lemma read_json_char: "read_char (json_char c @ s) = Some (c, s)"
proof -
  define n where "n = (of_char c :: nat)"
  have c: "c = char_of n" by (simp add: n_def)
  have hex: "unhex (hex_digit (n div 16)) = n div 16" "unhex (hex_digit (n mod 16)) = n mod 16" if "n < 32"
    using that by (simp_all add: unhex_hex)
  consider "c = CHR 0x22" | "c = CHR 0x5C" | "n = 8" | "n = 9" | "n = 10" | "n = 12" | "n = 13"
    | "n < 32" "n \<notin> {8, 9, 10, 12, 13}" "c \<noteq> CHR 0x22" "c \<noteq> CHR 0x5C"
    | "32 \<le> n" "c \<noteq> CHR 0x22" "c \<noteq> CHR 0x5C"
    by force
  then show ?thesis
  proof cases
    case 8
    then have "json_char c = [CHR 0x5C, CHR ''u'', CHR ''0'', CHR ''0'', hex_digit (n div 16), hex_digit (n mod 16)]"
      by (simp add: json_char_def Let_def n_def [symmetric])
    then show ?thesis by (simp add: hex [OF 8(1)] c)
  next
    case 9
    then have "json_char c = [c]" by (simp add: json_char_def Let_def n_def [symmetric])
    then show ?thesis using 9 by (cases s) auto
  qed (use c in \<open>simp_all add: json_char_def Let_def n_def [symmetric] control_chars\<close>)
qed

lemma json_char_head: "\<exists>d r. json_char c = d # r \<and> d \<noteq> CHR 0x22"
  by (simp add: json_char_def Let_def)

lemma json_string_prefix:
  "json_string a @ s = json_string b @ t \<Longrightarrow> a = b \<and> s = t"
proof -
  have "a = b \<and> s = t" if "concat (map json_char a) @ CHR 0x22 # s = concat (map json_char b) @ CHR 0x22 # t"
    using that
  proof (induction a arbitrary: b)
    case Nil
    then show ?case
    proof (cases b)
      case (Cons d b')
      with Nil json_char_head [of d] show ?thesis by auto
    qed simp
  next
    case (Cons c a)
    then show ?case
    proof (cases b)
      case Nil
      with Cons.prems json_char_head [of c] show ?thesis by auto
    next
      case b: (Cons d b')
      have "json_char c @ (concat (map json_char a) @ CHR 0x22 # s) =
          json_char d @ (concat (map json_char b') @ CHR 0x22 # t)"
        using Cons.prems b by simp
      then have "c = d" and "concat (map json_char a) @ CHR 0x22 # s = concat (map json_char b') @ CHR 0x22 # t"
        using read_json_char by (metis Pair_inject option.inject)+
      then show ?thesis using Cons.IH b by simp
    qed
  qed
  then show "json_string a @ s = json_string b @ t \<Longrightarrow> a = b \<and> s = t"
    by (simp add: json_string_def)
qed

text \<open>What may follow a value inside a text.\<close>

definition sep :: "string \<Rightarrow> bool" where
  "sep s \<longleftrightarrow> (case s of [] \<Rightarrow> True | c # _ \<Rightarrow> c \<in> {CHR '','', CHR '']'', CHR ''}''})"

lemma sep_simps [simp]: "sep []" "sep (c # s) \<longleftrightarrow> c \<in> {CHR '','', CHR '']'', CHR ''}''}"
  by (simp_all add: sep_def)

lemma sep_not_digit: "sep s \<Longrightarrow> takeWhile is_digit s = []"
  by (cases s) (auto simp: is_digit_def)

lemma show_nat_prefix:
  assumes "show_nat m @ s = show_nat n @ t" and "sep s" and "sep t"
  shows "m = n \<and> s = t"
proof -
  have *: "takeWhile is_digit (show_nat k @ u) = show_nat k" if "sep u" for k u
    using show_nat_digits [of k] sep_not_digit [OF that] by (simp add: takeWhile_append list_all_iff)
  have "show_nat m = show_nat n" using * [OF assms(2)] * [OF assms(3)] assms(1) by metis
  then show ?thesis using assms(1) by (simp add: show_nat_inj)
qed

lemma show_nat_head: "\<exists>c r. show_nat n = c # r \<and> is_digit c"
  using show_nat_digits [of n] show_nat_nonempty [of n] by (cases "show_nat n") auto

lemma show_int_head: "\<exists>c r. show_int n = c # r \<and> (is_digit c \<or> c = CHR ''-'')"
proof (cases "n < 0")
  case True
  then show ?thesis by (simp add: show_int_def)
next
  case False
  then show ?thesis using show_nat_head [of "nat n"] by (auto simp: show_int_def)
qed

lemma show_int_prefix:
  assumes "show_int m @ s = show_int n @ t" and "sep s" and "sep t"
  shows "m = n \<and> s = t"
proof -
  have no_dash: "show_nat k @ u \<noteq> CHR ''-'' # v" for k u v
    using show_nat_head [of k] by (auto simp: is_digit_def)
  consider "m < 0" "n < 0" | "\<not> m < 0" "\<not> n < 0"
    using assms(1) no_dash [of "nat m" s] no_dash [of "nat n" t]
    by (cases "m < 0"; cases "n < 0") (auto simp: show_int_def dest: sym)
  then show ?thesis
  proof cases
    case 1
    then have "show_nat (nat (- m)) @ s = show_nat (nat (- n)) @ t" using assms(1) by (simp add: show_int_def)
    from show_nat_prefix [OF this assms(2,3)] 1 show ?thesis by arith
  next
    case 2
    then have "show_nat (nat m) @ s = show_nat (nat n) @ t" using assms(1) by (simp add: show_int_def)
    from show_nat_prefix [OF this assms(2,3)] 2 show ?thesis by arith
  qed
qed

text \<open>Lists of printed elements.\<close>

fun tails :: "('a \<Rightarrow> string) \<Rightarrow> char \<Rightarrow> 'a list \<Rightarrow> string \<Rightarrow> string" where
  "tails f close [] s = close # s"
| "tails f close (x # xs) s = CHR '','' # f x @ tails f close xs s"

lemma join_tails: "join '','' (map f (x # xs)) @ close # s = f x @ tails f close xs s"
  by (induction xs arbitrary: x) auto

lemma sep_tails: "close \<in> {CHR '']'', CHR ''}''} \<Longrightarrow> sep (tails f close xs s)"
  by (cases xs) auto

definition prefix_code :: "('a \<Rightarrow> string) \<Rightarrow> 'a \<Rightarrow> 'a \<Rightarrow> bool" where
  "prefix_code f x y \<longleftrightarrow> (\<forall>s t. f x @ s = f y @ t \<longrightarrow> sep s \<longrightarrow> sep t \<longrightarrow> x = y \<and> s = t)"

lemma tails_prefix:
  assumes "close \<in> {CHR '']'', CHR ''}''}"
    and "\<And>x y. x \<in> set xs \<Longrightarrow> y \<in> set ys \<Longrightarrow> prefix_code f x y"
    and "tails f close xs s = tails f close ys t"
  shows "xs = ys \<and> s = t"
  using assms(2,3)
proof (induction xs arbitrary: ys)
  case Nil
  then show ?case using assms(1) by (cases ys) auto
next
  case (Cons x xs)
  show ?case
  proof (cases ys)
    case Nil
    with Cons.prems(2) assms(1) show ?thesis by auto
  next
    case ys: (Cons y ys')
    have "prefix_code f x y" using Cons.prems(1) ys by simp
    moreover have "f x @ tails f close xs s = f y @ tails f close ys' t" using Cons.prems(2) ys by simp
    ultimately have "x = y" "tails f close xs s = tails f close ys' t"
      unfolding prefix_code_def using sep_tails [OF assms(1)] by blast+
    moreover have "xs = ys' \<and> s = t"
      using Cons.prems(1) ys calculation(2) by (intro Cons.IH) auto
    ultimately show ?thesis using ys by simp
  qed
qed

lemma join_prefix:
  assumes "close \<in> {CHR '']'', CHR ''}''}"
    and "\<And>x y. x \<in> set xs \<Longrightarrow> y \<in> set ys \<Longrightarrow> prefix_code f x y"
    and "\<And>x. x \<in> set xs \<union> set ys \<Longrightarrow> \<exists>c r. f x = c # r \<and> c \<notin> {CHR '']'', CHR ''}''}"
    and eq: "join '','' (map f xs) @ close # s = join '','' (map f ys) @ close # t"
  shows "xs = ys \<and> s = t"
proof (cases xs)
  case Nil
  show ?thesis
  proof (cases ys)
    case (Cons y ys')
    with assms(3) [of y] obtain c r where "f y = c # r" "c \<notin> {CHR '']'', CHR ''}''}" by auto
    with eq Nil Cons assms(1) show ?thesis by (cases ys') auto
  qed (use eq Nil in simp)
next
  case xs: (Cons x xs')
  show ?thesis
  proof (cases ys)
    case Nil
    with assms(3) [of x] xs obtain c r where "f x = c # r" "c \<notin> {CHR '']'', CHR ''}''}" by auto
    with eq Nil xs assms(1) show ?thesis by (cases xs') auto
  next
    case (Cons y ys')
    with eq xs have "tails f close xs s = tails f close ys t"
      by (simp only: join_tails tails.simps)
    with assms(2) show ?thesis by (intro tails_prefix [OF assms(1)])
  qed
qed

text \<open>Normal forms hold no \<open>undefined\<close>.\<close>

fun defined :: "json \<Rightarrow> bool" where
  "defined JUndefined = False"
| "defined (JArr vs) = (\<forall>v \<in> set vs. defined v)"
| "defined (JObj es) = (\<forall>(k, v) \<in> set es. defined v)"
| "defined v = True"

lemma text_of_head:
  "defined v \<Longrightarrow> \<exists>c r. text_of v = c # r \<and> c \<notin> {CHR '']'', CHR ''}''}"
proof (cases v)
  case (JNum n)
  then show ?thesis using show_int_head [of n] by (auto simp: is_digit_def)
qed (auto simp: json_string_def)

lemma text_of_prefix_code:
  "defined v \<Longrightarrow> defined w \<Longrightarrow> prefix_code text_of v w"
proof (induction v arbitrary: w rule: text_of.induct [case_names arr obj undef null bool num str])
  case (arr vs)
  show ?case
  proof (cases w)
    case (JArr ws)
    have "prefix_code text_of x y" if "x \<in> set vs" "y \<in> set ws" for x y
      using arr that JArr by simp
    moreover have "\<exists>c r. text_of x = c # r \<and> c \<notin> {CHR '']'', CHR ''}''}" if "x \<in> set vs \<union> set ws" for x
      using arr.prems that JArr by (intro text_of_head) auto
    ultimately have "vs = ws \<and> s = t"
      if "join '','' (map text_of vs) @ CHR '']'' # s = join '','' (map text_of ws) @ CHR '']'' # t" for s t
      using that by (intro join_prefix [of "CHR '']''" vs ws text_of]) simp_all
    then show ?thesis by (simp add: prefix_code_def JArr)
  next
    case (JNum n)
    then show ?thesis using show_int_head [of n] by (auto simp: prefix_code_def is_digit_def)
  qed (use arr.prems in \<open>auto simp: prefix_code_def json_string_def\<close>)
next
  case (obj es)
  let ?f = "\<lambda>(k, v). json_string k @ '':'' @ text_of v"
  show ?case
  proof (cases w)
    case (JObj fs)
    have "prefix_code ?f x y" if "x \<in> set es" "y \<in> set fs" for x y
    proof -
      obtain k v l u where xy: "x = (k, v)" "y = (l, u)" by (cases x; cases y)
      have "prefix_code text_of v u" using obj that JObj xy by fastforce
      then show ?thesis by (auto simp: prefix_code_def xy dest!: json_string_prefix)
    qed
    moreover have "\<exists>c r. ?f x = c # r \<and> c \<notin> {CHR '']'', CHR ''}''}" for x
      by (cases x) (simp add: json_string_def)
    ultimately have "es = fs \<and> s = t"
      if "join '','' (map ?f es) @ CHR ''}'' # s = join '','' (map ?f fs) @ CHR ''}'' # t" for s t
      using that by (intro join_prefix [of "CHR ''}''" es fs ?f]) simp_all
    then show ?thesis by (simp add: prefix_code_def JObj)
  next
    case (JNum n)
    then show ?thesis using show_int_head [of n] by (auto simp: prefix_code_def is_digit_def)
  qed (use obj.prems in \<open>auto simp: prefix_code_def json_string_def\<close>)
next
  case (num n)
  show ?case
  proof (cases w)
    case (JNum m)
    then show ?thesis unfolding prefix_code_def by (simp add: JNum) (blast dest: show_int_prefix)
  qed (use num.prems show_int_head [of n] in \<open>auto simp: prefix_code_def json_string_def is_digit_def split: if_splits\<close>)
next
  case (str s)
  show ?case
  proof (cases w)
    case (JStr u)
    then show ?thesis unfolding prefix_code_def by (simp add: JStr) (blast dest: json_string_prefix)
  next
    case (JNum n)
    then show ?thesis using show_int_head [of n] by (auto simp: prefix_code_def is_digit_def json_string_def)
  qed (use str.prems in \<open>auto simp: prefix_code_def json_string_def split: if_splits\<close>)
next
  case undef
  then show ?case by simp
next
  case null
  show ?case
  proof (cases w)
    case (JNum n)
    then show ?thesis using show_int_head [of n] by (auto simp: prefix_code_def is_digit_def)
  qed (use null.prems in \<open>auto simp: prefix_code_def json_string_def split: if_splits\<close>)
next
  case (bool b)
  show ?case
  proof (cases w)
    case (JNum n)
    then show ?thesis using show_int_head [of n] by (cases b) (auto simp: prefix_code_def is_digit_def)
  qed (use bool.prems in \<open>auto simp: prefix_code_def json_string_def split: if_splits\<close>)
qed

lemma canon_defined: "json_ok v \<Longrightarrow> v \<noteq> JUndefined \<Longrightarrow> defined (canon v)"
proof (induction v rule: json_ok.induct)
  case (1 vs)
  then show ?case by auto
next
  case (2 es)
  then have "defined (canon (snd e))" if "e \<in> set es" "snd e \<noteq> JUndefined" for e using that by auto
  then show ?case unfolding canon_obj by auto
qed auto

lemma canonicalJson_eq_canon:
  assumes "json_ok v" "json_ok w" "v \<noteq> JUndefined" "w \<noteq> JUndefined"
  shows "canonicalJson v = canonicalJson w \<longleftrightarrow> canon v = canon w"
proof
  assume "canonicalJson v = canonicalJson w"
  moreover have "prefix_code text_of (canon v) (canon w)"
    using assms by (intro text_of_prefix_code canon_defined)
  ultimately show "canon v = canon w"
    unfolding canonicalJson_text prefix_code_def by (metis append_Nil2 sep_simps(1))
qed (simp add: canonicalJson_text)

text \<open>The fields of a normal form.\<close>

definition entries :: "(string \<times> json) list \<Rightarrow> (string \<times> json) list" where
  "entries es = map (\<lambda>e. (fst e, canon (snd e))) (sort_key fst (filter (\<lambda>e. snd e \<noteq> JUndefined) es))"

lemma canon_obj_entries: "canon (JObj es) = JObj (entries es)"
  by (simp only: canon_obj entries_def)

lemma distinct_fst_filter: "distinct (map fst es) \<Longrightarrow> distinct (map fst (filter P es))"
  by (induction es) auto

lemma entries_keys:
  assumes "distinct (map fst es)"
  shows "sorted (map fst (entries es))" and "distinct (map fst (entries es))"
proof -
  have keys: "map fst (entries es) = map fst (sort_key fst (filter (\<lambda>e. snd e \<noteq> JUndefined) es))"
    by (simp add: entries_def comp_def)
  show "sorted (map fst (entries es))" unfolding keys by simp
  have "mset (map fst (sort_key fst (filter (\<lambda>e. snd e \<noteq> JUndefined) es))) =
      mset (map fst (filter (\<lambda>e. snd e \<noteq> JUndefined) es))"
    by simp
  then show "distinct (map fst (entries es))"
    unfolding keys using distinct_fst_filter [OF assms] mset_eq_imp_distinct_iff by blast
qed

lemma map_of_entries:
  assumes "distinct (map fst es)"
  shows "map_of (entries es) k = map_option canon (field es k)"
proof -
  let ?fs = "filter (\<lambda>e. snd e \<noteq> JUndefined) es"
  have d: "distinct (map fst ?fs)" by (rule distinct_fst_filter [OF assms])
  have "mset (map fst (sort_key fst ?fs)) = mset (map fst ?fs)" by simp
  then have "distinct (map fst (sort_key fst ?fs))" using d mset_eq_imp_distinct_iff by blast
  then have eq: "map_of (sort_key fst ?fs) = map_of ?fs"
    using d by (subst map_of_inject_set) simp_all
  have "map_of (map (\<lambda>e. (fst e, canon (snd e))) xs) k = map_option canon (map_of xs k)" for xs
    by (induction xs) auto
  then show ?thesis by (simp add: entries_def field_def eq)
qed

lemma assoc_list_by_keys:
  "distinct (map fst xs) \<Longrightarrow> xs = map (\<lambda>k. (k, the (map_of xs k))) (map fst xs)"
proof (induction xs)
  case (Cons x xs)
  have "map_of (x # xs) k = map_of xs k" if "k \<in> set (map fst xs)" for k
    using Cons.prems that by (cases x) auto
  then have "map (\<lambda>k. (k, the (map_of (x # xs) k))) (map fst xs) = map (\<lambda>k. (k, the (map_of xs k))) (map fst xs)"
    by (intro map_cong) simp_all
  with Cons show ?case by (cases x) simp
qed simp

lemma sorted_assoc_unique:
  assumes "sorted (map fst xs)" "sorted (map fst ys)" "distinct (map fst xs)" "distinct (map fst ys)"
    and eq: "map_of xs = map_of ys"
  shows "xs = ys"
proof -
  have "set (map fst xs) = set (map fst ys)" using eq by (metis dom_map_of_conv_image_fst set_map)
  then have "map fst xs = map fst ys" using assms(1-4) by (intro sorted_distinct_set_unique) simp_all
  then show ?thesis
    using assoc_list_by_keys [OF assms(3)] assoc_list_by_keys [OF assms(4)] eq by metis
qed

lemma field_SomeD: "field es k = Some v \<Longrightarrow> (k, v) \<in> set es \<and> v \<noteq> JUndefined"
  by (auto simp: field_def dest: map_of_SomeD)

lemma same_json_canon: "same_json v w \<Longrightarrow> json_ok v \<Longrightarrow> json_ok w \<Longrightarrow> canon v = canon w"
proof (induction rule: same_json.induct)
  case (same_arr vs ws)
  then show ?case by (auto simp: list_all2_conv_all_nth intro!: nth_equalityI)
next
  case (same_obj es fs)
  have d: "distinct (map fst es)" "distinct (map fst fs)" using same_obj.prems by simp_all
  have "map_option canon (field es k) = map_option canon (field fs k)" for k
    using same_obj.IH [of k] same_obj.prems
    by (cases "field es k"; cases "field fs k") (auto dest!: field_SomeD)
  then have "map_of (entries es) = map_of (entries fs)" by (simp add: map_of_entries d fun_eq_iff)
  then show ?case
    unfolding canon_obj_entries using entries_keys d by (simp add: sorted_assoc_unique)
qed simp_all

lemma canon_same_json: "canon v = canon w \<Longrightarrow> json_ok v \<Longrightarrow> json_ok w \<Longrightarrow> same_json v w"
proof (induction v arbitrary: w rule: json_ok.induct)
  case (1 vs)
  from "1.prems"(1) obtain ws where w: "w = JArr ws" by (cases w) auto
  with 1 have "map canon vs = map canon ws" by simp
  then have "list_all2 (\<lambda>v w. canon v = canon w) vs ws" by (simp add: list_all2_map1 list_all2_map2 list.rel_eq [symmetric])
  then have "list_all2 same_json vs ws"
    using 1 w by (auto simp: list_all2_conv_all_nth)
  then show ?case unfolding w by (rule same_json.same_arr)
next
  case (2 es)
  from "2.prems"(1) obtain fs where w: "w = JObj fs" by (cases w) auto
  have d: "distinct (map fst es)" "distinct (map fst fs)" using "2.prems" w by simp_all
  have "entries es = entries fs" using 2 w by (simp only: canon_obj_entries json.inject)
  then have m: "map_option canon (field es k) = map_option canon (field fs k)" for k
    using map_of_entries d by metis
  have "rel_option same_json (field es k) (field fs k)" for k
  proof (cases "field es k")
    case None
    then show ?thesis using m [of k] by simp
  next
    case (Some x)
    then obtain y where y: "field fs k = Some y" "canon x = canon y" using m [of k] by (cases "field fs k") auto
    have "same_json x y"
      using 2 w Some y by (auto dest!: field_SomeD)
    then show ?thesis using Some y by simp
  qed
  then show ?case unfolding w by (rule same_json.same_obj)
qed (case_tac [!] w, auto intro: same_json.intros)

section \<open>Properties\<close>

text \<open>
  C30: the signed text determines the signed value. Two values have the same canonical text
  exactly when they are the same JSON value up to the order of the fields of objects (and
  fields that are \<open>undefined\<close>), so a signature over one message is a signature over no
  other message, and it does not depend on how the fields were ordered.
\<close>

theorem canonicalJson_exact:
  assumes "json_ok v" and "json_ok w" and "v \<noteq> JUndefined" and "w \<noteq> JUndefined"
  shows "canonicalJson v = canonicalJson w \<longleftrightarrow> same_json v w"
  using canonicalJson_eq_canon [OF assms] same_json_canon [of v w] canon_same_json [of v w] assms(1,2)
  by blast

theorem canonicalJson_exact_witness:
  "canonicalJson (JObj [(''b'', JNum 1), (''a'', JStr [CHR 0x22])]) =
     canonicalJson (JObj [(''a'', JStr [CHR 0x22]), (''b'', JNum 1), (''c'', JUndefined)]) \<longleftrightarrow>
   same_json (JObj [(''b'', JNum 1), (''a'', JStr [CHR 0x22])])
     (JObj [(''a'', JStr [CHR 0x22]), (''b'', JNum 1), (''c'', JUndefined)])"
  by (rule canonicalJson_exact) simp_all

text \<open>
  Signatures of envelopes check out, and only over their content. If the signature
  scheme accepts what it signed and its signatures are not empty, an envelope signed by
  \<open>signEnvelope\<close> passes \<open>verifyEnvelope\<close> under the matching key; and whenever two well-formed
  envelopes carry the same signature and agree up to field order outside it, the verdicts agree.
\<close>

theorem signEnvelope_verifies:
  assumes "node_verify cr pub (canonicalJson (unsigned e)) (node_sign cr priv (canonicalJson (unsigned e)))"
    and "node_sign cr priv (canonicalJson (unsigned e)) \<noteq> []"
    and "json_ok (JObj e)" and "json_ok (JObj e')"
    and "same_json (unsigned e) (unsigned e')"
    and "map_of e' ''signature'' = Some (JStr (signEnvelope cr e priv))"
  shows "verifyEnvelope cr e' pub"
proof -
  have ok: "json_ok (unsigned f)" if "json_ok (JObj f)" for f
    using that by (auto simp: unsigned_def distinct_fst_filter)
  have "canonicalJson (unsigned e') = canonicalJson (unsigned e)"
    using same_json_canon [OF assms(5) ok ok] assms(3,4) by (simp add: canonicalJson_text)
  moreover have "envelope_signature e' = node_sign cr priv (canonicalJson (unsigned e))"
    using assms(6) by (simp add: envelope_signature_def signEnvelope_def)
  ultimately show ?thesis using assms(1,2) by (simp add: verifyEnvelope_def)
qed

definition sample_crypto :: node_crypto where
  "sample_crypto = \<lparr>sha256Base64Url = (\<lambda>s. ''h'' @ s), node_sign = (\<lambda>k m. k @ m),
     node_verify = (\<lambda>k m s. s = k @ m)\<rparr>"

definition sample_envelope :: envelope where
  "sample_envelope = [(''type'', JStr ''policy.update''), (''agent_id'', JStr ''a''), (''signature'', JStr '''')]"

theorem signEnvelope_verifies_witness:
  "verifyEnvelope sample_crypto
     [(''signature'', JStr (signEnvelope sample_crypto sample_envelope ''key'')),
      (''agent_id'', JStr ''a''), (''type'', JStr ''policy.update'')] ''key''"
proof (rule signEnvelope_verifies [of _ _ sample_envelope "''key''"])
  show "same_json (unsigned sample_envelope) (unsigned
     [(''signature'', JStr (signEnvelope sample_crypto sample_envelope ''key'')),
      (''agent_id'', JStr ''a''), (''type'', JStr ''policy.update'')])"
    unfolding unsigned_def sample_envelope_def
    by (rule same_json.same_obj) (auto simp: field_def intro: same_json.intros)
qed (simp_all add: sample_crypto_def sample_envelope_def)

end
