(* ===== verification/RemoteStore.thy ===== *)
theory RemoteStore
  imports RemoteCrypto
begin

text \<open>
  The SQLite store of \<open>src/remote/store.ts\<close>: one list of rows per table, the uniqueness
  constraints of \<open>migrate\<close> as errors of the inserts, and one definition per method. The
  invariant \<open>store_wf\<close> says that the constraints hold. The locale \<open>one_time\<close> is the contract
  of a table of one-time secrets (look up by hash, mark as used); it is interpreted for
  authorization codes and for enrollment tokens.
\<close>

section \<open>Rows\<close>

record user_row =
  us_id :: string
  us_githubId :: string
  us_githubLogin :: string
  us_createdAt :: int
  us_updatedAt :: int

datatype action_status = APending | ASent | ACompleted | ADenied | ATimeout | AError

record ActionResultEnvelope =
  re_action_id :: string
  re_agent_id :: string
  re_nonce :: string
  re_ok :: bool
  re_exit_code :: "int option"
  re_stdout :: "string option"
  re_stderr :: "string option"
  re_started_at :: string
  re_finished_at :: string
  re_truncated :: bool
  re_error_code :: "RemoteErrorCode option"
  re_message :: "string option"
  re_signature :: string

record ActionRecord =
  act_id :: string
  act_userId :: string
  act_agentId :: string
  act_tool :: RemoteToolName
  act_capability :: RemoteCapability
  act_args :: "(string \<times> json) list"
  act_status :: action_status
  act_issuedAt :: int
  act_deadline :: int
  act_completedAt :: "int option"
  act_result :: "ActionResultEnvelope option"
  act_errorCode :: "RemoteErrorCode option"

datatype severity = Info | Warn | ErrorSeverity

record AuditEvent =
  ev_id :: string
  ev_userId :: "string option"
  ev_agentId :: "string option"
  ev_actionId :: "string option"
  ev_type :: string
  ev_severity :: severity
  ev_metadata :: "(string \<times> json) list"
  ev_createdAt :: int

record remote_store =
  users :: "user_row list"
  clients :: "OAuthClient list"
  codes :: "OAuthAuthorizationCode list"
  agents :: "RemoteAgentRecord list"
  tokens :: "AgentEnrollmentTokenRecord list"
  actions :: "ActionRecord list"
  audits :: "AuditEvent list"

definition empty_store :: remote_store where
  "empty_store = \<lparr>users = [], clients = [], codes = [], agents = [], tokens = [], actions = [], audits = []\<rparr>"

datatype store_error = UniqueFailed string | TokenUseConflict string

section \<open>Tables\<close>

text \<open>An insert fails when a row clashes with the new one; an update maps the rows that
  satisfy its condition.\<close>

definition insert_row :: "('r \<Rightarrow> 'r \<Rightarrow> bool) \<Rightarrow> string \<Rightarrow> 'r \<Rightarrow> 'r list \<Rightarrow> store_error + 'r list" where
  "insert_row clash tbl r rows =
     (if list_ex (clash r) rows then Inl (UniqueFailed tbl) else Inr (rows @ [r]))"

definition update_rows :: "('r \<Rightarrow> bool) \<Rightarrow> ('r \<Rightarrow> 'r) \<Rightarrow> 'r list \<Rightarrow> 'r list" where
  "update_rows p f rows = map (\<lambda>r. if p r then f r else r) rows"

definition table_wf :: "('r \<Rightarrow> 'r \<Rightarrow> bool) \<Rightarrow> 'r list \<Rightarrow> bool" where
  "table_wf clash rows = sorted_wrt (\<lambda>a b. \<not> clash a b \<and> \<not> clash b a) rows"

lemma insert_row_wf:
  "insert_row clash tbl r rows = Inr rows' \<Longrightarrow> table_wf clash rows \<Longrightarrow> symp clash \<Longrightarrow> table_wf clash rows'"
  by (auto simp: insert_row_def table_wf_def sorted_wrt_append list_ex_iff split: if_splits) (metis sympD)

lemma update_rows_wf:
  assumes "table_wf clash rows" and "\<And>a b. clash (f a) b = clash a b" and "\<And>a b. clash a (f b) = clash a b"
  shows "table_wf clash (update_rows p f rows)"
  using assms unfolding table_wf_def update_rows_def by (simp add: sorted_wrt_map)

lemma table_wf_unique:
  assumes "table_wf clash rows" and "\<And>a b. key a = key b \<Longrightarrow> clash a b"
  shows "distinct (map key rows)"
  using assms by (induction rows) (auto simp: table_wf_def)

lemma find_unique:
  assumes "distinct (map key rows)" and "r \<in> set rows"
  shows "find (\<lambda>x. key x = key r) rows = Some r"
  using assms by (induction rows) auto

lemma find_SomeD: "find P xs = Some x \<Longrightarrow> x \<in> set xs \<and> P x"
  by (auto simp: find_Some_iff)

lemma find_cong_set: "(\<And>x. x \<in> set xs \<Longrightarrow> P x = Q x) \<Longrightarrow> find P xs = find Q xs"
  by (induction xs) auto

lemma find_update_rows:
  assumes "\<And>r. key (f r) = key r"
  shows "find (\<lambda>r. key r = k) (update_rows p f rows) =
    map_option (\<lambda>r. if p r then f r else r) (find (\<lambda>r. key r = k) rows)"
  using assms by (induction rows) (auto simp: update_rows_def)

lemma update_rows_key [simp]: "(\<And>r. key (f r) = key r) \<Longrightarrow> map key (update_rows p f rows) = map key rows"
  by (simp add: update_rows_def)

section \<open>Users\<close>

definition upsertUser :: "string \<Rightarrow> string \<Rightarrow> string \<Rightarrow> int \<Rightarrow> remote_store \<Rightarrow> store_error + remote_store" where
  "upsertUser internalId ghId login now st =
     (if list_ex (\<lambda>u. us_githubId u = ghId) (users st) then
        (if list_ex (\<lambda>u. us_githubId u \<noteq> ghId \<and> us_githubLogin u = login) (users st)
         then Inl (UniqueFailed ''users'')
         else Inr (st\<lparr>users := update_rows (\<lambda>u. us_githubId u = ghId)
                      (\<lambda>u. u\<lparr>us_githubLogin := login, us_updatedAt := now\<rparr>) (users st)\<rparr>))
      else if list_ex (\<lambda>u. us_id u = internalId \<or> us_githubLogin u = login) (users st)
      then Inl (UniqueFailed ''users'')
      else Inr (st\<lparr>users := users st @ [\<lparr>us_id = internalId, us_githubId = ghId,
             us_githubLogin = login, us_createdAt = now, us_updatedAt = now\<rparr>]\<rparr>))"

definition getUserByGitHubId :: "string \<Rightarrow> remote_store \<Rightarrow> user_row option" where
  "getUserByGitHubId ghId st = find (\<lambda>u. us_githubId u = ghId) (users st)"

section \<open>Clients\<close>

definition client_clash :: "OAuthClient \<Rightarrow> OAuthClient \<Rightarrow> bool" where
  "client_clash a b \<longleftrightarrow> oc_id a = oc_id b \<or> oc_clientId a = oc_clientId b"

definition insertClient :: "OAuthClient \<Rightarrow> remote_store \<Rightarrow> store_error + remote_store" where
  "insertClient c st = rbind (insert_row client_clash ''oauth_clients'' c (clients st))
     (\<lambda>rows. Inr (st\<lparr>clients := rows\<rparr>))"

definition getClient :: "string \<Rightarrow> remote_store \<Rightarrow> OAuthClient option" where
  "getClient cid st = find (\<lambda>c. oc_clientId c = cid) (clients st)"

definition countOAuthClients :: "remote_store \<Rightarrow> int" where
  "countOAuthClients st = int (length (clients st))"

section \<open>Authorization codes\<close>

definition code_clash :: "OAuthAuthorizationCode \<Rightarrow> OAuthAuthorizationCode \<Rightarrow> bool" where
  "code_clash a b \<longleftrightarrow> ac_id a = ac_id b \<or> ac_codeHash a = ac_codeHash b"

definition insertAuthorizationCode :: "OAuthAuthorizationCode \<Rightarrow> remote_store \<Rightarrow> store_error + remote_store" where
  "insertAuthorizationCode c st = rbind (insert_row code_clash ''oauth_authorization_codes'' c (codes st))
     (\<lambda>rows. Inr (st\<lparr>codes := rows\<rparr>))"

definition getAuthorizationCodeByHash :: "string \<Rightarrow> remote_store \<Rightarrow> OAuthAuthorizationCode option" where
  "getAuthorizationCodeByHash h st = find (\<lambda>c. ac_codeHash c = h) (codes st)"

definition markAuthorizationCodeUsed :: "string \<Rightarrow> int \<Rightarrow> remote_store \<Rightarrow> store_error + remote_store" where
  "markAuthorizationCodeUsed h t st =
     (let sel = (\<lambda>c. ac_codeHash c = h \<and> ac_usedAt c = None) in
      if length (filter sel (codes st)) \<noteq> 1 then Inl (TokenUseConflict ''Authorization code already used'')
      else Inr (st\<lparr>codes := update_rows sel (\<lambda>c. c\<lparr>ac_usedAt := Some t\<rparr>) (codes st)\<rparr>))"

section \<open>Agents\<close>

definition agent_clash :: "RemoteAgentRecord \<Rightarrow> RemoteAgentRecord \<Rightarrow> bool" where
  "agent_clash a b \<longleftrightarrow> ag_id a = ag_id b \<or> (ag_userId a = ag_userId b \<and> ag_alias a = ag_alias b)"

definition insertAgent :: "RemoteAgentRecord \<Rightarrow> remote_store \<Rightarrow> store_error + remote_store" where
  "insertAgent a st = rbind (insert_row agent_clash ''agents'' a (agents st))
     (\<lambda>rows. Inr (st\<lparr>agents := rows\<rparr>))"

text \<open>\<open>UPDATE agents ... WHERE id = ?\<close>: the owner and the creation time stay; an alias taken by
  another agent of the owner violates the constraint.\<close>

definition updateAgent :: "RemoteAgentRecord \<Rightarrow> remote_store \<Rightarrow> store_error + remote_store" where
  "updateAgent a st =
     (let new = (\<lambda>r. a\<lparr>ag_userId := ag_userId r, ag_createdAt := ag_createdAt r\<rparr>) in
      if list_ex (\<lambda>r. ag_id r = ag_id a \<and>
           list_ex (\<lambda>q. ag_id q \<noteq> ag_id a \<and> ag_userId q = ag_userId r \<and> ag_alias q = ag_alias a) (agents st))
         (agents st)
      then Inl (UniqueFailed ''agents'')
      else Inr (st\<lparr>agents := update_rows (\<lambda>r. ag_id r = ag_id a) new (agents st)\<rparr>))"

text \<open>Reading a row back turns an empty public key into \<open>undefined\<close>.\<close>

definition agentFromRow :: "RemoteAgentRecord \<Rightarrow> RemoteAgentRecord" where
  "agentFromRow r = (if truthy (ag_publicKey r) then r else r\<lparr>ag_publicKey := None\<rparr>)"

definition getAgent :: "string \<Rightarrow> remote_store \<Rightarrow> RemoteAgentRecord option" where
  "getAgent aid st = map_option agentFromRow (find (\<lambda>a. ag_id a = aid) (agents st))"

definition getAgentByAlias :: "string \<Rightarrow> string \<Rightarrow> remote_store \<Rightarrow> RemoteAgentRecord option" where
  "getAgentByAlias uid alias st =
     map_option agentFromRow (find (\<lambda>a. ag_userId a = uid \<and> ag_alias a = alias) (agents st))"

definition listAgents :: "string \<Rightarrow> remote_store \<Rightarrow> RemoteAgentRecord list" where
  "listAgents uid st =
     map agentFromRow (sort_key ag_createdAt (filter (\<lambda>a. ag_userId a = uid) (agents st)))"

section \<open>Enrollment tokens\<close>

definition token_clash :: "AgentEnrollmentTokenRecord \<Rightarrow> AgentEnrollmentTokenRecord \<Rightarrow> bool" where
  "token_clash a b \<longleftrightarrow> et_id a = et_id b \<or> et_tokenHash a = et_tokenHash b"

definition insertEnrollmentToken :: "AgentEnrollmentTokenRecord \<Rightarrow> remote_store \<Rightarrow> store_error + remote_store" where
  "insertEnrollmentToken t st = rbind (insert_row token_clash ''agent_enrollment_tokens'' t (tokens st))
     (\<lambda>rows. Inr (st\<lparr>tokens := rows\<rparr>))"

definition getEnrollmentTokenByHash :: "string \<Rightarrow> remote_store \<Rightarrow> AgentEnrollmentTokenRecord option" where
  "getEnrollmentTokenByHash h st = find (\<lambda>t. et_tokenHash t = h) (tokens st)"

definition markEnrollmentTokenUsed :: "string \<Rightarrow> int \<Rightarrow> remote_store \<Rightarrow> store_error + remote_store" where
  "markEnrollmentTokenUsed h t st =
     (let sel = (\<lambda>r. et_tokenHash r = h \<and> et_usedAt r = None) in
      if length (filter sel (tokens st)) \<noteq> 1 then Inl (TokenUseConflict ''Enrollment token already used'')
      else Inr (st\<lparr>tokens := update_rows sel (\<lambda>r. r\<lparr>et_usedAt := Some t\<rparr>) (tokens st)\<rparr>))"

section \<open>Actions and audit events\<close>

definition insertAction :: "ActionRecord \<Rightarrow> remote_store \<Rightarrow> store_error + remote_store" where
  "insertAction a st = rbind (insert_row (\<lambda>x y. act_id x = act_id y) ''actions'' a (actions st))
     (\<lambda>rows. Inr (st\<lparr>actions := rows\<rparr>))"

definition updateAction :: "ActionRecord \<Rightarrow> remote_store \<Rightarrow> remote_store" where
  "updateAction a st =
     st\<lparr>actions := update_rows (\<lambda>r. act_id r = act_id a)
        (\<lambda>r. r\<lparr>act_status := act_status a, act_completedAt := act_completedAt a,
               act_result := act_result a, act_errorCode := act_errorCode a\<rparr>) (actions st)\<rparr>"

definition insertAudit :: "AuditEvent \<Rightarrow> remote_store \<Rightarrow> store_error + remote_store" where
  "insertAudit e st = rbind (insert_row (\<lambda>x y. ev_id x = ev_id y) ''audit_events'' e (audits st))
     (\<lambda>rows. Inr (st\<lparr>audits := rows\<rparr>))"

definition listAudit :: "string \<Rightarrow> string option \<Rightarrow> int \<Rightarrow> remote_store \<Rightarrow> AuditEvent list" where
  "listAudit uid agentId limit st =
     (let safeLimit = min (max limit 1) 200;
          rows = filter (\<lambda>e. ev_userId e = Some uid \<and> (truthy agentId \<longrightarrow> ev_agentId e = agentId)) (audits st)
      in take (nat safeLimit) (sort_key (\<lambda>e. - ev_createdAt e) rows))"

section \<open>The constraints hold\<close>

definition user_clash :: "user_row \<Rightarrow> user_row \<Rightarrow> bool" where
  "user_clash a b \<longleftrightarrow> us_id a = us_id b \<or> us_githubId a = us_githubId b \<or> us_githubLogin a = us_githubLogin b"

definition store_wf :: "remote_store \<Rightarrow> bool" where
  "store_wf st \<longleftrightarrow> table_wf user_clash (users st) \<and> table_wf client_clash (clients st) \<and>
     table_wf code_clash (codes st) \<and> table_wf agent_clash (agents st) \<and>
     table_wf token_clash (tokens st) \<and> table_wf (\<lambda>x y. act_id x = act_id y) (actions st) \<and>
     table_wf (\<lambda>x y. ev_id x = ev_id y) (audits st)"

lemma store_wf_empty: "store_wf empty_store"
  by (simp add: store_wf_def empty_store_def table_wf_def)

lemma table_wf_append:
  "table_wf clash (rows @ [r]) \<longleftrightarrow> table_wf clash rows \<and> (\<forall>x \<in> set rows. \<not> clash x r \<and> \<not> clash r x)"
  by (auto simp: table_wf_def sorted_wrt_append)

lemma table_wf_map:
  assumes "table_wf clash rows"
    and "\<And>a b. a \<in> set rows \<Longrightarrow> b \<in> set rows \<Longrightarrow> a \<noteq> b \<Longrightarrow> \<not> clash a b \<Longrightarrow> \<not> clash b a \<Longrightarrow> \<not> clash (g a) (g b)"
    and "\<And>a. clash a a"
  shows "table_wf clash (map g rows)"
proof -
  have "a \<noteq> b" if "\<not> clash a b" for a b using assms(3) that by auto
  then show ?thesis
    using assms(1,2) unfolding table_wf_def sorted_wrt_map
    by (elim sorted_wrt_mono_rel [rotated]) auto
qed

lemma upsertUser_wf: "store_wf st \<Longrightarrow> upsertUser i g l now st = Inr st' \<Longrightarrow> store_wf st'"
proof -
  assume wf: "store_wf st" and up: "upsertUser i g l now st = Inr st'"
  have t: "table_wf user_clash (users st)" using wf by (simp add: store_wf_def)
  show "store_wf st'"
  proof (cases "list_ex (\<lambda>u. us_githubId u = g) (users st)")
    case True
    with up have no: "\<forall>u \<in> set (users st). us_githubId u \<noteq> g \<longrightarrow> us_githubLogin u \<noteq> l"
      and st': "st' = st\<lparr>users := update_rows (\<lambda>u. us_githubId u = g)
                      (\<lambda>u. u\<lparr>us_githubLogin := l, us_updatedAt := now\<rparr>) (users st)\<rparr>"
      by (auto simp: upsertUser_def list_ex_iff split: if_splits)
    have "table_wf user_clash (users st')"
      unfolding st' update_rows_def by (simp, rule table_wf_map [OF t]) (use no in \<open>auto simp: user_clash_def\<close>)
    with wf show ?thesis by (simp add: st' store_wf_def)
  next
    case False
    with up wf show ?thesis
      by (auto simp: upsertUser_def store_wf_def table_wf_append user_clash_def list_ex_iff split: if_splits)
  qed
qed

lemma symp_clash [simp]: "symp client_clash" "symp code_clash" "symp agent_clash" "symp token_clash"
  "symp (\<lambda>x y. act_id x = act_id y)" "symp (\<lambda>x y. ev_id x = ev_id y)"
  by (auto intro!: sympI simp: client_clash_def code_clash_def agent_clash_def token_clash_def)

lemma insertClient_wf: "store_wf st \<Longrightarrow> insertClient c st = Inr st' \<Longrightarrow> store_wf st'"
  by (auto simp: insertClient_def store_wf_def dest: insert_row_wf)

lemma insertAuthorizationCode_wf: "store_wf st \<Longrightarrow> insertAuthorizationCode c st = Inr st' \<Longrightarrow> store_wf st'"
  by (auto simp: insertAuthorizationCode_def store_wf_def dest: insert_row_wf)

lemma markAuthorizationCodeUsed_wf: "store_wf st \<Longrightarrow> markAuthorizationCodeUsed h t st = Inr st' \<Longrightarrow> store_wf st'"
  by (auto simp: markAuthorizationCodeUsed_def Let_def store_wf_def code_clash_def intro!: update_rows_wf split: if_splits)

lemma insertAgent_wf: "store_wf st \<Longrightarrow> insertAgent c st = Inr st' \<Longrightarrow> store_wf st'"
  by (auto simp: insertAgent_def store_wf_def dest: insert_row_wf)

lemma insertEnrollmentToken_wf: "store_wf st \<Longrightarrow> insertEnrollmentToken c st = Inr st' \<Longrightarrow> store_wf st'"
  by (auto simp: insertEnrollmentToken_def store_wf_def dest: insert_row_wf)

lemma markEnrollmentTokenUsed_wf: "store_wf st \<Longrightarrow> markEnrollmentTokenUsed h t st = Inr st' \<Longrightarrow> store_wf st'"
  by (auto simp: markEnrollmentTokenUsed_def Let_def store_wf_def token_clash_def intro!: update_rows_wf split: if_splits)

lemma insertAction_wf: "store_wf st \<Longrightarrow> insertAction c st = Inr st' \<Longrightarrow> store_wf st'"
  by (auto simp: insertAction_def store_wf_def dest: insert_row_wf)

lemma updateAction_wf: "store_wf st \<Longrightarrow> store_wf (updateAction a st)"
  by (auto simp: updateAction_def store_wf_def intro!: update_rows_wf)

lemma insertAudit_wf: "store_wf st \<Longrightarrow> insertAudit c st = Inr st' \<Longrightarrow> store_wf st'"
  by (auto simp: insertAudit_def store_wf_def dest: insert_row_wf)

lemma updateAgent_wf:
  assumes wf: "store_wf st" and up: "updateAgent a st = Inr st'"
  shows "store_wf st'"
proof -
  let ?new = "\<lambda>r. if ag_id r = ag_id a then a\<lparr>ag_userId := ag_userId r, ag_createdAt := ag_createdAt r\<rparr> else r"
  have t: "table_wf agent_clash (agents st)" using wf by (simp add: store_wf_def)
  from up have st': "st' = st\<lparr>agents := map ?new (agents st)\<rparr>"
    and no: "\<forall>r \<in> set (agents st). ag_id r = ag_id a \<longrightarrow>
      (\<forall>q \<in> set (agents st). ag_id q = ag_id a \<or> ag_userId q \<noteq> ag_userId r \<or> ag_alias q \<noteq> ag_alias a)"
    by (auto simp: updateAgent_def update_rows_def list_ex_iff split: if_splits)
  have "table_wf agent_clash (map ?new (agents st))"
    by (rule table_wf_map [OF t]) (use no in \<open>fastforce simp: agent_clash_def split: if_splits\<close>)+
  with wf show ?thesis by (simp add: st' store_wf_def)
qed

lemmas store_ops_wf =
  upsertUser_wf insertClient_wf insertAuthorizationCode_wf markAuthorizationCodeUsed_wf insertAgent_wf
  updateAgent_wf insertEnrollmentToken_wf markEnrollmentTokenUsed_wf insertAction_wf updateAction_wf insertAudit_wf

section \<open>One-time secrets\<close>

text \<open>
  The contract of a table of one-time secrets: at most one row per hash (under \<open>wf\<close>); marking
  succeeds exactly on an unused one, records the time and leaves every other row alone.
\<close>

locale one_time =
  fixes wf :: "'s \<Rightarrow> bool"
    and lookup :: "string \<Rightarrow> 's \<Rightarrow> 'r option"
    and used :: "'r \<Rightarrow> int option"
    and mark :: "string \<Rightarrow> int \<Rightarrow> 's \<Rightarrow> 'e + 's"
  assumes mark_iff: "wf s \<Longrightarrow> is_ok (mark h t s) \<longleftrightarrow> (\<exists>r. lookup h s = Some r \<and> used r = None)"
    and mark_sets: "wf s \<Longrightarrow> mark h t s = Inr s' \<Longrightarrow> \<exists>r. lookup h s' = Some r \<and> used r = Some t"
    and mark_other: "wf s \<Longrightarrow> mark h t s = Inr s' \<Longrightarrow> h' \<noteq> h \<Longrightarrow> lookup h' s' = lookup h' s"
    and mark_wf: "wf s \<Longrightarrow> mark h t s = Inr s' \<Longrightarrow> wf s'"
begin

definition spent :: "string \<Rightarrow> 's \<Rightarrow> bool" where
  "spent h s \<longleftrightarrow> (\<exists>r t. lookup h s = Some r \<and> used r = Some t)"

lemma spent_refused: "wf s \<Longrightarrow> spent h s \<Longrightarrow> \<not> is_ok (mark h t s)"
  by (auto simp: spent_def mark_iff)

lemma mark_spends: "wf s \<Longrightarrow> mark h t s = Inr s' \<Longrightarrow> spent h s'"
  using mark_sets unfolding spent_def by blast

lemma mark_keeps_spent: "wf s \<Longrightarrow> mark h t s = Inr s' \<Longrightarrow> spent h' s \<Longrightarrow> spent h' s'"
  using mark_spends mark_other unfolding spent_def by (cases "h' = h") (blast, metis)

lemma mark_once: "wf s \<Longrightarrow> mark h t s = Inr s' \<Longrightarrow> \<not> is_ok (mark h t' s')"
  using mark_spends mark_wf spent_refused by blast

end

lemma one_row_selected:
  assumes "distinct (map key rows)"
  shows "length (filter (\<lambda>r. key r = h \<and> P r) rows) = 1 \<longleftrightarrow> (\<exists>r. find (\<lambda>r. key r = h) rows = Some r \<and> P r)"
  using assms
proof (induction rows)
  case (Cons x rows)
  have "filter (\<lambda>r. key r = h \<and> P r) rows = []" if "key x = h"
    using Cons.prems that by (auto simp: filter_empty_conv rev_image_eqI)
  with Cons show ?case by auto
qed simp

lemma codes_distinct: "store_wf st \<Longrightarrow> distinct (map ac_codeHash (codes st))"
  by (rule table_wf_unique [of code_clash]) (simp_all add: store_wf_def code_clash_def)

lemma tokens_distinct: "store_wf st \<Longrightarrow> distinct (map et_tokenHash (tokens st))"
  by (rule table_wf_unique [of token_clash]) (simp_all add: store_wf_def token_clash_def)

lemma agents_distinct: "store_wf st \<Longrightarrow> distinct (map ag_id (agents st))"
  by (rule table_wf_unique [of agent_clash]) (simp_all add: store_wf_def agent_clash_def)

lemma markCode_ok:
  "store_wf s \<Longrightarrow> is_ok (markAuthorizationCodeUsed h t s) \<longleftrightarrow>
     (\<exists>r. getAuthorizationCodeByHash h s = Some r \<and> ac_usedAt r = None)"
  using one_row_selected [OF codes_distinct, of s h "\<lambda>c. ac_usedAt c = None"]
  by (auto simp: markAuthorizationCodeUsed_def getAuthorizationCodeByHash_def Let_def)

lemma markCode_lookup:
  assumes "markAuthorizationCodeUsed h t s = Inr s'"
  shows "getAuthorizationCodeByHash h' s' = map_option
    (\<lambda>r. if ac_codeHash r = h \<and> ac_usedAt r = None then r\<lparr>ac_usedAt := Some t\<rparr> else r) (getAuthorizationCodeByHash h' s)"
  using assms
  by (auto simp: markAuthorizationCodeUsed_def getAuthorizationCodeByHash_def Let_def find_update_rows split: if_splits)

interpretation auth_code: one_time store_wf getAuthorizationCodeByHash ac_usedAt markAuthorizationCodeUsed
proof
  fix s h t
  assume wf: "store_wf s"
  show ok: "is_ok (markAuthorizationCodeUsed h t s) \<longleftrightarrow> (\<exists>r. getAuthorizationCodeByHash h s = Some r \<and> ac_usedAt r = None)"
    by (rule markCode_ok [OF wf])
  fix s'
  assume m: "markAuthorizationCodeUsed h t s = Inr s'"
  show "store_wf s'" by (rule markAuthorizationCodeUsed_wf [OF wf m])
  obtain r where r: "getAuthorizationCodeByHash h s = Some r" "ac_usedAt r = None" using ok m by auto
  moreover have "ac_codeHash r = h" using find_SomeD [OF r(1) [unfolded getAuthorizationCodeByHash_def]] by simp
  ultimately show "\<exists>r. getAuthorizationCodeByHash h s' = Some r \<and> ac_usedAt r = Some t"
    by (simp add: markCode_lookup [OF m])
  show "getAuthorizationCodeByHash h' s' = getAuthorizationCodeByHash h' s" if "h' \<noteq> h" for h'
    using that unfolding markCode_lookup [OF m]
    by (cases "getAuthorizationCodeByHash h' s") (auto simp: getAuthorizationCodeByHash_def dest: find_SomeD)
qed

lemma markToken_ok:
  "store_wf s \<Longrightarrow> is_ok (markEnrollmentTokenUsed h t s) \<longleftrightarrow>
     (\<exists>r. getEnrollmentTokenByHash h s = Some r \<and> et_usedAt r = None)"
  using one_row_selected [OF tokens_distinct, of s h "\<lambda>c. et_usedAt c = None"]
  by (auto simp: markEnrollmentTokenUsed_def getEnrollmentTokenByHash_def Let_def)

lemma markToken_lookup:
  assumes "markEnrollmentTokenUsed h t s = Inr s'"
  shows "getEnrollmentTokenByHash h' s' = map_option
    (\<lambda>r. if et_tokenHash r = h \<and> et_usedAt r = None then r\<lparr>et_usedAt := Some t\<rparr> else r) (getEnrollmentTokenByHash h' s)"
  using assms
  by (auto simp: markEnrollmentTokenUsed_def getEnrollmentTokenByHash_def Let_def find_update_rows split: if_splits)

interpretation enroll_token: one_time store_wf getEnrollmentTokenByHash et_usedAt markEnrollmentTokenUsed
proof
  fix s h t
  assume wf: "store_wf s"
  show ok: "is_ok (markEnrollmentTokenUsed h t s) \<longleftrightarrow> (\<exists>r. getEnrollmentTokenByHash h s = Some r \<and> et_usedAt r = None)"
    by (rule markToken_ok [OF wf])
  fix s'
  assume m: "markEnrollmentTokenUsed h t s = Inr s'"
  show "store_wf s'" by (rule markEnrollmentTokenUsed_wf [OF wf m])
  obtain r where r: "getEnrollmentTokenByHash h s = Some r" "et_usedAt r = None" using ok m by auto
  moreover have "et_tokenHash r = h" using find_SomeD [OF r(1) [unfolded getEnrollmentTokenByHash_def]] by simp
  ultimately show "\<exists>r. getEnrollmentTokenByHash h s' = Some r \<and> et_usedAt r = Some t"
    by (simp add: markToken_lookup [OF m])
  show "getEnrollmentTokenByHash h' s' = getEnrollmentTokenByHash h' s" if "h' \<noteq> h" for h'
    using that unfolding markToken_lookup [OF m]
    by (cases "getEnrollmentTokenByHash h' s") (auto simp: getEnrollmentTokenByHash_def dest: find_SomeD)
qed

end
