(* ===== verification/Envelopes.thy ===== *)
theory Envelopes
  imports RemoteStore "HOL-Library.Monad_Syntax"
begin

text \<open>
  The messages between control plane and agent: their records (\<open>src/remote/types.ts\<close>), the
  validation of incoming ones (\<open>src/remote/schemas.ts\<close>; the combinators of the schema
  library by their documented meaning, its test for date-time strings a parameter), their
  JSON form, and the dates of the standard library (\<open>toISOString\<close> and the reading of a
  date-time string that ends in \<open>Z\<close>).
\<close>

section \<open>Dates\<close>

definition days_from_civil :: "int \<Rightarrow> int \<Rightarrow> int \<Rightarrow> int" where
  "days_from_civil y m d =
     (let y' = (if m \<le> 2 then y - 1 else y); era = y' div 400; yoe = y' - era * 400;
          doy = (153 * (if 2 < m then m - 3 else m + 9) + 2) div 5 + d - 1;
          doe = yoe * 365 + yoe div 4 - yoe div 100 + doy
      in era * 146097 + doe - 719468)"

definition civil_from_days :: "int \<Rightarrow> int \<times> int \<times> int" where
  "civil_from_days days =
     (let z = days + 719468; era = z div 146097; doe = z - era * 146097;
          yoe = (doe - doe div 1460 + doe div 36524 - doe div 146096) div 365;
          doy = doe - (365 * yoe + yoe div 4 - yoe div 100);
          mp = (5 * doy + 2) div 153;
          d = doy - (153 * mp + 2) div 5 + 1;
          m = (if mp < 10 then mp + 3 else mp - 9)
      in (yoe + era * 400 + (if m \<le> 2 then 1 else 0), m, d))"

definition pad :: "nat \<Rightarrow> int \<Rightarrow> string" where
  "pad w n = (let s = show_nat (nat n) in replicate (w - length s) (CHR ''0'') @ s)"

text \<open>\<open>new Date(t).toISOString()\<close> for the years 0 to 9999.\<close>

definition toISOString :: "int \<Rightarrow> string" where
  "toISOString t =
     (let (y, m, d) = civil_from_days (t div 86400000); ms = t mod 86400000
      in pad 4 y @ ''-'' @ pad 2 m @ ''-'' @ pad 2 d @ ''T'' @
         pad 2 (ms div 3600000) @ '':'' @ pad 2 (ms div 60000 mod 60) @ '':'' @
         pad 2 (ms div 1000 mod 60) @ ''.'' @ pad 3 (ms mod 1000) @ ''Z'')"

definition num_at :: "nat \<Rightarrow> nat \<Rightarrow> string \<Rightarrow> int" where
  "num_at i w s = int (digits_val (take w (drop i s)))"

text \<open>\<open>new Date(s).getTime()\<close> of \<open>YYYY-MM-DDTHH:MM:SS\<close>, a fraction of a second or not, \<open>Z\<close>;
  the fraction counts to the millisecond.\<close>

definition date_ms :: "string \<Rightarrow> int" where
  "date_ms s =
     (let frac = (if take 1 (drop 19 s) = ''.'' then takeWhile is_digit (drop 20 s) else '''');
          f3 = take 3 (frac @ ''000'')
      in days_from_civil (num_at 0 4 s) (num_at 5 2 s) (num_at 8 2 s) * 86400000 +
         num_at 11 2 s * 3600000 + num_at 14 2 s * 60000 + num_at 17 2 s * 1000 + int (digits_val f3))"

section \<open>Access to JSON values\<close>

definition isRecord :: "json \<Rightarrow> bool" where
  "isRecord v = (case v of JObj _ \<Rightarrow> True | _ \<Rightarrow> False)"

definition asString :: "json \<Rightarrow> string option" where
  "asString v = (case v of JStr s \<Rightarrow> Some s | _ \<Rightarrow> None)"

definition asStringArray :: "json \<Rightarrow> string list" where
  "asStringArray v = (case v of JArr vs \<Rightarrow> List.map_filter asString vs | _ \<Rightarrow> [])"

text \<open>\<open>body.key\<close>: \<open>undefined\<close> when absent.\<close>

definition jprop :: "(string \<times> json) list \<Rightarrow> string \<Rightarrow> json" where
  "jprop es k = or_else (map_of es k) JUndefined"

definition str_prop :: "(string \<times> json) list \<Rightarrow> string \<Rightarrow> string option" where
  "str_prop es k = asString (jprop es k)"

section \<open>Schemas\<close>

definition z_string :: "nat \<Rightarrow> nat option \<Rightarrow> json \<Rightarrow> string option" where
  "z_string lo hi v = (case v of
      JStr s \<Rightarrow> if lo \<le> length s \<and> (case hi of None \<Rightarrow> True | Some m \<Rightarrow> length s \<le> m) then Some s else None
    | _ \<Rightarrow> None)"

definition z_datetime :: "(string \<Rightarrow> bool) \<Rightarrow> json \<Rightarrow> string option" where
  "z_datetime dt v = (case v of JStr s \<Rightarrow> if dt s then Some s else None | _ \<Rightarrow> None)"

definition z_strict :: "string list \<Rightarrow> (string \<times> json) list \<Rightarrow> bool" where
  "z_strict ks es = list_all (\<lambda>e. fst e \<in> set ks) es"

definition z_optional :: "(json \<Rightarrow> 'a option) \<Rightarrow> json \<Rightarrow> 'a option option" where
  "z_optional f v = (if v = JUndefined then Some None else map_option Some (f v))"

definition z_bool :: "json \<Rightarrow> bool option" where
  "z_bool v = (case v of JBool b \<Rightarrow> Some b | _ \<Rightarrow> None)"

definition z_int :: "json \<Rightarrow> int option" where
  "z_int v = (case v of JNum n \<Rightarrow> Some n | _ \<Rightarrow> None)"

definition z_positive :: "int option \<Rightarrow> json \<Rightarrow> int option" where
  "z_positive hi v = (case v of
      JNum n \<Rightarrow> if 0 < n \<and> (case hi of None \<Rightarrow> True | Some m \<Rightarrow> n \<le> m) then Some n else None
    | _ \<Rightarrow> None)"

definition z_enum :: "('a \<Rightarrow> string) \<Rightarrow> 'a list \<Rightarrow> json \<Rightarrow> 'a option" where
  "z_enum name xs v = (case v of JStr s \<Rightarrow> find (\<lambda>x. name x = s) xs | _ \<Rightarrow> None)"

definition z_array :: "(json \<Rightarrow> 'a option) \<Rightarrow> json \<Rightarrow> 'a list option" where
  "z_array f v = (case v of
      JArr vs \<Rightarrow> if list_all (\<lambda>x. f x \<noteq> None) vs then Some (map (\<lambda>x. the (f x)) vs) else None
    | _ \<Rightarrow> None)"

definition z_record :: "json \<Rightarrow> (string \<times> json) list option" where
  "z_record v = (case v of JObj es \<Rightarrow> Some es | _ \<Rightarrow> None)"

definition REMOTE_ERROR_CODES :: "RemoteErrorCode list" where
  "REMOTE_ERROR_CODES =
     [UNAUTHORIZED, FORBIDDEN, INVALID_TOKEN, INVALID_SCOPE, INVALID_CLIENT, INVALID_REDIRECT_URI,
      PKCE_VALIDATION_FAILED, AGENT_NOT_FOUND, AGENT_OFFLINE, AGENT_REVOKED, AGENT_TIMEOUT,
      POLICY_DENIED, CAPABILITY_DENIED, ACTION_EXPIRED, ACTION_REPLAY_DETECTED, SIGNATURE_INVALID,
      COMMAND_TIMEOUT, OUTPUT_TRUNCATED, UNSUPPORTED_PLATFORM, UNSUPPORTED_PLATFORM_OR_PRIVILEGE,
      INTERNAL_ERROR]"

fun error_code_name :: "RemoteErrorCode \<Rightarrow> string" where
  "error_code_name UNAUTHORIZED = ''UNAUTHORIZED''"
| "error_code_name FORBIDDEN = ''FORBIDDEN''"
| "error_code_name INVALID_TOKEN = ''INVALID_TOKEN''"
| "error_code_name INVALID_SCOPE = ''INVALID_SCOPE''"
| "error_code_name INVALID_CLIENT = ''INVALID_CLIENT''"
| "error_code_name INVALID_REDIRECT_URI = ''INVALID_REDIRECT_URI''"
| "error_code_name PKCE_VALIDATION_FAILED = ''PKCE_VALIDATION_FAILED''"
| "error_code_name AGENT_NOT_FOUND = ''AGENT_NOT_FOUND''"
| "error_code_name AGENT_OFFLINE = ''AGENT_OFFLINE''"
| "error_code_name AGENT_REVOKED = ''AGENT_REVOKED''"
| "error_code_name AGENT_TIMEOUT = ''AGENT_TIMEOUT''"
| "error_code_name POLICY_DENIED = ''POLICY_DENIED''"
| "error_code_name CAPABILITY_DENIED = ''CAPABILITY_DENIED''"
| "error_code_name ACTION_EXPIRED = ''ACTION_EXPIRED''"
| "error_code_name ACTION_REPLAY_DETECTED = ''ACTION_REPLAY_DETECTED''"
| "error_code_name SIGNATURE_INVALID = ''SIGNATURE_INVALID''"
| "error_code_name COMMAND_TIMEOUT = ''COMMAND_TIMEOUT''"
| "error_code_name OUTPUT_TRUNCATED = ''OUTPUT_TRUNCATED''"
| "error_code_name UNSUPPORTED_PLATFORM = ''UNSUPPORTED_PLATFORM''"
| "error_code_name UNSUPPORTED_PLATFORM_OR_PRIVILEGE = ''UNSUPPORTED_PLATFORM_OR_PRIVILEGE''"
| "error_code_name INTERNAL_ERROR = ''INTERNAL_ERROR''"

fun profile_name :: "AgentProfileName \<Rightarrow> string" where
  "profile_name ReadOnly = ''read-only''"
| "profile_name Operations = ''operations''"
| "profile_name FullAdmin = ''full-admin''"
| "profile_name Custom = ''custom''"

section \<open>Host metadata and policies\<close>

definition parseAgentHostMetadata :: "json \<Rightarrow> AgentHostMetadata option" where
  "parseAgentHostMetadata v =
     (case v of
        JObj es \<Rightarrow>
          (if z_strict [''hostname'', ''os'', ''arch'', ''platform''] es then
             do {
               h \<leftarrow> z_string 1 (Some 255) (jprop es ''hostname'');
               o' \<leftarrow> z_string 1 (Some 128) (jprop es ''os'');
               a \<leftarrow> z_string 1 (Some 64) (jprop es ''arch'');
               p \<leftarrow> z_string 1 (Some 128) (jprop es ''platform'');
               Some \<lparr>hm_hostname = h, hm_os = o', hm_arch = a, hm_platform = p\<rparr>
             }
           else None)
      | _ \<Rightarrow> None)"

definition parseCapabilityPolicy :: "json \<Rightarrow> (RemoteCapability \<Rightarrow> bool) option" where
  "parseCapabilityPolicy v =
     (case v of
        JObj es \<Rightarrow>
          (if z_strict (map capability_name REMOTE_CAPABILITIES) es \<and>
              list_all (\<lambda>c. z_bool (jprop es (capability_name c)) \<noteq> None) REMOTE_CAPABILITIES
           then Some (\<lambda>c. z_bool (jprop es (capability_name c)) = Some True) else None)
      | _ \<Rightarrow> None)"

definition parseAgentPolicy :: "json \<Rightarrow> AgentPolicy option" where
  "parseAgentPolicy v =
     (case v of
        JObj es \<Rightarrow>
          (if z_strict [''profile'', ''capabilities'', ''allowPaths'', ''denyPaths'', ''allowServices'',
               ''allowContainers'', ''maxOutputBytes'', ''maxActionTimeoutSeconds'', ''version''] es then
             do {
               pr \<leftarrow> z_enum profile_name [ReadOnly, Operations, FullAdmin, Custom] (jprop es ''profile'');
               cs \<leftarrow> parseCapabilityPolicy (jprop es ''capabilities'');
               ap \<leftarrow> z_array asString (jprop es ''allowPaths'');
               dp \<leftarrow> z_array asString (jprop es ''denyPaths'');
               sv \<leftarrow> z_array asString (jprop es ''allowServices'');
               ct \<leftarrow> z_array asString (jprop es ''allowContainers'');
               mo \<leftarrow> z_positive (Some 10000000) (jprop es ''maxOutputBytes'');
               mt \<leftarrow> z_positive (Some 3600) (jprop es ''maxActionTimeoutSeconds'');
               ver \<leftarrow> z_positive None (jprop es ''version'');
               Some \<lparr>ap_profile = pr, capabilities = cs, allowPaths = ap, denyPaths = dp, allowServices = sv, allowContainers = ct, maxOutputBytes = mo, maxActionTimeoutSeconds = mt, policy_ver = ver\<rparr>
             }
           else None)
      | _ \<Rightarrow> None)"

definition strs :: "string list \<Rightarrow> json" where
  "strs xs = JArr (map JStr xs)"

definition policy_json :: "AgentPolicy \<Rightarrow> json" where
  "policy_json p = JObj
     [(''profile'', JStr (profile_name (ap_profile p))),
      (''capabilities'', JObj (map (\<lambda>c. (capability_name c, JBool (capabilities p c))) REMOTE_CAPABILITIES)),
      (''allowPaths'', strs (allowPaths p)), (''denyPaths'', strs (denyPaths p)),
      (''allowServices'', strs (allowServices p)), (''allowContainers'', strs (allowContainers p)),
      (''maxOutputBytes'', JNum (maxOutputBytes p)),
      (''maxActionTimeoutSeconds'', JNum (maxActionTimeoutSeconds p)),
      (''version'', JNum (policy_ver p))]"

section \<open>Messages of the agent\<close>

record AgentHelloEnvelope =
  he_agent_id :: string
  he_timestamp :: string
  he_nonce :: string
  he_capabilities :: "RemoteCapability list"
  he_agent_version :: string
  he_host :: AgentHostMetadata
  he_signature :: string

definition parseAgentHelloEnvelope :: "(string \<Rightarrow> bool) \<Rightarrow> json \<Rightarrow> AgentHelloEnvelope option" where
  "parseAgentHelloEnvelope dt v =
     (case v of
        JObj es \<Rightarrow>
          (if z_strict [''type'', ''agent_id'', ''timestamp'', ''nonce'', ''capabilities'', ''agent_version'',
               ''host'', ''signature''] es \<and> jprop es ''type'' = JStr ''agent.hello'' then
             do {
               a \<leftarrow> z_string 1 None (jprop es ''agent_id'');
               t \<leftarrow> z_datetime dt (jprop es ''timestamp'');
               n \<leftarrow> z_string 16 None (jprop es ''nonce'');
               cs \<leftarrow> z_array (z_enum capability_name REMOTE_CAPABILITIES) (jprop es ''capabilities'');
               ver \<leftarrow> z_string 1 (Some 128) (jprop es ''agent_version'');
               h \<leftarrow> parseAgentHostMetadata (jprop es ''host'');
               sg \<leftarrow> z_string 1 None (jprop es ''signature'');
               Some \<lparr>he_agent_id = a, he_timestamp = t, he_nonce = n, he_capabilities = cs, he_agent_version = ver, he_host = h, he_signature = sg\<rparr>
             }
           else None)
      | _ \<Rightarrow> None)"

definition host_json :: "AgentHostMetadata \<Rightarrow> json" where
  "host_json h = JObj [(''hostname'', JStr (hm_hostname h)), (''os'', JStr (hm_os h)),
     (''arch'', JStr (hm_arch h)), (''platform'', JStr (hm_platform h))]"

definition hello_fields :: "AgentHelloEnvelope \<Rightarrow> envelope" where
  "hello_fields h =
     [(''type'', JStr ''agent.hello''), (''agent_id'', JStr (he_agent_id h)),
      (''timestamp'', JStr (he_timestamp h)), (''nonce'', JStr (he_nonce h)),
      (''capabilities'', JArr (map (\<lambda>c. JStr (capability_name c)) (he_capabilities h))),
      (''agent_version'', JStr (he_agent_version h)), (''host'', host_json (he_host h)),
      (''signature'', JStr (he_signature h))]"

definition parseActionResultEnvelope :: "(string \<Rightarrow> bool) \<Rightarrow> json \<Rightarrow> ActionResultEnvelope option" where
  "parseActionResultEnvelope dt v =
     (case v of
        JObj es \<Rightarrow>
          (if z_strict [''type'', ''action_id'', ''agent_id'', ''nonce'', ''status'', ''exit_code'', ''stdout'',
               ''stderr'', ''started_at'', ''finished_at'', ''truncated'', ''error_code'', ''message'',
               ''signature''] es \<and> jprop es ''type'' = JStr ''action.result'' then
             do {
               ac \<leftarrow> z_string 1 None (jprop es ''action_id'');
               ag \<leftarrow> z_string 1 None (jprop es ''agent_id'');
               n \<leftarrow> z_string 16 None (jprop es ''nonce'');
               ok \<leftarrow> z_enum (\<lambda>b. if b then ''ok'' else ''error'') [True, False] (jprop es ''status'');
               ec \<leftarrow> z_optional z_int (jprop es ''exit_code'');
               out \<leftarrow> z_optional asString (jprop es ''stdout'');
               er \<leftarrow> z_optional asString (jprop es ''stderr'');
               sa \<leftarrow> z_datetime dt (jprop es ''started_at'');
               fa \<leftarrow> z_datetime dt (jprop es ''finished_at'');
               tr \<leftarrow> z_bool (jprop es ''truncated'');
               code \<leftarrow> z_optional (z_enum error_code_name REMOTE_ERROR_CODES) (jprop es ''error_code'');
               msg \<leftarrow> z_optional asString (jprop es ''message'');
               sg \<leftarrow> z_string 1 None (jprop es ''signature'');
               Some \<lparr>re_action_id = ac, re_agent_id = ag, re_nonce = n, re_ok = ok, re_exit_code = ec, re_stdout = out, re_stderr = er, re_started_at = sa, re_finished_at = fa, re_truncated = tr, re_error_code = code, re_message = msg, re_signature = sg\<rparr>
             }
           else None)
      | _ \<Rightarrow> None)"

definition opt_json :: "('a \<Rightarrow> json) \<Rightarrow> 'a option \<Rightarrow> json" where
  "opt_json f v = (case v of None \<Rightarrow> JUndefined | Some x \<Rightarrow> f x)"

definition result_fields :: "ActionResultEnvelope \<Rightarrow> envelope" where
  "result_fields r =
     [(''type'', JStr ''action.result''), (''action_id'', JStr (re_action_id r)),
      (''agent_id'', JStr (re_agent_id r)), (''nonce'', JStr (re_nonce r)),
      (''status'', JStr (if re_ok r then ''ok'' else ''error'')),
      (''exit_code'', opt_json JNum (re_exit_code r)), (''stdout'', opt_json JStr (re_stdout r)),
      (''stderr'', opt_json JStr (re_stderr r)), (''started_at'', JStr (re_started_at r)),
      (''finished_at'', JStr (re_finished_at r)), (''truncated'', JBool (re_truncated r)),
      (''error_code'', opt_json (\<lambda>c. JStr (error_code_name c)) (re_error_code r)),
      (''message'', opt_json JStr (re_message r)), (''signature'', JStr (re_signature r))]"

section \<open>Messages of the control plane\<close>

record ActionRequestEnvelope =
  rq_action_id :: string
  rq_agent_id :: string
  rq_user_id :: string
  rq_tool :: RemoteToolName
  rq_capability :: RemoteCapability
  rq_args :: "(string \<times> json) list"
  rq_policy_version :: int
  rq_issued_at :: string
  rq_deadline :: string
  rq_nonce :: string
  rq_signature :: string

definition request_fields :: "ActionRequestEnvelope \<Rightarrow> envelope" where
  "request_fields q =
     [(''type'', JStr ''action.request''), (''action_id'', JStr (rq_action_id q)),
      (''agent_id'', JStr (rq_agent_id q)), (''user_id'', JStr (rq_user_id q)),
      (''tool'', JStr (tool_name (rq_tool q))), (''capability'', JStr (capability_name (rq_capability q))),
      (''args'', JObj (rq_args q)), (''policy_version'', JNum (rq_policy_version q)),
      (''issued_at'', JStr (rq_issued_at q)), (''deadline'', JStr (rq_deadline q)),
      (''nonce'', JStr (rq_nonce q)), (''signature'', JStr (rq_signature q))]"

definition parseActionRequestEnvelope :: "(string \<Rightarrow> bool) \<Rightarrow> json \<Rightarrow> ActionRequestEnvelope option" where
  "parseActionRequestEnvelope dt v =
     (case v of
        JObj es \<Rightarrow>
          (if z_strict [''type'', ''action_id'', ''agent_id'', ''user_id'', ''tool'', ''capability'', ''args'',
               ''policy_version'', ''issued_at'', ''deadline'', ''nonce'', ''signature''] es \<and>
              jprop es ''type'' = JStr ''action.request'' then
             do {
               ac \<leftarrow> z_string 1 None (jprop es ''action_id'');
               ag \<leftarrow> z_string 1 None (jprop es ''agent_id'');
               us \<leftarrow> z_string 1 None (jprop es ''user_id'');
               tool \<leftarrow> z_enum tool_name REMOTE_TOOLS (jprop es ''tool'');
               cp \<leftarrow> z_enum capability_name REMOTE_CAPABILITIES (jprop es ''capability'');
               ar \<leftarrow> z_record (jprop es ''args'');
               pv \<leftarrow> z_positive None (jprop es ''policy_version'');
               ia \<leftarrow> z_datetime dt (jprop es ''issued_at'');
               dl \<leftarrow> z_datetime dt (jprop es ''deadline'');
               n \<leftarrow> z_string 16 None (jprop es ''nonce'');
               sg \<leftarrow> z_string 1 None (jprop es ''signature'');
               Some \<lparr>rq_action_id = ac, rq_agent_id = ag, rq_user_id = us, rq_tool = tool, rq_capability = cp, rq_args = ar, rq_policy_version = pv, rq_issued_at = ia, rq_deadline = dl, rq_nonce = n, rq_signature = sg\<rparr>
             }
           else None)
      | _ \<Rightarrow> None)"

record PolicyUpdateEnvelope =
  pu_agent_id :: string
  pu_policy :: AgentPolicy
  pu_policy_version :: int
  pu_issued_at :: string
  pu_nonce :: string
  pu_signature :: string

definition update_fields :: "PolicyUpdateEnvelope \<Rightarrow> envelope" where
  "update_fields u =
     [(''type'', JStr ''policy.update''), (''agent_id'', JStr (pu_agent_id u)),
      (''policy'', policy_json (pu_policy u)), (''policy_version'', JNum (pu_policy_version u)),
      (''issued_at'', JStr (pu_issued_at u)), (''nonce'', JStr (pu_nonce u)),
      (''signature'', JStr (pu_signature u))]"

definition parsePolicyUpdateEnvelope :: "(string \<Rightarrow> bool) \<Rightarrow> json \<Rightarrow> PolicyUpdateEnvelope option" where
  "parsePolicyUpdateEnvelope dt v =
     (case v of
        JObj es \<Rightarrow>
          (if z_strict [''type'', ''agent_id'', ''policy'', ''policy_version'', ''issued_at'', ''nonce'', ''signature''] es \<and>
              jprop es ''type'' = JStr ''policy.update'' then
             do {
               ag \<leftarrow> z_string 1 None (jprop es ''agent_id'');
               p \<leftarrow> parseAgentPolicy (jprop es ''policy'');
               pv \<leftarrow> z_positive None (jprop es ''policy_version'');
               ia \<leftarrow> z_datetime dt (jprop es ''issued_at'');
               n \<leftarrow> z_string 16 None (jprop es ''nonce'');
               sg \<leftarrow> z_string 1 None (jprop es ''signature'');
               Some \<lparr>pu_agent_id = ag, pu_policy = p, pu_policy_version = pv, pu_issued_at = ia, pu_nonce = n, pu_signature = sg\<rparr>
             }
           else None)
      | _ \<Rightarrow> None)"

section \<open>What one side builds, the other side accepts\<close>

lemma z_array_strs [simp]: "z_array asString (strs xs) = Some xs"
  by (simp add: z_array_def strs_def asString_def list_all_iff comp_def)

lemma capability_names_distinct: "distinct (map capability_name REMOTE_CAPABILITIES)"
  by code_simp

lemma capability_name_inj: "capability_name a = capability_name b \<longleftrightarrow> a = b"
  using capability_names_distinct by (auto simp: distinct_map inj_on_def)

lemma z_enum_name:
  assumes "\<And>a b. name a = name b \<longleftrightarrow> a = b" and "x \<in> set xs"
  shows "z_enum name xs (JStr (name x)) = Some x"
proof -
  have "find (\<lambda>y. name y = name x) xs \<noteq> None" using assms(2) by (auto simp: find_None_iff)
  then show ?thesis by (auto simp: z_enum_def find_Some_iff assms(1))
qed

lemma z_enum_simps [simp]:
  "z_enum capability_name REMOTE_CAPABILITIES (JStr (capability_name c)) = Some c"
  "z_enum tool_name REMOTE_TOOLS (JStr (tool_name t)) = Some t"
  by (rule z_enum_name; simp add: capability_name_inj tool_name_inj)+

lemma z_enum_profile [simp]:
  "z_enum profile_name [ReadOnly, Operations, FullAdmin, Custom] (JStr (profile_name p)) = Some p"
  by (cases p) (simp_all add: z_enum_def)

lemma capability_field:
  "jprop (map (\<lambda>c. (capability_name c, JBool (f c))) REMOTE_CAPABILITIES) (capability_name c) = JBool (f c)"
proof -
  have "map_of (map (\<lambda>c. (capability_name c, JBool (f c))) cs) (capability_name c) = Some (JBool (f c))"
    if "c \<in> set cs" for cs
    using that by (induction cs) (auto simp: capability_name_inj)
  then show ?thesis by (simp add: jprop_def)
qed

lemma parseCapabilityPolicy_json:
  "parseCapabilityPolicy (JObj (map (\<lambda>c. (capability_name c, JBool (f c))) REMOTE_CAPABILITIES)) = Some f"
  by (auto simp: parseCapabilityPolicy_def capability_field z_bool_def z_strict_def list_all_iff)

definition policy_valid :: "AgentPolicy \<Rightarrow> bool" where
  "policy_valid p \<longleftrightarrow> 0 < maxOutputBytes p \<and> maxOutputBytes p \<le> 10000000 \<and>
     0 < maxActionTimeoutSeconds p \<and> maxActionTimeoutSeconds p \<le> 3600 \<and> 0 < policy_ver p"

lemma parseAgentPolicy_json: "policy_valid p \<Longrightarrow> parseAgentPolicy (policy_json p) = Some p"
  by (simp add: parseAgentPolicy_def policy_json_def z_strict_def jprop_def z_positive_def
      parseCapabilityPolicy_json policy_valid_def)

lemma z_positive_Some:
  "z_positive hi v = Some n \<Longrightarrow> 0 < n \<and> (case hi of None \<Rightarrow> True | Some m \<Rightarrow> n \<le> m)"
  by (cases v) (auto simp: z_positive_def split: if_splits)

lemma parseAgentPolicy_valid: "parseAgentPolicy v = Some p \<Longrightarrow> policy_valid p"
  by (cases v) (auto simp: parseAgentPolicy_def policy_valid_def bind_eq_Some_conv dest!: z_positive_Some split: if_splits)

lemma parse_request_fields:
  assumes "rq_action_id q \<noteq> []" and "rq_agent_id q \<noteq> []" and "rq_user_id q \<noteq> []" and "rq_signature q \<noteq> []"
    and "16 \<le> length (rq_nonce q)" and "0 < rq_policy_version q"
    and "dt (rq_issued_at q)" and "dt (rq_deadline q)"
  shows "parseActionRequestEnvelope dt (JObj (request_fields q)) = Some q"
proof -
  have "1 \<le> length s \<longleftrightarrow> s \<noteq> []" for s :: string by (cases s) auto
  with assms show ?thesis
    by (simp add: parseActionRequestEnvelope_def request_fields_def z_strict_def jprop_def z_string_def
        z_datetime_def z_record_def z_positive_def del: One_nat_def)
qed

lemma parse_update_fields:
  assumes "policy_valid (pu_policy u)" and "pu_agent_id u \<noteq> []" and "pu_signature u \<noteq> []"
    and "16 \<le> length (pu_nonce u)" and "0 < pu_policy_version u" and "dt (pu_issued_at u)"
  shows "parsePolicyUpdateEnvelope dt (JObj (update_fields u)) = Some u"
proof -
  have "1 \<le> length s \<longleftrightarrow> s \<noteq> []" for s :: string by (cases s) auto
  with assms show ?thesis
    by (simp add: parsePolicyUpdateEnvelope_def update_fields_def z_strict_def jprop_def z_string_def
        z_datetime_def z_positive_def parseAgentPolicy_json del: One_nat_def)
qed

section \<open>Properties\<close>

text \<open>
  Action requests survive the wire. A request the control plane builds (with non-empty
  ids, a nonce of at least 16 characters and dates the schema accepts) is parsed by the
  agent's strict schema to exactly the same record: tool, capability, arguments, policy
  version, deadline and signature are unchanged.
\<close>

theorem action_request_roundtrip:
  assumes "rq_action_id q \<noteq> []" and "rq_agent_id q \<noteq> []" and "rq_user_id q \<noteq> []" and "rq_signature q \<noteq> []"
    and "16 \<le> length (rq_nonce q)" and "0 < rq_policy_version q"
    and "dt (rq_issued_at q)" and "dt (rq_deadline q)"
  shows "parseActionRequestEnvelope dt (JObj (request_fields q)) = Some q"
  using assms by (rule parse_request_fields)

definition sample_request :: ActionRequestEnvelope where
  "sample_request = \<lparr>rq_action_id = ''act_1'', rq_agent_id = ''agt_1'', rq_user_id = ''github:7'',
     rq_tool = RestartService, rq_capability = ServiceManage, rq_args = [(''service'', JStr ''nginx'')],
     rq_policy_version = 3, rq_issued_at = ''2024-02-29T23:59:59.000Z'', rq_deadline = ''2024-03-01T00:01:59.000Z'',
     rq_nonce = ''0123456789abcdef'', rq_signature = ''sig''\<rparr>"

theorem action_request_roundtrip_witness:
  "parseActionRequestEnvelope (\<lambda>s. endsWith s ''Z'') (JObj (request_fields sample_request)) = Some sample_request"
  by (rule action_request_roundtrip) (simp_all add: sample_request_def endsWith_def suffix_def)

text \<open>
  Policy updates survive the wire. An update whose policy is valid (positive limits below
  the bounds of the schema) is parsed back by the agent's strict schema to exactly the update
  that was sent, with every capability, path list and limit of its policy.
\<close>

theorem policy_update_roundtrip:
  assumes "policy_valid (pu_policy u)" and "pu_agent_id u \<noteq> []" and "pu_signature u \<noteq> []"
    and "16 \<le> length (pu_nonce u)" and "0 < pu_policy_version u" and "dt (pu_issued_at u)"
  shows "parsePolicyUpdateEnvelope dt (JObj (update_fields u)) = Some u"
  using assms by (rule parse_update_fields)

definition sample_update :: PolicyUpdateEnvelope where
  "sample_update = \<lparr>pu_agent_id = ''agt_1'', pu_policy = createAgentPolicy Operations, pu_policy_version = 2,
     pu_issued_at = ''2024-02-29T23:59:59.000Z'', pu_nonce = ''0123456789abcdef'', pu_signature = ''sig''\<rparr>"

theorem policy_update_roundtrip_witness:
  "parsePolicyUpdateEnvelope (\<lambda>s. endsWith s ''Z'') (JObj (update_fields sample_update)) = Some sample_update"
  by (rule policy_update_roundtrip)
    (simp_all add: sample_update_def policy_valid_def createAgentPolicy_def endsWith_def suffix_def)

end
