(* ===== verification/Effects.thy ===== *)
theory Effects
  imports Prelude
begin

text \<open>
  Operations that change a state and may throw: functions from a state to the new state and
  either the thrown value or the result. Unlike a pure result, a throw keeps the changes made
  before it. \<open>keeps P m\<close> says that \<open>m\<close> preserves \<open>P\<close> whether it throws or not; the rules in
  \<open>keeps_intros\<close> reduce it along the structure of \<open>m\<close>.
\<close>

type_synonym ('s, 'e, 'a) op = "'s \<Rightarrow> 's \<times> ('e + 'a)"

definition creturn :: "'a \<Rightarrow> ('s, 'e, 'a) op" where
  "creturn x s = (s, Inr x)"

definition cthrow :: "'e \<Rightarrow> ('s, 'e, 'a) op" where
  "cthrow e s = (s, Inl e)"

definition cbind :: "('s, 'e, 'a) op \<Rightarrow> ('a \<Rightarrow> ('s, 'e, 'b) op) \<Rightarrow> ('s, 'e, 'b) op" where
  "cbind m f s = (case m s of (s', Inl e) \<Rightarrow> (s', Inl e) | (s', Inr x) \<Rightarrow> f x s')"

definition cseq :: "('s, 'e, 'a) op \<Rightarrow> ('s, 'e, 'b) op \<Rightarrow> ('s, 'e, 'b) op" where
  "cseq m n = cbind m (\<lambda>_. n)"

definition cget :: "('s \<Rightarrow> 'a) \<Rightarrow> ('s, 'e, 'a) op" where
  "cget f s = (s, Inr (f s))"

definition cmodify :: "('s \<Rightarrow> 's) \<Rightarrow> ('s, 'e, unit) op" where
  "cmodify f s = (f s, Inr ())"

definition cthrow_if :: "bool \<Rightarrow> 'e \<Rightarrow> ('s, 'e, unit) op" where
  "cthrow_if b e = (if b then cthrow e else creturn ())"

definition cwhen :: "bool \<Rightarrow> ('s, 'e, unit) op \<Rightarrow> ('s, 'e, unit) op" where
  "cwhen b m = (if b then m else creturn ())"

definition cfail_with :: "('s, 'e, 'a) op \<Rightarrow> 'e \<Rightarrow> ('s, 'e, 'a) op" where
  "cfail_with m e s = (case m s of (s', Inl _) \<Rightarrow> (s', Inl e) | (s', Inr x) \<Rightarrow> (s', Inr x))"

definition crequire :: "'a option \<Rightarrow> 'e \<Rightarrow> ('s, 'e, 'a) op" where
  "crequire v e = (case v of None \<Rightarrow> cthrow e | Some x \<Rightarrow> creturn x)"

lemmas op_defs = creturn_def cthrow_def cbind_def cseq_def cget_def cmodify_def cthrow_if_def cwhen_def
  cfail_with_def crequire_def

lemma creturn_run [simp]: "creturn x s = (s, Inr x)"
  by (simp add: creturn_def)

lemma cthrow_run [simp]: "cthrow e s = (s, Inl e)"
  by (simp add: cthrow_def)

lemma cget_run [simp]: "cget f s = (s, Inr (f s))"
  by (simp add: cget_def)

lemma cmodify_run [simp]: "cmodify f s = (f s, Inr ())"
  by (simp add: cmodify_def)

lemma cthrow_if_run [simp]:
  "cthrow_if b e s = (s, if b then Inl e else Inr ())"
  by (simp add: cthrow_if_def)

lemma cwhen_run [simp]: "cwhen b m s = (if b then m s else (s, Inr ()))"
  by (simp add: cwhen_def)

lemma crequire_run [simp]:
  "crequire v e s = (s, case v of None \<Rightarrow> Inl e | Some x \<Rightarrow> Inr x)"
  by (simp add: crequire_def split: option.splits)

lemma cbind_run:
  "cbind m f s = (case m s of (s', Inl e) \<Rightarrow> (s', Inl e) | (s', Inr x) \<Rightarrow> f x s')"
  by (simp add: cbind_def)

lemma cbind_Inl [simp]: "m s = (s', Inl e) \<Longrightarrow> cbind m f s = (s', Inl e)"
  by (simp add: cbind_def)

lemma cbind_Inr [simp]: "m s = (s', Inr x) \<Longrightarrow> cbind m f s = f x s'"
  by (simp add: cbind_def)

lemma cseq_Inl [simp]: "m s = (s', Inl e) \<Longrightarrow> cseq m n s = (s', Inl e)"
  by (simp add: cseq_def)

lemma cseq_Inr [simp]: "m s = (s', Inr x) \<Longrightarrow> cseq m n s = n s'"
  by (simp add: cseq_def)

lemma cbind_okE:
  assumes "cbind m f s = (s'', Inr y)"
  obtains s' x where "m s = (s', Inr x)" and "f x s' = (s'', Inr y)"
  using assms by (auto simp: cbind_def split: prod.splits sum.splits)

lemma cseq_okE:
  assumes "cseq m n s = (s'', Inr y)"
  obtains s' x where "m s = (s', Inr x)" and "n s' = (s'', Inr y)"
  using assms unfolding cseq_def by (rule cbind_okE)

lemma cthrow_if_ok [simp]: "cthrow_if b e s = (s', Inr u) \<longleftrightarrow> \<not> b \<and> s' = s"
  by auto

lemma crequire_ok [simp]: "crequire v e s = (s', Inr x) \<longleftrightarrow> v = Some x \<and> s' = s"
  by (auto split: option.splits)

section \<open>Triples\<close>

text \<open>
  \<open>triple P m Q E\<close>: from a state with \<open>P\<close>, a result of \<open>m\<close> satisfies \<open>Q\<close> and a throw leaves a
  state with \<open>E\<close>. The rules collected in \<open>triples\<close> split a goal along the structure of \<open>m\<close>.
\<close>

named_theorems triples \<open>rules that split a triple along an operation\<close>

definition triple :: "('s \<Rightarrow> bool) \<Rightarrow> ('s, 'e, 'a) op \<Rightarrow> ('a \<Rightarrow> 's \<Rightarrow> bool) \<Rightarrow> ('s \<Rightarrow> bool) \<Rightarrow> bool" where
  "triple P m Q E \<longleftrightarrow>
     (\<forall>s. P s \<longrightarrow> (case m s of (s', Inl e) \<Rightarrow> E s' | (s', Inr x) \<Rightarrow> Q x s'))"

abbreviation keeps :: "('s \<Rightarrow> bool) \<Rightarrow> ('s, 'e, 'a) op \<Rightarrow> bool" where
  "keeps P m \<equiv> triple P m (\<lambda>_. P) P"

lemma tripleI: "(\<And>s. P s \<Longrightarrow> (case m s of (s', Inl e) \<Rightarrow> E s' | (s', Inr x) \<Rightarrow> Q x s')) \<Longrightarrow> triple P m Q E"
  by (simp add: triple_def)

lemma tripleD: "triple P m Q E \<Longrightarrow> P s \<Longrightarrow> m s = (s', Inr x) \<Longrightarrow> Q x s'"
  by (auto simp: triple_def dest!: spec [of _ s])

lemma tripleD_throw: "triple P m Q E \<Longrightarrow> P s \<Longrightarrow> m s = (s', Inl e) \<Longrightarrow> E s'"
  by (auto simp: triple_def dest!: spec [of _ s])

lemma keepsD: "keeps P m \<Longrightarrow> P s \<Longrightarrow> m s = (s', r) \<Longrightarrow> P s'"
  by (cases r) (auto simp: triple_def dest!: spec [of _ s])

lemma triple_cons:
  assumes "triple P' m Q' E'" and "\<And>s. P s \<Longrightarrow> P' s" and "\<And>x s. Q' x s \<Longrightarrow> Q x s" and "\<And>s. E' s \<Longrightarrow> E s"
  shows "triple P m Q E"
proof (rule tripleI)
  fix s
  assume "P s"
  then have "P' s" by (rule assms(2))
  with assms(1) have "case m s of (s', Inl e) \<Rightarrow> E' s' | (s', Inr x) \<Rightarrow> Q' x s'" by (simp add: triple_def)
  then show "case m s of (s', Inl e) \<Rightarrow> E s' | (s', Inr x) \<Rightarrow> Q x s'"
    using assms(3,4) by (auto split: prod.splits sum.splits)
qed

lemma triple_pre: "triple P' m Q E \<Longrightarrow> (\<And>s. P s \<Longrightarrow> P' s) \<Longrightarrow> triple P m Q E"
  by (rule triple_cons)

lemma triple_conj:
  "triple P m Q E \<Longrightarrow> triple P' m Q' E' \<Longrightarrow> triple (\<lambda>s. P s \<and> P' s) m (\<lambda>x s. Q x s \<and> Q' x s) (\<lambda>s. E s \<and> E' s)"
  unfolding triple_def by (fastforce split: prod.splits sum.splits)

lemma keeps_conj: "keeps P m \<Longrightarrow> keeps R m \<Longrightarrow> keeps (\<lambda>s. P s \<and> R s) m"
  by (rule triple_conj)

lemma triple_creturn [triples]: "(\<And>s. P s \<Longrightarrow> Q x s) \<Longrightarrow> triple P (creturn x) Q E"
  by (simp add: triple_def)

lemma triple_cthrow [triples]: "(\<And>s. P s \<Longrightarrow> E s) \<Longrightarrow> triple P (cthrow e) Q E"
  by (simp add: triple_def)

lemma triple_cthrow_if [triples]:
  "(\<And>s. b \<Longrightarrow> P s \<Longrightarrow> E s) \<Longrightarrow> (\<And>s. \<not> b \<Longrightarrow> P s \<Longrightarrow> Q () s) \<Longrightarrow> triple P (cthrow_if b e) Q E"
  by (simp add: triple_def)

lemma triple_crequire [triples]:
  "(\<And>s. v = None \<Longrightarrow> P s \<Longrightarrow> E s) \<Longrightarrow> (\<And>x s. v = Some x \<Longrightarrow> P s \<Longrightarrow> Q x s) \<Longrightarrow> triple P (crequire v e) Q E"
  by (cases v) (simp_all add: triple_def)

lemma triple_cmodify: "(\<And>s. P s \<Longrightarrow> Q () (f s)) \<Longrightarrow> triple P (cmodify f) Q E"
  by (simp add: triple_def)

lemma triple_cget: "(\<And>s. P s \<Longrightarrow> Q (f s) s) \<Longrightarrow> triple P (cget f) Q E"
  by (simp add: triple_def)

lemma triple_cbind:
  assumes "triple P m R E" and "\<And>x. triple (R x) (f x) Q E"
  shows "triple P (cbind m f) Q E"
proof (rule tripleI)
  fix s
  assume P: "P s"
  show "case cbind m f s of (s', Inl e) \<Rightarrow> E s' | (s', Inr x) \<Rightarrow> Q x s'"
  proof (cases "m s")
    case (Pair s' r)
    then show ?thesis
      using tripleD [OF assms(1) P] tripleD_throw [OF assms(1) P] assms(2)
      by (cases r) (auto simp: triple_def)
  qed
qed

lemma triple_cseq: "triple P m (\<lambda>_. R) E \<Longrightarrow> triple R n Q E \<Longrightarrow> triple P (cseq m n) Q E"
  unfolding cseq_def by (rule triple_cbind)

text \<open>Sequencing when a predicate is kept throughout.\<close>

lemma keeps_cbind [triples]: "keeps P m \<Longrightarrow> (\<And>x. keeps P (f x)) \<Longrightarrow> keeps P (cbind m f)"
  by (rule triple_cbind)

lemma keeps_cseq [triples]: "keeps P m \<Longrightarrow> keeps P n \<Longrightarrow> keeps P (cseq m n)"
  by (rule triple_cseq)

lemma keeps_cget [triples]: "keeps P (cget f)"
  by (simp add: triple_def)

lemma keeps_cfail_with [triples]: "keeps P m \<Longrightarrow> keeps P (cfail_with m e)"
  by (auto simp: triple_def cfail_with_def split: prod.splits sum.splits)

lemma triple_cwhen [triples]:
  "(b \<Longrightarrow> triple P m (\<lambda>_. Q ()) E) \<Longrightarrow> (\<And>s. \<not> b \<Longrightarrow> P s \<Longrightarrow> Q () s) \<Longrightarrow> triple P (cwhen b m) Q E"
  by (auto simp: triple_def split: prod.splits sum.splits)

lemma triple_if [triples]:
  "(b \<Longrightarrow> triple P m Q E) \<Longrightarrow> (\<not> b \<Longrightarrow> triple P n Q E) \<Longrightarrow> triple P (if b then m else n) Q E"
  by simp

lemma triple_case_option [triples]:
  "(v = None \<Longrightarrow> triple P m Q E) \<Longrightarrow> (\<And>x. v = Some x \<Longrightarrow> triple P (f x) Q E) \<Longrightarrow>
     triple P (case v of None \<Rightarrow> m | Some x \<Rightarrow> f x) Q E"
  by (cases v) simp_all

lemma triple_case_prod [triples]:
  "(\<And>a b. v = (a, b) \<Longrightarrow> triple P (f a b) Q E) \<Longrightarrow> triple P (case v of (a, b) \<Rightarrow> f a b) Q E"
  by (cases v) simp

lemma triple_Let [triples]: "triple P (f v) Q E \<Longrightarrow> triple P (let x = v in f x) Q E"
  by simp

text \<open>What was read from the state may be used by the rest.\<close>

lemma triple_read:
  "(\<And>x. triple (\<lambda>s. P s \<and> f s = x) (g x) Q E) \<Longrightarrow> triple P (cbind (cget f) g) Q E"
  by (simp add: triple_def cbind_def)

lemma triple_assume: "(A \<Longrightarrow> triple P m Q E) \<Longrightarrow> triple (\<lambda>s. A \<and> P s) m Q E"
  by (auto simp: triple_def)

text \<open>Checks and reads keep what is known; these rules walk to the next change of the state.\<close>

named_theorems flows \<open>rules that pass over checks and reads\<close>

lemma triple_check [flows]:
  "(\<not> b \<Longrightarrow> triple P n Q E) \<Longrightarrow> (\<And>s. b \<Longrightarrow> P s \<Longrightarrow> E s) \<Longrightarrow> triple P (cseq (cthrow_if b e) n) Q E"
  by (auto simp: triple_def cseq_def cbind_def)

lemma triple_found [flows]:
  "(\<And>x. v = Some x \<Longrightarrow> triple P (f x) Q E) \<Longrightarrow> (\<And>s. v = None \<Longrightarrow> P s \<Longrightarrow> E s) \<Longrightarrow>
     triple P (cbind (crequire v e) f) Q E"
  by (cases v) (simp_all add: triple_def cbind_def)

declare triple_read [flows] triple_if [flows] triple_case_option [flows] triple_Let [flows]

end
