(* ===== verification/ControlPlane.thy ===== *)
theory ControlPlane
  imports Envelopes Effects
begin

text \<open>
  The state of the control plane (\<open>src/remote/control-plane.ts\<close>, class
  \<open>RemoteControlPlane\<close>) and the helpers its handlers share: errors, ids, audit, nonce windows,
  the web socket connections with their close handlers, and the clean-up timer.

  Time, random draws and the platform's functions are explicit. One handler sees one time
  (\<open>now\<close>), the \<open>n\<close>-th random draw is \<open>rand_id env n\<close> or \<open>rand_token env n\<close>. A connection is
  a number; what is written to it goes to \<open>outbox\<close>. An awaited promise ends a handler: what
  runs afterwards is a definition of its own, and the state keeps what it needs
  (\<open>settled\<close>: promises of actions that are settled and not yet consumed; \<open>fetching\<close>: callbacks
  that wait for GitHub; \<open>patching\<close>: requests that wait for their body).
\<close>

section \<open>Environment and configuration\<close>

record AccessClaims =
  cl_scope :: string
  cl_github_login :: string
  cl_github_id :: string
  cl_issuer :: string
  cl_subject :: string
  cl_audience :: string
  cl_jti :: string
  cl_iat :: int
  cl_exp :: int

record cp_env =
  crypto :: node_crypto
  zod_datetime :: "string \<Rightarrow> bool"
  url_parse :: "string \<Rightarrow> (string \<times> string) option"
  ed25519_key :: "string \<Rightarrow> bool"
  jwt_sign :: "AccessClaims \<Rightarrow> string"
  jwt_verify :: "string \<Rightarrow> string \<Rightarrow> string \<Rightarrow> int \<Rightarrow> JWTPayload option"
  rand_id :: "nat \<Rightarrow> string"
  rand_token :: "nat \<Rightarrow> string"

record RemoteConfig =
  publicBaseUrl :: string
  mcpResourceUrl :: string
  githubClientId :: "string option"
  githubClientSecret :: "string option"
  allowAllUsers :: bool
  allowedGitHubLogins :: "string list"
  allowedGitHubIds :: "string list"
  accessTokenTtlSeconds :: int
  authCodeTtlSeconds :: int
  enrollmentTokenTtlSeconds :: int
  agentWsPath :: string
  cfg_maxActionTimeoutSeconds :: int
  cfg_maxOutputBytes :: int
  maxOAuthClients :: int
  cp_privateKey :: string
  cp_publicKey :: string

definition AGENT_NONCE_TTL_MS :: int where
  "AGENT_NONCE_TTL_MS = 300000"

definition MAX_AGENT_CONNECTION_NONCES :: nat where
  "MAX_AGENT_CONNECTION_NONCES = 4096"

section \<open>State\<close>

record PendingAuthorize =
  pz_clientId :: string
  pz_redirectUri :: string
  pz_codeChallenge :: string
  pz_resource :: string
  pz_scope :: string
  pz_state :: string
  pz_expiresAt :: int

type_synonym nonces = "(string, int) jmap"

record AgentConnection =
  live_agent :: RemoteAgentRecord
  live_conn :: nat
  seenNonces :: nonces

record PendingAction =
  pa_action :: ActionRecord
  pa_fires :: int

text \<open>How the promise of an action settles: rejected, with the error's \<open>code\<close> if it has one,
  or resolved.\<close>

datatype settlement = Rejected "RemoteErrorCode option" | Resolved ActionResultEnvelope

record ws_conn =
  ws_closed :: bool
  ws_notified :: bool
  ws_handlers :: "(string \<times> string) list"

datatype message =
    MsgError RemoteErrorCode string
  | MsgReady string AgentPolicy
  | MsgPolicyUpdate PolicyUpdateEnvelope
  | MsgActionRequest ActionRequestEnvelope

datatype wire = Sent nat message | Ended nat

record control_plane =
  store :: remote_store
  initialized :: bool
  authorizeTransactions :: "(string, PendingAuthorize) jmap"
  agentConnections :: "(string, AgentConnection) jmap"
  agentHelloNonces :: "(string, nonces) jmap"
  pendingActions :: "(string, PendingAction) jmap"
  settled :: "(ActionRecord \<times> settlement) list"
  fetching :: "(string \<times> PendingAuthorize) list"
  patching :: "(RemotePrincipal \<times> RemoteAgentRecord) list"
  conns :: "(nat, ws_conn) jmap"
  drawn :: nat
  outbox :: "wire list"

datatype cp_error = SafeError RemoteErrorCode string nat | StoreError store_error | RuntimeError string

type_synonym 'a cp = "(control_plane, cp_error, 'a) op"

definition safeError :: "RemoteErrorCode \<Rightarrow> string \<Rightarrow> nat \<Rightarrow> cp_error" where
  "safeError code message status = SafeError code message status"

definition new_control_plane :: control_plane where
  "new_control_plane = \<lparr>store = empty_store, initialized = True, authorizeTransactions = [], agentConnections = [],
     agentHelloNonces = [], pendingActions = [], settled = [], fetching = [], patching = [], conns = [],
     drawn = 0, outbox = []\<rparr>"

section \<open>Store, ids, audit\<close>

definition cstore :: "(remote_store \<Rightarrow> store_error + remote_store) \<Rightarrow> unit cp" where
  "cstore f s = (case f (store s) of
      Inl e \<Rightarrow> (s, Inl (StoreError e))
    | Inr st \<Rightarrow> (s\<lparr>store := st\<rparr>, Inr ()))"

definition new_id :: "cp_env \<Rightarrow> string \<Rightarrow> string cp" where
  "new_id env pre = cbind (cget drawn) (\<lambda>n.
     cseq (cmodify (\<lambda>s. s\<lparr>drawn := n + 1\<rparr>)) (creturn (pre @ ''_'' @ rand_id env n)))"

definition randomToken :: "cp_env \<Rightarrow> string cp" where
  "randomToken env = cbind (cget drawn) (\<lambda>n.
     cseq (cmodify (\<lambda>s. s\<lparr>drawn := n + 1\<rparr>)) (creturn (rand_token env n)))"

definition audit ::
  "cp_env \<Rightarrow> int \<Rightarrow> string option \<Rightarrow> string option \<Rightarrow> string option \<Rightarrow> string \<Rightarrow> severity \<Rightarrow>
     (string \<times> json) list \<Rightarrow> unit cp" where
  "audit env now uid aid act typ sev meta =
     cbind (new_id env ''aud'') (\<lambda>i.
       cstore (insertAudit \<lparr>ev_id = i, ev_userId = uid, ev_agentId = aid, ev_actionId = act, ev_type = typ,
         ev_severity = sev, ev_metadata = meta, ev_createdAt = now\<rparr>))"

section \<open>Nonce windows\<close>

definition pruneNonceWindow :: "nonces \<Rightarrow> int \<Rightarrow> nonces" where
  "pruneNonceWindow ns now = filter (\<lambda>e. \<not> snd e \<le> now) ns"

definition hasSeenNonce :: "nonces \<Rightarrow> string \<Rightarrow> int \<Rightarrow> nonces \<times> bool" where
  "hasSeenNonce ns nonce now = (let ns' = pruneNonceWindow ns now in (ns', jm_has ns' nonce))"

function evict_oldest :: "nat \<Rightarrow> ('k, 'v) jmap \<Rightarrow> ('k, 'v) jmap" where
  "evict_oldest m ns =
     (if m < length ns then evict_oldest m (jm_delete (fst (hd ns)) ns) else ns)"
  by pat_completeness auto
termination
proof (relation "measure (\<lambda>(m, ns). length ns)", simp)
  fix m and ns :: "('k, 'v) jmap"
  assume "m < length ns"
  then show "((m, jm_delete (fst (hd ns)) ns), m, ns) \<in> measure (\<lambda>(m, ns). length ns)"
    by (cases ns) (auto simp: jm_delete_def less_Suc_eq_le)
qed

declare evict_oldest.simps [simp del]

definition rememberNonce :: "nonces \<Rightarrow> string \<Rightarrow> int \<Rightarrow> nonces" where
  "rememberNonce ns nonce now =
     evict_oldest MAX_AGENT_CONNECTION_NONCES (jm_set nonce (now + AGENT_NONCE_TTL_MS) (pruneNonceWindow ns now))"

section \<open>Connections\<close>

definition conn_of :: "control_plane \<Rightarrow> nat \<Rightarrow> ws_conn" where
  "conn_of s c = or_else (jm_get (conns s) c) \<lparr>ws_closed = True, ws_notified = True, ws_handlers = []\<rparr>"

text \<open>\<open>connection.sendJson\<close>: nothing is written once the connection is closed.\<close>

definition send :: "nat \<Rightarrow> message \<Rightarrow> unit cp" where
  "send c m = cmodify (\<lambda>s. if ws_closed (conn_of s c) then s else s\<lparr>outbox := outbox s @ [Sent c m]\<rparr>)"

text \<open>The callback that \<open>handleAgentHello\<close> registers with \<open>connection.onClose\<close>.\<close>

definition mark_disconnected :: "cp_env \<Rightarrow> int \<Rightarrow> string \<Rightarrow> string \<Rightarrow> unit cp" where
  "mark_disconnected env now agentId userId =
     cbind (cget (\<lambda>s. getAgent agentId (store s))) (\<lambda>latest.
       cseq (case latest of
               Some a \<Rightarrow> cwhen (ag_status a \<noteq> Revoked)
                 (cstore (updateAgent (a\<lparr>ag_status := Offline, ag_updatedAt := now\<rparr>)))
             | None \<Rightarrow> creturn ())
         (audit env now (Some userId) (Some agentId) None ''agent_disconnected'' Info []))"

definition on_agent_close :: "cp_env \<Rightarrow> int \<Rightarrow> nat \<Rightarrow> string \<Rightarrow> string \<Rightarrow> unit cp" where
  "on_agent_close env now c agentId userId =
     cbind (cget (\<lambda>s. jm_get (agentConnections s) agentId)) (\<lambda>live.
       if map_option live_conn live \<noteq> Some c then creturn ()
       else cseq (cmodify (\<lambda>s. s\<lparr>agentConnections := jm_delete agentId (agentConnections s)\<rparr>))
              (mark_disconnected env now agentId userId))"

fun run_close_handlers :: "cp_env \<Rightarrow> int \<Rightarrow> nat \<Rightarrow> (string \<times> string) list \<Rightarrow> unit cp" where
  "run_close_handlers env now c [] = creturn ()"
| "run_close_handlers env now c ((aid, uid) # hs) =
     cseq (on_agent_close env now c aid uid) (run_close_handlers env now c hs)"

definition notifyClose :: "cp_env \<Rightarrow> int \<Rightarrow> nat \<Rightarrow> unit cp" where
  "notifyClose env now c =
     cbind (cget (\<lambda>s. conn_of s c)) (\<lambda>k.
       if ws_notified k then creturn ()
       else cseq (cmodify (\<lambda>s. s\<lparr>conns := jm_set c (k\<lparr>ws_notified := True\<rparr>) (conns s)\<rparr>))
              (run_close_handlers env now c (ws_handlers k)))"

definition ws_close :: "cp_env \<Rightarrow> int \<Rightarrow> nat \<Rightarrow> unit cp" where
  "ws_close env now c =
     cbind (cget (\<lambda>s. conn_of s c)) (\<lambda>k.
       if ws_closed k then creturn ()
       else cseq (cmodify (\<lambda>s. s\<lparr>conns := jm_set c (k\<lparr>ws_closed := True\<rparr>) (conns s),
                                 outbox := outbox s @ [Ended c]\<rparr>))
              (notifyClose env now c))"

text \<open>The socket's own \<open>close\<close>, \<open>end\<close> and \<open>error\<close> events.\<close>

definition ws_handleClose :: "cp_env \<Rightarrow> int \<Rightarrow> nat \<Rightarrow> unit cp" where
  "ws_handleClose env now c =
     cbind (cget (\<lambda>s. conn_of s c)) (\<lambda>k.
       cseq (cmodify (\<lambda>s. s\<lparr>conns := jm_set c (k\<lparr>ws_closed := True\<rparr>) (conns s)\<rparr>)) (notifyClose env now c))"

definition ws_onClose :: "nat \<Rightarrow> string \<Rightarrow> string \<Rightarrow> unit cp" where
  "ws_onClose c agentId userId =
     cmodify (\<lambda>s. s\<lparr>conns := jm_set c ((conn_of s c)\<lparr>ws_handlers := ws_handlers (conn_of s c) @ [(agentId, userId)]\<rparr>)
       (conns s)\<rparr>)"

text \<open>\<open>connection.sendJson({ type: "error", ... }); connection.close()\<close>.\<close>

definition refuse :: "cp_env \<Rightarrow> int \<Rightarrow> nat \<Rightarrow> RemoteErrorCode \<Rightarrow> string \<Rightarrow> unit cp" where
  "refuse env now c code message = cseq (send c (MsgError code message)) (ws_close env now c)"

section \<open>Clean-up and shutdown\<close>

definition prune_hello_nonces :: "int \<Rightarrow> (string, nonces) jmap \<Rightarrow> (string, nonces) jmap" where
  "prune_hello_nonces now m =
     filter (\<lambda>e. snd e \<noteq> []) (map (\<lambda>(k, ns). (k, pruneNonceWindow ns now)) m)"

definition cleanupEphemeralState :: "int \<Rightarrow> unit cp" where
  "cleanupEphemeralState now = cmodify (\<lambda>s.
     s\<lparr>authorizeTransactions := filter (\<lambda>e. \<not> pz_expiresAt (snd e) \<le> now) (authorizeTransactions s),
       agentHelloNonces := prune_hello_nonces now (agentHelloNonces s),
       agentConnections := map (\<lambda>(k, l). (k, l\<lparr>seenNonces := pruneNonceWindow (seenNonces l) now\<rparr>)) (agentConnections s)\<rparr>)"

fun close_all :: "cp_env \<Rightarrow> int \<Rightarrow> nat list \<Rightarrow> unit cp" where
  "close_all env now [] = creturn ()"
| "close_all env now (c # cs) = cseq (ws_close env now c) (close_all env now cs)"

definition close_control_plane :: "cp_env \<Rightarrow> int \<Rightarrow> unit cp" where
  "close_control_plane env now =
     cseq (cmodify (\<lambda>s. s\<lparr>settled := settled s @ map (\<lambda>e. (pa_action (snd e), Rejected None)) (pendingActions s),
                          pendingActions := []\<rparr>))
    (cbind (cget (\<lambda>s. map (\<lambda>e. live_conn (snd e)) (agentConnections s))) (\<lambda>cs.
     cseq (close_all env now cs)
       (cmodify (\<lambda>s. s\<lparr>agentConnections := [], agentHelloNonces := [], authorizeTransactions := []\<rparr>))))"

end
