(* ===== verification/Authorize.thy ===== *)
theory Authorize
  imports ControlPlane
begin

text \<open>
  The OAuth side of the control plane: client registration, the authorization request, the
  GitHub callback, the token endpoint and the check of access tokens
  (\<open>handleRegister\<close> to \<open>userFromId\<close> and \<open>authenticate\<close> in \<open>src/remote/control-plane.ts\<close>,
  \<open>issueAccessToken\<close> and \<open>verifyRemoteAccessToken\<close> in \<open>src/remote/crypto.ts\<close>,
  \<open>extractBearerToken\<close> in \<open>src/auth.ts\<close>). A query string or form is the function from
  parameter names to values; a redirect is what its URL is built from.
\<close>

section \<open>Reading requests\<close>

text \<open>\<open>readBody\<close>: the chunks of a request, at most a million bytes.\<close>

fun read_chunks :: "nat \<Rightarrow> nat \<Rightarrow> string list \<Rightarrow> cp_error + string" where
  "read_chunks maxBytes sz [] = Inr []"
| "read_chunks maxBytes sz (c # cs) =
     (if maxBytes < sz + length c then Inl (safeError FORBIDDEN ''Request body is too large'' 413)
      else rbind (read_chunks maxBytes (sz + length c) cs) (\<lambda>r. Inr (c @ r)))"

definition readBody :: "string list \<Rightarrow> cp_error + string" where
  "readBody cs = read_chunks 1000000 0 cs"

definition readJson :: "(string \<Rightarrow> json option) \<Rightarrow> string list \<Rightarrow> cp_error + (string \<times> json) list" where
  "readJson parse cs =
     rbind (readBody cs) (\<lambda>raw.
       if trim raw = [] then Inr []
       else (case parse raw of
               None \<Rightarrow> Inl (RuntimeError ''SyntaxError'')
             | Some (JObj es) \<Rightarrow> Inr es
             | Some _ \<Rightarrow> Inl (safeError INTERNAL_ERROR ''Expected JSON object'' 400)))"

section \<open>Registration\<close>

definition isSafeRedirectUri :: "cp_env \<Rightarrow> string \<Rightarrow> bool" where
  "isSafeRedirectUri env uri =
     (case url_parse env uri of
        None \<Rightarrow> False
      | Some (protocol, hostname) \<Rightarrow>
          protocol = ''https:'' \<or> (protocol = ''http:'' \<and> hostname \<in> {''localhost'', ''127.0.0.1'', ''::1''}))"

definition handleRegister :: "cp_env \<Rightarrow> RemoteConfig \<Rightarrow> int \<Rightarrow> (string \<times> json) list \<Rightarrow> OAuthClient cp" where
  "handleRegister env cfg now body =
     (let redirectUris = asStringArray (jprop body ''redirect_uris'') in
      cseq (cthrow_if (redirectUris = [] \<or> list_ex (\<lambda>u. \<not> isSafeRedirectUri env u) redirectUris)
              (safeError INVALID_REDIRECT_URI ''redirect_uris must contain HTTPS URLs or localhost HTTP URLs'' 400))
     (cbind (cget (\<lambda>s. countOAuthClients (store s))) (\<lambda>count.
      cseq (cthrow_if (maxOAuthClients cfg \<le> count)
              (safeError FORBIDDEN ''OAuth client registration limit reached'' 429))
     (cbind (new_id env ''clirow'') (\<lambda>row.
      cbind (new_id env ''cli'') (\<lambda>cid.
        let client = \<lparr>oc_id = row, oc_clientId = cid,
              oc_clientName = or_else (str_prop body ''client_name'') ''ChatGPT Connector'',
              oc_redirectUris = redirectUris, oc_grantTypes = [''authorization_code''],
              oc_responseTypes = [''code''], oc_createdAt = now\<rparr>
        in cseq (cstore (insertClient client))
          (cseq (audit env now None None None ''oauth_client_registered'' Info
                   [(''client_id'', JStr cid), (''redirect_uri_count'', JNum (int (length redirectUris)))])
            (creturn client))))))))"

section \<open>Authorization requests\<close>

definition default_scopes :: "string list" where
  "default_scopes = [''hosts:read'', ''agents:read'', ''status:read'', ''logs:read'']"

definition scopeList :: "string \<Rightarrow> cp_error + string list" where
  "scopeList scope =
     (if list_ex (\<lambda>w. w \<notin> set REMOTE_SCOPES) (ws_words scope)
      then Inl (safeError INVALID_SCOPE ''Requested scope is not supported'' 400)
      else let scopes = parseScopes (Some scope) in Inr (if scopes = [] then default_scopes else scopes))"

definition cresult :: "cp_error + 'a \<Rightarrow> 'a cp" where
  "cresult r s = (s, r)"

type_synonym params = "string \<Rightarrow> string option"

definition validateAuthorizeParams ::
  "cp_env \<Rightarrow> RemoteConfig \<Rightarrow> remote_store \<Rightarrow> string \<Rightarrow> string \<Rightarrow> string \<Rightarrow> string \<Rightarrow> string \<Rightarrow> string \<Rightarrow> string \<Rightarrow>
     cp_error + unit" where
  "validateAuthorizeParams env cfg st clientId redirectUri responseType codeChallenge method resource scope =
     (case getClient clientId st of
        None \<Rightarrow> Inl (safeError INVALID_CLIENT ''Unknown client_id'' 400)
      | Some client \<Rightarrow>
          if redirectUri \<notin> set (oc_redirectUris client) \<or> \<not> isSafeRedirectUri env redirectUri then
            Inl (safeError INVALID_REDIRECT_URI ''redirect_uri is not registered'' 400)
          else if responseType \<noteq> ''code'' then
            Inl (safeError INVALID_CLIENT ''response_type must be code'' 400)
          else if codeChallenge = [] \<or> method \<noteq> ''S256'' then
            Inl (safeError PKCE_VALIDATION_FAILED ''PKCE S256 is required'' 400)
          else if resource \<noteq> mcpResourceUrl cfg then
            Inl (safeError INVALID_TOKEN ''resource must match MCP resource URL'' 400)
          else rbind (scopeList scope) (\<lambda>_. Inr ()))"

definition isGitHubUserAllowed :: "RemoteConfig \<Rightarrow> string \<Rightarrow> string \<Rightarrow> bool" where
  "isGitHubUserAllowed cfg ghId login =
     (allowAllUsers cfg \<or> ghId \<in> set (allowedGitHubIds cfg) \<or> login \<in> set (allowedGitHubLogins cfg))"

definition upsertGitHubUser :: "cp_env \<Rightarrow> RemoteConfig \<Rightarrow> int \<Rightarrow> string \<Rightarrow> string \<Rightarrow> string cp" where
  "upsertGitHubUser env cfg now ghId login =
     cseq (cthrow_if (\<not> isGitHubUserAllowed cfg ghId login) (safeError FORBIDDEN ''GitHub user is not allowed'' 400))
    (cbind (cget (\<lambda>s. getUserByGitHubId ghId (store s))) (\<lambda>existing.
       let internalId = (case existing of Some u \<Rightarrow> us_id u | None \<Rightarrow> ''github:'' @ ghId) in
       cseq (cstore (upsertUser internalId ghId login now))
      (cseq (audit env now (Some internalId) None None ''user_login'' Info
               [(''github_id'', JStr ghId), (''github_login'', JStr login)])
        (creturn internalId))))"

definition issueAuthorizationCode ::
  "cp_env \<Rightarrow> RemoteConfig \<Rightarrow> int \<Rightarrow> PendingAuthorize \<Rightarrow> string \<Rightarrow> string cp" where
  "issueAuthorizationCode env cfg now pending userId =
     cbind (randomToken env) (\<lambda>code.
     cbind (new_id env ''code'') (\<lambda>i.
       cseq (cstore (insertAuthorizationCode
               \<lparr>ac_id = i, ac_codeHash = hashSecret (crypto env) code, ac_clientId = pz_clientId pending,
                ac_userId = userId, ac_redirectUri = pz_redirectUri pending,
                ac_codeChallenge = pz_codeChallenge pending, ac_resource = pz_resource pending,
                ac_scope = pz_scope pending, ac_expiresAt = now + authCodeTtlSeconds cfg * 1000,
                ac_usedAt = None, ac_createdAt = now\<rparr>))
         (creturn code)))"

text \<open>Redirects: to the client with a code and its state, or to GitHub with a transaction id.\<close>

datatype redirect = ToClient string string "string option" | ToGitHub string

definition client_redirect :: "PendingAuthorize \<Rightarrow> string \<Rightarrow> redirect" where
  "client_redirect p code =
     ToClient (pz_redirectUri p) code (if pz_state p = [] then None else Some (pz_state p))"

definition testGitHubUser :: "string option \<Rightarrow> string option \<Rightarrow> (string \<times> string) option" where
  "testGitHubUser idValue login =
     (if truthy idValue \<and> truthy login then Some (or_else idValue '''', or_else login '''') else None)"

definition handleAuthorize ::
  "cp_env \<Rightarrow> RemoteConfig \<Rightarrow> int \<Rightarrow> (string \<times> string) option \<Rightarrow> params \<Rightarrow> redirect cp" where
  "handleAuthorize env cfg now testUser q =
     (let clientId = or_else (q ''client_id'') ''''; redirectUri = or_else (q ''redirect_uri'') '''';
          responseType = or_else (q ''response_type'') ''''; codeChallenge = or_else (q ''code_challenge'') '''';
          codeChallengeMethod = or_else (q ''code_challenge_method'') ''''; state = or_else (q ''state'') '''';
          resource = or_else (q ''resource'') (mcpResourceUrl cfg);
          scope = or_else (q ''scope'') ''hosts:read agents:read status:read logs:read'';
          pending = \<lparr>pz_clientId = clientId, pz_redirectUri = redirectUri, pz_codeChallenge = codeChallenge,
            pz_resource = resource, pz_scope = scope, pz_state = state,
            pz_expiresAt = now + authCodeTtlSeconds cfg * 1000\<rparr>
      in cbind (cget store) (\<lambda>st.
         cseq (cresult (validateAuthorizeParams env cfg st clientId redirectUri responseType codeChallenge
                 codeChallengeMethod resource scope))
        (case testUser of
           Some (ghId, login) \<Rightarrow>
             cbind (upsertGitHubUser env cfg now ghId login) (\<lambda>userId.
             cbind (issueAuthorizationCode env cfg now pending userId) (\<lambda>code.
               creturn (client_redirect pending code)))
         | None \<Rightarrow>
             cseq (cthrow_if (\<not> truthy (githubClientId cfg) \<or> \<not> truthy (githubClientSecret cfg))
                     (safeError FORBIDDEN ''GitHub OAuth is not configured'' 503))
            (cbind (new_id env ''code'') (\<lambda>transactionId.
              cseq (cmodify (\<lambda>s. s\<lparr>authorizeTransactions := jm_set transactionId pending (authorizeTransactions s)\<rparr>))
                (creturn (ToGitHub transactionId)))))))"

text \<open>\<open>handleGitHubCallback\<close> up to the request to GitHub, and from its answer on.\<close>

definition handleGitHubCallback :: "int \<Rightarrow> params \<Rightarrow> unit cp" where
  "handleGitHubCallback now q =
     (let code = or_else (q ''code'') ''''; state = or_else (q ''state'') '''' in
      cbind (cget (\<lambda>s. jm_get (authorizeTransactions s) state)) (\<lambda>pending.
        cseq (cmodify (\<lambda>s. s\<lparr>authorizeTransactions := jm_delete state (authorizeTransactions s)\<rparr>))
       (cbind (crequire (if code = [] then None else pending)
                (safeError INVALID_TOKEN ''OAuth transaction is missing or expired'' 400)) (\<lambda>p.
        cseq (cthrow_if (pz_expiresAt p < now)
                (safeError INVALID_TOKEN ''OAuth transaction is missing or expired'' 400))
          (cmodify (\<lambda>s. s\<lparr>fetching := fetching s @ [(code, p)]\<rparr>))))))"

definition finishGitHubCallback ::
  "cp_env \<Rightarrow> RemoteConfig \<Rightarrow> int \<Rightarrow> string \<times> PendingAuthorize \<Rightarrow> string \<Rightarrow> string \<Rightarrow> redirect cp" where
  "finishGitHubCallback env cfg now f ghId login =
     cseq (cmodify (\<lambda>s. s\<lparr>fetching := remove1 f (fetching s)\<rparr>))
    (cbind (upsertGitHubUser env cfg now ghId login) (\<lambda>userId.
     cbind (issueAuthorizationCode env cfg now (snd f) userId) (\<lambda>code.
       creturn (client_redirect (snd f) code))))"

section \<open>The token endpoint\<close>

definition pkceChallenge :: "cp_env \<Rightarrow> string \<Rightarrow> string" where
  "pkceChallenge env verifier = sha256Base64Url (crypto env) verifier"

definition userFromId :: "string \<Rightarrow> remote_store \<Rightarrow> user_row option" where
  "userFromId userId st =
     (if startsWith userId ''github:'' then getUserByGitHubId (drop 7 userId) st else None)"

definition access_claims ::
  "RemoteConfig \<Rightarrow> int \<Rightarrow> string \<Rightarrow> user_row \<Rightarrow> string list \<Rightarrow> AccessClaims" where
  "access_claims cfg now tokenId user scopes =
     \<lparr>cl_scope = join '' '' scopes, cl_github_login = us_githubLogin user, cl_github_id = us_githubId user,
      cl_issuer = publicBaseUrl cfg, cl_subject = us_id user, cl_audience = mcpResourceUrl cfg,
      cl_jti = tokenId, cl_iat = now div 1000, cl_exp = now div 1000 + accessTokenTtlSeconds cfg\<rparr>"

definition issueAccessToken ::
  "cp_env \<Rightarrow> RemoteConfig \<Rightarrow> int \<Rightarrow> user_row \<Rightarrow> string list \<Rightarrow> (string \<times> AccessClaims) cp" where
  "issueAccessToken env cfg now user scopes =
     cbind (new_id env ''tok'') (\<lambda>tokenId.
       let claims = access_claims cfg now tokenId user scopes in creturn (jwt_sign env claims, claims))"

record token_response =
  access_token :: string
  expires_in :: int
  tr_scope :: string
  tr_claims :: AccessClaims

definition code_invalid :: cp_error where
  "code_invalid = safeError INVALID_TOKEN ''Authorization code is expired or already used'' 400"

definition handleToken :: "cp_env \<Rightarrow> RemoteConfig \<Rightarrow> int \<Rightarrow> params \<Rightarrow> token_response cp" where
  "handleToken env cfg now body =
     (let clientId = or_else (body ''client_id'') ''''; code = or_else (body ''code'') '''';
          redirectUri = or_else (body ''redirect_uri'') ''''; verifier = or_else (body ''code_verifier'') '''' in
      cseq (cthrow_if (body ''grant_type'' \<noteq> Some ''authorization_code'')
              (safeError INVALID_CLIENT ''grant_type must be authorization_code'' 400))
     (cbind (cget store) (\<lambda>st.
      cseq (cthrow_if (getClient clientId st = None) (safeError INVALID_CLIENT ''Unknown client_id'' 400))
     (cbind (crequire (getAuthorizationCodeByHash (hashSecret (crypto env) code) st)
               (safeError INVALID_TOKEN ''Invalid authorization code'' 400)) (\<lambda>rec.
      cseq (cthrow_if (ac_clientId rec \<noteq> clientId \<or> ac_redirectUri rec \<noteq> redirectUri)
              (safeError INVALID_TOKEN ''Invalid authorization code'' 400))
     (cseq (cthrow_if (ac_usedAt rec \<noteq> None \<or> ac_expiresAt rec < now) code_invalid)
     (cseq (cthrow_if (verifier = [] \<or> pkceChallenge env verifier \<noteq> ac_codeChallenge rec)
              (safeError PKCE_VALIDATION_FAILED ''Invalid PKCE code_verifier'' 400))
     (cbind (cget initialized) (\<lambda>ready.
      cseq (cthrow_if (\<not> ready) (RuntimeError ''Remote control plane was not initialized''))
     (cbind (crequire (userFromId (ac_userId rec) st) (safeError UNAUTHORIZED ''User no longer exists'' 401)) (\<lambda>user.
      cbind (cresult (scopeList (ac_scope rec))) (\<lambda>scopes.
      cseq (cfail_with (cstore (markAuthorizationCodeUsed (ac_codeHash rec) now)) code_invalid)
     (cbind (issueAccessToken env cfg now user scopes) (\<lambda>(token, claims).
        creturn \<lparr>access_token = token, expires_in = accessTokenTtlSeconds cfg,
                 tr_scope = join '' '' scopes, tr_claims = claims\<rparr>))))))))))))))"

section \<open>Access tokens\<close>

definition extractBearerToken :: "string option \<Rightarrow> string option" where
  "extractBearerToken authorization =
     (case authorization of
        None \<Rightarrow> None
      | Some a \<Rightarrow>
          (case split_on (CHR '' '') a of
             [scheme, token] \<Rightarrow> if scheme \<noteq> ''Bearer'' \<or> token = [] then None else Some token
           | _ \<Rightarrow> None))"

definition verifyRemoteAccessToken ::
  "cp_env \<Rightarrow> RemoteConfig \<Rightarrow> int \<Rightarrow> string option \<Rightarrow> string + RemotePrincipal" where
  "verifyRemoteAccessToken env cfg now authorization =
     (case extractBearerToken authorization of
        None \<Rightarrow> Inl ''Missing bearer token''
      | Some token \<Rightarrow>
          (case jwt_verify env token (publicBaseUrl cfg) (mcpResourceUrl cfg) (now div 1000) of
             None \<Rightarrow> Inl ''JWT verification failed''
           | Some payload \<Rightarrow> principalFromPayload payload))"

definition authenticate :: "cp_env \<Rightarrow> RemoteConfig \<Rightarrow> int \<Rightarrow> string option \<Rightarrow> RemotePrincipal cp" where
  "authenticate env cfg now authorization =
     cbind (cget initialized) (\<lambda>ready.
       case (if ready then verifyRemoteAccessToken env cfg now authorization
             else Inl ''Remote control plane was not initialized'') of
         Inr pri \<Rightarrow> creturn pri
       | Inl _ \<Rightarrow>
           cseq (audit env now None None None ''token_validation_failure'' Warn [])
             (cthrow (safeError UNAUTHORIZED ''Missing or invalid bearer token'' 401)))"

end
