(* ===== verification/AgentLink.thy ===== *)
theory AgentLink
  imports Authorize
begin

text \<open>
  The agent side of the control plane: enrollment with a one-time token, the messages of an
  agent on its web socket (\<open>agent.hello\<close> and \<open>action.result\<close>), and what they do to the
  connections, nonces and pending actions (\<open>handleAgentEnroll\<close> to \<open>handleActionResult\<close> in
  \<open>src/remote/control-plane.ts\<close>).
\<close>

section \<open>Enrollment\<close>

record enroll_response =
  er_agent_id :: string
  er_alias :: string
  er_policy :: AgentPolicy
  er_websocket_url :: string
  er_public_key :: string

text \<open>\<open>publicBaseUrl.replace(/^http/u, "ws")\<close>.\<close>

definition ws_base :: "string \<Rightarrow> string" where
  "ws_base url = (if startsWith url ''http'' then ''ws'' @ drop 4 url else url)"

definition enroll_invalid :: cp_error where
  "enroll_invalid = safeError INVALID_TOKEN ''Enrollment token is expired or invalid'' 401"

text \<open>From \<open>markEnrollmentTokenUsed\<close> on.\<close>

definition commit_enroll ::
  "cp_env \<Rightarrow> RemoteConfig \<Rightarrow> int \<Rightarrow> AgentEnrollmentTokenRecord \<Rightarrow> RemoteAgentRecord \<Rightarrow> string \<Rightarrow>
     AgentHostMetadata option \<Rightarrow> enroll_response cp" where
  "commit_enroll env cfg now enrollment agent publicKey host =
     cseq (cfail_with (cstore (markEnrollmentTokenUsed (et_tokenHash enrollment) now)) enroll_invalid)
    (cseq (cstore (updateAgent (agent\<lparr>ag_status := Offline, ag_publicKey := Some publicKey,
             ag_hostMetadata := host, ag_updatedAt := now\<rparr>)))
    (cseq (audit env now (Some (ag_userId agent)) (Some (ag_id agent)) None ''agent_enrolled'' Info
             [(''alias'', JStr (ag_alias agent)), (''host'', opt_json (\<lambda>h. JStr (hm_hostname h)) host)])
      (creturn \<lparr>er_agent_id = ag_id agent, er_alias = ag_alias agent, er_policy = ag_policy agent,
         er_websocket_url = ws_base (publicBaseUrl cfg) @ agentWsPath cfg,
         er_public_key = cp_publicKey cfg\<rparr>)))"

definition handleAgentEnroll ::
  "cp_env \<Rightarrow> RemoteConfig \<Rightarrow> int \<Rightarrow> (string \<times> json) list \<Rightarrow> enroll_response cp" where
  "handleAgentEnroll env cfg now body =
     (let token = or_else (str_prop body ''token'') ''''; publicKey = or_else (str_prop body ''public_key'') '''';
          hostv = jprop body ''host''; host = parseAgentHostMetadata hostv in
      cseq (cthrow_if (isRecord hostv \<and> host = None) (RuntimeError ''ZodError''))
     (cseq (cthrow_if (token = [] \<or> publicKey = [] \<or> \<not> isRecord hostv)
              (safeError FORBIDDEN ''token, public_key, and host are required'' 400))
     (cseq (cthrow_if (\<not> ed25519_key env publicKey)
              (safeError FORBIDDEN ''public_key must be an Ed25519 SPKI PEM public key'' 400))
     (cbind (cget store) (\<lambda>st.
      cbind (crequire (getEnrollmentTokenByHash (hashSecret (crypto env) token) st) enroll_invalid) (\<lambda>enrollment.
      cseq (cthrow_if (et_usedAt enrollment \<noteq> None \<or> et_expiresAt enrollment < now) enroll_invalid)
     (cbind (crequire (getAgent (et_agentId enrollment) st)
               (safeError AGENT_NOT_FOUND ''Pending agent not found'' 404)) (\<lambda>agent.
      cseq (cthrow_if (ag_status agent = Revoked) (safeError AGENT_NOT_FOUND ''Pending agent not found'' 404))
       (commit_enroll env cfg now enrollment agent publicKey host)))))))))"

section \<open>Hello\<close>

definition register_hello :: "nat \<Rightarrow> RemoteAgentRecord \<Rightarrow> string \<Rightarrow> int \<Rightarrow> unit cp" where
  "register_hello c agent nonce now =
     cmodify (\<lambda>s. s\<lparr>agentHelloNonces := jm_set (ag_id agent)
         (jm_set nonce (now + AGENT_NONCE_TTL_MS) (or_else (jm_get (agentHelloNonces s) (ag_id agent)) []))
         (agentHelloNonces s)\<rparr>)"

text \<open>A hello that passed all checks: the nonce is remembered, an older connection of the agent is
  closed, the new one registered and the agent set online.\<close>

definition accept_hello ::
  "cp_env \<Rightarrow> int \<Rightarrow> nat \<Rightarrow> AgentHelloEnvelope \<Rightarrow> RemoteAgentRecord \<Rightarrow> AgentConnection option \<Rightarrow> unit cp" where
  "accept_hello env now c hello agent existing =
     cseq (register_hello c agent (he_nonce hello) now)
    (cseq (case existing of Some l \<Rightarrow> ws_close env now (live_conn l) | None \<Rightarrow> creturn ())
    (cseq (cmodify (\<lambda>s. s\<lparr>agentConnections := jm_set (ag_id agent)
             \<lparr>live_agent = agent, live_conn = c, seenNonces = rememberNonce [] (he_nonce hello) now\<rparr>
             (agentConnections s)\<rparr>))
    (cseq (cstore (updateAgent (agent\<lparr>ag_status := Online, ag_lastSeenAt := Some now,
             ag_hostMetadata := Some (he_host hello), ag_updatedAt := now\<rparr>)))
    (cseq (ws_onClose c (ag_id agent) (ag_userId agent))
    (cseq (audit env now (Some (ag_userId agent)) (Some (ag_id agent)) None ''agent_connected'' Info
             [(''agent_version'', JStr (he_agent_version hello)),
              (''host'', JStr (hm_hostname (he_host hello)))])
      (send c (MsgReady (ag_id agent) (ag_policy agent))))))))"

text \<open>The checks after the signature and the timestamp.\<close>

definition admit_hello :: "cp_env \<Rightarrow> int \<Rightarrow> nat \<Rightarrow> AgentHelloEnvelope \<Rightarrow> RemoteAgentRecord \<Rightarrow> unit cp" where
  "admit_hello env now c hello agent =
     (let warn = (\<lambda>typ. audit env now (Some (ag_userId agent)) (Some (ag_id agent)) None typ Warn []) in
      cseq (cleanupEphemeralState now)
     (cbind (cget (\<lambda>s. jm_get (agentConnections s) (ag_id agent))) (\<lambda>existing.
        if map_option live_conn existing = Some c then
          cseq (warn ''agent_duplicate_hello_rejected'')
            (refuse env now c ACTION_REPLAY_DETECTED ''Agent hello was already processed on this connection'')
        else
          cbind (cget (\<lambda>s. or_else (jm_get (agentHelloNonces s) (ag_id agent)) [])) (\<lambda>helloNonces.
            if jm_has helloNonces (he_nonce hello) then
              cseq (warn ''agent_hello_replay_detected'')
                (refuse env now c ACTION_REPLAY_DETECTED ''Agent hello nonce was already used'')
            else accept_hello env now c hello agent existing))))"

definition handleAgentHello :: "cp_env \<Rightarrow> int \<Rightarrow> nat \<Rightarrow> AgentHelloEnvelope \<Rightarrow> unit cp" where
  "handleAgentHello env now c hello =
     cbind (cget (\<lambda>s. getAgent (he_agent_id hello) (store s))) (\<lambda>found.
       case (case found of
               Some a \<Rightarrow> if ag_status a = Revoked then None else map_option (\<lambda>k. (a, k)) (ag_publicKey a)
             | None \<Rightarrow> None) of
         None \<Rightarrow> refuse env now c AGENT_NOT_FOUND ''Agent is not enrolled''
       | Some (agent, publicKey) \<Rightarrow>
           let warn = (\<lambda>typ meta. audit env now (Some (ag_userId agent)) (Some (ag_id agent)) None typ Warn meta) in
           if \<not> verifyEnvelope (crypto env) (hello_fields hello) publicKey then
             cseq (warn ''agent_signature_invalid'' [(''message_type'', JStr ''agent.hello'')])
               (refuse env now c SIGNATURE_INVALID ''Agent signature is invalid'')
           else if 300000 < \<bar>now - date_ms (he_timestamp hello)\<bar> then
             cseq (warn ''agent_hello_expired'' [])
               (refuse env now c ACTION_EXPIRED ''Agent hello timestamp is stale'')
           else admit_hello env now c hello agent)"

section \<open>Results\<close>

text \<open>The common end of a result that is not accepted: the pending action is dropped, the event
  audited and the promise rejected.\<close>

definition reject_result ::
  "cp_env \<Rightarrow> int \<Rightarrow> PendingAction \<Rightarrow> string \<Rightarrow> string \<Rightarrow> RemoteErrorCode option \<Rightarrow> unit cp" where
  "reject_result env now p actionId typ code =
     cseq (cmodify (\<lambda>s. s\<lparr>pendingActions := jm_delete actionId (pendingActions s)\<rparr>))
    (cseq (audit env now (Some (act_userId (pa_action p))) (Some (act_agentId (pa_action p)))
             (Some (act_id (pa_action p))) typ Warn [])
      (cmodify (\<lambda>s. s\<lparr>settled := settled s @ [(pa_action p, Rejected code)]\<rparr>)))"

definition set_seen :: "string \<Rightarrow> nonces \<Rightarrow> unit cp" where
  "set_seen aid ns = cmodify (\<lambda>s.
     case jm_get (agentConnections s) aid of
       None \<Rightarrow> s
     | Some l \<Rightarrow> s\<lparr>agentConnections := jm_set aid (l\<lparr>seenNonces := ns\<rparr>) (agentConnections s)\<rparr>)"

definition result_signed :: "cp_env \<Rightarrow> remote_store \<Rightarrow> ActionResultEnvelope \<Rightarrow> bool" where
  "result_signed env st r =
     (case getAgent (re_agent_id r) st of
        None \<Rightarrow> False
      | Some a \<Rightarrow> (case ag_publicKey a of None \<Rightarrow> False
                 | Some k \<Rightarrow> verifyEnvelope (crypto env) (result_fields r) k))"

definition handleActionResult :: "cp_env \<Rightarrow> int \<Rightarrow> nat \<Rightarrow> ActionResultEnvelope \<Rightarrow> unit cp" where
  "handleActionResult env now c r =
     cbind (cget (\<lambda>s. jm_get (pendingActions s) (re_action_id r))) (\<lambda>pending.
       case pending of
         None \<Rightarrow> creturn ()
       | Some p \<Rightarrow>
           cbind (cget store) (\<lambda>st.
             if \<not> result_signed env st r then
               reject_result env now p (re_action_id r) ''agent_result_signature_invalid'' None
             else
               cbind (cget (\<lambda>s. jm_get (agentConnections s) (re_agent_id r))) (\<lambda>live.
                 case (if act_agentId (pa_action p) \<noteq> re_agent_id r then None
                       else if map_option live_conn live = Some c then live else None) of
                   None \<Rightarrow> reject_result env now p (re_action_id r) ''agent_result_connection_invalid''
                             (Some SIGNATURE_INVALID)
                 | Some l \<Rightarrow>
                     let (ns, seen) = hasSeenNonce (seenNonces l) (re_nonce r) now in
                     cseq (set_seen (re_agent_id r) ns)
                      (if seen then
                         reject_result env now p (re_action_id r) ''agent_result_replay_detected''
                           (Some ACTION_REPLAY_DETECTED)
                       else
                         cseq (set_seen (re_agent_id r) (rememberNonce ns (re_nonce r) now))
                           (cmodify (\<lambda>s. s\<lparr>pendingActions := jm_delete (re_action_id r) (pendingActions s),
                              settled := settled s @ [(pa_action p, Resolved r)]\<rparr>))))))"

section \<open>Messages\<close>

text \<open>\<open>handleUpgrade\<close>: a new connection, and its text handler: a message that fails to parse or
  to validate is answered with an error and the connection is closed.\<close>

definition accept_connection :: "nat \<Rightarrow> unit cp" where
  "accept_connection c =
     cmodify (\<lambda>s. s\<lparr>conns := jm_set c \<lparr>ws_closed = False, ws_notified = False, ws_handlers = []\<rparr> (conns s)\<rparr>)"

definition on_message_failure :: "cp_env \<Rightarrow> int \<Rightarrow> nat \<Rightarrow> unit cp" where
  "on_message_failure env now c = refuse env now c INTERNAL_ERROR ''Agent message failed''"

definition ccatch :: "('s, 'e, 'a) op \<Rightarrow> ('s, 'e, 'a) op \<Rightarrow> ('s, 'e, 'a) op" where
  "ccatch m h s = (case m s of (s', Inl _) \<Rightarrow> h s' | (s', Inr x) \<Rightarrow> (s', Inr x))"

definition handleAgentMessage :: "cp_env \<Rightarrow> int \<Rightarrow> nat \<Rightarrow> json option \<Rightarrow> unit cp" where
  "handleAgentMessage env now c parsed =
     (case parsed of
        None \<Rightarrow> cthrow (RuntimeError ''SyntaxError'')
      | Some (JObj es) \<Rightarrow>
          if jprop es ''type'' = JStr ''agent.hello'' then
            cbind (crequire (parseAgentHelloEnvelope (zod_datetime env) (JObj es)) (RuntimeError ''ZodError''))
              (handleAgentHello env now c)
          else if jprop es ''type'' = JStr ''action.result'' then
            cbind (crequire (parseActionResultEnvelope (zod_datetime env) (JObj es)) (RuntimeError ''ZodError''))
              (handleActionResult env now c)
          else refuse env now c INTERNAL_ERROR ''Unknown message type''
      | Some _ \<Rightarrow> refuse env now c INTERNAL_ERROR ''Invalid message'')"

definition on_text :: "cp_env \<Rightarrow> int \<Rightarrow> nat \<Rightarrow> json option \<Rightarrow> unit cp" where
  "on_text env now c parsed = ccatch (handleAgentMessage env now c parsed) (on_message_failure env now c)"

lemma keeps_ccatch [triples]:
  assumes "keeps P m" and "keeps P h"
  shows "keeps P (ccatch m h)"
proof (rule tripleI)
  fix s
  assume "P s"
  then have "P (fst (m s))" using keepsD [OF assms(1), of s "fst (m s)" "snd (m s)"] by simp
  then show "case ccatch m h s of (s', Inl e) \<Rightarrow> P s' | (s', Inr x) \<Rightarrow> P s'"
    using assms(2) by (auto simp: ccatch_def triple_def split: prod.splits sum.splits)
qed

end
