(* ===== verification/RemoteTools.thy ===== *)
theory RemoteTools
  imports AgentLink Shell
begin

text \<open>
  The tools of the control plane: \<open>callRemoteTool\<close> and everything it reaches (enrollment
  tokens, install commands, policy updates, revocation, dispatch of actions to agents), the
  REST routes of \<open>handleApi\<close> and the JSON-RPC methods of \<open>handleMcp\<close>
  (\<open>src/remote/control-plane.ts\<close>). The policy of \<open>update_agent_policy\<close> is read with the types
  of \<open>AgentPolicyPatch\<close>; values of other types, which the code would store unchecked, are
  outside the model. A tool name inherited from \<open>Object.prototype\<close> counts as unknown.
\<close>

section \<open>Finding agents\<close>

definition resolveAgent :: "string \<Rightarrow> string \<Rightarrow> remote_store \<Rightarrow> RemoteAgentRecord option" where
  "resolveAgent userId value st =
     (if value = [] then None
      else case getAgent value st of
             Some a \<Rightarrow> if ag_userId a = userId then Some a else getAgentByAlias userId value st
           | None \<Rightarrow> getAgentByAlias userId value st)"

definition requireAgent :: "string \<Rightarrow> (string \<times> json) list \<Rightarrow> RemoteAgentRecord cp" where
  "requireAgent userId args =
     cbind (cget store) (\<lambda>st.
       crequire (resolveAgent userId (or_else (str_prop args ''agent_id_or_alias'') '''') st)
         (safeError AGENT_NOT_FOUND ''Agent not found'' 404))"

record agent_view =
  av_id :: string
  av_alias :: string
  av_status :: agent_status
  av_profile :: AgentProfileName
  av_policy_version :: int
  av_host_metadata :: "AgentHostMetadata option"
  av_last_seen_at :: "int option"
  av_created_at :: int
  av_updated_at :: int

definition sanitizeAgent :: "RemoteAgentRecord \<Rightarrow> agent_view" where
  "sanitizeAgent a =
     \<lparr>av_id = ag_id a, av_alias = ag_alias a, av_status = ag_status a, av_profile = ag_profile a,
      av_policy_version = ag_policyVersion a, av_host_metadata = ag_hostMetadata a,
      av_last_seen_at = ag_lastSeenAt a, av_created_at = ag_createdAt a, av_updated_at = ag_updatedAt a\<rparr>"

section \<open>Enrollment tokens and install commands\<close>

definition quotePosixArg :: "string \<Rightarrow> string" where
  "quotePosixArg value =
     [CHR 0x27] @ replace_all (CHR 0x27) [CHR 0x27, CHR 0x22, CHR 0x27, CHR 0x22, CHR 0x27] value @ [CHR 0x27]"

definition quotePowerShellArg :: "string \<Rightarrow> string" where
  "quotePowerShellArg value = [CHR 0x27] @ replace_all (CHR 0x27) [CHR 0x27, CHR 0x27] value @ [CHR 0x27]"

record install_command =
  ic_agent_id :: string
  ic_alias :: string
  ic_token_recoverable :: bool
  ic_npm :: string
  ic_run :: string
  ic_windows :: string
  ic_expires_in :: "int option"

definition install_line :: "(string \<Rightarrow> string) \<Rightarrow> string \<Rightarrow> string \<Rightarrow> string \<Rightarrow> string" where
  "install_line quote url token alias =
     join '' '' [''npx --yes --package mcp-ssh-tool@latest mcp-ssh-agent enroll'',
       ''--server '' @ quote url, ''--token '' @ quote token, ''--alias '' @ quote alias]"

definition installCommand :: "RemoteConfig \<Rightarrow> RemoteAgentRecord \<Rightarrow> string option \<Rightarrow> install_command" where
  "installCommand cfg agent token =
     (let tokenArgument = or_else token ''<create-a-new-enrollment-token>'' in
      \<lparr>ic_agent_id = ag_id agent, ic_alias = ag_alias agent, ic_token_recoverable = truthy token,
       ic_npm = install_line quotePosixArg (publicBaseUrl cfg) tokenArgument (ag_alias agent),
       ic_run = ''npx --yes --package mcp-ssh-tool@latest mcp-ssh-agent run'',
       ic_windows = install_line quotePowerShellArg (publicBaseUrl cfg) tokenArgument (ag_alias agent),
       ic_expires_in = (if truthy token then Some (enrollmentTokenTtlSeconds cfg) else None)\<rparr>)"

definition require_admin :: "RemotePrincipal \<Rightarrow> unit cp" where
  "require_admin p = cthrow_if (\<not> hasCapability (pr_capabilities p) AgentsAdmin)
     (safeError INVALID_SCOPE ''agents:admin scope is required'' 403)"

definition requested_policy :: "string option \<Rightarrow> AgentPolicy" where
  "requested_policy requested =
     createAgentPolicy (if requested = Some ''operations'' then Operations
       else if requested = Some ''full-admin'' then FullAdmin else ReadOnly)"

definition createEnrollmentToken ::
  "cp_env \<Rightarrow> RemoteConfig \<Rightarrow> int \<Rightarrow> RemotePrincipal \<Rightarrow> (string \<times> json) list \<Rightarrow> (install_command \<times> string) cp" where
  "createEnrollmentToken env cfg now p args =
     (let alias = or_else (map_option trim (str_prop args ''alias'')) '''';
          policy = requested_policy (str_prop args ''requested_profile'') in
      cseq (require_admin p)
     (cseq (cthrow_if (alias = []) (safeError FORBIDDEN ''alias is required'' 400))
     (cbind (cget (\<lambda>s. getAgentByAlias (pr_userId p) alias (store s))) (\<lambda>existing.
      cseq (cthrow_if (case existing of Some a \<Rightarrow> ag_status a \<noteq> Revoked | None \<Rightarrow> False)
              (safeError FORBIDDEN ''Agent alias already exists'' 400))
     (cbind (new_id env ''agt'') (\<lambda>agentId.
      let agent = \<lparr>ag_id = agentId, ag_userId = pr_userId p, ag_alias = alias, ag_status = Pending,
            ag_publicKey = None, ag_profile = ap_profile policy, ag_policy = policy,
            ag_policyVersion = policy_ver policy, ag_hostMetadata = None, ag_lastSeenAt = None,
            ag_createdAt = now, ag_updatedAt = now\<rparr> in
      cbind (randomToken env) (\<lambda>token.
      cseq (cstore (insertAgent agent))
     (cbind (new_id env ''enr'') (\<lambda>enrId.
      cseq (cstore (insertEnrollmentToken
              \<lparr>et_id = enrId, et_agentId = agentId, et_userId = pr_userId p,
               et_tokenHash = hashSecret (crypto env) token,
               et_expiresAt = now + enrollmentTokenTtlSeconds cfg * 1000, et_usedAt = None,
               et_createdAt = now\<rparr>))
     (cseq (audit env now (Some (pr_userId p)) (Some agentId) None ''enrollment_token_created'' Info
              [(''alias'', JStr alias), (''profile'', JStr (profile_name (ap_profile policy)))])
       (creturn (installCommand cfg agent (Some token), token))))))))))))"

section \<open>Policy updates and revocation\<close>

definition patch_field :: "(json \<Rightarrow> 'a option) \<Rightarrow> (string \<times> json) list \<Rightarrow> string \<Rightarrow> 'a option" where
  "patch_field f es k = f (jprop es k)"

definition patch_of_json :: "json \<Rightarrow> AgentPolicyPatch" where
  "patch_of_json v =
     (let es = (case v of JObj es \<Rightarrow> es | _ \<Rightarrow> []);
          cs = (case jprop es ''capabilities'' of JObj fs \<Rightarrow> fs | _ \<Rightarrow> []) in
      \<lparr>pp_profile = patch_field (z_enum profile_name [ReadOnly, Operations, FullAdmin, Custom]) es ''profile'',
       pp_capabilities = (\<lambda>c. patch_field z_bool cs (capability_name c)),
       pp_allowPaths = patch_field (z_array asString) es ''allowPaths'',
       pp_denyPaths = patch_field (z_array asString) es ''denyPaths'',
       pp_allowServices = patch_field (z_array asString) es ''allowServices'',
       pp_allowContainers = patch_field (z_array asString) es ''allowContainers'',
       pp_maxOutputBytes = patch_field z_int es ''maxOutputBytes'',
       pp_maxActionTimeoutSeconds = patch_field z_int es ''maxActionTimeoutSeconds'',
       pp_version = patch_field z_int es ''version''\<rparr>)"

definition next_policy :: "RemoteConfig \<Rightarrow> RemoteAgentRecord \<Rightarrow> json \<Rightarrow> AgentPolicy" where
  "next_policy cfg agent value =
     (let merged = mergeCustomPolicy (patch_of_json value) in
      merged\<lparr>maxActionTimeoutSeconds := min (maxActionTimeoutSeconds merged) (cfg_maxActionTimeoutSeconds cfg),
             maxOutputBytes := min (maxOutputBytes merged) (cfg_maxOutputBytes cfg),
             policy_ver := ag_policyVersion agent + 1\<rparr>)"

definition signed_update ::
  "cp_env \<Rightarrow> RemoteConfig \<Rightarrow> int \<Rightarrow> string \<Rightarrow> AgentPolicy \<Rightarrow> int \<Rightarrow> string \<Rightarrow> PolicyUpdateEnvelope" where
  "signed_update env cfg now agentId policy ver nonce =
     (let u = \<lparr>pu_agent_id = agentId, pu_policy = policy, pu_policy_version = ver,
            pu_issued_at = toISOString now, pu_nonce = nonce, pu_signature = ''''\<rparr>
      in u\<lparr>pu_signature := signEnvelope (crypto env) (update_fields u) (cp_privateKey cfg)\<rparr>)"

definition updateAgentPolicy ::
  "cp_env \<Rightarrow> RemoteConfig \<Rightarrow> int \<Rightarrow> RemotePrincipal \<Rightarrow> RemoteAgentRecord \<Rightarrow> json \<Rightarrow> RemoteAgentRecord cp" where
  "updateAgentPolicy env cfg now p agent value =
     cseq (require_admin p)
    (let policy = next_policy cfg agent value; nextVersion = ag_policyVersion agent + 1;
         updated = agent\<lparr>ag_profile := ap_profile policy, ag_policy := policy,
           ag_policyVersion := nextVersion, ag_updatedAt := now\<rparr> in
     cseq (cstore (updateAgent updated))
    (cbind (cget (\<lambda>s. jm_get (agentConnections s) (ag_id agent))) (\<lambda>live.
     cseq (case live of
             None \<Rightarrow> creturn ()
           | Some l \<Rightarrow> cbind (randomToken env) (\<lambda>nonce.
               send (live_conn l) (MsgPolicyUpdate (signed_update env cfg now (ag_id agent) policy nextVersion nonce))))
    (cseq (audit env now (Some (pr_userId p)) (Some (ag_id agent)) None ''policy_updated'' Warn
             [(''profile'', JStr (profile_name (ap_profile policy))), (''policy_version'', JNum nextVersion)])
      (creturn updated)))))"

definition revokeAgent ::
  "cp_env \<Rightarrow> int \<Rightarrow> RemotePrincipal \<Rightarrow> RemoteAgentRecord \<Rightarrow> RemoteAgentRecord cp" where
  "revokeAgent env now p agent =
     cseq (require_admin p)
    (let updated = agent\<lparr>ag_status := Revoked, ag_updatedAt := now\<rparr> in
     cseq (cstore (updateAgent updated))
    (cbind (cget (\<lambda>s. jm_get (agentConnections s) (ag_id agent))) (\<lambda>live.
     cseq (case live of None \<Rightarrow> creturn () | Some l \<Rightarrow> ws_close env now (live_conn l))
    (cseq (cmodify (\<lambda>s. s\<lparr>agentConnections := jm_delete (ag_id agent) (agentConnections s)\<rparr>))
    (cseq (audit env now (Some (pr_userId p)) (Some (ag_id agent)) None ''agent_revoked'' Warn [])
      (creturn updated))))))"

section \<open>Dispatch\<close>

text \<open>\<open>Number(v)\<close> on the values of a JSON body (\<open>None\<close>: \<open>NaN\<close>); a string counts when it is an
  integer literal, possibly with white space around it, or blank.\<close>

definition js_number :: "json \<Rightarrow> int option" where
  "js_number v =
     (case v of
        JNum n \<Rightarrow> Some n
      | JBool b \<Rightarrow> Some (if b then 1 else 0)
      | JNull \<Rightarrow> Some 0
      | JStr s \<Rightarrow>
          (let t = trim s in
           if t = [] then Some 0
           else if list_all is_digit t then Some (int (digits_val t))
           else if take 1 t = ''-'' \<and> 1 < length t \<and> list_all is_digit (drop 1 t)
             then Some (- int (digits_val (drop 1 t)))
           else None)
      | _ \<Rightarrow> None)"

text \<open>\<open>Number(value ?? fallback)\<close>.\<close>

definition number_or :: "json \<Rightarrow> int \<Rightarrow> int option" where
  "number_or v d = (if v = JUndefined \<or> v = JNull then Some d else js_number v)"

definition signed_request ::
  "cp_env \<Rightarrow> RemoteConfig \<Rightarrow> ActionRequestEnvelope \<Rightarrow> ActionRequestEnvelope" where
  "signed_request env cfg q =
     q\<lparr>rq_signature := signEnvelope (crypto env) (request_fields q) (cp_privateKey cfg)\<rparr>"

definition action_request ::
  "cp_env \<Rightarrow> RemoteConfig \<Rightarrow> int \<Rightarrow> RemotePrincipal \<Rightarrow> RemoteAgentRecord \<Rightarrow> RemoteToolName \<Rightarrow>
     RemoteCapability \<Rightarrow> (string \<times> json) list \<Rightarrow> string \<Rightarrow> int \<Rightarrow> string \<Rightarrow> ActionRequestEnvelope" where
  "action_request env cfg now p agent tool capability args actionId deadline nonce =
     signed_request env cfg
       \<lparr>rq_action_id = actionId, rq_agent_id = ag_id agent, rq_user_id = pr_userId p, rq_tool = tool,
        rq_capability = capability, rq_args = args, rq_policy_version = ag_policyVersion agent,
        rq_issued_at = toISOString now, rq_deadline = toISOString deadline, rq_nonce = nonce,
        rq_signature = ''''\<rparr>"

definition action_record ::
  "int \<Rightarrow> RemotePrincipal \<Rightarrow> RemoteAgentRecord \<Rightarrow> RemoteToolName \<Rightarrow> RemoteCapability \<Rightarrow> (string \<times> json) list \<Rightarrow>
     string \<Rightarrow> int \<Rightarrow> ActionRecord" where
  "action_record now p agent tool capability args actionId deadline =
     \<lparr>act_id = actionId, act_userId = pr_userId p, act_agentId = ag_id agent, act_tool = tool,
      act_capability = capability, act_args = args, act_status = ASent, act_issuedAt = now,
      act_deadline = deadline, act_completedAt = None, act_result = None, act_errorCode = None\<rparr>"

text \<open>\<open>dispatchAction\<close> up to the promise: the action is stored, audited, registered as pending
  with its timer and sent to the agent.\<close>

definition dispatchAction ::
  "cp_env \<Rightarrow> RemoteConfig \<Rightarrow> int \<Rightarrow> RemotePrincipal \<Rightarrow> RemoteAgentRecord \<Rightarrow> RemoteToolName \<Rightarrow>
     RemoteCapability \<Rightarrow> (string \<times> json) list \<Rightarrow> ActionRecord cp" where
  "dispatchAction env cfg now p agent tool capability args =
     cseq (cthrow_if (ag_status agent = Revoked) (safeError AGENT_REVOKED ''Agent is revoked'' 410))
    (cbind (cget (\<lambda>s. jm_get (agentConnections s) (ag_id agent))) (\<lambda>found.
     cbind (crequire found (safeError AGENT_OFFLINE ''Agent is offline'' 503)) (\<lambda>live.
     cbind (new_id env ''act'') (\<lambda>actionId.
     cbind (crequire (number_or (jprop args ''timeout_seconds'') (maxActionTimeoutSeconds (ag_policy agent)))
              (RuntimeError ''RangeError: Invalid time value'')) (\<lambda>requested.
     let timeoutSeconds = min requested (min (maxActionTimeoutSeconds (ag_policy agent)) (cfg_maxActionTimeoutSeconds cfg));
         deadline = now + timeoutSeconds * 1000 in
     cbind (randomToken env) (\<lambda>nonce.
     let envelope = action_request env cfg now p agent tool capability args actionId deadline nonce;
         action = action_record now p agent tool capability args actionId deadline;
         meta = [(''tool'', JStr (tool_name tool)), (''capability'', JStr (capability_name capability))] in
     cseq (cstore (insertAction action))
    (cseq (audit env now (Some (pr_userId p)) (Some (ag_id agent)) (Some actionId) ''action_requested'' Info meta)
    (cseq (audit env now (Some (pr_userId p)) (Some (ag_id agent)) (Some actionId) ''action_allowed'' Info meta)
    (cseq (cmodify (\<lambda>s. s\<lparr>pendingActions := jm_set actionId
              \<lparr>pa_action = action, pa_fires = now + timeoutSeconds * 1000 + 2000\<rparr> (pendingActions s)\<rparr>))
    (cseq (send (live_conn live) (MsgActionRequest envelope))
      (creturn action)))))))))))"

text \<open>The timer of a pending action.\<close>

definition fire_timeout :: "string \<Rightarrow> unit cp" where
  "fire_timeout actionId =
     cbind (cget (\<lambda>s. jm_get (pendingActions s) actionId)) (\<lambda>pending.
       case pending of
         None \<Rightarrow> creturn ()
       | Some p \<Rightarrow> cmodify (\<lambda>s. s\<lparr>pendingActions := jm_delete actionId (pendingActions s),
           settled := settled s @ [(pa_action p, Rejected (Some AGENT_TIMEOUT))]\<rparr>))"

text \<open>\<open>dispatchAction\<close> after the promise: the outcome is stored, audited and returned or thrown.\<close>

definition finishAction ::
  "cp_env \<Rightarrow> int \<Rightarrow> ActionRecord \<Rightarrow> settlement \<Rightarrow> ActionResultEnvelope cp" where
  "finishAction env now action outcome =
     (let log = (\<lambda>typ sev meta. audit env now (Some (act_userId action)) (Some (act_agentId action))
                   (Some (act_id action)) typ sev meta) in
      case outcome of
        Rejected c \<Rightarrow>
          let code = or_else c INTERNAL_ERROR in
          cseq (cstore (\<lambda>st. Inr (updateAction (action\<lparr>act_status := (if code = AGENT_TIMEOUT then ATimeout else AError),
                   act_completedAt := Some now, act_errorCode := Some code\<rparr>) st)))
         (cseq (log ''action_denied_or_failed'' Warn
                  [(''status'', JStr ''error''), (''error_code'', JStr (error_code_name code))])
           (cthrow (safeError code (if code = AGENT_TIMEOUT then ''Agent timed out'' else ''Agent action failed'') 504)))
      | Resolved r \<Rightarrow>
          cseq (cstore (\<lambda>st. Inr (updateAction (action\<lparr>act_status := (if re_ok r then ACompleted else AError),
                   act_completedAt := Some now, act_result := Some r, act_errorCode := re_error_code r\<rparr>) st)))
         (cseq (log (if re_ok r then ''action_completed'' else ''action_denied_or_failed'')
                  (if re_ok r then Info else Warn)
                  [(''status'', JStr (if re_ok r then ''ok'' else ''error'')),
                   (''error_code'', opt_json (\<lambda>c. JStr (error_code_name c)) (re_error_code r))])
           (creturn r)))"

section \<open>Tool calls\<close>

record host_view =
  hv_id :: string
  hv_alias :: string
  hv_status :: agent_status
  hv_host :: "AgentHostMetadata option"

datatype tool_reply =
    Hosts "host_view list"
  | Agents "agent_view list"
  | Enrollment install_command string
  | Install install_command
  | AgentReply agent_view
  | Events "AuditEvent list"
  | Dispatched ActionRecord

definition callRemoteTool ::
  "cp_env \<Rightarrow> RemoteConfig \<Rightarrow> int \<Rightarrow> RemotePrincipal \<Rightarrow> RemoteToolName \<Rightarrow> (string \<times> json) list \<Rightarrow> tool_reply cp" where
  "callRemoteTool env cfg now p tool args =
     (let capability = TOOL_CAPABILITY_MAP tool in
      cseq (cthrow_if (\<not> hasCapability (pr_capabilities p) capability)
              (safeError INVALID_SCOPE (''Scope does not grant '' @ capability_name capability) 403))
     (case tool of
        ListHosts \<Rightarrow> cbind (cget (\<lambda>s. listAgents (pr_userId p) (store s))) (\<lambda>as.
          creturn (Hosts (map (\<lambda>a. \<lparr>hv_id = ag_id a, hv_alias = ag_alias a, hv_status = ag_status a,
                                    hv_host = ag_hostMetadata a\<rparr>) as)))
      | ListAgents \<Rightarrow> cbind (cget (\<lambda>s. listAgents (pr_userId p) (store s))) (\<lambda>as.
          creturn (Agents (map sanitizeAgent as)))
      | CreateEnrollmentToken \<Rightarrow> cbind (createEnrollmentToken env cfg now p args) (\<lambda>(ic, token).
          creturn (Enrollment ic token))
      | GetAgentInstallCommand \<Rightarrow> cbind (requireAgent (pr_userId p) args) (\<lambda>agent.
          creturn (Install (installCommand cfg agent None)))
      | UpdateAgentPolicy \<Rightarrow> cbind (requireAgent (pr_userId p) args) (\<lambda>agent.
          cbind (updateAgentPolicy env cfg now p agent (jprop args ''policy'')) (\<lambda>a.
            creturn (AgentReply (sanitizeAgent a))))
      | RevokeAgent \<Rightarrow> cbind (requireAgent (pr_userId p) args) (\<lambda>agent.
          cbind (revokeAgent env now p agent) (\<lambda>a. creturn (AgentReply (sanitizeAgent a))))
      | GetAuditEvents \<Rightarrow> cbind (cget store) (\<lambda>st.
          let agentId = (case str_prop args ''agent_id_or_alias'' of
                           None \<Rightarrow> None
                         | Some v \<Rightarrow> if v = [] then None else map_option ag_id (resolveAgent (pr_userId p) v st)) in
          cbind (crequire (number_or (jprop args ''limit'') 50) (RuntimeError ''datatype mismatch'')) (\<lambda>limit.
            creturn (Events (listAudit (pr_userId p) agentId limit st))))
      | _ \<Rightarrow> cbind (requireAgent (pr_userId p) args) (\<lambda>agent.
          if \<not> capabilities (ag_policy agent) capability then
            cseq (audit env now (Some (pr_userId p)) (Some (ag_id agent)) None ''action_denied'' Warn
                    [(''tool'', JStr (tool_name tool)), (''capability'', JStr (capability_name capability)),
                     (''reason'', JStr ''capability disabled by agent policy'')])
              (cthrow (safeError CAPABILITY_DENIED
                 (''Agent policy does not allow '' @ capability_name capability) 403))
          else cbind (dispatchAction env cfg now p agent tool capability args) (\<lambda>action.
            creturn (Dispatched action)))))"

end
