(* ===== verification/AgentExecutor.thy ===== *)
theory AgentExecutor
  imports RemoteTools
begin

text \<open>
  The agent's side of an action (\<open>src/remote/agent-executor.ts\<close>): output limits, the checks of
  the local policy and the commands that are run. The operating system is a parameter, a record
  of what it answers; every call to it is recorded in the state, so that theorems can speak about
  the calls that were made. Output is bytes (one \<open>char\<close> each), decoded by \<open>utf8\<close>.
\<close>

section \<open>Bounded output\<close>

definition truncationMarker :: "int \<Rightarrow> string" where
  "truncationMarker maxBytes = [CHR 0x0A] @ ''[truncated after '' @ show_int maxBytes @ '' bytes]'' @ [CHR 0x0A]"

text \<open>\<open>Buffer.concat(list, total)\<close> cuts at \<open>total\<close> bytes or fills up with zeros.\<close>

definition concat_total :: "string list \<Rightarrow> nat \<Rightarrow> string" where
  "concat_total bs n = (let b = concat bs in take n b @ replicate (n - length b) (CHR 0x00))"

definition appendTruncationMarker :: "string \<Rightarrow> int \<Rightarrow> string \<times> bool" where
  "appendTruncationMarker buf maxBytes =
     (if maxBytes \<le> 0 then ([], True)
      else
        let marker = truncationMarker maxBytes in
        if int (length marker) \<ge> maxBytes then (take (nat maxBytes) marker, True)
        else let payloadBytes = max 0 (maxBytes - int (length marker)) in
          (concat_total [take (nat payloadBytes) buf, marker] (nat maxBytes), True))"

definition truncateBuffer :: "string \<Rightarrow> int \<Rightarrow> string \<times> bool" where
  "truncateBuffer buf maxBytes = (if int (length buf) \<le> maxBytes then (buf, False) else appendTruncationMarker buf maxBytes)"

record OutputAccumulator =
  oa_bytes :: int
  oa_chunks :: "string list"
  oa_truncated :: bool

definition new_accumulator :: OutputAccumulator where
  "new_accumulator = \<lparr>oa_bytes = 0, oa_chunks = [], oa_truncated = False\<rparr>"

definition appendBoundedOutput :: "int \<Rightarrow> string \<Rightarrow> OutputAccumulator \<Rightarrow> OutputAccumulator" where
  "appendBoundedOutput maxBytes chunk acc =
     (if maxBytes \<le> 0 then acc\<lparr>oa_truncated := oa_truncated acc \<or> chunk \<noteq> []\<rparr>
      else
        let remaining = maxBytes - oa_bytes acc in
        if remaining \<le> 0 then acc\<lparr>oa_truncated := True\<rparr>
        else let slice = take (nat remaining) chunk in
          \<lparr>oa_bytes = oa_bytes acc + int (length slice), oa_chunks = oa_chunks acc @ [slice],
           oa_truncated = oa_truncated acc \<or> length slice \<noteq> length chunk\<rparr>)"

definition finalizeBoundedOutput :: "OutputAccumulator \<Rightarrow> int \<Rightarrow> string \<times> bool" where
  "finalizeBoundedOutput acc maxBytes =
     (let value = concat_total (oa_chunks acc) (nat (oa_bytes acc)) in
      if \<not> oa_truncated acc then (value, False) else appendTruncationMarker value maxBytes)"

definition collect_output :: "int \<Rightarrow> string list \<Rightarrow> string \<times> bool" where
  "collect_output maxBytes chunks =
     finalizeBoundedOutput (fold (appendBoundedOutput maxBytes) chunks new_accumulator) maxBytes"

lemma appendTruncationMarker_bound: "int (length (fst (appendTruncationMarker buf m))) \<le> max 0 m"
  by (auto simp: appendTruncationMarker_def concat_total_def Let_def)

lemma truncateBuffer_bound: "int (length (fst (truncateBuffer buf m))) \<le> max 0 m"
  using appendTruncationMarker_bound [of buf m] by (auto simp: truncateBuffer_def)

text \<open>The accumulator holds a prefix of what arrived, and all of it unless it says otherwise.\<close>

definition acc_holds :: "int \<Rightarrow> string \<Rightarrow> OutputAccumulator \<Rightarrow> bool" where
  "acc_holds m all acc \<longleftrightarrow> concat (oa_chunks acc) = take (nat m) all \<and> oa_bytes acc = int (length (take (nat m) all)) \<and>
     (oa_truncated acc \<longleftrightarrow> m < int (length all))"

lemma appendBoundedOutput_holds:
  assumes "0 \<le> m" and "chunk \<noteq> []" and "acc_holds m all acc"
  shows "acc_holds m (all @ chunk) (appendBoundedOutput m chunk acc)"
proof -
  obtain k where m: "m = int k" using assms(1) nonneg_int_cases by blast
  consider "k = 0" | "0 < k" "k \<le> length all" | "length all < k" by linarith
  then show ?thesis
  proof cases
    case 3
    then have all: "concat (oa_chunks acc) = all" "oa_bytes acc = int (length all)" "\<not> oa_truncated acc"
      using assms(3) by (simp_all add: acc_holds_def m)
    have "nat (int k - int (length all)) = k - length all" by linarith
    with all 3 show ?thesis by (auto simp: acc_holds_def appendBoundedOutput_def Let_def m)
  qed (use assms(2,3) in \<open>auto simp: acc_holds_def appendBoundedOutput_def Let_def m simp flip: of_nat_add\<close>)
qed

lemma fold_holds:
  "0 \<le> m \<Longrightarrow> \<forall>c \<in> set chunks. c \<noteq> [] \<Longrightarrow> acc_holds m all acc \<Longrightarrow>
     acc_holds m (all @ concat chunks) (fold (appendBoundedOutput m) chunks acc)"
proof (induction chunks arbitrary: all acc)
  case (Cons c cs)
  then show ?case using Cons.IH [OF _ _ appendBoundedOutput_holds [of m c all acc]] by simp
qed simp

lemma appendTruncationMarker_prefix:
  "0 \<le> m \<Longrightarrow> m < int (length buf) \<Longrightarrow> appendTruncationMarker (take (nat m) buf) m = appendTruncationMarker buf m"
  by (auto simp: appendTruncationMarker_def Let_def min_def concat_total_def)

text \<open>
  Bounding the output as it arrives is the same as truncating it afterwards. However a command's
  output is cut into chunks, the value kept and the truncation flag are those of
  \<open>truncateBuffer\<close> on the whole output; the value never exceeds the policy's limit.
\<close>

theorem collect_output_truncates:
  assumes "0 \<le> m" and "\<forall>c \<in> set chunks. c \<noteq> []"
  shows "collect_output m chunks = truncateBuffer (concat chunks) m \<and>
    int (length (fst (collect_output m chunks))) \<le> m"
proof -
  let ?acc = "fold (appendBoundedOutput m) chunks new_accumulator"
  have h: "acc_holds m (concat chunks) ?acc"
  proof -
    have "acc_holds m [] new_accumulator" using assms(1) by (simp add: acc_holds_def new_accumulator_def)
    from fold_holds [OF assms this] show ?thesis by simp
  qed
  then have v: "concat_total (oa_chunks ?acc) (nat (oa_bytes ?acc)) = take (nat m) (concat chunks)"
    by (simp add: acc_holds_def concat_total_def min_def)
  have "collect_output m chunks = (if \<not> m < int (length (concat chunks)) then (take (nat m) (concat chunks), False)
      else appendTruncationMarker (take (nat m) (concat chunks)) m)"
  proof -
    have t: "oa_truncated ?acc \<longleftrightarrow> m < int (length (concat chunks))" using h by (simp add: acc_holds_def)
    show ?thesis by (simp only: collect_output_def finalizeBoundedOutput_def Let_def v t)
  qed
  then have "collect_output m chunks = truncateBuffer (concat chunks) m"
    using assms(1) appendTruncationMarker_prefix [of m "concat chunks"] by (auto simp: truncateBuffer_def)
  then show ?thesis using truncateBuffer_bound [of "concat chunks" m] assms(1) by simp
qed

theorem collect_output_truncates_witness:
  "collect_output 40 [''abc'', ''defgh''] = truncateBuffer (concat [''abc'', ''defgh'']) 40"
  using collect_output_truncates [of 40 "[''abc'', ''defgh'']"] by simp

section \<open>The operating system\<close>

record exec_error =
  xe_code :: "string option"
  xe_message :: string

datatype spawn_outcome = Exited "string list" "string list" "int option" bool | SpawnFailed string

record agent_os =
  win32 :: bool
  getuid :: "int option"
  utf8 :: "string \<Rightarrow> string"
  os_spawn :: "string \<Rightarrow> string list \<Rightarrow> string option \<Rightarrow> spawn_outcome"
  os_read :: "string \<Rightarrow> nat \<Rightarrow> exec_error + string"
  os_write :: "string \<Rightarrow> string \<Rightarrow> exec_error + unit"
  os_access :: "string \<Rightarrow> exec_error + unit"

text \<open>The calls an action makes; the time limit of a command is \<open>None\<close> for \<open>NaN\<close>.\<close>

datatype os_call =
    Spawn string "string list" "string option" "int option"
  | ReadFile string nat
  | WriteFile string string
  | Access string

type_synonym 'a ex = "(os_call list, exec_error, 'a) op"

definition os_do :: "os_call \<Rightarrow> exec_error + 'a \<Rightarrow> 'a ex" where
  "os_do call answer calls = (calls @ [call], answer)"

definition exec_fail :: "string \<Rightarrow> string \<Rightarrow> 'a ex" where
  "exec_fail code message = cthrow \<lparr>xe_code = Some code, xe_message = message\<rparr>"

record ExecResult =
  ex_exitCode :: int
  ex_stdout :: string
  ex_stderr :: string
  ex_truncated :: bool

definition runCommand :: "agent_os \<Rightarrow> string \<Rightarrow> string list \<Rightarrow> string option \<Rightarrow> int option \<Rightarrow> int \<Rightarrow> ExecResult ex" where
  "runCommand os command args cwd timeoutSeconds limit =
     os_do (Spawn command args cwd timeoutSeconds)
       (Inr (case os_spawn os command args cwd of
          Exited outs errs code timedOut \<Rightarrow>
            let out = collect_output limit outs; err = collect_output limit errs in
            \<lparr>ex_exitCode = (if timedOut then 124 else or_else code 0), ex_stdout = utf8 os (fst out),
             ex_stderr = utf8 os (fst err), ex_truncated = (snd out \<or> snd err)\<rparr>
        | SpawnFailed message \<Rightarrow>
            \<lparr>ex_exitCode = 127, ex_stdout = '''', ex_stderr = message, ex_truncated = False\<rparr>))"

definition readFileBounded :: "agent_os \<Rightarrow> string \<Rightarrow> int \<Rightarrow> (string \<times> bool) ex" where
  "readFileBounded os filePath maxBytes =
     (let cappedBytes = max 0 maxBytes; bytesToRead = nat (cappedBytes + 1) in
      cbind (os_do (ReadFile filePath bytesToRead) (os_read os filePath bytesToRead)) (\<lambda>content.
        creturn (truncateBuffer content cappedBytes)))"

section \<open>Commands\<close>

definition platformShell :: "agent_os \<Rightarrow> string \<Rightarrow> string \<times> string list" where
  "platformShell os command =
     (if win32 os then (''powershell.exe'', [''-NoLogo'', ''-NoProfile'', ''-NonInteractive'', ''-Command'', command])
      else (''/bin/sh'', [''-lc'', command]))"

definition powerShell :: "string \<Rightarrow> string list \<Rightarrow> string \<times> string list" where
  "powerShell command args =
     (''powershell.exe'', [''-NoLogo'', ''-NoProfile'', ''-NonInteractive'', ''-Command'', command] @ args)"

definition posixSingleQuote :: "string \<Rightarrow> string" where
  "posixSingleQuote value = [CHR 0x27] @ replace_all (CHR 0x27) [CHR 0x27, CHR 0x5C, CHR 0x27, CHR 0x27] value @ [CHR 0x27]"

definition ident_char :: "char \<Rightarrow> bool" where
  "ident_char c = (let n = (of_char c :: nat) in
     (65 \<le> n \<and> n \<le> 90) \<or> (97 \<le> n \<and> n \<le> 122) \<or> (48 \<le> n \<and> n \<le> 57) \<or> c \<in> set ''_.@:-'')"

definition safe_identifier :: "string \<Rightarrow> bool" where
  "safe_identifier v = (1 \<le> length v \<and> length v \<le> 128 \<and> list_all ident_char v)"

definition assertSafeIdentifier :: "string \<Rightarrow> string \<Rightarrow> unit ex" where
  "assertSafeIdentifier value label =
     (if safe_identifier value then creturn () else exec_fail ''POLICY_DENIED'' (label @ '' contains unsupported characters''))"

definition letter :: "char \<Rightarrow> bool" where
  "letter c = (let n = (of_char c :: nat) in (65 \<le> n \<and> n \<le> 90) \<or> (97 \<le> n \<and> n \<le> 122))"

definition isLogFileTarget :: "string \<Rightarrow> bool" where
  "isLogFileTarget t =
     (CHR ''/'' \<in> set t \<or> CHR 0x5C \<in> set t \<or>
      (case t of a # b # c # _ \<Rightarrow> letter a \<and> b = CHR '':'' \<and> (c = CHR 0x5C \<or> c = CHR ''/'') | _ \<Rightarrow> False))"

definition run_pair :: "agent_os \<Rightarrow> string \<times> string list \<Rightarrow> string option \<Rightarrow> int option \<Rightarrow> AgentPolicy \<Rightarrow> ExecResult ex" where
  "run_pair os sh cwd t policy = runCommand os (fst sh) (snd sh) cwd t (maxOutputBytes policy)"

definition getSystemStatus :: "agent_os \<Rightarrow> AgentPolicy \<Rightarrow> int option \<Rightarrow> ExecResult ex" where
  "getSystemStatus os policy t =
     run_pair os (platformShell os
       (if win32 os then ''Get-ComputerInfo | Select-Object CsName,OsName,OsVersion,CsTotalPhysicalMemory | ConvertTo-Json -Compress''
        else ''uname -a && uptime && df -h /'')) None t policy"

definition tailLogs :: "agent_os \<Rightarrow> AgentPolicy \<Rightarrow> string \<Rightarrow> int option \<Rightarrow> ExecResult ex" where
  "tailLogs os policy target t =
     (if target = [] then exec_fail ''POLICY_DENIED'' ''unit_or_file is required''
      else
        let isFileTarget = isLogFileTarget target in
        if isFileTarget \<and> \<not> isPathAllowed policy target then
          exec_fail ''POLICY_DENIED'' ''Log path is not allowed by local policy''
        else if win32 os then
          (if isFileTarget then run_pair os (powerShell ''Get-Content -Path $args[0] -Tail 100'' [target]) None t policy
           else cseq (assertSafeIdentifier target ''Log target'')
             (run_pair os (powerShell ''Get-EventLog -LogName $args[0] -Newest 100 | ConvertTo-Json -Compress'' [target]) None t policy))
        else if isFileTarget then run_pair os (''tail'', [''-n'', ''100'', target]) None t policy
        else cseq (assertSafeIdentifier target ''Systemd unit'')
          (run_pair os (''journalctl'', [''-u'', target, ''-n'', ''100'', ''--no-pager'']) None t policy))"

definition restartService :: "agent_os \<Rightarrow> AgentPolicy \<Rightarrow> string \<Rightarrow> int option \<Rightarrow> ExecResult ex" where
  "restartService os policy service t =
     (if service = [] \<or> \<not> isServiceAllowed policy service then
        exec_fail ''POLICY_DENIED'' ''Service is not allowed by local policy''
      else cseq (assertSafeIdentifier service ''Service name'')
        (run_pair os (if win32 os then powerShell ''Restart-Service -Name $args[0]'' [service]
                      else (''systemctl'', [''restart'', service])) None t policy))"

text \<open>\<open>String(Math.min(lines, 500))\<close>, where \<open>NaN\<close> prints as itself.\<close>

definition line_count :: "int option \<Rightarrow> string" where
  "line_count lines = (case lines of None \<Rightarrow> ''NaN'' | Some n \<Rightarrow> show_int (min n 500))"

definition dockerLogs :: "agent_os \<Rightarrow> AgentPolicy \<Rightarrow> string \<Rightarrow> int option \<Rightarrow> int option \<Rightarrow> ExecResult ex" where
  "dockerLogs os policy container lines t =
     (if container = [] \<or> \<not> isContainerAllowed policy container then
        exec_fail ''POLICY_DENIED'' ''Container is not allowed by local policy''
      else cseq (assertSafeIdentifier container ''Container name'')
        (run_pair os (''docker'', [''logs'', ''--tail'', line_count lines, container]) None t policy))"

definition dockerRestart :: "agent_os \<Rightarrow> AgentPolicy \<Rightarrow> string \<Rightarrow> int option \<Rightarrow> ExecResult ex" where
  "dockerRestart os policy container t =
     (if container = [] \<or> \<not> isContainerAllowed policy container then
        exec_fail ''POLICY_DENIED'' ''Container is not allowed by local policy''
      else cseq (assertSafeIdentifier container ''Container name'')
        (run_pair os (''docker'', [''restart'', container]) None t policy))"

definition fileRead :: "agent_os \<Rightarrow> AgentPolicy \<Rightarrow> string \<Rightarrow> ExecResult ex" where
  "fileRead os policy filePath =
     (if \<not> isPathAllowed policy filePath then exec_fail ''POLICY_DENIED'' ''Path is not allowed by local policy''
      else cbind (readFileBounded os filePath (maxOutputBytes policy)) (\<lambda>(value, truncated).
        creturn \<lparr>ex_exitCode = 0, ex_stdout = utf8 os value, ex_stderr = '''', ex_truncated = truncated\<rparr>))"

definition fileWrite :: "agent_os \<Rightarrow> AgentPolicy \<Rightarrow> string \<Rightarrow> string \<Rightarrow> ExecResult ex" where
  "fileWrite os policy filePath content =
     (if \<not> isPathAllowed policy filePath then exec_fail ''POLICY_DENIED'' ''Path is not allowed by local policy''
      else cseq (os_do (WriteFile filePath content) (os_write os filePath content))
        (creturn \<lparr>ex_exitCode = 0, ex_stdout = ''written'', ex_stderr = '''', ex_truncated = False\<rparr>))"

definition runShell :: "agent_os \<Rightarrow> AgentPolicy \<Rightarrow> string \<Rightarrow> string option \<Rightarrow> int option \<Rightarrow> ExecResult ex" where
  "runShell os policy command cwd t =
     cseq (case cwd of Some d \<Rightarrow> if d = [] then creturn () else os_do (Access d) (os_access os d) | None \<Rightarrow> creturn ())
       (run_pair os (platformShell os command) cwd t policy)"

definition runShellAsRoot :: "agent_os \<Rightarrow> AgentPolicy \<Rightarrow> string \<Rightarrow> string option \<Rightarrow> int option \<Rightarrow> ExecResult ex" where
  "runShellAsRoot os policy command cwd t =
     (if win32 os then
        exec_fail ''UNSUPPORTED_PLATFORM_OR_PRIVILEGE'' ''Root execution requires an elevated Windows agent service''
      else if getuid os \<noteq> None \<and> getuid os \<noteq> Some 0 then
        run_pair os (platformShell os (''sudo -n /bin/sh -lc '' @ posixSingleQuote command)) cwd t policy
      else runShell os policy command cwd t)"

section \<open>Actions\<close>

text \<open>\<open>String(v)\<close>.\<close>

function js_string :: "json \<Rightarrow> string" where
  "js_string JUndefined = ''undefined''"
| "js_string JNull = ''null''"
| "js_string (JBool b) = (if b then ''true'' else ''false'')"
| "js_string (JNum n) = show_int n"
| "js_string (JStr s) = s"
| "js_string (JArr vs) = join '','' (map (\<lambda>v. if v = JUndefined \<or> v = JNull then '''' else js_string v) vs)"
| "js_string (JObj es) = ''[object Object]''"
  by pat_completeness auto
termination
  by (relation "measure size") (auto simp: item_size)

definition string_or :: "json \<Rightarrow> string" where
  "string_or v = (if v = JUndefined \<or> v = JNull then '''' else js_string v)"

definition json_truthy :: "json \<Rightarrow> bool" where
  "json_truthy v = (case v of JUndefined \<Rightarrow> False | JNull \<Rightarrow> False | JBool b \<Rightarrow> b | JNum n \<Rightarrow> n \<noteq> 0
     | JStr s \<Rightarrow> s \<noteq> [] | JArr _ \<Rightarrow> True | JObj _ \<Rightarrow> True)"

definition action_seconds :: "AgentPolicy \<Rightarrow> (string \<times> json) list \<Rightarrow> int option" where
  "action_seconds policy args =
     map_option (\<lambda>n. min n (maxActionTimeoutSeconds policy))
       (number_or (jprop args ''timeout_seconds'') (maxActionTimeoutSeconds policy))"

definition executeAllowed :: "agent_os \<Rightarrow> AgentPolicy \<Rightarrow> ActionRequestEnvelope \<Rightarrow> ExecResult ex" where
  "executeAllowed os policy action =
     (if \<not> capabilities policy (rq_capability action) then
        exec_fail ''CAPABILITY_DENIED'' (''Capability '' @ capability_name (rq_capability action) @ '' is not enabled'')
      else
        let args = rq_args action; t = action_seconds policy args; str = (\<lambda>k. string_or (jprop args k));
            cwd = (if json_truthy (jprop args ''cwd'') then Some (js_string (jprop args ''cwd'')) else None) in
        case rq_tool action of
          GetSystemStatus \<Rightarrow> getSystemStatus os policy t
        | TailLogs \<Rightarrow> tailLogs os policy (str ''unit_or_file'') t
        | RestartService \<Rightarrow> restartService os policy (str ''service'') t
        | DockerPs \<Rightarrow> runCommand os ''docker'' [''ps'', ''--format'', ''json''] None t (maxOutputBytes policy)
        | DockerLogs \<Rightarrow> dockerLogs os policy (str ''container'') (number_or (jprop args ''lines'') 100) t
        | DockerRestart \<Rightarrow> dockerRestart os policy (str ''container'') t
        | FileRead \<Rightarrow> fileRead os policy (str ''path'')
        | FileWrite \<Rightarrow> fileWrite os policy (str ''path'') (str ''content'')
        | RunShell \<Rightarrow> runShell os policy (str ''command'') cwd t
        | RunShellAsRoot \<Rightarrow> runShellAsRoot os policy (str ''command'') cwd t
        | _ \<Rightarrow> exec_fail ''UNSUPPORTED_PLATFORM'' (''Unsupported action '' @ tool_name (rq_tool action)))"

definition signResult :: "node_crypto \<Rightarrow> string \<Rightarrow> envelope \<Rightarrow> envelope" where
  "signResult cr privateKey fs = fs @ [(''signature'', JStr (signEnvelope cr fs privateKey))]"

text \<open>The result of an action, from the outcome of \<open>executeAllowed\<close>: the fields of the envelope. The
  code of a thrown error is passed on whatever it is.\<close>

definition result_of :: "ActionRequestEnvelope \<Rightarrow> string \<Rightarrow> string \<Rightarrow> string \<Rightarrow> exec_error + ExecResult \<Rightarrow> envelope" where
  "result_of action nonce startedAt finishedAt r =
     [(''type'', JStr ''action.result''), (''action_id'', JStr (rq_action_id action)),
      (''agent_id'', JStr (rq_agent_id action)), (''nonce'', JStr nonce)] @
     (case r of
        Inr x \<Rightarrow> [(''status'', JStr ''ok''), (''exit_code'', JNum (ex_exitCode x)), (''stdout'', JStr (ex_stdout x)),
          (''stderr'', JStr (ex_stderr x)), (''started_at'', JStr startedAt), (''finished_at'', JStr finishedAt),
          (''truncated'', JBool (ex_truncated x))]
      | Inl e \<Rightarrow> [(''status'', JStr ''error''), (''started_at'', JStr startedAt), (''finished_at'', JStr finishedAt),
          (''truncated'', JBool False), (''error_code'', JStr (or_else (xe_code e) ''INTERNAL_ERROR'')),
          (''message'', JStr (xe_message e))])"

definition execute ::
  "agent_os \<Rightarrow> node_crypto \<Rightarrow> AgentPolicy \<Rightarrow> string \<Rightarrow> string \<Rightarrow> string \<Rightarrow> string \<Rightarrow> ActionRequestEnvelope \<Rightarrow>
     os_call list \<Rightarrow> os_call list \<times> envelope" where
  "execute os cr policy privateKey nonce startedAt finishedAt action calls =
     (let (calls', r) = executeAllowed os policy action calls in
      (calls', signResult cr privateKey (result_of action nonce startedAt finishedAt r)))"

section \<open>The local policy\<close>

text \<open>What a call may be, by tool.\<close>

definition call_allowed :: "AgentPolicy \<Rightarrow> RemoteToolName \<Rightarrow> os_call \<Rightarrow> bool" where
  "call_allowed policy tool call = (case call of
      ReadFile p n \<Rightarrow> tool = FileRead \<and> isPathAllowed policy p \<and> int n \<le> max 0 (maxOutputBytes policy) + 1
    | WriteFile p c \<Rightarrow> tool = FileWrite \<and> isPathAllowed policy p
    | Access d \<Rightarrow> tool = RunShell \<or> tool = RunShellAsRoot
    | Spawn prog args cwd t \<Rightarrow> (\<forall>n. t = Some n \<longrightarrow> n \<le> maxActionTimeoutSeconds policy) \<and>
        (tool = RestartService \<longrightarrow> isServiceAllowed policy (last args) \<and> safe_identifier (last args)) \<and>
        (tool \<in> {DockerLogs, DockerRestart} \<longrightarrow> isContainerAllowed policy (last args) \<and> safe_identifier (last args)) \<and>
        (tool = TailLogs \<longrightarrow> (\<exists>target \<in> set args. if isLogFileTarget target then isPathAllowed policy target else safe_identifier target)) \<and>
        tool \<notin> {FileRead, FileWrite})"

definition trace_ok :: "AgentPolicy \<Rightarrow> RemoteToolName \<Rightarrow> os_call list \<Rightarrow> bool" where
  "trace_ok policy tool calls = list_all (call_allowed policy tool) calls"

lemma triple_os_do:
  "(\<And>calls. P calls \<Longrightarrow> Q (calls @ [call])) \<Longrightarrow> triple P (os_do call answer) (\<lambda>_. Q) Q"
  by (auto simp: triple_def os_do_def split: sum.splits)

lemma keeps_exec_fail [triples]: "keeps P (exec_fail c m)"
  unfolding exec_fail_def by (intro triples)

lemma keeps_os_do: "call_allowed policy tool call \<Longrightarrow> keeps (trace_ok policy tool) (os_do call answer)"
  by (rule triple_os_do) (simp add: trace_ok_def)

lemma run_pair_ok:
  "call_allowed policy tool (Spawn (fst sh) (snd sh) cwd t) \<Longrightarrow> keeps (trace_ok policy tool) (run_pair os sh cwd t policy)"
  unfolding run_pair_def runCommand_def by (rule keeps_os_do)

lemma after_identifier:
  "(safe_identifier v \<Longrightarrow> keeps P m) \<Longrightarrow> keeps P (cseq (assertSafeIdentifier v l) m)"
  unfolding assertSafeIdentifier_def by (auto intro!: triples simp: exec_fail_def cseq_def triple_def cbind_run)

definition seconds_ok :: "AgentPolicy \<Rightarrow> int option \<Rightarrow> bool" where
  "seconds_ok policy t \<longleftrightarrow> (\<forall>n. t = Some n \<longrightarrow> n \<le> maxActionTimeoutSeconds policy)"

lemma action_seconds_ok: "seconds_ok policy (action_seconds policy args)"
  by (auto simp: seconds_ok_def action_seconds_def)

lemma command_calls:
  assumes t: "seconds_ok policy t"
  shows "keeps (trace_ok policy GetSystemStatus) (getSystemStatus os policy t)"
    and "keeps (trace_ok policy TailLogs) (tailLogs os policy target t)"
    and "keeps (trace_ok policy RestartService) (restartService os policy service t)"
    and "keeps (trace_ok policy DockerPs) (runCommand os ''docker'' [''ps'', ''--format'', ''json''] None t m)"
    and "keeps (trace_ok policy DockerLogs) (dockerLogs os policy container lines t)"
    and "keeps (trace_ok policy DockerRestart) (dockerRestart os policy container t)"
    and "tool \<in> {RunShell, RunShellAsRoot} \<Longrightarrow> keeps (trace_ok policy tool) (runShell os policy command cwd t)"
    and "keeps (trace_ok policy RunShellAsRoot) (runShellAsRoot os policy command cwd t)"
proof -
  have s: "\<forall>n. t = Some n \<longrightarrow> n \<le> maxActionTimeoutSeconds policy" using t by (simp add: seconds_ok_def)
  show "keeps (trace_ok policy GetSystemStatus) (getSystemStatus os policy t)"
    unfolding getSystemStatus_def by (rule run_pair_ok) (simp add: call_allowed_def s)
  show "keeps (trace_ok policy TailLogs) (tailLogs os policy target t)"
    unfolding tailLogs_def Let_def
    by (intro triple_if keeps_exec_fail run_pair_ok after_identifier) (auto simp: call_allowed_def s powerShell_def)
  show "keeps (trace_ok policy RestartService) (restartService os policy service t)"
    unfolding restartService_def
    by (intro triple_if keeps_exec_fail run_pair_ok after_identifier) (auto simp: call_allowed_def s powerShell_def)
  show "keeps (trace_ok policy DockerPs) (runCommand os ''docker'' [''ps'', ''--format'', ''json''] None t m)"
    unfolding runCommand_def by (rule keeps_os_do) (simp add: call_allowed_def s)
  show "keeps (trace_ok policy DockerLogs) (dockerLogs os policy container lines t)"
    unfolding dockerLogs_def
    by (intro triple_if keeps_exec_fail run_pair_ok after_identifier) (auto simp: call_allowed_def s)
  show "keeps (trace_ok policy DockerRestart) (dockerRestart os policy container t)"
    unfolding dockerRestart_def
    by (intro triple_if keeps_exec_fail run_pair_ok after_identifier) (auto simp: call_allowed_def s)
  show shell: "keeps (trace_ok policy tool) (runShell os policy command cwd t)" if "tool \<in> {RunShell, RunShellAsRoot}" for tool
    unfolding runShell_def using that
    by (intro triples run_pair_ok keeps_os_do) (auto simp: call_allowed_def s)
  show "keeps (trace_ok policy RunShellAsRoot) (runShellAsRoot os policy command cwd t)"
    unfolding runShellAsRoot_def
    by (intro triple_if keeps_exec_fail run_pair_ok shell) (auto simp: call_allowed_def s)
qed

lemma file_calls:
  "keeps (trace_ok policy FileRead) (fileRead os policy p)" "keeps (trace_ok policy FileWrite) (fileWrite os policy p c)"
  unfolding fileRead_def fileWrite_def readFileBounded_def Let_def
  by (intro triples keeps_os_do; auto simp: call_allowed_def)+

lemma executeAllowed_calls: "keeps (trace_ok policy (rq_tool action)) (executeAllowed os policy action)"
  unfolding executeAllowed_def Let_def
  by (cases "rq_tool action")
    (auto intro!: triples command_calls file_calls action_seconds_ok)


section \<open>Root commands\<close>

lemma sh_word_backslash_quoted:
  "sh_word_in SQuote (replace_all (CHR 0x27) [CHR 0x27, CHR 0x5C, CHR 0x27, CHR 0x27] v @ CHR 0x27 # s) =
     map_option (\<lambda>(w, t). (v @ w, t)) (sh_word_in Plain s)"
proof (induction v)
  case Nil
  then show ?case by (simp add: option.map_ident)
next
  case (Cons c v)
  then show ?case
    by (cases "c = CHR 0x27") (auto simp: word_cons_def option.map_comp comp_def case_prod_beta)
qed

interpretation single: quoting posixSingleQuote sh_word
proof
  show "sh_word (posixSingleQuote v @ s) = Some (v, s)" if "at_break s" for v s
    using that by (simp add: sh_word_def posixSingleQuote_def sh_word_backslash_quoted sh_word_break)
  show "sh_word (w @ s) = Some (w, s)" if "list_all inert w" "w \<noteq> []" "at_break s" for w s
    using that by (rule sh.word_bare)
  show "\<exists>c t. posixSingleQuote v = c # t \<and> \<not> sh_meta c" for v
    by (simp add: posixSingleQuote_def sh_meta_def)
qed

lemma sudo_line:
  "lex_command sh_word (''sudo -n /bin/sh -lc '' @ posixSingleQuote command) = Some ([''sudo'', ''-n'', ''/bin/sh'', ''-lc'', command], [])"
proof -
  let ?args = "[Bare ''sudo'', Bare ''-n'', Bare ''/bin/sh'', Bare ''-lc'', Quoted command]"
  have "list_all bare_ok ?args" by (simp add: bare_ok_def inert_def sh_meta_def sh_active_def)
  from single.lex_command_render [OF this] show ?thesis by (simp add: single.render_arg_def arg_value_def)
qed

text \<open>
  A root command is passed to \<open>sudo\<close> as one argument. On a POSIX host where the agent is not root,
  \<open>run_shell_as_root\<close> starts \<open>/bin/sh -lc\<close> with a line that the shell reads as \<open>sudo -n /bin/sh -lc\<close> with
  exactly the given command as its last argument, whatever characters it contains.
\<close>

theorem root_command_quoting:
  assumes "capabilities policy (rq_capability action)" and "rq_tool action = RunShellAsRoot" and "\<not> win32 os"
    and "getuid os = Some u" and "u \<noteq> 0" and "string_or (jprop (rq_args action) ''command'') = command"
  shows "\<exists>line cwd t. fst (executeAllowed os policy action []) = [Spawn ''/bin/sh'' [''-lc'', line] cwd t] \<and>
    lex_command sh_word line = Some ([''sudo'', ''-n'', ''/bin/sh'', ''-lc'', command], [])"
  using assms sudo_line [of command]
  by (auto simp: executeAllowed_def Let_def runShellAsRoot_def run_pair_def runCommand_def platformShell_def os_do_def)

definition sample_os_env :: agent_os where
  "sample_os_env = \<lparr>win32 = False, getuid = Some 1000, utf8 = id,
     os_spawn = (\<lambda>p args cwd. Exited [''ok''] [] (Some 0) False),
     os_read = (\<lambda>p n. Inl \<lparr>xe_code = Some ''ENOENT'', xe_message = ''no such file''\<rparr>), os_write = (\<lambda>p c. Inr ()), os_access = (\<lambda>p. Inr ())\<rparr>"

definition sample_root_request :: ActionRequestEnvelope where
  "sample_root_request = sample_request\<lparr>rq_tool := RunShellAsRoot, rq_capability := SudoExec,
     rq_args := [(''command'', JStr ''id; whoami'')]\<rparr>"

theorem root_command_quoting_witness:
  "\<exists>line cwd t. fst (executeAllowed sample_os_env (createAgentPolicy FullAdmin) sample_root_request []) = [Spawn ''/bin/sh'' [''-lc'', line] cwd t] \<and>
    lex_command sh_word line = Some ([''sudo'', ''-n'', ''/bin/sh'', ''-lc'', ''id; whoami''], [])"
  by (rule root_command_quoting [where u = 1000])
    (simp_all add: sample_root_request_def sample_os_env_def createAgentPolicy_def profile_capabilities_def allCapabilities_def
      REMOTE_CAPABILITIES_def string_or_def jprop_def)

section \<open>Results on the wire\<close>

definition known_code :: "string \<Rightarrow> bool" where
  "known_code c \<longleftrightarrow> c \<in> error_code_name ` set REMOTE_ERROR_CODES"

lemma z_enum_None: "z_enum f xs (JStr c) = None \<longleftrightarrow> c \<notin> f ` set xs"
  by (auto simp: z_enum_def find_None_iff)

definition outcome_code :: "exec_error + ExecResult \<Rightarrow> string option" where
  "outcome_code r = (case r of Inl e \<Rightarrow> Some (or_else (xe_code e) ''INTERNAL_ERROR'') | Inr _ \<Rightarrow> None)"

definition sendable :: "(string \<Rightarrow> bool) \<Rightarrow> ActionRequestEnvelope \<Rightarrow> string \<Rightarrow> string \<Rightarrow> string \<Rightarrow> bool" where
  "sendable dt action nonce startedAt finishedAt \<longleftrightarrow> rq_action_id action \<noteq> [] \<and> rq_agent_id action \<noteq> [] \<and> 16 \<le> length nonce \<and>
     dt startedAt \<and> dt finishedAt"

lemma result_parse:
  assumes "sendable dt action nonce startedAt finishedAt" and "\<And>v. node_sign cr key v \<noteq> []"
  shows "parseActionResultEnvelope dt (JObj (signResult cr key (result_of action nonce startedAt finishedAt r))) = None \<longleftrightarrow>
    (\<exists>c. outcome_code r = Some c \<and> \<not> known_code c)"
proof -
  have l: "1 \<le> length s \<longleftrightarrow> s \<noteq> []" for s :: string by (cases s) auto
  have sg: "signEnvelope cr fs key \<noteq> []" for fs using assms(2) by (simp add: signEnvelope_def)
  show ?thesis
  proof (cases r)
    case (Inr x)
    then show ?thesis
      using assms(1) sg l
      by (simp add: parseActionResultEnvelope_def signResult_def result_of_def outcome_code_def sendable_def z_strict_def
          jprop_def z_string_def z_datetime_def z_optional_def z_int_def z_bool_def z_enum_def asString_def del: One_nat_def)
  next
    case (Inl e)
    then show ?thesis
      using assms(1) sg l z_enum_None [of error_code_name REMOTE_ERROR_CODES "or_else (xe_code e) ''INTERNAL_ERROR''"]
      by (cases "z_enum error_code_name REMOTE_ERROR_CODES (JStr (or_else (xe_code e) ''INTERNAL_ERROR''))")
        (simp_all add: parseActionResultEnvelope_def signResult_def result_of_def outcome_code_def sendable_def z_strict_def
          jprop_def z_string_def z_datetime_def z_optional_def z_bool_def z_enum_def [of "\<lambda>b. if b then ''ok'' else ''error''"]
          asString_def known_code_def del: One_nat_def)
  qed
qed

text \<open>
  The control plane reads a result exactly when its error code is one of the protocol's. A result
  of a finished command, or of an error with a known code, is parsed; an error with any other code
  (such as \<open>ENOENT\<close> of a missing file, which the agent passes on) is rejected by the schema, and the
  control plane answers it by closing the agent's connection, while the action stays pending.
\<close>

theorem result_readable_iff_known_code:
  assumes "sendable (zod_datetime env) action nonce startedAt finishedAt" and "\<forall>v. node_sign cr key v \<noteq> []"
  shows "(let fs = signResult cr key (result_of action nonce startedAt finishedAt r) in
    if \<exists>c. outcome_code r = Some c \<and> \<not> known_code c
    then on_text env now conn (Some (JObj fs)) s = refuse env now conn INTERNAL_ERROR ''Agent message failed'' s
    else \<exists>res. parseActionResultEnvelope (zod_datetime env) (JObj fs) = Some res \<and>
      on_text env now conn (Some (JObj fs)) s = ccatch (handleActionResult env now conn res) (on_message_failure env now conn) s)"
proof -
  let ?fs = "signResult cr key (result_of action nonce startedAt finishedAt r)"
  have ty: "jprop ?fs ''type'' = JStr ''action.result''"
    by (simp add: signResult_def result_of_def jprop_def)
  have parse: "parseActionResultEnvelope (zod_datetime env) (JObj ?fs) = None \<longleftrightarrow> (\<exists>c. outcome_code r = Some c \<and> \<not> known_code c)"
    using assms by (intro result_parse) auto
  show ?thesis
  proof (cases "parseActionResultEnvelope (zod_datetime env) (JObj ?fs)")
    case None
    then have "handleAgentMessage env now conn (Some (JObj ?fs)) s = (s, Inl (RuntimeError ''ZodError''))"
      by (simp add: handleAgentMessage_def ty cbind_run)
    then show ?thesis using None parse by (simp add: on_text_def ccatch_def on_message_failure_def)
  next
    case (Some res)
    then have "handleAgentMessage env now conn (Some (JObj ?fs)) s = handleActionResult env now conn res s"
      by (simp add: handleAgentMessage_def ty cbind_run)
    then show ?thesis using Some parse by (auto simp: on_text_def ccatch_def Let_def)
  qed
qed

definition sample_wire_env :: cp_env where
  "sample_wire_env = \<lparr>crypto = sample_crypto, zod_datetime = (\<lambda>s. endsWith s ''Z''), url_parse = (\<lambda>u. None), ed25519_key = (\<lambda>k. True),
     jwt_sign = cl_jti, jwt_verify = (\<lambda>t iss aud now. None), rand_id = show_nat, rand_token = show_nat\<rparr>"

definition sample_read_request :: ActionRequestEnvelope where
  "sample_read_request = sample_request\<lparr>rq_tool := FileRead, rq_capability := FilesRead, rq_args := [(''path'', JStr ''/tmp/missing'')]\<rparr>"

definition sample_read_policy :: AgentPolicy where
  "sample_read_policy = (createAgentPolicy FullAdmin)\<lparr>allowPaths := [''/tmp'']\<rparr>"

lemma sample_read_fails:
  "outcome_code (snd (executeAllowed sample_os_env sample_read_policy sample_read_request [])) = Some ''ENOENT''"
proof -
  have "isPathAllowed ((createAgentPolicy FullAdmin)\<lparr>allowPaths := [''/tmp'']\<rparr>) ''/tmp/missing''" by code_simp
  moreover have "capabilities (createAgentPolicy FullAdmin) FilesRead" by code_simp
  ultimately show ?thesis
    by (simp add: executeAllowed_def sample_read_policy_def sample_read_request_def fileRead_def readFileBounded_def os_do_def
        sample_os_env_def outcome_code_def string_or_def jprop_def cbind_run Let_def)
qed

theorem result_readable_iff_known_code_witness:
  "on_text sample_wire_env 0 1 (Some (JObj (signResult sample_crypto ''key'' (result_of sample_read_request ''0123456789abcdef''
      ''1Z'' ''2Z'' (snd (executeAllowed sample_os_env sample_read_policy sample_read_request [])))))) new_control_plane =
   refuse sample_wire_env 0 1 INTERNAL_ERROR ''Agent message failed'' new_control_plane"
proof -
  have k: "\<not> known_code ''ENOENT''" by (simp add: known_code_def REMOTE_ERROR_CODES_def)
  have "sendable (zod_datetime sample_wire_env) sample_read_request ''0123456789abcdef'' ''1Z'' ''2Z''"
    by (simp add: sendable_def sample_wire_env_def sample_read_request_def sample_request_def endsWith_def suffix_def)
  from result_readable_iff_known_code [OF this, of sample_crypto "''key''"
      "snd (executeAllowed sample_os_env sample_read_policy sample_read_request [])" 0 1 new_control_plane]
  show ?thesis using k sample_read_fails by (simp add: sample_crypto_def Let_def)
qed

end
