(* ===== verification/AgentCli.thy ===== *)
theory AgentCli
  imports AgentExecutor
begin

text \<open>
  The program that runs on a managed host (\<open>src/remote/agent-cli.ts\<close>): enrollment with a one-time
  token, the hello of a new connection, and the handling of each message: policy updates and action
  requests, the memory of actions already run, and the answer. The key pair, the host's data, the
  HTTP answer of the server, the schema library's date test and the operating system are parameters.
\<close>

section \<open>Configuration and enrollment\<close>

record AgentConfigFile =
  af_server :: string
  af_agentId :: string
  af_alias :: string
  af_publicKeyPem :: string
  af_privateKeyPem :: string
  af_controlPlanePublicKeyPem :: string
  af_policy :: AgentPolicy
  af_websocketUrl :: string
  af_enrolledAt :: string

datatype cli_error = CliError string | HttpFailure int json

record http_answer =
  ha_ok :: bool
  ha_status :: int
  ha_data :: json

record agent_host =
  ah_hostname :: string
  ah_metadata :: AgentHostMetadata
  ah_version :: "string option"
  ah_public :: string
  ah_private :: string
  ah_fetch :: "string \<Rightarrow> json \<Rightarrow> cli_error + http_answer"

definition parseFlag :: "string list \<Rightarrow> string \<Rightarrow> string option" where
  "parseFlag argv name =
     (case dropWhile (\<lambda>a. a \<noteq> name) argv of _ # v # _ \<Rightarrow> Some v | _ \<Rightarrow> None)"

text \<open>\<open>replace(/\/+$/u, "")\<close>.\<close>

definition strip_slashes :: "string \<Rightarrow> string" where
  "strip_slashes s = rev (dropWhile (\<lambda>c. c = CHR ''/'') (rev s))"

definition postJson :: "agent_host \<Rightarrow> string \<Rightarrow> json \<Rightarrow> cli_error + (string \<times> json) list" where
  "postJson h url payload =
     (case ah_fetch h url payload of
        Inl e \<Rightarrow> Inl e
      | Inr a \<Rightarrow>
          if \<not> ha_ok a then Inl (HttpFailure (ha_status a) (ha_data a))
          else case ha_data a of JObj es \<Rightarrow> Inr es | _ \<Rightarrow> Inl (CliError ''Expected JSON object response''))"

definition requireString :: "json \<Rightarrow> string \<Rightarrow> cli_error + string" where
  "requireString v name =
     (case v of JStr s \<Rightarrow> if s = [] then Inl (CliError (name @ '' is required'')) else Inr s
      | _ \<Rightarrow> Inl (CliError (name @ '' is required'')))"

definition requirePolicy :: "json \<Rightarrow> cli_error + AgentPolicy" where
  "requirePolicy v =
     (case parseAgentPolicy v of
        Some p \<Rightarrow> Inr p
      | None \<Rightarrow> Inl (CliError ''Agent policy is missing from enrollment response''))"

definition enroll_payload :: "agent_host \<Rightarrow> string \<Rightarrow> string \<Rightarrow> (string \<times> json) list" where
  "enroll_payload h token alias =
     [(''token'', JStr token), (''public_key'', JStr (ah_public h)), (''alias'', JStr alias),
      (''agent_version'', JStr (or_else (ah_version h) ''unknown'')), (''host'', host_json (ah_metadata h))]"

text \<open>The configuration that is saved, or the error that is thrown before anything is saved.\<close>

definition enroll :: "agent_host \<Rightarrow> string \<Rightarrow> string list \<Rightarrow> cli_error + AgentConfigFile" where
  "enroll h enrolledAt argv =
     (let server = strip_slashes (or_else (parseFlag argv ''--server'') '''');
          token = or_else (parseFlag argv ''--token'') '''';
          alias = or_else (parseFlag argv ''--alias'') (ah_hostname h) in
      if server = [] \<or> token = [] then
        Inl (CliError ''Usage: mcp-ssh-agent enroll --server <url> --token <token> --alias <alias>'')
      else rbind (postJson h (server @ ''/api/agents/enroll'') (JObj (enroll_payload h token alias))) (\<lambda>response.
        rbind (requireString (jprop response ''agent_id'') ''agent_id'') (\<lambda>agentId.
        rbind (requireString (jprop response ''alias'') ''alias'') (\<lambda>alias'.
        rbind (requireString (jprop response ''control_plane_public_key'') ''control_plane_public_key'') (\<lambda>key.
        rbind (requirePolicy (jprop response ''policy'')) (\<lambda>policy.
        rbind (requireString (jprop response ''websocket_url'') ''websocket_url'') (\<lambda>url.
          Inr \<lparr>af_server = server, af_agentId = agentId, af_alias = alias', af_publicKeyPem = ah_public h,
               af_privateKeyPem = ah_private h, af_controlPlanePublicKeyPem = key, af_policy = policy,
               af_websocketUrl = url, af_enrolledAt = enrolledAt\<rparr>)))))))"

section \<open>Connection\<close>

text \<open>The hello sent when the web socket opens.\<close>

definition hello_message :: "node_crypto \<Rightarrow> agent_host \<Rightarrow> AgentConfigFile \<Rightarrow> string \<Rightarrow> string \<Rightarrow> AgentHelloEnvelope" where
  "hello_message cr h config timestamp nonce =
     (let hello = \<lparr>he_agent_id = af_agentId config, he_timestamp = timestamp, he_nonce = nonce,
            he_capabilities = filter (capabilities (af_policy config)) REMOTE_CAPABILITIES,
            he_agent_version = or_else (ah_version h) ''unknown'', he_host = ah_metadata h, he_signature = ''''\<rparr>
      in hello\<lparr>he_signature := signEnvelope cr (hello_fields hello) (af_privateKeyPem config)\<rparr>)"

section \<open>Messages\<close>

record agent_run =
  ar_config :: AgentConfigFile
  ar_saved :: "AgentConfigFile list"
  ar_policy :: AgentPolicy
  seenActions :: "(string, int) jmap"
  ar_calls :: "os_call list"
  ar_ran :: "ActionRequestEnvelope list"
  ar_sent :: "envelope list"
  ar_failures :: nat

text \<open>\<open>ar_policy\<close> is the executor's policy; \<open>ar_ran\<close> records the actions handed to the executor and
  \<open>ar_failures\<close> counts the messages whose handling threw (the handler prints them and goes on).\<close>

definition start_agent :: "AgentConfigFile \<Rightarrow> agent_run" where
  "start_agent config = \<lparr>ar_config = config, ar_saved = [], ar_policy = af_policy config, seenActions = [],
     ar_calls = [], ar_ran = [], ar_sent = [], ar_failures = 0\<rparr>"

definition MAX_SEEN_ACTIONS :: nat where
  "MAX_SEEN_ACTIONS = 10000"

function evict_seen :: "nat \<Rightarrow> (string, int) jmap \<Rightarrow> (string, int) jmap" where
  "evict_seen m seen =
     (if m < length seen \<and> fst (hd seen) \<noteq> [] then evict_seen m (jm_delete (fst (hd seen)) seen) else seen)"
  by pat_completeness auto
termination
proof (relation "measure (\<lambda>(m, ns). length ns)", simp)
  fix m and ns :: "(string, int) jmap"
  assume "m < length ns \<and> fst (hd ns) \<noteq> []"
  then show "((m, jm_delete (fst (hd ns)) ns), m, ns) \<in> measure (\<lambda>(m, ns). length ns)"
    by (cases ns) (auto simp: jm_delete_def less_Suc_eq_le)
qed

declare evict_seen.simps [simp del]

definition rememberAction :: "int \<Rightarrow> string \<Rightarrow> int \<Rightarrow> (string, int) jmap \<Rightarrow> (string, int) jmap \<times> bool" where
  "rememberAction now actionId deadline seen =
     (let live = filter (\<lambda>e. \<not> snd e \<le> now) seen in
      if jm_has live actionId then (live, False)
      else (evict_seen MAX_SEEN_ACTIONS (jm_set actionId deadline live), True))"

record agent_env =
  ae_crypto :: node_crypto
  ae_datetime :: "string \<Rightarrow> bool"
  ae_os :: agent_os

text \<open>The moment a message arrives, what arrived (\<open>None\<close> when it is not JSON), and the nonce and the
  times of the result.\<close>

record agent_event =
  ev_now :: int
  ev_payload :: "json option"
  ev_nonce :: string
  ev_started :: string
  ev_finished :: string

definition version_accepted :: "int \<Rightarrow> AgentPolicy \<Rightarrow> bool" where
  "version_accepted v policy = (v = policy_ver policy \<or> v = policy_ver policy + 1)"

definition on_policy_update :: "agent_env \<Rightarrow> json \<Rightarrow> agent_run \<Rightarrow> agent_run" where
  "on_policy_update env message st =
     (case parsePolicyUpdateEnvelope (ae_datetime env) message of
        None \<Rightarrow> st\<lparr>ar_failures := ar_failures st + 1\<rparr>
      | Some update \<Rightarrow>
          if pu_agent_id update = af_agentId (ar_config st) \<and>
             verifyEnvelope (ae_crypto env) (update_fields update) (af_controlPlanePublicKeyPem (ar_config st)) then
            let config = (ar_config st)\<lparr>af_policy := pu_policy update\<rparr> in
            st\<lparr>ar_config := config, ar_policy := pu_policy update, ar_saved := ar_saved st @ [config]\<rparr>
          else st)"

definition run_action :: "agent_env \<Rightarrow> agent_event \<Rightarrow> ActionRequestEnvelope \<Rightarrow> agent_run \<Rightarrow> agent_run" where
  "run_action env e action st =
     (let (seen, _) = rememberAction (ev_now e) (rq_action_id action) (date_ms (rq_deadline action)) (seenActions st);
          (calls, result) = execute (ae_os env) (ae_crypto env) (ar_policy st) (af_privateKeyPem (ar_config st))
             (ev_nonce e) (ev_started e) (ev_finished e) action (ar_calls st) in
      st\<lparr>seenActions := seen, ar_calls := calls, ar_ran := ar_ran st @ [action], ar_sent := ar_sent st @ [result]\<rparr>)"

definition on_action_request :: "agent_env \<Rightarrow> agent_event \<Rightarrow> json \<Rightarrow> agent_run \<Rightarrow> agent_run" where
  "on_action_request env e message st =
     (case parseActionRequestEnvelope (ae_datetime env) message of
        None \<Rightarrow> st\<lparr>ar_failures := ar_failures st + 1\<rparr>
      | Some action \<Rightarrow>
          if rq_agent_id action \<noteq> af_agentId (ar_config st) \<or> jm_has (seenActions st) (rq_action_id action) then st
          else if date_ms (rq_deadline action) < ev_now e then st
          else if \<not> version_accepted (rq_policy_version action) (af_policy (ar_config st)) then st
          else if \<not> verifyEnvelope (ae_crypto env) (request_fields action) (af_controlPlanePublicKeyPem (ar_config st)) then st
          else run_action env e action st)"

definition on_message :: "agent_env \<Rightarrow> agent_event \<Rightarrow> agent_run \<Rightarrow> agent_run" where
  "on_message env e st =
     (case ev_payload e of
        None \<Rightarrow> st\<lparr>ar_failures := ar_failures st + 1\<rparr>
      | Some (JObj es) \<Rightarrow>
          if jprop es ''type'' = JStr ''policy.update'' then on_policy_update env (JObj es) st
          else if jprop es ''type'' = JStr ''action.request'' then on_action_request env e (JObj es) st
          else st
      | Some _ \<Rightarrow> st)"

inductive agent_step :: "agent_env \<Rightarrow> agent_run \<Rightarrow> agent_event \<Rightarrow> agent_run \<Rightarrow> bool" for env where
  message: "agent_step env st e (on_message env e st)"

inductive_cases agent_stepE [elim!]: "agent_step env st e st'"

section \<open>An action runs once\<close>

lemma evict_seen_small: "length seen \<le> m \<Longrightarrow> evict_seen m seen = seen"
  by (subst evict_seen.simps) simp

lemma rememberAction_small:
  "length seen < MAX_SEEN_ACTIONS \<Longrightarrow> \<not> jm_has seen i \<Longrightarrow> jm_wf seen \<Longrightarrow>
     rememberAction now i d seen = (jm_set i d (filter (\<lambda>e. \<not> snd e \<le> now) seen), True)"
proof -
  assume a: "length seen < MAX_SEEN_ACTIONS" "\<not> jm_has seen i" "jm_wf seen"
  let ?live = "filter (\<lambda>e. \<not> snd e \<le> now) seen"
  have "jm_get ?live i = None" using a(2,3) by (simp add: jm_get_filter jm_has_def)
  then have s: "\<not> jm_has ?live i" by (simp add: jm_has_def)
  have "length (jm_set i d ?live) \<le> MAX_SEEN_ACTIONS"
    using a(1) length_filter_le [of "\<lambda>e. \<not> snd e \<le> now" seen] jm_set_length_le [of i d ?live] by linarith
  then show ?thesis by (simp add: rememberAction_def s evict_seen_small)
qed

text \<open>The action request a message carries, if it is one the agent's configuration accepts as
  authentic.\<close>

definition signed_action :: "agent_env \<Rightarrow> string \<Rightarrow> agent_event \<Rightarrow> ActionRequestEnvelope option" where
  "signed_action env key e =
     (case ev_payload e of
        Some (JObj es) \<Rightarrow> (case parseActionRequestEnvelope (ae_datetime env) (JObj es) of
            Some a \<Rightarrow> if verifyEnvelope (ae_crypto env) (request_fields a) key then Some a else None
          | None \<Rightarrow> None)
      | _ \<Rightarrow> None)"

definition accepts :: "agent_env \<Rightarrow> agent_event \<Rightarrow> ActionRequestEnvelope \<Rightarrow> agent_run \<Rightarrow> bool" where
  "accepts env e a st \<longleftrightarrow> signed_action env (af_controlPlanePublicKeyPem (ar_config st)) e = Some a \<and>
     rq_agent_id a = af_agentId (ar_config st) \<and> \<not> jm_has (seenActions st) (rq_action_id a) \<and>
     \<not> date_ms (rq_deadline a) < ev_now e \<and> version_accepted (rq_policy_version a) (af_policy (ar_config st))"

lemma parse_request_type:
  "parseActionRequestEnvelope dt (JObj es) = Some a \<Longrightarrow> jprop es ''type'' = JStr ''action.request''"
  by (auto simp: parseActionRequestEnvelope_def split: if_splits)

lemma on_action_request_cases:
  obtains (ran) a where "accepts env e a st" and "on_message env e st = run_action env e a st"
  | (idle) "\<not> (\<exists>a. accepts env e a st)" and "ar_ran (on_message env e st) = ar_ran st" and "ar_sent (on_message env e st) = ar_sent st"
      and "ar_calls (on_message env e st) = ar_calls st" and "seenActions (on_message env e st) = seenActions st"
      and "af_controlPlanePublicKeyPem (ar_config (on_message env e st)) = af_controlPlanePublicKeyPem (ar_config st)"
      and "af_agentId (ar_config (on_message env e st)) = af_agentId (ar_config st)"
proof (cases "\<exists>a. accepts env e a st")
  case True
  then obtain a where a: "accepts env e a st" by blast
  then obtain es where es: "ev_payload e = Some (JObj es)" "parseActionRequestEnvelope (ae_datetime env) (JObj es) = Some a"
    "verifyEnvelope (ae_crypto env) (request_fields a) (af_controlPlanePublicKeyPem (ar_config st))"
    by (auto simp: accepts_def signed_action_def split: option.splits json.splits if_splits)
  then have "on_message env e st = run_action env e a st"
    using a parse_request_type [OF es(2)] by (simp add: on_message_def on_action_request_def accepts_def)
  with a show ?thesis by (rule ran)
next
  case False
  then show ?thesis
    by (intro idle)
      (auto simp: on_message_def on_policy_update_def on_action_request_def accepts_def signed_action_def Let_def
        split: option.splits json.splits if_splits)
qed

text \<open>What holds at time \<open>now\<close> after \<open>n\<close> messages: every action that ran is remembered or its deadline
  has come.\<close>

definition once_inv :: "(string \<Rightarrow> int) \<Rightarrow> int \<Rightarrow> nat \<Rightarrow> agent_run \<Rightarrow> bool" where
  "once_inv dl now n st \<longleftrightarrow> jm_wf (seenActions st) \<and> length (seenActions st) \<le> n \<and> distinct (map rq_action_id (ar_ran st)) \<and>
     (\<forall>a \<in> set (ar_ran st). jm_get (seenActions st) (rq_action_id a) = Some (dl (rq_action_id a)) \<or> dl (rq_action_id a) \<le> now)"

definition event_ok :: "agent_env \<Rightarrow> string \<Rightarrow> (string \<Rightarrow> int) \<Rightarrow> agent_event \<Rightarrow> bool" where
  "event_ok env key dl e \<longleftrightarrow> (\<forall>a. signed_action env key e = Some a \<longrightarrow>
     date_ms (rq_deadline a) = dl (rq_action_id a) \<and> ev_now e \<noteq> dl (rq_action_id a))"

lemma run_action_frame [simp]:
  "ar_ran (run_action env e a st) = ar_ran st @ [a]"
  "ar_config (run_action env e a st) = ar_config st"
  "seenActions (run_action env e a st) =
     fst (rememberAction (ev_now e) (rq_action_id a) (date_ms (rq_deadline a)) (seenActions st))"
  by (simp_all add: run_action_def split: prod.splits)

lemma once_step:
  assumes "once_inv dl now n st" and "n < MAX_SEEN_ACTIONS" and "now \<le> ev_now e"
    and "event_ok env (af_controlPlanePublicKeyPem (ar_config st)) dl e"
  shows "once_inv dl (ev_now e) (Suc n) (on_message env e st)"
proof (cases rule: on_action_request_cases [of env e st])
  case (ran a)
  let ?live = "filter (\<lambda>x. \<not> snd x \<le> ev_now e) (seenActions st)"
  have wf: "jm_wf (seenActions st)" "length (seenActions st) < MAX_SEEN_ACTIONS" using assms(1,2) by (simp_all add: once_inv_def)
  have d: "date_ms (rq_deadline a) = dl (rq_action_id a)" "ev_now e < dl (rq_action_id a)" "\<not> jm_has (seenActions st) (rq_action_id a)"
    using ran(1) assms(4) by (auto simp: accepts_def event_ok_def)
  have new: "a' \<in> set (ar_ran st) \<Longrightarrow> rq_action_id a' \<noteq> rq_action_id a" for a'
    using assms(1,3) d(2,3) by (fastforce simp: once_inv_def jm_has_def)
  have seen: "seenActions (on_message env e st) = jm_set (rq_action_id a) (dl (rq_action_id a)) ?live"
    by (simp add: ran(2) rememberAction_small wf d)
  have len: "length (jm_set (rq_action_id a) (dl (rq_action_id a)) ?live) \<le> Suc n"
    using assms(1) length_filter_le [of "\<lambda>x. \<not> snd x \<le> ev_now e" "seenActions st"]
      jm_set_length_le [of "rq_action_id a" "dl (rq_action_id a)" ?live] unfolding once_inv_def by linarith
  show ?thesis
  proof -
    have "ar_ran (on_message env e st) = ar_ran st @ [a]" by (simp add: ran(2))
    moreover have "rq_action_id a \<notin> rq_action_id ` set (ar_ran st)" using new by force
    moreover have "jm_get ?live (rq_action_id b) = Some (dl (rq_action_id b)) \<or> dl (rq_action_id b) \<le> ev_now e"
      if "b \<in> set (ar_ran st)" for b
      using assms(1,3) that by (force simp: once_inv_def jm_get_filter wf(1))
    moreover have "distinct (map rq_action_id (ar_ran st))" using assms(1) by (simp add: once_inv_def)
    ultimately show ?thesis using len wf(1) by (auto simp: once_inv_def seen)
  qed
next
  case idle
  then show ?thesis using assms(1,3) by (auto simp: once_inv_def)
qed

lemma on_message_key: "af_controlPlanePublicKeyPem (ar_config (on_message env e st)) = af_controlPlanePublicKeyPem (ar_config st)"
  by (cases rule: on_action_request_cases [of env e st]) simp_all

lemma once_run:
  assumes "run (agent_step env) st es st'"
  shows "once_inv dl now n st \<Longrightarrow> n + length es \<le> MAX_SEEN_ACTIONS \<Longrightarrow> sorted (now # map ev_now es) \<Longrightarrow>
    \<forall>e \<in> set es. event_ok env (af_controlPlanePublicKeyPem (ar_config st)) dl e \<Longrightarrow> distinct (map rq_action_id (ar_ran st'))"
  using assms
proof (induction arbitrary: now n rule: run.induct)
  case (run_nil s)
  then show ?case by (simp add: once_inv_def)
next
  case (run_cons s e s1 es s')
  from run_cons.hyps(1) have s1: "s1 = on_message env e s" by blast
  have "once_inv dl (ev_now e) (Suc n) s1"
    unfolding s1 using run_cons.prems by (intro once_step [of _ now]) auto
  then show ?case using run_cons.prems by (intro run_cons.IH) (auto simp: s1 on_message_key)
qed

text \<open>
  C13: an agent runs an action once. However often and in whatever order signed requests are delivered
  again, among other messages and policy updates, each action runs at most once, as long as the
  control plane signs one deadline per action, the clock does not go back, no message arrives in the
  very millisecond of its own deadline, and the connection lives for at most 10,000 messages (the
  bound of the agent's memory).
\<close>

theorem action_runs_once:
  assumes "run (agent_step env) (start_agent config) es st" and "length es \<le> 10000" and "sorted (map ev_now es)"
    and "\<forall>e \<in> set es. event_ok env (af_controlPlanePublicKeyPem config) dl e"
  shows "distinct (map rq_action_id (ar_ran st))"
proof (cases es)
  case Nil
  then show ?thesis using assms(1) by (auto simp: start_agent_def)
next
  case (Cons e es')
  have "once_inv dl (ev_now e) 0 (start_agent config)" by (simp add: once_inv_def start_agent_def)
  then show ?thesis
    by (rule once_run [OF assms(1)]) (use assms Cons in \<open>auto simp: start_agent_def MAX_SEEN_ACTIONS_def\<close>)
qed

definition trusting_env :: agent_env where
  "trusting_env = \<lparr>ae_crypto = sample_crypto\<lparr>node_verify := (\<lambda>k m s. True)\<rparr>, ae_datetime = (\<lambda>s. endsWith s ''Z''), ae_os = sample_os_env\<rparr>"

definition sample_agent_config :: AgentConfigFile where
  "sample_agent_config = \<lparr>af_server = ''https://cp'', af_agentId = ''agt_1'', af_alias = ''web'', af_publicKeyPem = ''pub'',
     af_privateKeyPem = ''priv'', af_controlPlanePublicKeyPem = ''cp'', af_policy = (createAgentPolicy FullAdmin)\<lparr>policy_ver := 3\<rparr>,
     af_websocketUrl = ''wss://cp/ws'', af_enrolledAt = ''2024-01-01T00:00:00.000Z''\<rparr>"

definition request_event :: "int \<Rightarrow> ActionRequestEnvelope \<Rightarrow> agent_event" where
  "request_event now q = \<lparr>ev_now = now, ev_payload = Some (JObj (request_fields q)), ev_nonce = ''0123456789abcdef'',
     ev_started = ''2024-02-29T23:59:59.000Z'', ev_finished = ''2024-02-29T23:59:59.500Z''\<rparr>"

lemma sample_request_parses: "parseActionRequestEnvelope (ae_datetime trusting_env) (JObj (request_fields sample_request)) = Some sample_request"
  by (rule parse_request_fields) (simp_all add: sample_request_def trusting_env_def endsWith_def suffix_def)

lemma sample_request_deadline: "date_ms (rq_deadline sample_request) = 1709251319000"
  unfolding sample_request_def by simp code_simp

lemma sample_request_signed: "signed_action trusting_env k (request_event now sample_request) = Some sample_request"
  using sample_request_parses
  by (simp add: signed_action_def request_event_def verifyEnvelope_def trusting_env_def request_fields_def envelope_signature_def)
    (simp add: sample_request_def)

lemma sample_request_accepted:
  "accepts trusting_env (request_event 1709251200000 sample_request) sample_request (start_agent sample_agent_config)"
  by (simp add: accepts_def sample_request_signed sample_request_deadline)
    (simp add: request_event_def start_agent_def sample_agent_config_def version_accepted_def jm_has_def sample_request_def)

theorem action_runs_once_witness:
  "\<exists>st. run (agent_step trusting_env) (start_agent sample_agent_config)
      [request_event 1709251200000 sample_request, request_event 1709251200005 sample_request] st \<and>
    sample_request \<in> set (ar_ran st) \<and> distinct (map rq_action_id (ar_ran st))"
proof -
  let ?e1 = "request_event 1709251200000 sample_request" and ?e2 = "request_event 1709251200005 sample_request"
  let ?s1 = "on_message trusting_env ?e1 (start_agent sample_agent_config)"
  let ?s2 = "on_message trusting_env ?e2 ?s1"
  have r: "run (agent_step trusting_env) (start_agent sample_agent_config) [?e1, ?e2] ?s2"
    by (rule run_cons, rule message, rule run_cons, rule message, rule run_nil)
  have "event_ok trusting_env k (\<lambda>_. 1709251319000) (request_event now sample_request)" if "now \<noteq> 1709251319000" for k now
    using that by (simp add: event_ok_def sample_request_signed sample_request_deadline) (simp add: request_event_def)
  then have d: "distinct (map rq_action_id (ar_ran ?s2))"
    by (intro action_runs_once [OF r, of "\<lambda>_. 1709251319000"]) (auto simp: request_event_def)
  have "sample_request \<in> set (ar_ran ?s1)"
    using sample_request_accepted
    by (cases rule: on_action_request_cases [of trusting_env ?e1 "start_agent sample_agent_config"])
      (auto simp: accepts_def sample_request_signed)
  then have m: "sample_request \<in> set (ar_ran ?s2)"
    by (cases rule: on_action_request_cases [of trusting_env ?e2 ?s1]) auto
  show ?thesis by (rule exI, rule conjI [OF r conjI [OF m d]])
qed

section \<open>Gaps\<close>

text \<open>
  In the millisecond of its deadline an action can run again. The request is still accepted then,
  while the arrival of any other action in the same millisecond forgets it: an action that has run
  before, and is delivered again after that other one, runs a second time.
\<close>

theorem action_runs_again_at_deadline:
  assumes "accepts env e b st" and "ev_now e = date_ms (rq_deadline a)" and "ev_now e' = ev_now e"
    and "signed_action env (af_controlPlanePublicKeyPem (ar_config st)) e' = Some a"
    and "rq_agent_id a = af_agentId (ar_config st)" and "version_accepted (rq_policy_version a) (af_policy (ar_config st))"
    and "jm_wf (seenActions st)" and "length (seenActions st) < MAX_SEEN_ACTIONS"
    and "jm_get (seenActions st) (rq_action_id a) = Some (date_ms (rq_deadline a))"
  shows "ar_ran (on_message env e' (on_message env e st)) = ar_ran st @ [b, a]"
proof -
  have b: "on_message env e st = run_action env e b st" "rq_action_id b \<noteq> rq_action_id a"
    using assms(1,9) by (cases rule: on_action_request_cases [of env e st]; auto simp: accepts_def jm_has_def)+
  have "\<not> jm_has (seenActions (on_message env e st)) (rq_action_id a)"
    using assms(1,2,7-9) b(2) by (simp add: b(1) rememberAction_small accepts_def jm_has_def jm_get_filter)
  then have "accepts env e' a (on_message env e st)"
    using assms(2-6) by (simp add: accepts_def b(1))
  then show ?thesis
    by (cases rule: on_action_request_cases [of env e' "on_message env e st"]) (auto simp: accepts_def b(1))
qed

definition later_request :: ActionRequestEnvelope where
  "later_request = sample_request\<lparr>rq_action_id := ''act_2'', rq_deadline := ''2024-03-01T00:02:59.000Z''\<rparr>"

definition after_first :: agent_run where
  "after_first = (start_agent sample_agent_config)\<lparr>seenActions := [(''act_1'', 1709251319000)], ar_ran := [sample_request]\<rparr>"

lemma later_request_accepted: "accepts trusting_env (request_event 1709251319000 later_request) later_request after_first"
proof -
  have p: "parseActionRequestEnvelope (ae_datetime trusting_env) (JObj (request_fields later_request)) = Some later_request"
    by (rule parse_request_fields) (simp_all add: later_request_def sample_request_def trusting_env_def endsWith_def suffix_def)
  have "date_ms (rq_deadline later_request) = 1709251379000" unfolding later_request_def by simp code_simp
  then show ?thesis using p
    by (simp add: accepts_def signed_action_def request_event_def verifyEnvelope_def trusting_env_def request_fields_def envelope_signature_def)
      (simp add: later_request_def sample_request_def after_first_def start_agent_def sample_agent_config_def version_accepted_def jm_has_def)
qed

theorem action_runs_again_at_deadline_witness:
  "ar_ran (on_message trusting_env (request_event 1709251319000 sample_request)
     (on_message trusting_env (request_event 1709251319000 later_request) after_first)) = [sample_request, later_request, sample_request]"
  using action_runs_again_at_deadline [OF later_request_accepted, of sample_request "request_event 1709251319000 sample_request"]
  by (simp add: sample_request_signed sample_request_deadline)
    (simp add: request_event_def after_first_def start_agent_def sample_agent_config_def version_accepted_def sample_request_def
      jm_wf_def MAX_SEEN_ACTIONS_def)

text \<open>
  Policy updates carry no protection against replay. A signed update for this agent is installed
  and saved whatever its version and whenever it was issued: delivered again after a newer one, an old
  update restores the old policy, and requests for the newer version are then refused.
\<close>

theorem policy_update_rollback:
  assumes "ev_payload e = Some (JObj (update_fields u))" and "parsePolicyUpdateEnvelope (ae_datetime env) (JObj (update_fields u)) = Some u"
    and "pu_agent_id u = af_agentId (ar_config st)"
    and "verifyEnvelope (ae_crypto env) (update_fields u) (af_controlPlanePublicKeyPem (ar_config st))"
  shows "ar_policy (on_message env e st) = pu_policy u \<and> af_policy (ar_config (on_message env e st)) = pu_policy u \<and>
    ar_saved (on_message env e st) = ar_saved st @ [ar_config (on_message env e st)] \<and>
    (policy_ver (pu_policy u) + 1 < v \<longrightarrow> \<not> (\<exists>a. rq_policy_version a = v \<and> accepts env e' a (on_message env e st)))"
proof -
  have "jprop (update_fields u) ''type'' = JStr ''policy.update''" by (simp add: jprop_def update_fields_def)
  then have "on_message env e st = on_policy_update env (JObj (update_fields u)) st" by (simp add: on_message_def assms(1))
  then show ?thesis using assms(2-4) by (auto simp: on_policy_update_def Let_def accepts_def version_accepted_def)
qed

definition update_event :: agent_event where
  "update_event = (request_event 0 sample_request)\<lparr>ev_payload := Some (JObj (update_fields sample_update))\<rparr>"

theorem policy_update_rollback_witness:
  "policy_ver (af_policy sample_agent_config) = 3 \<and>
   policy_ver (ar_policy (on_message trusting_env update_event (start_agent sample_agent_config))) = 1"
proof -
  have "parsePolicyUpdateEnvelope (ae_datetime trusting_env) (JObj (update_fields sample_update)) = Some sample_update"
    by (rule parse_update_fields)
      (simp_all add: sample_update_def policy_valid_def createAgentPolicy_def trusting_env_def endsWith_def suffix_def)
  then have "ar_policy (on_message trusting_env update_event (start_agent sample_agent_config)) = pu_policy sample_update"
    by (intro policy_update_rollback [THEN conjunct1])
      (simp_all add: update_event_def start_agent_def sample_agent_config_def verifyEnvelope_def trusting_env_def update_fields_def
        envelope_signature_def, simp_all add: sample_update_def)
  then show ?thesis by (simp add: sample_update_def createAgentPolicy_def sample_agent_config_def)
qed

end
