(* ===== verification/ControlInvariants.thy ===== *)
theory ControlInvariants
  imports RemoteTools
begin

text \<open>
  What the handlers do to the store. An invariant of the store that every single store
  operation keeps is kept by every handler; the locale \<open>store_inv\<close> states the former and
  proves the latter once. For agents the operation is an update that starts from the
  current record, keeps its owner and alias and does not undo a revocation
  (\<open>agent_update_ok\<close>): all handlers write agents that way, except the second half of a
  \<open>PATCH\<close> request, which writes a record read before the body arrived.
\<close>

section \<open>Agents after an update\<close>

lemma agentFromRow_simps [simp]:
  "ag_id (agentFromRow r) = ag_id r" "ag_userId (agentFromRow r) = ag_userId r"
  "ag_alias (agentFromRow r) = ag_alias r" "ag_status (agentFromRow r) = ag_status r"
  "ag_policy (agentFromRow r) = ag_policy r" "ag_policyVersion (agentFromRow r) = ag_policyVersion r"
  "ag_profile (agentFromRow r) = ag_profile r" "ag_createdAt (agentFromRow r) = ag_createdAt r"
  by (simp_all add: agentFromRow_def)

lemma updateAgent_agents:
  "updateAgent a st = Inr st' \<Longrightarrow>
     st' = st\<lparr>agents := update_rows (\<lambda>r. ag_id r = ag_id a)
       (\<lambda>r. a\<lparr>ag_userId := ag_userId r, ag_createdAt := ag_createdAt r\<rparr>) (agents st)\<rparr>"
  by (simp add: updateAgent_def Let_def split: if_splits)

lemma getAgent_id: "getAgent i st = Some a \<Longrightarrow> ag_id a = i"
  by (auto simp: getAgent_def dest: find_SomeD)

lemma getAgent_updateAgent:
  assumes "updateAgent a st = Inr st'"
  shows "getAgent i st' =
    (if i = ag_id a then map_option (\<lambda>r. agentFromRow (a\<lparr>ag_userId := ag_userId r, ag_createdAt := ag_createdAt r\<rparr>)) (getAgent i st)
     else getAgent i st)"
proof -
  let ?f = "\<lambda>r. a\<lparr>ag_userId := ag_userId r, ag_createdAt := ag_createdAt r\<rparr>"
  have "find (\<lambda>r. ag_id r = i) (update_rows (\<lambda>r. ag_id r = ag_id a) ?f rows) =
      (if i = ag_id a then map_option ?f (find (\<lambda>r. ag_id r = i) rows) else find (\<lambda>r. ag_id r = i) rows)" for rows
    by (induction rows) (auto simp: update_rows_def)
  then show ?thesis
    using updateAgent_agents [OF assms] by (cases "find (\<lambda>r. ag_id r = i) (agents st)") (auto simp: getAgent_def)
qed

lemma getAgent_insertAgent:
  "insertAgent a st = Inr st' \<Longrightarrow> getAgent i st = Some r \<Longrightarrow> getAgent i st' = Some r"
proof -
  have "find P (xs @ ys) = (case find P xs of None \<Rightarrow> find P ys | Some x \<Rightarrow> Some x)" for P xs and ys :: "RemoteAgentRecord list"
    by (induction xs) auto
  then show "insertAgent a st = Inr st' \<Longrightarrow> getAgent i st = Some r \<Longrightarrow> getAgent i st' = Some r"
    by (auto simp: insertAgent_def insert_row_def getAgent_def split: if_splits)
qed

definition agent_update_ok :: "RemoteAgentRecord \<Rightarrow> remote_store \<Rightarrow> bool" where
  "agent_update_ok a st \<longleftrightarrow> (\<exists>old. getAgent (ag_id a) st = Some old \<and> ag_userId a = ag_userId old \<and>
     ag_alias a = ag_alias old \<and> (ag_status old = Revoked \<longrightarrow> ag_status a = Revoked) \<and>
     ag_policyVersion old \<le> ag_policyVersion a)"

lemma agent_update_okI:
  assumes "getAgent i st = Some old" and "ag_id a = ag_id old" and "ag_userId a = ag_userId old"
    and "ag_alias a = ag_alias old" and "ag_status old \<noteq> Revoked \<or> ag_status a = Revoked"
    and "ag_policyVersion old \<le> ag_policyVersion a"
  shows "agent_update_ok a st"
  using assms getAgent_id [OF assms(1)] by (auto simp: agent_update_ok_def)

text \<open>Setting an agent offline does not get in the way of such an update.\<close>

lemma agent_update_ok_offline:
  assumes "updateAgent (x\<lparr>ag_status := Offline, ag_updatedAt := t\<rparr>) st = Inr st'"
    and "getAgent i st = Some x" and "agent_update_ok a st"
  shows "ag_status x = Revoked \<or> agent_update_ok a st'"
proof -
  have "ag_id x = i" using assms(2) by (rule getAgent_id)
  with assms getAgent_updateAgent [OF assms(1), of "ag_id a"] show ?thesis
    by (cases "ag_id a = i") (auto simp: agent_update_ok_def)
qed

lemma resolveAgent_current:
  assumes "store_wf st" and "resolveAgent u v st = Some a"
  shows "getAgent (ag_id a) st = Some a \<and> ag_userId a = u"
proof -
  have al: "getAgent (ag_id a) st = Some a \<and> ag_userId a = u" if "getAgentByAlias u v st = Some a"
  proof -
    obtain r where r: "find (\<lambda>x. ag_userId x = u \<and> ag_alias x = v) (agents st) = Some r" "a = agentFromRow r"
      using \<open>getAgentByAlias u v st = Some a\<close> by (auto simp: getAgentByAlias_def)
    then have "r \<in> set (agents st)" "ag_userId r = u" by (auto dest: find_SomeD)
    then show ?thesis
      using find_unique [OF agents_distinct [OF assms(1)], of r] r(2) by (simp add: getAgent_def)
  qed
  show ?thesis
    using assms(2) al by (auto simp: resolveAgent_def dest: getAgent_id split: if_splits option.splits)
qed

section \<open>Triples of the basic operations\<close>

lemma triple_cstore:
  assumes "\<And>s st'. P s \<Longrightarrow> f (store s) = Inr st' \<Longrightarrow> Q () (s\<lparr>store := st'\<rparr>)" and "\<And>s. P s \<Longrightarrow> E s"
  shows "triple P (cstore f) Q E"
  using assms by (auto simp: triple_def cstore_def split: sum.splits)

lemma triple_requireAgent:
  assumes "\<And>s a. P s \<Longrightarrow> resolveAgent uid (or_else (str_prop args ''agent_id_or_alias'') '''') (store s) = Some a \<Longrightarrow> Q a s"
    and "\<And>s. P s \<Longrightarrow> E s"
  shows "triple P (requireAgent uid args) Q E"
  using assms by (auto simp: requireAgent_def triple_def cbind_def split: option.splits)

lemma keeps_cresult [triples]: "keeps P (cresult r)"
  by (auto simp: triple_def cresult_def split: sum.splits)

lemma keeps_run_close_handlers:
  "(\<And>aid uid. keeps P (on_agent_close env now c aid uid)) \<Longrightarrow> keeps P (run_close_handlers env now c hs)"
  by (induction hs rule: list.induct) (auto intro!: triples)

lemma keeps_ws_close_all:
  "(\<And>c. keeps P (ws_close env now c)) \<Longrightarrow> keeps P (close_all env now cs)"
  by (induction cs) (auto intro!: triples)

lemma audit_agents: "keeps (\<lambda>s. agent_update_ok b (store s)) (audit env now u a act typ sev meta)"
  unfolding audit_def new_id_def
  by (intro triples triple_cmodify triple_cstore)
    (auto simp: insertAudit_def insert_row_def agent_update_ok_def getAgent_def split: if_splits)

section \<open>Invariants of the store\<close>

text \<open>First the operations that add rows or set an agent offline.\<close>

locale quiet_inv =
  fixes Q :: "remote_store \<Rightarrow> bool"
  assumes event: "Q st \<Longrightarrow> insertAudit ev st = Inr st' \<Longrightarrow> Q st'"
    and action: "Q st \<Longrightarrow> insertAction act st = Inr st' \<Longrightarrow> Q st'"
    and new_agent: "Q st \<Longrightarrow> insertAgent a st = Inr st' \<Longrightarrow> Q st'"
    and token: "Q st \<Longrightarrow> insertEnrollmentToken et st = Inr st' \<Longrightarrow> Q st'"
    and offline: "Q st \<Longrightarrow> getAgent i st = Some x \<Longrightarrow> ag_status x \<noteq> Revoked \<Longrightarrow>
      updateAgent (x\<lparr>ag_status := Offline, ag_updatedAt := t\<rparr>) st = Inr st' \<Longrightarrow> Q st'"
begin

abbreviation QS :: "control_plane \<Rightarrow> bool" where
  "QS s \<equiv> Q (store s)"

lemma keeps_store: "(\<And>st st'. Q st \<Longrightarrow> f st = Inr st' \<Longrightarrow> Q st') \<Longrightarrow> keeps QS (cstore f)"
  by (rule triple_cstore) auto

lemma keeps_other: "(\<And>s. store (f s) = store s) \<Longrightarrow> keeps QS (cmodify f)"
  by (rule triple_cmodify) simp

lemma new_id_keeps [triples]: "keeps QS (new_id env pre)"
  unfolding new_id_def by (intro triples keeps_other) auto

lemma randomToken_keeps [triples]: "keeps QS (randomToken env)"
  unfolding randomToken_def by (intro triples keeps_other) auto

lemma audit_keeps [triples]: "keeps QS (audit env now u a act typ sev meta)"
  unfolding audit_def by (intro triples keeps_store) (rule event)

lemma send_keeps [triples]: "keeps QS (send c m)"
  unfolding send_def by (rule keeps_other) simp

lemma mark_disconnected_keeps [triples]: "keeps QS (mark_disconnected env now aid uid)"
  unfolding mark_disconnected_def
  by (rule triple_read, rule triple_cseq [where R = QS])
    (auto intro!: triples triple_cstore intro: offline)

lemma on_agent_close_keeps: "keeps QS (on_agent_close env now c aid uid)"
  unfolding on_agent_close_def by (intro triples keeps_other) auto

lemma notifyClose_keeps: "keeps QS (notifyClose env now c)"
  unfolding notifyClose_def
  by (intro triples keeps_other keeps_run_close_handlers on_agent_close_keeps) auto

lemma ws_close_keeps [triples]: "keeps QS (ws_close env now c)"
  unfolding ws_close_def by (intro triples keeps_other notifyClose_keeps) auto

lemma ws_handleClose_keeps: "keeps QS (ws_handleClose env now c)"
  unfolding ws_handleClose_def by (intro triples keeps_other notifyClose_keeps) auto

lemma ws_onClose_keeps [triples]: "keeps QS (ws_onClose c a u)"
  unfolding ws_onClose_def by (rule keeps_other) simp

lemma refuse_keeps [triples]: "keeps QS (refuse env now c code m)"
  unfolding refuse_def by (intro triples)

lemma cleanup_keeps [triples]: "keeps QS (cleanupEphemeralState now)"
  unfolding cleanupEphemeralState_def by (rule keeps_other) simp

lemma close_keeps: "keeps QS (close_control_plane env now)"
  unfolding close_control_plane_def by (intro triples keeps_other keeps_ws_close_all ws_close_keeps) auto

lemma require_admin_keeps [triples]: "keeps P (require_admin p)"
  unfolding require_admin_def by (intro triples) auto

lemma createEnrollmentToken_keeps: "keeps QS (createEnrollmentToken env cfg now p args)"
  unfolding createEnrollmentToken_def Let_def
  by (intro triples keeps_store) (auto intro: new_agent token)

lemma dispatchAction_keeps [triples]: "keeps QS (dispatchAction env cfg now p agent tool capability args)"
  unfolding dispatchAction_def Let_def
  by (intro triples keeps_store keeps_other) (auto intro: action)

end

text \<open>Then all of them.\<close>

locale store_inv =
  fixes Q :: "remote_store \<Rightarrow> bool"
  assumes wf: "Q st \<Longrightarrow> store_wf st"
    and user: "Q st \<Longrightarrow> upsertUser i g l t st = Inr st' \<Longrightarrow> Q st'"
    and client: "Q st \<Longrightarrow> insertClient c st = Inr st' \<Longrightarrow> Q st'"
    and code: "Q st \<Longrightarrow> insertAuthorizationCode ac st = Inr st' \<Longrightarrow> Q st'"
    and code_used: "Q st \<Longrightarrow> markAuthorizationCodeUsed h t st = Inr st' \<Longrightarrow> Q st'"
    and insert_agent: "Q st \<Longrightarrow> insertAgent a st = Inr st' \<Longrightarrow> Q st'"
    and agent: "Q st \<Longrightarrow> agent_update_ok a st \<Longrightarrow> updateAgent a st = Inr st' \<Longrightarrow> Q st'"
    and insert_token: "Q st \<Longrightarrow> insertEnrollmentToken et st = Inr st' \<Longrightarrow> Q st'"
    and token_used: "Q st \<Longrightarrow> markEnrollmentTokenUsed h t st = Inr st' \<Longrightarrow> Q st'"
    and insert_action: "Q st \<Longrightarrow> insertAction act st = Inr st' \<Longrightarrow> Q st'"
    and action_done: "Q st \<Longrightarrow> Q (updateAction act st)"
    and insert_event: "Q st \<Longrightarrow> insertAudit ev st = Inr st' \<Longrightarrow> Q st'"
begin

sublocale quiet_inv Q
proof
  fix st st' i x t
  assume "Q st" "getAgent i st = Some x" "ag_status x \<noteq> Revoked"
    "updateAgent (x\<lparr>ag_status := Offline, ag_updatedAt := t\<rparr>) st = Inr st'"
  then show "Q st'" by (elim agent) (auto intro: agent_update_okI)
qed (fact insert_event insert_action insert_agent insert_token)+

lemma update_rule:
  "(\<And>s. P s \<Longrightarrow> QS s) \<Longrightarrow> (\<And>s. P s \<Longrightarrow> agent_update_ok a (store s)) \<Longrightarrow>
     triple P (cstore (updateAgent a)) (\<lambda>_. QS) QS"
  by (rule triple_cstore) (auto intro: agent)

text \<open>The OAuth handlers.\<close>

lemma handleRegister_keeps: "keeps QS (handleRegister env cfg now body)"
  unfolding handleRegister_def Let_def by (intro triples keeps_store) (auto intro: client)

lemma upsertGitHubUser_keeps [triples]: "keeps QS (upsertGitHubUser env cfg now g l)"
  unfolding upsertGitHubUser_def Let_def by (intro triples keeps_store) (auto intro: user)

lemma issueAuthorizationCode_keeps [triples]: "keeps QS (issueAuthorizationCode env cfg now p u)"
  unfolding issueAuthorizationCode_def by (intro triples keeps_store) (auto intro: code)

lemma handleAuthorize_keeps: "keeps QS (handleAuthorize env cfg now tu q)"
  unfolding handleAuthorize_def Let_def by (intro triples keeps_other) auto

lemma handleGitHubCallback_keeps: "keeps QS (handleGitHubCallback now q)"
  unfolding handleGitHubCallback_def Let_def by (intro triples keeps_other) auto

lemma finishGitHubCallback_keeps: "keeps QS (finishGitHubCallback env cfg now f g l)"
  unfolding finishGitHubCallback_def by (intro triples keeps_other) auto

lemma issueAccessToken_keeps [triples]: "keeps QS (issueAccessToken env cfg now u sc)"
  unfolding issueAccessToken_def Let_def by (intro triples) auto

lemma handleToken_keeps: "keeps QS (handleToken env cfg now body)"
  unfolding handleToken_def Let_def by (intro triples keeps_store) (auto intro: code_used)

lemma authenticate_keeps [triples]: "keeps QS (authenticate env cfg now a)"
  unfolding authenticate_def by (intro triples) (auto split: sum.splits intro!: triples)

text \<open>The agent's messages.\<close>

lemma commit_enroll_keeps:
  assumes "ag_status agent \<noteq> Revoked"
  shows "triple (\<lambda>s. QS s \<and> getAgent i (store s) = Some agent) (commit_enroll env cfg now e agent k h) (\<lambda>_. QS) QS"
  unfolding commit_enroll_def
proof (rule triple_cseq)
  show "triple (\<lambda>s. QS s \<and> getAgent i (store s) = Some agent)
    (cfail_with (cstore (markEnrollmentTokenUsed (et_tokenHash e) now)) enroll_invalid)
    (\<lambda>_ s. QS s \<and> getAgent i (store s) = Some agent) QS"
    by (rule tripleI)
      (auto simp: cfail_with_def cstore_def markEnrollmentTokenUsed_def getAgent_def Let_def
         split: sum.splits if_splits dest: token_used [of _ "et_tokenHash e" now])
  show "triple (\<lambda>s. QS s \<and> getAgent i (store s) = Some agent)
    (cseq (cstore (updateAgent (agent\<lparr>ag_status := Offline, ag_publicKey := Some k, ag_hostMetadata := h, ag_updatedAt := now\<rparr>)))
    (cseq (audit env now (Some (ag_userId agent)) (Some (ag_id agent)) None ''agent_enrolled'' Info
             [(''alias'', JStr (ag_alias agent)), (''host'', opt_json (\<lambda>h. JStr (hm_hostname h)) h)])
      (creturn \<lparr>er_agent_id = ag_id agent, er_alias = ag_alias agent, er_policy = ag_policy agent,
         er_websocket_url = ws_base (publicBaseUrl cfg) @ agentWsPath cfg,
         er_public_key = cp_publicKey cfg\<rparr>))) (\<lambda>_. QS) QS"
    by (rule triple_cseq [where R = QS], rule update_rule)
      (use assms in \<open>auto intro!: triples intro: agent_update_okI\<close>)
qed

lemma handleAgentEnroll_keeps: "keeps QS (handleAgentEnroll env cfg now body)"
  unfolding handleAgentEnroll_def Let_def
  by (intro flows; (auto; fail)?) (auto intro!: triple_pre [OF commit_enroll_keeps])

text \<open>Closing the older connection of an agent leaves room for the update that sets it online.\<close>

lemma mark_disconnected_room:
  "keeps (\<lambda>s. QS s \<and> agent_update_ok b (store s)) (mark_disconnected env now aid uid)"
  unfolding mark_disconnected_def
proof (rule triple_read, rule triple_cseq [where R = "\<lambda>s. QS s \<and> agent_update_ok b (store s)"])
  fix latest
  show "triple (\<lambda>s. (QS s \<and> agent_update_ok b (store s)) \<and> getAgent aid (store s) = latest)
    (case latest of None \<Rightarrow> creturn ()
     | Some a \<Rightarrow> cwhen (ag_status a \<noteq> Revoked) (cstore (updateAgent (a\<lparr>ag_status := Offline, ag_updatedAt := now\<rparr>))))
    (\<lambda>_ s. QS s \<and> agent_update_ok b (store s)) (\<lambda>s. QS s \<and> agent_update_ok b (store s))"
    by (intro triples triple_cstore) (auto intro: offline dest: agent_update_ok_offline)
  show "keeps (\<lambda>s. QS s \<and> agent_update_ok b (store s)) (audit env now (Some uid) (Some aid) None ''agent_disconnected'' Info [])"
    by (intro keeps_conj triples audit_agents)
qed

lemma on_agent_close_room:
  "keeps (\<lambda>s. QS s \<and> agent_update_ok b (store s)) (on_agent_close env now c aid uid)"
  unfolding on_agent_close_def by (intro triples mark_disconnected_room triple_cmodify) auto

lemma ws_close_room: "keeps (\<lambda>s. QS s \<and> agent_update_ok b (store s)) (ws_close env now c)"
  unfolding ws_close_def notifyClose_def
  by (intro triples keeps_run_close_handlers on_agent_close_room triple_cmodify) auto

lemma accept_hello_keeps:
  assumes "ag_status agent \<noteq> Revoked"
  shows "triple (\<lambda>s. QS s \<and> getAgent i (store s) = Some agent) (accept_hello env now c hello agent ex) (\<lambda>_. QS) QS"
proof -
  let ?new = "agent\<lparr>ag_status := Online, ag_lastSeenAt := Some now, ag_hostMetadata := Some (he_host hello), ag_updatedAt := now\<rparr>"
  let ?R = "\<lambda>s. QS s \<and> agent_update_ok ?new (store s)"
  have pre: "QS s \<and> getAgent i (store s) = Some agent \<Longrightarrow> ?R s" for s
    using assms by (auto intro: agent_update_okI)
  have "triple ?R (accept_hello env now c hello agent ex) (\<lambda>_. QS) QS"
    unfolding accept_hello_def register_hello_def
  proof (rule triple_cseq [where R = ?R], rule triple_cmodify, simp, rule triple_cseq [where R = ?R])
    show "triple ?R (case ex of None \<Rightarrow> creturn () | Some l \<Rightarrow> ws_close env now (live_conn l)) (\<lambda>_. ?R) QS"
      by (intro triples triple_cons [OF ws_close_room]) auto
  qed (rule triple_cseq [where R = ?R], rule triple_cmodify, simp, rule triple_cseq [where R = QS],
      rule update_rule, auto intro!: triples)
  then show ?thesis by (rule triple_pre) (rule pre)
qed

lemma admit_hello_keeps:
  assumes "ag_status agent \<noteq> Revoked"
  shows "triple (\<lambda>s. QS s \<and> getAgent i (store s) = Some agent) (admit_hello env now c hello agent) (\<lambda>_. QS) QS"
  unfolding admit_hello_def Let_def cleanupEphemeralState_def
  by (rule triple_cseq [where R = "\<lambda>s. QS s \<and> getAgent i (store s) = Some agent"], rule triple_cmodify, simp,
      intro flows)
    (auto intro!: triple_pre [OF keeps_cseq] triple_pre [OF accept_hello_keeps [OF assms, where i = i]] triples)

lemma handleAgentHello_keeps: "keeps QS (handleAgentHello env now c hello)"
  unfolding handleAgentHello_def Let_def
  by (intro flows triple_case_prod; (rule triple_pre [OF admit_hello_keeps]; auto split: if_splits option.splits; fail)?)
    (auto intro!: triple_pre [OF keeps_cseq] triple_pre [OF refuse_keeps] triples)

lemma reject_result_keeps [triples]: "keeps QS (reject_result env now p i typ code)"
  unfolding reject_result_def by (intro triples keeps_other) auto

lemma set_seen_keeps [triples]: "keeps QS (set_seen aid ns)"
  unfolding set_seen_def by (rule keeps_other) (auto split: option.splits)

lemma handleActionResult_keeps: "keeps QS (handleActionResult env now c r)"
  unfolding handleActionResult_def Let_def by (intro triples keeps_other) auto

lemma handleAgentMessage_keeps: "keeps QS (handleAgentMessage env now c parsed)"
  unfolding handleAgentMessage_def
  by (auto split: option.splits json.splits
      intro!: triples handleAgentHello_keeps handleActionResult_keeps)

lemma on_text_keeps: "keeps QS (on_text env now c parsed)"
  unfolding on_text_def on_message_failure_def by (intro triples handleAgentMessage_keeps)

lemma accept_connection_keeps: "keeps QS (accept_connection c)"
  unfolding accept_connection_def by (rule keeps_other) simp

text \<open>The tools.\<close>

lemma updateAgentPolicy_keeps:
  "triple (\<lambda>s. QS s \<and> getAgent i (store s) = Some agent) (updateAgentPolicy env cfg now p agent v) (\<lambda>_. QS) QS"
  unfolding updateAgentPolicy_def Let_def require_admin_def
  by (rule triple_check, rule triple_cseq [where R = QS], rule update_rule)
    (auto intro!: triples intro: agent_update_okI)

lemma revokeAgent_keeps:
  "triple (\<lambda>s. QS s \<and> getAgent i (store s) = Some agent) (revokeAgent env now p agent) (\<lambda>_. QS) QS"
  unfolding revokeAgent_def Let_def require_admin_def
  by (rule triple_check, rule triple_cseq [where R = QS], rule update_rule)
    (auto intro!: triples keeps_other intro: agent_update_okI)

lemma finishAction_keeps: "keeps QS (finishAction env now a outcome)"
  unfolding finishAction_def Let_def
  by (cases outcome) (auto intro!: triples keeps_store intro: action_done)

lemma fire_timeout_keeps: "keeps QS (fire_timeout i)"
  unfolding fire_timeout_def by (intro triples keeps_other) auto

lemma requireAgent_current:
  "triple QS (requireAgent uid args) (\<lambda>a s. QS s \<and> getAgent (ag_id a) (store s) = Some a) QS"
  by (rule triple_requireAgent) (auto dest: wf resolveAgent_current)

lemma requireAgent_keeps: "keeps QS (requireAgent uid args)"
  by (rule triple_cons [OF requireAgent_current]) auto

lemma callRemoteTool_keeps: "keeps QS (callRemoteTool env cfg now p tool args)"
proof -
  have upd: "keeps QS (cbind (requireAgent u a) (\<lambda>agent. cbind (updateAgentPolicy env cfg now p agent v) (\<lambda>x. creturn (f x))))"
    for u a v f
    by (rule triple_cbind [OF requireAgent_current], rule triple_cbind [OF updateAgentPolicy_keeps]) (rule triple_creturn)
  have rev: "keeps QS (cbind (requireAgent u a) (\<lambda>agent. cbind (revokeAgent env now p agent) (\<lambda>x. creturn (f x))))"
    for u a f
    by (rule triple_cbind [OF requireAgent_current], rule triple_cbind [OF revokeAgent_keeps]) (rule triple_creturn)
  show ?thesis
    unfolding callRemoteTool_def Let_def
    by (cases tool)
      (auto intro!: triples requireAgent_keeps createEnrollmentToken_keeps upd rev)
qed

end

end
