(* ===== verification/ControlSystem.thy ===== *)
theory ControlSystem
  imports ControlInvariants
begin

text \<open>
  The control plane as a whole: the HTTP routes, the JSON-RPC endpoint and the REST routes
  of \<open>src/remote/control-plane.ts\<close>, and the step relation \<open>cp_step\<close> that interleaves
  requests, agent messages, socket events, timers and the continuations of awaited
  promises. The locale \<open>store_inv\<close> of the previous theory is interpreted for the
  constraints of the store, for revocation and for one-time secrets.
\<close>

section \<open>Routes\<close>

datatype http_route =
  ProtectedResource | AuthorizationServer | Register | AuthorizeRoute | GitHubCallback | Token | Jwks
| Readyz | Mcp | Api

definition handleHttp :: "string \<Rightarrow> string \<Rightarrow> http_route option" where
  "handleHttp pathname meth =
     (if pathname = ''/.well-known/oauth-protected-resource'' \<and> meth = ''GET'' then Some ProtectedResource
      else if pathname = ''/.well-known/oauth-authorization-server'' \<and> meth = ''GET'' then Some AuthorizationServer
      else if pathname = ''/oauth/register'' \<and> meth = ''POST'' then Some Register
      else if pathname = ''/oauth/authorize'' \<and> meth = ''GET'' then Some AuthorizeRoute
      else if pathname = ''/oauth/callback/github'' \<and> meth = ''GET'' then Some GitHubCallback
      else if pathname = ''/oauth/token'' \<and> meth = ''POST'' then Some Token
      else if pathname = ''/oauth/jwks.json'' \<and> meth = ''GET'' then Some Jwks
      else if pathname = ''/readyz'' \<and> meth = ''GET'' then Some Readyz
      else if pathname = ''/mcp'' then Some Mcp
      else if startsWith pathname ''/api/agents'' \<or> pathname = ''/api/audit'' then Some Api
      else None)"

definition cattempt :: "('s, 'e, 'a) op \<Rightarrow> ('s, 'e, 'a option) op" where
  "cattempt m s = (case m s of (s', Inl _) \<Rightarrow> (s', Inr None) | (s', Inr x) \<Rightarrow> (s', Inr (Some x)))"

lemma keeps_cattempt [triples]: "keeps P m \<Longrightarrow> keeps P (cattempt m)"
  by (auto simp: triple_def cattempt_def split: prod.splits sum.splits)

type_synonym body = "cp_error + (string \<times> json) list"

datatype mcp_reply =
    McpNoContent
  | McpUnauthorized
  | McpInitialize
  | McpTools "(RemoteToolName \<times> RemoteCapability) list"
  | McpResult tool_reply
  | McpUnknownTool
  | McpMethodNotFound

definition handleMcp ::
  "cp_env \<Rightarrow> RemoteConfig \<Rightarrow> int \<Rightarrow> string \<Rightarrow> string option \<Rightarrow> body \<Rightarrow> mcp_reply cp" where
  "handleMcp env cfg now meth authorization body =
     (if meth = ''OPTIONS'' then creturn McpNoContent
      else if meth \<noteq> ''POST'' then creturn McpUnauthorized
      else cbind (cattempt (authenticate env cfg now authorization)) (\<lambda>auth.
        case auth of
          None \<Rightarrow> creturn McpUnauthorized
        | Some p \<Rightarrow>
            cbind (cresult body) (\<lambda>es.
              let rpc = or_else (str_prop es ''method'') '''' in
              if rpc = ''initialize'' then creturn McpInitialize
              else if rpc = ''tools/list'' then
                creturn (McpTools (listRemoteToolDescriptors (pr_capabilities p)))
              else if rpc = ''tools/call'' then
                let params = (case jprop es ''params'' of JObj ps \<Rightarrow> ps | _ \<Rightarrow> []);
                    args = (case jprop params ''arguments'' of JObj as \<Rightarrow> as | _ \<Rightarrow> []) in
                case tool_of_name (or_else (str_prop params ''name'') '''') of
                  None \<Rightarrow> creturn McpUnknownTool
                | Some tool \<Rightarrow> cbind (callRemoteTool env cfg now p tool args) (\<lambda>r. creturn (McpResult r))
              else creturn McpMethodNotFound)))"

datatype api_reply =
    ApiEnrolled enroll_response
  | ApiToken install_command string
  | ApiAgents "agent_view list"
  | ApiAgent agent_view
  | ApiAwaitBody
  | ApiEvents "AuditEvent list"
  | ApiNotFound

text \<open>The regular expression \<open>^/api/agents/([^/]+)(?:/(policy|revoke))?$\<close>.\<close>

definition agent_route :: "string \<Rightarrow> (string \<times> string option) option" where
  "agent_route pathname =
     (if startsWith pathname ''/api/agents/'' then
        (case split_on (CHR ''/'') (drop 12 pathname) of
           [a] \<Rightarrow> if a = [] then None else Some (a, None)
         | [a, b] \<Rightarrow> if a = [] \<or> b \<notin> {''policy'', ''revoke''} then None else Some (a, Some b)
         | _ \<Rightarrow> None)
      else None)"

definition api_tail :: "RemotePrincipal \<Rightarrow> string \<Rightarrow> string \<Rightarrow> string option \<Rightarrow> api_reply cp" where
  "api_tail p meth pathname limit =
     (if pathname = ''/api/audit'' \<and> meth = ''GET'' then
        cbind (crequire (case limit of None \<Rightarrow> Some 50 | Some l \<Rightarrow> js_number (JStr l)) (RuntimeError ''datatype mismatch'')) (\<lambda>n.
        cbind (cget store) (\<lambda>st. creturn (ApiEvents (listAudit (pr_userId p) None n st))))
      else creturn ApiNotFound)"

text \<open>The routes of one agent; a \<open>PATCH\<close> request has found its agent and waits for its body.\<close>

definition api_agent ::
  "cp_env \<Rightarrow> int \<Rightarrow> RemotePrincipal \<Rightarrow> string \<Rightarrow> string \<Rightarrow> string option \<Rightarrow> string \<Rightarrow> string option \<Rightarrow> api_reply cp" where
  "api_agent env now p meth pathname limit v sub =
     cbind (cget (\<lambda>s. resolveAgent (pr_userId p) v (store s))) (\<lambda>found.
     cbind (crequire found (safeError AGENT_NOT_FOUND ''Agent not found'' 404)) (\<lambda>agent.
       if sub = None \<and> meth = ''GET'' then creturn (ApiAgent (sanitizeAgent agent))
       else if (sub = None \<or> sub = Some ''policy'') \<and> meth = ''PATCH'' then
         cseq (cmodify (\<lambda>s. s\<lparr>patching := patching s @ [(p, agent)]\<rparr>)) (creturn ApiAwaitBody)
       else if sub = Some ''revoke'' \<and> meth = ''POST'' then
         cbind (revokeAgent env now p agent) (\<lambda>a. creturn (ApiAgent (sanitizeAgent a)))
       else api_tail p meth pathname limit))"

definition handleApi ::
  "cp_env \<Rightarrow> RemoteConfig \<Rightarrow> int \<Rightarrow> string \<Rightarrow> string \<Rightarrow> string option \<Rightarrow> body \<Rightarrow> string option \<Rightarrow> api_reply cp" where
  "handleApi env cfg now meth pathname authorization body limit =
     (if pathname = ''/api/agents/enroll'' \<and> meth = ''POST'' then
        cbind (cresult body) (\<lambda>es. cbind (handleAgentEnroll env cfg now es) (\<lambda>r. creturn (ApiEnrolled r)))
      else cbind (authenticate env cfg now authorization) (\<lambda>p.
        if pathname = ''/api/agents/enrollment-tokens'' \<and> meth = ''POST'' then
          cbind (cresult body) (\<lambda>es.
          cbind (createEnrollmentToken env cfg now p es) (\<lambda>(ic, token). creturn (ApiToken ic token)))
        else if pathname = ''/api/agents'' \<and> meth = ''GET'' then
          cbind (cget (\<lambda>s. listAgents (pr_userId p) (store s))) (\<lambda>as. creturn (ApiAgents (map sanitizeAgent as)))
        else case agent_route pathname of
          None \<Rightarrow> api_tail p meth pathname limit
        | Some (v, sub) \<Rightarrow> api_agent env now p meth pathname limit v sub))"

definition finishApiPatch ::
  "cp_env \<Rightarrow> RemoteConfig \<Rightarrow> int \<Rightarrow> RemotePrincipal \<times> RemoteAgentRecord \<Rightarrow> body \<Rightarrow> api_reply cp" where
  "finishApiPatch env cfg now w body =
     cseq (cmodify (\<lambda>s. s\<lparr>patching := remove1 w (patching s)\<rparr>))
    (cbind (cresult body) (\<lambda>es.
     cbind (updateAgentPolicy env cfg now (fst w) (snd w) (jprop es ''policy'')) (\<lambda>a.
       creturn (ApiAgent (sanitizeAgent a)))))"

section \<open>Steps\<close>

datatype cp_call =
    CRegister body
  | CAuthorize "(string \<times> string) option" params
  | CCallback params
  | CFetched "string \<times> PendingAuthorize" string string
  | CToken params
  | CMcp string "string option" body
  | CApi string string "string option" body "string option"
  | CPatchBody "RemotePrincipal \<times> RemoteAgentRecord" body
  | CConnect nat
  | CText nat "json option"
  | CSocketClose nat
  | CTimer
  | CFire string
  | CSettle "ActionRecord \<times> settlement"
  | CShutdown

datatype cp_reply =
    RClient OAuthClient
  | RRedirect redirect
  | RToken token_response
  | RMcp mcp_reply
  | RApi api_reply
  | RResult ActionResultEnvelope
  | RNone

definition creply :: "('a \<Rightarrow> cp_reply) \<Rightarrow> 'a cp \<Rightarrow> cp_reply cp" where
  "creply f m = cbind m (\<lambda>x. creturn (f x))"

fun exec :: "cp_env \<Rightarrow> RemoteConfig \<Rightarrow> int \<Rightarrow> cp_call \<Rightarrow> cp_reply cp" where
  "exec env cfg now (CRegister b) = cbind (cresult b) (\<lambda>es. creply RClient (handleRegister env cfg now es))"
| "exec env cfg now (CAuthorize tu q) = creply RRedirect (handleAuthorize env cfg now tu q)"
| "exec env cfg now (CCallback q) = creply (\<lambda>_. RNone) (handleGitHubCallback now q)"
| "exec env cfg now (CFetched f g l) = creply RRedirect (finishGitHubCallback env cfg now f g l)"
| "exec env cfg now (CToken b) = creply RToken (handleToken env cfg now b)"
| "exec env cfg now (CMcp m a b) = creply RMcp (handleMcp env cfg now m a b)"
| "exec env cfg now (CApi m pa a b l) = creply RApi (handleApi env cfg now m pa a b l)"
| "exec env cfg now (CPatchBody w b) = creply RApi (finishApiPatch env cfg now w b)"
| "exec env cfg now (CConnect c) = creply (\<lambda>_. RNone) (accept_connection c)"
| "exec env cfg now (CText c v) = creply (\<lambda>_. RNone) (on_text env now c v)"
| "exec env cfg now (CSocketClose c) = creply (\<lambda>_. RNone) (ws_handleClose env now c)"
| "exec env cfg now CTimer = creply (\<lambda>_. RNone) (cleanupEphemeralState now)"
| "exec env cfg now (CFire i) = creply (\<lambda>_. RNone) (fire_timeout i)"
| "exec env cfg now (CSettle w) =
     cseq (cmodify (\<lambda>s. s\<lparr>settled := remove1 w (settled s)\<rparr>)) (creply RResult (finishAction env now (fst w) (snd w)))"
| "exec env cfg now CShutdown = creply (\<lambda>_. RNone) (close_control_plane env now)"

text \<open>When a call can happen: a continuation needs what it waits for, a connection a fresh number,
  a message an open connection, a timer its time.\<close>

fun enabled :: "control_plane \<Rightarrow> int \<Rightarrow> cp_call \<Rightarrow> bool" where
  "enabled s now (CFetched f g l) = (f \<in> set (fetching s))"
| "enabled s now (CPatchBody w b) = (w \<in> set (patching s))"
| "enabled s now (CConnect c) = (jm_get (conns s) c = None)"
| "enabled s now (CText c v) = (jm_get (conns s) c \<noteq> None)"
| "enabled s now (CSocketClose c) = (jm_get (conns s) c \<noteq> None)"
| "enabled s now (CFire i) = (case jm_get (pendingActions s) i of None \<Rightarrow> False | Some p \<Rightarrow> pa_fires p \<le> now)"
| "enabled s now (CSettle w) = (w \<in> set (settled s))"
| "enabled s now _ = True"

type_synonym cp_event = "int \<times> cp_call \<times> (cp_error + cp_reply)"

inductive cp_step :: "cp_env \<Rightarrow> RemoteConfig \<Rightarrow> control_plane \<Rightarrow> cp_event \<Rightarrow> control_plane \<Rightarrow> bool" for env cfg where
  cp_step: "enabled s now call \<Longrightarrow> exec env cfg now call s = (s', r) \<Longrightarrow> cp_step env cfg s (now, call, r) s'"

inductive_simps cp_step_iff: "cp_step env cfg s (now, call, r) s'"

section \<open>Store invariants along runs\<close>

definition is_patch :: "cp_event \<Rightarrow> bool" where
  "is_patch e = (case e of (_, CPatchBody _ _, _) \<Rightarrow> True | _ \<Rightarrow> False)"

lemma keeps_creply [triples]: "keeps P m \<Longrightarrow> keeps P (creply f m)"
  unfolding creply_def by (intro triples)

context store_inv
begin

lemma handleMcp_keeps: "keeps QS (handleMcp env cfg now m a b)"
  unfolding handleMcp_def Let_def by (intro triples callRemoteTool_keeps) auto

lemma api_tail_keeps [triples]: "keeps QS (api_tail p m pa l)"
  unfolding api_tail_def by (intro triples) auto

lemma api_revoke_keeps:
  "triple (\<lambda>s. QS s \<and> resolveAgent u v (store s) = Some agent) (revokeAgent env now p agent) (\<lambda>_. QS) QS"
  by (rule triple_pre [OF revokeAgent_keeps [where i = "ag_id agent"]]) (auto dest: wf resolveAgent_current)

lemma api_agent_keeps [triples]: "keeps QS (api_agent env now p m pa l v sub)"
  unfolding api_agent_def
proof (intro flows)
  fix found and agent :: RemoteAgentRecord
  assume f: "found = Some agent"
  let ?P = "\<lambda>s. QS s \<and> resolveAgent (pr_userId p) v (store s) = found"
  show "triple ?P (creturn (ApiAgent (sanitizeAgent agent))) (\<lambda>_. QS) QS"
    by (rule triple_creturn) simp
  show "triple ?P (cseq (cmodify (\<lambda>s. s\<lparr>patching := patching s @ [(p, agent)]\<rparr>)) (creturn ApiAwaitBody)) (\<lambda>_. QS) QS"
    by (rule triple_cseq [where R = QS], rule triple_cmodify, simp, rule triple_creturn)
  show "triple ?P (cbind (revokeAgent env now p agent) (\<lambda>a. creturn (ApiAgent (sanitizeAgent a)))) (\<lambda>_. QS) QS"
    unfolding f by (rule triple_cbind [OF api_revoke_keeps], rule triple_creturn)
  show "triple ?P (api_tail p m pa l) (\<lambda>_. QS) QS"
    by (rule triple_pre [OF api_tail_keeps]) simp
qed simp

lemma handleApi_keeps: "keeps QS (handleApi env cfg now m pa a b l)"
  unfolding handleApi_def by (intro triples handleAgentEnroll_keeps createEnrollmentToken_keeps) auto

lemma exec_keeps: "\<not> (\<exists>w b. call = CPatchBody w b) \<Longrightarrow> keeps QS (exec env cfg now call)"
  by (cases call)
    (auto intro!: triples keeps_other handleRegister_keeps handleAuthorize_keeps handleGitHubCallback_keeps
       finishGitHubCallback_keeps handleToken_keeps handleMcp_keeps handleApi_keeps accept_connection_keeps
       on_text_keeps ws_handleClose_keeps fire_timeout_keeps finishAction_keeps close_keeps)

lemma step_keeps: "cp_step env cfg s e s' \<Longrightarrow> \<not> is_patch e \<Longrightarrow> QS s \<Longrightarrow> QS s'"
  by (erule cp_step.cases) (auto simp: is_patch_def dest!: keepsD [OF exec_keeps, rotated 2])

lemma run_keeps:
  "run (cp_step env cfg) s es s' \<Longrightarrow> \<forall>e \<in> set es. \<not> is_patch e \<Longrightarrow> QS s \<Longrightarrow> QS s'"
  by (induction rule: run.induct) (auto intro: step_keeps)

end

text \<open>Invariants that do not depend on what is written to an agent hold along every run.\<close>

locale store_inv_any = store_inv +
  assumes any_agent: "Q st \<Longrightarrow> updateAgent a st = Inr st' \<Longrightarrow> Q st'"
begin

lemma finishApiPatch_keeps: "keeps QS (finishApiPatch env cfg now w b)"
  unfolding finishApiPatch_def updateAgentPolicy_def Let_def
  by (intro triples keeps_other keeps_store) (auto intro: any_agent)

lemma step_keeps_any: "cp_step env cfg s e s' \<Longrightarrow> QS s \<Longrightarrow> QS s'"
proof (erule cp_step.cases)
  fix t now call t' r
  assume "QS s" "s = t" "s' = t'" "exec env cfg now call t = (t', r)"
  moreover have "keeps QS (exec env cfg now call)"
  proof (cases "\<exists>w b. call = CPatchBody w b")
    case True
    then obtain w b where "call = CPatchBody w b" by blast
    then show ?thesis using keeps_creply [OF finishApiPatch_keeps] by simp
  qed (rule exec_keeps)
  ultimately show "QS s'" using keepsD [of QS "exec env cfg now call" t t' r] by simp
qed

sublocale invariant_system "\<lambda>s. QS s" "cp_step env cfg" "\<lambda>s. QS s" for env cfg
  by unfold_locales (assumption, rule step_keeps_any)

end

text \<open>Operations that leave a table alone.\<close>

lemma store_frame:
  "upsertUser i g l t st = Inr st' \<Longrightarrow> codes st' = codes st \<and> agents st' = agents st \<and> tokens st' = tokens st"
  "insertClient c st = Inr st' \<Longrightarrow> codes st' = codes st \<and> agents st' = agents st \<and> tokens st' = tokens st"
  "insertAuthorizationCode ac st = Inr st' \<Longrightarrow> agents st' = agents st \<and> tokens st' = tokens st"
  "markAuthorizationCodeUsed h t st = Inr st' \<Longrightarrow> agents st' = agents st \<and> tokens st' = tokens st"
  "insertAgent a st = Inr st' \<Longrightarrow> codes st' = codes st \<and> tokens st' = tokens st"
  "updateAgent a st = Inr st' \<Longrightarrow> codes st' = codes st \<and> tokens st' = tokens st"
  "insertEnrollmentToken et st = Inr st' \<Longrightarrow> codes st' = codes st \<and> agents st' = agents st"
  "markEnrollmentTokenUsed h t st = Inr st' \<Longrightarrow> codes st' = codes st \<and> agents st' = agents st"
  "insertAction act st = Inr st' \<Longrightarrow> codes st' = codes st \<and> agents st' = agents st \<and> tokens st' = tokens st"
  "codes (updateAction act st) = codes st \<and> agents (updateAction act st) = agents st \<and> tokens (updateAction act st) = tokens st"
  "insertAudit ev st = Inr st' \<Longrightarrow> codes st' = codes st \<and> agents st' = agents st \<and> tokens st' = tokens st"
  by (auto simp: upsertUser_def insertClient_def insertAuthorizationCode_def markAuthorizationCodeUsed_def
      insertAgent_def updateAgent_def insertEnrollmentToken_def markEnrollmentTokenUsed_def insertAction_def
      updateAction_def insertAudit_def Let_def split: if_splits)

lemma find_append: "find P (xs @ ys) = (case find P xs of None \<Rightarrow> find P ys | Some x \<Rightarrow> Some x)"
  by (induction xs) auto

lemma insert_row_find:
  "insert_row clash tbl r rows = Inr rows' \<Longrightarrow> find P rows = Some x \<Longrightarrow> find P rows' = Some x"
  by (auto simp: insert_row_def find_append split: if_splits)

interpretation wf_inv: store_inv_any store_wf
  by unfold_locales (auto intro: store_ops_wf)

text \<open>A spent authorization code stays spent.\<close>

lemma spent_code_frame: "auth_code.spent h st \<Longrightarrow> codes st' = codes st \<Longrightarrow> auth_code.spent h st'"
  by (simp add: auth_code.spent_def getAuthorizationCodeByHash_def)

lemma spent_code_insert: "insertAuthorizationCode ac st = Inr st' \<Longrightarrow> auth_code.spent h st \<Longrightarrow> auth_code.spent h st'"
  by (auto simp: auth_code.spent_def getAuthorizationCodeByHash_def insertAuthorizationCode_def dest: insert_row_find)

text \<open>A predicate on the tables of codes, agents and tokens needs to be checked for the operations
  on these tables only.\<close>

lemma store_invI:
  assumes cong: "\<And>st st'. R st \<Longrightarrow> codes st' = codes st \<Longrightarrow> agents st' = agents st \<Longrightarrow> tokens st' = tokens st \<Longrightarrow> R st'"
    and "\<And>st st' ac. store_wf st \<Longrightarrow> R st \<Longrightarrow> insertAuthorizationCode ac st = Inr st' \<Longrightarrow> R st'"
    and "\<And>st st' h t. store_wf st \<Longrightarrow> R st \<Longrightarrow> markAuthorizationCodeUsed h t st = Inr st' \<Longrightarrow> R st'"
    and "\<And>st st' a. store_wf st \<Longrightarrow> R st \<Longrightarrow> insertAgent a st = Inr st' \<Longrightarrow> R st'"
    and "\<And>st st' a. store_wf st \<Longrightarrow> R st \<Longrightarrow> agent_update_ok a st \<Longrightarrow> updateAgent a st = Inr st' \<Longrightarrow> R st'"
    and "\<And>st st' et. store_wf st \<Longrightarrow> R st \<Longrightarrow> insertEnrollmentToken et st = Inr st' \<Longrightarrow> R st'"
    and "\<And>st st' h t. store_wf st \<Longrightarrow> R st \<Longrightarrow> markEnrollmentTokenUsed h t st = Inr st' \<Longrightarrow> R st'"
  shows "store_inv (\<lambda>st. store_wf st \<and> R st)"
proof
  fix st st'
  assume Q: "store_wf st \<and> R st"
  show "store_wf st" using Q by simp
  show "store_wf st' \<and> R st'" if "upsertUser i g l t st = Inr st'" for i g l t
    using Q cong [of st st'] store_frame(1) [OF that] upsertUser_wf [OF _ that] by simp
  show "store_wf st' \<and> R st'" if "insertClient c st = Inr st'" for c
    using Q cong [of st st'] store_frame(2) [OF that] insertClient_wf [OF _ that] by simp
  show "store_wf st' \<and> R st'" if "insertAuthorizationCode ac st = Inr st'" for ac
    using Q assms(2) [OF _ _ that] insertAuthorizationCode_wf [OF _ that] by simp
  show "store_wf st' \<and> R st'" if "markAuthorizationCodeUsed h t st = Inr st'" for h t
    using Q assms(3) [OF _ _ that] markAuthorizationCodeUsed_wf [OF _ that] by simp
  show "store_wf st' \<and> R st'" if "insertAgent a st = Inr st'" for a
    using Q assms(4) [OF _ _ that] insertAgent_wf [OF _ that] by simp
  show "store_wf st' \<and> R st'" if "agent_update_ok a st" "updateAgent a st = Inr st'" for a
    using Q assms(5) [OF _ _ that] updateAgent_wf [OF _ that(2)] by simp
  show "store_wf st' \<and> R st'" if "insertEnrollmentToken et st = Inr st'" for et
    using Q assms(6) [OF _ _ that] insertEnrollmentToken_wf [OF _ that] by simp
  show "store_wf st' \<and> R st'" if "markEnrollmentTokenUsed h t st = Inr st'" for h t
    using Q assms(7) [OF _ _ that] markEnrollmentTokenUsed_wf [OF _ that] by simp
  show "store_wf st' \<and> R st'" if "insertAction act st = Inr st'" for act
    using Q cong [of st st'] store_frame(9) [OF that] insertAction_wf [OF _ that] by simp
  show "store_wf (updateAction act st) \<and> R (updateAction act st)" for act
    using Q cong [of st "updateAction act st"] store_frame(10) [of act st] updateAction_wf by simp
  show "store_wf st' \<and> R st'" if "insertAudit ev st = Inr st'" for ev
    using Q cong [of st st'] store_frame(11) [OF that] insertAudit_wf [OF _ that] by simp
qed

lemma store_inv_anyI:
  assumes "store_inv (\<lambda>st. store_wf st \<and> R st)"
    and "\<And>st st' a. R st \<Longrightarrow> updateAgent a st = Inr st' \<Longrightarrow> R st'"
  shows "store_inv_any (\<lambda>st. store_wf st \<and> R st)"
  using assms by (intro store_inv_any.intro store_inv_any_axioms.intro) (auto intro: updateAgent_wf)

lemma spent_code_inv: "store_inv (\<lambda>st. store_wf st \<and> auth_code.spent h st)"
proof (rule store_invI)
  fix st st' hh t
  show "auth_code.spent h st'"
    if "store_wf st" "auth_code.spent h st" "markAuthorizationCodeUsed hh t st = Inr st'"
    using that by (blast intro: auth_code.mark_keeps_spent)
qed (erule spent_code_frame spent_code_insert [rotated]; (assumption | blast dest: store_frame(1-9,11)))+

interpretation code_inv: store_inv_any "\<lambda>st. store_wf st \<and> auth_code.spent h st" for h
  by (rule store_inv_anyI [OF spent_code_inv]) (blast intro: spent_code_frame dest: store_frame(6))

text \<open>A spent enrollment token stays spent.\<close>

lemma spent_token_frame: "enroll_token.spent h st \<Longrightarrow> tokens st' = tokens st \<Longrightarrow> enroll_token.spent h st'"
  by (simp add: enroll_token.spent_def getEnrollmentTokenByHash_def)

lemma spent_token_insert: "insertEnrollmentToken et st = Inr st' \<Longrightarrow> enroll_token.spent h st \<Longrightarrow> enroll_token.spent h st'"
  by (auto simp: enroll_token.spent_def getEnrollmentTokenByHash_def insertEnrollmentToken_def dest: insert_row_find)

lemma spent_token_inv: "store_inv (\<lambda>st. store_wf st \<and> enroll_token.spent h st)"
proof (rule store_invI)
  fix st st' hh t
  show "enroll_token.spent h st'"
    if "store_wf st" "enroll_token.spent h st" "markEnrollmentTokenUsed hh t st = Inr st'"
    using that by (blast intro: enroll_token.mark_keeps_spent)
qed (erule spent_token_frame spent_token_insert [rotated]; (assumption | blast dest: store_frame(1-9,11)))+

interpretation token_inv: store_inv_any "\<lambda>st. store_wf st \<and> enroll_token.spent h st" for h
  by (rule store_inv_anyI [OF spent_token_inv]) (blast intro: spent_token_frame dest: store_frame(6))

text \<open>A revoked agent stays revoked, unless a stale record is written back.\<close>

definition revoked :: "string \<Rightarrow> remote_store \<Rightarrow> bool" where
  "revoked i st \<longleftrightarrow> (\<exists>a. getAgent i st = Some a \<and> ag_status a = Revoked)"

lemma revoked_frame: "revoked i st \<Longrightarrow> agents st' = agents st \<Longrightarrow> revoked i st'"
  by (simp add: revoked_def getAgent_def)

lemma revoked_insert: "insertAgent a st = Inr st' \<Longrightarrow> revoked i st \<Longrightarrow> revoked i st'"
  by (auto simp: revoked_def dest: getAgent_insertAgent)

lemma revoked_update:
  "revoked i st \<Longrightarrow> agent_update_ok a st \<Longrightarrow> updateAgent a st = Inr st' \<Longrightarrow> revoked i st'"
  by (cases "i = ag_id a") (auto simp: revoked_def getAgent_updateAgent agent_update_ok_def)

interpretation revoked_inv: store_inv "\<lambda>st. store_wf st \<and> revoked i st" for i
  by (rule store_invI)
    (blast intro: revoked_update revoked_insert revoked_frame dest: store_frame(1-9,11))+

end
