(* ===== verification/ControlProperties.thy ===== *)
theory ControlProperties
  imports ControlSystem
begin

text \<open>
  What the control plane guarantees: tokens and codes, enrollment, revocation, isolation of
  users, dispatch of actions, acceptance of results, and the replay windows; with the places
  where a guarantee has a gap.
\<close>

section \<open>A sample control plane\<close>

definition sample_cp_env :: cp_env where
  "sample_cp_env = \<lparr>crypto = sample_crypto, zod_datetime = (\<lambda>s. endsWith s ''Z''),
     url_parse = (\<lambda>u. if startsWith u ''https://'' then Some (''https:'', drop 8 u) else None),
     ed25519_key = (\<lambda>k. True), jwt_sign = cl_jti,
     jwt_verify = (\<lambda>t iss aud now. Some \<lparr>jwt_sub = ''github:7'', jwt_jti = t,
       jwt_scope = Some ''hosts:read agents:admin status:read'', jwt_github_id = Some ''7'', jwt_github_login = Some ''ada''\<rparr>),
     rand_id = show_nat, rand_token = (\<lambda>n. ''token-'' @ show_nat n @ ''-abcdefghij'')\<rparr>"

definition sample_cp_config :: RemoteConfig where
  "sample_cp_config = \<lparr>publicBaseUrl = ''https://cp'', mcpResourceUrl = ''https://cp/mcp'', githubClientId = None,
     githubClientSecret = None, allowAllUsers = False, allowedGitHubLogins = [''ada''], allowedGitHubIds = [],
     accessTokenTtlSeconds = 900, authCodeTtlSeconds = 300, enrollmentTokenTtlSeconds = 600,
     agentWsPath = ''/api/agents/connect'', cfg_maxActionTimeoutSeconds = 120, cfg_maxOutputBytes = 200000,
     maxOAuthClients = 100, cp_privateKey = ''priv'', cp_publicKey = ''pub''\<rparr>"

definition sample_agent :: RemoteAgentRecord where
  "sample_agent = \<lparr>ag_id = ''agt_1'', ag_userId = ''github:7'', ag_alias = ''web'', ag_status = Online,
     ag_publicKey = Some ''akey'', ag_profile = ReadOnly, ag_policy = createAgentPolicy ReadOnly,
     ag_policyVersion = 1, ag_hostMetadata = None, ag_lastSeenAt = None, ag_createdAt = 0, ag_updatedAt = 0\<rparr>"

definition sample_code :: OAuthAuthorizationCode where
  "sample_code = \<lparr>ac_id = ''code_1'', ac_codeHash = ''hsecret'', ac_clientId = ''cli_1'', ac_userId = ''github:7'',
     ac_redirectUri = ''https://app/cb'', ac_codeChallenge = ''hverifier'', ac_resource = ''https://cp/mcp'',
     ac_scope = ''hosts:read status:read'', ac_expiresAt = 300000, ac_usedAt = None, ac_createdAt = 0\<rparr>"

definition sample_store :: remote_store where
  "sample_store = empty_store\<lparr>
     users := [\<lparr>us_id = ''github:7'', us_githubId = ''7'', us_githubLogin = ''ada'', us_createdAt = 0, us_updatedAt = 0\<rparr>],
     clients := [\<lparr>oc_id = ''clirow_1'', oc_clientId = ''cli_1'', oc_clientName = ''app'',
       oc_redirectUris = [''https://app/cb''], oc_grantTypes = [''authorization_code''], oc_responseTypes = [''code''], oc_createdAt = 0\<rparr>],
     codes := [sample_code], agents := [sample_agent]\<rparr>"

definition sample_state :: control_plane where
  "sample_state = new_control_plane\<lparr>store := sample_store,
     agentConnections := [(''agt_1'', \<lparr>live_agent = sample_agent, live_conn = 0, seenNonces = []\<rparr>)],
     conns := [(0, \<lparr>ws_closed = False, ws_notified = False, ws_handlers = [(''agt_1'', ''github:7'')]\<rparr>)],
     drawn := 10\<rparr>"

definition sample_token_body :: params where
  "sample_token_body = (\<lambda>k. map_of [(''grant_type'', ''authorization_code''), (''client_id'', ''cli_1''),
     (''code'', ''secret''), (''redirect_uri'', ''https://app/cb''), (''code_verifier'', ''verifier'')] k)"

lemma sample_store_wf: "store_wf (store sample_state)"
  by (simp add: sample_state_def sample_store_def store_wf_def empty_store_def table_wf_def)

lemma exec_step: "enabled s now call \<Longrightarrow> cp_step env cfg s (now, call, snd (exec env cfg now call s)) (fst (exec env cfg now call s))"
  by (rule cp_step) simp_all

lemma ok_run_iff: "is_ok (snd p) \<longleftrightarrow> (\<exists>s r. p = (s, Inr r))"
  by (cases p) (auto simp: is_ok_iff)

section \<open>Tokens\<close>

lemma cstore_ok [simp]: "cstore f s = (s', Inr u) \<longleftrightarrow> (\<exists>st. f (store s) = Inr st \<and> s' = s\<lparr>store := st\<rparr>)"
  by (auto simp: cstore_def split: sum.splits)

lemma check_Inr [simp]:
  "(if b then Inl e else Inr x) = Inr y \<longleftrightarrow> \<not> b \<and> x = y"
  "(case v of None \<Rightarrow> Inl e | Some x \<Rightarrow> Inr x) = Inr z \<longleftrightarrow> v = Some z"
  by (auto split: option.splits)

lemma cfail_with_ok [simp]: "cfail_with m e s = (s', Inr x) \<longleftrightarrow> m s = (s', Inr x)"
  by (auto simp: cfail_with_def split: prod.splits sum.splits)

lemma cresult_ok [simp]: "cresult r s = (s', Inr x) \<longleftrightarrow> r = Inr x \<and> s' = s"
  by (auto simp: cresult_def)

lemma new_id_run: "new_id env pre s = (s\<lparr>drawn := drawn s + 1\<rparr>, Inr (pre @ ''_'' @ rand_id env (drawn s)))"
  by (simp add: new_id_def cbind_def cseq_def)

lemma randomToken_run: "randomToken env s = (s\<lparr>drawn := drawn s + 1\<rparr>, Inr (rand_token env (drawn s)))"
  by (simp add: randomToken_def cbind_def cseq_def)

definition code_hash :: "cp_env \<Rightarrow> params \<Rightarrow> string" where
  "code_hash env body = hashSecret (crypto env) (or_else (body ''code'') '''')"

lemma handleToken_ok:
  assumes "handleToken env cfg now body s = (s', Inr r)"
  obtains c user scopes where "body ''grant_type'' = Some ''authorization_code''"
    and "getClient (or_else (body ''client_id'') '''') (store s) \<noteq> None"
    and "getAuthorizationCodeByHash (code_hash env body) (store s) = Some c"
    and "ac_clientId c = or_else (body ''client_id'') ''''" and "ac_redirectUri c = or_else (body ''redirect_uri'') ''''"
    and "ac_usedAt c = None" and "now \<le> ac_expiresAt c"
    and "or_else (body ''code_verifier'') '''' \<noteq> []"
    and "pkceChallenge env (or_else (body ''code_verifier'') '''') = ac_codeChallenge c"
    and "userFromId (ac_userId c) (store s) = Some user" and "scopeList (ac_scope c) = Inr scopes"
    and "markAuthorizationCodeUsed (ac_codeHash c) now (store s) = Inr (store s')"
    and "tr_claims r = access_claims cfg now (''tok_'' @ rand_id env (drawn s)) user scopes"
    and "access_token r = jwt_sign env (tr_claims r)"
  using assms unfolding handleToken_def Let_def code_hash_def
  by (elim cbind_okE cseq_okE) (auto simp: issueAccessToken_def new_id_run Let_def cbind_def)

text \<open>
  C20: the token endpoint is sound. It issues an access token only for a stored, unused,
  unexpired authorization code presented by the client it was issued to, with the redirect
  URI of the authorization request and a PKCE verifier whose S256 hash is the stored
  challenge; the code is then marked as used, and the token names the user of the code, the
  scopes that were authorised (or the default ones) and this server as issuer and audience.
\<close>

theorem handleToken_sound:
  assumes "handleToken env cfg now body s = (s', Inr r)"
  shows "\<exists>c user scopes. getAuthorizationCodeByHash (code_hash env body) (store s) = Some c \<and>
    ac_clientId c = or_else (body ''client_id'') '''' \<and> ac_redirectUri c = or_else (body ''redirect_uri'') '''' \<and>
    ac_usedAt c = None \<and> now \<le> ac_expiresAt c \<and>
    sha256Base64Url (crypto env) (or_else (body ''code_verifier'') '''') = ac_codeChallenge c \<and>
    markAuthorizationCodeUsed (ac_codeHash c) now (store s) = Inr (store s') \<and>
    userFromId (ac_userId c) (store s) = Some user \<and> scopeList (ac_scope c) = Inr scopes \<and>
    cl_subject (tr_claims r) = us_id user \<and> cl_scope (tr_claims r) = join '' '' scopes \<and>
    cl_issuer (tr_claims r) = publicBaseUrl cfg \<and> cl_audience (tr_claims r) = mcpResourceUrl cfg \<and>
    cl_exp (tr_claims r) = now div 1000 + accessTokenTtlSeconds cfg \<and> access_token r = jwt_sign env (tr_claims r)"
proof -
  obtain c user scopes where "getAuthorizationCodeByHash (code_hash env body) (store s) = Some c"
    "ac_clientId c = or_else (body ''client_id'') ''''" "ac_redirectUri c = or_else (body ''redirect_uri'') ''''"
    "ac_usedAt c = None" "now \<le> ac_expiresAt c"
    "pkceChallenge env (or_else (body ''code_verifier'') '''') = ac_codeChallenge c"
    "userFromId (ac_userId c) (store s) = Some user" "scopeList (ac_scope c) = Inr scopes"
    "markAuthorizationCodeUsed (ac_codeHash c) now (store s) = Inr (store s')"
    "tr_claims r = access_claims cfg now (''tok_'' @ rand_id env (drawn s)) user scopes"
    "access_token r = jwt_sign env (tr_claims r)"
    using assms by (rule handleToken_ok)
  then show ?thesis by (intro exI [of _ c] exI [of _ user] exI [of _ scopes]) (simp add: access_claims_def pkceChallenge_def)
qed

lemma sample_token_ok: "is_ok (snd (handleToken sample_cp_env sample_cp_config 1000 sample_token_body sample_state))"
  by code_simp

theorem handleToken_sound_witness:
  "\<exists>s' r c. handleToken sample_cp_env sample_cp_config 1000 sample_token_body sample_state = (s', Inr r) \<and>
     getAuthorizationCodeByHash (code_hash sample_cp_env sample_token_body) (store sample_state) = Some c \<and>
     cl_audience (tr_claims r) = mcpResourceUrl sample_cp_config"
proof -
  obtain s' r where "handleToken sample_cp_env sample_cp_config 1000 sample_token_body sample_state = (s', Inr r)"
    using sample_token_ok by (metis is_ok_iff prod.collapse)
  with handleToken_sound [OF this] show ?thesis by blast
qed

lemma code_record_hash: "getAuthorizationCodeByHash h st = Some c \<Longrightarrow> ac_codeHash c = h"
  by (auto simp: getAuthorizationCodeByHash_def dest: find_SomeD)

lemma token_spends:
  assumes "store_wf (store s)" and "handleToken env cfg now body s = (s', Inr r)"
  shows "auth_code.spent (code_hash env body) (store s')"
proof -
  from assms(2) obtain c where c: "getAuthorizationCodeByHash (code_hash env body) (store s) = Some c"
    and m: "markAuthorizationCodeUsed (ac_codeHash c) now (store s) = Inr (store s')"
    by (rule handleToken_ok)
  have "ac_codeHash c = code_hash env body" using c by (rule code_record_hash)
  with auth_code.mark_spends [OF assms(1) m] show ?thesis by simp
qed

lemma spent_no_token:
  assumes "auth_code.spent (code_hash env body) (store s)"
  shows "handleToken env cfg now body s \<noteq> (s', Inr r)"
proof
  assume "handleToken env cfg now body s = (s', Inr r)"
  then obtain c where "getAuthorizationCodeByHash (code_hash env body) (store s) = Some c" "ac_usedAt c = None"
    by (rule handleToken_ok)
  with assms show False by (simp add: auth_code.spent_def)
qed

lemma exec_token_ok:
  "exec env cfg now (CToken b) s = (s', Inr r) \<longleftrightarrow> (\<exists>t. handleToken env cfg now b s = (s', Inr t) \<and> r = RToken t)"
  by (auto simp: creply_def cbind_def split: prod.splits sum.splits)

text \<open>
  C4: an authorization code is good for one token. Along every run of the control plane,
  whatever requests, messages and timers come in between, once a code has been exchanged for
  a token every later request with a code of the same hash is refused.
\<close>

theorem authorization_code_single_use:
  assumes "store_wf (store s0)"
    and "run (cp_step env cfg) s0 (es @ (t1, CToken b1, Inr r1) # fs) s"
    and "code_hash env b2 = code_hash env b1"
  shows "\<not> is_ok (snd (exec env cfg t2 (CToken b2) s))"
proof -
  obtain s1 s2 where s1: "run (cp_step env cfg) s0 es s1" "cp_step env cfg s1 (t1, CToken b1, Inr r1) s2"
    "run (cp_step env cfg) s2 fs s"
    using assms(2) by (auto simp: run_append)
  have wf: "store_wf (store s1)" by (rule wf_inv.inv_run [OF s1(1) assms(1)])
  obtain t where t: "handleToken env cfg t1 b1 s1 = (s2, Inr t)" using s1(2)
    by (auto simp: cp_step_iff exec_token_ok simp del: exec.simps)
  have "store_wf (store s2) \<and> auth_code.spent (code_hash env b1) (store s2)"
    using token_spends [OF wf t] wf_inv.step_keeps_any [OF s1(2)] wf by simp
  from code_inv.inv_run [OF s1(3) this] have "auth_code.spent (code_hash env b2) (store s)" by (simp add: assms(3))
  then show ?thesis using spent_no_token by (auto simp: ok_run_iff exec_token_ok simp del: exec.simps)
qed

theorem authorization_code_single_use_witness:
  "is_ok (snd (exec sample_cp_env sample_cp_config 1000 (CToken sample_token_body) sample_state)) \<and>
   \<not> is_ok (snd (exec sample_cp_env sample_cp_config 2000 (CToken sample_token_body)
     (fst (exec sample_cp_env sample_cp_config 1000 (CToken sample_token_body) sample_state))))"
proof -
  have ok: "is_ok (snd (exec sample_cp_env sample_cp_config 1000 (CToken sample_token_body) sample_state))"
    by code_simp
  then obtain r where "snd (exec sample_cp_env sample_cp_config 1000 (CToken sample_token_body) sample_state) = Inr r"
    by (auto simp: is_ok_iff)
  then have "run (cp_step sample_cp_env sample_cp_config) sample_state ([] @ (1000, CToken sample_token_body, Inr r) # [])
    (fst (exec sample_cp_env sample_cp_config 1000 (CToken sample_token_body) sample_state))"
    using exec_step [of sample_state 1000 "CToken sample_token_body" sample_cp_env sample_cp_config]
    by (simp del: exec.simps add: run_cons [OF _ run_nil])
  from authorization_code_single_use [OF sample_store_wf this refl] ok show ?thesis by blast
qed

section \<open>Enrollment\<close>

definition enroll_hash :: "cp_env \<Rightarrow> (string \<times> json) list \<Rightarrow> string" where
  "enroll_hash env body = hashSecret (crypto env) (or_else (str_prop body ''token'') '''')"

lemma handleAgentEnroll_ok:
  assumes "handleAgentEnroll env cfg now body s = (s', Inr r)"
  obtains et a k h where "getEnrollmentTokenByHash (enroll_hash env body) (store s) = Some et"
    and "et_usedAt et = None" and "now \<le> et_expiresAt et"
    and "getAgent (et_agentId et) (store s) = Some a" and "ag_status a \<noteq> Revoked"
    and "ed25519_key env k" and "str_prop body ''public_key'' = Some k" and "parseAgentHostMetadata (jprop body ''host'') = Some h"
    and "commit_enroll env cfg now et a k (Some h) s = (s', Inr r)"
  using assms unfolding handleAgentEnroll_def Let_def enroll_hash_def
  by (elim cbind_okE cseq_okE) (auto simp: or_else_def split: option.splits)

lemma audit_ok:
  "audit env now u a i t v m s = (s', Inr x) \<Longrightarrow> codes (store s') = codes (store s) \<and> agents (store s') = agents (store s) \<and>
     tokens (store s') = tokens (store s)"
  unfolding audit_def by (elim cbind_okE) (auto simp: new_id_run dest: store_frame(11))

lemma commit_enroll_ok:
  assumes "commit_enroll env cfg now et a k h s = (s', Inr r)"
  obtains st1 st2 where "markEnrollmentTokenUsed (et_tokenHash et) now (store s) = Inr st1"
    and "updateAgent (a\<lparr>ag_status := Offline, ag_publicKey := Some k, ag_hostMetadata := h, ag_updatedAt := now\<rparr>) st1 = Inr st2"
    and "agents (store s') = agents st2" and "tokens (store s') = tokens st2"
    and "er_agent_id r = ag_id a" and "er_policy r = ag_policy a"
  using assms unfolding commit_enroll_def by (elim cbind_okE cseq_okE) (auto dest!: audit_ok)

lemma token_record_hash: "getEnrollmentTokenByHash h st = Some c \<Longrightarrow> et_tokenHash c = h"
  by (auto simp: getEnrollmentTokenByHash_def dest: find_SomeD)

lemma enroll_spends:
  assumes "store_wf (store s)" and "handleAgentEnroll env cfg now body s = (s', Inr r)"
  shows "enroll_token.spent (enroll_hash env body) (store s')"
proof -
  from assms(2) obtain et a k h where et: "getEnrollmentTokenByHash (enroll_hash env body) (store s) = Some et"
    and c: "commit_enroll env cfg now et a k (Some h) s = (s', Inr r)" by (rule handleAgentEnroll_ok)
  from c obtain st1 st2 where m: "markEnrollmentTokenUsed (et_tokenHash et) now (store s) = Inr st1"
    and u: "updateAgent (a\<lparr>ag_status := Offline, ag_publicKey := Some k, ag_hostMetadata := Some h, ag_updatedAt := now\<rparr>) st1 = Inr st2"
    and t: "tokens (store s') = tokens st2" by (rule commit_enroll_ok)
  have "enroll_token.spent (enroll_hash env body) st1"
    using enroll_token.mark_spends [OF assms(1) m] token_record_hash [OF et] by simp
  then show ?thesis by (rule spent_token_frame) (use store_frame(6) [OF u] t in simp)
qed

lemma spent_no_enroll:
  assumes "enroll_token.spent (enroll_hash env body) (store s)"
  shows "handleAgentEnroll env cfg now body s \<noteq> (s', Inr r)"
proof
  assume "handleAgentEnroll env cfg now body s = (s', Inr r)"
  then obtain et where "getEnrollmentTokenByHash (enroll_hash env body) (store s) = Some et" "et_usedAt et = None"
    by (rule handleAgentEnroll_ok)
  with assms show False by (simp add: enroll_token.spent_def)
qed

definition enroll_call :: "string option \<Rightarrow> (string \<times> json) list \<Rightarrow> cp_call" where
  "enroll_call auth es = CApi ''POST'' ''/api/agents/enroll'' auth (Inr es) None"

lemma exec_enroll_ok:
  "exec env cfg now (enroll_call a es) s = (s', Inr r) \<longleftrightarrow>
     (\<exists>t. handleAgentEnroll env cfg now es s = (s', Inr t) \<and> r = RApi (ApiEnrolled t))"
  by (auto simp: enroll_call_def creply_def handleApi_def cresult_def cbind_def split: prod.splits sum.splits)

text \<open>
  An enrollment token enrolls one agent. Along every run of the control plane, once a
  token has been accepted by the enrollment endpoint, every later enrollment with a token of
  the same hash is refused, whatever key or host it brings.
\<close>

theorem enrollment_token_single_use:
  assumes "store_wf (store s0)"
    and "run (cp_step env cfg) s0 (es @ (t1, enroll_call a1 b1, Inr r1) # fs) s"
    and "enroll_hash env b2 = enroll_hash env b1"
  shows "\<not> is_ok (snd (exec env cfg t2 (enroll_call a2 b2) s))"
proof -
  obtain s1 s2 where s1: "run (cp_step env cfg) s0 es s1" "cp_step env cfg s1 (t1, enroll_call a1 b1, Inr r1) s2"
    "run (cp_step env cfg) s2 fs s"
    using assms(2) by (auto simp: run_append)
  have wf: "store_wf (store s1)" by (rule wf_inv.inv_run [OF s1(1) assms(1)])
  obtain t where t: "handleAgentEnroll env cfg t1 b1 s1 = (s2, Inr t)" using s1(2)
    by (auto simp: cp_step_iff exec_enroll_ok simp del: exec.simps)
  have "store_wf (store s2) \<and> enroll_token.spent (enroll_hash env b1) (store s2)"
    using enroll_spends [OF wf t] wf_inv.step_keeps_any [OF s1(2)] wf by simp
  from token_inv.inv_run [OF s1(3) this] have "enroll_token.spent (enroll_hash env b2) (store s)" by (simp add: assms(3))
  then show ?thesis using spent_no_enroll by (auto simp: ok_run_iff exec_enroll_ok simp del: exec.simps)
qed

definition sample_enroll_body :: "(string \<times> json) list" where
  "sample_enroll_body = [(''token'', JStr ''ticket''), (''public_key'', JStr ''newkey''),
     (''host'', JObj [(''hostname'', JStr ''web-1''), (''os'', JStr ''linux''), (''arch'', JStr ''x64''), (''platform'', JStr ''linux'')])]"

definition sample_enrolling :: control_plane where
  "sample_enrolling = sample_state\<lparr>store := sample_store\<lparr>tokens :=
     [\<lparr>et_id = ''enr_1'', et_agentId = ''agt_1'', et_userId = ''github:7'', et_tokenHash = ''hticket'',
       et_expiresAt = 600000, et_usedAt = None, et_createdAt = 0\<rparr>]\<rparr>\<rparr>"

lemma sample_enrolling_wf: "store_wf (store sample_enrolling)"
  by (simp add: sample_enrolling_def sample_state_def sample_store_def store_wf_def empty_store_def table_wf_def)

theorem enrollment_token_single_use_witness:
  "is_ok (snd (exec sample_cp_env sample_cp_config 1000 (enroll_call None sample_enroll_body) sample_enrolling)) \<and>
   \<not> is_ok (snd (exec sample_cp_env sample_cp_config 2000 (enroll_call None sample_enroll_body)
     (fst (exec sample_cp_env sample_cp_config 1000 (enroll_call None sample_enroll_body) sample_enrolling))))"
proof -
  have ok: "is_ok (snd (exec sample_cp_env sample_cp_config 1000 (enroll_call None sample_enroll_body) sample_enrolling))"
    by code_simp
  then obtain r where "snd (exec sample_cp_env sample_cp_config 1000 (enroll_call None sample_enroll_body) sample_enrolling) = Inr r"
    by (auto simp: is_ok_iff)
  then have "run (cp_step sample_cp_env sample_cp_config) sample_enrolling ([] @ (1000, enroll_call None sample_enroll_body, Inr r) # [])
    (fst (exec sample_cp_env sample_cp_config 1000 (enroll_call None sample_enroll_body) sample_enrolling))"
    using exec_step [of sample_enrolling 1000 "enroll_call None sample_enroll_body" sample_cp_env sample_cp_config]
    by (simp del: exec.simps add: run_cons [OF _ run_nil] enroll_call_def)
  from enrollment_token_single_use [OF sample_enrolling_wf this refl] ok show ?thesis by blast
qed

end
