(* ===== verification/ControlDispatch.thy ===== *)
theory ControlDispatch
  imports ControlProperties
begin

text \<open>
  What the control plane sends to agents and what it accepts from them: authorisation of
  dispatched actions, finality of revocation and its gap, acceptance of results, replay of
  hellos.
\<close>

section \<open>Dispatch\<close>

lemma send_run:
  "send c m s = (if ws_closed (conn_of s c) then s else s\<lparr>outbox := outbox s @ [Sent c m]\<rparr>, Inr ())"
  by (simp add: send_def)

lemma audit_other:
  "audit env now u a i t v m s = (s', Inr x) \<Longrightarrow>
     agentConnections s' = agentConnections s \<and> pendingActions s' = pendingActions s \<and> conns s' = conns s \<and> outbox s' = outbox s \<and>
     settled s' = settled s \<and> agents (store s') = agents (store s)"
  unfolding audit_def by (elim cbind_okE) (auto simp: new_id_run insertAudit_def insert_row_def split: if_splits)

lemma insertAction_agents: "insertAction c st = Inr st' \<Longrightarrow> agents st' = agents st"
  by (auto simp: insertAction_def insert_row_def split: if_splits sum.splits)

lemma conn_of_cong: "conns s' = conns s \<Longrightarrow> conn_of s' c = conn_of s c"
  by (simp add: conn_of_def)

definition requested_seconds :: "RemoteAgentRecord \<Rightarrow> (string \<times> json) list \<Rightarrow> int option" where
  "requested_seconds agent args = number_or (jprop args ''timeout_seconds'') (maxActionTimeoutSeconds (ag_policy agent))"

lemma dispatchAction_ok:
  assumes "dispatchAction env cfg now p agent tool cap args s = (s', Inr act)"
  obtains live n where "ag_status agent \<noteq> Revoked"
    and "jm_get (agentConnections s) (ag_id agent) = Some live"
    and "requested_seconds agent args = Some n"
    and "act = action_record now p agent tool cap args (''act_'' @ rand_id env (drawn s))
       (now + min n (min (maxActionTimeoutSeconds (ag_policy agent)) (cfg_maxActionTimeoutSeconds cfg)) * 1000)"
    and "pendingActions s' = jm_set (act_id act) \<lparr>pa_action = act, pa_fires = act_deadline act + 2000\<rparr> (pendingActions s)"
    and "outbox s' = outbox s @ (if ws_closed (conn_of s (live_conn live)) then [] else
       [Sent (live_conn live) (MsgActionRequest
          (action_request env cfg now p agent tool cap args (act_id act) (act_deadline act) (rand_token env (Suc (drawn s)))))])"
    and "agentConnections s' = agentConnections s" and "agents (store s') = agents (store s)" and "settled s' = settled s"
proof -
  from assms obtain live n s1 s2 s3 where "ag_status agent \<noteq> Revoked"
    and "jm_get (agentConnections s) (ag_id agent) = Some live" and "requested_seconds agent args = Some n"
    and act: "act = action_record now p agent tool cap args (''act_'' @ rand_id env (drawn s))
       (now + min n (min (maxActionTimeoutSeconds (ag_policy agent)) (cfg_maxActionTimeoutSeconds cfg)) * 1000)"
    and f: "agentConnections s3 = agentConnections s" "pendingActions s3 = pendingActions s" "conns s3 = conns s" "outbox s3 = outbox s"
      "agents (store s3) = agents (store s)" "settled s3 = settled s"
    and "send (live_conn live) (MsgActionRequest (action_request env cfg now p agent tool cap args (''act_'' @ rand_id env (drawn s))
       (now + min n (min (maxActionTimeoutSeconds (ag_policy agent)) (cfg_maxActionTimeoutSeconds cfg)) * 1000) (rand_token env (Suc (drawn s)))))
       (s3\<lparr>pendingActions := jm_set (''act_'' @ rand_id env (drawn s))
          \<lparr>pa_action = act, pa_fires = act_deadline act + 2000\<rparr> (pendingActions s3)\<rparr>) = (s', Inr ())"
    unfolding dispatchAction_def Let_def requested_seconds_def
    by (elim cbind_okE cseq_okE) (auto simp: new_id_run randomToken_run action_record_def dest!: audit_other dest: insertAction_agents)
  then show thesis
    by (intro that [of live n])
      (auto simp: send_run conn_of_def action_record_def split: if_splits)
qed

definition dispatching :: "RemoteToolName \<Rightarrow> bool" where
  "dispatching t = (t \<notin> {ListHosts, ListAgents, CreateEnrollmentToken, GetAgentInstallCommand, UpdateAgentPolicy,
     RevokeAgent, GetAuditEvents})"

lemma callRemoteTool_dispatch:
  "dispatching tool \<Longrightarrow> callRemoteTool env cfg now p tool args =
     (let capability = TOOL_CAPABILITY_MAP tool in
      cseq (cthrow_if (\<not> hasCapability (pr_capabilities p) capability)
              (safeError INVALID_SCOPE (''Scope does not grant '' @ capability_name capability) 403))
       (cbind (requireAgent (pr_userId p) args) (\<lambda>agent.
          if \<not> capabilities (ag_policy agent) capability then
            cseq (audit env now (Some (pr_userId p)) (Some (ag_id agent)) None ''action_denied'' Warn
                    [(''tool'', JStr (tool_name tool)), (''capability'', JStr (capability_name capability)),
                     (''reason'', JStr ''capability disabled by agent policy'')])
              (cthrow (safeError CAPABILITY_DENIED
                 (''Agent policy does not allow '' @ capability_name capability) 403))
          else cbind (dispatchAction env cfg now p agent tool capability args) (\<lambda>action.
            creturn (Dispatched action)))))"
  by (cases tool; hypsubst_thin; simp add: dispatching_def callRemoteTool_def Let_def)

lemma dispatched_dispatching:
  assumes "callRemoteTool env cfg now p tool args s = (s', Inr (Dispatched act))"
  shows "dispatching tool"
proof (rule ccontr)
  assume "\<not> dispatching tool"
  then show False using assms
    by (cases tool) (auto simp: dispatching_def callRemoteTool_def Let_def elim!: cbind_okE cseq_okE)
qed

definition target :: "RemotePrincipal \<Rightarrow> (string \<times> json) list \<Rightarrow> remote_store \<Rightarrow> RemoteAgentRecord option" where
  "target p args st = resolveAgent (pr_userId p) (or_else (str_prop args ''agent_id_or_alias'') '''') st"

lemma callRemoteTool_ok:
  assumes "callRemoteTool env cfg now p tool args s = (s', Inr (Dispatched act))"
  obtains agent where "target p args (store s) = Some agent"
    and "TOOL_CAPABILITY_MAP tool \<in> set (pr_capabilities p)"
    and "capabilities (ag_policy agent) (TOOL_CAPABILITY_MAP tool)"
    and "dispatchAction env cfg now p agent tool (TOOL_CAPABILITY_MAP tool) args s = (s', Inr act)"
  using assms unfolding callRemoteTool_dispatch [OF dispatched_dispatching [OF assms]] Let_def target_def
  by (elim cseq_okE cbind_okE)
    (auto simp: requireAgent_def hasCapability_def cbind_def cseq_def split: if_splits prod.splits sum.splits)

text \<open>
  C2: what reaches an agent was authorised. A tool call that dispatches an action has a scope
  for the tool's capability; the target is an agent of the caller, not revoked, whose policy
  allows the capability, and it is connected. The action is recorded as pending for that user,
  agent, tool and arguments; its deadline exceeds neither the agent's policy nor the server's
  limit; and unless its socket has just closed, exactly one message, the signed request for
  this action, goes to the agent's connection and nothing to any other.
\<close>

theorem dispatch_authorized:
  assumes "store_wf (store s)" and "callRemoteTool env cfg now p tool args s = (s', Inr (Dispatched act))"
  shows "\<exists>agent live nonce. target p args (store s) = Some agent \<and> ag_userId agent = pr_userId p \<and>
    getAgent (ag_id agent) (store s) = Some agent \<and>
    TOOL_CAPABILITY_MAP tool \<in> set (pr_capabilities p) \<and> capabilities (ag_policy agent) (TOOL_CAPABILITY_MAP tool) \<and>
    ag_status agent \<noteq> Revoked \<and> jm_get (agentConnections s) (ag_id agent) = Some live \<and>
    act_userId act = pr_userId p \<and> act_agentId act = ag_id agent \<and> act_tool act = tool \<and> act_args act = args \<and>
    act_deadline act \<le> now + maxActionTimeoutSeconds (ag_policy agent) * 1000 \<and>
    act_deadline act \<le> now + cfg_maxActionTimeoutSeconds cfg * 1000 \<and>
    map_option pa_action (jm_get (pendingActions s') (act_id act)) = Some act \<and>
    outbox s' = outbox s @ (if ws_closed (conn_of s (live_conn live)) then [] else
      [Sent (live_conn live) (MsgActionRequest (action_request env cfg now p agent tool (TOOL_CAPABILITY_MAP tool) args
         (act_id act) (act_deadline act) nonce))])"
proof -
  from assms(2) obtain agent where a: "target p args (store s) = Some agent"
    "TOOL_CAPABILITY_MAP tool \<in> set (pr_capabilities p)" "capabilities (ag_policy agent) (TOOL_CAPABILITY_MAP tool)"
    and d: "dispatchAction env cfg now p agent tool (TOOL_CAPABILITY_MAP tool) args s = (s', Inr act)"
    by (rule callRemoteTool_ok)
  have own: "getAgent (ag_id agent) (store s) = Some agent \<and> ag_userId agent = pr_userId p"
    using resolveAgent_current [OF assms(1)] a(1) by (simp add: target_def)
  from d obtain live n where l: "ag_status agent \<noteq> Revoked" "jm_get (agentConnections s) (ag_id agent) = Some live"
    and act: "act = action_record now p agent tool (TOOL_CAPABILITY_MAP tool) args (''act_'' @ rand_id env (drawn s))
       (now + min n (min (maxActionTimeoutSeconds (ag_policy agent)) (cfg_maxActionTimeoutSeconds cfg)) * 1000)"
    and out: "pendingActions s' = jm_set (act_id act) \<lparr>pa_action = act, pa_fires = act_deadline act + 2000\<rparr> (pendingActions s)"
      "outbox s' = outbox s @ (if ws_closed (conn_of s (live_conn live)) then [] else
      [Sent (live_conn live) (MsgActionRequest (action_request env cfg now p agent tool (TOOL_CAPABILITY_MAP tool) args
         (act_id act) (act_deadline act) (rand_token env (Suc (drawn s)))))])"
    by (rule dispatchAction_ok)
  show ?thesis
    using a own l out
    by (intro exI [of _ agent] exI [of _ live] exI [of _ "rand_token env (Suc (drawn s))"]) (simp add: act action_record_def min_le_iff_disj)
qed

definition sample_principal :: RemotePrincipal where
  "sample_principal = \<lparr>pr_userId = ''github:7'', pr_githubId = ''7'', pr_githubLogin = ''ada'',
     pr_scopes = [''hosts:read'', ''agents:admin'', ''status:read''], pr_capabilities = [HostsRead, AgentsAdmin, SystemRead],
     pr_tokenId = ''tok''\<rparr>"

definition sample_args :: "(string \<times> json) list" where
  "sample_args = [(''agent_id_or_alias'', JStr ''web''), (''timeout_seconds'', JNum 10)]"

definition dispatched :: "cp_error + tool_reply \<Rightarrow> ActionRecord option" where
  "dispatched r = (case r of Inr (Dispatched act) \<Rightarrow> Some act | _ \<Rightarrow> None)"

lemma dispatched_iff: "dispatched (snd p) = Some act \<longleftrightarrow> (\<exists>s. p = (s, Inr (Dispatched act)))"
  by (cases p) (auto simp: dispatched_def split: sum.splits tool_reply.splits)

lemma sample_dispatch:
  "map_option act_agentId (dispatched (snd (callRemoteTool sample_cp_env sample_cp_config 1000 sample_principal GetSystemStatus sample_args sample_state)))
     = Some ''agt_1''"
  by (simp add: callRemoteTool_dispatch dispatching_def Let_def cbind_run cseq_def requireAgent_def resolveAgent_def
    sample_state_def sample_store_def sample_agent_def sample_principal_def hasCapability_def sample_args_def str_prop_def
    jprop_def asString_def getAgent_def getAgentByAlias_def agentFromRow_def empty_store_def createAgentPolicy_def
    profile_capabilities_def dispatchAction_def new_id_run randomToken_run number_or_def js_number_def cstore_def
    insertAction_def insert_row_def audit_def insertAudit_def action_record_def send_run conn_of_def dispatched_def
    sample_cp_env_def show_nat.simps)

theorem dispatch_authorized_witness:
  "\<exists>s' act live. callRemoteTool sample_cp_env sample_cp_config 1000 sample_principal GetSystemStatus sample_args sample_state
      = (s', Inr (Dispatched act)) \<and> act_userId act = ''github:7'' \<and>
    jm_get (agentConnections sample_state) (act_agentId act) = Some live \<and> act_deadline act \<le> 121000"
proof -
  obtain s' act where r: "callRemoteTool sample_cp_env sample_cp_config 1000 sample_principal GetSystemStatus sample_args sample_state
      = (s', Inr (Dispatched act))"
    using sample_dispatch by (auto simp: dispatched_iff)
  from dispatch_authorized [OF sample_store_wf r] show ?thesis
    using r by (auto simp: sample_principal_def sample_cp_config_def)
qed

section \<open>Revocation\<close>

definition dispatched_to :: "cp_event \<Rightarrow> string option" where
  "dispatched_to e = (case e of (_, _, Inr (RMcp (McpResult (Dispatched act)))) \<Rightarrow> Some (act_agentId act) | _ \<Rightarrow> None)"

lemma dispatched_to_Some:
  "dispatched_to (now, call, r) = Some i \<longleftrightarrow> (\<exists>act. r = Inr (RMcp (McpResult (Dispatched act))) \<and> act_agentId act = i)"
  by (auto simp: dispatched_to_def split: sum.splits cp_reply.splits mcp_reply.splits tool_reply.splits)

lemma authenticate_ok: "authenticate env cfg now a s = (s', Inr p) \<Longrightarrow> s' = s"
  unfolding authenticate_def
  by (elim cbind_okE) (auto split: sum.splits if_splits elim: cseq_okE)

lemma cattempt_authenticate: "cattempt (authenticate env cfg now a) s = (s', Inr (Some p)) \<Longrightarrow> s' = s"
  by (auto simp: cattempt_def dest: authenticate_ok split: prod.splits sum.splits)

lemma handleMcp_dispatch:
  assumes "handleMcp env cfg now m a b s = (s', Inr (McpResult (Dispatched act)))"
  obtains p tool args where "callRemoteTool env cfg now p tool args s = (s', Inr (Dispatched act))"
  using assms unfolding handleMcp_def Let_def
  by (auto elim!: cbind_okE split: if_splits option.splits dest!: cattempt_authenticate)

lemma exec_dispatch:
  assumes "exec env cfg now call s = (s', Inr (RMcp (McpResult (Dispatched act))))"
  obtains p tool args where "callRemoteTool env cfg now p tool args s = (s', Inr (Dispatched act))"
  using assms by (cases call) (auto simp: creply_def elim!: cbind_okE cseq_okE intro: handleMcp_dispatch)

lemma step_dispatch_not_revoked:
  assumes "cp_step env cfg s e s'" and "store_wf (store s)" and "revoked i (store s)"
  shows "dispatched_to e \<noteq> Some i"
proof
  assume d: "dispatched_to e = Some i"
  obtain now call r where e: "e = (now, call, r)" by (cases e)
  with d obtain act where act: "r = Inr (RMcp (McpResult (Dispatched act)))" "act_agentId act = i"
    by (auto simp: dispatched_to_Some)
  have "exec env cfg now call s = (s', r)" using assms(1) e by (simp add: cp_step_iff)
  then obtain p tool args where c: "callRemoteTool env cfg now p tool args s = (s', Inr (Dispatched act))"
    unfolding act by (rule exec_dispatch)
  from c obtain agent where a: "target p args (store s) = Some agent"
    and "dispatchAction env cfg now p agent tool (TOOL_CAPABILITY_MAP tool) args s = (s', Inr act)" by (rule callRemoteTool_ok)
  then have "ag_status agent \<noteq> Revoked" "act_agentId act = ag_id agent"
    by (auto elim!: dispatchAction_ok simp: action_record_def)
  with resolveAgent_current [OF assms(2) a [unfolded target_def]] act assms(3) show False
    by (auto simp: revoked_def)
qed

text \<open>
  C24: revocation is final, as long as no policy request is waiting for its body. Along every run
  without the end of such a request, whatever the agent, its owner and others do (reconnect,
  enroll again, result, tool calls, timers), a revoked agent stays revoked and no action is
  dispatched to it.
\<close>

theorem revocation_is_final:
  assumes "store_wf (store s)" and "revoked i (store s)"
    and "run (cp_step env cfg) s es s'" and "\<forall>e \<in> set es. \<not> is_patch e"
  shows "revoked i (store s') \<and> (\<forall>e \<in> set es. dispatched_to e \<noteq> Some i)"
  using assms(3,1,2,4)
proof (induction rule: run.induct)
  case (run_cons s e s1 es s')
  have "store_wf (store s1) \<and> revoked i (store s1)"
    using revoked_inv.step_keeps [OF run_cons.hyps(1), of i] run_cons.prems by simp
  with run_cons show ?case by (auto dest: step_dispatch_not_revoked)
qed simp

definition revoke_call :: cp_call where
  "revoke_call = CApi ''POST'' ''/api/agents/agt_1/revoke'' (Some ''Bearer t'') (Inr []) None"

definition status_call :: cp_call where
  "status_call = CMcp ''POST'' (Some ''Bearer t'') (Inr [(''method'', JStr ''tools/call''),
     (''params'', JObj [(''name'', JStr ''get_system_status''), (''arguments'', JObj sample_args)])])"

definition after_revoke :: control_plane where
  "after_revoke = fst (exec sample_cp_env sample_cp_config 1000 revoke_call sample_state)"

lemma is_revoked_code: "revoked i st \<longleftrightarrow> (case getAgent i st of None \<Rightarrow> False | Some a \<Rightarrow> ag_status a = Revoked)"
  by (simp add: revoked_def split: option.splits)

lemma after_revoke_revoked: "store_wf (store after_revoke) \<and> revoked ''agt_1'' (store after_revoke)"
proof
  have "store_wf (store (fst (exec sample_cp_env sample_cp_config 1000 revoke_call sample_state)))"
    by (rule wf_inv.step_keeps_any [OF exec_step sample_store_wf]) (simp add: revoke_call_def)
  then show "store_wf (store after_revoke)" by (simp add: after_revoke_def)
  show "revoked ''agt_1'' (store after_revoke)" unfolding is_revoked_code after_revoke_def by code_simp
qed

theorem revocation_is_final_witness:
  "dispatched_to (2000, status_call, snd (exec sample_cp_env sample_cp_config 2000 status_call after_revoke)) \<noteq> Some ''agt_1''"
proof -
  let ?e = "(2000, status_call, snd (exec sample_cp_env sample_cp_config 2000 status_call after_revoke))"
  have "run (cp_step sample_cp_env sample_cp_config) after_revoke [?e]
    (fst (exec sample_cp_env sample_cp_config 2000 status_call after_revoke))"
    by (rule run_cons, rule exec_step, simp add: status_call_def, rule run_nil)
  from revocation_is_final [OF _ _ this] after_revoke_revoked show ?thesis
    by (simp add: is_patch_def status_call_def del: exec.simps)
qed

lemma updateAgentPolicy_ok:
  assumes "updateAgentPolicy env cfg now p agent v s = (s', Inr a)"
  obtains st where "updateAgent (agent\<lparr>ag_profile := ap_profile (next_policy cfg agent v), ag_policy := next_policy cfg agent v,
      ag_policyVersion := ag_policyVersion agent + 1, ag_updatedAt := now\<rparr>) (store s) = Inr st"
    and "agents (store s') = agents st" and "AgentsAdmin \<in> set (pr_capabilities p)"
  using assms unfolding updateAgentPolicy_def Let_def require_admin_def
  by (elim cseq_okE cbind_okE)
    (auto simp: hasCapability_def send_run randomToken_run dest!: audit_ok elim!: cbind_okE split: option.splits if_splits)

text \<open>
  The gap in revocation. A policy request looks its agent up before it waits for its body,
  and writes the record it found then. When the agent is revoked in between, the end of that
  request puts the old status back: the agent is no longer revoked.
\<close>

theorem stale_policy_update_unrevokes:
  assumes "store_wf (store s)" and "revoked (ag_id agent) (store s)" and "ag_status agent \<noteq> Revoked"
    and "exec env cfg now (CPatchBody (p, agent) b) s = (s', Inr r)"
  shows "\<not> revoked (ag_id agent) (store s')"
proof -
  obtain es a where u: "updateAgentPolicy env cfg now p agent (jprop es ''policy'') (s\<lparr>patching := remove1 (p, agent) (patching s)\<rparr>) = (s', Inr a)"
    using assms(4) by (auto simp: creply_def finishApiPatch_def elim!: cbind_okE cseq_okE)
  then obtain st where st: "updateAgent (agent\<lparr>ag_profile := ap_profile (next_policy cfg agent (jprop es ''policy'')),
      ag_policy := next_policy cfg agent (jprop es ''policy''),
      ag_policyVersion := ag_policyVersion agent + 1, ag_updatedAt := now\<rparr>) (store s) = Inr st"
    "agents (store s') = agents st" by (auto elim: updateAgentPolicy_ok)
  have "getAgent (ag_id agent) (store s') = getAgent (ag_id agent) st" using st(2) by (simp add: getAgent_def)
  then show ?thesis using getAgent_updateAgent [OF st(1)] assms(2,3) by (auto simp: revoked_def)
qed

definition patch_call :: cp_call where
  "patch_call = CApi ''PATCH'' ''/api/agents/agt_1'' (Some ''Bearer t'') (Inr []) None"

definition before_body :: control_plane where
  "before_body = fst (exec sample_cp_env sample_cp_config 1000 revoke_call
     (fst (exec sample_cp_env sample_cp_config 900 patch_call sample_state)))"

lemma before_body_run:
  "run (cp_step sample_cp_env sample_cp_config) sample_state
     [(900, patch_call, snd (exec sample_cp_env sample_cp_config 900 patch_call sample_state)),
      (1000, revoke_call, snd (exec sample_cp_env sample_cp_config 1000 revoke_call
         (fst (exec sample_cp_env sample_cp_config 900 patch_call sample_state))))] before_body"
  unfolding before_body_def
  by (rule run_cons, rule exec_step, simp add: patch_call_def, rule run_cons, rule exec_step, simp add: revoke_call_def, rule run_nil)

definition stale_check :: "control_plane \<Rightarrow> bool" where
  "stale_check s \<longleftrightarrow> (case getAgent ''agt_1'' (store s) of None \<Rightarrow> False | Some a \<Rightarrow> ag_status a = Revoked) \<and>
     (case patching s of [w] \<Rightarrow> snd w = sample_agent \<and>
        is_ok (snd (exec sample_cp_env sample_cp_config 1100 (CPatchBody w (Inr [])) s)) | _ \<Rightarrow> False)"

lemma before_body_check: "stale_check before_body"
  unfolding before_body_def by code_simp

theorem stale_policy_update_unrevokes_witness:
  "\<exists>w. w \<in> set (patching before_body) \<and> revoked ''agt_1'' (store before_body) \<and>
     \<not> revoked ''agt_1'' (store (fst (exec sample_cp_env sample_cp_config 1100 (CPatchBody w (Inr [])) before_body)))"
proof -
  have rv: "revoked ''agt_1'' (store before_body)"
    using before_body_check by (simp add: stale_check_def is_revoked_code del: exec.simps)
  obtain w s' r where w: "patching before_body = [w]" "snd w = sample_agent"
    and x: "exec sample_cp_env sample_cp_config 1100 (CPatchBody w (Inr [])) before_body = (s', Inr r)"
    using before_body_check by (auto simp: stale_check_def ok_run_iff simp del: exec.simps split: list.splits)
  have i: "ag_id (snd w) = ''agt_1''" "ag_status (snd w) \<noteq> Revoked" using w(2) by (simp_all add: sample_agent_def)
  have "\<not> revoked (ag_id (snd w)) (store s')"
    by (rule stale_policy_update_unrevokes [of before_body _ sample_cp_env sample_cp_config 1100 "fst w" "Inr []" _ r])
      (use i x rv wf_inv.inv_run [OF before_body_run sample_store_wf] in \<open>simp_all del: exec.simps\<close>)
  then show ?thesis using rv x i by (intro exI [of _ w]) (simp add: w(1) del: exec.simps)
qed

section \<open>Results\<close>

definition authentic_result :: "cp_env \<Rightarrow> int \<Rightarrow> nat \<Rightarrow> ActionResultEnvelope \<Rightarrow> ActionRecord \<Rightarrow> control_plane \<Rightarrow> bool" where
  "authentic_result env now c r act s \<longleftrightarrow>
     (\<exists>a k live. getAgent (re_agent_id r) (store s) = Some a \<and> ag_publicKey a = Some k \<and>
        verifyEnvelope (crypto env) (result_fields r) k \<and> act_agentId act = re_agent_id r \<and>
        jm_get (agentConnections s) (re_agent_id r) = Some live \<and> live_conn live = c \<and>
        (\<forall>t. (re_nonce r, t) \<in> set (seenNonces live) \<longrightarrow> t \<le> now))"


lemma reject_result_ok:
  "reject_result env now p i typ code s = (s', Inr x) \<Longrightarrow>
     settled s' = settled s @ [(pa_action p, Rejected code)] \<and> pendingActions s' = jm_delete i (pendingActions s)"
  unfolding reject_result_def by (elim cseq_okE) (auto dest: audit_other)

lemma set_seen_ok:
  "set_seen i ns s = (s', Inr x) \<Longrightarrow> settled s' = settled s \<and> pendingActions s' = pendingActions s"
  by (auto simp: set_seen_def split: option.splits)

lemma hasSeenNonce_iff: "snd (hasSeenNonce ns n now) \<longleftrightarrow> \<not> (\<forall>t. (n, t) \<in> set ns \<longrightarrow> t \<le> now)"
  by (force simp: hasSeenNonce_def Let_def jm_has_def jm_get_None_iff pruneNonceWindow_def)

lemma result_signed_iff:
  "result_signed env st r \<longleftrightarrow>
     (\<exists>a k. getAgent (re_agent_id r) st = Some a \<and> ag_publicKey a = Some k \<and> verifyEnvelope (crypto env) (result_fields r) k)"
  by (auto simp: result_signed_def split: option.splits)

text \<open>
  C25: only authentic results are accepted, and every answer settles its action. A result for a
  pending action ends it: the action leaves the table of pending actions and its promise settles
  exactly once. It resolves, with that very result, exactly when the result is signed with the
  stored key of the agent it names, that agent is the one the action was sent to, the message came
  over that agent's current connection, and the nonce is not in the connection's window of
  nonces. In every other case the promise is rejected.
\<close>

theorem result_accepted_iff_authentic:
  assumes "handleActionResult env now c r s = (s', Inr ())" and "jm_get (pendingActions s) (re_action_id r) = Some p"
  shows "\<exists>outcome. settled s' = settled s @ [(pa_action p, outcome)] \<and>
    pendingActions s' = jm_delete (re_action_id r) (pendingActions s) \<and>
    (authentic_result env now c r (pa_action p) s \<longrightarrow> outcome = Resolved r) \<and>
    (\<not> authentic_result env now c r (pa_action p) s \<longrightarrow> (\<exists>code. outcome = Rejected code))"
proof -
  let ?live = "jm_get (agentConnections s) (re_agent_id r)"
  let ?bound = "act_agentId (pa_action p) = re_agent_id r \<and> map_option live_conn ?live = Some c"
  consider (unsigned) "\<not> result_signed env (store s) r" | (wrong) "result_signed env (store s) r" "\<not> ?bound"
    | (replay) l where "result_signed env (store s) r" ?bound "?live = Some l" "snd (hasSeenNonce (seenNonces l) (re_nonce r) now)"
    | (good) l where "result_signed env (store s) r" ?bound "?live = Some l" "\<not> snd (hasSeenNonce (seenNonces l) (re_nonce r) now)"
    by (cases ?live) blast+
  then show ?thesis
  proof cases
    case unsigned
    then have "\<not> authentic_result env now c r (pa_action p) s" by (auto simp: authentic_result_def result_signed_iff)
    then show ?thesis using assms unsigned by (auto simp: handleActionResult_def cbind_def dest!: reject_result_ok)
  next
    case wrong
    then have "\<not> authentic_result env now c r (pa_action p) s" by (auto simp: authentic_result_def)
    then show ?thesis using assms wrong
      by (auto simp: handleActionResult_def cbind_def dest!: reject_result_ok split: if_splits)
  next
    case replay
    then have "\<not> authentic_result env now c r (pa_action p) s" by (auto simp: authentic_result_def hasSeenNonce_iff)
    then show ?thesis using assms replay
      by (auto simp: handleActionResult_def cbind_def split: prod.splits elim!: cseq_okE dest!: reject_result_ok set_seen_ok)
  next
    case good
    then have "authentic_result env now c r (pa_action p) s"
      by (auto simp: authentic_result_def hasSeenNonce_iff result_signed_iff)
    then show ?thesis using assms good
      by (auto simp: handleActionResult_def cbind_def split: prod.splits elim!: cseq_okE dest!: set_seen_ok)
  qed
qed

definition sample_action :: ActionRecord where
  "sample_action = action_record 1000 sample_principal sample_agent GetSystemStatus SystemRead sample_args ''act_1'' 11000"

definition unsigned_result :: ActionResultEnvelope where
  "unsigned_result = \<lparr>re_action_id = ''act_1'', re_agent_id = ''agt_1'', re_nonce = ''nonce-nonce-nonce'', re_ok = True,
     re_exit_code = Some 0, re_stdout = Some ''up'', re_stderr = None, re_started_at = ''t0'', re_finished_at = ''t1'',
     re_truncated = False, re_error_code = None, re_message = None, re_signature = ''''\<rparr>"

definition sample_result :: ActionResultEnvelope where
  "sample_result = unsigned_result\<lparr>re_signature := signEnvelope sample_crypto (result_fields unsigned_result) ''akey''\<rparr>"

definition sample_pending :: control_plane where
  "sample_pending = sample_state\<lparr>pendingActions := [(''act_1'', \<lparr>pa_action = sample_action, pa_fires = 13000\<rparr>)]\<rparr>"

lemma sample_result_verifies: "verifyEnvelope sample_crypto (result_fields sample_result) ''akey''"
proof -
  have "unsigned (result_fields sample_result) = unsigned (result_fields unsigned_result)"
    by (simp add: sample_result_def result_fields_def unsigned_def)
  moreover have "envelope_signature (result_fields sample_result) = signEnvelope sample_crypto (result_fields unsigned_result) ''akey''"
    by (simp add: sample_result_def result_fields_def envelope_signature_def)
  ultimately show ?thesis by (simp add: verifyEnvelope_def signEnvelope_def sample_crypto_def)
qed

lemma sample_result_ids [simp]:
  "re_action_id sample_result = ''act_1''" "re_agent_id sample_result = ''agt_1''" "re_nonce sample_result = ''nonce-nonce-nonce''"
  by (simp_all add: sample_result_def unsigned_result_def)

lemmas sample_pending_eval = sample_pending_def sample_state_def sample_store_def empty_store_def sample_agent_def
  getAgent_def agentFromRow_def sample_cp_env_def

lemma sample_result_authentic: "authentic_result sample_cp_env 2000 0 sample_result sample_action sample_pending"
  using sample_result_verifies
  by (simp add: authentic_result_def sample_pending_eval sample_action_def action_record_def)

lemma sample_result_runs: "is_ok (snd (handleActionResult sample_cp_env 2000 0 sample_result sample_pending))"
  using sample_result_verifies
  by (simp add: handleActionResult_def cbind_def cseq_def result_signed_def set_seen_def hasSeenNonce_def pruneNonceWindow_def
      jm_has_def sample_pending_eval sample_action_def action_record_def)

theorem result_accepted_iff_authentic_witness:
  "settled (fst (handleActionResult sample_cp_env 2000 0 sample_result sample_pending)) = [(sample_action, Resolved sample_result)]"
proof -
  obtain s' where s': "handleActionResult sample_cp_env 2000 0 sample_result sample_pending = (s', Inr ())"
    using sample_result_runs by (auto simp: ok_run_iff)
  have "jm_get (pendingActions sample_pending) (re_action_id sample_result) = Some \<lparr>pa_action = sample_action, pa_fires = 13000\<rparr>"
    by (simp add: sample_pending_def)
  from result_accepted_iff_authentic [OF s' this] sample_result_authentic s' show ?thesis
    by (auto simp: sample_pending_def sample_state_def new_control_plane_def)
qed

end
