(* ===== verification/ControlReplay.thy ===== *)
theory ControlReplay
  imports ControlDispatch
begin

text \<open>
  Replay of an agent's hello. The locale \<open>hello_frame\<close> collects the operations that leave the
  nonces of hellos alone; a remembered nonce then stays remembered along every run until it
  expires, and a hello that carries it is refused.
\<close>

section \<open>Operations that leave the nonces of hellos alone\<close>

locale hello_frame =
  fixes P :: "control_plane \<Rightarrow> bool"
  assumes frame: "P s \<Longrightarrow> agentHelloNonces s' = agentHelloNonces s \<Longrightarrow> P s'"
begin

lemma keeps_modify: "(\<And>s. agentHelloNonces (f s) = agentHelloNonces s) \<Longrightarrow> keeps P (cmodify f)"
  by (rule triple_cmodify) (rule frame)

lemma keeps_cstore [triples]: "keeps P (cstore f)"
  by (rule triple_cstore) (erule frame, simp)

lemma new_id_keeps [triples]: "keeps P (new_id env pre)"
  unfolding new_id_def by (intro triples keeps_modify) auto

lemma randomToken_keeps [triples]: "keeps P (randomToken env)"
  unfolding randomToken_def by (intro triples keeps_modify) auto

lemma audit_keeps [triples]: "keeps P (audit env now u a act typ sev meta)"
  unfolding audit_def by (intro triples)

lemma send_keeps [triples]: "keeps P (send c m)"
  unfolding send_def by (rule keeps_modify) simp

lemma on_agent_close_keeps: "keeps P (on_agent_close env now c aid uid)"
  unfolding on_agent_close_def mark_disconnected_def by (intro triples keeps_modify) auto

lemma notifyClose_keeps: "keeps P (notifyClose env now c)"
  unfolding notifyClose_def by (intro triples keeps_modify keeps_run_close_handlers on_agent_close_keeps) auto

lemma ws_close_keeps [triples]: "keeps P (ws_close env now c)"
  unfolding ws_close_def by (intro triples keeps_modify notifyClose_keeps) auto

lemma ws_handleClose_keeps: "keeps P (ws_handleClose env now c)"
  unfolding ws_handleClose_def by (intro triples keeps_modify notifyClose_keeps) auto

lemma refuse_keeps [triples]: "keeps P (refuse env now c code m)"
  unfolding refuse_def by (intro triples)

lemma handleRegister_keeps: "keeps P (handleRegister env cfg now body)"
  unfolding handleRegister_def Let_def by (intro triples) auto

lemma upsertGitHubUser_keeps [triples]: "keeps P (upsertGitHubUser env cfg now g l)"
  unfolding upsertGitHubUser_def Let_def by (intro triples) auto

lemma issueAuthorizationCode_keeps [triples]: "keeps P (issueAuthorizationCode env cfg now p u)"
  unfolding issueAuthorizationCode_def by (intro triples) auto

lemma handleAuthorize_keeps: "keeps P (handleAuthorize env cfg now tu q)"
  unfolding handleAuthorize_def Let_def by (intro triples keeps_modify) auto

lemma handleGitHubCallback_keeps: "keeps P (handleGitHubCallback now q)"
  unfolding handleGitHubCallback_def Let_def by (intro triples keeps_modify) auto

lemma finishGitHubCallback_keeps: "keeps P (finishGitHubCallback env cfg now f g l)"
  unfolding finishGitHubCallback_def by (intro triples keeps_modify) auto

lemma handleToken_keeps: "keeps P (handleToken env cfg now body)"
  unfolding handleToken_def issueAccessToken_def Let_def by (intro triples) auto

lemma authenticate_keeps [triples]: "keeps P (authenticate env cfg now a)"
  unfolding authenticate_def by (intro triples) (auto split: sum.splits intro!: triples)

lemma handleAgentEnroll_keeps: "keeps P (handleAgentEnroll env cfg now body)"
  unfolding handleAgentEnroll_def commit_enroll_def Let_def by (intro triples) auto

lemma reject_result_keeps [triples]: "keeps P (reject_result env now p i typ code)"
  unfolding reject_result_def by (intro triples keeps_modify) auto

lemma set_seen_keeps [triples]: "keeps P (set_seen aid ns)"
  unfolding set_seen_def by (rule keeps_modify) (auto split: option.splits)

lemma handleActionResult_keeps: "keeps P (handleActionResult env now c r)"
  unfolding handleActionResult_def Let_def by (intro triples keeps_modify) auto

lemma requireAgent_keeps [triples]: "keeps P (requireAgent uid args)"
  unfolding requireAgent_def by (intro triples)

lemma createEnrollmentToken_keeps [triples]: "keeps P (createEnrollmentToken env cfg now p args)"
  unfolding createEnrollmentToken_def require_admin_def Let_def by (intro triples) auto

lemma updateAgentPolicy_keeps [triples]: "keeps P (updateAgentPolicy env cfg now p agent v)"
  unfolding updateAgentPolicy_def require_admin_def Let_def by (intro triples) auto

lemma revokeAgent_keeps [triples]: "keeps P (revokeAgent env now p agent)"
  unfolding revokeAgent_def require_admin_def Let_def by (intro triples keeps_modify) auto

lemma dispatchAction_keeps [triples]: "keeps P (dispatchAction env cfg now p agent tool capability args)"
  unfolding dispatchAction_def Let_def by (intro triples keeps_modify) auto

lemma callRemoteTool_keeps [triples]: "keeps P (callRemoteTool env cfg now p tool args)"
  unfolding callRemoteTool_def Let_def by (cases tool) (auto intro!: triples)

lemma handleMcp_keeps: "keeps P (handleMcp env cfg now m a b)"
  unfolding handleMcp_def Let_def by (intro triples) auto

lemma handleApi_keeps: "keeps P (handleApi env cfg now m pa a b l)"
  unfolding handleApi_def api_agent_def api_tail_def
  by (intro triples handleAgentEnroll_keeps keeps_modify) auto

lemma finishApiPatch_keeps: "keeps P (finishApiPatch env cfg now w b)"
  unfolding finishApiPatch_def by (intro triples keeps_modify) auto

lemma finishAction_keeps: "keeps P (finishAction env now a outcome)"
  unfolding finishAction_def Let_def by (cases outcome) (auto intro!: triples)

lemma fire_timeout_keeps: "keeps P (fire_timeout i)"
  unfolding fire_timeout_def by (intro triples keeps_modify) auto

lemma accept_connection_keeps: "keeps P (accept_connection c)"
  unfolding accept_connection_def by (rule keeps_modify) simp

lemma accept_tail_keeps:
  "keeps P (cseq (case ex of Some l \<Rightarrow> ws_close env now (live_conn l) | None \<Rightarrow> creturn ())
    (cseq (cmodify (\<lambda>s. s\<lparr>agentConnections := g s\<rparr>)) (cseq (cstore f)
    (cseq (ws_onClose c i u) (cseq (audit env now v a act typ sev meta) (send c m))))))"
  unfolding ws_onClose_def by (intro triples keeps_modify) auto

end

section \<open>Remembered hellos\<close>

definition remembers :: "string \<Rightarrow> string \<Rightarrow> int \<Rightarrow> control_plane \<Rightarrow> bool" where
  "remembers i n e s \<longleftrightarrow> (\<exists>ns. jm_get (agentHelloNonces s) i = Some ns \<and> jm_get ns n = Some e)"

interpretation hello: hello_frame "remembers i n e" for i n e
  by unfold_locales (simp add: remembers_def)

lemma prune_keeps_nonce: "now < e \<Longrightarrow> jm_get ns n = Some e \<Longrightarrow> jm_get (pruneNonceWindow ns now) n = Some e"
  unfolding pruneNonceWindow_def by (induction ns) (auto split: if_splits)

lemma prune_keeps_agent:
  assumes "now < e" and "jm_get ns n = Some e" and "jm_get m i = Some ns"
  shows "jm_get (prune_hello_nonces now m) i = Some (pruneNonceWindow ns now)"
proof -
  have "pruneNonceWindow ns now \<noteq> []" using prune_keeps_nonce [OF assms(1,2)] by auto
  then show ?thesis using assms(3) unfolding prune_hello_nonces_def by (induction m) (auto split: if_splits)
qed

lemma cleanup_remembers: "now < e \<Longrightarrow> keeps (remembers i n e) (cleanupEphemeralState now)"
  unfolding cleanupEphemeralState_def
  by (rule triple_cmodify) (auto simp: remembers_def intro: prune_keeps_agent prune_keeps_nonce)

lemma register_remembers:
  "jm_has (or_else (jm_get (agentHelloNonces s) (ag_id agent)) []) nonce = False \<Longrightarrow> remembers i n e s \<Longrightarrow>
     remembers i n e (fst (register_hello c agent nonce now s))"
  by (auto simp: register_hello_def remembers_def jm_has_def)

lemma accept_hello_remembers:
  "triple (\<lambda>s. remembers i n e s \<and> \<not> jm_has (or_else (jm_get (agentHelloNonces s) (ag_id agent)) []) (he_nonce hello))
     (accept_hello env now c hello agent ex) (\<lambda>_. remembers i n e) (remembers i n e)"
  unfolding accept_hello_def
proof (rule triple_cseq [where R = "remembers i n e"])
  show "triple (\<lambda>s. remembers i n e s \<and> \<not> jm_has (or_else (jm_get (agentHelloNonces s) (ag_id agent)) []) (he_nonce hello))
     (register_hello c agent (he_nonce hello) now) (\<lambda>_. remembers i n e) (remembers i n e)"
    unfolding register_hello_def by (rule triple_cmodify) (auto simp: remembers_def jm_has_def)
qed (rule hello.accept_tail_keeps)

lemma admit_hello_remembers:
  assumes "now < e"
  shows "keeps (remembers i n e) (admit_hello env now c hello agent)"
  unfolding admit_hello_def Let_def
proof (rule triple_cseq [OF cleanup_remembers [OF assms]], intro triple_read triple_if)
  fix existing hn
  let ?H = "\<lambda>s. or_else (jm_get (agentHelloNonces s) (ag_id agent)) []"
  show "triple (\<lambda>s. (remembers i n e s \<and> jm_get (agentConnections s) (ag_id agent) = existing) \<and> ?H s = hn)
      (accept_hello env now c hello agent existing) (\<lambda>_. remembers i n e) (remembers i n e)"
    if "\<not> jm_has hn (he_nonce hello)"
    by (rule triple_pre [OF accept_hello_remembers]) (use that in auto)
qed (auto intro!: triple_pre [OF keeps_cseq] triples)

lemma handleAgentHello_remembers: "now < e \<Longrightarrow> keeps (remembers i n e) (handleAgentHello env now c hello)"
  unfolding handleAgentHello_def Let_def
  by (intro triples admit_hello_remembers) auto

lemma on_text_remembers:
  assumes "now < e"
  shows "keeps (remembers i n e) (on_text env now c v)"
proof -
  have "keeps (remembers i n e) (handleAgentMessage env now c v)"
    unfolding handleAgentMessage_def
    by (auto split: option.splits json.splits intro!: triples handleAgentHello_remembers hello.handleActionResult_keeps assms)
  then show ?thesis unfolding on_text_def on_message_failure_def by (intro triples)
qed

lemma exec_remembers:
  "now < e \<Longrightarrow> call \<noteq> CShutdown \<Longrightarrow> keeps (remembers i n e) (exec env cfg now call)"
  by (cases call)
    (auto intro!: triples hello.keeps_modify cleanup_remembers on_text_remembers hello.handleRegister_keeps hello.handleAuthorize_keeps
       hello.handleGitHubCallback_keeps hello.finishGitHubCallback_keeps hello.handleToken_keeps hello.handleMcp_keeps
       hello.handleApi_keeps hello.finishApiPatch_keeps hello.accept_connection_keeps hello.ws_handleClose_keeps
       hello.fire_timeout_keeps hello.finishAction_keeps)

definition before :: "int \<Rightarrow> cp_event \<Rightarrow> bool" where
  "before t e \<longleftrightarrow> fst e < t \<and> fst (snd e) \<noteq> CShutdown"

lemma run_remembers:
  "run (cp_step env cfg) s es s' \<Longrightarrow> \<forall>ev \<in> set es. before e ev \<Longrightarrow> remembers i n e s \<Longrightarrow> remembers i n e s'"
proof (induction rule: run.induct)
  case (run_cons s ev s1 es s')
  obtain now call r where ev: "ev = (now, call, r)" by (cases ev)
  then have "exec env cfg now call s = (s1, r)" "now < e" "call \<noteq> CShutdown"
    using run_cons by (auto simp: cp_step_iff before_def)
  then have "remembers i n e s1" using keepsD [OF exec_remembers] run_cons.prems by blast
  then show ?case using run_cons by simp
qed

section \<open>Accepted hellos\<close>

definition readies :: "control_plane \<Rightarrow> wire list" where
  "readies s = filter (\<lambda>w. case w of Sent c (MsgReady i p) \<Rightarrow> True | _ \<Rightarrow> False) (outbox s)"

lemma readies_cong: "outbox s' = outbox s \<Longrightarrow> readies s' = readies s"
  by (simp add: readies_def)

lemma modify_readies: "(\<And>s. readies (f s) = readies s) \<Longrightarrow> keeps (\<lambda>s. readies s = k) (cmodify f)"
  by (rule triple_cmodify) simp

lemma cstore_readies [triples]: "keeps (\<lambda>s. readies s = k) (cstore f)"
  by (rule triple_cstore) (simp_all add: readies_def)

lemma audit_readies [triples]: "keeps (\<lambda>s. readies s = k) (audit env now u a act typ sev meta)"
  unfolding audit_def new_id_def by (intro triples modify_readies) (auto simp: readies_def)

lemma on_agent_close_readies: "keeps (\<lambda>s. readies s = k) (on_agent_close env now c aid uid)"
  unfolding on_agent_close_def mark_disconnected_def by (intro triples modify_readies) (auto simp: readies_def)

lemma ws_close_readies [triples]: "keeps (\<lambda>s. readies s = k) (ws_close env now c)"
  unfolding ws_close_def notifyClose_def
  by (intro triples modify_readies keeps_run_close_handlers on_agent_close_readies) (auto simp: readies_def)

lemma refuse_readies [triples]: "keeps (\<lambda>s. readies s = k) (refuse env now c code m)"
  unfolding refuse_def send_def by (intro triples modify_readies) (auto simp: readies_def)

lemma warn_refuse_readies:
  "keeps (\<lambda>s. readies s = k) (cseq (audit env now u a act typ sev meta) (refuse env now c code m))"
  by (intro triples)

lemma handleAgentHello_rule:
  assumes "\<And>code m. triple P (refuse env now c code m) Q E"
    and "\<And>u a act ty sev meta code m. triple P (cseq (audit env now u a act ty sev meta) (refuse env now c code m)) Q E"
    and "\<And>agent. ag_id agent = he_agent_id hello \<Longrightarrow> triple P (admit_hello env now c hello agent) Q E"
  shows "triple P (handleAgentHello env now c hello) Q E"
proof (rule tripleI)
  fix s
  assume P: "P s"
  let ?warn = "\<lambda>agent ty meta. audit env now (Some (ag_userId agent)) (Some (ag_id agent)) None ty Warn meta"
  have "\<exists>m. triple P m Q E \<and> handleAgentHello env now c hello s = m s"
  proof (cases "getAgent (he_agent_id hello) (store s)")
    case None
    then show ?thesis using assms(1) by (auto simp: handleAgentHello_def cbind_run)
  next
    case (Some agent)
    define m where "m = (case (if ag_status agent = Revoked then None else ag_publicKey agent) of
        None \<Rightarrow> refuse env now c AGENT_NOT_FOUND ''Agent is not enrolled''
      | Some k \<Rightarrow> if \<not> verifyEnvelope (crypto env) (hello_fields hello) k then
            cseq (?warn agent ''agent_signature_invalid'' [(''message_type'', JStr ''agent.hello'')])
              (refuse env now c SIGNATURE_INVALID ''Agent signature is invalid'')
          else if 300000 < \<bar>now - date_ms (he_timestamp hello)\<bar> then
            cseq (?warn agent ''agent_hello_expired'' []) (refuse env now c ACTION_EXPIRED ''Agent hello timestamp is stale'')
          else admit_hello env now c hello agent)"
    have "triple P m Q E" unfolding m_def using getAgent_id [OF Some] by (intro triples assms)
    moreover have "handleAgentHello env now c hello s = m s"
      using Some by (cases "ag_publicKey agent") (simp_all add: handleAgentHello_def m_def cbind_run Let_def)
    ultimately show ?thesis by blast
  qed
  then show "case handleAgentHello env now c hello s of (s', Inl e) \<Rightarrow> E s' | (s', Inr x) \<Rightarrow> Q x s'"
    using P by (auto simp: triple_def)
qed

lemma remembered_refused:
  assumes "now < e"
  shows "triple (\<lambda>s. remembers (he_agent_id hello) (he_nonce hello) e s \<and> readies s = k)
    (handleAgentHello env now c hello) (\<lambda>_ s. readies s = k) (\<lambda>s. readies s = k)"
proof -
  let ?i = "he_agent_id hello" and ?n = "he_nonce hello" and ?k = "\<lambda>s. readies s = k"
  have cl: "keeps ?k (cleanupEphemeralState now)"
    unfolding cleanupEphemeralState_def by (rule modify_readies) (simp add: readies_def)
  have ad: "triple (\<lambda>s. remembers ?i ?n e s \<and> ?k s) (admit_hello env now c hello agent) (\<lambda>_. ?k) ?k" if i: "ag_id agent = ?i" for agent
    unfolding admit_hello_def Let_def
  proof (rule triple_cseq [where R = "\<lambda>s. remembers ?i ?n e s \<and> ?k s"])
    show "triple (\<lambda>s. remembers ?i ?n e s \<and> ?k s) (cleanupEphemeralState now) (\<lambda>_ s. remembers ?i ?n e s \<and> ?k s) ?k"
      by (rule triple_cons [OF triple_conj [OF cleanup_remembers [OF assms] cl]]) auto
  qed ((intro triple_read triple_if; (rule triple_pre [OF warn_refuse_readies]; simp)?),
      auto simp: triple_def remembers_def jm_has_def i)
  show ?thesis
    by (rule handleAgentHello_rule, rule triple_pre [OF refuse_readies], simp,
        rule triple_pre [OF warn_refuse_readies], simp, erule ad)
qed

lemma accepted_remembers:
  "triple (\<lambda>s. readies s = k) (handleAgentHello env now c hello)
     (\<lambda>_ s. readies s = k \<or> remembers (he_agent_id hello) (he_nonce hello) (now + AGENT_NONCE_TTL_MS) s) (\<lambda>_. True)"
proof -
  let ?e = "now + AGENT_NONCE_TTL_MS" and ?k = "\<lambda>s. readies s = k"
  let ?Q = "\<lambda>_ s. ?k s \<or> remembers (he_agent_id hello) (he_nonce hello) ?e s"
  have acc: "triple (\<lambda>_. True) (accept_hello env now c hello agent ex) ?Q (\<lambda>_. True)" if "ag_id agent = he_agent_id hello" for agent ex
    unfolding accept_hello_def
  proof (rule triple_cseq [where R = "remembers (he_agent_id hello) (he_nonce hello) ?e"])
    show "triple (\<lambda>_. True) (register_hello c agent (he_nonce hello) now)
      (\<lambda>_. remembers (he_agent_id hello) (he_nonce hello) ?e) (\<lambda>_. True)"
      unfolding register_hello_def by (rule triple_cmodify) (simp add: remembers_def that)
  qed (rule triple_cons [OF hello.accept_tail_keeps], auto)
  have wr: "triple ?k (cseq (audit env now u a act ty sev meta) (refuse env now c code m)) ?Q (\<lambda>_. True)"
    for u a act ty sev meta code m
    by (rule triple_cons [OF warn_refuse_readies]) auto
  have ad: "triple ?k (admit_hello env now c hello agent) ?Q (\<lambda>_. True)" if "ag_id agent = he_agent_id hello" for agent
    unfolding admit_hello_def Let_def
  proof (rule triple_cseq [where R = ?k])
    show "triple ?k (cleanupEphemeralState now) (\<lambda>_. ?k) (\<lambda>_. True)"
      unfolding cleanupEphemeralState_def by (rule triple_cmodify) (simp add: readies_def)
  qed (intro triple_read triple_if; rule triple_pre [OF wr] triple_pre [OF acc [OF that]]; simp)
  have rf: "triple ?k (refuse env now c code m) ?Q (\<lambda>_. True)" for code m
    by (rule triple_cons [OF refuse_readies]) auto
  show ?thesis by (rule handleAgentHello_rule [OF rf wr ad])
qed

text \<open>
  C26: an accepted hello cannot be replayed for five minutes. After a hello has been accepted at
  time \<open>t1\<close> (the agent was told it is ready), every hello of the same agent with the same nonce
  that arrives before \<open>t1 + 300000\<close> is refused, on whatever connection, and whatever requests,
  messages, timers and reconnections happen in between, as long as the server is not shut down.
\<close>

theorem hello_replay_rejected:
  assumes "handleAgentHello env t1 c1 hello s0 = (s1, Inr ())" and "readies s1 \<noteq> readies s0"
    and "run (cp_step env cfg) s1 es s" and "\<forall>e \<in> set es. before (t1 + 300000) e"
    and "he_agent_id again = he_agent_id hello" and "he_nonce again = he_nonce hello" and "t < t1 + 300000"
  shows "readies (fst (handleAgentHello env t c again s)) = readies s"
proof -
  have "remembers (he_agent_id hello) (he_nonce hello) (t1 + 300000) s1"
    using tripleD [OF accepted_remembers _ assms(1), of "readies s0"] assms(2) by (simp add: AGENT_NONCE_TTL_MS_def)
  then have "remembers (he_agent_id again) (he_nonce again) (t1 + 300000) s"
    using run_remembers [OF assms(3,4)] assms(5,6) by simp
  with remembered_refused [OF assms(7), of again "readies s" env c] show ?thesis
    by (cases "handleAgentHello env t c again s") (auto simp: triple_def split: sum.splits prod.splits)
qed

text \<open>
  The five minutes count from the arrival of the hello, its age from the agent's clock. At the
  moment the nonce is forgotten, a hello whose timestamp was not behind the server's clock when
  it first arrived still passes the check of its age: the same signed message is accepted again.
\<close>

theorem hello_replay_gap:
  assumes "getAgent (he_agent_id hello) (store s) = Some agent" and "ag_status agent \<noteq> Revoked"
    and "ag_publicKey agent = Some k" and "verifyEnvelope (crypto env) (hello_fields hello) k"
    and "t1 \<le> date_ms (he_timestamp hello)" and "date_ms (he_timestamp hello) \<le> t1 + 600000"
    and "jm_get (agentHelloNonces s) (ag_id agent) = Some ns" and "jm_wf (agentHelloNonces s)"
    and "\<forall>e. (he_nonce hello, e) \<in> set ns \<longrightarrow> e \<le> t1 + 300000"
    and "map_option live_conn (jm_get (agentConnections s) (ag_id agent)) \<noteq> Some c"
  shows "\<exists>existing. handleAgentHello env (t1 + 300000) c hello s =
    accept_hello env (t1 + 300000) c hello agent existing (fst (cleanupEphemeralState (t1 + 300000) s))"
proof -
  let ?now = "t1 + 300000" and ?s = "fst (cleanupEphemeralState (t1 + 300000) s)"
  have old: "\<not> 300000 < \<bar>?now - date_ms (he_timestamp hello)\<bar>" using assms(5,6) by linarith
  have conn: "map_option live_conn (jm_get (agentConnections ?s) (ag_id agent)) = map_option live_conn (jm_get (agentConnections s) (ag_id agent))"
    by (simp add: cleanupEphemeralState_def jm_get_def map_of_map option.map_comp comp_def)
  have keys: "jm_get (prune_hello_nonces ?now m) i = (case jm_get m i of None \<Rightarrow> None
      | Some ns \<Rightarrow> if pruneNonceWindow ns ?now = [] then None else Some (pruneNonceWindow ns ?now))" if "jm_wf m" for m i
  proof -
    have "jm_wf (map (\<lambda>(k, ns). (k, pruneNonceWindow ns ?now)) m)"
      using that by (simp add: jm_wf_def comp_def case_prod_beta)
    then show ?thesis
      by (simp add: prune_hello_nonces_def jm_get_filter) (simp add: jm_get_def map_of_map split: option.splits)
  qed
  have "\<not> jm_has (pruneNonceWindow ns ?now) (he_nonce hello)"
    using assms(9) by (auto simp: jm_has_def pruneNonceWindow_def jm_get_None_iff)
  then have "\<not> jm_has (or_else (jm_get (agentHelloNonces ?s) (ag_id agent)) []) (he_nonce hello)"
    using keys [OF assms(8), of "ag_id agent"] assms(7) by (simp add: cleanupEphemeralState_def jm_has_def)
  moreover have "cleanupEphemeralState ?now s = (?s, Inr ())" by (simp add: cleanupEphemeralState_def)
  ultimately have "admit_hello env ?now c hello agent s =
      accept_hello env ?now c hello agent (jm_get (agentConnections ?s) (ag_id agent)) ?s"
    using assms(10) [folded conn] by (auto simp: admit_hello_def Let_def cbind_run)
  then show ?thesis
    using assms(1-4) old by (auto simp: handleAgentHello_def cbind_run Let_def)
qed

definition unsigned_hello :: AgentHelloEnvelope where
  "unsigned_hello = \<lparr>he_agent_id = ''agt_1'', he_timestamp = ''1970-01-01T00:00:00.000Z'', he_nonce = ''nonce-nonce-nonce'',
     he_capabilities = [], he_agent_version = ''1'',
     he_host = \<lparr>hm_hostname = ''web-1'', hm_os = ''linux'', hm_arch = ''x64'', hm_platform = ''linux''\<rparr>, he_signature = ''''\<rparr>"

definition sample_hello :: AgentHelloEnvelope where
  "sample_hello = unsigned_hello\<lparr>he_signature := signEnvelope sample_crypto (hello_fields unsigned_hello) ''akey''\<rparr>"

lemma sample_hello_verifies: "verifyEnvelope sample_crypto (hello_fields sample_hello) ''akey''"
proof -
  have "unsigned (hello_fields sample_hello) = unsigned (hello_fields unsigned_hello)"
    by (simp add: sample_hello_def hello_fields_def unsigned_def)
  moreover have "envelope_signature (hello_fields sample_hello) = signEnvelope sample_crypto (hello_fields unsigned_hello) ''akey''"
    by (simp add: sample_hello_def hello_fields_def envelope_signature_def)
  ultimately show ?thesis by (simp add: verifyEnvelope_def signEnvelope_def sample_crypto_def)
qed

lemma sample_hello_fields [simp]:
  "he_agent_id sample_hello = ''agt_1''" "he_nonce sample_hello = ''nonce-nonce-nonce''"
  "he_agent_version sample_hello = ''1''" "hm_hostname (he_host sample_hello) = ''web-1''"
  by (simp_all add: sample_hello_def unsigned_hello_def)

lemma sample_hello_date: "date_ms (he_timestamp sample_hello) = 0"
  unfolding sample_hello_def unsigned_hello_def by code_simp

definition sample_listening :: control_plane where
  "sample_listening = sample_state\<lparr>agentConnections := [], conns := [(1, \<lparr>ws_closed = False, ws_notified = False, ws_handlers = []\<rparr>)]\<rparr>"

lemma sample_hello_accepted:
  "\<exists>s1. handleAgentHello sample_cp_env 0 1 sample_hello sample_listening = (s1, Inr ()) \<and> readies s1 \<noteq> readies sample_listening"
  using sample_hello_verifies
  by (simp add: sample_listening_def handleAgentHello_def sample_hello_date admit_hello_def accept_hello_def register_hello_def
    cleanupEphemeralState_def prune_hello_nonces_def cbind_run cseq_def Let_def jm_has_def audit_def new_id_run cstore_def
    insertAudit_def insert_row_def updateAgent_def ws_onClose_def conn_of_def send_run new_control_plane_def readies_def
    sample_pending_eval)

theorem hello_replay_rejected_witness:
  "\<exists>s1. handleAgentHello sample_cp_env 0 1 sample_hello sample_listening = (s1, Inr ()) \<and>
     readies (fst (handleAgentHello sample_cp_env 299999 2 sample_hello s1)) = readies s1"
proof -
  obtain s1 where s1: "handleAgentHello sample_cp_env 0 1 sample_hello sample_listening = (s1, Inr ())"
    "readies s1 \<noteq> readies sample_listening" using sample_hello_accepted by blast
  have "readies (fst (handleAgentHello sample_cp_env 299999 2 sample_hello s1)) = readies s1"
    by (rule hello_replay_rejected [OF s1 run_nil]) simp_all
  with s1(1) show ?thesis by blast
qed

theorem hello_replay_gap_witness:
  "\<exists>existing. handleAgentHello sample_cp_env (0 + 300000) 2 sample_hello
      (sample_state\<lparr>agentHelloNonces := [(''agt_1'', [(''nonce-nonce-nonce'', 300000)])]\<rparr>) =
    accept_hello sample_cp_env (0 + 300000) 2 sample_hello sample_agent existing
      (fst (cleanupEphemeralState (0 + 300000) (sample_state\<lparr>agentHelloNonces := [(''agt_1'', [(''nonce-nonce-nonce'', 300000)])]\<rparr>)))"
  by (rule hello_replay_gap [where k = "''akey''" and ns = "[(''nonce-nonce-nonce'', 300000)]"])
    (use sample_hello_verifies sample_hello_date in \<open>simp_all add: sample_pending_eval jm_wf_def\<close>)

section \<open>Hellos on closed connections\<close>

definition notified :: "nat \<Rightarrow> control_plane \<Rightarrow> bool" where
  "notified c s \<longleftrightarrow> ws_notified (conn_of s c)"

lemma modify_notified: "(\<And>s. conns (f s) = conns s) \<Longrightarrow> keeps (notified c) (cmodify f)"
  by (rule triple_cmodify) (simp add: notified_def conn_of_def)

lemma cstore_notified [triples]: "keeps (notified c) (cstore f)"
  by (rule triple_cstore) (simp_all add: notified_def conn_of_def)

lemma audit_notified [triples]: "keeps (notified c) (audit env now u a act ty sev meta)"
  unfolding audit_def new_id_def by (intro triples modify_notified) auto

lemma on_agent_close_notified: "keeps (notified c) (on_agent_close env now k aid uid)"
  unfolding on_agent_close_def mark_disconnected_def by (intro triples modify_notified) auto

lemma set_conn_notified:
  "triple (\<lambda>s. notified c s \<and> conn_of s k = x) (cmodify (\<lambda>s. f s\<lparr>conns := jm_set k (g x) (conns s)\<rparr>)) (\<lambda>_. notified c) (notified c)"
  if "ws_notified x \<longrightarrow> ws_notified (g x)" for f g
  using that by (intro triple_cmodify) (auto simp: notified_def conn_of_def split: if_splits)

lemma notifyClose_notified: "keeps (notified c) (notifyClose env now k)"
  unfolding notifyClose_def
proof (rule triple_read, rule triple_if)
  fix x
  show "triple (\<lambda>s. notified c s \<and> conn_of s k = x)
      (cseq (cmodify (\<lambda>s. s\<lparr>conns := jm_set k (x\<lparr>ws_notified := True\<rparr>) (conns s)\<rparr>)) (run_close_handlers env now k (ws_handlers x)))
      (\<lambda>_. notified c) (notified c)"
    by (rule triple_cseq [OF set_conn_notified [where f = id and g = "\<lambda>x. x\<lparr>ws_notified := True\<rparr>", simplified]])
      (rule keeps_run_close_handlers [OF on_agent_close_notified])
qed (simp add: triple_def)

lemma ws_close_notified [triples]: "keeps (notified c) (ws_close env now k)"
  unfolding ws_close_def
proof (rule triple_read, rule triple_if)
  fix x
  have "triple (\<lambda>s. notified c s \<and> conn_of s k = x)
      (cmodify (\<lambda>s. s\<lparr>conns := jm_set k (x\<lparr>ws_closed := True\<rparr>) (conns s), outbox := outbox s @ [Ended k]\<rparr>)) (\<lambda>_. notified c) (notified c)"
    by (rule triple_cmodify) (auto simp: notified_def conn_of_def split: if_splits)
  then show "triple (\<lambda>s. notified c s \<and> conn_of s k = x)
      (cseq (cmodify (\<lambda>s. s\<lparr>conns := jm_set k (x\<lparr>ws_closed := True\<rparr>) (conns s), outbox := outbox s @ [Ended k]\<rparr>))
        (notifyClose env now k)) (\<lambda>_. notified c) (notified c)"
    by (rule triple_cseq) (rule notifyClose_notified)
qed (simp add: triple_def)

lemma accept_hello_registers:
  assumes "accept_hello env now c hello agent ex s = (s', Inr ())" and "notified c s"
  shows "notified c s' \<and> map_option live_conn (jm_get (agentConnections s') (ag_id agent)) = Some c"
proof -
  let ?tail = "cseq (cmodify (\<lambda>s. s\<lparr>agentConnections := jm_set (ag_id agent)
             \<lparr>live_agent = agent, live_conn = c, seenNonces = rememberNonce [] (he_nonce hello) now\<rparr> (agentConnections s)\<rparr>))
      (cseq (cstore (updateAgent (agent\<lparr>ag_status := Online, ag_lastSeenAt := Some now,
             ag_hostMetadata := Some (he_host hello), ag_updatedAt := now\<rparr>)))
      (cseq (ws_onClose c (ag_id agent) (ag_userId agent))
      (cseq (audit env now (Some (ag_userId agent)) (Some (ag_id agent)) None ''agent_connected'' Info
             [(''agent_version'', JStr (he_agent_version hello)), (''host'', JStr (hm_hostname (he_host hello)))])
        (send c (MsgReady (ag_id agent) (ag_policy agent))))))"
  obtain s0 x where s0: "register_hello c agent (he_nonce hello) now s = (s0, Inr x)"
    and rest: "cseq (case ex of Some l \<Rightarrow> ws_close env now (live_conn l) | None \<Rightarrow> creturn ()) ?tail s0 = (s', Inr ())"
    using assms(1) unfolding accept_hello_def by (rule cseq_okE)
  obtain s1 y where s1: "(case ex of Some l \<Rightarrow> ws_close env now (live_conn l) | None \<Rightarrow> creturn ()) s0 = (s1, Inr y)"
    and tail: "?tail s1 = (s', Inr ())" using rest by (rule cseq_okE)
  have n0: "notified c s0"
    using assms(2) s0 by (auto simp: register_hello_def notified_def conn_of_def)
  have "keeps (notified c) (case ex of Some l \<Rightarrow> ws_close env now (live_conn l) | None \<Rightarrow> creturn ())"
    by (intro triples) auto
  from keepsD [OF this n0 s1] have "notified c s1" .
  with tail show ?thesis
    by (elim cseq_okE) (auto simp: ws_onClose_def send_run notified_def conn_of_def dest!: audit_other)
qed

lemma notified_handleClose:
  "notified c s \<Longrightarrow> ws_handleClose env now c s = (s\<lparr>conns := jm_set c ((conn_of s c)\<lparr>ws_closed := True\<rparr>) (conns s)\<rparr>, Inr ())"
  by (simp add: ws_handleClose_def notifyClose_def cbind_run cseq_def notified_def conn_of_def)

text \<open>
  A hello on a closed connection sticks. The socket's bytes are still handled after the server
  closed a connection, and a hello on it is accepted like any other; but the close handlers of that
  connection have already run and never run again. The agent stays registered on the dead
  connection, and in the store, also when the socket finally closes.
\<close>

theorem hello_on_closed_connection_sticks:
  assumes "accept_hello env now c hello agent ex s = (s1, Inr ())" and "ws_notified (conn_of s c)"
  shows "\<exists>s2. ws_handleClose env later c s1 = (s2, Inr ()) \<and> store s2 = store s1 \<and>
    map_option live_conn (jm_get (agentConnections s2) (ag_id agent)) = Some c"
  using accept_hello_registers [OF assms(1)] assms(2) notified_handleClose [of c s1 env later]
  by (simp add: notified_def)

definition sample_closed :: control_plane where
  "sample_closed = sample_listening\<lparr>conns := [(1, \<lparr>ws_closed = True, ws_notified = True, ws_handlers = []\<rparr>)]\<rparr>"

lemma sample_accept_closed:
  "\<exists>s1. accept_hello sample_cp_env 0 1 sample_hello sample_agent None sample_closed = (s1, Inr ())"
  by (simp add: sample_closed_def sample_listening_def accept_hello_def register_hello_def cbind_run cseq_def audit_def new_id_run cstore_def
    insertAudit_def insert_row_def updateAgent_def ws_onClose_def conn_of_def send_run new_control_plane_def sample_pending_eval)

theorem hello_on_closed_connection_sticks_witness:
  "\<exists>s1 s2. accept_hello sample_cp_env 0 1 sample_hello sample_agent None sample_closed = (s1, Inr ()) \<and>
     ws_handleClose sample_cp_env 9000000 1 s1 = (s2, Inr ()) \<and>
     map_option live_conn (jm_get (agentConnections s2) ''agt_1'') = Some 1"
proof -
  obtain s1 where s1: "accept_hello sample_cp_env 0 1 sample_hello sample_agent None sample_closed = (s1, Inr ())"
    using sample_accept_closed by blast
  have "ws_notified (conn_of sample_closed 1)" by (simp add: sample_closed_def conn_of_def)
  from hello_on_closed_connection_sticks [OF s1 this, of 9000000] s1 show ?thesis by (auto simp: sample_agent_def)
qed

end
