(* ===== verification/ControlIsolation.thy ===== *)
theory ControlIsolation
  imports ControlReplay
begin

text \<open>
  Isolation of users: a tool call of one user neither changes an agent of another user, beyond
  setting it offline when they share a connection, nor shows anything of it.
\<close>

section \<open>Invariants that only the owner's updates may break\<close>

locale owner_inv = quiet_inv +
  fixes u :: string
  assumes wf: "Q st \<Longrightarrow> store_wf st"
    and own: "Q st \<Longrightarrow> getAgent (ag_id a) st = Some old \<Longrightarrow> ag_userId old = u \<Longrightarrow> updateAgent a st = Inr st' \<Longrightarrow> Q st'"
begin

lemma requireAgent_own:
  "triple QS (requireAgent u args) (\<lambda>a s. QS s \<and> getAgent (ag_id a) (store s) = Some a \<and> ag_userId a = u) QS"
  by (rule triple_requireAgent) (auto dest: wf resolveAgent_current)

lemma requireAgent_keeps: "keeps QS (requireAgent u args)"
  by (rule triple_cons [OF requireAgent_own]) auto

lemma own_rule:
  "ag_id a = i \<Longrightarrow> triple (\<lambda>s. QS s \<and> getAgent i (store s) = Some old \<and> ag_userId old = u)
     (cstore (updateAgent a)) (\<lambda>_. QS) QS"
  by (rule triple_cstore) (auto intro: own)

lemma updateAgentPolicy_own:
  "triple (\<lambda>s. QS s \<and> getAgent (ag_id agent) (store s) = Some agent \<and> ag_userId agent = u)
     (updateAgentPolicy env cfg now p agent v) (\<lambda>_. QS) QS"
  unfolding updateAgentPolicy_def Let_def require_admin_def
  by (rule triple_check, rule triple_cseq [where R = QS], rule own_rule) (auto intro!: triples)

lemma revokeAgent_own:
  "triple (\<lambda>s. QS s \<and> getAgent (ag_id agent) (store s) = Some agent \<and> ag_userId agent = u)
     (revokeAgent env now p agent) (\<lambda>_. QS) QS"
  unfolding revokeAgent_def Let_def require_admin_def
  by (rule triple_check, rule triple_cseq [where R = QS], rule own_rule) (auto intro!: triples keeps_other)

lemma callRemoteTool_keeps:
  assumes "pr_userId p = u"
  shows "keeps QS (callRemoteTool env cfg now p tool args)"
proof -
  have upd: "keeps QS (cbind (requireAgent u a) (\<lambda>agent. cbind (updateAgentPolicy env cfg now p agent v) (\<lambda>x. creturn (f x))))"
    for a v f
    by (rule triple_cbind [OF requireAgent_own], rule triple_cbind [OF updateAgentPolicy_own]) (rule triple_creturn)
  have rev: "keeps QS (cbind (requireAgent u a) (\<lambda>agent. cbind (revokeAgent env now p agent) (\<lambda>x. creturn (f x))))"
    for a f
    by (rule triple_cbind [OF requireAgent_own], rule triple_cbind [OF revokeAgent_own]) (rule triple_creturn)
  show ?thesis
    unfolding callRemoteTool_def Let_def assms
    by (cases tool) (auto intro!: triples requireAgent_keeps createEnrollmentToken_keeps upd rev)
qed

end

section \<open>The agents of other users\<close>

text \<open>What a user decides about an agent: everything but whether it is online and when it was written.\<close>

definition agent_core :: "RemoteAgentRecord \<Rightarrow> RemoteAgentRecord" where
  "agent_core a = a\<lparr>ag_status := (if ag_status a = Revoked then Revoked else Offline), ag_updatedAt := 0\<rparr>"

definition foreign :: "string \<Rightarrow> string \<Rightarrow> RemoteAgentRecord \<Rightarrow> remote_store \<Rightarrow> bool" where
  "foreign u i k st \<longleftrightarrow> store_wf st \<and> (\<exists>a. getAgent i st = Some a \<and> ag_userId a \<noteq> u \<and> agent_core a = k)"

lemma getAgent_row: "getAgent i st = Some a \<Longrightarrow> ag_publicKey a = None \<or> truthy (ag_publicKey a)"
  unfolding getAgent_def map_option_eq_Some
  by (elim exE conjE) (auto simp: agentFromRow_def)

lemma agentFromRow_id: "ag_publicKey a = None \<or> truthy (ag_publicKey a) \<Longrightarrow> agentFromRow a = a"
  by (cases a) (auto simp: agentFromRow_def)

lemma foreign_frame: "foreign u i k st \<Longrightarrow> store_wf st' \<Longrightarrow> agents st' = agents st \<Longrightarrow> foreign u i k st'"
  by (simp add: foreign_def getAgent_def)

lemma foreign_offline:
  assumes "foreign u i k st" and "getAgent j st = Some x" and "ag_status x \<noteq> Revoked"
    and "updateAgent (x\<lparr>ag_status := Offline, ag_updatedAt := t\<rparr>) st = Inr st'"
  shows "foreign u i k st'"
proof -
  have j: "ag_id x = j" using assms(2) by (rule getAgent_id)
  have "agentFromRow (x\<lparr>ag_status := Offline, ag_updatedAt := t\<rparr>) = x\<lparr>ag_status := Offline, ag_updatedAt := t\<rparr>"
    using getAgent_row [OF assms(2)] by (intro agentFromRow_id) simp
  moreover have "x\<lparr>ag_status := Offline, ag_updatedAt := t, ag_userId := ag_userId x, ag_createdAt := ag_createdAt x\<rparr> =
      x\<lparr>ag_status := Offline, ag_updatedAt := t\<rparr>" by simp
  ultimately have "getAgent i st' = (if i = j then Some (x\<lparr>ag_status := Offline, ag_updatedAt := t\<rparr>) else getAgent i st)"
    using getAgent_updateAgent [OF assms(4), of i] assms(2) j by simp
  then show ?thesis
    using assms(1-3) updateAgent_wf [OF _ assms(4)] by (auto simp: foreign_def agent_core_def)
qed

interpretation foreign: owner_inv "foreign u i k" u for u i k
proof
  fix st st' ev act a et old
  assume f: "foreign u i k st"
  then have wf: "store_wf st" by (simp add: foreign_def)
  show "store_wf st" by (rule wf)
  show "foreign u i k st'" if "insertAudit ev st = Inr st'"
    using foreign_frame [OF f] store_frame(11) [OF that] insertAudit_wf [OF wf that] by simp
  show "foreign u i k st'" if "insertAction act st = Inr st'"
    using foreign_frame [OF f] store_frame(9) [OF that] insertAction_wf [OF wf that] by simp
  show "foreign u i k st'" if "insertEnrollmentToken et st = Inr st'"
    using foreign_frame [OF f] store_frame(7) [OF that] insertEnrollmentToken_wf [OF wf that] by simp
  show "foreign u i k st'" if "insertAgent a st = Inr st'"
    using f getAgent_insertAgent [OF that] insertAgent_wf [OF wf that] by (auto simp: foreign_def)
  show "foreign u i k st'" if "getAgent (ag_id a) st = Some old" "ag_userId old = u" "updateAgent a st = Inr st'"
    using f that getAgent_updateAgent [OF that(3)] updateAgent_wf [OF wf that(3)] by (auto simp: foreign_def)
qed (rule foreign_offline)

section \<open>What a reply shows\<close>

definition reply_owned :: "string \<Rightarrow> remote_store \<Rightarrow> tool_reply \<Rightarrow> bool" where
  "reply_owned u st r = (case r of
      Hosts hs \<Rightarrow> hv_id ` set hs \<subseteq> {ag_id a |a. a \<in> set (agents st) \<and> ag_userId a = u}
    | Agents vs \<Rightarrow> av_id ` set vs \<subseteq> {ag_id a |a. a \<in> set (agents st) \<and> ag_userId a = u}
    | Events es \<Rightarrow> (\<forall>e \<in> set es. ev_userId e = Some u)
    | AgentReply v \<Rightarrow> (\<exists>a. getAgent (av_id v) st = Some a \<and> ag_userId a = u)
    | Install ic \<Rightarrow> (\<exists>a. getAgent (ic_agent_id ic) st = Some a \<and> ag_userId a = u)
    | Dispatched act \<Rightarrow> (\<exists>a. getAgent (act_agentId act) st = Some a \<and> ag_userId a = u)
    | Enrollment ic token \<Rightarrow> True)"

lemma listAgents_own: "a \<in> set (listAgents u st) \<Longrightarrow> \<exists>r \<in> set (agents st). ag_id a = ag_id r \<and> ag_userId r = u"
  by (auto simp: listAgents_def)

lemma listAudit_own: "e \<in> set (listAudit u aid limit st) \<Longrightarrow> ev_userId e = Some u"
  by (auto simp: listAudit_def Let_def dest!: in_set_takeD)

lemma requireAgent_ok:
  "requireAgent u args s = (s', Inr a) \<Longrightarrow> store_wf (store s) \<Longrightarrow> s' = s \<and> getAgent (ag_id a) (store s) = Some a \<and> ag_userId a = u"
  by (auto simp: requireAgent_def cbind_run dest: resolveAgent_current)

lemma revokeAgent_id: "revokeAgent env now p agent s = (s', Inr a) \<Longrightarrow> ag_id a = ag_id agent"
  unfolding revokeAgent_def Let_def by (elim cseq_okE cbind_okE) auto

lemma updateAgentPolicy_id: "updateAgentPolicy env cfg now p agent v s = (s', Inr a) \<Longrightarrow> ag_id a = ag_id agent"
  unfolding updateAgentPolicy_def Let_def by (elim cseq_okE cbind_okE) auto

lemma callRemoteTool_owned:
  assumes "store_wf (store s)" and "callRemoteTool env cfg now p tool args s = (s', Inr r)"
  shows "reply_owned (pr_userId p) (store s) r"
proof (cases "dispatching tool")
  case True
  then obtain act where r: "r = Dispatched act"
    using assms(2) by (auto simp: callRemoteTool_dispatch Let_def elim!: cseq_okE cbind_okE split: if_splits)
  from assms(2) [unfolded r] obtain agent where a: "target p args (store s) = Some agent"
    and d: "dispatchAction env cfg now p agent tool (TOOL_CAPABILITY_MAP tool) args s = (s', Inr act)" by (rule callRemoteTool_ok)
  have "act_agentId act = ag_id agent" using d by (auto elim!: dispatchAction_ok simp: action_record_def)
  with resolveAgent_current [OF assms(1) a [unfolded target_def]] show ?thesis by (auto simp: reply_owned_def r)
next
  case False
  then show ?thesis
    using assms
    by (cases tool)
      (force simp: dispatching_def callRemoteTool_def Let_def reply_owned_def sanitizeAgent_def installCommand_def
         elim!: cbind_okE cseq_okE dest!: requireAgent_ok listAgents_own listAudit_own dest: revokeAgent_id updateAgentPolicy_id)+
qed

text \<open>
  C23: users are isolated. Whatever tool a user calls with whatever arguments, and whether the call
  succeeds or throws, every agent of another user keeps its owner, alias, key, policy, policy
  version and revocation; and what the reply shows (hosts, agents, audit events, install
  commands, dispatched actions) belongs to the caller.
\<close>

theorem users_isolated:
  assumes "store_wf (store s)" and "callRemoteTool env cfg now p tool args s = (s', r)"
    and "getAgent i (store s) = Some a" and "ag_userId a \<noteq> pr_userId p"
  shows "(\<exists>a'. getAgent i (store s') = Some a' \<and> agent_core a' = agent_core a) \<and>
    (\<forall>x. r = Inr x \<longrightarrow> reply_owned (pr_userId p) (store s) x)"
proof
  have "foreign (pr_userId p) i (agent_core a) (store s)" using assms by (simp add: foreign_def)
  from keepsD [OF foreign.callRemoteTool_keeps [OF refl] this assms(2)]
  show "\<exists>a'. getAgent i (store s') = Some a' \<and> agent_core a' = agent_core a" by (auto simp: foreign_def)
  show "\<forall>x. r = Inr x \<longrightarrow> reply_owned (pr_userId p) (store s) x"
    using callRemoteTool_owned [OF assms(1)] assms(2) by blast
qed

definition eve :: RemotePrincipal where
  "eve = sample_principal\<lparr>pr_userId := ''github:8''\<rparr>"

theorem users_isolated_witness:
  "\<exists>a. getAgent ''agt_1'' (store (fst (callRemoteTool sample_cp_env sample_cp_config 1000 eve RevokeAgent
     [(''agent_id_or_alias'', JStr ''agt_1'')] sample_state))) = Some a \<and> ag_status a \<noteq> Revoked"
proof -
  have a: "getAgent ''agt_1'' (store sample_state) = Some sample_agent" by (simp add: sample_pending_eval)
  have "ag_userId sample_agent \<noteq> pr_userId eve" by (simp add: eve_def sample_agent_def)
  from users_isolated [OF sample_store_wf prod.collapse [symmetric] a this]
  obtain a' where "getAgent ''agt_1'' (store (fst (callRemoteTool sample_cp_env sample_cp_config 1000 eve RevokeAgent
     [(''agent_id_or_alias'', JStr ''agt_1'')] sample_state))) = Some a'" "agent_core a' = agent_core sample_agent" by blast
  moreover have "ag_status a' \<noteq> Revoked"
    using arg_cong [OF calculation(2), of ag_status] by (simp add: agent_core_def sample_agent_def split: if_splits)
  ultimately show ?thesis by blast
qed

end
