(* ===== verification/ControlEnrollment.thy ===== *)
theory ControlEnrollment
  imports ControlIsolation
begin

text \<open>
  Install commands, enrollment of an alias that was revoked, access tokens from the token
  endpoint to the principal of a request, and the windows of nonces.
\<close>

section \<open>Install commands\<close>

lemma quotePosixArg_eq: "quotePosixArg = shellQuote"
  by (simp add: fun_eq_iff quotePosixArg_def shellQuote_def)

lemma quotePowerShellArg_eq: "quotePowerShellArg = powerShellQuote"
  by (simp add: fun_eq_iff quotePowerShellArg_def powerShellQuote_def)

definition install_args :: "string \<Rightarrow> string \<Rightarrow> string \<Rightarrow> arg list" where
  "install_args url token alias = [Bare ''npx'', Bare ''--yes'', Bare ''--package'', Bare ''mcp-ssh-tool@latest'',
     Bare ''mcp-ssh-agent'', Bare ''enroll'', Bare ''--server'', Quoted url, Bare ''--token'', Quoted token,
     Bare ''--alias'', Quoted alias]"

lemma install_args_ok: "list_all bare_ok (install_args url token alias)"
  by (simp add: install_args_def bare_ok_def inert_def sh_meta_def sh_active_def)

context quoting
begin

lemma lex_install_line:
  "lex_command word (install_line quote url token alias) = Some (map arg_value (install_args url token alias), [])"
proof -
  have "install_line quote url token alias = join '' '' (map render_arg (install_args url token alias))"
    by (simp add: install_line_def install_args_def render_arg_def)
  then show ?thesis using lex_command_render [OF install_args_ok] by simp
qed

end

interpretation posix_arg: quoting quotePosixArg sh_word
  unfolding quotePosixArg_eq by (rule sh.quoting_axioms)

interpretation powershell_arg: quoting quotePowerShellArg ps_word
  unfolding quotePowerShellArg_eq by (rule ps.quoting_axioms)

text \<open>
  Install commands cannot be injected into. Whatever characters the alias, the token and the
  server's address contain, a POSIX shell reads the npm command, and PowerShell the Windows
  command, as one call of \<open>npx\<close> with exactly these arguments, and nothing follows it.
\<close>

theorem install_command_quoting:
  "lex_command sh_word (ic_npm (installCommand cfg agent (Some token))) =
     Some ([''npx'', ''--yes'', ''--package'', ''mcp-ssh-tool@latest'', ''mcp-ssh-agent'', ''enroll'',
       ''--server'', publicBaseUrl cfg, ''--token'', token, ''--alias'', ag_alias agent], []) \<and>
   lex_command ps_word (ic_windows (installCommand cfg agent (Some token))) =
     Some ([''npx'', ''--yes'', ''--package'', ''mcp-ssh-tool@latest'', ''mcp-ssh-agent'', ''enroll'',
       ''--server'', publicBaseUrl cfg, ''--token'', token, ''--alias'', ag_alias agent], [])"
  using posix_arg.lex_install_line powershell_arg.lex_install_line
  by (simp add: installCommand_def Let_def install_args_def arg_value_def)

section \<open>Revoked aliases\<close>

text \<open>
  The alias of a revoked agent cannot be used again. The check for an existing alias lets
  revoked agents pass, but the table of agents still holds the old row and its constraint on
  user and alias: the request fails with a store error, and no agent or token is created.
\<close>

theorem revoked_alias_blocked:
  assumes "AgentsAdmin \<in> set (pr_capabilities p)" and "str_prop args ''alias'' = Some x" and "trim x \<noteq> []"
    and "getAgentByAlias (pr_userId p) (trim x) (store s) = Some a" and "ag_status a = Revoked"
  shows "\<exists>s'. createEnrollmentToken env cfg now p args s = (s', Inl (StoreError (UniqueFailed ''agents''))) \<and> store s' = store s"
proof -
  obtain r where r: "find (\<lambda>q. ag_userId q = pr_userId p \<and> ag_alias q = trim x) (agents (store s)) = Some r"
    using assms(4) by (auto simp: getAgentByAlias_def)
  have "r \<in> set (agents (store s)) \<and> ag_userId r = pr_userId p \<and> ag_alias r = trim x"
    using r by (auto dest: find_SomeD)
  moreover have "insertAgent b (store s) = Inl (UniqueFailed ''agents'')" if "ag_userId b = pr_userId p" "ag_alias b = trim x" for b
  proof -
    have "list_ex (agent_clash b) (agents (store s))"
      using that calculation unfolding list_ex_iff agent_clash_def by metis
    then show ?thesis by (simp add: insertAgent_def insert_row_def)
  qed
  ultimately show ?thesis
    using assms
    by (simp add: createEnrollmentToken_def require_admin_def hasCapability_def Let_def cbind_run cseq_def new_id_run
        randomToken_run cstore_def)
qed

theorem revoked_alias_blocked_witness:
  "\<exists>s'. createEnrollmentToken sample_cp_env sample_cp_config 2000 sample_principal [(''alias'', JStr ''web'')]
      (sample_state\<lparr>store := sample_store\<lparr>agents := [sample_agent\<lparr>ag_status := Revoked\<rparr>]\<rparr>\<rparr>) =
      (s', Inl (StoreError (UniqueFailed ''agents''))) \<and>
    store s' = sample_store\<lparr>agents := [sample_agent\<lparr>ag_status := Revoked\<rparr>]\<rparr>"
  using revoked_alias_blocked [of sample_principal "[(''alias'', JStr ''web'')]" "''web''"
    "sample_state\<lparr>store := sample_store\<lparr>agents := [sample_agent\<lparr>ag_status := Revoked\<rparr>]\<rparr>\<rparr>"
    "sample_agent\<lparr>ag_status := Revoked\<rparr>" sample_cp_env sample_cp_config 2000]
  by (simp add: sample_principal_def sample_agent_def getAgentByAlias_def agentFromRow_def str_prop_def jprop_def asString_def
      trim_def is_ws_def)

section \<open>Access tokens\<close>

text \<open>The documented behaviour of the signing library: a token that has not expired verifies, for the
  issuer and audience it was issued with, to the claims it was signed with.\<close>

definition claims_payload :: "AccessClaims \<Rightarrow> JWTPayload" where
  "claims_payload cl = \<lparr>jwt_sub = cl_subject cl, jwt_jti = cl_jti cl, jwt_scope = Some (cl_scope cl),
     jwt_github_id = Some (cl_github_id cl), jwt_github_login = Some (cl_github_login cl)\<rparr>"

definition jwt_sound :: "cp_env \<Rightarrow> AccessClaims \<Rightarrow> bool" where
  "jwt_sound env cl \<longleftrightarrow> (\<forall>t. t < cl_exp cl \<longrightarrow>
     jwt_verify env (jwt_sign env cl) (cl_issuer cl) (cl_audience cl) t = Some (claims_payload cl)) \<and>
     jwt_sign env cl \<noteq> [] \<and> CHR '' '' \<notin> set (jwt_sign env cl)"

lemma split_ws_word: "list_all (\<lambda>c. \<not> is_ws c) w \<Longrightarrow> split_ws w = [w]"
  by (subst split_ws.simps) (simp add: Let_def list_all_iff takeWhile_eq_all_conv [THEN iffD2] dropWhile_eq_Nil_conv [THEN iffD2])

lemma split_ws_cons:
  assumes "list_all (\<lambda>c. \<not> is_ws c) w" and "v \<noteq> []" and "\<not> is_ws (hd v)"
  shows "split_ws (w @ CHR '' '' # v) = w # split_ws v"
proof -
  have t: "takeWhile (\<lambda>c. \<not> is_ws c) (w @ CHR '' '' # v) = w" "dropWhile (\<lambda>c. \<not> is_ws c) (w @ CHR '' '' # v) = CHR '' '' # v"
    using assms(1) by (induction w) (auto simp: is_ws_def)
  have "dropWhile is_ws (CHR '' '' # v) = v" using assms(2,3) by (cases v) (auto simp: is_ws_def)
  then show ?thesis by (subst split_ws.simps) (simp add: t Let_def)
qed

lemma ws_words_join:
  "\<forall>w \<in> set ws. w \<noteq> [] \<and> list_all (\<lambda>c. \<not> is_ws c) w \<Longrightarrow> ws_words (join '' '' ws) = ws"
proof (induction ws rule: induct_list012)
  case 1
  then show ?case by (simp add: ws_words_def split_ws_word)
next
  case (2 w)
  then show ?case by (simp add: ws_words_def split_ws_word)
next
  case (3 w v ws)
  have "join '' '' (v # ws) \<noteq> []" "\<not> is_ws (hd (join '' '' (v # ws)))"
    using 3 by (cases v; cases ws; auto simp: list_all_iff)+
  then show ?case using 3 by (simp add: ws_words_def split_ws_cons)
qed

lemma scopes_are_words: "w \<in> set REMOTE_SCOPES \<Longrightarrow> w \<noteq> [] \<and> list_all (\<lambda>c. \<not> is_ws c) w"
  by (auto simp: REMOTE_SCOPES_def is_ws_def)

lemma scopeList_known: "scopeList sc = Inr scopes \<Longrightarrow> set scopes \<subseteq> set REMOTE_SCOPES"
  by (auto simp: scopeList_def Let_def parseScopes_def default_scopes_def REMOTE_SCOPES_def split: if_splits)

lemma extract_issued: "CHR '' '' \<notin> set t \<Longrightarrow> t \<noteq> [] \<Longrightarrow> extractBearerToken (Some (''Bearer '' @ t)) = Some t"
  by (simp add: extractBearerToken_def split_on_single)

text \<open>
  C27: an issued token authenticates its user. If the token library verifies what it signed, the
  access token of a successful token request, presented as a bearer token before it expires,
  yields the principal of the user the code was issued for, with exactly the authorised scopes and
  exactly the capabilities these scopes grant.
\<close>

theorem access_token_roundtrip:
  assumes "handleToken env cfg now body s = (s', Inr r)" and "jwt_sound env (tr_claims r)"
    and "later div 1000 < now div 1000 + accessTokenTtlSeconds cfg"
  shows "\<exists>c user scopes p. getAuthorizationCodeByHash (code_hash env body) (store s) = Some c \<and>
    userFromId (ac_userId c) (store s) = Some user \<and> scopeList (ac_scope c) = Inr scopes \<and>
    verifyRemoteAccessToken env cfg later (Some (''Bearer '' @ access_token r)) = Inr p \<and>
    pr_userId p = us_id user \<and> pr_githubLogin p = us_githubLogin user \<and> pr_scopes p = scopes \<and>
    set (pr_capabilities p) = (\<Union>w \<in> set scopes. set (the (map_of SCOPE_CAPABILITY_MAP w)))"
proof -
  obtain c user scopes where c: "getAuthorizationCodeByHash (code_hash env body) (store s) = Some c"
    "userFromId (ac_userId c) (store s) = Some user" "scopeList (ac_scope c) = Inr scopes"
    and cl: "tr_claims r = access_claims cfg now (''tok_'' @ rand_id env (drawn s)) user scopes"
      "access_token r = jwt_sign env (tr_claims r)"
    using assms(1) by (rule handleToken_ok)
  have words: "ws_words (join '' '' scopes) = scopes"
    using scopeList_known [OF c(3)] scopes_are_words by (intro ws_words_join) auto
  obtain cs where cs: "capabilitiesFromScopes scopes = Inr cs" "set cs = (\<Union>w \<in> set scopes. set (the (map_of SCOPE_CAPABILITY_MAP w)))"
    using add_capabilities_correct [of scopes "[]"] scopeList_known [OF c(3)] by (auto simp: capabilitiesFromScopes_def)
  have "extractBearerToken (Some (''Bearer '' @ access_token r)) = Some (access_token r)"
    using assms(2) by (intro extract_issued) (auto simp: jwt_sound_def cl(2))
  moreover have "jwt_verify env (access_token r) (publicBaseUrl cfg) (mcpResourceUrl cfg) (later div 1000) = Some (claims_payload (tr_claims r))"
    using assms(2,3) unfolding jwt_sound_def cl(2) by (simp add: cl(1) access_claims_def)
  ultimately have "verifyRemoteAccessToken env cfg later (Some (''Bearer '' @ access_token r)) = principalFromPayload (claims_payload (tr_claims r))"
    by (simp add: verifyRemoteAccessToken_def)
  then show ?thesis
    using c cs words by (auto simp: principalFromPayload_def claims_payload_def cl(1) access_claims_def)
qed

definition sample_claims :: AccessClaims where
  "sample_claims = access_claims sample_cp_config 1000 ''tok_10''
     \<lparr>us_id = ''github:7'', us_githubId = ''7'', us_githubLogin = ''ada'', us_createdAt = 0, us_updatedAt = 0\<rparr>
     [''hosts:read'', ''status:read'']"

definition sample_jwt_env :: cp_env where
  "sample_jwt_env = sample_cp_env\<lparr>jwt_sign := (\<lambda>cl. ''t''), jwt_verify := (\<lambda>t iss aud now. Some (claims_payload sample_claims))\<rparr>"

lemma sample_token_claims:
  "(case snd (handleToken sample_jwt_env sample_cp_config 1000 sample_token_body sample_state) of
      Inl e \<Rightarrow> None | Inr r \<Rightarrow> Some (tr_claims r)) = Some sample_claims"
  by code_simp

theorem access_token_roundtrip_witness:
  "\<exists>r p. snd (handleToken sample_jwt_env sample_cp_config 1000 sample_token_body sample_state) = Inr r \<and>
     verifyRemoteAccessToken sample_jwt_env sample_cp_config 900000 (Some (''Bearer '' @ access_token r)) = Inr p"
proof -
  obtain s' r where r: "handleToken sample_jwt_env sample_cp_config 1000 sample_token_body sample_state = (s', Inr r)"
    "tr_claims r = sample_claims"
    using sample_token_claims by (cases "handleToken sample_jwt_env sample_cp_config 1000 sample_token_body sample_state")
      (auto split: sum.splits)
  have "jwt_sound sample_jwt_env (tr_claims r)" by (simp add: jwt_sound_def sample_jwt_env_def r(2))
  from access_token_roundtrip [OF r(1) this, of 900000] r(1) show ?thesis
    by (auto simp: sample_cp_config_def)
qed

section \<open>Windows of nonces\<close>

lemma jm_delete_head: "jm_wf ns \<Longrightarrow> ns \<noteq> [] \<Longrightarrow> jm_delete (fst (hd ns)) ns = tl ns"
  by (cases ns) (force simp: jm_wf_def jm_delete_def filter_id_conv)+

lemma evict_oldest_drop: "jm_wf ns \<Longrightarrow> evict_oldest m ns = drop (length ns - m) ns"
proof (induction m ns rule: evict_oldest.induct)
  case (1 m ns)
  show ?case
  proof (cases "m < length ns")
    case True
    then have d: "jm_delete (fst (hd ns)) ns = tl ns" using 1 by (intro jm_delete_head) auto
    have "jm_wf (tl ns)" using 1(2) by (cases ns) (auto simp: jm_wf_def)
    then have "evict_oldest m (tl ns) = drop (length ns - Suc m) (tl ns)" using 1(1) [OF True] d by simp
    then show ?thesis
      using True d by (subst evict_oldest.simps) (cases ns, auto simp: Suc_diff_le less_Suc_eq_le)
  qed (subst evict_oldest.simps, simp)
qed

lemma jm_set_snoc: "jm_get ns n = None \<Longrightarrow> jm_set n v ns = ns @ [(n, v)]"
  by (induction n v ns rule: jm_set.induct) (auto split: if_splits)

lemma jm_set_length: "length (jm_set n v ns) = (if jm_has ns n then length ns else Suc (length ns))"
  by (induction n v ns rule: jm_set.induct) (auto simp: jm_has_def)

lemma set_jm_set: "set (jm_set n v ns) \<subseteq> insert (n, v) (set ns)"
  by (induction n v ns rule: jm_set.induct) auto

text \<open>
  The nonce window of a connection is bounded and keeps what it must. Starting from at most
  4096 nonces, remembering one leaves at most 4096, the new nonce is in the window for five
  minutes, and every other entry is an old one that has not expired.
\<close>

theorem rememberNonce_window:
  assumes "jm_wf ns" and "length ns \<le> 4096"
  shows "jm_wf (rememberNonce ns n now) \<and> length (rememberNonce ns n now) \<le> 4096 \<and>
    jm_get (rememberNonce ns n now) n = Some (now + 300000) \<and>
    set (rememberNonce ns n now) \<subseteq> insert (n, now + 300000) {e \<in> set ns. now < snd e}"
proof -
  let ?p = "pruneNonceWindow ns now" and ?v = "now + 300000"
  have wf: "jm_wf ?p" "jm_wf (jm_set n ?v ?p)" using assms(1) by (simp_all add: pruneNonceWindow_def jm_wf_filter)
  have len: "length ?p \<le> 4096"
    using assms(2) length_filter_le [of "\<lambda>e. \<not> snd e \<le> now" ns] unfolding pruneNonceWindow_def by linarith
  have r: "rememberNonce ns n now = drop (length (jm_set n ?v ?p) - 4096) (jm_set n ?v ?p)"
    by (simp add: rememberNonce_def AGENT_NONCE_TTL_MS_def MAX_AGENT_CONNECTION_NONCES_def evict_oldest_drop wf)
  have wfd: "jm_wf (drop k (jm_set n ?v ?p))" for k
    using wf(2) unfolding jm_wf_def by (metis distinct_drop drop_map)
  have "(n, ?v) \<in> set (drop (length (jm_set n ?v ?p) - 4096) (jm_set n ?v ?p))"
  proof (cases "jm_has ?p n")
    case True
    then show ?thesis using len jm_get_SomeD [of "jm_set n ?v ?p" n ?v] by (simp add: jm_set_length)
  next
    case False
    then show ?thesis using len by (simp add: jm_has_def jm_set_snoc)
  qed
  then have "jm_get (rememberNonce ns n now) n = Some ?v" unfolding r by (rule jm_get_SomeI [OF wfd])
  moreover have "set (rememberNonce ns n now) \<subseteq> insert (n, ?v) {e \<in> set ns. now < snd e}"
    using set_jm_set [of n ?v ?p] set_drop_subset [of "length (jm_set n ?v ?p) - 4096" "jm_set n ?v ?p"]
    unfolding r by (auto simp: pruneNonceWindow_def)
  ultimately show ?thesis using wfd r by simp
qed

theorem rememberNonce_window_witness:
  "jm_get (rememberNonce [(''a'', 1000), (''b'', 400000)] ''c'' 200000) ''c'' = Some (200000 + 300000)"
proof -
  have "jm_wf [(''a'', 1000 :: int), (''b'', 400000)]" "length [(''a'', 1000 :: int), (''b'', 400000)] \<le> 4096"
    by (simp_all add: jm_wf_def)
  from rememberNonce_window [OF this, of "''c''" 200000] show ?thesis by blast
qed

end
