(* ===== verification/DateTime.thy ===== *)
theory DateTime
  imports Envelopes
begin

text \<open>
  Dates that travel as text. The control plane writes a deadline with \<open>toISOString\<close> and the agent
  reads it with \<open>new Date(...).getTime()\<close>: for the years 1970 to 9999 this gives back the same
  millisecond.
\<close>

lemma div_bounds: "0 < k \<Longrightarrow> k * (n div k) \<le> n \<and> n < k * (n div k) + k" for k n :: int
  using mult_div_mod_eq [of k n] pos_mod_bound [of k n] pos_mod_sign [of k n] by linarith

lemma year_of_era:
  fixes doe :: int
  assumes "0 \<le> doe" and "doe < 146097"
  defines "yoe \<equiv> (doe - doe div 1460 + doe div 36524 - doe div 146096) div 365"
  shows "0 \<le> yoe \<and> yoe < 400 \<and> 0 \<le> doe - (365 * yoe + yoe div 4 - yoe div 100) \<and> doe - (365 * yoe + yoe div 4 - yoe div 100) \<le> 365"
proof -
  define a where "a = doe div 1460"
  define b where "b = doe div 36524"
  define c where "c = doe div 146096"
  define q where "q = yoe div 4"
  define h where "h = yoe div 100"
  have a: "1460 * a \<le> doe" "doe < 1460 * a + 1460" using div_bounds [of 1460 doe] by (simp_all add: a_def)
  have b: "36524 * b \<le> doe" "doe < 36524 * b + 36524" using div_bounds [of 36524 doe] by (simp_all add: b_def)
  have c: "146096 * c \<le> doe" "doe < 146096 * c + 146096" using div_bounds [of 146096 doe] by (simp_all add: c_def)
  have y: "365 * yoe \<le> doe - a + b - c" "doe - a + b - c < 365 * yoe + 365"
    using div_bounds [of 365 "doe - a + b - c"] by (simp_all add: yoe_def a_def b_def c_def)
  have q: "4 * q \<le> yoe" "yoe < 4 * q + 4" using div_bounds [of 4 yoe] by (simp_all add: q_def)
  have h: "100 * h \<le> yoe" "yoe < 100 * h + 100" using div_bounds [of 100 yoe] by (simp_all add: h_def)
  have B: "0 \<le> b" "b \<le> 4" "0 \<le> c" "c \<le> 1" "0 \<le> a" "25 * b \<le> a" using assms(1,2) a b c by linarith+
  have y0: "0 \<le> yoe" using assms(1,2) a b c y B by linarith
  moreover have "yoe < 400"
  proof (cases "c = 0")
    case True
    then have "b \<le> 3" using b c by linarith
    then show ?thesis using assms(2) a y True c by linarith
  next
    case False
    then show ?thesis using assms(2) a y B c by linarith
  qed
  ultimately have y0: "0 \<le> yoe" "yoe < 400" by simp_all
  have h1: "h \<le> b" using assms(1,2) a b c y h B by linarith
  have h2: "b \<le> h + c" using assms(1,2) a b c y h B by linarith
  have q1: "q \<le> a" using assms(1,2) a b c y q B by linarith
  have q2: "a \<le> q + 1" using assms(1,2) a b c y q B by linarith
  have "0 \<le> doe - (365 * yoe + q - h)" using y(1) q1 h2 by linarith
  moreover have "doe - (365 * yoe + q - h) \<le> 365"
  proof (cases "c = 0")
    case True
    then show ?thesis using y(2) q2 h1 by linarith
  next
    case False
    then have "c = 1" using B(3,4) by linarith
    moreover have "h \<le> 3" using y0(2) h(1) by linarith
    moreover have "4 \<le> b" using \<open>c = 1\<close> b(2) c(1) by linarith
    ultimately show ?thesis using y(2) q2 by linarith
  qed
  ultimately show ?thesis unfolding q_def h_def using y0 by blast
qed

lemma civil_era:
  assumes "civil_from_days n = (y, m, d)"
  obtains era yoe doy mp where "n + 719468 = era * 146097 + (365 * yoe + yoe div 4 - yoe div 100 + doy)"
    and "0 \<le> yoe" and "yoe < 400" and "0 \<le> doy" and "doy \<le> 365"
    and "0 \<le> mp" and "mp \<le> 11" and "153 * mp \<le> 5 * doy + 2" and "5 * doy + 2 < 153 * mp + 153"
    and "y = yoe + era * 400 + (if m \<le> 2 then 1 else 0)" and "m = (if mp < 10 then mp + 3 else mp - 9)"
    and "d = doy - (153 * mp + 2) div 5 + 1"
proof -
  define z where "z = n + 719468"
  define era where "era = z div 146097"
  define doe where "doe = z - era * 146097"
  define yoe where "yoe = (doe - doe div 1460 + doe div 36524 - doe div 146096) div 365"
  define doy where "doy = doe - (365 * yoe + yoe div 4 - yoe div 100)"
  define mp where "mp = (5 * doy + 2) div 153"
  define k where "k = (if mp < 10 then mp + 3 else mp - 9)"
  have "civil_from_days n = (yoe + era * 400 + (if k \<le> 2 then 1 else 0), k, doy - (153 * mp + 2) div 5 + 1)"
    unfolding civil_from_days_def Let_def z_def [symmetric] era_def [symmetric] doe_def [symmetric] yoe_def [symmetric]
      doy_def [symmetric] mp_def [symmetric] k_def [symmetric] by (rule refl)
  then have r: "y = yoe + era * 400 + (if m \<le> 2 then 1 else 0)" "m = (if mp < 10 then mp + 3 else mp - 9)"
    "d = doy - (153 * mp + 2) div 5 + 1" using assms by (simp_all add: k_def)
  have doe: "0 \<le> doe" "doe < 146097" using div_bounds [of 146097 z] by (simp_all add: doe_def era_def)
  have yoe: "0 \<le> yoe" "yoe < 400" "0 \<le> doy" "doy \<le> 365"
    using year_of_era [OF doe] by (simp_all add: yoe_def doy_def)
  have mp: "0 \<le> mp" "mp \<le> 11" "153 * mp \<le> 5 * doy + 2" "5 * doy + 2 < 153 * mp + 153"
    using div_bounds [of 153 "5 * doy + 2"] yoe(3,4) unfolding mp_def by linarith+
  have "n + 719468 = era * 146097 + (365 * yoe + yoe div 4 - yoe div 100 + doy)" by (simp add: doy_def doe_def z_def)
  from that [OF this yoe mp r] show ?thesis .
qed

lemma civil_days:
  assumes "civil_from_days n = (y, m, d)"
  shows "days_from_civil y m d = n"
proof -
  from assms obtain era yoe doy mp where n: "n + 719468 = era * 146097 + (365 * yoe + yoe div 4 - yoe div 100 + doy)"
    and yoe: "0 \<le> yoe" "yoe < 400" "0 \<le> doy" "doy \<le> 365" and mp: "0 \<le> mp" "mp \<le> 11"
    and r: "y = yoe + era * 400 + (if m \<le> 2 then 1 else 0)" "m = (if mp < 10 then mp + 3 else mp - 9)"
      "d = doy - (153 * mp + 2) div 5 + 1" by (rule civil_era)
  have "(yoe + era * 400) div 400 = era" using yoe by simp
  moreover have "(if 2 < m then m - 3 else m + 9) = mp" using mp r(2) by auto
  moreover have "(if m \<le> 2 then y - 1 else y) = yoe + era * 400" using r(1) by auto
  ultimately have "days_from_civil y m d = era * 146097 + (yoe * 365 + yoe div 4 - yoe div 100 + ((153 * mp + 2) div 5 + d - 1)) - 719468"
    by (simp add: days_from_civil_def Let_def)
  then show ?thesis using n r(3) by linarith
qed

lemma civil_ranges:
  assumes "civil_from_days n = (y, m, d)" and "0 \<le> n" and "n < 2932897"
  shows "0 \<le> y \<and> y \<le> 9999 \<and> 1 \<le> m \<and> m \<le> 12 \<and> 1 \<le> d \<and> d \<le> 31"
proof -
  from assms(1) obtain era yoe doy mp where n: "n + 719468 = era * 146097 + (365 * yoe + yoe div 4 - yoe div 100 + doy)"
    and yoe: "0 \<le> yoe" "yoe < 400" "0 \<le> doy" "doy \<le> 365"
    and mp: "0 \<le> mp" "mp \<le> 11" "153 * mp \<le> 5 * doy + 2" "5 * doy + 2 < 153 * mp + 153"
    and r: "y = yoe + era * 400 + (if m \<le> 2 then 1 else 0)" "m = (if mp < 10 then mp + 3 else mp - 9)"
      "d = doy - (153 * mp + 2) div 5 + 1" by (rule civil_era)
  have "1 \<le> d" "d \<le> 31" using div_bounds [of 5 "153 * mp + 2"] mp(3,4) r(3) by linarith+
  moreover have "1 \<le> m" "m \<le> 12" using mp(1,2) r(2) by auto
  moreover have "0 \<le> y \<and> y \<le> 9999"
  proof -
    have q: "4 * (yoe div 4) \<le> yoe" "yoe < 4 * (yoe div 4) + 4" "100 * (yoe div 100) \<le> yoe" "yoe < 100 * (yoe div 100) + 100"
      using div_bounds [of 4 yoe] div_bounds [of 100 yoe] by linarith+
    have z: "719468 \<le> n + 719468" "n + 719468 < 3652365" using assms(2,3) by simp_all
    have era: "4 \<le> era" "era \<le> 24" using z n q yoe by linarith+
    show ?thesis
    proof (cases "m \<le> 2")
      case True
      then have "10 \<le> mp" using mp(1,2) r(2) by (simp split: if_splits)
      then have "306 \<le> doy" using mp(3) by linarith
      moreover have "y = yoe + era * 400 + 1" using r(1) True by simp
      ultimately show ?thesis using z n q yoe era by linarith
    next
      case False
      then have "y = yoe + era * 400" using r(1) by simp
      then show ?thesis using z n q yoe era by linarith
    qed
  qed
  ultimately show ?thesis by simp
qed


lemma digits_val_append: "digits_val (a @ b) = digits_val a * 10 ^ length b + digits_val b"
proof (induction b rule: rev_induct)
  case (snoc c b)
  show ?case unfolding append_assoc [symmetric] digits_val_snoc snoc by simp
qed (simp add: digits_val_def)

lemma digits_val_zeros: "digits_val (replicate k (CHR ''0'') @ s) = digits_val s"
proof -
  have "digits_val (replicate k (CHR ''0'')) = 0"
    by (induction k) (simp_all add: digits_val_def digit_val_def replicate_append_same [symmetric] del: replicate.simps(2), simp)
  then show ?thesis by (simp add: digits_val_append)
qed

lemma show_nat_width: "0 < w \<Longrightarrow> n < 10 ^ w \<Longrightarrow> length (show_nat n) \<le> w"
proof (induction w arbitrary: n)
  case (Suc w)
  show ?case
  proof (cases "n < 10")
    case True
    then show ?thesis by (simp add: show_nat.simps [of n])
  next
    case False
    then have "0 < w" using Suc.prems by (cases w) auto
    then have "length (show_nat (n div 10)) \<le> w" using Suc.prems by (intro Suc.IH) (auto simp: less_mult_imp_div_less mult.commute)
    then show ?thesis using False by (simp add: show_nat.simps [of n])
  qed
qed simp

lemma pad_length: "0 < w \<Longrightarrow> 0 \<le> n \<Longrightarrow> n < 10 ^ w \<Longrightarrow> length (pad w n) = w"
  using show_nat_width [of w "nat n"] by (simp add: pad_def Let_def nat_less_iff)

lemma pad_value: "0 \<le> n \<Longrightarrow> int (digits_val (pad w n)) = n"
  by (simp add: pad_def Let_def digits_val_zeros digits_val_show_nat)

lemma pad_digits: "list_all is_digit (pad w n)"
proof -
  have "is_digit (CHR ''0'')" by code_simp
  then show ?thesis using show_nat_digits [of "nat n"] by (auto simp: pad_def Let_def list_all_iff)
qed

lemma ms_parts:
  "ms div 3600000 * 3600000 + ms div 60000 mod 60 * 60000 + ms div 1000 mod 60 * 1000 + ms mod 1000 = ms" for ms :: int
proof -
  define a where "a = ms div 1000"
  define b where "b = a div 60"
  have 1: "ms div 60000 = b" using zdiv_zmult2_eq [of 60 ms 1000] by (simp add: a_def b_def)
  have 2: "ms div 3600000 = b div 60" using zdiv_zmult2_eq [of 60 ms 60000] by (simp add: 1)
  have "60 * (b div 60) + b mod 60 = b" "60 * b + a mod 60 = a" "1000 * a + ms mod 1000 = ms"
    using mult_div_mod_eq [of 60 a] mult_div_mod_eq [of 1000 ms] by (simp_all add: a_def b_def)
  then show ?thesis unfolding 1 2 a_def [symmetric] by linarith
qed

lemma date_ms_parts:
  assumes "length y = 4" and "length mo = 2" and "length d = 2" and "length h = 2" and "length mi = 2" and "length s = 2"
    and "length f = 3" and "list_all is_digit f"
  shows "date_ms (y @ ''-'' @ mo @ ''-'' @ d @ ''T'' @ h @ '':'' @ mi @ '':'' @ s @ ''.'' @ f @ ''Z'') =
    days_from_civil (int (digits_val y)) (int (digits_val mo)) (int (digits_val d)) * 86400000 + int (digits_val h) * 3600000 +
      int (digits_val mi) * 60000 + int (digits_val s) * 1000 + int (digits_val f)"
proof -
  have "\<not> is_digit (CHR ''Z'')" by code_simp
  then have "takeWhile is_digit (f @ ''Z'') = f" using assms(8) by (simp add: takeWhile_append2 list_all_iff)
  then show ?thesis using assms(1-7) by (simp add: date_ms_def num_at_def Let_def)
qed

lemma date_roundtrip:
  assumes "0 \<le> t" and "t < 253402300800000"
  shows "date_ms (toISOString t) = t"
proof -
  obtain y m d where c: "civil_from_days (t div 86400000) = (y, m, d)" by (metis prod_cases3)
  let ?ms = "t mod 86400000"
  have days: "0 \<le> t div 86400000" "t div 86400000 < 2932897"
    using div_bounds [of 86400000 t] assms by linarith+
  note rg = civil_ranges [OF c days]
  let ?h = "?ms div 3600000" and ?mi = "?ms div 60000 mod 60" and ?s = "?ms div 1000 mod 60" and ?f = "?ms mod 1000"
  have ms: "0 \<le> ?ms" "?ms < 86400000" by simp_all
  have h: "0 \<le> ?h" "?h < 24" using div_bounds [of 3600000 ?ms] ms by linarith+
  have len: "length (pad 4 y) = 4" "length (pad 2 m) = 2" "length (pad 2 d) = 2" "length (pad 2 ?h) = 2"
    "length (pad 2 ?mi) = 2" "length (pad 2 ?s) = 2" "length (pad 3 ?f) = 3"
    using rg h by (intro pad_length; simp add: order_less_le_trans [of _ 60 100])+
  have t: "toISOString t = pad 4 y @ ''-'' @ pad 2 m @ ''-'' @ pad 2 d @ ''T'' @ pad 2 ?h @ '':'' @ pad 2 ?mi @ '':'' @ pad 2 ?s @ ''.'' @ pad 3 ?f @ ''Z''"
    by (simp add: toISOString_def c Let_def)
  have "date_ms (toISOString t) = days_from_civil y m d * 86400000 + ?h * 3600000 + ?mi * 60000 + ?s * 1000 + ?f"
  proof -
    have "int (digits_val (pad 4 y)) = y" "int (digits_val (pad 2 m)) = m" "int (digits_val (pad 2 d)) = d"
      "int (digits_val (pad 2 ?h)) = ?h" "int (digits_val (pad 2 ?mi)) = ?mi" "int (digits_val (pad 2 ?s)) = ?s"
      "int (digits_val (pad 3 ?f)) = ?f"
      using rg h(1) by (intro pad_value; simp)+
    with date_ms_parts [OF len pad_digits] show ?thesis by (simp only: t)
  qed
  also have "\<dots> = t"
    unfolding civil_days [OF c] using ms_parts [of ?ms] mult_div_mod_eq [of 86400000 t] by linarith
  finally show ?thesis .
qed

end
