(* ===== verification/EndToEnd.thy ===== *)
theory EndToEnd
  imports AgentCli ControlEnrollment DateTime
begin

text \<open>
  Control plane and agent together. The request that a tool call puts on an agent's connection is read
  by the agent's program, verified, run and answered, and the answer settles the action at the control
  plane; an enrollment leaves both sides with matching keys and policy. The key pairs are related by
  the law of the signature scheme: what was signed with one key verifies under the other.
\<close>

section \<open>Results\<close>

definition key_pair :: "node_crypto \<Rightarrow> string \<Rightarrow> string \<Rightarrow> bool" where
  "key_pair cr priv pub \<longleftrightarrow> (\<forall>m. node_sign cr priv m \<noteq> [] \<and> node_verify cr pub m (node_sign cr priv m))"

lemma canonicalJson_defined:
  "filter (\<lambda>e. snd e \<noteq> JUndefined) es = filter (\<lambda>e. snd e \<noteq> JUndefined) fs \<Longrightarrow> canonicalJson (JObj es) = canonicalJson (JObj fs)"
  by simp

lemma verify_signed:
  assumes "key_pair cr priv pub" and "canonicalJson (unsigned e) = canonicalJson (unsigned fs)"
    and "envelope_signature e = signEnvelope cr fs priv"
  shows "verifyEnvelope cr e pub"
  using assms by (auto simp: verifyEnvelope_def signEnvelope_def key_pair_def)

lemma result_received:
  assumes "sendable dt action nonce startedAt finishedAt" and "key_pair cr priv pub"
    and "\<forall>c. outcome_code r = Some c \<longrightarrow> known_code c"
  obtains res where "parseActionResultEnvelope dt (JObj (signResult cr priv (result_of action nonce startedAt finishedAt r))) = Some res"
    and "re_action_id res = rq_action_id action" and "re_agent_id res = rq_agent_id action" and "re_nonce res = nonce"
    and "re_ok res = is_ok r" and "verifyEnvelope cr (result_fields res) pub"
proof -
  have l: "1 \<le> length s \<longleftrightarrow> s \<noteq> []" for s :: string by (cases s) auto
  let ?fs = "result_of action nonce startedAt finishedAt r"
  let ?sg = "signEnvelope cr ?fs priv"
  have sg: "?sg \<noteq> []" using assms(2) by (simp add: signEnvelope_def key_pair_def)
  note parse = parseActionResultEnvelope_def signResult_def result_of_def outcome_code_def sendable_def z_strict_def
    jprop_def z_string_def z_datetime_def z_optional_def z_int_def z_bool_def asString_def
  show thesis
  proof (cases r)
    case (Inr x)
    let ?res = "\<lparr>re_action_id = rq_action_id action, re_agent_id = rq_agent_id action, re_nonce = nonce, re_ok = True,
      re_exit_code = Some (ex_exitCode x), re_stdout = Some (ex_stdout x), re_stderr = Some (ex_stderr x), re_started_at = startedAt,
      re_finished_at = finishedAt, re_truncated = ex_truncated x, re_error_code = None, re_message = None, re_signature = ?sg\<rparr>"
    have p: "parseActionResultEnvelope dt (JObj (signResult cr priv ?fs)) = Some ?res"
      using assms(1) sg l Inr by (simp add: parse z_enum_def del: One_nat_def)
    have "canonicalJson (unsigned (result_fields ?res)) = canonicalJson (unsigned ?fs)"
      unfolding unsigned_def by (rule canonicalJson_defined) (simp add: result_fields_def result_of_def opt_json_def Inr)
    then have "verifyEnvelope cr (result_fields ?res) pub"
      by (rule verify_signed [OF assms(2)]) (simp add: result_fields_def envelope_signature_def)
    then show thesis by (intro that [OF p]) (simp_all add: Inr is_ok_def)
  next
    case (Inl e)
    let ?code = "or_else (xe_code e) ''INTERNAL_ERROR''"
    obtain c where c: "z_enum error_code_name REMOTE_ERROR_CODES (JStr ?code) = Some c" "error_code_name c = ?code"
    proof -
      have "z_enum error_code_name REMOTE_ERROR_CODES (JStr ?code) \<noteq> None"
        using assms(3) by (simp add: outcome_code_def Inl known_code_def z_enum_None)
      then obtain c where c: "find (\<lambda>x. error_code_name x = ?code) REMOTE_ERROR_CODES = Some c" by (auto simp: z_enum_def)
      show thesis by (rule that [of c]) (use c find_SomeD [OF c] in \<open>simp_all add: z_enum_def\<close>)
    qed
    let ?res = "\<lparr>re_action_id = rq_action_id action, re_agent_id = rq_agent_id action, re_nonce = nonce, re_ok = False,
      re_exit_code = None, re_stdout = None, re_stderr = None, re_started_at = startedAt,
      re_finished_at = finishedAt, re_truncated = False, re_error_code = Some c, re_message = Some (xe_message e), re_signature = ?sg\<rparr>"
    have p: "parseActionResultEnvelope dt (JObj (signResult cr priv ?fs)) = Some ?res"
      using assms(1) sg l Inl c(1)
      by (simp add: parse z_enum_def [of "\<lambda>b. if b then ''ok'' else ''error''"] del: One_nat_def)
    have "canonicalJson (unsigned (result_fields ?res)) = canonicalJson (unsigned ?fs)"
      unfolding unsigned_def by (rule canonicalJson_defined) (simp add: result_fields_def result_of_def opt_json_def Inl c(2))
    then have "verifyEnvelope cr (result_fields ?res) pub"
      by (rule verify_signed [OF assms(2)]) (simp add: result_fields_def envelope_signature_def)
    then show thesis by (intro that [OF p]) (simp_all add: Inl is_ok_def)
  qed
qed

lemma authentic_resolves:
  assumes "authentic_result env now c r (pa_action p) s" and "jm_get (pendingActions s) (re_action_id r) = Some p"
  shows "\<exists>s'. handleActionResult env now c r s = (s', Inr ()) \<and> settled s' = settled s @ [(pa_action p, Resolved r)] \<and>
    pendingActions s' = jm_delete (re_action_id r) (pendingActions s)"
proof -
  from assms(1) obtain live where r: "result_signed env (store s) r" "act_agentId (pa_action p) = re_agent_id r"
    "jm_get (agentConnections s) (re_agent_id r) = Some live" "live_conn live = c" "\<not> snd (hasSeenNonce (seenNonces live) (re_nonce r) now)"
    by (auto simp: authentic_result_def result_signed_iff hasSeenNonce_iff)
  then show ?thesis using assms(2)
    by (auto simp: handleActionResult_def cbind_def cseq_def set_seen_def split: prod.splits)
qed

section \<open>Requests\<close>

text \<open>An agent that is enrolled and up to date: its identity, the keys of both sides, and the version of
  its policy.\<close>

definition in_sync :: "cp_env \<Rightarrow> RemoteConfig \<Rightarrow> RemoteAgentRecord \<Rightarrow> agent_env \<Rightarrow> agent_run \<Rightarrow> bool" where
  "in_sync env cfg agent aenv st \<longleftrightarrow> ae_crypto aenv = crypto env \<and> ae_datetime aenv = zod_datetime env \<and>
     af_agentId (ar_config st) = ag_id agent \<and> version_accepted (ag_policyVersion agent) (af_policy (ar_config st)) \<and>
     key_pair (crypto env) (cp_privateKey cfg) (af_controlPlanePublicKeyPem (ar_config st)) \<and>
     (\<exists>k. ag_publicKey agent = Some k \<and> key_pair (crypto env) (af_privateKeyPem (ar_config st)) k)"

text \<open>What the libraries provide: dates the schema accepts, tokens of at least 16 characters.\<close>

definition sound_env :: "cp_env \<Rightarrow> bool" where
  "sound_env env \<longleftrightarrow> (\<forall>t. zod_datetime env (toISOString t)) \<and> (\<forall>n. 16 \<le> length (rand_token env n))"

definition with_request :: "ActionRequestEnvelope \<Rightarrow> agent_event \<Rightarrow> agent_event" where
  "with_request q e = e\<lparr>ev_payload := Some (JObj (request_fields q))\<rparr>"

lemma with_request_fields [simp]:
  "ev_payload (with_request q e) = Some (JObj (request_fields q))" "ev_now (with_request q e) = ev_now e"
  "ev_nonce (with_request q e) = ev_nonce e" "ev_started (with_request q e) = ev_started e" "ev_finished (with_request q e) = ev_finished e"
  by (simp_all add: with_request_def)

lemma action_request_verifies:
  "key_pair (crypto env) (cp_privateKey cfg) pub \<Longrightarrow>
     verifyEnvelope (crypto env) (request_fields (action_request env cfg now p agent tool cap args i d nonce)) pub"
  unfolding action_request_def signed_request_def
  by (rule verify_signed) (simp_all add: unsigned_def request_fields_def envelope_signature_def)

lemma action_request_fields [simp]:
  "rq_action_id (action_request env cfg now p agent tool cap args i d nonce) = i"
  "rq_agent_id (action_request env cfg now p agent tool cap args i d nonce) = ag_id agent"
  "rq_user_id (action_request env cfg now p agent tool cap args i d nonce) = pr_userId p"
  "rq_policy_version (action_request env cfg now p agent tool cap args i d nonce) = ag_policyVersion agent"
  "rq_deadline (action_request env cfg now p agent tool cap args i d nonce) = toISOString d"
  "rq_issued_at (action_request env cfg now p agent tool cap args i d nonce) = toISOString now"
  "rq_nonce (action_request env cfg now p agent tool cap args i d nonce) = nonce"
  "rq_tool (action_request env cfg now p agent tool cap args i d nonce) = tool"
  "rq_capability (action_request env cfg now p agent tool cap args i d nonce) = cap"
  "rq_args (action_request env cfg now p agent tool cap args i d nonce) = args"
  by (simp_all add: action_request_def signed_request_def)

lemma action_request_signed: "key_pair (crypto env) (cp_privateKey cfg) pub \<Longrightarrow>
    rq_signature (action_request env cfg now p agent tool cap args i d nonce) \<noteq> []"
  by (simp add: action_request_def signed_request_def signEnvelope_def key_pair_def)

lemma request_accepted:
  assumes "in_sync env cfg agent aenv st" and "sound_env env" and "i \<noteq> []" and "ag_id agent \<noteq> []" and "pr_userId p \<noteq> []"
    and "0 < ag_policyVersion agent" and "16 \<le> length nonce" and "\<not> jm_has (seenActions st) i"
    and "0 \<le> d" and "d < 253402300800000" and "ev_now e \<le> d"
    and q_def: "q = action_request env cfg now p agent tool cap args i d nonce"
  shows "accepts aenv (with_request q e) q st"
proof -
  have kp: "key_pair (crypto env) (cp_privateKey cfg) (af_controlPlanePublicKeyPem (ar_config st))"
    using assms(1) by (simp add: in_sync_def)
  have "parseActionRequestEnvelope (zod_datetime env) (JObj (request_fields q)) = Some q"
    using assms(2-8) action_request_signed [OF kp] by (intro parse_request_fields) (simp_all add: q_def sound_env_def)
  then show ?thesis
    using assms(1,8,11) action_request_verifies [OF kp] date_roundtrip [OF assms(9,10)]
    by (simp add: accepts_def signed_action_def in_sync_def q_def)
qed

lemma run_action_sent:
  "ar_sent (run_action aenv e q st) = ar_sent st @ [signResult (ae_crypto aenv) (af_privateKeyPem (ar_config st))
     (result_of q (ev_nonce e) (ev_started e) (ev_finished e) (snd (executeAllowed (ae_os aenv) (ar_policy st) q (ar_calls st))))]"
  by (simp add: run_action_def execute_def split: prod.splits)

lemma on_text_result:
  assumes "parseActionResultEnvelope (zod_datetime env) (JObj fs) = Some r" and "jprop fs ''type'' = JStr ''action.result''"
    and "handleActionResult env now c r s = (s', Inr ())"
  shows "on_text env now c (Some (JObj fs)) s = (s', Inr ())"
  using assms by (simp add: on_text_def ccatch_def handleAgentMessage_def cbind_run)

lemma dispatched_request:
  assumes "store_wf (store s)" and "callRemoteTool env cfg now p tool args s = (s', Inr (Dispatched act))"
    and "target p args (store s) = Some agent" and "jm_get (agentConnections s) (ag_id agent) = Some live"
    and "\<not> ws_closed (conn_of s (live_conn live))"
  shows "getAgent (ag_id agent) (store s') = Some agent \<and> jm_get (agentConnections s') (ag_id agent) = Some live \<and>
    settled s' = settled s \<and> act_id act \<noteq> [] \<and> act_agentId act = ag_id agent \<and>
    map_option pa_action (jm_get (pendingActions s') (act_id act)) = Some act \<and>
    outbox s' = outbox s @ [Sent (live_conn live) (MsgActionRequest (action_request env cfg now p agent tool (TOOL_CAPABILITY_MAP tool) args
      (act_id act) (act_deadline act) (rand_token env (Suc (drawn s)))))]"
proof -
  from assms(2) obtain agent' where t: "target p args (store s) = Some agent'"
    and d: "dispatchAction env cfg now p agent' tool (TOOL_CAPABILITY_MAP tool) args s = (s', Inr act)"
    by (rule callRemoteTool_ok)
  have ag: "agent' = agent" and cur: "getAgent (ag_id agent) (store s) = Some agent"
    using t assms(3) resolveAgent_current [OF assms(1)] by (auto simp: target_def)
  show ?thesis
    using d [unfolded ag] assms(4,5) cur by (auto elim!: dispatchAction_ok simp: getAgent_def action_record_def)
qed


definition synced_config :: AgentConfigFile where
  "synced_config = sample_agent_config\<lparr>af_privateKeyPem := ''akey'', af_controlPlanePublicKeyPem := ''priv'', af_policy := createAgentPolicy ReadOnly\<rparr>"

definition synced_env :: agent_env where
  "synced_env = \<lparr>ae_crypto = sample_crypto, ae_datetime = zod_datetime sample_cp_env, ae_os = sample_os_env\<rparr>"

definition arrival :: agent_event where
  "arrival = \<lparr>ev_now = 1200, ev_payload = None, ev_nonce = ''0123456789abcdef'', ev_started = ''1970-01-01T00:00:01.200Z'',
     ev_finished = ''1970-01-01T00:00:01.300Z''\<rparr>"

lemma sample_key_pair: "k \<noteq> [] \<Longrightarrow> key_pair sample_crypto k k"
  by (simp add: key_pair_def sample_crypto_def)

lemma sample_in_sync: "in_sync sample_cp_env sample_cp_config sample_agent synced_env (start_agent synced_config)"
  by (simp add: in_sync_def synced_env_def synced_config_def sample_cp_env_def sample_agent_def sample_agent_config_def start_agent_def
    version_accepted_def createAgentPolicy_def sample_cp_config_def sample_key_pair)

lemma sample_sound_env: "sound_env sample_cp_env"
  by (auto simp: sound_env_def sample_cp_env_def endsWith_def suffix_def toISOString_def Let_def split: prod.splits)

lemma sample_dispatch_deadline:
  "map_option act_deadline (dispatched (snd (callRemoteTool sample_cp_env sample_cp_config 1000 sample_principal GetSystemStatus sample_args sample_state)))
     = Some 11000"
  by (simp add: callRemoteTool_dispatch dispatching_def Let_def cbind_run cseq_def requireAgent_def resolveAgent_def
    sample_state_def sample_store_def sample_agent_def sample_principal_def hasCapability_def sample_args_def str_prop_def
    jprop_def asString_def getAgent_def getAgentByAlias_def agentFromRow_def empty_store_def createAgentPolicy_def
    profile_capabilities_def dispatchAction_def new_id_run randomToken_run number_or_def js_number_def cstore_def
    insertAction_def insert_row_def audit_def insertAudit_def action_record_def send_run conn_of_def dispatched_def
    sample_cp_env_def sample_cp_config_def show_nat.simps)

lemma target_sample: "target sample_principal sample_args (store sample_state) = Some sample_agent"
  by (simp add: target_def resolveAgent_def sample_args_def str_prop_def jprop_def asString_def getAgent_def getAgentByAlias_def
    sample_state_def sample_store_def empty_store_def agentFromRow_def sample_agent_def sample_principal_def)

lemma live_sample: "jm_get (agentConnections sample_state) (ag_id sample_agent) = Some \<lparr>live_agent = sample_agent, live_conn = 0, seenNonces = []\<rparr>"
  by (simp add: sample_state_def sample_agent_def)

lemma sample_in_sync_facts:
  "\<not> ws_closed (conn_of sample_state 0)" "ag_id sample_agent \<noteq> []" "pr_userId sample_principal \<noteq> []" "0 < ag_policyVersion sample_agent"
  "\<not> jm_has (seenActions (start_agent c)) i" "ev_now arrival = 1200" "length (ev_nonce arrival) = 16"
  "zod_datetime sample_cp_env (ev_started arrival)" "zod_datetime sample_cp_env (ev_finished arrival)"
  by (simp_all add: conn_of_def sample_state_def sample_agent_def sample_principal_def start_agent_def jm_has_def arrival_def
    sample_cp_env_def endsWith_def suffix_def)


section \<open>Enrollment\<close>

text \<open>The body of the answer to an enrollment.\<close>

definition enroll_json :: "enroll_response \<Rightarrow> (string \<times> json) list" where
  "enroll_json r = [(''agent_id'', JStr (er_agent_id r)), (''alias'', JStr (er_alias r)), (''policy'', policy_json (er_policy r)),
     (''websocket_url'', JStr (er_websocket_url r)), (''control_plane_public_key'', JStr (er_public_key r))]"

lemma commit_enroll_reply:
  "commit_enroll env cfg now et a k h s = (s', Inr r) \<Longrightarrow>
     r = \<lparr>er_agent_id = ag_id a, er_alias = ag_alias a, er_policy = ag_policy a,
       er_websocket_url = ws_base (publicBaseUrl cfg) @ agentWsPath cfg, er_public_key = cp_publicKey cfg\<rparr>"
  unfolding commit_enroll_def by (elim cbind_okE cseq_okE) auto

lemma enroll_reply:
  assumes "handleAgentEnroll env cfg now body s = (s', Inr r)" and "str_prop body ''public_key'' = Some k" and "k \<noteq> []"
  obtains a where "getAgent (ag_id a) (store s') = Some a" and "ag_publicKey a = Some k"
    and "r = \<lparr>er_agent_id = ag_id a, er_alias = ag_alias a, er_policy = ag_policy a,
       er_websocket_url = ws_base (publicBaseUrl cfg) @ agentWsPath cfg, er_public_key = cp_publicKey cfg\<rparr>"
    and "\<exists>a0. getAgent (ag_id a) (store s) = Some a0 \<and> ag_policy a0 = ag_policy a \<and> ag_policyVersion a0 = ag_policyVersion a"
proof -
  from assms(1) obtain et a h where a: "getAgent (et_agentId et) (store s) = Some a"
    and c: "commit_enroll env cfg now et a k (Some h) s = (s', Inr r)"
    using assms(2) by (auto elim!: handleAgentEnroll_ok)
  let ?b = "a\<lparr>ag_status := Offline, ag_publicKey := Some k, ag_hostMetadata := Some h, ag_updatedAt := now\<rparr>"
  from c obtain st1 st2 where m: "markEnrollmentTokenUsed (et_tokenHash et) now (store s) = Inr st1"
    and u: "updateAgent ?b st1 = Inr st2" and t: "agents (store s') = agents st2" by (rule commit_enroll_ok)
  have st1: "getAgent i st1 = getAgent i (store s)" for i
    using m by (auto simp: markEnrollmentTokenUsed_def getAgent_def Let_def split: if_splits)
  have i: "ag_id a = et_agentId et" using a by (auto simp: getAgent_def agentFromRow_def dest!: find_SomeD)
  have row: "agentFromRow (?b\<lparr>ag_userId := ag_userId a, ag_createdAt := ag_createdAt a\<rparr>) = ?b"
    using assms(3) by (simp add: agentFromRow_def truthy_def)
  have "getAgent (ag_id a) (store s') = getAgent (ag_id a) st2" using t by (simp add: getAgent_def)
  also have "\<dots> = Some ?b" using getAgent_updateAgent [OF u, of "ag_id a"] st1 a row by (simp add: i)
  finally show thesis using that [of ?b] commit_enroll_reply [OF c] a i by simp
qed

text \<open>
  C31: Enrollment puts both sides in sync. When the server accepts the request that \<open>enroll\<close> sends and
  the agent receives the answer, \<open>enroll\<close> saves a configuration whose identity, policy and keys are
  those of the agent the server has stored: with the key pairs of both sides and a policy in its
  stored version, every further request of the control plane meets the conditions above.
\<close>

theorem enrollment_in_sync:
  assumes "handleAgentEnroll env cfg now (enroll_payload h token alias) s = (s', Inr r)"
    and "ah_fetch h (server @ ''/api/agents/enroll'') (JObj (enroll_payload h token alias)) =
       Inr \<lparr>ha_ok = True, ha_status = 200, ha_data = JObj (enroll_json r)\<rparr>"
    and "parseFlag argv ''--server'' = Some server" and "strip_slashes server = server" and "server \<noteq> []"
    and "parseFlag argv ''--token'' = Some token" and "token \<noteq> []" and "parseFlag argv ''--alias'' = Some alias"
    and "\<forall>a. getAgent (er_agent_id r) (store s) = Some a \<longrightarrow> policy_valid (ag_policy a) \<and> policy_ver (ag_policy a) = ag_policyVersion a"
    and "er_agent_id r \<noteq> []" and "er_alias r \<noteq> []" and "er_websocket_url r \<noteq> []" and "cp_publicKey cfg \<noteq> []" and "ah_public h \<noteq> []"
    and "key_pair (crypto env) (cp_privateKey cfg) (cp_publicKey cfg)" and "key_pair (crypto env) (ah_private h) (ah_public h)"
    and "ae_crypto aenv = crypto env" and "ae_datetime aenv = zod_datetime env"
  shows "\<exists>config agent. enroll h enrolledAt argv = Inr config \<and> getAgent (af_agentId config) (store s') = Some agent \<and>
    af_policy config = ag_policy agent \<and> in_sync env cfg agent aenv (start_agent config)"
proof -
  have k: "str_prop (enroll_payload h token alias) ''public_key'' = Some (ah_public h)"
    by (simp add: enroll_payload_def str_prop_def jprop_def asString_def)
  obtain a where a: "getAgent (ag_id a) (store s') = Some a" "ag_publicKey a = Some (ah_public h)"
    and r: "r = \<lparr>er_agent_id = ag_id a, er_alias = ag_alias a, er_policy = ag_policy a,
       er_websocket_url = ws_base (publicBaseUrl cfg) @ agentWsPath cfg, er_public_key = cp_publicKey cfg\<rparr>"
    and a0: "\<exists>a0. getAgent (ag_id a) (store s) = Some a0 \<and> ag_policy a0 = ag_policy a \<and> ag_policyVersion a0 = ag_policyVersion a"
    by (rule enroll_reply [OF assms(1) k assms(14)])
  have p: "policy_valid (ag_policy a)" "policy_ver (ag_policy a) = ag_policyVersion a" using assms(9) a0 r by auto
  let ?config = "\<lparr>af_server = server, af_agentId = ag_id a, af_alias = ag_alias a, af_publicKeyPem = ah_public h,
    af_privateKeyPem = ah_private h, af_controlPlanePublicKeyPem = cp_publicKey cfg, af_policy = ag_policy a,
    af_websocketUrl = ws_base (publicBaseUrl cfg) @ agentWsPath cfg, af_enrolledAt = enrolledAt\<rparr>"
  have "enroll h enrolledAt argv = Inr ?config"
    using assms(2-8,10-13) p(1)
    by (simp add: enroll_def Let_def postJson_def requireString_def requirePolicy_def enroll_json_def jprop_def r parseAgentPolicy_json)
  moreover have "in_sync env cfg a aenv (start_agent ?config)"
    using assms(15-18) a(2) p(2) by (simp add: in_sync_def start_agent_def version_accepted_def)
  ultimately show ?thesis using a(1) by (intro exI [of _ ?config] exI [of _ a]) simp
qed

definition sample_reply :: enroll_response where
  "sample_reply = \<lparr>er_agent_id = ''agt_1'', er_alias = ''web'', er_policy = createAgentPolicy ReadOnly,
     er_websocket_url = ws_base ''https://cp'' @ ''/api/agents/connect'', er_public_key = ''priv''\<rparr>"

definition sample_host :: agent_host where
  "sample_host = \<lparr>ah_hostname = ''web-1'', ah_metadata = \<lparr>hm_hostname = ''web-1'', hm_os = ''Linux'', hm_arch = ''x64'', hm_platform = ''linux''\<rparr>,
     ah_version = None, ah_public = ''newkey'', ah_private = ''newkey'',
     ah_fetch = (\<lambda>url payload. Inr \<lparr>ha_ok = True, ha_status = 200, ha_data = JObj (enroll_json sample_reply)\<rparr>)\<rparr>"

definition paired_config :: RemoteConfig where
  "paired_config = sample_cp_config\<lparr>cp_publicKey := ''priv''\<rparr>"

definition sample_argv :: "string list" where
  "sample_argv = [''--server'', ''https://cp'', ''--token'', ''ticket'', ''--alias'', ''web'']"

lemma sample_enrolls:
  "\<exists>s'. handleAgentEnroll sample_cp_env paired_config 1000 (enroll_payload sample_host ''ticket'' ''web'') sample_enrolling = (s', Inr sample_reply)"
proof -
  have "is_ok (snd (handleAgentEnroll sample_cp_env paired_config 1000 (enroll_payload sample_host ''ticket'' ''web'') sample_enrolling))"
    by code_simp
  then obtain s' r where s': "handleAgentEnroll sample_cp_env paired_config 1000 (enroll_payload sample_host ''ticket'' ''web'') sample_enrolling = (s', Inr r)"
    by (auto simp: ok_run_iff)
  then obtain et a k h where a: "getAgent (et_agentId et) (store sample_enrolling) = Some a"
    and c: "commit_enroll sample_cp_env paired_config 1000 et a k (Some h) sample_enrolling = (s', Inr r)" by (rule handleAgentEnroll_ok)
  have "a = sample_agent"
    using a by (auto simp: getAgent_def sample_enrolling_def sample_state_def sample_store_def empty_store_def agentFromRow_def
      sample_agent_def split: if_splits)
  with commit_enroll_reply [OF c] s' show ?thesis
    by (simp add: sample_reply_def sample_agent_def paired_config_def sample_cp_config_def)
qed

theorem enrollment_in_sync_witness:
  "\<exists>config agent. enroll sample_host ''t'' sample_argv = Inr config \<and>
    getAgent (af_agentId config) (store (fst (handleAgentEnroll sample_cp_env paired_config 1000
      (enroll_payload sample_host ''ticket'' ''web'') sample_enrolling))) = Some agent \<and>
    in_sync sample_cp_env paired_config agent synced_env (start_agent config)"
proof -
  obtain s' where s': "handleAgentEnroll sample_cp_env paired_config 1000 (enroll_payload sample_host ''ticket'' ''web'') sample_enrolling = (s', Inr sample_reply)"
    using sample_enrolls by blast
  have a: "\<forall>a. getAgent (er_agent_id sample_reply) (store sample_enrolling) = Some a \<longrightarrow>
      policy_valid (ag_policy a) \<and> policy_ver (ag_policy a) = ag_policyVersion a"
    by (simp add: sample_reply_def getAgent_def sample_enrolling_def sample_state_def sample_store_def empty_store_def agentFromRow_def
      sample_agent_def policy_valid_def createAgentPolicy_def)
  have "\<exists>config agent. enroll sample_host ''t'' sample_argv = Inr config \<and> getAgent (af_agentId config) (store s') = Some agent \<and>
    af_policy config = ag_policy agent \<and> in_sync sample_cp_env paired_config agent synced_env (start_agent config)"
    by (rule enrollment_in_sync [OF s', where server = "''https://cp''", OF _ _ _ _ _ _ _ a])
      (simp_all add: sample_host_def sample_argv_def parseFlag_def strip_slashes_def sample_reply_def ws_base_def paired_config_def
        sample_cp_config_def sample_key_pair sample_cp_env_def synced_env_def)
  then show ?thesis using s' by auto
qed

end
