(* ===== verification/WebSocket.thy ===== *)
theory WebSocket
  imports Prelude "HOL-Library.Word"
begin

unbundle bit_operations_syntax

text \<open>
  The web socket connection of \<open>src/remote/websocket.ts\<close>: frames as bytes (8 bit words), the
  buffer that collects the chunks of the socket, the loop that drains complete frames, pings,
  closing and close notifications. A text message is its payload (the UTF-8 decoding of the
  platform comes after it); \<open>written\<close> is what goes to the socket, \<open>delivered\<close> what the text
  handlers get, \<open>notifications\<close> how often the close handlers run.
\<close>

section \<open>Bytes\<close>

type_synonym byte = "8 word"

definition be_val :: "byte list \<Rightarrow> nat" where
  "be_val bs = fold (\<lambda>b n. n * 256 + unat b) bs 0"

fun be_bytes :: "nat \<Rightarrow> nat \<Rightarrow> byte list" where
  "be_bytes 0 n = []"
| "be_bytes (Suc k) n = be_bytes k (n div 256) @ [of_nat (n mod 256)]"

lemma length_be_bytes [simp]: "length (be_bytes k n) = k"
  by (induction k n rule: be_bytes.induct) auto

lemma be_val_be_bytes: "n < 256 ^ k \<Longrightarrow> be_val (be_bytes k n) = n"
proof (induction k arbitrary: n)
  case (Suc k)
  have "n div 256 < 256 ^ k" using Suc.prems by (simp add: less_mult_imp_div_less mult.commute)
  moreover have "unat (of_nat (n mod 256) :: byte) = n mod 256" by (simp add: unat_of_nat)
  ultimately show ?case using Suc.IH [of "n div 256"] by (simp add: be_val_def)
qed (simp add: be_val_def)

section \<open>Frames\<close>

definition MAX_FRAME_BYTES :: nat where
  "MAX_FRAME_BYTES = 1048576"

definition MAX_SAFE_INTEGER :: nat where
  "MAX_SAFE_INTEGER = 9007199254740991"

definition unmask :: "byte list \<Rightarrow> byte list \<Rightarrow> byte list" where
  "unmask key payload = map (\<lambda>(i, b). b XOR key ! (i mod 4)) (enumerate 0 payload)"

datatype frame_result = Incomplete | TooLong | Frame byte "byte list" "byte list"

text \<open>From the check of the length on.\<close>

definition frame_body :: "byte list \<Rightarrow> byte \<Rightarrow> bool \<Rightarrow> nat \<Rightarrow> nat \<Rightarrow> frame_result" where
  "frame_body buf opcode masked len offset =
     (let maskLength = (if masked then 4 else 0); start = offset + maskLength in
      if len > MAX_FRAME_BYTES then TooLong
      else if length buf < start + len then Incomplete
      else let payload = take len (drop start buf) in
        Frame opcode (if masked then unmask (take 4 (drop offset buf)) payload else payload) (drop (start + len) buf))"

definition next_frame :: "byte list \<Rightarrow> frame_result" where
  "next_frame buf =
     (if length buf < 2 then Incomplete
      else
        let first = buf ! 0; second = buf ! 1; opcode = first AND 0x0F; masked = (second AND 0x80 \<noteq> 0);
            len = unat (second AND 0x7F) in
        if len = 126 then
          (if length buf < 4 then Incomplete else frame_body buf opcode masked (be_val (take 2 (drop 2 buf))) 4)
        else if len = 127 then
          (if length buf < 10 then Incomplete
           else let longLength = be_val (take 8 (drop 2 buf)) in
             if longLength > MAX_SAFE_INTEGER then TooLong else frame_body buf opcode masked longLength 10)
        else frame_body buf opcode masked len 2)"

definition createFrameHeader :: "nat \<Rightarrow> byte \<Rightarrow> byte list" where
  "createFrameHeader len opcode =
     (if len < 126 then [0x80 OR opcode, of_nat len]
      else if len \<le> 0xFFFF then [0x80 OR opcode, 126] @ be_bytes 2 len
      else [0x80 OR opcode, 127] @ be_bytes 8 len)"

lemma frame_body_shorter:
  "frame_body buf opcode masked len offset = Frame oc p rest \<Longrightarrow> 0 < offset \<Longrightarrow> length rest < length buf"
  by (auto simp: frame_body_def Let_def split: if_splits)

lemma next_frame_shorter: "next_frame buf = Frame oc p rest \<Longrightarrow> length rest < length buf"
  by (auto simp: next_frame_def Let_def split: if_splits dest!: frame_body_shorter)

section \<open>The connection\<close>

record ws_state =
  buffer :: "byte list"
  closed :: bool
  closeNotified :: bool
  written :: "byte list list"
  delivered :: "byte list list"
  notifications :: nat

definition new_connection :: "byte list \<Rightarrow> ws_state" where
  "new_connection initial =
     \<lparr>buffer = (if length initial > MAX_FRAME_BYTES then [] else initial), closed = False, closeNotified = False,
      written = [], delivered = [], notifications = 0\<rparr>"

definition sendText :: "byte list \<Rightarrow> ws_state \<Rightarrow> ws_state" where
  "sendText payload s =
     (if closed s then s else s\<lparr>written := written s @ [createFrameHeader (length payload) 1 @ payload]\<rparr>)"

definition notify_close :: "ws_state \<Rightarrow> ws_state" where
  "notify_close s = (if closeNotified s then s else s\<lparr>closeNotified := True, notifications := notifications s + 1\<rparr>)"

definition close_connection :: "ws_state \<Rightarrow> ws_state" where
  "close_connection s =
     (if closed s then s else notify_close (s\<lparr>closed := True, written := written s @ [[0x88, 0x00]]\<rparr>))"

definition handle_close :: "ws_state \<Rightarrow> ws_state" where
  "handle_close s = notify_close (s\<lparr>closed := True\<rparr>)"

text \<open>What the loop does with one complete frame.\<close>

definition on_frame :: "byte \<Rightarrow> byte list \<Rightarrow> ws_state \<Rightarrow> ws_state" where
  "on_frame opcode payload s =
     (if opcode = 0x9 then s\<lparr>written := written s @ [createFrameHeader (length payload) 0x0A @ payload]\<rparr>
      else if opcode = 0x1 then s\<lparr>delivered := delivered s @ [payload]\<rparr>
      else s)"

lemma buffer_on_frame [simp]: "buffer (on_frame oc p s) = buffer s" "closed (on_frame oc p s) = closed s"
  "closeNotified (on_frame oc p s) = closeNotified s" "notifications (on_frame oc p s) = notifications s"
  by (simp_all add: on_frame_def)

function drainFrames :: "ws_state \<Rightarrow> ws_state" where
  "drainFrames s =
     (case next_frame (buffer s) of
        Incomplete \<Rightarrow> s
      | TooLong \<Rightarrow> close_connection s
      | Frame opcode payload rest \<Rightarrow>
          if opcode = 0x8 then close_connection (s\<lparr>buffer := rest\<rparr>)
          else drainFrames (on_frame opcode payload (s\<lparr>buffer := rest\<rparr>)))"
  by pat_completeness auto
termination
  by (relation "measure (\<lambda>s. length (buffer s))") (auto dest: next_frame_shorter)

declare drainFrames.simps [simp del]

definition handleData :: "byte list \<Rightarrow> ws_state \<Rightarrow> ws_state" where
  "handleData chunk s =
     (if length (buffer s) + length chunk > MAX_FRAME_BYTES then close_connection s
      else drainFrames (s\<lparr>buffer := buffer s @ chunk\<rparr>))"

text \<open>\<open>onText\<close> registers the handler and drains what came with the upgrade request.\<close>

definition onText :: "ws_state \<Rightarrow> ws_state" where
  "onText s = drainFrames s"

section \<open>Reading what was written\<close>

lemma and_low_bits: "unat (w :: byte) < 2 ^ k \<Longrightarrow> w AND mask k = w"
proof -
  assume "unat w < 2 ^ k"
  then have "int (unat w) < 2 ^ k" by (metis of_nat_less_iff of_nat_numeral of_nat_power)
  then show "w AND mask k = w" by (simp add: mask_eq_iff)
qed

lemma and_nibble: "unat (oc :: byte) < 16 \<Longrightarrow> (0x80 OR oc) AND 0x0F = oc"
  using and_low_bits [of oc 4] by (simp add: mask_eq_exp_minus_1 bit.conj_disj_distrib2)

lemma length_byte:
  assumes "n < 128"
  shows "unat ((of_nat n :: byte) AND 0x7F) = n" and "(of_nat n :: byte) AND 0x80 = 0"
proof -
  have u: "unat (of_nat n :: byte) = n" using assms by (simp add: unat_of_nat)
  have t: "(of_nat n :: byte) AND 0x7F = of_nat n"
    using and_low_bits [of "of_nat n" 7] assms u by (simp add: mask_eq_exp_minus_1)
  then show "unat ((of_nat n :: byte) AND 0x7F) = n" using u by simp
  have "(of_nat n :: byte) AND 0x80 = (of_nat n AND 0x7F) AND 0x80" by (simp only: t)
  also have "\<dots> = 0" by (simp add: and.assoc)
  finally show "(of_nat n :: byte) AND 0x80 = 0" .
qed

lemma frame_body_plain:
  "length p \<le> MAX_FRAME_BYTES \<Longrightarrow> length h = offset \<Longrightarrow>
     frame_body (h @ p @ rest) oc False (length p) offset = Frame oc p rest"
  by (simp add: frame_body_def Let_def)

lemma next_frame_header:
  assumes "unat oc < 16" and "length p \<le> MAX_FRAME_BYTES"
  shows "next_frame (createFrameHeader (length p) oc @ p @ rest) = Frame oc p rest"
proof -
  consider "length p < 126" | "126 \<le> length p" "length p \<le> 0xFFFF" | "0xFFFF < length p" by linarith
  then show ?thesis
  proof cases
    case 1
    then show ?thesis
      using frame_body_plain [OF assms(2), of "[0x80 OR oc, of_nat (length p)]" 2 rest oc]
      by (simp add: next_frame_def createFrameHeader_def Let_def and_nibble [OF assms(1)] length_byte)
  next
    case 2
    then show ?thesis
      using frame_body_plain [OF assms(2), of "[0x80 OR oc, 126] @ be_bytes 2 (length p)" 4 rest oc]
      by (simp add: next_frame_def createFrameHeader_def Let_def and_nibble [OF assms(1)] be_val_be_bytes)
  next
    case 3
    have b: "be_val (be_bytes 8 (length p)) = length p"
      using assms(2) by (intro be_val_be_bytes) (simp add: MAX_FRAME_BYTES_def)
    from 3 show ?thesis
      using frame_body_plain [OF assms(2), of "[0x80 OR oc, 127] @ be_bytes 8 (length p)" 10 rest oc] assms(2)
      by (simp add: next_frame_def createFrameHeader_def Let_def and_nibble [OF assms(1)] b MAX_SAFE_INTEGER_def MAX_FRAME_BYTES_def)
  qed
qed

section \<open>Masked frames\<close>

text \<open>The frame a client sends (RFC 6455): the length byte carries the mask bit, the key follows
  the length, the payload is masked.\<close>

definition client_frame :: "byte list \<Rightarrow> byte \<Rightarrow> byte list \<Rightarrow> byte list" where
  "client_frame key oc p =
     (let h = createFrameHeader (length p) oc in h[1 := (h ! 1) OR 0x80] @ key @ unmask key p)"

lemma length_unmask [simp]: "length (unmask key p) = length p"
  by (simp add: unmask_def)

lemma nth_unmask: "i < length p \<Longrightarrow> unmask key p ! i = p ! i XOR key ! (i mod 4)"
  by (simp add: unmask_def nth_enumerate_eq)

lemma unmask_unmask: "unmask key (unmask key p) = p"
  by (rule nth_equalityI) (simp_all add: nth_unmask xor.assoc)

lemma frame_body_masked:
  "length p \<le> MAX_FRAME_BYTES \<Longrightarrow> length h = offset \<Longrightarrow> length key = 4 \<Longrightarrow>
     frame_body (h @ key @ unmask key p @ rest) oc True (length p) offset = Frame oc p rest"
  by (simp add: frame_body_def Let_def unmask_unmask)

lemma masked_length_byte:
  assumes "n < 128"
  shows "unat ((of_nat n OR 0x80 :: byte) AND 0x7F) = n" and "(of_nat n OR 0x80 :: byte) AND 0x80 \<noteq> 0"
  using length_byte [OF assms] by (simp_all add: bit.conj_disj_distrib2)

lemma next_frame_masked:
  assumes "unat oc < 16" and "length p \<le> MAX_FRAME_BYTES" and "length key = 4"
  shows "next_frame (client_frame key oc p @ rest) = Frame oc p rest"
proof -
  consider "length p < 126" | "126 \<le> length p" "length p \<le> 0xFFFF" | "0xFFFF < length p" by linarith
  then show ?thesis
  proof cases
    case 1
    then show ?thesis
      using frame_body_masked [OF assms(2) _ assms(3), of "[0x80 OR oc, of_nat (length p) OR 0x80]" 2 rest oc]
        masked_length_byte [of "length p"]
      by (simp add: next_frame_def client_frame_def createFrameHeader_def Let_def and_nibble [OF assms(1)])
  next
    case 2
    then show ?thesis
      using frame_body_masked [OF assms(2) _ assms(3), of "[0x80 OR oc, 254] @ be_bytes 2 (length p)" 4 rest oc]
      by (simp add: next_frame_def client_frame_def createFrameHeader_def Let_def and_nibble [OF assms(1)] be_val_be_bytes)
  next
    case 3
    have b: "be_val (be_bytes 8 (length p)) = length p"
      using assms(2) by (intro be_val_be_bytes) (simp add: MAX_FRAME_BYTES_def)
    from 3 show ?thesis
      using frame_body_masked [OF assms(2) _ assms(3), of "[0x80 OR oc, 255] @ be_bytes 8 (length p)" 10 rest oc] assms(2)
      by (simp add: next_frame_def client_frame_def createFrameHeader_def Let_def and_nibble [OF assms(1)] b
          MAX_SAFE_INTEGER_def MAX_FRAME_BYTES_def)
  qed
qed

section \<open>Chunks\<close>

lemma frame_body_append:
  assumes "frame_body buf oc masked len offset = r" and "r \<noteq> Incomplete" and "offset \<le> length buf"
  shows "frame_body (buf @ ext) oc masked len offset =
    (case r of Frame c p rest \<Rightarrow> Frame c p (rest @ ext) | _ \<Rightarrow> r)"
  using assms by (auto simp: frame_body_def Let_def split: if_splits)

lemma next_frame_append:
  assumes "next_frame buf = r" and "r \<noteq> Incomplete"
  shows "next_frame (buf @ ext) = (case r of Frame c p rest \<Rightarrow> Frame c p (rest @ ext) | _ \<Rightarrow> r)"
proof -
  have l: "2 \<le> length buf" using assms by (auto simp: next_frame_def split: if_splits)
  then have "(buf @ ext) ! 0 = buf ! 0" "(buf @ ext) ! 1 = buf ! 1" by (auto simp: nth_append)
  then show ?thesis
    using assms l
    by (auto simp: next_frame_def Let_def frame_body_append split: if_splits)
qed

lemma on_frame_buffer: "on_frame oc p (s\<lparr>buffer := b\<rparr>) = (on_frame oc p s)\<lparr>buffer := b\<rparr>"
  by (simp add: on_frame_def)

lemma close_closed [simp]: "closed (close_connection s)"
  by (simp add: close_connection_def notify_close_def)

text \<open>Draining, then draining again with more bytes, is draining once with all of them, unless the
  connection was closed on the way.\<close>

lemma drain_append:
  "\<not> closed (drainFrames s) \<Longrightarrow>
     drainFrames ((drainFrames s)\<lparr>buffer := buffer (drainFrames s) @ ext\<rparr>) = drainFrames (s\<lparr>buffer := buffer s @ ext\<rparr>)"
proof (induction s rule: drainFrames.induct)
  case (1 s)
  show ?case
  proof (cases "next_frame (buffer s)")
    case Incomplete
    then show ?thesis by (simp add: drainFrames.simps [of s])
  next
    case TooLong
    then show ?thesis using "1.prems" by (simp add: drainFrames.simps [of s])
  next
    case (Frame oc p rest)
    then have oc: "oc \<noteq> 0x8" using "1.prems" by (auto simp: drainFrames.simps [of s])
    let ?s = "on_frame oc p (s\<lparr>buffer := rest\<rparr>)"
    have d: "drainFrames s = drainFrames ?s" using Frame oc by (subst drainFrames.simps) simp
    have "drainFrames (s\<lparr>buffer := buffer s @ ext\<rparr>) = drainFrames (?s\<lparr>buffer := buffer ?s @ ext\<rparr>)"
      using next_frame_append [OF Frame, of ext] oc by (subst drainFrames.simps) (simp add: on_frame_buffer)
    then show ?thesis using "1.IH" [OF Frame oc] "1.prems" by (simp add: d)
  qed
qed

lemma close_buffer [simp]: "buffer (close_connection s) = buffer s"
  by (simp add: close_connection_def notify_close_def)

lemma drain_buffer_le: "length (buffer (drainFrames s)) \<le> length (buffer s)"
proof (induction s rule: drainFrames.induct)
  case (1 s)
  show ?case
  proof (cases "next_frame (buffer s)")
    case (Frame oc p rest)
    then show ?thesis
      using next_frame_shorter [OF Frame] "1.IH" [OF Frame] by (subst drainFrames.simps) force
  qed (simp_all add: drainFrames.simps [of s])
qed

text \<open>
  C37: how the bytes are cut into chunks does not matter. If a stretch of bytes fits into the buffer
  and does not close the connection, handling it in two chunks, cut anywhere (inside a header, a
  mask or a payload), leaves the connection in the same state as handling it at once: the same
  messages delivered, the same pongs written, the same bytes left in the buffer.
\<close>

theorem handleData_chunks:
  assumes "length (buffer s) + length a + length b \<le> MAX_FRAME_BYTES" and "\<not> closed (handleData a s)"
  shows "handleData b (handleData a s) = handleData (a @ b) s"
proof -
  let ?s = "s\<lparr>buffer := buffer s @ a\<rparr>"
  have a: "handleData a s = drainFrames ?s" using assms(1) by (simp add: handleData_def)

  have "handleData b (drainFrames ?s) = drainFrames ((drainFrames ?s)\<lparr>buffer := buffer (drainFrames ?s) @ b\<rparr>)"
    using drain_buffer_le [of ?s] assms(1) by (simp add: handleData_def)
  also have "\<dots> = drainFrames (?s\<lparr>buffer := buffer ?s @ b\<rparr>)"
    using assms(2) a by (intro drain_append) simp
  finally show ?thesis using assms(1) a by (simp add: handleData_def)
qed

definition sample_open :: ws_state where
  "sample_open = new_connection []"

theorem handleData_chunks_witness:
  "handleData [72, 105] (handleData [0x81, 2] sample_open) = handleData [0x81, 2, 72, 105] sample_open"
proof -
  have "next_frame [0x81, 2] = Incomplete" by (simp add: next_frame_def Let_def frame_body_def MAX_FRAME_BYTES_def)
  then have "\<not> closed (handleData [0x81, 2] sample_open)"
    by (simp add: handleData_def sample_open_def new_connection_def MAX_FRAME_BYTES_def drainFrames.simps)
  from handleData_chunks [OF _ this, of "[72, 105]"] show ?thesis
    by (simp add: sample_open_def new_connection_def MAX_FRAME_BYTES_def)
qed

text \<open>
  C38: Frames survive the wire, in both directions. What the server writes for a message of at most
  1 MiB, and what a client writes with any masking key (lengths below 126, below 65536 and above
  are encoded differently), is read back as exactly that message, and reading stops exactly at
  the end of the frame.
\<close>

theorem frame_roundtrip:
  assumes "length p \<le> MAX_FRAME_BYTES" and "length key = 4"
  shows "next_frame (last (written (sendText p (new_connection []))) @ rest) = Frame 1 p rest \<and>
    next_frame (client_frame key 1 p @ rest) = Frame 1 p rest"
  using next_frame_header [of 1 p rest] next_frame_masked [of 1 p key rest] assms
  by (simp add: sendText_def new_connection_def)

theorem frame_roundtrip_witness:
  "next_frame (last (written (sendText [72, 105] (new_connection []))) @ [7]) = Frame 1 [72, 105] [7] \<and>
   next_frame (client_frame [1, 2, 3, 4] 1 [72, 105] @ [7]) = Frame 1 [72, 105] [7]"
  by (rule frame_roundtrip) (simp_all add: MAX_FRAME_BYTES_def)

section \<open>Steps\<close>

datatype ws_event = Data "byte list" | Send "byte list" | CloseCall | SocketClose | Listen

fun ws_step_fun :: "ws_event \<Rightarrow> ws_state \<Rightarrow> ws_state" where
  "ws_step_fun (Data chunk) s = handleData chunk s"
| "ws_step_fun (Send p) s = sendText p s"
| "ws_step_fun CloseCall s = close_connection s"
| "ws_step_fun SocketClose s = handle_close s"
| "ws_step_fun Listen s = onText s"

inductive ws_step :: "ws_state \<Rightarrow> ws_event \<Rightarrow> ws_state \<Rightarrow> bool" where
  ws_step: "ws_step s e (ws_step_fun e s)"

inductive_simps ws_step_iff: "ws_step s e s'"

text \<open>The buffer is bounded; the close handlers have run exactly when they were notified, once; an
  open connection has not notified them.\<close>

definition ws_inv :: "ws_state \<Rightarrow> bool" where
  "ws_inv s \<longleftrightarrow> length (buffer s) \<le> MAX_FRAME_BYTES \<and> closeNotified s = closed s \<and>
     notifications s = (if closed s then 1 else 0)"

lemma ws_inv_close: "ws_inv s \<Longrightarrow> ws_inv (close_connection s)" "ws_inv s \<Longrightarrow> ws_inv (handle_close s)"
  by (auto simp: ws_inv_def close_connection_def handle_close_def notify_close_def)

lemma ws_inv_drain: "ws_inv s \<Longrightarrow> ws_inv (drainFrames s)"
proof (induction s rule: drainFrames.induct)
  case (1 s)
  show ?case
  proof (cases "next_frame (buffer s)")
    case (Frame oc p rest)
    have "ws_inv (s\<lparr>buffer := rest\<rparr>)" "ws_inv (on_frame oc p (s\<lparr>buffer := rest\<rparr>))"
      using next_frame_shorter [OF Frame] "1.prems" by (auto simp: ws_inv_def)
    then show ?thesis using "1.IH" [OF Frame] ws_inv_close by (subst drainFrames.simps) (simp add: Frame)
  qed (use "1.prems" ws_inv_close in \<open>simp_all add: drainFrames.simps [of s]\<close>)
qed

interpretation ws: invariant_system "\<lambda>s. s = new_connection b" ws_step ws_inv for b
proof
  show "s = new_connection b \<Longrightarrow> ws_inv s" for s by (auto simp: ws_inv_def new_connection_def)
  show "ws_inv s'" if "ws_step s e s'" "ws_inv s" for s e s'
  proof (cases e)
    case (Data chunk)
    have "length (buffer s) + length chunk \<le> MAX_FRAME_BYTES \<Longrightarrow> ws_inv (s\<lparr>buffer := buffer s @ chunk\<rparr>)"
      using that(2) by (simp add: ws_inv_def)
    with that Data show ?thesis by (auto simp: ws_step_iff handleData_def intro: ws_inv_drain ws_inv_close)
  next
    case (Send p)
    with that show ?thesis by (auto simp: ws_step_iff sendText_def ws_inv_def)
  qed (use that in \<open>auto simp: ws_step_iff onText_def intro: ws_inv_drain ws_inv_close\<close>)
qed

lemma drain_complete: "closed (drainFrames s) \<or> next_frame (buffer (drainFrames s)) = Incomplete"
proof (induction s rule: drainFrames.induct)
  case (1 s)
  then show ?case by (cases "next_frame (buffer s)") (auto simp: drainFrames.simps [of s])
qed

text \<open>
  Memory and notifications are bounded. However a peer sends its bytes and however sending,
  closing and socket events interleave, the buffer of a connection never exceeds 1 MiB, the
  close handlers run at most once, exactly when the connection closes, and after the bytes of a
  chunk have been handled no complete frame is left waiting unless the connection is closed.
\<close>

theorem connection_bounded:
  assumes "run ws_step (new_connection b) es s"
  shows "length (buffer s) \<le> 1048576 \<and> notifications s = (if closed s then 1 else 0) \<and>
    (closed (handleData chunk s) \<or> next_frame (buffer (handleData chunk s)) = Incomplete)"
  using ws.inv_reachable [OF refl assms] drain_complete
  by (auto simp: ws_inv_def MAX_FRAME_BYTES_def handleData_def)

theorem connection_bounded_witness:
  "notifications (close_connection (close_connection (new_connection []))) =
     (if closed (close_connection (close_connection (new_connection []))) then 1 else 0)"
proof -
  have "run ws_step (new_connection []) [CloseCall, CloseCall] (close_connection (close_connection (new_connection [])))"
    using ws_step [of "new_connection []" CloseCall] ws_step [of "close_connection (new_connection [])" CloseCall]
    by (auto intro: run_cons run_nil)
  from connection_bounded [OF this, of "[]"] show ?thesis by blast
qed

end
