(* ===== verification/KnownHosts.thy ===== *)
theory KnownHosts
  imports Prelude
begin

text \<open>
  Host key verification (\<open>src/session.ts\<close>): the lines of a \<open>known_hosts\<close> file, host patterns (plain,
  with wildcards, hashed), fingerprints, trust on first use, and the verifier that \<open>openSession\<close>
  installs for each host key policy. The digests (SHA-256 of a base64 key, HMAC-SHA-1 of a host name)
  and the file are parameters.
\<close>

section \<open>Lines\<close>

definition KNOWN_HOST_KEY_TYPES :: "string list" where
  "KNOWN_HOST_KEY_TYPES =
     [''ssh-ed25519'', ''ssh-ed25519-cert-v01@openssh.com'', ''ssh-rsa'', ''ssh-rsa-cert-v01@openssh.com'',
      ''rsa-sha2-256'', ''rsa-sha2-256-cert-v01@openssh.com'', ''rsa-sha2-512'', ''rsa-sha2-512-cert-v01@openssh.com'',
      ''ecdsa-sha2-nistp256'', ''ecdsa-sha2-nistp256-cert-v01@openssh.com'', ''ecdsa-sha2-nistp384'',
      ''ecdsa-sha2-nistp384-cert-v01@openssh.com'', ''ecdsa-sha2-nistp521'', ''ecdsa-sha2-nistp521-cert-v01@openssh.com'',
      ''sk-ssh-ed25519@openssh.com'', ''sk-ssh-ed25519-cert-v01@openssh.com'', ''sk-ecdsa-sha2-nistp256@openssh.com'',
      ''sk-ecdsa-sha2-nistp256-cert-v01@openssh.com'']"

text \<open>\<open>fingerprint.replace(/^SHA256:/i, "").trim()\<close>.\<close>

definition normalizeSha256Fingerprint :: "string \<Rightarrow> string" where
  "normalizeSha256Fingerprint fp = trim (if toLowerCase (take 7 fp) = ''sha256:'' then drop 7 fp else fp)"

record known_host =
  kh_marker :: "string option"
  kh_hosts :: string
  kh_keyBlob :: string

definition parseKnownHostLine :: "string \<Rightarrow> known_host option" where
  "parseKnownHostLine line =
     (let trimmed = trim line in
      if trimmed = [] \<or> startsWith trimmed ''#'' then None
      else let parts = split_ws trimmed in
        if startsWith (parts ! 0) ''@'' then
          (if length parts < 4 then None
           else if parts ! 2 \<notin> set KNOWN_HOST_KEY_TYPES then None
           else Some \<lparr>kh_marker = Some (parts ! 0), kh_hosts = parts ! 1, kh_keyBlob = parts ! 3\<rparr>)
        else if length parts < 3 then None
        else if parts ! 1 \<notin> set KNOWN_HOST_KEY_TYPES then None
        else Some \<lparr>kh_marker = None, kh_hosts = parts ! 0, kh_keyBlob = parts ! 2\<rparr>)"

text \<open>\<open>contents.split(/\r?\n/)\<close>.\<close>

fun drop_crs :: "string list \<Rightarrow> string list" where
  "drop_crs [] = []"
| "drop_crs [l] = [l]"
| "drop_crs (l # ls) = (if endsWith l [CHR 0x0D] then butlast l else l) # drop_crs ls"

definition split_lines :: "string \<Rightarrow> string list" where
  "split_lines contents = drop_crs (split_on (CHR 0x0A) contents)"

section \<open>Patterns\<close>

record host_digests =
  key_sha256_base64 :: "string \<Rightarrow> string"
  key_sha256_hex :: "string \<Rightarrow> string"
  host_hmac :: "string \<Rightarrow> string \<Rightarrow> string"

text \<open>The regular expression built from a pattern: every special character is escaped, \<open>*\<close> becomes
  \<open>.*\<close> and \<open>?\<close> becomes \<open>.\<close>, which matches every character but a line terminator.\<close>

definition dot_char :: "char \<Rightarrow> bool" where
  "dot_char c = (c \<noteq> CHR 0x0A \<and> c \<noteq> CHR 0x0D)"

fun glob :: "string \<Rightarrow> string \<Rightarrow> bool" where
  "glob [] s = (s = [])"
| "glob (p # ps) s =
     (if p = CHR ''*'' then
        glob ps s \<or> (case s of [] \<Rightarrow> False | c # cs \<Rightarrow> dot_char c \<and> glob (p # ps) cs)
      else case s of [] \<Rightarrow> False | c # cs \<Rightarrow> (if p = CHR ''?'' then dot_char c else p = c) \<and> glob ps cs)"

definition hashedKnownHostPatternMatches :: "host_digests \<Rightarrow> string \<Rightarrow> string list \<Rightarrow> bool" where
  "hashedKnownHostPatternMatches dg pat candidates =
     (case split_on (CHR ''|'') pat of
        [a, b, salt, expected] \<Rightarrow>
          a = [] \<and> b = ''1'' \<and> salt \<noteq> [] \<and> expected \<noteq> [] \<and> list_ex (\<lambda>c. host_hmac dg salt c = expected) candidates
      | _ \<Rightarrow> False)"

definition host_candidates :: "string \<Rightarrow> int \<Rightarrow> string list" where
  "host_candidates host port = [host, ''['' @ host @ '']:'' @ show_int port]"

definition pattern_matches :: "host_digests \<Rightarrow> string \<Rightarrow> int \<Rightarrow> string \<Rightarrow> bool" where
  "pattern_matches dg host port pat =
     (if startsWith pat ''|'' then hashedKnownHostPatternMatches dg pat (host_candidates host port)
      else pat \<in> set (host_candidates host port) \<or> glob pat host)"

definition knownHostPatternMatches :: "host_digests \<Rightarrow> string \<Rightarrow> string \<Rightarrow> int \<Rightarrow> bool" where
  "knownHostPatternMatches dg hosts host port = list_ex (pattern_matches dg host port) (split_on (CHR '','') hosts)"

section \<open>Verification\<close>

definition strip_equals :: "string \<Rightarrow> string" where
  "strip_equals s = rev (dropWhile (\<lambda>c. c = CHR ''='') (rev s))"

definition knownHostKeyFingerprints :: "host_digests \<Rightarrow> string \<Rightarrow> string list" where
  "knownHostKeyFingerprints dg keyBlob = [strip_equals (key_sha256_base64 dg keyBlob), key_sha256_hex dg keyBlob]"

definition key_matches :: "host_digests \<Rightarrow> string \<Rightarrow> known_host \<Rightarrow> bool" where
  "key_matches dg expected k =
     list_ex (\<lambda>fp. normalizeSha256Fingerprint fp = expected) (knownHostKeyFingerprints dg (kh_keyBlob k))"

fun check_lines :: "host_digests \<Rightarrow> string \<Rightarrow> int \<Rightarrow> string \<Rightarrow> string list \<Rightarrow> bool" where
  "check_lines dg host port expected [] = False"
| "check_lines dg host port expected (line # ls) =
     (case parseKnownHostLine line of
        None \<Rightarrow> check_lines dg host port expected ls
      | Some k \<Rightarrow>
          if \<not> knownHostPatternMatches dg (kh_hosts k) host port then check_lines dg host port expected ls
          else if kh_marker k = Some ''@revoked'' then False
          else if key_matches dg expected k then True
          else check_lines dg host port expected ls)"

text \<open>The file's contents, or \<open>None\<close> when it cannot be read.\<close>

definition verifyKnownHostKey ::
  "host_digests \<Rightarrow> (string \<Rightarrow> string option) \<Rightarrow> string \<Rightarrow> int \<Rightarrow> string \<Rightarrow> string \<Rightarrow> bool" where
  "verifyKnownHostKey dg files host port knownHostsPath hashedKey =
     (if knownHostsPath = [] then False
      else case files knownHostsPath of
        None \<Rightarrow> False
      | Some contents \<Rightarrow> check_lines dg host port (normalizeSha256Fingerprint hashedKey) (split_lines contents))"

definition verifyAcceptNewHostKey ::
  "string \<Rightarrow> int \<Rightarrow> string \<Rightarrow> (string, string) jmap \<Rightarrow> (string, string) jmap \<times> bool" where
  "verifyAcceptNewHostKey host port hashedKey accepted =
     (let key = host @ '':'' @ show_int port; normalized = normalizeSha256Fingerprint hashedKey in
      case jm_get accepted key of
        Some fp \<Rightarrow> if fp = [] then (jm_set key normalized accepted, True) else (accepted, fp = normalized)
      | None \<Rightarrow> (jm_set key normalized accepted, True))"

datatype HostKeyPolicy = Strict | AcceptNew | Insecure

text \<open>The \<open>hostVerifier\<close> that \<open>openSession\<close> installs.\<close>

definition host_verifier ::
  "host_digests \<Rightarrow> (string \<Rightarrow> string option) \<Rightarrow> string option \<Rightarrow> HostKeyPolicy \<Rightarrow> string \<Rightarrow> string \<Rightarrow> int \<Rightarrow> string \<Rightarrow>
     (string, string) jmap \<Rightarrow> (string, string) jmap \<times> bool" where
  "host_verifier dg files expected pol knownHostsPath host port hashedKey accepted =
     (if truthy expected then
        (accepted, normalizeSha256Fingerprint hashedKey = normalizeSha256Fingerprint (or_else expected ''''))
      else case pol of
        Insecure \<Rightarrow> (accepted, True)
      | AcceptNew \<Rightarrow> verifyAcceptNewHostKey host port hashedKey accepted
      | Strict \<Rightarrow> (accepted, verifyKnownHostKey dg files host port knownHostsPath hashedKey))"

section \<open>Properties\<close>

text \<open>The entries of a file that concern a host, in order.\<close>

definition entries_for :: "host_digests \<Rightarrow> string \<Rightarrow> int \<Rightarrow> string \<Rightarrow> known_host list" where
  "entries_for dg host port contents =
     filter (\<lambda>k. knownHostPatternMatches dg (kh_hosts k) host port) (List.map_filter parseKnownHostLine (split_lines contents))"

fun first_verdict :: "host_digests \<Rightarrow> string \<Rightarrow> known_host list \<Rightarrow> bool" where
  "first_verdict dg fp [] = False"
| "first_verdict dg fp (k # ks) = (kh_marker k \<noteq> Some ''@revoked'' \<and> (key_matches dg fp k \<or> first_verdict dg fp ks))"

lemma check_lines_verdict:
  "check_lines dg host port fp ls =
     first_verdict dg fp (filter (\<lambda>k. knownHostPatternMatches dg (kh_hosts k) host port) (List.map_filter parseKnownHostLine ls))"
  by (induction ls) (auto simp: map_filter_simps split: option.splits)

lemma first_verdict_iff:
  "first_verdict dg fp ks \<longleftrightarrow> (\<exists>i < length ks. key_matches dg fp (ks ! i) \<and> (\<forall>j \<le> i. kh_marker (ks ! j) \<noteq> Some ''@revoked''))"
proof (induction ks)
  case (Cons k ks)
  show ?case
  proof
    assume l: "first_verdict dg fp (k # ks)"
    show "\<exists>i < length (k # ks). key_matches dg fp ((k # ks) ! i) \<and> (\<forall>j \<le> i. kh_marker ((k # ks) ! j) \<noteq> Some ''@revoked'')"
    proof (cases "key_matches dg fp k")
      case True
      then show ?thesis using l by (intro exI [of _ 0]) simp
    next
      case False
      then obtain i where "i < length ks" "key_matches dg fp (ks ! i)" "\<forall>j \<le> i. kh_marker (ks ! j) \<noteq> Some ''@revoked''"
        using l Cons.IH by auto
      then show ?thesis using l by (intro exI [of _ "Suc i"]) (auto simp: nth_Cons split: nat.split)
    qed
  next
    assume "\<exists>i < length (k # ks). key_matches dg fp ((k # ks) ! i) \<and> (\<forall>j \<le> i. kh_marker ((k # ks) ! j) \<noteq> Some ''@revoked'')"
    then obtain i where i: "i < length (k # ks)" "key_matches dg fp ((k # ks) ! i)"
      "\<forall>j \<le> i. kh_marker ((k # ks) ! j) \<noteq> Some ''@revoked''" by blast
    have "kh_marker k \<noteq> Some ''@revoked''" using i(3) by (auto dest: spec [of _ 0])
    moreover have "first_verdict dg fp ks" if "i = Suc n" for n
    proof -
      have "\<forall>j \<le> n. kh_marker (ks ! j) \<noteq> Some ''@revoked''" using i(3) that by (auto dest: spec [of _ "Suc _"])
      then show ?thesis using Cons.IH i(1,2) that by auto
    qed
    ultimately show "first_verdict dg fp (k # ks)" using i(2) by (cases i) auto
  qed
qed simp

text \<open>
  Strict verification accepts exactly the keys the file lists for the host. With a readable file,
  a key is accepted if and only if some entry for the host has its fingerprint and no entry for the
  host up to that one is marked \<open>@revoked\<close>; a missing path or an unreadable file accepts no key.
\<close>

theorem verifyKnownHostKey_iff:
  "verifyKnownHostKey dg files host port path hashedKey \<longleftrightarrow> path \<noteq> [] \<and> (\<exists>contents. files path = Some contents \<and>
     (let ks = entries_for dg host port contents; fp = normalizeSha256Fingerprint hashedKey in
      \<exists>i < length ks. key_matches dg fp (ks ! i) \<and> (\<forall>j \<le> i. kh_marker (ks ! j) \<noteq> Some ''@revoked'')))"
  by (auto simp: verifyKnownHostKey_def check_lines_verdict first_verdict_iff entries_for_def Let_def split: option.splits)

definition sample_digests :: host_digests where
  "sample_digests = \<lparr>key_sha256_base64 = (\<lambda>k. ''fp-'' @ k @ ''=''), key_sha256_hex = (\<lambda>k. ''hex-'' @ k), host_hmac = (\<lambda>s h. s @ h)\<rparr>"

definition newline :: string where
  "newline = [CHR 0x0A]"

definition sample_known_hosts :: string where
  "sample_known_hosts = ''# hosts'' @ newline @ ''*.lab.example,10.0.0.? ssh-ed25519 AAAA web'' @ newline @
     ''@revoked *.lab.example ssh-ed25519 AAAA'' @ newline"

lemma sample_entries:
  "entries_for sample_digests ''db.lab.example'' 22 sample_known_hosts =
     [\<lparr>kh_marker = None, kh_hosts = ''*.lab.example,10.0.0.?'', kh_keyBlob = ''AAAA''\<rparr>,
      \<lparr>kh_marker = Some ''@revoked'', kh_hosts = ''*.lab.example'', kh_keyBlob = ''AAAA''\<rparr>]"
  by code_simp

lemma sample_key_matches:
  "key_matches sample_digests ''fp-AAAA'' \<lparr>kh_marker = None, kh_hosts = ''*.lab.example,10.0.0.?'', kh_keyBlob = ''AAAA''\<rparr>"
  "normalizeSha256Fingerprint ''SHA256:fp-AAAA'' = ''fp-AAAA''"
  by code_simp+

theorem verifyKnownHostKey_iff_witness:
  "verifyKnownHostKey sample_digests (\<lambda>p. Some sample_known_hosts) ''db.lab.example'' 22 ''kh'' ''SHA256:fp-AAAA''"
  by (simp add: verifyKnownHostKey_iff sample_entries sample_key_matches Let_def)
    (rule exI [of _ 0], simp add: sample_key_matches)

text \<open>
  A revocation that comes too late does not count. When an entry for the host lists a key and a
  later entry for the same host revokes this very key, the key is still accepted: the first
  listing decides, and the rest of the file is not read.
\<close>

theorem revoked_key_accepted:
  assumes "files path = Some contents" and "path \<noteq> []"
    and "entries_for dg host port contents = k # ks" and "kh_marker k \<noteq> Some ''@revoked''"
    and "key_matches dg (normalizeSha256Fingerprint hashedKey) k"
    and "\<exists>r \<in> set ks. kh_marker r = Some ''@revoked'' \<and> kh_keyBlob r = kh_keyBlob k"
  shows "verifyKnownHostKey dg files host port path hashedKey"
  using assms(1-5) by (simp add: verifyKnownHostKey_def check_lines_verdict entries_for_def [symmetric])

theorem revoked_key_accepted_witness:
  "verifyKnownHostKey sample_digests (\<lambda>p. Some sample_known_hosts) ''db.lab.example'' 22 ''kh'' ''SHA256:fp-AAAA''"
  by (rule revoked_key_accepted [OF _ _ sample_entries]) (simp_all add: sample_key_matches)

section \<open>Trust on first use\<close>

definition accept_keys :: "(string \<times> int \<times> string) list \<Rightarrow> (string, string) jmap \<Rightarrow> (string, string) jmap" where
  "accept_keys es accepted = fold (\<lambda>(host, port, key) a. fst (verifyAcceptNewHostKey host port key a)) es accepted"

lemma verify_keeps_pin:
  "jm_get a k = Some fp \<Longrightarrow> fp \<noteq> [] \<Longrightarrow> jm_get (fst (verifyAcceptNewHostKey host port key a)) k = Some fp"
  by (auto simp: verifyAcceptNewHostKey_def Let_def split: option.splits)

lemma accept_keys_keep_pin: "jm_get a k = Some fp \<Longrightarrow> fp \<noteq> [] \<Longrightarrow> jm_get (accept_keys es a) k = Some fp"
proof (induction es arbitrary: a)
  case (Cons e es)
  obtain h p key where e: "e = (h, p, key)" by (cases e)
  have "accept_keys (e # es) a = accept_keys es (fst (verifyAcceptNewHostKey h p key a))" by (simp add: accept_keys_def e)
  with Cons verify_keeps_pin [OF Cons.prems] show ?case by metis
qed (simp add: accept_keys_def)

text \<open>
  Accept-new pins the first key of a host. After a key of a host and port was accepted, every later
  verification for them, whatever connections to other or the same hosts come in between, accepts
  exactly the keys with the same fingerprint.
\<close>

theorem accept_new_pins:
  assumes "verifyAcceptNewHostKey host port key accepted = (accepted', True)" and "normalizeSha256Fingerprint key \<noteq> []"
  shows "snd (verifyAcceptNewHostKey host port key2 (accept_keys es accepted')) \<longleftrightarrow>
    normalizeSha256Fingerprint key2 = normalizeSha256Fingerprint key"
proof -
  have "jm_get accepted' (host @ '':'' @ show_int port) = Some (normalizeSha256Fingerprint key)"
    using assms by (auto simp: verifyAcceptNewHostKey_def Let_def split: option.splits if_splits)
  from accept_keys_keep_pin [OF this assms(2), of es] assms(2) show ?thesis
    by (auto simp: verifyAcceptNewHostKey_def Let_def)
qed

theorem accept_new_pins_witness:
  "\<not> snd (verifyAcceptNewHostKey ''h'' 22 ''SHA256:other''
     (accept_keys [(''g'', 22, ''x'')] (fst (verifyAcceptNewHostKey ''h'' 22 ''SHA256:first'' []))))"
proof -
  have v: "verifyAcceptNewHostKey ''h'' 22 ''SHA256:first'' [] = ([(''h:22'', ''first'')], True)"
    "normalizeSha256Fingerprint ''SHA256:first'' = ''first''" "normalizeSha256Fingerprint ''SHA256:other'' = ''other''"
    by code_simp+
  show ?thesis unfolding v(1) fst_conv using accept_new_pins [OF v(1)] v by simp
qed

end
