(* ===== verification/Sessions.thy ===== *)
theory Sessions
  imports KnownHosts Policy
begin

text \<open>
  SSH sessions (\<open>src/session.ts\<close>): how a connection authenticates, how a session is opened, used,
  evicted, expired and closed. Opening and closing wait (for the server, for the close listeners), so
  each is a start and an end, and other operations run in between. The policy engine's decision is a
  parameter of type \<open>PolicyContext \<Rightarrow> SSHMCPError + PolicyDecision\<close>, for which the engine's own
  \<open>assertAllowed\<close> is put in below.
\<close>

section \<open>Authentication\<close>

datatype AuthStrategy = AuthAuto | AuthPassword | AuthKey | AuthAgent

record ConnectionParams =
  cn_host :: string
  cn_policyHost :: "string option"
  cn_username :: string
  cn_port :: "int option"
  cn_auth :: "AuthStrategy option"
  cn_password :: "string option"
  cn_privateKey :: "string option"
  cn_privateKeyPath :: "string option"
  cn_passphrase :: "string option"
  cn_ttlMs :: "int option"
  cn_strictHostKeyChecking :: "bool option"
  cn_hostKeyPolicy :: "HostKeyPolicy option"
  cn_knownHostsPath :: "string option"
  cn_expectedHostKeySha256 :: "string option"
  cn_policyMode :: "PolicyMode option"

record SSHAuthConfig =
  au_password :: "string option"
  au_privateKey :: "string option"
  au_passphrase :: "string option"
  au_agent :: "string option"

definition password_auth :: "string \<Rightarrow> SSHAuthConfig" where
  "password_auth p = \<lparr>au_password = Some p, au_privateKey = None, au_passphrase = None, au_agent = None\<rparr>"

definition key_auth :: "string \<Rightarrow> string option \<Rightarrow> SSHAuthConfig" where
  "key_auth k passphrase = \<lparr>au_password = None, au_privateKey = Some k, au_passphrase = passphrase, au_agent = None\<rparr>"

definition agent_auth :: "string \<Rightarrow> SSHAuthConfig" where
  "agent_auth sock = \<lparr>au_password = None, au_privateKey = None, au_passphrase = None, au_agent = Some sock\<rparr>"

text \<open>Files, the environment variables and the home directory of the server's host.\<close>

record auth_env =
  read_key :: "string \<Rightarrow> string option"
  can_read :: "string \<Rightarrow> bool"
  env_authSock :: "string option"
  env_keyDir :: "string option"
  env_home :: string

definition path_join :: "string \<Rightarrow> string \<Rightarrow> string" where
  "path_join a b = (if a = [] then posix_normalize b else posix_normalize (a @ ''/'' @ b))"

definition loadPrivateKeyFromPath :: "auth_env \<Rightarrow> string \<Rightarrow> string option \<Rightarrow> SSHMCPError + SSHAuthConfig" where
  "loadPrivateKeyFromPath env keyPath passphrase =
     (case read_key env keyPath of
        Some k \<Rightarrow> Inr (key_auth k passphrase)
      | None \<Rightarrow> Inl (createAuthError (''Failed to load private key from '' @ keyPath) (Some ''Check if the file exists and is readable'')))"

definition keyFiles :: "string list" where
  "keyFiles = [''id_ed25519'', ''id_ecdsa'', ''id_ed25519_sk'', ''id_ecdsa_sk'', ''id_rsa'']"

definition keyDir :: "auth_env \<Rightarrow> string" where
  "keyDir env = or_else (env_keyDir env) (path_join (env_home env) ''.ssh'')"

fun try_keys :: "auth_env \<Rightarrow> string option \<Rightarrow> string list \<Rightarrow> SSHAuthConfig option" where
  "try_keys env passphrase [] = None"
| "try_keys env passphrase (f # fs) =
     (if can_read env f then
        (case loadPrivateKeyFromPath env f passphrase of Inr c \<Rightarrow> Some c | Inl _ \<Rightarrow> try_keys env passphrase fs)
      else try_keys env passphrase fs)"

definition discoverPrivateKeys :: "auth_env \<Rightarrow> string option \<Rightarrow> SSHMCPError + SSHAuthConfig" where
  "discoverPrivateKeys env passphrase =
     (let paths = map (path_join (keyDir env)) keyFiles in
      case try_keys env passphrase paths of
        Some c \<Rightarrow> Inr c
      | None \<Rightarrow> Inl (createAuthError ''No SSH private keys found in standard locations'' (Some (''Checked: '' @ join '', '' paths))))"

definition buildKeyAuth :: "auth_env \<Rightarrow> ConnectionParams \<Rightarrow> SSHMCPError + SSHAuthConfig" where
  "buildKeyAuth env params =
     (if truthy (cn_privateKey params) then Inr (key_auth (or_else (cn_privateKey params) '''') (cn_passphrase params))
      else if truthy (cn_privateKeyPath params) then
        loadPrivateKeyFromPath env (or_else (cn_privateKeyPath params) '''') (cn_passphrase params)
      else discoverPrivateKeys env (cn_passphrase params))"

definition buildAgentAuth :: "auth_env \<Rightarrow> SSHMCPError + SSHAuthConfig" where
  "buildAgentAuth env =
     (if truthy (env_authSock env) then Inr (agent_auth (or_else (env_authSock env) ''''))
      else Inl (createAuthError ''SSH agent not available''
        (Some ''Set SSH_AUTH_SOCK environment variable or use a different auth method'')))"

definition buildAutoAuth :: "auth_env \<Rightarrow> ConnectionParams \<Rightarrow> SSHMCPError + SSHAuthConfig" where
  "buildAutoAuth env params =
     (if truthy (cn_password params) then Inr (password_auth (or_else (cn_password params) ''''))
      else case buildKeyAuth env params of
        Inr c \<Rightarrow> Inr c
      | Inl _ \<Rightarrow> (case buildAgentAuth env of
            Inr c \<Rightarrow> Inr c
          | Inl _ \<Rightarrow> Inl (createAuthError ''No suitable authentication method found''
              (Some ''Provide a password, private key, or ensure SSH agent is running''))))"

definition buildAuthConfig :: "auth_env \<Rightarrow> ConnectionParams \<Rightarrow> SSHMCPError + SSHAuthConfig" where
  "buildAuthConfig env params =
     (case or_else (cn_auth params) AuthAuto of
        AuthPassword \<Rightarrow>
          (if truthy (cn_password params) then Inr (password_auth (or_else (cn_password params) ''''))
           else Inl (createAuthError ''Password required for password authentication'' None))
      | AuthKey \<Rightarrow> buildKeyAuth env params
      | AuthAgent \<Rightarrow> buildAgentAuth env
      | AuthAuto \<Rightarrow> buildAutoAuth env params)"

section \<open>State\<close>

record SessionInfo =
  si_sessionId :: string
  si_host :: string
  si_username :: string
  si_port :: int
  si_createdAt :: int
  si_expiresAt :: int
  si_lastUsed :: int
  si_policyMode :: PolicyMode
  si_hostKeyPolicy :: HostKeyPolicy

record SSHSession =
  ss_info :: SessionInfo
  ss_sftp :: bool
  ss_params :: ConnectionParams

record SessionResult =
  sr_sessionId :: string
  sr_host :: string
  sr_username :: string
  sr_sftpAvailable :: bool
  sr_expiresInMs :: int
  sr_policyMode :: PolicyMode
  sr_hostKeyPolicy :: HostKeyPolicy
  sr_wouldConnect :: "bool option"

record session_config =
  maxSessions :: int
  defaultTtlMs :: int
  allowRootLogin' :: bool
  sec_hostKeyPolicy :: HostKeyPolicy
  sec_knownHostsPath :: string

text \<open>An \<open>openSession\<close> that waits for the server: its id, start time and parameters.\<close>

record pending_open =
  op_id :: string
  op_now :: int
  op_params :: ConnectionParams
  op_auth :: SSHAuthConfig

text \<open>\<open>closing\<close> holds the calls of \<open>closeSession\<close> that wait for their listeners, \<open>disposed\<close> the sessions
  whose connection was disposed.\<close>

record session_manager =
  sessions :: "(string, SSHSession) jmap"
  acceptedHostKeys :: "(string, string) jmap"
  opens :: "pending_open list"
  closing :: "string list"
  disposed :: "string list"

definition new_manager :: session_manager where
  "new_manager = \<lparr>sessions = [], acceptedHostKeys = [], opens = [], closing = [], disposed = []\<rparr>"

section \<open>Closing\<close>

definition closeSession_start :: "string \<Rightarrow> session_manager \<Rightarrow> session_manager \<times> bool" where
  "closeSession_start sid m =
     (if jm_has (sessions m) sid then (m\<lparr>closing := closing m @ [sid]\<rparr>, True) else (m, False))"

definition closeSession_end :: "string \<Rightarrow> session_manager \<Rightarrow> session_manager" where
  "closeSession_end sid m =
     m\<lparr>closing := remove1 sid (closing m), disposed := disposed m @ [sid], sessions := jm_delete sid (sessions m)\<rparr>"

text \<open>\<open>closeSession\<close> when nothing runs in between.\<close>

definition closeSession :: "string \<Rightarrow> session_manager \<Rightarrow> session_manager \<times> bool" where
  "closeSession sid m = (let (m', found) = closeSession_start sid m in (if found then closeSession_end sid m' else m', found))"

definition getSession :: "int \<Rightarrow> string \<Rightarrow> session_manager \<Rightarrow> session_manager \<times> SSHSession option" where
  "getSession now sid m =
     (case jm_get (sessions m) sid of
        None \<Rightarrow> (m, None)
      | Some s \<Rightarrow>
          if si_expiresAt (ss_info s) < now then (fst (closeSession_start sid m), None)
          else let s' = s\<lparr>ss_info := (ss_info s)\<lparr>si_lastUsed := now\<rparr>\<rparr> in
            (m\<lparr>sessions := jm_set sid s' (sessions m)\<rparr>, Some s'))"

fun oldest_session :: "(string, SSHSession) jmap \<Rightarrow> string option \<Rightarrow> int \<Rightarrow> string option" where
  "oldest_session [] oldest t = oldest"
| "oldest_session ((sid, s) # ss) oldest t =
     (if si_lastUsed (ss_info s) < t then oldest_session ss (Some sid) (si_lastUsed (ss_info s))
      else oldest_session ss oldest t)"

definition evictOldestSession :: "int \<Rightarrow> session_manager \<Rightarrow> session_manager" where
  "evictOldestSession now m =
     (case oldest_session (sessions m) None now of
        Some sid \<Rightarrow> if sid = [] then m else fst (closeSession_start sid m)
      | None \<Rightarrow> m)"

definition cleanupExpiredSessions :: "int \<Rightarrow> session_manager \<Rightarrow> session_manager" where
  "cleanupExpiredSessions now m =
     fold (\<lambda>sid m. fst (closeSession_start sid m))
       (map fst (filter (\<lambda>(sid, s). si_expiresAt (ss_info s) < now) (sessions m))) m"

definition closeAllSessions :: "session_manager \<Rightarrow> session_manager" where
  "closeAllSessions m = fold (\<lambda>sid m. fst (closeSession_start sid m)) (map fst (sessions m)) m"

definition getActiveSessions :: "session_manager \<Rightarrow> SessionInfo list" where
  "getActiveSessions m = map (\<lambda>(sid, s). ss_info s) (sessions m)"

section \<open>Opening\<close>

definition resolveHostKeyPolicy :: "session_config \<Rightarrow> ConnectionParams \<Rightarrow> HostKeyPolicy" where
  "resolveHostKeyPolicy cfg params =
     (case cn_hostKeyPolicy params of
        Some p \<Rightarrow> p
      | None \<Rightarrow> (case cn_strictHostKeyChecking params of
          Some strict \<Rightarrow> if strict then Strict else Insecure
        | None \<Rightarrow> sec_hostKeyPolicy cfg))"

definition open_context :: "ConnectionParams \<Rightarrow> PolicyContext" where
  "open_context params =
     \<lparr>ctx_action = SshOpen, ctx_host = Some (or_else (cn_policyHost params) (cn_host params)),
      ctx_username = Some (cn_username params), ctx_command = None, ctx_path = None, ctx_secondaryPath = None,
      ctx_localBindHost = None, ctx_localPort = None, ctx_remoteHost = None, ctx_remotePort = None,
      ctx_mode = Some (or_else (cn_policyMode params) Enforce), ctx_rawSudo = False, ctx_destructive = False\<rparr>"

datatype open_reply = Explained SessionResult | Connecting pending_open

text \<open>\<open>openSession\<close> up to the connection: the policy, the explanation, root, eviction, authentication.\<close>

definition openSession_start ::
  "session_config \<Rightarrow> (PolicyContext \<Rightarrow> SSHMCPError + PolicyDecision) \<Rightarrow> auth_env \<Rightarrow> string \<Rightarrow> int \<Rightarrow> ConnectionParams \<Rightarrow>
     session_manager \<Rightarrow> session_manager \<times> (SSHMCPError + open_reply)" where
  "openSession_start cfg policy env sid now params m =
     (let ttl = or_else (cn_ttlMs params) (defaultTtlMs cfg); mode = or_else (cn_policyMode params) Enforce;
          rootDenied = (cn_username params = ''root'' \<and> \<not> allowRootLogin' cfg) in
      case policy (open_context params) of
        Inl e \<Rightarrow> (m, Inl e)
      | Inr decision \<Rightarrow>
          if mode = Explain then
            (m, Inr (Explained \<lparr>sr_sessionId = sid, sr_host = cn_host params, sr_username = cn_username params,
               sr_sftpAvailable = False, sr_expiresInMs = ttl, sr_policyMode = mode,
               sr_hostKeyPolicy = resolveHostKeyPolicy cfg params, sr_wouldConnect = Some (\<not> rootDenied \<and> allowed decision)\<rparr>))
          else if rootDenied then
            (m, Inl (createPolicyError ''Root SSH login is disabled by policy''
               (Some ''Connect as an unprivileged user and use approved privilege escalation workflows.'')))
          else
            let m' = (if maxSessions cfg \<le> int (length (sessions m)) then evictOldestSession now m else m) in
            case buildAuthConfig env params of
              Inl e \<Rightarrow> (m', Inl e)
            | Inr auth \<Rightarrow>
                let opn = \<lparr>op_id = sid, op_now = now, op_params = params, op_auth = auth\<rparr> in
                (m'\<lparr>opens := opens m' @ [opn]\<rparr>, Inr (Connecting opn)))"

text \<open>The errors of a failed connection, as \<open>openSession\<close> rethrows them.\<close>

definition open_error :: "thrown \<Rightarrow> SSHMCPError" where
  "open_error t =
     (let hostkey = createHostKeyError ''SSH host key verification failed''
            (Some ''Check known_hosts, hostKeyPolicy, or expectedHostKeySha256'');
          generic = (\<lambda>text. createConnectionError (''Failed to establish SSH connection: '' @ text)
            (Some ''Verify the host, port, and network connectivity'')) in
      case t of
        ThrownSSHMCP e \<Rightarrow> e
      | ThrownError message \<Rightarrow>
          if js_includes message ''authentication'' then
            createAuthError ''SSH authentication failed'' (Some ''Check your username, password, or SSH key configuration'')
          else if js_includes message ''timeout'' \<or> js_includes message ''ETIMEDOUT'' then
            createTimeoutError ''SSH connection timeout'' (Some ''Check if the host is reachable and the SSH service is running'')
          else if js_includes message ''ECONNREFUSED'' then
            createConnectionError ''SSH connection refused'' (Some ''Check if the SSH service is running on the target port'')
          else if js_includes (toLowerCase message) ''host key'' then hostkey
          else if js_includes (toLowerCase message) ''host denied'' then hostkey
          else generic message
      | ThrownOther text \<Rightarrow> generic text)"

text \<open>What the server's side of a connection attempt is: the error of a connection that failed before
  or after the host key was shown, or the key and whether SFTP is available.\<close>

datatype connect_outcome = ConnectFailed thrown | HostKeyShown string bool

definition open_info :: "session_config \<Rightarrow> pending_open \<Rightarrow> SessionInfo" where
  "open_info cfg opn =
     (let params = op_params opn; ttl = or_else (cn_ttlMs params) (defaultTtlMs cfg) in
      \<lparr>si_sessionId = op_id opn, si_host = cn_host params, si_username = cn_username params,
       si_port = or_else (cn_port params) 22, si_createdAt = op_now opn, si_expiresAt = op_now opn + ttl,
       si_lastUsed = op_now opn, si_policyMode = or_else (cn_policyMode params) Enforce,
       si_hostKeyPolicy = resolveHostKeyPolicy cfg params\<rparr>)"

definition open_result :: "session_config \<Rightarrow> pending_open \<Rightarrow> bool \<Rightarrow> SessionResult" where
  "open_result cfg opn sftp =
     (let params = op_params opn in
      \<lparr>sr_sessionId = op_id opn, sr_host = cn_host params, sr_username = cn_username params, sr_sftpAvailable = sftp,
       sr_expiresInMs = or_else (cn_ttlMs params) (defaultTtlMs cfg), sr_policyMode = or_else (cn_policyMode params) Enforce,
       sr_hostKeyPolicy = resolveHostKeyPolicy cfg params, sr_wouldConnect = None\<rparr>)"

text \<open>The end of \<open>openSession\<close>. The SSH library shows the host key to the verifier and fails with the
  error \<open>denied\<close> when it is refused.\<close>

definition openSession_end ::
  "session_config \<Rightarrow> host_digests \<Rightarrow> (string \<Rightarrow> string option) \<Rightarrow> thrown \<Rightarrow> pending_open \<Rightarrow> connect_outcome \<Rightarrow>
     session_manager \<Rightarrow> session_manager \<times> (SSHMCPError + SessionResult)" where
  "openSession_end cfg dg files denied_error opn outcome m =
     (let m = m\<lparr>opens := remove1 opn (opens m)\<rparr>; params = op_params opn in
      case outcome of
        ConnectFailed t \<Rightarrow> (m, Inl (open_error t))
      | HostKeyShown key sftp \<Rightarrow>
          let (accepted, ok) = host_verifier dg files (cn_expectedHostKeySha256 params) (resolveHostKeyPolicy cfg params)
                (or_else (cn_knownHostsPath params) (sec_knownHostsPath cfg)) (cn_host params) (or_else (cn_port params) 22)
                key (acceptedHostKeys m);
              m' = m\<lparr>acceptedHostKeys := accepted\<rparr> in
          if \<not> ok then (m', Inl (open_error denied_error))
          else (m'\<lparr>sessions := jm_set (op_id opn) \<lparr>ss_info = open_info cfg opn, ss_sftp = sftp, ss_params = params\<rparr> (sessions m')\<rparr>,
                Inr (open_result cfg opn sftp)))"

text \<open>\<open>openSession\<close> after \<open>closeSession\<close>, when nothing runs in between.\<close>

definition reconnectSession ::
  "session_config \<Rightarrow> (PolicyContext \<Rightarrow> SSHMCPError + PolicyDecision) \<Rightarrow> auth_env \<Rightarrow> string \<Rightarrow> int \<Rightarrow> string \<Rightarrow>
     session_manager \<Rightarrow> session_manager \<times> (SSHMCPError + open_reply option)" where
  "reconnectSession cfg policy env newId now sid m =
     (case jm_get (sessions m) sid of
        None \<Rightarrow> (m, Inr None)
      | Some s \<Rightarrow>
          (case openSession_start cfg policy env newId now (ss_params s) (fst (closeSession sid m)) of
             (m', Inl e) \<Rightarrow> (m', Inl e)
           | (m', Inr r) \<Rightarrow> (m', Inr (Some r))))"

definition getSessionWithReconnect ::
  "session_config \<Rightarrow> (PolicyContext \<Rightarrow> SSHMCPError + PolicyDecision) \<Rightarrow> auth_env \<Rightarrow> string \<Rightarrow> int \<Rightarrow> bool \<Rightarrow> string \<Rightarrow>
     session_manager \<Rightarrow> session_manager \<times> SSHSession option" where
  "getSessionWithReconnect cfg policy env newId now alive sid m =
     (case getSession now sid m of
        (m', None) \<Rightarrow> (m', None)
      | (m', Some s) \<Rightarrow> if alive then (m', Some s) else (fst (reconnectSession cfg policy env newId now sid m'), None))"

section \<open>Steps\<close>

datatype session_event =
    Open string int ConnectionParams
  | Connected pending_open connect_outcome
  | Close string
  | CloseDone string
  | Get int string
  | Cleanup int
  | CloseAll

definition fresh_id :: "string \<Rightarrow> session_manager \<Rightarrow> bool" where
  "fresh_id sid m \<longleftrightarrow> \<not> jm_has (sessions m) sid \<and> sid \<notin> op_id ` set (opens m) \<and> sid \<notin> set (closing m) \<and> sid \<noteq> []"

inductive session_step ::
  "session_config \<Rightarrow> (PolicyContext \<Rightarrow> SSHMCPError + PolicyDecision) \<Rightarrow> auth_env \<Rightarrow> host_digests \<Rightarrow> (string \<Rightarrow> string option) \<Rightarrow>
     thrown \<Rightarrow> session_manager \<Rightarrow> session_event \<Rightarrow> session_manager \<Rightarrow> bool"
  for cfg policy env dg files denied_error where
  step_open: "fresh_id sid m \<Longrightarrow>
    session_step cfg policy env dg files denied_error m (Open sid now params) (fst (openSession_start cfg policy env sid now params m))"
| step_connected: "opn \<in> set (opens m) \<Longrightarrow>
    session_step cfg policy env dg files denied_error m (Connected opn outcome) (fst (openSession_end cfg dg files denied_error opn outcome m))"
| step_close: "session_step cfg policy env dg files denied_error m (Close sid) (fst (closeSession_start sid m))"
| step_close_done: "sid \<in> set (closing m) \<Longrightarrow>
    session_step cfg policy env dg files denied_error m (CloseDone sid) (closeSession_end sid m)"
| step_get: "session_step cfg policy env dg files denied_error m (Get now sid) (fst (getSession now sid m))"
| step_cleanup: "session_step cfg policy env dg files denied_error m (Cleanup now) (cleanupExpiredSessions now m)"
| step_close_all: "session_step cfg policy env dg files denied_error m CloseAll (closeAllSessions m)"

section \<open>Every session is authorised\<close>

definition admitted :: "session_config \<Rightarrow> (PolicyContext \<Rightarrow> SSHMCPError + PolicyDecision) \<Rightarrow> ConnectionParams \<Rightarrow> bool" where
  "admitted cfg policy params \<longleftrightarrow> or_else (cn_policyMode params) Enforce = Enforce \<and> is_ok (policy (open_context params)) \<and>
     (cn_username params = ''root'' \<longrightarrow> allowRootLogin' cfg)"

definition host_key_checked :: "session_config \<Rightarrow> host_digests \<Rightarrow> (string \<Rightarrow> string option) \<Rightarrow> ConnectionParams \<Rightarrow> bool" where
  "host_key_checked cfg dg files params \<longleftrightarrow> (\<exists>key accepted. snd (host_verifier dg files (cn_expectedHostKeySha256 params)
     (resolveHostKeyPolicy cfg params) (or_else (cn_knownHostsPath params) (sec_knownHostsPath cfg)) (cn_host params)
     (or_else (cn_port params) 22) key accepted))"

definition session_ok :: "session_config \<Rightarrow> (PolicyContext \<Rightarrow> SSHMCPError + PolicyDecision) \<Rightarrow> host_digests \<Rightarrow>
    (string \<Rightarrow> string option) \<Rightarrow> string \<Rightarrow> SSHSession \<Rightarrow> bool" where
  "session_ok cfg policy dg files sid s \<longleftrightarrow> admitted cfg policy (ss_params s) \<and> host_key_checked cfg dg files (ss_params s) \<and>
     si_sessionId (ss_info s) = sid \<and> si_host (ss_info s) = cn_host (ss_params s) \<and> si_username (ss_info s) = cn_username (ss_params s) \<and>
     si_policyMode (ss_info s) = Enforce \<and> si_hostKeyPolicy (ss_info s) = resolveHostKeyPolicy cfg (ss_params s) \<and>
     si_expiresAt (ss_info s) = si_createdAt (ss_info s) + or_else (cn_ttlMs (ss_params s)) (defaultTtlMs cfg)"

definition sessions_ok :: "session_config \<Rightarrow> (PolicyContext \<Rightarrow> SSHMCPError + PolicyDecision) \<Rightarrow> host_digests \<Rightarrow>
    (string \<Rightarrow> string option) \<Rightarrow> session_manager \<Rightarrow> bool" where
  "sessions_ok cfg policy dg files m \<longleftrightarrow> jm_wf (sessions m) \<and> (\<forall>(sid, s) \<in> set (sessions m). session_ok cfg policy dg files sid s) \<and>
     (\<forall>opn \<in> set (opens m). admitted cfg policy (op_params opn))"

lemma closeSession_start_frame [simp]:
  "sessions (fst (closeSession_start sid m)) = sessions m" "opens (fst (closeSession_start sid m)) = opens m"
  "acceptedHostKeys (fst (closeSession_start sid m)) = acceptedHostKeys m" "disposed (fst (closeSession_start sid m)) = disposed m"
  by (simp_all add: closeSession_start_def)

lemma close_fold_frame [simp]:
  "sessions (fold (\<lambda>sid m. fst (closeSession_start sid m)) sids m) = sessions m"
  "opens (fold (\<lambda>sid m. fst (closeSession_start sid m)) sids m) = opens m"
  by (induction sids arbitrary: m) simp_all

lemma evict_frame [simp]:
  "sessions (evictOldestSession now m) = sessions m" "opens (evictOldestSession now m) = opens m"
  by (simp_all add: evictOldestSession_def split: option.splits)

lemma jm_set_in: "(k', v') \<in> set (jm_set k v m) \<Longrightarrow> (k', v') = (k, v) \<or> (k', v') \<in> set m"
  by (induction k v m rule: jm_set.induct) (auto split: if_splits)

lemma not_explain: "mode \<noteq> Explain \<longleftrightarrow> mode = Enforce"
  by (cases mode) auto

lemma open_start_ok:
  "sessions_ok cfg policy dg files m \<Longrightarrow> sessions_ok cfg policy dg files (fst (openSession_start cfg policy env sid now params m))"
  by (auto simp: sessions_ok_def openSession_start_def admitted_def is_ok_iff Let_def not_explain split: sum.splits)

lemma open_end_ok:
  assumes "sessions_ok cfg policy dg files m" and "opn \<in> set (opens m)"
  shows "sessions_ok cfg policy dg files (fst (openSession_end cfg dg files denied_error opn outcome m))"
proof (cases outcome)
  case (ConnectFailed t)
  then show ?thesis using assms by (auto simp: sessions_ok_def openSession_end_def Let_def dest: notin_set_remove1)
next
  case (HostKeyShown key sftp)
  let ?p = "op_params opn"
  let ?v = "host_verifier dg files (cn_expectedHostKeySha256 ?p) (resolveHostKeyPolicy cfg ?p) (or_else (cn_knownHostsPath ?p) (sec_knownHostsPath cfg))
    (cn_host ?p) (or_else (cn_port ?p) 22) key (acceptedHostKeys m)"
  let ?s = "\<lparr>ss_info = open_info cfg opn, ss_sftp = sftp, ss_params = ?p\<rparr>"
  have adm: "admitted cfg policy ?p" using assms by (simp add: sessions_ok_def)
  have ok: "session_ok cfg policy dg files (op_id opn) ?s" if "snd ?v"
    using that adm by (auto simp: session_ok_def host_key_checked_def open_info_def admitted_def Let_def)
  show ?thesis using assms ok
    by (auto simp: sessions_ok_def openSession_end_def HostKeyShown Let_def split: prod.splits dest!: jm_set_in dest: notin_set_remove1)
qed

lemma session_step_ok:
  assumes "session_step cfg policy env dg files denied_error m e m'" and "sessions_ok cfg policy dg files m"
  shows "sessions_ok cfg policy dg files m'"
  using assms
proof (induction rule: session_step.induct)
  case (step_open sid m now params)
  then show ?case by (simp add: open_start_ok)
next
  case (step_connected opn m outcome)
  then show ?case by (simp add: open_end_ok)
next
  case (step_get m now sid)
  then show ?case
    by (auto simp: getSession_def sessions_ok_def session_ok_def Let_def split: option.splits dest!: jm_set_in jm_get_SomeD)
next
  case (step_close_done sid m)
  then show ?case by (auto simp: closeSession_end_def sessions_ok_def jm_delete_def)
qed (simp_all add: sessions_ok_def cleanupExpiredSessions_def closeAllSessions_def)

interpretation session_system: invariant_system "\<lambda>m. m = new_manager" "session_step cfg policy env dg files denied_error"
  "sessions_ok cfg policy dg files" for cfg policy env dg files denied_error
proof
  show "m = new_manager \<Longrightarrow> sessions_ok cfg policy dg files m" for m by (simp add: sessions_ok_def new_manager_def)
qed (rule session_step_ok)

lemma assertAllowed_enforced:
  "is_ok (snd (assertAllowed rx lenv eng (open_context params))) \<Longrightarrow> or_else (cn_policyMode params) Enforce = Enforce \<Longrightarrow>
     allowed (evaluate rx lenv eng (open_context params))"
  by (auto simp: assertAllowed_def Let_def is_ok_iff evaluate_mode effective_mode_def open_context_def split: if_splits)


section \<open>Eviction and expiry\<close>

lemma oldest_session_spec:
  "case oldest_session ss oldest t of
     None \<Rightarrow> oldest = None \<and> (\<forall>(sid, s) \<in> set ss. t \<le> si_lastUsed (ss_info s))
   | Some sid \<Rightarrow> (oldest = Some sid \<and> (\<forall>(i, s) \<in> set ss. t \<le> si_lastUsed (ss_info s))) \<or>
       (\<exists>s. (sid, s) \<in> set ss \<and> si_lastUsed (ss_info s) < t \<and> (\<forall>(i, s') \<in> set ss. si_lastUsed (ss_info s) \<le> si_lastUsed (ss_info s')))"
proof (induction ss oldest t rule: oldest_session.induct)
  case (2 sid s ss oldest t)
  show ?case
  proof (cases "si_lastUsed (ss_info s) < t")
    case True
    then show ?thesis using 2(1) [OF True] by (fastforce split: option.splits)
  next
    case False
    then show ?thesis using 2(2) [OF False] by (fastforce split: option.splits)
  qed
qed (simp split: option.splits)

text \<open>
  Eviction removes a least recently used session, if there is one to remove. It starts closing
  exactly one session, one that no other session's last use precedes, provided that use lies before
  the current millisecond; when all sessions were used in this millisecond (or the clock was set
  back), nothing is evicted.
\<close>

theorem evictOldestSession_lru:
  assumes "\<forall>(sid, s) \<in> set (sessions m). sid \<noteq> []"
  shows "if \<forall>(sid, s) \<in> set (sessions m). now \<le> si_lastUsed (ss_info s) then evictOldestSession now m = m
    else \<exists>sid s. (sid, s) \<in> set (sessions m) \<and> si_lastUsed (ss_info s) < now \<and>
      (\<forall>(i, s') \<in> set (sessions m). si_lastUsed (ss_info s) \<le> si_lastUsed (ss_info s')) \<and>
      evictOldestSession now m = m\<lparr>closing := closing m @ [sid]\<rparr>"
proof (cases "oldest_session (sessions m) None now")
  case None
  then show ?thesis using oldest_session_spec [where ss = "sessions m" and oldest = None and t = now] by (simp add: evictOldestSession_def)
next
  case (Some sid)
  with oldest_session_spec [where ss = "sessions m" and oldest = None and t = now] obtain s where s: "(sid, s) \<in> set (sessions m)" "si_lastUsed (ss_info s) < now"
    "\<forall>(i, s') \<in> set (sessions m). si_lastUsed (ss_info s) \<le> si_lastUsed (ss_info s')" by auto
  have "jm_has (sessions m) sid" using s(1) by (force simp: jm_has_def jm_get_None_iff)
  moreover have "sid \<noteq> []" using assms s(1) by auto
  ultimately have "evictOldestSession now m = m\<lparr>closing := closing m @ [sid]\<rparr>"
    by (simp add: evictOldestSession_def Some closeSession_start_def)
  with s show ?thesis by (auto simp: not_le)
qed

definition finish_closing :: "session_manager \<Rightarrow> session_manager" where
  "finish_closing m = fold closeSession_end (closing m) m"

lemma close_ends: "sessions (fold closeSession_end sids m) = filter (\<lambda>e. fst e \<notin> set sids) (sessions m)"
  by (induction sids arbitrary: m) (simp_all add: closeSession_end_def jm_delete_def conj_commute)

lemma close_starts:
  "closing (fold (\<lambda>sid m. fst (closeSession_start sid m)) sids m) = closing m @ filter (jm_has (sessions m)) sids"
proof (induction sids arbitrary: m)
  case (Cons sid sids)
  show ?case using Cons [of "fst (closeSession_start sid m)"] by (simp add: closeSession_start_def)
qed simp

text \<open>
  Expired sessions go, and only those. Once a cleanup at some time has run and the closes under way
  have finished, the table holds exactly the sessions that had not expired at that time and were
  not being closed before; and no lookup ever returns an expired session: it starts closing it.
\<close>

theorem cleanup_removes_expired:
  assumes "jm_wf (sessions m)"
  shows "sessions (finish_closing (cleanupExpiredSessions now m)) =
      filter (\<lambda>(sid, s). now \<le> si_expiresAt (ss_info s) \<and> sid \<notin> set (closing m)) (sessions m) \<and>
    (case getSession now sid m of
       (m', Some s) \<Rightarrow> now \<le> si_expiresAt (ss_info s) \<and> si_lastUsed (ss_info s) = now \<and> jm_get (sessions m') sid = Some s
     | (m', None) \<Rightarrow> jm_get (sessions m) sid = None \<or> m' = m\<lparr>closing := closing m @ [sid]\<rparr>)"
proof
  let ?expired = "filter (\<lambda>(sid, s). si_expiresAt (ss_info s) < now) (sessions m)"
  have has: "jm_has (sessions m) (fst e)" if "e \<in> set (sessions m)" for e
    using that by (force simp: jm_has_def jm_get_None_iff)
  have "filter (jm_has (sessions m)) (map fst ?expired) = map fst ?expired"
    by (rule filter_True) (use has in auto)
  then have c: "closing (cleanupExpiredSessions now m) = closing m @ map fst ?expired"
    by (simp add: cleanupExpiredSessions_def close_starts)
  have ex: "sid \<in> fst ` set ?expired \<longleftrightarrow> si_expiresAt (ss_info s) < now" if "(sid, s) \<in> set (sessions m)" for sid s
    using that assms by (force simp: jm_wf_def dest: eq_key_imp_eq_value)
  show "sessions (finish_closing (cleanupExpiredSessions now m)) =
      filter (\<lambda>(sid, s). now \<le> si_expiresAt (ss_info s) \<and> sid \<notin> set (closing m)) (sessions m)"
  proof -
    have "fst e \<notin> set (closing m @ map fst ?expired) \<longleftrightarrow> (case e of (sid, s) \<Rightarrow> now \<le> si_expiresAt (ss_info s) \<and> sid \<notin> set (closing m))"
      if "e \<in> set (sessions m)" for e
    proof -
      obtain sid s where e: "e = (sid, s)" by (cases e)
      show ?thesis using ex [of sid s] that unfolding e set_append set_map by (simp only: fst_conv prod.case Un_iff not_le [symmetric]) blast
    qed
    then have "filter (\<lambda>e. fst e \<notin> set (closing m @ map fst ?expired)) (sessions m) =
        filter (\<lambda>(sid, s). now \<le> si_expiresAt (ss_info s) \<and> sid \<notin> set (closing m)) (sessions m)" by (rule filter_cong [OF refl])
    moreover have "sessions (cleanupExpiredSessions now m) = sessions m" by (simp add: cleanupExpiredSessions_def)
    ultimately show ?thesis unfolding finish_closing_def close_ends c by (simp only:)
  qed
  show "case getSession now sid m of
       (m', Some s) \<Rightarrow> now \<le> si_expiresAt (ss_info s) \<and> si_lastUsed (ss_info s) = now \<and> jm_get (sessions m') sid = Some s
     | (m', None) \<Rightarrow> jm_get (sessions m) sid = None \<or> m' = m\<lparr>closing := closing m @ [sid]\<rparr>"
    by (auto simp: getSession_def Let_def closeSession_start_def jm_has_def not_less split: option.splits)
qed

definition sample_session_config :: session_config where
  "sample_session_config = \<lparr>maxSessions = 2, defaultTtlMs = 900000, allowRootLogin' = False, sec_hostKeyPolicy = Strict,
     sec_knownHostsPath = ''kh''\<rparr>"

definition sample_auth_env :: auth_env where
  "sample_auth_env = \<lparr>read_key = (\<lambda>p. None), can_read = (\<lambda>p. False), env_authSock = Some ''/run/agent'', env_keyDir = None, env_home = ''/home/ada''\<rparr>"

definition sample_connection :: ConnectionParams where
  "sample_connection = \<lparr>cn_host = ''db.lab.example'', cn_policyHost = None, cn_username = ''ada'', cn_port = None, cn_auth = None,
     cn_password = None, cn_privateKey = None, cn_privateKeyPath = None, cn_passphrase = None, cn_ttlMs = None,
     cn_strictHostKeyChecking = None, cn_hostKeyPolicy = None, cn_knownHostsPath = None, cn_expectedHostKeySha256 = None,
     cn_policyMode = None\<rparr>"

definition opened_once :: session_manager where
  "opened_once = fst (openSession_start sample_session_config (\<lambda>ctx. snd (assertAllowed (\<lambda>_. None) sample_env sample_engine ctx))
     sample_auth_env ''ssh-1'' 1000 sample_connection new_manager)"

definition connected_once :: session_manager where
  "connected_once = fst (openSession_end sample_session_config sample_digests (\<lambda>p. Some sample_known_hosts) (ThrownError ''host denied'')
     (hd (opens opened_once)) (HostKeyShown ''SHA256:fp-AAAA'' True) opened_once)"

lemma connected_once_has: "map_option (\<lambda>s. cn_username (ss_params s)) (jm_get (sessions connected_once) ''ssh-1'') = Some ''ada''"
  "opens opened_once \<noteq> []" "fresh_id ''ssh-1'' new_manager"
  by code_simp+

lemma connected_once_run:
  "run (session_step sample_session_config (\<lambda>ctx. snd (assertAllowed (\<lambda>_. None) sample_env sample_engine ctx)) sample_auth_env
     sample_digests (\<lambda>p. Some sample_known_hosts) (ThrownError ''host denied'')) new_manager
     [Open ''ssh-1'' 1000 sample_connection, Connected (hd (opens opened_once)) (HostKeyShown ''SHA256:fp-AAAA'' True)] connected_once"
proof -
  have "hd (opens opened_once) \<in> set (opens opened_once)" using connected_once_has(2) by simp
  then show ?thesis
    unfolding connected_once_def
    by - (rule run_cons, rule step_open [OF connected_once_has(3)], fold opened_once_def, rule run_cons, rule step_connected, assumption, rule run_nil)
qed


lemma connected_once_sessions:
  "map (\<lambda>(sid, s). (sid, si_lastUsed (ss_info s), si_expiresAt (ss_info s))) (sessions connected_once) = [(''ssh-1'', 1000, 901000)]"
  "closing connected_once = []"
  by code_simp+

theorem evictOldestSession_lru_witness:
  "evictOldestSession 1000 connected_once = connected_once \<and> evictOldestSession 1001 connected_once \<noteq> connected_once"
proof -
  have c: "\<exists>s. sessions connected_once = [(''ssh-1'', s)] \<and> si_lastUsed (ss_info s) = 1000"
    using connected_once_sessions(1) by (auto simp: map_eq_Cons_conv)
  then have ids: "\<forall>(sid, s) \<in> set (sessions connected_once). sid \<noteq> []" by auto
  from evictOldestSession_lru [OF ids, of 1000] evictOldestSession_lru [OF ids, of 1001] c show ?thesis
    by (auto split: if_splits dest: arg_cong [of _ _ closing])
qed

theorem cleanup_removes_expired_witness:
  "sessions (finish_closing (cleanupExpiredSessions 901001 connected_once)) = [] \<and>
   sessions (finish_closing (cleanupExpiredSessions 901000 connected_once)) = sessions connected_once"
proof -
  obtain s where s: "sessions connected_once = [(''ssh-1'', s)]" "si_expiresAt (ss_info s) = 901000"
    using connected_once_sessions(1) by (auto simp: map_eq_Cons_conv)
  have wf: "jm_wf (sessions connected_once)" by (simp add: s jm_wf_def)
  show ?thesis
    using cleanup_removes_expired [OF wf, of 901001, THEN conjunct1] cleanup_removes_expired [OF wf, of 901000, THEN conjunct1]
    by (simp add: s connected_once_sessions(2))
qed

section \<open>The limit\<close>

text \<open>\<open>openSession\<close> when nothing runs in between but the closes it started itself.\<close>

definition openSession ::
  "session_config \<Rightarrow> (PolicyContext \<Rightarrow> SSHMCPError + PolicyDecision) \<Rightarrow> auth_env \<Rightarrow> host_digests \<Rightarrow> (string \<Rightarrow> string option) \<Rightarrow>
     thrown \<Rightarrow> string \<Rightarrow> int \<Rightarrow> ConnectionParams \<Rightarrow> connect_outcome \<Rightarrow> session_manager \<Rightarrow> session_manager \<times> (SSHMCPError + SessionResult)" where
  "openSession cfg policy env dg files denied_error sid now params outcome m =
     (case openSession_start cfg policy env sid now params m of
        (m', Inl e) \<Rightarrow> (finish_closing m', Inl e)
      | (m', Inr (Explained r)) \<Rightarrow> (finish_closing m', Inr r)
      | (m', Inr (Connecting opn)) \<Rightarrow> openSession_end cfg dg files denied_error opn outcome (finish_closing m'))"

lemma finish_closing_length: "length (sessions (finish_closing m)) \<le> length (sessions m)"
  by (simp add: finish_closing_def close_ends)

lemma evicted_length:
  assumes "\<forall>(sid, s) \<in> set (sessions m). sid \<noteq> [] \<and> si_lastUsed (ss_info s) < now" and "sessions m \<noteq> []"
  shows "length (sessions (finish_closing (evictOldestSession now m))) < length (sessions m)"
proof -
  obtain sid where sid: "oldest_session (sessions m) None now = Some sid" "\<exists>s. (sid, s) \<in> set (sessions m)"
  proof (cases "oldest_session (sessions m) None now")
    case None
    then have "\<forall>(sid, s) \<in> set (sessions m). now \<le> si_lastUsed (ss_info s)"
      using oldest_session_spec [where ss = "sessions m" and oldest = None and t = now] by simp
    then show thesis using assms by (cases "sessions m") auto
  next
    case (Some sid)
    then show thesis
      using oldest_session_spec [where ss = "sessions m" and oldest = None and t = now] by (intro that [of sid]) auto
  qed
  have "jm_has (sessions m) sid" "sid \<noteq> []" using sid(2) assms(1) by (force simp: jm_has_def jm_get_None_iff)+
  then have "closing (evictOldestSession now m) = closing m @ [sid]"
    by (simp add: evictOldestSession_def sid(1) closeSession_start_def)
  then have "sessions (finish_closing (evictOldestSession now m)) = filter (\<lambda>e. fst e \<notin> set (closing m @ [sid])) (sessions m)"
    unfolding finish_closing_def close_ends by (simp only: evict_frame)
  moreover have "length (filter (\<lambda>e. fst e \<notin> set (closing m @ [sid])) (sessions m)) < length (sessions m)"
  proof -
    obtain s where "(sid, s) \<in> set (sessions m)" using sid(2) by blast
    then show ?thesis by (rule length_filter_less) simp
  qed
  ultimately show ?thesis by simp
qed

lemma openSession_end_length:
  "length (sessions (fst (openSession_end cfg dg files den opn outcome m))) \<le> Suc (length (sessions m))"
  by (auto simp: openSession_end_def Let_def jm_set_length_le split: connect_outcome.splits prod.splits)

lemma openSession_start_sessions:
  "openSession_start cfg policy env sid now params m = (m', r) \<Longrightarrow> sessions m' = sessions m \<and>
     (r = Inr (Connecting opn) \<longrightarrow> closing m' = closing (if maxSessions cfg \<le> int (length (sessions m)) then evictOldestSession now m else m))"
  by (auto simp: openSession_start_def Let_def split: sum.splits if_splits)

text \<open>
  The number of sessions stays within the limit when opens do not overlap. If the table is within
  the limit and every session was last used before the current millisecond, then an \<open>openSession\<close> that
  runs to its end, with the closes it starts, leaves it within the limit.
\<close>

theorem openSession_limit:
  assumes "1 \<le> maxSessions cfg" and "int (length (sessions m)) \<le> maxSessions cfg"
    and "\<forall>(sid, s) \<in> set (sessions m). sid \<noteq> [] \<and> si_lastUsed (ss_info s) < now"
  shows "int (length (sessions (fst (openSession cfg policy env dg files den sid now params outcome m)))) \<le> maxSessions cfg"
proof -
  obtain m' r where st: "openSession_start cfg policy env sid now params m = (m', r)" by fastforce
  have le: "length (sessions (finish_closing m')) \<le> length (sessions m)"
    using finish_closing_length [of m'] openSession_start_sessions [OF st] by simp
  show ?thesis
  proof (cases "\<exists>opn. r = Inr (Connecting opn)")
    case False
    then have "fst (openSession cfg policy env dg files den sid now params outcome m) = finish_closing m'"
      by (auto simp: openSession_def st split: sum.splits open_reply.splits)
    then show ?thesis using le assms(2) by simp
  next
    case True
    then obtain opn where r: "r = Inr (Connecting opn)" by blast
    let ?e = "if maxSessions cfg \<le> int (length (sessions m)) then evictOldestSession now m else m"
    have "sessions (finish_closing m') = sessions (finish_closing ?e)"
      using openSession_start_sessions [OF st, of opn] r by (simp add: finish_closing_def close_ends)
    moreover have "int (length (sessions (finish_closing ?e))) < maxSessions cfg"
    proof (cases "maxSessions cfg \<le> int (length (sessions m))")
      case True
      then have "sessions m \<noteq> []" using assms(1) by auto
      with True evicted_length [OF assms(3)] assms(2) show ?thesis by simp
    next
      case False
      then show ?thesis using finish_closing_length [of m] by simp
    qed
    ultimately show ?thesis
      using openSession_end_length [of cfg dg files den opn outcome "finish_closing m'"] by (simp add: openSession_def st r)
  qed
qed

theorem openSession_limit_witness:
  "int (length (sessions (fst (openSession (sample_session_config\<lparr>maxSessions := 1\<rparr>)
     (\<lambda>ctx. snd (assertAllowed (\<lambda>_. None) sample_env sample_engine ctx)) sample_auth_env sample_digests
     (\<lambda>p. Some sample_known_hosts) (ThrownError ''host denied'') ''ssh-2'' 2000 sample_connection
     (HostKeyShown ''SHA256:fp-AAAA'' True) connected_once)))) \<le> 1"
proof -
  obtain s where s: "sessions connected_once = [(''ssh-1'', s)]" "si_lastUsed (ss_info s) = 1000"
    using connected_once_sessions(1) by (auto simp: map_eq_Cons_conv)
  from openSession_limit [of "sample_session_config\<lparr>maxSessions := 1\<rparr>" connected_once 2000] s show ?thesis by simp
qed

section \<open>Credentials\<close>

definition one_credential :: "SSHAuthConfig \<Rightarrow> bool" where
  "one_credential c \<longleftrightarrow> (\<exists>p. c = password_auth p \<and> p \<noteq> []) \<or> (\<exists>k pp. c = key_auth k pp) \<or> (\<exists>a. c = agent_auth a \<and> a \<noteq> [])"

lemma try_keys_key: "try_keys env pp fs = Some c \<Longrightarrow> \<exists>f \<in> set fs. \<exists>k. can_read env f \<and> read_key env f = Some k \<and> c = key_auth k pp"
  by (induction fs) (auto simp: loadPrivateKeyFromPath_def split: if_splits option.splits)

lemma try_keys_None: "try_keys env pp fs = None \<longleftrightarrow> (\<forall>f \<in> set fs. can_read env f \<longrightarrow> read_key env f = None)"
  by (induction fs) (auto simp: loadPrivateKeyFromPath_def split: option.splits)

lemma buildKeyAuth_key: "buildKeyAuth env params = Inr c \<Longrightarrow> \<exists>k. c = key_auth k (cn_passphrase params)"
  by (auto simp: buildKeyAuth_def discoverPrivateKeys_def loadPrivateKeyFromPath_def Let_def
      split: if_splits option.splits dest: try_keys_key)

lemma buildKeyAuth_one: "buildKeyAuth env params = Inr c \<Longrightarrow> one_credential c"
  unfolding one_credential_def by (blast dest: buildKeyAuth_key)

lemma one_credential_simps [simp]:
  "p \<noteq> [] \<Longrightarrow> one_credential (password_auth p)" "p \<noteq> [] \<Longrightarrow> one_credential (agent_auth p)"
  by (auto simp: one_credential_def)

text \<open>
  Automatic authentication prefers a password, then a key, then the agent, and gives up only when
  there is none of them. It fails exactly when no password is given, no key is given or readable
  in its place, and there is no agent socket; otherwise it uses one credential: the password if there
  is one, or else a key if there is one, or else the agent.
\<close>

theorem buildAutoAuth_order:
  fixes env :: auth_env and params :: ConnectionParams
  shows "case buildAutoAuth env params of
     Inl e \<Rightarrow> err_code e = EAUTH \<and> \<not> truthy (cn_password params) \<and> \<not> is_ok (buildKeyAuth env params) \<and> \<not> truthy (env_authSock env)
   | Inr c \<Rightarrow> one_credential c \<and> (truthy (cn_password params) \<longrightarrow> Some c = map_option password_auth (cn_password params)) \<and>
       (\<not> truthy (cn_password params) \<and> is_ok (buildKeyAuth env params) \<longrightarrow> (\<exists>k. c = key_auth k (cn_passphrase params))) \<and>
       (\<not> truthy (cn_password params) \<and> \<not> is_ok (buildKeyAuth env params) \<longrightarrow> Some c = map_option agent_auth (env_authSock env))"
proof (cases "truthy (cn_password params)")
  case True
  then show ?thesis by (cases "cn_password params") (simp_all add: buildAutoAuth_def)
next
  case False
  show ?thesis
  proof (cases "buildKeyAuth env params")
    case (Inr c)
    then show ?thesis using False buildKeyAuth_key [OF Inr] buildKeyAuth_one [OF Inr] by (simp add: buildAutoAuth_def is_ok_def)
  next
    case (Inl e)
    then show ?thesis using False
      by (cases "env_authSock env")
        (simp_all add: buildAutoAuth_def buildAgentAuth_def createAuthError_def new_SSHMCPError_def is_ok_def)
  qed
qed

theorem buildAutoAuth_order_witness:
  "buildAutoAuth sample_auth_env sample_connection = Inr (agent_auth ''/run/agent'')"
proof -
  have k: "\<not> is_ok (buildKeyAuth sample_auth_env sample_connection)" by code_simp
  have ok: "is_ok (buildAutoAuth sample_auth_env sample_connection)" by code_simp
  then obtain c where c: "buildAutoAuth sample_auth_env sample_connection = Inr c" by (auto simp: is_ok_iff)
  from buildAutoAuth_order [where env = sample_auth_env and params = sample_connection] k c show ?thesis
    by (simp add: sample_connection_def sample_auth_env_def)
qed

end
