(* ===== verification/OAuth.thy ===== *)
theory OAuth
  imports Authorize
begin

text \<open>
  Verification of the access tokens of an external OAuth issuer (\<open>src/oauth.ts\<close>). The library function
  \<open>jwtVerify\<close>, with the key set it fetches, is the parameter \<open>jwt\<close>: from a token, the key of the key
  set, the issuer, the audience and the algorithms to the payload and the protected header, or \<open>None\<close>
  when it throws.
\<close>

section \<open>Data\<close>

text \<open>A claim of a payload: absent, a string, an array (\<open>None\<close> for an element that is no string), or
  something else.\<close>

datatype jclaim = CAbsent | CString string | CArray "string option list" | COther

record jwt_payload =
  jp_iss :: jclaim
  jp_aud :: jclaim
  jp_scope :: jclaim
  jp_scp :: jclaim

record jwt_header =
  jh_kid :: "string option"
  jh_alg :: "string option"

record OAuthVerificationConfig =
  ov_issuer :: "string option"
  ov_audience :: "string option"
  ov_jwksUrl :: "string option"
  ov_requiredScopes :: "string list"
  ov_allowedAlgorithms :: "string list option"
  ov_jwksTimeoutMs :: "int option"
  ov_jwksCooldownMs :: "int option"
  ov_jwksCacheMaxAgeMs :: "int option"

type_synonym jwt_verify = "string \<Rightarrow> string \<Rightarrow> string \<Rightarrow> string \<Rightarrow> string list \<Rightarrow> (jwt_payload \<times> jwt_header) option"

definition DEFAULT_ALLOWED_ALGORITHMS :: "string list" where
  "DEFAULT_ALLOWED_ALGORITHMS = [''RS256'']"

section \<open>Claims\<close>

definition audienceMatches :: "jclaim \<Rightarrow> string \<Rightarrow> bool" where
  "audienceMatches audience expected =
     (case audience of CString a \<Rightarrow> a = expected | CArray as \<Rightarrow> Some expected \<in> set as | _ \<Rightarrow> False)"

definition extractScopes :: "jwt_payload \<Rightarrow> string set" where
  "extractScopes payload =
     (case jp_scope payload of CString s \<Rightarrow> set (ws_words s) | _ \<Rightarrow> {}) \<union>
     (case jp_scp payload of CString s \<Rightarrow> set (ws_words s) | CArray ss \<Rightarrow> set (List.map_filter id ss) | _ \<Rightarrow> {})"

definition validateClaims :: "jwt_payload \<Rightarrow> OAuthVerificationConfig \<Rightarrow> string + unit" where
  "validateClaims payload config =
     (if (case jp_iss payload of CString i \<Rightarrow> ov_issuer config \<noteq> Some i | CAbsent \<Rightarrow> ov_issuer config \<noteq> None | _ \<Rightarrow> True)
      then Inl ''JWT issuer mismatch''
      else if \<not> audienceMatches (jp_aud payload) (or_else (ov_audience config) '''') then Inl ''JWT audience mismatch''
      else if \<not> list_all (\<lambda>s. s \<in> extractScopes payload) (ov_requiredScopes config) then Inl ''JWT required scope is missing''
      else Inr ())"

section \<open>Key sets\<close>

text \<open>The key of the cache of key sets. The cache holds for each key the set that its URL and its three
  delays determine, so that a cached set is the one that would be made again: \<open>getJwks\<close> is the key.\<close>

definition getJwks :: "OAuthVerificationConfig \<Rightarrow> string" where
  "getJwks config = join ''|'' [or_else (ov_jwksUrl config) '''', show_int (or_else (ov_jwksTimeoutMs config) 5000),
     show_int (or_else (ov_jwksCooldownMs config) 30000), show_int (or_else (ov_jwksCacheMaxAgeMs config) 300000)]"

section \<open>Verification\<close>

definition verifyOAuthAuthorization :: "jwt_verify \<Rightarrow> string option \<Rightarrow> OAuthVerificationConfig \<Rightarrow> string + jwt_payload" where
  "verifyOAuthAuthorization jwt authorization config =
     (if \<not> truthy (ov_issuer config) \<or> \<not> truthy (ov_audience config) \<or> \<not> truthy (ov_jwksUrl config)
      then Inl ''OAuth issuer, audience, and JWKS URL are required''
      else case extractBearerToken authorization of
        None \<Rightarrow> Inl ''Missing bearer token''
      | Some token \<Rightarrow>
          let algorithms = or_else (ov_allowedAlgorithms config) DEFAULT_ALLOWED_ALGORITHMS in
          case jwt token (getJwks config) (or_else (ov_issuer config) '''') (or_else (ov_audience config) '''') algorithms of
            None \<Rightarrow> Inl ''JWT verification failed''
          | Some (payload, header) \<Rightarrow>
              if \<not> truthy (jh_kid header) then Inl ''JWT kid is required''
              else if \<not> truthy (jh_alg header) \<or> or_else (jh_alg header) '''' \<notin> set algorithms then Inl ''Unsupported JWT algorithm''
              else rbind (validateClaims payload config) (\<lambda>_. Inr payload))"

definition isOAuthAuthorizationValid :: "jwt_verify \<Rightarrow> string option \<Rightarrow> OAuthVerificationConfig \<Rightarrow> bool" where
  "isOAuthAuthorizationValid jwt authorization config = is_ok (verifyOAuthAuthorization jwt authorization config)"

section \<open>What an accepted token shows\<close>

lemma validateClaims_ok:
  assumes "ov_issuer config = Some i"
  shows "validateClaims payload config = Inr () \<longleftrightarrow>
    jp_iss payload = CString i \<and> audienceMatches (jp_aud payload) (or_else (ov_audience config) '''') \<and>
    set (ov_requiredScopes config) \<subseteq> extractScopes payload"
  using assms by (auto simp: validateClaims_def list_all_iff split: jclaim.splits)

lemma isOAuthAuthorizationValid_ok:
  "isOAuthAuthorizationValid jwt authorization config \<longleftrightarrow>
     (\<exists>i aud url token payload header alg.
        ov_issuer config = Some i \<and> i \<noteq> [] \<and> ov_audience config = Some aud \<and> aud \<noteq> [] \<and> ov_jwksUrl config = Some url \<and> url \<noteq> [] \<and>
        extractBearerToken authorization = Some token \<and>
        jwt token (getJwks config) i aud (or_else (ov_allowedAlgorithms config) DEFAULT_ALLOWED_ALGORITHMS) = Some (payload, header) \<and>
        truthy (jh_kid header) \<and> jh_alg header = Some alg \<and> alg \<noteq> [] \<and>
        alg \<in> set (or_else (ov_allowedAlgorithms config) DEFAULT_ALLOWED_ALGORITHMS) \<and>
        jp_iss payload = CString i \<and> audienceMatches (jp_aud payload) aud \<and> set (ov_requiredScopes config) \<subseteq> extractScopes payload)"
  (is "?L \<longleftrightarrow> ?R")
proof
  assume ?L
  then have "truthy (ov_issuer config)" "truthy (ov_audience config)" "truthy (ov_jwksUrl config)"
    by (auto simp: isOAuthAuthorizationValid_def verifyOAuthAuthorization_def is_ok_def split: if_splits)
  then obtain i aud url where c: "ov_issuer config = Some i" "i \<noteq> []" "ov_audience config = Some aud" "aud \<noteq> []"
      "ov_jwksUrl config = Some url" "url \<noteq> []"
    by (auto simp: truthy_def split: option.splits)
  define algs where "algs = or_else (ov_allowedAlgorithms config) DEFAULT_ALLOWED_ALGORITHMS"
  from \<open>?L\<close> obtain token payload header where t: "extractBearerToken authorization = Some token"
      "jwt token (getJwks config) i aud algs = Some (payload, header)" "truthy (jh_kid header)" "truthy (jh_alg header)"
      "or_else (jh_alg header) '''' \<in> set algs" "validateClaims payload config = Inr ()"
    using c by (auto simp: isOAuthAuthorizationValid_def verifyOAuthAuthorization_def is_ok_def Let_def rbind_def algs_def
        split: option.splits if_splits sum.splits)
  then obtain alg where "jh_alg header = Some alg" "alg \<noteq> []" by (auto simp: truthy_def split: option.splits)
  then show ?R using c t validateClaims_ok [OF c(1), of payload] unfolding algs_def by auto
next
  assume ?R
  then show ?L
    by (auto simp: isOAuthAuthorizationValid_def verifyOAuthAuthorization_def is_ok_def rbind_def truthy_def or_else_def
         validateClaims_def list_all_iff Let_def)
qed

end
