(* ===== verification/HttpServer.thy ===== *)
theory HttpServer
  imports OAuth
begin

text \<open>
  The HTTP server of the MCP endpoint: the checks of \<open>src/http-security.ts\<close>, bearer tokens
  (\<open>src/auth.ts\<close>), tool profiles (\<open>src/connector-profile.ts\<close>), and the requests, sessions and
  timers of \<open>src/server-http.ts\<close>. The digest, the URL class, the JWT verifier and the test for an
  initialize request (all of libraries) are parameters; what a transport does with a request that
  reaches it is not modelled.
\<close>

section \<open>Tool profiles\<close>

datatype ToolProfile = FullProfile | RemoteSafe | Chatgpt | Claude | RemoteReadonly | RemoteBroker

definition TOOL_PROFILES :: "ToolProfile list" where
  "TOOL_PROFILES = [FullProfile, RemoteSafe, Chatgpt, Claude, RemoteReadonly, RemoteBroker]"

fun toolProfile_name :: "ToolProfile \<Rightarrow> string" where
  "toolProfile_name FullProfile = ''full''"
| "toolProfile_name RemoteSafe = ''remote-safe''"
| "toolProfile_name Chatgpt = ''chatgpt''"
| "toolProfile_name Claude = ''claude''"
| "toolProfile_name RemoteReadonly = ''remote-readonly''"
| "toolProfile_name RemoteBroker = ''remote-broker''"

definition REMOTE_CONNECTOR_TOOLS :: "string list" where
  "REMOTE_CONNECTOR_TOOLS = [''connector_status'', ''ssh_hosts_list'', ''ssh_policy_explain'', ''ssh_host_inspect'', ''ssh_mutation_plan'']"

definition parseToolProfile :: "string option \<Rightarrow> ToolProfile \<Rightarrow> ToolProfile" where
  "parseToolProfile value fallback =
     (case value of None \<Rightarrow> fallback | Some v \<Rightarrow> or_else (find (\<lambda>p. toolProfile_name p = v) TOOL_PROFILES) fallback)"

definition isRemoteSafeToolProfile :: "ToolProfile \<Rightarrow> bool" where
  "isRemoteSafeToolProfile p = (p \<noteq> FullProfile)"

definition isToolAllowedForProfile :: "string \<Rightarrow> ToolProfile \<Rightarrow> bool" where
  "isToolAllowedForProfile name p = (p = FullProfile \<or> name \<in> set REMOTE_CONNECTOR_TOOLS)"

definition filterToolsForProfile :: "('t \<Rightarrow> string) \<Rightarrow> 't list \<Rightarrow> ToolProfile \<Rightarrow> 't list" where
  "filterToolsForProfile name tools p = (if p = FullProfile then tools else filter (\<lambda>t. name t \<in> set REMOTE_CONNECTOR_TOOLS) tools)"

definition REMOTE_CONNECTOR_RESOURCES :: "string list" where
  "REMOTE_CONNECTOR_RESOURCES = [''mcp-ssh-tool://capabilities/support-matrix'']"

definition REMOTE_CONNECTOR_PROMPTS :: "string list" where
  "REMOTE_CONNECTOR_PROMPTS = [''inspect-host-capabilities'', ''plan-mutation'']"

definition filterResourcesForProfile :: "('r \<Rightarrow> string) \<Rightarrow> 'r list \<Rightarrow> ToolProfile \<Rightarrow> 'r list" where
  "filterResourcesForProfile uri resources p =
     (if p = FullProfile then resources else filter (\<lambda>r. uri r \<in> set REMOTE_CONNECTOR_RESOURCES) resources)"

definition isResourceAllowedForProfile :: "string \<Rightarrow> ToolProfile \<Rightarrow> bool" where
  "isResourceAllowedForProfile uri p = (p = FullProfile \<or> uri \<in> set REMOTE_CONNECTOR_RESOURCES)"

definition filterPromptsForProfile :: "('r \<Rightarrow> string) \<Rightarrow> 'r list \<Rightarrow> ToolProfile \<Rightarrow> 'r list" where
  "filterPromptsForProfile name prompts p =
     (if p = FullProfile then prompts else filter (\<lambda>r. name r \<in> set REMOTE_CONNECTOR_PROMPTS) prompts)"

definition isPromptAllowedForProfile :: "string \<Rightarrow> ToolProfile \<Rightarrow> bool" where
  "isPromptAllowedForProfile name p = (p = FullProfile \<or> name \<in> set REMOTE_CONNECTOR_PROMPTS)"

lemma filtered_iff_allowed:
  "t \<in> set (filterToolsForProfile name ts p) \<longleftrightarrow> t \<in> set ts \<and> isToolAllowedForProfile (name t) p"
  "r \<in> set (filterResourcesForProfile uri rs p) \<longleftrightarrow> r \<in> set rs \<and> isResourceAllowedForProfile (uri r) p"
  "q \<in> set (filterPromptsForProfile name' qs p) \<longleftrightarrow> q \<in> set qs \<and> isPromptAllowedForProfile (name' q) p"
  by (auto simp: filterToolsForProfile_def isToolAllowedForProfile_def filterResourcesForProfile_def isResourceAllowedForProfile_def
      filterPromptsForProfile_def isPromptAllowedForProfile_def)

section \<open>Start of the server\<close>

definition strip_brackets :: "string \<Rightarrow> string" where
  "strip_brackets s = (let t = (if startsWith s ''['' then drop 1 s else s) in if endsWith t '']'' then butlast t else t)"

definition octet_text :: "string \<Rightarrow> bool" where
  "octet_text s = (1 \<le> length s \<and> length s \<le> 3 \<and> list_all is_digit s)"

definition isLoopbackHost :: "string \<Rightarrow> bool" where
  "isLoopbackHost host =
     (let n = strip_brackets (toLowerCase host) in
      n = ''localhost'' \<or> endsWith n ''.localhost'' \<or> n = ''::1'' \<or> n = ''0:0:0:0:0:0:0:1'' \<or>
      (case split_on (CHR ''.'') n of
         [a, b, c, d] \<Rightarrow> a = ''127'' \<and> octet_text b \<and> octet_text c \<and> octet_text d
       | _ \<Rightarrow> False))"

record http_config =
  hc_host :: string
  hc_port :: int
  hc_trustProxy :: bool
  hc_allowedOrigins :: "string list"
  hc_bearerTokenFile :: "string option"
  hc_publicUrl :: "string option"
  hc_maxSessions :: int
  hc_sessionIdleTtlMs :: int
  hc_maxRequestBodyBytes :: int
  hc_enableLegacySse :: bool

record startup_context =
  sc_toolProfile :: ToolProfile
  sc_allowedHosts :: "string list"
  sc_strictHostKeys :: bool
  sc_oauthMode :: bool
  sc_oauthConfigured :: bool

definition invalid_public_url :: "string \<Rightarrow> string" where
  "invalid_public_url why = ''Refusing non-loopback HTTP MCP binding with invalid SSH_MCP_HTTP_PUBLIC_URL: '' @ why"

text \<open>\<open>url\<close> gives the protocol and the host name of a URL, or \<open>None\<close> when the constructor throws.\<close>

definition validateHttpStartupConfig ::
  "(string \<Rightarrow> (string \<times> string) option) \<Rightarrow> http_config \<Rightarrow> string option \<Rightarrow> startup_context \<Rightarrow> string + unit" where
  "validateHttpStartupConfig url cfg bearerToken ctx =
     (if truthy (hc_bearerTokenFile cfg) \<and> bearerToken = Some [] then
        Inl ''Refusing HTTP MCP startup with an empty bearer token file''
      else if isLoopbackHost (hc_host cfg) then Inr ()
      else if (\<not> truthy bearerToken \<and> \<not> (sc_oauthMode ctx \<and> sc_oauthConfigured ctx)) \<or> hc_allowedOrigins cfg = [] then
        Inl ''Refusing non-loopback HTTP MCP binding without SSH_MCP_HTTP_BEARER_TOKEN_FILE or OAuth config, and SSH_MCP_HTTP_ALLOWED_ORIGINS''
      else if \<not> truthy (hc_publicUrl cfg) then
        Inl ''Refusing non-loopback HTTP MCP binding without SSH_MCP_HTTP_PUBLIC_URL for stable protected resource metadata''
      else case url (or_else (hc_publicUrl cfg) '''') of
        None \<Rightarrow> Inl (invalid_public_url ''Invalid URL'')
      | Some (protocol, hostname) \<Rightarrow>
          if protocol \<noteq> ''https:'' then Inl (invalid_public_url ''public URL must use HTTPS'')
          else if isLoopbackHost hostname then Inl (invalid_public_url ''public URL must not use a loopback host'')
          else if \<not> isRemoteSafeToolProfile (sc_toolProfile ctx) then
            Inl ''Refusing non-loopback HTTP MCP binding with full tool profile. Set SSH_MCP_TOOL_PROFILE=remote-safe, chatgpt, claude, remote-readonly, or remote-broker.''
          else if sc_allowedHosts ctx = [] then
            Inl ''Refusing non-loopback HTTP MCP binding without SSH_MCP_ALLOWED_HOSTS for remote connector profile''
          else if \<not> sc_strictHostKeys ctx then
            Inl ''Refusing non-loopback HTTP MCP binding without strict SSH host-key verification''
          else Inr ())"

section \<open>Origins and tokens\<close>

definition isOriginAllowed :: "string option \<Rightarrow> string list \<Rightarrow> bool" where
  "isOriginAllowed origin allowedOrigins =
     (\<not> truthy origin \<or> allowedOrigins = [] \<or> or_else origin '''' \<in> set allowedOrigins)"

definition corsHeaders :: "string option \<Rightarrow> string list \<Rightarrow> (string \<times> string) list" where
  "corsHeaders origin allowedOrigins =
     (if \<not> truthy origin \<or> \<not> isOriginAllowed origin allowedOrigins then []
      else [(''Access-Control-Allow-Origin'', or_else origin ''''),
            (''Access-Control-Allow-Headers'', ''authorization, content-type, mcp-session-id''),
            (''Access-Control-Allow-Methods'', ''GET, POST, DELETE, OPTIONS''),
            (''Access-Control-Expose-Headers'', ''mcp-session-id, WWW-Authenticate''),
            (''Vary'', ''Origin'')])"

definition quoted :: "string \<Rightarrow> string" where
  "quoted s = [CHR 0x22] @ s @ [CHR 0x22]"

definition oauthWwwAuthenticateHeader :: "string \<Rightarrow> string list \<Rightarrow> bool \<Rightarrow> string" where
  "oauthWwwAuthenticateHeader resourceMetadataUrl scopes includeErrorDetails =
     ''Bearer '' @ join '', '' ([''resource_metadata='' @ quoted resourceMetadataUrl] @
       (if scopes \<noteq> [] then [''scope='' @ quoted (join '' '' scopes)] else []) @
       (if includeErrorDetails then [''error='' @ quoted ''invalid_token'',
          ''error_description='' @ quoted ''A valid OAuth access token is required''] else []))"

definition constantTimeTokenEquals :: "(string \<Rightarrow> string) \<Rightarrow> string \<Rightarrow> string \<Rightarrow> bool" where
  "constantTimeTokenEquals sha256 provided expected = (if expected = [] then False else sha256 provided = sha256 expected)"

definition isBearerAuthorizationValid :: "(string \<Rightarrow> string) \<Rightarrow> string option \<Rightarrow> string \<Rightarrow> bool" where
  "isBearerAuthorizationValid sha256 authorization expectedToken =
     (case extractBearerToken authorization of
        None \<Rightarrow> False
      | Some providedToken \<Rightarrow> constantTimeTokenEquals sha256 providedToken expectedToken)"

section \<open>The public URL\<close>

text \<open>\<open>url_pathname\<close> is the path of a URL (\<open>None\<close> when the constructor throws), \<open>url_with_pathname\<close> its
  text with another path, \<open>url_origin_with_pathname\<close> the same without user, query and fragment.\<close>

record url_lib =
  url_pathname :: "string \<Rightarrow> string option"
  url_with_pathname :: "string \<Rightarrow> string \<Rightarrow> string"
  url_origin_with_pathname :: "string \<Rightarrow> string \<Rightarrow> string"

record auth_config =
  au_oauth :: bool
  au_issuer :: "string option"
  au_audience :: "string option"
  au_resource :: "string option"
  au_jwksUrl :: "string option"
  au_requiredScopes :: "string list"

record http_request =
  hr_path :: string
  hr_method :: string
  hr_host :: "string option"
  hr_origin :: "string option"
  hr_forwardedProto :: "string option"
  hr_authorization :: "string option"
  hr_session :: "string option"
  hr_query_session :: "string option"
  hr_chunks :: "string list"

definition strip_slash :: "string \<Rightarrow> string" where
  "strip_slash s = (if endsWith s ''/'' then butlast s else s)"

text \<open>\<open>None\<close> when the URL constructor throws.\<close>

definition configuredPublicMcpUrl :: "url_lib \<Rightarrow> http_config \<Rightarrow> string option option" where
  "configuredPublicMcpUrl ul cfg =
     (if \<not> truthy (hc_publicUrl cfg) then Some None
      else let u = or_else (hc_publicUrl cfg) '''' in
        case url_pathname ul u of
          None \<Rightarrow> None
        | Some p \<Rightarrow> Some (Some (url_with_pathname ul u
            (if p = '''' \<or> p = ''/'' then ''/mcp'' else if \<not> endsWith p ''/mcp'' then strip_slash p @ ''/mcp'' else p))))"

definition buildPublicMcpUrl :: "url_lib \<Rightarrow> http_config \<Rightarrow> http_request \<Rightarrow> string option" where
  "buildPublicMcpUrl ul cfg req =
     (case configuredPublicMcpUrl ul cfg of
        None \<Rightarrow> None
      | Some configured \<Rightarrow>
          if truthy configured then configured
          else let raw = hr_forwardedProto req;
                   protocol = (if hc_trustProxy cfg \<and> (raw = Some ''http'' \<or> raw = Some ''https'') then or_else raw ''''
                               else if isLoopbackHost (hc_host cfg) then ''http'' else ''https'')
               in Some (protocol @ ''://'' @ or_else (hr_host req) (''localhost:'' @ show_int (hc_port cfg)) @ ''/mcp''))"

definition oauthProtectedResourceMetadataUrl :: "url_lib \<Rightarrow> string \<Rightarrow> string option" where
  "oauthProtectedResourceMetadataUrl ul u =
     (if url_pathname ul u = None then None
      else Some (url_origin_with_pathname ul u ''/.well-known/oauth-protected-resource''))"

section \<open>Sessions\<close>

record http_session =
  hs_streamable :: bool
  hs_lastSeenAt :: int

record http_server =
  hsessions :: "(string, http_session) jmap"
  transports_closed :: "string list"

definition isHttpSessionExpired :: "http_config \<Rightarrow> int \<Rightarrow> http_session \<Rightarrow> bool" where
  "isHttpSessionExpired cfg now s = (hc_sessionIdleTtlMs cfg < now - hs_lastSeenAt s)"

definition removeHttpSession :: "string \<Rightarrow> http_server \<Rightarrow> http_server" where
  "removeHttpSession sid st = st\<lparr>hsessions := jm_delete sid (hsessions st)\<rparr>"

definition closeHttpSession :: "string \<Rightarrow> http_server \<Rightarrow> http_server" where
  "closeHttpSession sid st =
     (if jm_has (hsessions st) sid then (removeHttpSession sid st)\<lparr>transports_closed := transports_closed st @ [sid]\<rparr> else st)"

definition cleanupExpiredHttpSessions :: "http_config \<Rightarrow> int \<Rightarrow> http_server \<Rightarrow> http_server" where
  "cleanupExpiredHttpSessions cfg now st =
     fold closeHttpSession (map fst (filter (\<lambda>(sid, s). isHttpSessionExpired cfg now s) (hsessions st))) st"

definition getHttpSession :: "http_config \<Rightarrow> int \<Rightarrow> string option \<Rightarrow> http_server \<Rightarrow> http_server \<times> (string \<times> http_session) option" where
  "getHttpSession cfg now sid st =
     (if \<not> truthy sid then (st, None)
      else let i = or_else sid '''' in
        case jm_get (hsessions st) i of
          None \<Rightarrow> (st, None)
        | Some s \<Rightarrow>
            if isHttpSessionExpired cfg now s then (closeHttpSession i st, None)
            else let s' = s\<lparr>hs_lastSeenAt := now\<rparr> in (st\<lparr>hsessions := jm_set i s' (hsessions st)\<rparr>, Some (i, s')))"

definition canOpenHttpSession :: "http_config \<Rightarrow> int \<Rightarrow> http_server \<Rightarrow> http_server \<times> bool" where
  "canOpenHttpSession cfg now st =
     (let st' = cleanupExpiredHttpSessions cfg now st in (st', int (length (hsessions st')) < hc_maxSessions cfg))"

section \<open>Requests\<close>

record http_env =
  he_sha256 :: "string \<Rightarrow> string"
  he_url :: url_lib
  he_jwt :: jwt_verify
  he_initialize :: "string \<Rightarrow> bool option"

text \<open>The answers: a JSON answer with its status, the OAuth challenge (401 with its header), the answers of
  the public endpoints, or a transport: that of a session, or a new one.\<close>

datatype http_reply = JsonReply nat string | OAuthChallenge string | Metadata string "string list" "string list" | Health
  | Preflight "(string \<times> string) list" | ToTransport string | NewStreamable | NewSse string

text \<open>The answer to an error that is no \<open>RequestBodyTooLargeError\<close> and has no status of its own.\<close>

definition internal_error :: http_reply where
  "internal_error = JsonReply 500 ''Internal server error''"

definition protectedResourceMetadata :: "http_env \<Rightarrow> http_config \<Rightarrow> auth_config \<Rightarrow> http_request \<Rightarrow> http_reply" where
  "protectedResourceMetadata env cfg auth req =
     (case (case au_resource auth of Some r \<Rightarrow> Some r | None \<Rightarrow> buildPublicMcpUrl (he_url env) cfg req) of
        None \<Rightarrow> internal_error
      | Some resource \<Rightarrow> Metadata resource (au_requiredScopes auth)
          (if truthy (au_issuer auth) then [or_else (au_issuer auth) ''''] else []))"

definition oauthChallengeHeader :: "http_env \<Rightarrow> http_config \<Rightarrow> auth_config \<Rightarrow> http_request \<Rightarrow> string option" where
  "oauthChallengeHeader env cfg auth req =
     (case buildPublicMcpUrl (he_url env) cfg req of
        None \<Rightarrow> None
      | Some u \<Rightarrow> map_option (\<lambda>m. oauthWwwAuthenticateHeader m (au_requiredScopes auth) (hr_authorization req \<noteq> None))
          (oauthProtectedResourceMetadataUrl (he_url env) u))"

definition verification_config :: "auth_config \<Rightarrow> string \<Rightarrow> OAuthVerificationConfig" where
  "verification_config auth audience =
     \<lparr>ov_issuer = (if truthy (au_issuer auth) then au_issuer auth else None), ov_audience = Some audience,
      ov_jwksUrl = (if truthy (au_jwksUrl auth) then au_jwksUrl auth else None), ov_requiredScopes = au_requiredScopes auth,
      ov_allowedAlgorithms = None, ov_jwksTimeoutMs = None, ov_jwksCooldownMs = None, ov_jwksCacheMaxAgeMs = None\<rparr>"

definition rejectIfUnauthorized :: "http_env \<Rightarrow> http_config \<Rightarrow> auth_config \<Rightarrow> string option \<Rightarrow> http_request \<Rightarrow> http_reply option" where
  "rejectIfUnauthorized env cfg auth bearerToken req =
     (if \<not> isOriginAllowed (hr_origin req) (hc_allowedOrigins cfg) then Some (JsonReply 403 ''Origin is not allowed'')
      else if au_oauth auth then
        (case (case au_audience auth of Some a \<Rightarrow> Some a | None \<Rightarrow>
                (case au_resource auth of Some r \<Rightarrow> Some r | None \<Rightarrow> buildPublicMcpUrl (he_url env) cfg req)) of
           None \<Rightarrow> Some internal_error
         | Some audience \<Rightarrow>
             if isOAuthAuthorizationValid (he_jwt env) (hr_authorization req) (verification_config auth audience) then None
             else Some (case oauthChallengeHeader env cfg auth req of None \<Rightarrow> internal_error | Some h \<Rightarrow> OAuthChallenge h))
      else if \<not> truthy bearerToken then None
      else if isBearerAuthorizationValid (he_sha256 env) (hr_authorization req) (or_else bearerToken '''') then None
      else Some (JsonReply 401 ''Missing or invalid bearer token''))"

fun read_body :: "int \<Rightarrow> int \<Rightarrow> string list \<Rightarrow> string option" where
  "read_body limit received [] = Some []"
| "read_body limit received (c # cs) =
     (if limit < received + int (length c) then None
      else map_option (\<lambda>r. c @ r) (read_body limit (received + int (length c)) cs))"

text \<open>\<open>readJsonBody\<close>, and whether the body is an initialize request: the reply of a thrown error, or the
  verdict.\<close>

definition readJsonBody :: "http_env \<Rightarrow> http_config \<Rightarrow> http_request \<Rightarrow> http_reply + bool" where
  "readJsonBody env cfg req =
     (case read_body (hc_maxRequestBodyBytes cfg) 0 (hr_chunks req) of
        None \<Rightarrow> Inl (JsonReply 413 ''Request body is too large'')
      | Some [] \<Rightarrow> Inr False
      | Some raw \<Rightarrow> (case he_initialize env raw of None \<Rightarrow> Inl (JsonReply 500 ''Internal server error'') | Some b \<Rightarrow> Inr b))"

definition handleStreamableRequest ::
  "http_config \<Rightarrow> int \<Rightarrow> http_request \<Rightarrow> bool \<Rightarrow> http_server \<Rightarrow> http_server \<times> http_reply" where
  "handleStreamableRequest cfg now req initialize st =
     (case getHttpSession cfg now (hr_session req) (cleanupExpiredHttpSessions cfg now st) of
        (st', Some (sid, s)) \<Rightarrow>
          (st', if hs_streamable s then ToTransport sid else JsonReply 400 ''Session exists but uses a different transport protocol'')
      | (st', None) \<Rightarrow>
          if hr_method req = ''POST'' \<and> initialize then
            (let (st'', ok) = canOpenHttpSession cfg now st' in
             (st'', if ok then NewStreamable else JsonReply 503 ''HTTP MCP session limit reached''))
          else (st', JsonReply 400 ''Bad Request: initialize with POST /mcp or provide a valid MCP-Session-Id''))"

text \<open>The callback \<open>onsessioninitialized\<close> of a new transport.\<close>

definition session_initialized :: "int \<Rightarrow> string \<Rightarrow> http_server \<Rightarrow> http_server" where
  "session_initialized now sid st = st\<lparr>hsessions := jm_set sid \<lparr>hs_streamable = True, hs_lastSeenAt = now\<rparr> (hsessions st)\<rparr>"

definition handleLegacySseConnection :: "http_config \<Rightarrow> int \<Rightarrow> string \<Rightarrow> http_server \<Rightarrow> http_server \<times> http_reply" where
  "handleLegacySseConnection cfg now newId st =
     (let (st', ok) = canOpenHttpSession cfg now st in
      if ok then (st'\<lparr>hsessions := jm_set newId \<lparr>hs_streamable = False, hs_lastSeenAt = now\<rparr> (hsessions st')\<rparr>, NewSse newId)
      else (st', JsonReply 503 ''HTTP MCP session limit reached''))"

definition handleLegacyMessage :: "http_config \<Rightarrow> int \<Rightarrow> http_request \<Rightarrow> http_server \<Rightarrow> http_server \<times> http_reply" where
  "handleLegacyMessage cfg now req st =
     (if \<not> truthy (hr_query_session req) then (st, JsonReply 400 ''Missing sessionId query parameter'')
      else case getHttpSession cfg now (hr_query_session req) st of
        (st', Some (sid, s)) \<Rightarrow> (st', if hs_streamable s then JsonReply 404 ''Legacy SSE session not found'' else ToTransport sid)
      | (st', None) \<Rightarrow> (st', JsonReply 404 ''Legacy SSE session not found''))"

text \<open>A request of \<open>createServer\<close> that the control plane, if there is one, has not handled.\<close>

definition handle_request ::
  "http_env \<Rightarrow> http_config \<Rightarrow> auth_config \<Rightarrow> string option \<Rightarrow> string \<Rightarrow> int \<Rightarrow> http_request \<Rightarrow> http_server \<Rightarrow> http_server \<times> http_reply" where
  "handle_request env cfg auth bearerToken newId now req st =
     (if hr_path req = ''/.well-known/oauth-protected-resource'' \<and> hr_method req = ''GET'' then (st, protectedResourceMetadata env cfg auth req)
      else if hr_path req = ''/healthz'' \<and> hr_method req = ''GET'' then (st, Health)
      else if hr_path req = ''/mcp'' \<and> hr_method req = ''OPTIONS'' then
        (st, if \<not> isOriginAllowed (hr_origin req) (hc_allowedOrigins cfg) then JsonReply 403 ''Origin is not allowed''
             else Preflight (corsHeaders (hr_origin req) (hc_allowedOrigins cfg)))
      else case rejectIfUnauthorized env cfg auth bearerToken req of
        Some r \<Rightarrow> (st, r)
      | None \<Rightarrow>
          if hr_path req = ''/mcp'' then
            (if hr_method req \<notin> {''GET'', ''POST'', ''DELETE''} then (st, JsonReply 405 ''Method not allowed'')
             else case (if hr_method req = ''POST'' then readJsonBody env cfg req else Inr False) of
               Inl r \<Rightarrow> (st, r)
             | Inr initialize \<Rightarrow> handleStreamableRequest cfg now req initialize st)
          else if hc_enableLegacySse cfg \<and> hr_path req = ''/sse'' then
            (if hr_method req \<noteq> ''GET'' then (st, JsonReply 405 ''Method not allowed'')
             else handleLegacySseConnection cfg now newId st)
          else if hc_enableLegacySse cfg \<and> hr_path req = ''/messages'' then
            (if hr_method req \<noteq> ''POST'' then (st, JsonReply 405 ''Method not allowed'')
             else handleLegacyMessage cfg now req st)
          else (st, JsonReply 404 ''Not found''))"

section \<open>The whole server\<close>

text \<open>The check before the server is made, which the remote mode leaves out; \<open>start\<close> is its verdict.\<close>

definition start_check ::
  "(string \<Rightarrow> (string \<times> string) option) \<Rightarrow> bool \<Rightarrow> http_config \<Rightarrow> auth_config \<Rightarrow> string option \<Rightarrow> ToolProfile \<Rightarrow> string list \<Rightarrow> bool \<Rightarrow> string + unit" where
  "start_check url remoteEnabled cfg auth bearerToken profile allowedHosts strict =
     (if remoteEnabled then Inr ()
      else validateHttpStartupConfig url cfg bearerToken
        \<lparr>sc_toolProfile = profile, sc_allowedHosts = allowedHosts, sc_strictHostKeys = strict,
         sc_oauthMode = au_oauth auth, sc_oauthConfigured = (truthy (au_issuer auth) \<and> truthy (au_jwksUrl auth))\<rparr>)"

definition cleanup_interval :: "http_config \<Rightarrow> int" where
  "cleanup_interval cfg = max 1000 (min (hc_sessionIdleTtlMs cfg) 60000)"

definition shutdown_sessions :: "http_server \<Rightarrow> http_server" where
  "shutdown_sessions st = st\<lparr>hsessions := [], transports_closed := transports_closed st @ map fst (hsessions st)\<rparr>"

text \<open>The events of the server. The transport of a new session initializes it while it handles the
  request that made it, before the next request is looked at.\<close>

datatype http_event = HttpRequest int string http_request | TransportClosed string | CleanupTimer int | Shutdown

fun http_serve :: "http_env \<Rightarrow> http_config \<Rightarrow> auth_config \<Rightarrow> string option \<Rightarrow> http_event \<Rightarrow> http_server \<Rightarrow> http_server" where
  "http_serve env cfg auth tok (HttpRequest now newId req) st =
     (case handle_request env cfg auth tok newId now req st of
        (st', NewStreamable) \<Rightarrow> session_initialized now newId st'
      | (st', _) \<Rightarrow> st')"
| "http_serve env cfg auth tok (TransportClosed sid) st = removeHttpSession sid st"
| "http_serve env cfg auth tok (CleanupTimer now) st = cleanupExpiredHttpSessions cfg now st"
| "http_serve env cfg auth tok Shutdown st = shutdown_sessions st"

section \<open>Lemmas on sessions\<close>

lemma jm_delete_absent: "\<not> jm_has m k \<Longrightarrow> jm_delete k m = m"
  by (auto simp: jm_has_def jm_delete_def jm_get_None_iff filter_id_conv image_iff split: option.splits)

lemma hsessions_close [simp]: "hsessions (closeHttpSession sid st) = jm_delete sid (hsessions st)"
  by (simp add: closeHttpSession_def removeHttpSession_def jm_delete_absent)

lemma hsessions_close_all: "hsessions (fold closeHttpSession ks st) = fold jm_delete ks (hsessions st)"
  by (induction ks arbitrary: st) simp_all

lemma fold_jm_delete_length: "length (fold jm_delete ks m) \<le> length m"
  by (induction ks arbitrary: m) (auto intro: order_trans [OF _ jm_delete_length_le])

definition expired_keys :: "http_config \<Rightarrow> int \<Rightarrow> http_server \<Rightarrow> string list" where
  "expired_keys cfg now st = map fst (filter (\<lambda>(sid, s). isHttpSessionExpired cfg now s) (hsessions st))"

lemma cleanup_sessions: "hsessions (cleanupExpiredHttpSessions cfg now st) = fold jm_delete (expired_keys cfg now st) (hsessions st)"
  by (simp add: cleanupExpiredHttpSessions_def hsessions_close_all expired_keys_def)

lemma cleanup_length: "length (hsessions (cleanupExpiredHttpSessions cfg now st)) \<le> length (hsessions st)"
  by (simp add: cleanup_sessions fold_jm_delete_length)

lemma expired_keys_iff:
  assumes "jm_wf (hsessions st)"
  shows "k \<in> set (expired_keys cfg now st) \<longleftrightarrow> (\<exists>s. jm_get (hsessions st) k = Some s \<and> isHttpSessionExpired cfg now s)"
  using assms by (force simp: expired_keys_def dest: jm_get_SomeI jm_get_SomeD)

lemma cleanup_get:
  assumes "jm_wf (hsessions st)"
  shows "jm_get (hsessions (cleanupExpiredHttpSessions cfg now st)) k =
    (case jm_get (hsessions st) k of
       Some s \<Rightarrow> if isHttpSessionExpired cfg now s then None else Some s
     | None \<Rightarrow> None)"
  using expired_keys_iff [OF assms, of k cfg now]
  by (auto simp: cleanup_sessions jm.get_fold_del split: option.splits)

lemma cleanup_wf: "jm_wf (hsessions st) \<Longrightarrow> jm_wf (hsessions (cleanupExpiredHttpSessions cfg now st))"
  by (simp add: cleanup_sessions jm.wf_fold_del)

lemma jm_set_present_length: "jm_get m k = Some w \<Longrightarrow> length (jm_set k v m) = length m"
  by (induction k v m rule: jm_set.induct) (auto split: if_splits)

definition http_inv :: "http_config \<Rightarrow> http_server \<Rightarrow> bool" where
  "http_inv cfg st = (jm_wf (hsessions st) \<and> int (length (hsessions st)) \<le> max 0 (hc_maxSessions cfg))"

lemma http_inv_delete: "http_inv cfg st \<Longrightarrow> hsessions st' = jm_delete k (hsessions st) \<Longrightarrow> http_inv cfg st'"
  using jm_delete_length_le [of k "hsessions st"] by (auto simp: http_inv_def)

lemma http_inv_cleanup: "http_inv cfg st \<Longrightarrow> http_inv cfg (cleanupExpiredHttpSessions cfg now st)"
  using cleanup_length [of cfg now st] by (auto simp: http_inv_def cleanup_wf)

lemma http_inv_get: "http_inv cfg st \<Longrightarrow> getHttpSession cfg now sid st = (st', r) \<Longrightarrow> http_inv cfg st'"
  by (auto simp: getHttpSession_def Let_def http_inv_def jm_set_present_length split: if_splits option.splits
      intro: order_trans [OF of_nat_mono [OF jm_delete_length_le]])

lemma http_inv_open:
  "http_inv cfg st \<Longrightarrow> canOpenHttpSession cfg now st = (st', True) \<Longrightarrow>
     hsessions st'' = jm_set k v (hsessions st') \<Longrightarrow> http_inv cfg st''"
  using http_inv_cleanup [of cfg st now] jm_set_length_le [of k v "hsessions st'"]
  by (auto simp: http_inv_def canOpenHttpSession_def Let_def)

lemma http_inv_full: "http_inv cfg st \<Longrightarrow> canOpenHttpSession cfg now st = (st', ok) \<Longrightarrow> http_inv cfg st'"
  using http_inv_cleanup [of cfg st now] by (auto simp: canOpenHttpSession_def Let_def)

text \<open>The state after a request, its new session included.\<close>

definition settle :: "int \<Rightarrow> string \<Rightarrow> http_server \<times> http_reply \<Rightarrow> http_server" where
  "settle now newId p = (if snd p = NewStreamable then session_initialized now newId (fst p) else fst p)"

lemma settle_simps [simp]:
  "settle now newId (st, JsonReply n m) = st"
  "settle now newId (st, ToTransport i) = st"
  "settle now newId (st, NewSse i) = st"
  "settle now newId (st, NewStreamable) = session_initialized now newId st"
  "settle now newId (st, Health) = st"
  "settle now newId (st, Preflight hs) = st"
  "settle now newId (st, OAuthChallenge h) = st"
  "settle now newId (st, Metadata a b c) = st"
  by (simp_all add: settle_def)

lemma http_inv_streamable:
  assumes "http_inv cfg st"
  shows "http_inv cfg (settle now newId (handleStreamableRequest cfg now req ini st))"
proof -
  let ?c = "cleanupExpiredHttpSessions cfg now st"
  obtain st1 s where g: "getHttpSession cfg now (hr_session req) ?c = (st1, s)" by fastforce
  have i: "http_inv cfg st1" using http_inv_get [OF http_inv_cleanup [OF assms(1)] g] .
  obtain st2 ok where o: "canOpenHttpSession cfg now st1 = (st2, ok)" by fastforce
  have "http_inv cfg st2" using http_inv_full [OF i o] .
  moreover have "ok \<Longrightarrow> http_inv cfg (session_initialized now newId st2)"
    using http_inv_open [OF i] o by (simp add: session_initialized_def)
  ultimately show ?thesis
    using g o i by (auto simp: handleStreamableRequest_def split: option.splits)
qed

lemma http_inv_sse:
  assumes "http_inv cfg st"
  shows "http_inv cfg (settle now newId (handleLegacySseConnection cfg now sid st))"
proof -
  obtain st2 ok where o: "canOpenHttpSession cfg now st = (st2, ok)" by fastforce
  have "ok \<Longrightarrow> http_inv cfg (st2\<lparr>hsessions := jm_set sid s (hsessions st2)\<rparr>)" for s
    using http_inv_open [OF assms] o by simp
  then show ?thesis using o http_inv_full [OF assms o] by (simp add: handleLegacySseConnection_def)
qed

lemma http_inv_message:
  assumes "http_inv cfg st"
  shows "http_inv cfg (settle now newId (handleLegacyMessage cfg now req st))"
proof -
  obtain st1 s where g: "getHttpSession cfg now (hr_query_session req) st = (st1, s)" by fastforce
  show ?thesis using assms http_inv_get [OF assms g] g by (auto simp: handleLegacyMessage_def split: option.splits)
qed

lemma settle_metadata [simp]: "settle now newId (st, protectedResourceMetadata env cfg auth req) = st"
  by (auto simp: protectedResourceMetadata_def internal_error_def split: option.splits)

lemma settle_rejected: "rejectIfUnauthorized env cfg auth tok req = Some r \<Longrightarrow> settle now newId (st, r) = st"
  by (auto simp: rejectIfUnauthorized_def internal_error_def split: if_splits option.splits)

lemma settle_body: "readJsonBody env cfg req = Inl r \<Longrightarrow> settle now newId (st, r) = st"
  by (auto simp: readJsonBody_def split: option.splits list.splits)

lemma http_inv_request:
  assumes "http_inv cfg st"
  shows "http_inv cfg (settle now newId (handle_request env cfg auth tok sid now req st))"
  unfolding handle_request_def
  using assms http_inv_streamable [OF assms] http_inv_sse [OF assms] http_inv_message [OF assms]
  by (simp add: settle_rejected settle_body split: option.splits sum.splits)

lemma http_serve_request: "http_serve env cfg auth tok (HttpRequest now newId req) st = settle now newId (handle_request env cfg auth tok newId now req st)"
  by (cases "handle_request env cfg auth tok newId now req st") (auto split: http_reply.splits)

lemma http_inv_shutdown: "http_inv cfg (shutdown_sessions st)"
  by (simp add: http_inv_def shutdown_sessions_def)

lemma http_inv_serve: "http_inv cfg st \<Longrightarrow> http_inv cfg (http_serve env cfg auth tok e st)"
proof (cases e)
  case (TransportClosed sid)
  assume "http_inv cfg st"
  then show ?thesis using TransportClosed by (auto intro: http_inv_delete simp: removeHttpSession_def)
qed (simp_all add: http_inv_request http_serve_request http_inv_cleanup http_inv_shutdown del: http_serve.simps(1))

inductive http_step :: "http_env \<Rightarrow> http_config \<Rightarrow> auth_config \<Rightarrow> string option \<Rightarrow> http_server \<Rightarrow> http_event \<Rightarrow> http_server \<Rightarrow> bool"
  for env cfg auth tok where
  http_step: "http_step env cfg auth tok st e (http_serve env cfg auth tok e st)"

definition new_server :: http_server where
  "new_server = \<lparr>hsessions = [], transports_closed = []\<rparr>"

inductive_simps http_step_iff: "http_step env cfg auth tok st e st'"

interpretation http_system: invariant_system "\<lambda>s. s = new_server" "http_step env cfg auth tok" "http_inv cfg"
  for env cfg auth tok
  by unfold_locales (simp add: http_inv_def new_server_def, simp add: http_step_iff http_inv_serve)

lemma http_run_fold: "run (http_step env cfg auth tok) s es (fold (http_serve env cfg auth tok) es s)"
  by (induction es arbitrary: s) (auto intro: run_nil run_cons simp: http_step_iff)

section \<open>Properties\<close>

text \<open>The witnesses: a server on a public address behind a bearer token or an OAuth issuer.\<close>

definition demo_http :: http_config where
  "demo_http = \<lparr>hc_host = ''0.0.0.0'', hc_port = 3000, hc_trustProxy = False, hc_allowedOrigins = [''https://c''],
     hc_bearerTokenFile = Some ''/run/token'', hc_publicUrl = Some ''https://mcp.example'', hc_maxSessions = 1,
     hc_sessionIdleTtlMs = 900, hc_maxRequestBodyBytes = 64, hc_enableLegacySse = True\<rparr>"

definition demo_auth :: auth_config where
  "demo_auth = \<lparr>au_oauth = False, au_issuer = None, au_audience = None, au_resource = None, au_jwksUrl = None, au_requiredScopes = []\<rparr>"

definition demo_env :: http_env where
  "demo_env = \<lparr>he_sha256 = id, he_url = \<lparr>url_pathname = (\<lambda>_. Some ''/''), url_with_pathname = (@), url_origin_with_pathname = (@)\<rparr>,
     he_jwt = (\<lambda>token key issuer audience algorithms. if token = ''jwt'' then
       Some (\<lparr>jp_iss = CString ''iss'', jp_aud = CString ''mcp'', jp_scope = CString ''read'', jp_scp = CAbsent\<rparr>,
         \<lparr>jh_kid = Some ''k'', jh_alg = Some ''RS256''\<rparr>) else None),
     he_initialize = (\<lambda>raw. Some True)\<rparr>"

definition demo_request :: http_request where
  "demo_request = \<lparr>hr_path = ''/mcp'', hr_method = ''POST'', hr_host = None, hr_origin = Some ''https://c'', hr_forwardedProto = None,
     hr_authorization = Some ''Bearer t'', hr_session = None, hr_query_session = None, hr_chunks = [''x'']\<rparr>"

text \<open>Whatever requests, closing transports and timers the server sees, it never holds more sessions
  than \<open>maxSessions\<close>, nor two of one identifier (provided a new transport initializes its session before
  the next request is handled).\<close>
theorem http_sessions_bounded:
  assumes "0 \<le> hc_maxSessions cfg"
  shows "int (length (hsessions (fold (http_serve env cfg auth tok) es new_server))) \<le> hc_maxSessions cfg \<and>
    jm_wf (hsessions (fold (http_serve env cfg auth tok) es new_server))"
  using http_system.inv_reachable [OF refl http_run_fold [of env cfg auth tok new_server es]] assms by (simp add: http_inv_def)

theorem http_sessions_bounded_witness:
  "int (length (hsessions (fold (http_serve demo_env demo_http demo_auth (Some ''t''))
     [HttpRequest 0 ''a'' demo_request, HttpRequest 5 ''b'' demo_request] new_server))) \<le> 1"
  using http_sessions_bounded [of demo_http demo_env demo_auth "Some ''t''" "[HttpRequest 0 ''a'' demo_request, HttpRequest 5 ''b'' demo_request]"]
  by (simp add: demo_http_def)

text \<open>The limit is checked before the transport initializes the session, and awaits lie between: two
  initialize requests that are both admitted before either session is registered leave two sessions
  where one is allowed.\<close>
theorem http_session_limit_race:
  "let (st1, r1) = handle_request demo_env demo_http demo_auth (Some ''t'') ''a'' 0 demo_request new_server;
       (st2, r2) = handle_request demo_env demo_http demo_auth (Some ''t'') ''b'' 0 demo_request st1
   in hc_maxSessions demo_http = 1 \<and> r1 = NewStreamable \<and> r2 = NewStreamable \<and>
      length (hsessions (session_initialized 1 ''b'' (session_initialized 1 ''a'' st2))) = 2"
  by code_simp

subsection \<open>Who is served\<close>

lemma split_on_pair: "split_on c s = [a, b] \<Longrightarrow> s = a @ c # b"
  using join_split_on [of c s] by simp

lemma extractBearerToken_Some: "extractBearerToken a = Some t \<Longrightarrow> a = Some (''Bearer '' @ t) \<and> t \<noteq> []"
  by (auto simp: extractBearerToken_def dest!: split_on_pair split: option.splits list.splits if_splits)

lemma isBearerAuthorizationValid_ok:
  assumes "isBearerAuthorizationValid sha a tok" and "\<And>t. sha t = sha tok \<Longrightarrow> t = tok"
  shows "a = Some (''Bearer '' @ tok)"
  using assms extractBearerToken_Some [of a]
  by (auto simp: isBearerAuthorizationValid_def constantTimeTokenEquals_def split: option.splits if_splits)

definition reaches_transport :: "http_reply \<Rightarrow> bool" where
  "reaches_transport r = (case r of ToTransport _ \<Rightarrow> True | NewStreamable \<Rightarrow> True | NewSse _ \<Rightarrow> True | _ \<Rightarrow> False)"

lemma reaches_not_rejected:
  assumes "handle_request env cfg auth tok newId now req st = (st', r)" and "reaches_transport r"
  shows "rejectIfUnauthorized env cfg auth tok req = None"
proof (rule ccontr)
  assume "\<not> ?thesis"
  then obtain q where q: "rejectIfUnauthorized env cfg auth tok req = Some q" by auto
  then have "\<not> reaches_transport q"
    by (auto simp: rejectIfUnauthorized_def reaches_transport_def internal_error_def split: if_splits option.splits)
  moreover have "\<not> reaches_transport (protectedResourceMetadata env cfg auth req)"
    by (auto simp: reaches_transport_def protectedResourceMetadata_def internal_error_def split: option.splits)
  ultimately show False using assms q
    by (auto simp: handle_request_def reaches_transport_def split: if_splits)
qed

lemma validateHttpStartupConfig_ok:
  assumes "\<not> isLoopbackHost (hc_host cfg)"
  shows "validateHttpStartupConfig url cfg tok ctx = Inr () \<longleftrightarrow>
    \<not> (truthy (hc_bearerTokenFile cfg) \<and> tok = Some []) \<and>
    (truthy tok \<or> sc_oauthMode ctx \<and> sc_oauthConfigured ctx) \<and> hc_allowedOrigins cfg \<noteq> [] \<and>
    (\<exists>u host. hc_publicUrl cfg = Some u \<and> u \<noteq> [] \<and> url u = Some (''https:'', host) \<and> \<not> isLoopbackHost host) \<and>
    sc_toolProfile ctx \<noteq> FullProfile \<and> sc_allowedHosts ctx \<noteq> [] \<and> sc_strictHostKeys ctx"
  using assms by (auto simp: validateHttpStartupConfig_def truthy_iff isRemoteSafeToolProfile_def split: option.splits)

lemma oauth_request_verified:
  assumes "rejectIfUnauthorized env cfg auth tok req = None" and "au_oauth auth"
  shows "\<exists>issuer audience token key payload header.
      au_issuer auth = Some issuer \<and> hr_authorization req = Some (''Bearer '' @ token) \<and>
      he_jwt env token key issuer audience [''RS256''] = Some (payload, header) \<and>
      jp_iss payload = CString issuer \<and> audienceMatches (jp_aud payload) audience \<and>
      set (au_requiredScopes auth) \<subseteq> extractScopes payload"
proof -
  obtain audience where "isOAuthAuthorizationValid (he_jwt env) (hr_authorization req) (verification_config auth audience)"
    using assms by (auto simp: rejectIfUnauthorized_def split: if_splits option.splits)
  then obtain i token payload header where
      "au_issuer auth = Some i" "extractBearerToken (hr_authorization req) = Some token"
      "he_jwt env token (getJwks (verification_config auth audience)) i audience [''RS256''] = Some (payload, header)"
      "jp_iss payload = CString i" "audienceMatches (jp_aud payload) audience" "set (au_requiredScopes auth) \<subseteq> extractScopes payload"
    unfolding isOAuthAuthorizationValid_ok
    by (auto simp: verification_config_def DEFAULT_ALLOWED_ALGORITHMS_def split: if_splits)
  then show ?thesis using extractBearerToken_Some by blast
qed

text \<open>C10: When the server starts on an address that is not loopback (and not in remote mode), it runs a
  restricted tool profile with strict host keys and an allow list of hosts, and every request that
  reaches a transport comes from an allowed origin (or names none) and carries the configured bearer
  token, or, in OAuth mode, a token that the JWT verifier accepts for the configured issuer and that
  holds every required scope. The digest of the token is assumed not to be that of another string.\<close>
theorem nonloopback_requests_authenticated:
  assumes "start_check url False cfg auth tok profile hosts strict = Inr ()"
    and "\<not> isLoopbackHost (hc_host cfg)"
    and "handle_request env cfg auth tok newId now req st = (st', r)" and "reaches_transport r"
    and "\<And>s t. tok = Some s \<Longrightarrow> he_sha256 env t = he_sha256 env s \<Longrightarrow> t = s"
  shows "profile \<noteq> FullProfile \<and> strict \<and> hosts \<noteq> [] \<and>
    (\<forall>origin. hr_origin req = Some origin \<longrightarrow> origin = [] \<or> origin \<in> set (hc_allowedOrigins cfg)) \<and>
    (if au_oauth auth then
       \<exists>issuer audience token key payload header.
         au_issuer auth = Some issuer \<and> hr_authorization req = Some (''Bearer '' @ token) \<and>
         he_jwt env token key issuer audience [''RS256''] = Some (payload, header) \<and>
         jp_iss payload = CString issuer \<and> audienceMatches (jp_aud payload) audience \<and>
         set (au_requiredScopes auth) \<subseteq> extractScopes payload
     else \<exists>s. tok = Some s \<and> s \<noteq> [] \<and> hr_authorization req = Some (''Bearer '' @ s))"
proof -
  have s: "truthy tok \<or> au_oauth auth" "hc_allowedOrigins cfg \<noteq> []" "profile \<noteq> FullProfile" "hosts \<noteq> []" "strict"
    using assms(1) validateHttpStartupConfig_ok [OF assms(2)] by (auto simp: start_check_def)
  have n: "rejectIfUnauthorized env cfg auth tok req = None" using reaches_not_rejected [OF assms(3,4)] .
  then have origin: "\<forall>origin. hr_origin req = Some origin \<longrightarrow> origin = [] \<or> origin \<in> set (hc_allowedOrigins cfg)"
    using s(2) by (auto simp: rejectIfUnauthorized_def isOriginAllowed_def truthy_iff split: if_splits)
  have "\<exists>u. tok = Some u \<and> u \<noteq> [] \<and> hr_authorization req = Some (''Bearer '' @ u)" if b: "\<not> au_oauth auth"
  proof -
    obtain u where u: "tok = Some u" "u \<noteq> []" using s(1) b by (auto simp: truthy_iff)
    then have "isBearerAuthorizationValid (he_sha256 env) (hr_authorization req) u"
      using n b by (auto simp: rejectIfUnauthorized_def split: if_splits)
    then have "hr_authorization req = Some (''Bearer '' @ u)"
      by (rule isBearerAuthorizationValid_ok) (rule assms(5) [OF u(1)])
    then show ?thesis using u by simp
  qed
  then show ?thesis
    by (intro conjI s(3,4,5) origin) (cases "au_oauth auth"; simp only: if_True if_False oauth_request_verified [OF n] not_False_eq_True)
qed

lemma demo_start:
  "start_check (\<lambda>u. Some (''https:'', ''mcp.example'')) False demo_http demo_auth (Some ''t'') Chatgpt [''h''] True = Inr ()"
  "\<not> isLoopbackHost (hc_host demo_http)"
  by code_simp+

theorem nonloopback_requests_authenticated_witness:
  "Chatgpt \<noteq> FullProfile \<and> (\<exists>s. Some ''t'' = Some s \<and> s \<noteq> [] \<and> hr_authorization demo_request = Some (''Bearer '' @ s))"
proof -
  have h: "handle_request demo_env demo_http demo_auth (Some ''t'') ''a'' 0 demo_request new_server = (new_server, NewStreamable)"
    by code_simp
  have r: "reaches_transport NewStreamable" by (simp add: reaches_transport_def)
  have d: "he_sha256 demo_env t = he_sha256 demo_env s \<Longrightarrow> t = s" for s t by (simp add: demo_env_def)
  have b: "\<not> au_oauth demo_auth" by (simp add: demo_auth_def)
  show ?thesis using nonloopback_requests_authenticated [OF demo_start h r d] unfolding if_not_P [OF b] by blast
qed

subsection \<open>Sessions in use\<close>

lemma getHttpSession_live:
  assumes "getHttpSession cfg now sid st = (st', Some (i, s))"
  shows "\<exists>s0. jm_get (hsessions st) i = Some s0 \<and> now - hs_lastSeenAt s0 \<le> hc_sessionIdleTtlMs cfg \<and>
    hs_streamable s = hs_streamable s0 \<and> sid = Some i \<and> jm_get (hsessions st') i = Some (s0\<lparr>hs_lastSeenAt := now\<rparr>)"
  using assms by (auto simp: getHttpSession_def Let_def isHttpSessionExpired_def truthy_iff split: if_splits option.splits)

text \<open>A request reaches the transport of a session only if that session was used within the idle
  time, is the one the request names, and is of the protocol of the path; its idle time starts again.\<close>
theorem transport_session_live:
  assumes "handle_request env cfg auth tok newId now req st = (st', ToTransport sid)" and "jm_wf (hsessions st)"
  shows "\<exists>s. jm_get (hsessions st) sid = Some s \<and> now - hs_lastSeenAt s \<le> hc_sessionIdleTtlMs cfg \<and>
    jm_get (hsessions st') sid = Some (s\<lparr>hs_lastSeenAt := now\<rparr>) \<and>
    (if hs_streamable s then hr_path req = ''/mcp'' \<and> hr_session req = Some sid
     else hr_path req = ''/messages'' \<and> hr_query_session req = Some sid)"
proof -
  have n: "rejectIfUnauthorized env cfg auth tok req = None"
    using reaches_not_rejected [OF assms(1)] by (simp add: reaches_transport_def)
  consider i where "hr_path req = ''/mcp''" "handleStreamableRequest cfg now req i st = (st', ToTransport sid)"
    | "hr_path req = ''/messages''" "handleLegacyMessage cfg now req st = (st', ToTransport sid)"
    using assms(1) n
    by (auto simp: handle_request_def readJsonBody_def handleLegacySseConnection_def protectedResourceMetadata_def internal_error_def
        split: if_splits sum.splits option.splits list.splits prod.splits)
  then show ?thesis
  proof cases
    case (1 i)
    then obtain s where "getHttpSession cfg now (hr_session req) (cleanupExpiredHttpSessions cfg now st) = (st', Some (sid, s))" "hs_streamable s"
      by (auto simp: handleStreamableRequest_def split: prod.splits option.splits if_splits)
    then show ?thesis using getHttpSession_live [of cfg now "hr_session req"] cleanup_get [OF assms(2), of cfg now sid] 1(1)
      by (fastforce split: option.splits if_splits)
  next
    case 2
    then obtain s where "getHttpSession cfg now (hr_query_session req) st = (st', Some (sid, s))" "\<not> hs_streamable s"
      by (auto simp: handleLegacyMessage_def split: prod.splits option.splits if_splits)
    then show ?thesis using getHttpSession_live [of cfg now "hr_query_session req" st st' sid s] 2(1) by auto
  qed
qed

theorem transport_session_live_witness:
  "\<exists>s. jm_get [(''a'', \<lparr>hs_streamable = True, hs_lastSeenAt = 5\<rparr>)] ''a'' = Some s \<and> 100 - hs_lastSeenAt s \<le> 900"
proof -
  let ?st = "\<lambda>t. \<lparr>hsessions = [(''a'', \<lparr>hs_streamable = True, hs_lastSeenAt = t\<rparr>)], transports_closed = []\<rparr>"
  have "handle_request demo_env demo_http demo_auth (Some ''t'') ''n'' 100 (demo_request\<lparr>hr_session := Some ''a''\<rparr>) (?st 5) = (?st 100, ToTransport ''a'')"
    by code_simp
  moreover have "jm_wf (hsessions (?st 5))" by code_simp
  ultimately show ?thesis using transport_session_live by (fastforce simp: demo_http_def)
qed


end
