(* ===== verification/Metrics.thy ===== *)
theory Metrics
  imports Prelude
begin

text \<open>
  The counters of \<open>src/metrics.ts\<close>. Counts, byte counts and durations are integers; the average duration is
  kept as the total and the count it is the exact quotient of.
\<close>

record Metrics =
  m_sessions_created :: int
  m_sessions_closed :: int
  m_sessions_active :: int
  m_sessions_errors :: int
  m_commands_executed :: int
  m_commands_successful :: int
  m_commands_failed :: int
  m_commands_totalDurationMs :: int
  m_files_reads :: int
  m_files_writes :: int
  m_files_deletes :: int
  m_files_bytesRead :: int
  m_files_bytesWritten :: int
  m_uploads :: int
  m_downloads :: int
  m_bytesUploaded :: int
  m_bytesDownloaded :: int
  m_tunnels_opened :: int
  m_tunnels_closed :: int
  m_tunnels_active :: int
  m_tunnels_errors :: int
  m_policy_allowed :: int
  m_policy_denied :: int
  m_policy_explainOnly :: int
  m_startedAt :: int

definition createEmptyMetrics :: "int \<Rightarrow> Metrics" where
  "createEmptyMetrics now =
     \<lparr>m_sessions_created = 0, m_sessions_closed = 0, m_sessions_active = 0, m_sessions_errors = 0,
      m_commands_executed = 0, m_commands_successful = 0, m_commands_failed = 0, m_commands_totalDurationMs = 0,
      m_files_reads = 0, m_files_writes = 0, m_files_deletes = 0, m_files_bytesRead = 0, m_files_bytesWritten = 0,
      m_uploads = 0, m_downloads = 0, m_bytesUploaded = 0, m_bytesDownloaded = 0,
      m_tunnels_opened = 0, m_tunnels_closed = 0, m_tunnels_active = 0, m_tunnels_errors = 0,
      m_policy_allowed = 0, m_policy_denied = 0, m_policy_explainOnly = 0, m_startedAt = now\<rparr>"

definition recordSessionCreated :: "Metrics \<Rightarrow> Metrics" where
  "recordSessionCreated m = m\<lparr>m_sessions_created := m_sessions_created m + 1, m_sessions_active := m_sessions_active m + 1\<rparr>"

definition recordSessionClosed :: "Metrics \<Rightarrow> Metrics" where
  "recordSessionClosed m = m\<lparr>m_sessions_closed := m_sessions_closed m + 1, m_sessions_active := max 0 (m_sessions_active m - 1)\<rparr>"

definition recordSessionError :: "Metrics \<Rightarrow> Metrics" where
  "recordSessionError m = m\<lparr>m_sessions_errors := m_sessions_errors m + 1\<rparr>"

definition recordCommand :: "int \<Rightarrow> bool \<Rightarrow> Metrics \<Rightarrow> Metrics" where
  "recordCommand durationMs success m =
     (let m' = m\<lparr>m_commands_executed := m_commands_executed m + 1,
                 m_commands_totalDurationMs := m_commands_totalDurationMs m + durationMs\<rparr>
      in if success then m'\<lparr>m_commands_successful := m_commands_successful m' + 1\<rparr>
         else m'\<lparr>m_commands_failed := m_commands_failed m' + 1\<rparr>)"

definition recordFileRead :: "int \<Rightarrow> Metrics \<Rightarrow> Metrics" where
  "recordFileRead bytes m = m\<lparr>m_files_reads := m_files_reads m + 1, m_files_bytesRead := m_files_bytesRead m + bytes\<rparr>"

definition recordFileWrite :: "int \<Rightarrow> Metrics \<Rightarrow> Metrics" where
  "recordFileWrite bytes m = m\<lparr>m_files_writes := m_files_writes m + 1, m_files_bytesWritten := m_files_bytesWritten m + bytes\<rparr>"

definition recordFileDelete :: "Metrics \<Rightarrow> Metrics" where
  "recordFileDelete m = m\<lparr>m_files_deletes := m_files_deletes m + 1\<rparr>"

definition recordTransfer :: "bool \<Rightarrow> int \<Rightarrow> Metrics \<Rightarrow> Metrics" where
  "recordTransfer upload bytes m =
     (if upload then m\<lparr>m_uploads := m_uploads m + 1, m_bytesUploaded := m_bytesUploaded m + bytes\<rparr>
      else m\<lparr>m_downloads := m_downloads m + 1, m_bytesDownloaded := m_bytesDownloaded m + bytes\<rparr>)"

definition recordTunnelOpened :: "Metrics \<Rightarrow> Metrics" where
  "recordTunnelOpened m = m\<lparr>m_tunnels_opened := m_tunnels_opened m + 1, m_tunnels_active := m_tunnels_active m + 1\<rparr>"

definition recordTunnelClosed :: "Metrics \<Rightarrow> Metrics" where
  "recordTunnelClosed m = m\<lparr>m_tunnels_closed := m_tunnels_closed m + 1, m_tunnels_active := max 0 (m_tunnels_active m - 1)\<rparr>"

definition recordTunnelError :: "Metrics \<Rightarrow> Metrics" where
  "recordTunnelError m = m\<lparr>m_tunnels_errors := m_tunnels_errors m + 1\<rparr>"

definition recordPolicyDecision :: "bool \<Rightarrow> bool \<Rightarrow> Metrics \<Rightarrow> Metrics" where
  "recordPolicyDecision ok explainMode m =
     (if explainMode then m\<lparr>m_policy_explainOnly := m_policy_explainOnly m + 1\<rparr>
      else if ok then m\<lparr>m_policy_allowed := m_policy_allowed m + 1\<rparr>
      else m\<lparr>m_policy_denied := m_policy_denied m + 1\<rparr>)"

definition metrics_reset :: "int \<Rightarrow> Metrics \<Rightarrow> Metrics" where
  "metrics_reset now m = createEmptyMetrics now"

section \<open>Reports\<close>

text \<open>The average with two digits (\<open>toFixed(2)\<close>), and the text for Prometheus.\<close>

definition average_fixed2 :: "int \<Rightarrow> int \<Rightarrow> string" where
  "average_fixed2 duration count =
     (let n = (if count = 0 then 0 else (200 * duration + count) div (2 * count)); r = show_int (n mod 100) in
      show_int (n div 100) @ ''.'' @ (if length r < 2 then ''0'' @ r else r))"

definition metrics_uptime :: "int \<Rightarrow> Metrics \<Rightarrow> int" where
  "metrics_uptime now m = now - m_startedAt m"

definition metric_block :: "string \<Rightarrow> string \<Rightarrow> string \<Rightarrow> (string \<times> string) list \<Rightarrow> string list" where
  "metric_block name help type values =
     [''# HELP '' @ name @ '' '' @ help, ''# TYPE '' @ name @ '' '' @ type] @ map (\<lambda>(n, v). n @ '' '' @ v) values"

definition exportPrometheus :: "int \<Rightarrow> Metrics \<Rightarrow> string" where
  "exportPrometheus now m =
     join [CHR 0x0A]
      (metric_block ''ssh_mcp_sessions_total'' ''Total number of SSH sessions'' ''counter''
         [(''ssh_mcp_sessions_created'', show_int (m_sessions_created m)), (''ssh_mcp_sessions_closed'', show_int (m_sessions_closed m)),
          (''ssh_mcp_sessions_errors'', show_int (m_sessions_errors m))] @ [''''] @
       metric_block ''ssh_mcp_sessions_active'' ''Current active sessions'' ''gauge''
         [(''ssh_mcp_sessions_active'', show_int (m_sessions_active m))] @ [''''] @
       metric_block ''ssh_mcp_commands_total'' ''Total number of commands executed'' ''counter''
         [(''ssh_mcp_commands_executed'', show_int (m_commands_executed m)), (''ssh_mcp_commands_successful'', show_int (m_commands_successful m)),
          (''ssh_mcp_commands_failed'', show_int (m_commands_failed m))] @ [''''] @
       metric_block ''ssh_mcp_command_duration_ms'' ''Average command duration'' ''gauge''
         [(''ssh_mcp_command_duration_avg_ms'', average_fixed2 (m_commands_totalDurationMs m) (m_commands_executed m))] @ [''''] @
       metric_block ''ssh_mcp_files_total'' ''File operations'' ''counter''
         [(''ssh_mcp_files_reads'', show_int (m_files_reads m)), (''ssh_mcp_files_writes'', show_int (m_files_writes m)),
          (''ssh_mcp_files_deletes'', show_int (m_files_deletes m)), (''ssh_mcp_files_bytes_read'', show_int (m_files_bytesRead m)),
          (''ssh_mcp_files_bytes_written'', show_int (m_files_bytesWritten m))] @ [''''] @
       metric_block ''ssh_mcp_transfers_total'' ''File transfer operations'' ''counter''
         [(''ssh_mcp_transfers_uploads'', show_int (m_uploads m)), (''ssh_mcp_transfers_downloads'', show_int (m_downloads m)),
          (''ssh_mcp_transfers_bytes_uploaded'', show_int (m_bytesUploaded m)), (''ssh_mcp_transfers_bytes_downloaded'', show_int (m_bytesDownloaded m))] @ [''''] @
       metric_block ''ssh_mcp_tunnels_total'' ''SSH tunnel lifecycle events'' ''counter''
         [(''ssh_mcp_tunnels_opened'', show_int (m_tunnels_opened m)), (''ssh_mcp_tunnels_closed'', show_int (m_tunnels_closed m)),
          (''ssh_mcp_tunnels_errors'', show_int (m_tunnels_errors m))] @ [''''] @
       metric_block ''ssh_mcp_tunnels_active'' ''Active SSH tunnels'' ''gauge''
         [(''ssh_mcp_tunnels_active'', show_int (m_tunnels_active m))] @ [''''] @
       metric_block ''ssh_mcp_policy_decisions_total'' ''Policy decisions'' ''counter''
         [(''ssh_mcp_policy_allowed'', show_int (m_policy_allowed m)), (''ssh_mcp_policy_denied'', show_int (m_policy_denied m)),
          (''ssh_mcp_policy_explain_only'', show_int (m_policy_explainOnly m))] @ [''''] @
       metric_block ''ssh_mcp_uptime_ms'' ''Server uptime in milliseconds'' ''gauge''
         [(''ssh_mcp_uptime_ms'', show_int (metrics_uptime now m))])"

lemmas metrics_defs = recordSessionCreated_def recordSessionClosed_def recordSessionError_def recordCommand_def
  recordFileRead_def recordFileWrite_def recordFileDelete_def recordTransfer_def recordTunnelOpened_def
  recordTunnelClosed_def recordTunnelError_def recordPolicyDecision_def metrics_reset_def createEmptyMetrics_def

text \<open>A gauge lies between zero and the number of openings, whatever is recorded, and is the difference of
  openings and closings as long as nothing was closed more often than opened.\<close>

definition gauges_ok :: "Metrics \<Rightarrow> bool" where
  "gauges_ok m \<longleftrightarrow> 0 \<le> m_tunnels_active m \<and> m_tunnels_active m \<le> m_tunnels_opened m \<and>
     0 \<le> m_sessions_active m \<and> m_sessions_active m \<le> m_sessions_created m \<and>
     m_tunnels_opened m - m_tunnels_closed m \<le> m_tunnels_active m \<and> m_sessions_created m - m_sessions_closed m \<le> m_sessions_active m"

lemma gauges_ok_ops:
  "gauges_ok (createEmptyMetrics now)"
  "gauges_ok m \<Longrightarrow> gauges_ok (recordSessionCreated m)"
  "gauges_ok m \<Longrightarrow> gauges_ok (recordSessionClosed m)"
  "gauges_ok m \<Longrightarrow> gauges_ok (recordTunnelOpened m)"
  "gauges_ok m \<Longrightarrow> gauges_ok (recordTunnelClosed m)"
  by (auto simp: gauges_ok_def metrics_defs)

end
