(* ===== verification/HostTools.thy ===== *)
theory HostTools
  imports Policy Shell Effects Metrics
begin

text \<open>
  What the tools that work on a session share (\<open>src/fs-tools.ts\<close>, \<open>src/process.ts\<close>, \<open>src/ensure.ts\<close>,
  \<open>src/transfer.ts\<close>): the session as they see it, the calls they make on its host and the errors they see.

  The host answers are a parameter: a record of functions that give the answer of a call from the calls made
  before it, so that nothing is assumed about the host, and two calls of one kind may get different answers.
  The same holds for \<open>getSession\<close> (a session may expire between two calls), for \<open>getOSInfo\<close>, for the clock and
  for random identifiers. Every call is recorded, so that theorems can speak about the calls that were made.
\<close>

section \<open>Calls and answers\<close>

datatype host_call =
    SftpReadFile string
  | SftpWriteFile string string
  | SftpStat string
  | SftpReaddir string
  | SftpMkdir string
  | SftpRmdir string
  | SftpUnlink string
  | SftpRename string string
  | SftpChmod string nat
  | ExecCommand string
  | LocalRealpath string
  | LocalStat string
  | LocalReadFile string
  | LocalWriteFile string string
  | LocalRename string string
  | LocalRm string

text \<open>A thrown error: an \<open>SSHMCPError\<close>, or an \<open>Error\<close> with its numeric code, if it has one, and its message.\<close>

datatype tool_error = ToolError SSHMCPError | JsError "int option" string

definition as_thrown :: "tool_error \<Rightarrow> thrown" where
  "as_thrown e = (case e of ToolError s \<Rightarrow> ThrownSSHMCP s | JsError _ m \<Rightarrow> ThrownError m)"

datatype FileType = TFile | TDirectory | TSymlink | TOther

text \<open>\<open>fa_methods\<close>: what \<open>isFile\<close>, \<open>isDirectory\<close> and \<open>isSymbolicLink\<close> of the attributes say, if they have them.\<close>

record file_attrs =
  fa_mode :: "nat option"
  fa_size :: "int option"
  fa_mtime :: "int option"
  fa_methods :: "FileType option"

record exec_answer =
  ea_code :: "int option"
  ea_stdout :: string
  ea_stderr :: string

type_synonym history = "host_call list"

text \<open>\<open>h_late\<close>: whether the answer to a command comes later than a number of milliseconds; \<open>h_chunks\<close>: the
  pieces of output that arrive while it runs, on standard output (\<open>True\<close>) or standard error.\<close>

record tool_session =
  ts_mode :: PolicyMode
  ts_sftp :: bool

record host =
  h_session :: "history \<Rightarrow> string \<Rightarrow> tool_session option"
  h_osInfo :: "history \<Rightarrow> string \<Rightarrow> tool_error + OSInfo"
  h_readFile :: "history \<Rightarrow> string \<Rightarrow> tool_error + string"
  h_writeFile :: "history \<Rightarrow> string \<Rightarrow> string \<Rightarrow> tool_error + unit"
  h_stat :: "history \<Rightarrow> string \<Rightarrow> tool_error + file_attrs"
  h_readdir :: "history \<Rightarrow> string \<Rightarrow> tool_error + (string \<times> file_attrs) list"
  h_mkdir :: "history \<Rightarrow> string \<Rightarrow> tool_error + unit"
  h_rmdir :: "history \<Rightarrow> string \<Rightarrow> tool_error + unit"
  h_unlink :: "history \<Rightarrow> string \<Rightarrow> tool_error + unit"
  h_rename :: "history \<Rightarrow> string \<Rightarrow> string \<Rightarrow> tool_error + unit"
  h_chmod :: "history \<Rightarrow> string \<Rightarrow> nat \<Rightarrow> tool_error + unit"
  h_exec :: "history \<Rightarrow> string \<Rightarrow> tool_error + exec_answer"
  h_late :: "history \<Rightarrow> string \<Rightarrow> int \<Rightarrow> bool"
  h_chunks :: "history \<Rightarrow> string \<Rightarrow> (bool \<times> string) list"
  h_now :: "history \<Rightarrow> int"
  h_uuid :: "history \<Rightarrow> string"
  h_policy :: "PolicyContext \<Rightarrow> SSHMCPError + PolicyDecision"

record tool_state =
  t_calls :: history
  t_metrics :: Metrics

type_synonym 'a tool = "(tool_state, tool_error, 'a) op"

definition host_do :: "host_call \<Rightarrow> (history \<Rightarrow> tool_error + 'a) \<Rightarrow> 'a tool" where
  "host_do call answer st = (st\<lparr>t_calls := t_calls st @ [call]\<rparr>, answer (t_calls st))"

definition sftpReadFile :: "host \<Rightarrow> string \<Rightarrow> string tool" where
  "sftpReadFile h path = host_do (SftpReadFile path) (\<lambda>cs. h_readFile h cs path)"

definition sftpWriteFile :: "host \<Rightarrow> string \<Rightarrow> string \<Rightarrow> unit tool" where
  "sftpWriteFile h path data = host_do (SftpWriteFile path data) (\<lambda>cs. h_writeFile h cs path data)"

definition sftpStat :: "host \<Rightarrow> string \<Rightarrow> file_attrs tool" where
  "sftpStat h path = host_do (SftpStat path) (\<lambda>cs. h_stat h cs path)"

definition sftpReaddir :: "host \<Rightarrow> string \<Rightarrow> (string \<times> file_attrs) list tool" where
  "sftpReaddir h path = host_do (SftpReaddir path) (\<lambda>cs. h_readdir h cs path)"

definition sftpMkdir :: "host \<Rightarrow> string \<Rightarrow> unit tool" where
  "sftpMkdir h path = host_do (SftpMkdir path) (\<lambda>cs. h_mkdir h cs path)"

definition sftpRmdir :: "host \<Rightarrow> string \<Rightarrow> unit tool" where
  "sftpRmdir h path = host_do (SftpRmdir path) (\<lambda>cs. h_rmdir h cs path)"

definition sftpUnlink :: "host \<Rightarrow> string \<Rightarrow> unit tool" where
  "sftpUnlink h path = host_do (SftpUnlink path) (\<lambda>cs. h_unlink h cs path)"

definition sftpRename :: "host \<Rightarrow> string \<Rightarrow> string \<Rightarrow> unit tool" where
  "sftpRename h old new = host_do (SftpRename old new) (\<lambda>cs. h_rename h cs old new)"

definition sftpChmod :: "host \<Rightarrow> string \<Rightarrow> nat \<Rightarrow> unit tool" where
  "sftpChmod h path mode = host_do (SftpChmod path mode) (\<lambda>cs. h_chmod h cs path mode)"

definition ssh_exec :: "host \<Rightarrow> string \<Rightarrow> exec_answer tool" where
  "ssh_exec h command = host_do (ExecCommand command) (\<lambda>cs. h_exec h cs command)"

lemmas sftp_defs = sftpReadFile_def sftpWriteFile_def sftpStat_def sftpReaddir_def sftpMkdir_def sftpRmdir_def
  sftpUnlink_def sftpRename_def sftpChmod_def ssh_exec_def

definition getSession :: "host \<Rightarrow> string \<Rightarrow> tool_session option tool" where
  "getSession h sid st = (st, Inr (h_session h (t_calls st) sid))"

definition getOSInfo :: "host \<Rightarrow> string \<Rightarrow> OSInfo tool" where
  "getOSInfo h sid st = (st, h_osInfo h (t_calls st) sid)"

definition at_host :: "(history \<Rightarrow> 'a) \<Rightarrow> 'a tool" where
  "at_host f st = (st, Inr (f (t_calls st)))"

definition record_metric :: "(Metrics \<Rightarrow> Metrics) \<Rightarrow> unit tool" where
  "record_metric f = cmodify (\<lambda>st. st\<lparr>t_metrics := f (t_metrics st)\<rparr>)"

definition session_missing :: "string \<Rightarrow> tool_error" where
  "session_missing sid = JsError None (''Session '' @ sid @ '' not found or expired'')"

text \<open>\<open>policy.assertAllowed\<close>: the error it throws is an \<open>SSHMCPError\<close>.\<close>

definition assert_allowed :: "host \<Rightarrow> PolicyContext \<Rightarrow> PolicyDecision tool" where
  "assert_allowed h ctx st = (st, case h_policy h ctx of Inl e \<Rightarrow> Inl (ToolError e) | Inr d \<Rightarrow> Inr d)"

text \<open>A context with an action and a mode only.\<close>

definition tool_context :: "PolicyAction \<Rightarrow> PolicyMode \<Rightarrow> PolicyContext" where
  "tool_context action mode =
     \<lparr>ctx_action = action, ctx_host = None, ctx_username = None, ctx_command = None, ctx_path = None,
      ctx_secondaryPath = None, ctx_localBindHost = None, ctx_localPort = None, ctx_remoteHost = None,
      ctx_remotePort = None, ctx_mode = Some mode, ctx_rawSudo = False, ctx_destructive = False\<rparr>"

text \<open>\<open>try m catch (e) \{ throw f(e) \}\<close>, \<open>try m catch \{ n \}\<close>, and \<open>try m finally n\<close> with an \<open>n\<close> that does not throw.\<close>

definition cmap_error :: "('s, 'e, 'a) op \<Rightarrow> ('e \<Rightarrow> 'e) \<Rightarrow> ('s, 'e, 'a) op" where
  "cmap_error m f s = (case m s of (s', Inl e) \<Rightarrow> (s', Inl (f e)) | (s', Inr x) \<Rightarrow> (s', Inr x))"

definition ccatch :: "('s, 'e, 'a) op \<Rightarrow> ('e \<Rightarrow> ('s, 'e, 'a) op) \<Rightarrow> ('s, 'e, 'a) op" where
  "ccatch m f s = (case m s of (s', Inl e) \<Rightarrow> f e s' | (s', Inr x) \<Rightarrow> (s', Inr x))"

definition cfinally :: "('s, 'e, 'a) op \<Rightarrow> ('s, 'e, unit) op \<Rightarrow> ('s, 'e, 'a) op" where
  "cfinally m n s = (case m s of (s', r) \<Rightarrow> (case n s' of (s'', Inl e) \<Rightarrow> (s'', Inl e) | (s'', Inr u) \<Rightarrow> (s'', r)))"

definition wrap_as :: "ErrorCode \<Rightarrow> string \<Rightarrow> tool_error \<Rightarrow> tool_error" where
  "wrap_as code hint e = ToolError (wrapError (as_thrown e) code (Some hint))"

definition fail_tool :: "SSHMCPError \<Rightarrow> 'a tool" where
  "fail_tool e = cthrow (ToolError e)"

text \<open>\<open>Buffer.byteLength(s, "utf8")\<close> for code units below 256.\<close>

definition utf8_length :: "string \<Rightarrow> nat" where
  "utf8_length s = sum_list (map (\<lambda>c. if (of_char c :: nat) < 128 then 1 else 2) s)"

lemma policy_denied:
  assumes "\<not> allowed (evaluate rx lenv eng ctx)" and "ctx_mode ctx = Some Enforce"
  shows "\<exists>e. snd (assertAllowed rx lenv eng ctx) = Inl e \<and> err_code e = EPOLICY"
  using assms by (auto simp: assertAllowed_def Let_def evaluate_mode effective_mode_def createPolicyError_def new_SSHMCPError_def)

section \<open>The calls of an operation\<close>

text \<open>\<open>calls_in P m\<close>: \<open>m\<close> only makes calls that satisfy \<open>P\<close>, whether it throws or not.\<close>

named_theorems calls \<open>rules that split \<open>calls_in\<close> along an operation\<close>

definition calls_in :: "(host_call \<Rightarrow> bool) \<Rightarrow> 'a tool \<Rightarrow> bool" where
  "calls_in P m \<longleftrightarrow> (\<forall>st. \<exists>cs. t_calls (fst (m st)) = t_calls st @ cs \<and> list_all P cs)"

lemma calls_inD: "calls_in P m \<Longrightarrow> m st = (st', r) \<Longrightarrow> \<exists>cs. t_calls st' = t_calls st @ cs \<and> list_all P cs"
  by (auto simp: calls_in_def dest!: spec [of _ st])

lemma calls_in_fixed: "(\<And>st. t_calls (fst (m st)) = t_calls st) \<Longrightarrow> calls_in P m"
  by (auto simp: calls_in_def)

lemma calls_in_pure [calls]:
  "calls_in P (creturn x)" "calls_in P (cthrow e)" "calls_in P (getSession h sid)" "calls_in P (getOSInfo h sid)"
  "calls_in P (at_host f)" "calls_in P (record_metric g)" "calls_in P (assert_allowed h ctx)" "calls_in P (fail_tool s)"
  "calls_in P (cthrow_if b e)" "calls_in P (crequire v e)"
  by (rule calls_in_fixed, simp add: getSession_def getOSInfo_def at_host_def record_metric_def assert_allowed_def fail_tool_def)+

lemma calls_in_host_do [calls]: "P c \<Longrightarrow> calls_in P (host_do c f)"
  by (auto simp: calls_in_def host_do_def)

lemma calls_in_cbind [calls]:
  assumes "calls_in P m" and "\<And>x. calls_in P (f x)"
  shows "calls_in P (cbind m f)"
  unfolding calls_in_def
proof
  fix st
  obtain st' r where m: "m st = (st', r)" by fastforce
  obtain cs where c: "t_calls st' = t_calls st @ cs" "list_all P cs" using calls_inD [OF assms(1) m] by blast
  show "\<exists>cs. t_calls (fst (cbind m f st)) = t_calls st @ cs \<and> list_all P cs"
  proof (cases r)
    case (Inl e)
    then show ?thesis using m c by simp
  next
    case (Inr x)
    obtain st2 q where f: "f x st' = (st2, q)" by fastforce
    obtain ds where d: "t_calls st2 = t_calls st' @ ds" "list_all P ds" using calls_inD [OF assms(2) f] by blast
    have "t_calls st2 = t_calls st @ (cs @ ds) \<and> list_all P (cs @ ds)" using c d by simp
    then show ?thesis using m Inr f by (metis cbind_Inr fst_conv)
  qed
qed

lemma calls_in_cseq [calls]: "calls_in P m \<Longrightarrow> calls_in P n \<Longrightarrow> calls_in P (cseq m n)"
  by (simp add: cseq_def calls_in_cbind)

lemma calls_in_ccatch [calls]:
  assumes "calls_in P m" and "\<And>e. calls_in P (f e)"
  shows "calls_in P (ccatch m f)"
  unfolding calls_in_def
proof
  fix st
  obtain st' r where m: "m st = (st', r)" by fastforce
  obtain cs where c: "t_calls st' = t_calls st @ cs" "list_all P cs" using calls_inD [OF assms(1) m] by blast
  show "\<exists>cs. t_calls (fst (ccatch m f st)) = t_calls st @ cs \<and> list_all P cs"
  proof (cases r)
    case (Inr x)
    then show ?thesis using m c by (simp add: ccatch_def)
  next
    case (Inl e)
    obtain st2 q where f: "f e st' = (st2, q)" by fastforce
    obtain ds where d: "t_calls st2 = t_calls st' @ ds" "list_all P ds" using calls_inD [OF assms(2) f] by blast
    have "t_calls st2 = t_calls st @ (cs @ ds) \<and> list_all P (cs @ ds)" using c d by simp
    then show ?thesis using m Inl f unfolding ccatch_def by (metis (no_types, lifting) case_prod_conv fst_conv sum.case(1))
  qed
qed

lemma calls_in_cmap_error [calls]: "calls_in P m \<Longrightarrow> calls_in P (cmap_error m f)"
proof -
  have "cmap_error m f = ccatch m (\<lambda>e. cthrow (f e))"
    by (auto simp: fun_eq_iff cmap_error_def ccatch_def split: prod.splits sum.splits)
  then show "calls_in P m \<Longrightarrow> calls_in P (cmap_error m f)" by (simp add: calls_in_ccatch calls_in_pure)
qed

lemma calls_in_if [calls]: "(b \<Longrightarrow> calls_in P m) \<Longrightarrow> (\<not> b \<Longrightarrow> calls_in P n) \<Longrightarrow> calls_in P (if b then m else n)"
  by simp

lemma calls_in_weaken: "calls_in P m \<Longrightarrow> (\<And>c. P c \<Longrightarrow> Q c) \<Longrightarrow> calls_in Q m"
  by (fastforce simp: calls_in_def list_all_iff)

section \<open>A sample host\<close>

text \<open>A host with a session over SFTP, one directory with a file, and the policy engine of the sample
  configuration, which denies \<open>/etc\<close>.\<close>

definition demo_attrs :: "nat \<Rightarrow> file_attrs" where
  "demo_attrs mode = \<lparr>fa_mode = Some mode, fa_size = Some 3, fa_mtime = None, fa_methods = None\<rparr>"

definition demo_host :: host where
  "demo_host = \<lparr>h_session = (\<lambda>cs sid. Some \<lparr>ts_mode = Enforce, ts_sftp = True\<rparr>), h_osInfo = (\<lambda>cs sid. Inr sample_os),
     h_readFile = (\<lambda>cs p. Inr ''abc''), h_writeFile = (\<lambda>cs p d. Inr ()), h_stat = (\<lambda>cs p. Inr (demo_attrs 16384)),
     h_readdir = (\<lambda>cs p. Inr [(''f'', demo_attrs 32768)]), h_mkdir = (\<lambda>cs p. Inr ()), h_rmdir = (\<lambda>cs p. Inr ()),
     h_unlink = (\<lambda>cs p. Inr ()), h_rename = (\<lambda>cs a b. Inr ()), h_chmod = (\<lambda>cs p m. Inr ()),
     h_exec = (\<lambda>cs c. Inr \<lparr>ea_code = Some 0, ea_stdout = [], ea_stderr = []\<rparr>), h_late = (\<lambda>cs c t. False), h_chunks = (\<lambda>cs c. []), h_now = (\<lambda>cs. 7), h_uuid = (\<lambda>cs. ''u''),
     h_policy = (\<lambda>ctx. snd (assertAllowed (\<lambda>_. None) sample_env sample_engine ctx))\<rparr>"

definition demo_tool_state :: tool_state where
  "demo_tool_state = \<lparr>t_calls = [], t_metrics = createEmptyMetrics 0\<rparr>"

abbreviation demo_session :: tool_session where
  "demo_session \<equiv> \<lparr>ts_mode = Enforce, ts_sftp = True\<rparr>"

lemma dec_mode_allowed: "dec_mode (allowed_decision m a) = m"
  by (simp add: allowed_decision_def)

lemma demo_host_session: "h_session demo_host (t_calls demo_tool_state) ''s'' = Some demo_session"
  by (simp add: demo_host_def)

lemma demo_host_policy:
  "evaluate (\<lambda>_. None) sample_env sample_engine ctx = allowed_decision m a \<Longrightarrow> h_policy demo_host ctx = Inr (allowed_decision m a)"
  by (simp add: demo_host_def assertAllowed_def Let_def allowed_decision_def)

end
