(* ===== verification/FsTools.thy ===== *)
theory FsTools
  imports HostTools
begin

text \<open>
  The file tools (\<open>src/fs-tools.ts\<close>): reading, writing through a temporary file, attributes, listing with
  pages, making and removing directory trees, renaming; over SFTP, or over shell commands when the session has
  no SFTP. Every operation asks the policy first.
\<close>

unbundle bit_operations_syntax

section \<open>Helpers\<close>

definition js_slice :: "'a list \<Rightarrow> int \<Rightarrow> int \<Rightarrow> 'a list" where
  "js_slice xs a b =
     (let n = int (length xs); clamp = (\<lambda>i. if i < 0 then max 0 (n + i) else min i n) in
      take (nat (clamp b - clamp a)) (drop (nat (clamp a)) xs))"

record DirEntry =
  de_name :: string
  de_type :: string
  de_size :: "int option"
  de_mtime :: "int option"
  de_mode :: "nat option"

record FileStatInfo =
  fs_size :: "int option"
  fs_mtime :: "int option"
  fs_mode :: "nat option"
  fs_type :: string

text \<open>A number of the program is \<open>None\<close> here when it is \<open>NaN\<close>.\<close>

definition createDirListResult :: "DirEntry list \<Rightarrow> string option \<Rightarrow> DirEntry list \<times> string option" where
  "createDirListResult entries nextToken = (entries, if truthy nextToken then nextToken else None)"

definition last_slash :: "string \<Rightarrow> nat option" where
  "last_slash s = (if CHR ''/'' \<in> set s then Some (length s - 1 - length (takeWhile (\<lambda>c. c \<noteq> CHR ''/'') (rev s))) else None)"

definition tempPathFor :: "string \<Rightarrow> string \<Rightarrow> string" where
  "tempPathFor targetPath uuid =
     (let normalizedPath = replace_all (CHR 0x5C) ''/'' targetPath;
          directory = (case last_slash normalizedPath of Some i \<Rightarrow> take (i + 1) normalizedPath | None \<Rightarrow> '''');
          baseName = (case last_slash normalizedPath of Some i \<Rightarrow> drop (i + 1) normalizedPath | None \<Rightarrow> normalizedPath);
          safeBaseName = (if baseName \<noteq> [] then baseName else ''write'')
      in directory @ ''.'' @ safeBaseName @ ''.'' @ uuid @ ''.tmp'')"

text \<open>The tests of the type bits of a mode: \<open>0o170000\<close> is 61440, \<open>0o100000\<close> 32768, \<open>0o040000\<close> 16384 and
  \<open>0o120000\<close> 40960.\<close>

definition is_dir_mode :: "nat \<Rightarrow> bool" where
  "is_dir_mode mode = (mode AND 61440 = 16384)"

definition mode_type :: "nat \<Rightarrow> FileType option" where
  "mode_type mode =
     (if mode AND 61440 = 32768 then Some TFile
      else if mode AND 61440 = 16384 then Some TDirectory
      else if mode AND 61440 = 40960 then Some TSymlink else None)"

fun type_name :: "FileType \<Rightarrow> string" where
  "type_name TFile = ''file''"
| "type_name TDirectory = ''directory''"
| "type_name TSymlink = ''symlink''"
| "type_name TOther = ''other''"

text \<open>\<open>Number(s)\<close> for integer literals and blanks, and \<open>parseInt(s, 8)\<close>.\<close>

definition js_Number :: "string \<Rightarrow> int option" where
  "js_Number s =
     (let t = trim s in
      if t = [] then Some 0
      else if list_all is_digit t then Some (int (digits_val t))
      else if take 1 t = ''-'' \<and> 1 < length t \<and> list_all is_digit (drop 1 t) then Some (- int (digits_val (drop 1 t)))
      else None)"

definition octal_digit :: "char \<Rightarrow> bool" where
  "octal_digit c = (is_digit c \<and> digit_val c < 8)"

definition parse_octal :: "string \<Rightarrow> nat option" where
  "parse_octal s =
     (let ds = takeWhile octal_digit (trimStart s) in
      if ds = [] then None else Some (foldl (\<lambda>a c. 8 * a + digit_val c) 0 ds))"

fun show_octal :: "nat \<Rightarrow> string" where
  "show_octal n = (if n < 8 then [char_of (48 + n)] else show_octal (n div 8) @ [char_of (48 + n mod 8)])"

section \<open>Shell commands\<close>

definition PORTABLE_STAT_FIELDS_COMMAND :: string where
  "PORTABLE_STAT_FIELDS_COMMAND =
     ''type=other; if [ -L \"$target\" ]; then type=symlink; elif [ -d \"$target\" ]; then type=directory; elif [ -f \"$target\" ]; then type=file; fi; size=$( (stat -c %s \"$target\" 2>/dev/null || stat -f %z \"$target\" 2>/dev/null || wc -c < \"$target\" 2>/dev/null) | tr -d \" \" | head -n 1); mtime=$( (stat -c %Y \"$target\" 2>/dev/null || stat -f %m \"$target\" 2>/dev/null || echo 0) | head -n 1); mode=$( (stat -c %a \"$target\" 2>/dev/null || stat -f %Lp \"$target\" 2>/dev/null || echo 0) | head -n 1)''"

definition PORTABLE_STAT_COMMAND :: string where
  "PORTABLE_STAT_COMMAND = PORTABLE_STAT_FIELDS_COMMAND @
     ''; printf \"%s'' @ [CHR 0x5C] @ ''t%s'' @ [CHR 0x5C] @ ''t%s'' @ [CHR 0x5C] @ ''t%s\" \"$type\" \"${size:-0}\" \"${mtime:-0}\" \"${mode:-0}\"''"

definition execFallback :: "host \<Rightarrow> string \<Rightarrow> string \<Rightarrow> string tool" where
  "execFallback h sid command =
     cbind (getSession h sid) (\<lambda>session.
       cseq (cthrow_if (session = None) (session_missing sid))
      (cbind (getOSInfo h sid) (\<lambda>osInfo.
       cbind (case buildRemoteCommand command osInfo None [] of Inl m \<Rightarrow> cthrow (JsError None m) | Inr c \<Rightarrow> creturn c) (\<lambda>shellCommand.
       cbind (ssh_exec h shellCommand) (\<lambda>result.
         if or_else (ea_code result) 0 \<noteq> 0 then
           cthrow (JsError None (if ea_stderr result \<noteq> [] then ea_stderr result
             else if ea_stdout result \<noteq> [] then ea_stdout result
             else ''Remote command failed with code '' @ show_int (or_else (ea_code result) 0)))
         else creturn (ea_stdout result))))))"

section \<open>Trees\<close>

definition failure_code :: "tool_error \<Rightarrow> int option" where
  "failure_code e = (case e of JsError c _ \<Rightarrow> c | ToolError _ \<Rightarrow> None)"

fun mkdir_parts :: "host \<Rightarrow> string \<Rightarrow> string list \<Rightarrow> unit tool" where
  "mkdir_parts h currentPath [] = creturn ()"
| "mkdir_parts h currentPath (part # parts) =
     (let p = (if currentPath = [] then ''/'' @ part else currentPath @ ''/'' @ part) in
      cseq (ccatch (cseq (sftpStat h p) (creturn ()))
              (\<lambda>_. ccatch (sftpMkdir h p) (\<lambda>e. if failure_code e = Some 4 then creturn () else cthrow e)))
        (mkdir_parts h p parts))"

definition sftpMkdirRecursive :: "host \<Rightarrow> string \<Rightarrow> unit tool" where
  "sftpMkdirRecursive h dirPath =
     mkdir_parts h (if startsWith dirPath ''/'' then '''' else ''.'') (filter (\<lambda>p. p \<noteq> []) (split_on (CHR ''/'') dirPath))"

text \<open>\<open>sftpRmdirRecursive\<close>, to a given depth of nested directories: the host might list ever deeper ones.
  At depth zero it gives up with an error of its own. \<open>rm_entries\<close> is its loop, with what it does for a
  directory as an argument.\<close>

fun rm_entries :: "host \<Rightarrow> (string \<Rightarrow> unit tool) \<Rightarrow> string \<Rightarrow> (string \<times> file_attrs) list \<Rightarrow> unit tool" where
  "rm_entries h rmdir dirPath [] = creturn ()"
| "rm_entries h rmdir dirPath ((filename, attrs) # es) =
     (let entryPath = dirPath @ ''/'' @ filename in
      cseq (if is_dir_mode (or_else (fa_mode attrs) 0) then rmdir entryPath else sftpUnlink h entryPath)
        (rm_entries h rmdir dirPath es))"

fun sftpRmdirRecursive :: "nat \<Rightarrow> host \<Rightarrow> string \<Rightarrow> unit tool" where
  "sftpRmdirRecursive 0 h dirPath = cthrow (JsError None ''too deep'')"
| "sftpRmdirRecursive (Suc n) h dirPath =
     cbind (sftpReaddir h dirPath) (\<lambda>entries.
       cseq (rm_entries h (sftpRmdirRecursive n h) dirPath entries) (sftpRmdir h dirPath))"

section \<open>Operations\<close>

record fs_config =
  maxFileSize :: int
  maxFileWriteBytes :: int

definition attrs_type :: "file_attrs \<Rightarrow> FileType" where
  "attrs_type a =
     (case mode_type (or_else (fa_mode a) 0) of
        Some t \<Rightarrow> t
      | None \<Rightarrow> or_else (fa_methods a) TOther)"

definition seconds_ms :: "int option \<Rightarrow> int \<Rightarrow> int option" where
  "seconds_ms mtime now = (case mtime of Some t \<Rightarrow> Some (t * 1000) | None \<Rightarrow> Some now)"

definition nth_or :: "string list \<Rightarrow> nat \<Rightarrow> string \<Rightarrow> string" where
  "nth_or xs i d = (if i < length xs then xs ! i else d)"

definition statFileInternal :: "host \<Rightarrow> string \<Rightarrow> string \<Rightarrow> FileStatInfo tool" where
  "statFileInternal h sid path =
     cbind (getSession h sid) (\<lambda>session.
       case session of
         None \<Rightarrow> cthrow (session_missing sid)
       | Some s \<Rightarrow>
           if \<not> ts_sftp s then
             cbind (execFallback h sid (''target='' @ shellQuote path @ ''; '' @ PORTABLE_STAT_COMMAND)) (\<lambda>out.
               let fields = split_on (CHR 0x09) (trim out) in
               creturn \<lparr>fs_size = js_Number (nth_or fields 1 ''0''),
                        fs_mtime = map_option (\<lambda>t. t * 1000) (js_Number (nth_or fields 2 ''0'')),
                        fs_mode = parse_octal (nth_or fields 3 ''0''), fs_type = nth_or fields 0 ''other''\<rparr>)
           else
             cbind (sftpStat h path) (\<lambda>stats.
             cbind (at_host (h_now h)) (\<lambda>now.
               creturn \<lparr>fs_size = Some (or_else (fa_size stats) 0), fs_mtime = seconds_ms (fa_mtime stats) now,
                        fs_mode = Some (or_else (fa_mode stats) 0), fs_type = type_name (attrs_type stats)\<rparr>)))"

text \<open>The frame of every operation: the session must exist, then everything happens in a \<open>try\<close> whose errors
  are wrapped.\<close>

definition with_session :: "host \<Rightarrow> string \<Rightarrow> string \<Rightarrow> (tool_session \<Rightarrow> 'a tool) \<Rightarrow> 'a tool" where
  "with_session h sid hint body =
     cbind (getSession h sid) (\<lambda>session.
       case session of None \<Rightarrow> cthrow (session_missing sid) | Some s \<Rightarrow> cmap_error (body s) (wrap_as EFS hint))"

definition path_context :: "PolicyAction \<Rightarrow> tool_session \<Rightarrow> string \<Rightarrow> PolicyContext" where
  "path_context action s path = (tool_context action (ts_mode s))\<lparr>ctx_path := Some path\<rparr>"

definition check_read_limit :: "string \<Rightarrow> int option \<Rightarrow> int \<Rightarrow> unit tool" where
  "check_read_limit path sz limit =
     (case sz of
        Some n \<Rightarrow> cthrow_if (limit < n) (ToolError (createLimitError
          (''File '' @ path @ '' is '' @ show_int n @ '' bytes, which exceeds the '' @ show_int limit @ '' byte read limit'')
          (Some ''Use file_download for large files or raise SSH_MCP_MAX_FILE_SIZE intentionally.'')))
      | None \<Rightarrow> creturn ())"

text \<open>\<open>decode\<close> is \<open>Buffer.toString\<close> with the encoding that was asked for.\<close>

definition readFile :: "host \<Rightarrow> fs_config \<Rightarrow> string \<Rightarrow> string \<Rightarrow> (string \<Rightarrow> string) \<Rightarrow> int option \<Rightarrow> string tool" where
  "readFile h cfg sid path decode maxBytes =
     with_session h sid (''Failed to read file '' @ path @ ''. Check if the file exists and is readable.'') (\<lambda>s.
       cseq (assert_allowed h (path_context FsRead s path))
      (cbind (statFileInternal h sid path) (\<lambda>info.
       cseq (check_read_limit path (fs_size info) (or_else maxBytes (maxFileSize cfg)))
      (if \<not> ts_sftp s then
         cbind (execFallback h sid (''cat '' @ shellQuote path)) (\<lambda>data.
           cseq (record_metric (recordFileRead (int (utf8_length data)))) (creturn data))
       else
         cbind (sftpReadFile h path) (\<lambda>data.
           cseq (record_metric (recordFileRead (int (length data)))) (creturn (decode data)))))))"

definition write_fallback_command :: "string \<Rightarrow> string \<Rightarrow> string \<Rightarrow> nat option \<Rightarrow> string" where
  "write_fallback_command path data tempPath mode =
     ''printf %s '' @ shellQuote data @ '' > '' @ shellQuote tempPath @ [CHR 0x0A] @
     (case mode of None \<Rightarrow> '''' | Some m \<Rightarrow> ''chmod '' @ show_octal m @ '' '' @ shellQuote tempPath @ [CHR 0x0A]) @
     ''mv '' @ shellQuote tempPath @ '' '' @ shellQuote path"

definition write_via_temp :: "host \<Rightarrow> string \<Rightarrow> string \<Rightarrow> string \<Rightarrow> nat option \<Rightarrow> unit tool" where
  "write_via_temp h path tempPath data mode =
     ccatch
       (cseq (sftpWriteFile h tempPath data)
       (cseq (case mode of None \<Rightarrow> creturn () | Some m \<Rightarrow> sftpChmod h tempPath m)
       (cseq (sftpRename h tempPath path)
             (record_metric (recordFileWrite (int (utf8_length data)))))))
       (\<lambda>writeError. cseq (ccatch (sftpUnlink h tempPath) (\<lambda>_. creturn ())) (cthrow writeError))"

definition writeFile :: "host \<Rightarrow> fs_config \<Rightarrow> string \<Rightarrow> string \<Rightarrow> string \<Rightarrow> nat option \<Rightarrow> bool tool" where
  "writeFile h cfg sid path data mode =
     with_session h sid (''Failed to write file '' @ path @ ''. Check directory permissions and disk space.'') (\<lambda>s.
       cbind (assert_allowed h (path_context FsWrite s path)) (\<lambda>decision.
         if dec_mode decision = Explain then creturn True
         else
           let writeBytes = int (utf8_length data) in
           cseq (cthrow_if (maxFileWriteBytes cfg < writeBytes) (ToolError (createLimitError
             (''Write payload is '' @ show_int writeBytes @ '' bytes, which exceeds the '' @ show_int (maxFileWriteBytes cfg) @ '' byte write limit'')
             (Some ''Use file_upload for large files or raise SSH_MCP_MAX_FILE_WRITE_BYTES intentionally.''))))
          (cbind (at_host (h_uuid h)) (\<lambda>uuid.
             let tempPath = tempPathFor path uuid in
             if \<not> ts_sftp s then
               cseq (execFallback h sid (write_fallback_command path data tempPath mode))
              (cseq (record_metric (recordFileWrite writeBytes)) (creturn True))
             else cseq (write_via_temp h path tempPath data mode) (creturn True)))))"

definition statFile :: "host \<Rightarrow> string \<Rightarrow> string \<Rightarrow> FileStatInfo tool" where
  "statFile h sid path =
     with_session h sid (''Failed to get stats for '' @ path @ ''. Check if the path exists.'') (\<lambda>s.
       cseq (assert_allowed h (path_context FsStat s path)) (statFileInternal h sid path))"

definition page_of :: "'a list \<Rightarrow> int \<Rightarrow> int \<Rightarrow> 'a list \<times> string option" where
  "page_of entries page limit =
     (let startIndex = page * limit; endIndex = startIndex + limit in
      (js_slice entries startIndex endIndex, if endIndex < int (length entries) then Some (show_int (page + 1)) else None))"

definition dir_result :: "DirEntry list \<Rightarrow> int option \<Rightarrow> int \<Rightarrow> DirEntry list \<times> string option" where
  "dir_result entries page limit =
     (case page of
        None \<Rightarrow> (entries, None)
      | Some p \<Rightarrow> (case page_of entries p limit of (es, token) \<Rightarrow> createDirListResult es token))"

definition list_fallback_command :: "string \<Rightarrow> string" where
  "list_fallback_command path =
     ''dir='' @ shellQuote path @ ''; for item in \"$dir\"/* \"$dir\"/.[!.]* \"$dir\"/..?*; do [ -e \"$item\" ] || continue; name=$(basename \"$item\"); target=\"$item\"; '' @
     PORTABLE_STAT_FIELDS_COMMAND @
     ''; printf \"%s'' @ [CHR 0x5C] @ ''t%s'' @ [CHR 0x5C] @ ''t%s'' @ [CHR 0x5C] @ ''t%s'' @ [CHR 0x5C] @ ''n\" \"$name\" \"$type\" \"${size:-0}\" \"${mtime:-0}\"; done''"

text \<open>\<open>split(/\r?\n/)\<close>: a carriage return before a line feed belongs to the separator.\<close>

definition split_lines :: "string \<Rightarrow> string list" where
  "split_lines s =
     (let ls = split_on (CHR 0x0A) s;
          chop = (\<lambda>l. if l \<noteq> [] \<and> last l = CHR 0x0D then butlast l else l)
      in map chop (butlast ls) @ [last ls])"

definition parse_entry :: "string \<Rightarrow> DirEntry" where
  "parse_entry line =
     (let fields = split_on (CHR 0x09) line in
      \<lparr>de_name = nth_or fields 0 '''', de_type = nth_or fields 1 ''other'', de_size = js_Number (nth_or fields 2 ''0''),
       de_mtime = map_option (\<lambda>t. t * 1000) (js_Number (nth_or fields 3 ''0'')), de_mode = None\<rparr>)"

definition sftp_entry :: "int \<Rightarrow> string \<times> file_attrs \<Rightarrow> DirEntry" where
  "sftp_entry now e =
     (case e of (filename, attrs) \<Rightarrow>
        \<lparr>de_name = filename, de_type = type_name (or_else (mode_type (or_else (fa_mode attrs) 0)) TOther),
         de_size = fa_size attrs, de_mtime = seconds_ms (fa_mtime attrs) now, de_mode = fa_mode attrs\<rparr>)"

definition listDirectory :: "host \<Rightarrow> string \<Rightarrow> string \<Rightarrow> int option \<Rightarrow> int \<Rightarrow> (DirEntry list \<times> string option) tool" where
  "listDirectory h sid path page limit =
     with_session h sid (''Failed to list directory '' @ path @ ''. Check if the directory exists and is readable.'') (\<lambda>s.
       cseq (assert_allowed h (path_context FsList s path))
      (if \<not> ts_sftp s then
         cbind (execFallback h sid (list_fallback_command path)) (\<lambda>out.
           creturn (dir_result (map parse_entry (filter (\<lambda>l. l \<noteq> []) (split_lines out))) page limit))
       else
         cbind (sftpReaddir h path) (\<lambda>fileList.
         cbind (at_host (h_now h)) (\<lambda>now.
           creturn (dir_result (map (sftp_entry now) fileList) page limit)))))"

definition makeDirectories :: "host \<Rightarrow> string \<Rightarrow> string \<Rightarrow> bool tool" where
  "makeDirectories h sid path =
     with_session h sid (''Failed to create directories '' @ path @ ''. Check parent directory permissions.'') (\<lambda>s.
       cbind (assert_allowed h (path_context FsMkdir s path)) (\<lambda>decision.
         if dec_mode decision = Explain then creturn True
         else if \<not> ts_sftp s then cseq (execFallback h sid (''mkdir -p '' @ shellQuote path)) (creturn True)
         else cseq (sftpMkdirRecursive h path) (creturn True)))"

definition removeRecursive :: "nat \<Rightarrow> host \<Rightarrow> string \<Rightarrow> string \<Rightarrow> bool tool" where
  "removeRecursive depth h sid path =
     with_session h sid (''Failed to remove '' @ path @ ''. Check if the path exists and you have write permissions.'') (\<lambda>s.
       cbind (assert_allowed h ((path_context FsRemove s path)\<lparr>ctx_destructive := True\<rparr>)) (\<lambda>decision.
         if dec_mode decision = Explain then creturn True
         else if \<not> ts_sftp s then cseq (execFallback h sid (''rm -rf '' @ shellQuote path)) (creturn True)
         else
           cbind (sftpStat h path) (\<lambda>stats.
             cseq (if is_dir_mode (or_else (fa_mode stats) 0) then sftpRmdirRecursive depth h path else sftpUnlink h path)
            (cseq (record_metric recordFileDelete) (creturn True)))))"

definition renameFile :: "host \<Rightarrow> string \<Rightarrow> string \<Rightarrow> string \<Rightarrow> bool tool" where
  "renameFile h sid from to =
     with_session h sid (''Failed to rename '' @ from @ '' to '' @ to @ ''. Check if the source exists and destination is writable.'') (\<lambda>s.
       cbind (assert_allowed h ((path_context FsRename s from)\<lparr>ctx_secondaryPath := Some to\<rparr>)) (\<lambda>decision.
         if dec_mode decision = Explain then creturn True
         else if \<not> ts_sftp s then cseq (execFallback h sid (''mv '' @ shellQuote from @ '' '' @ shellQuote to)) (creturn True)
         else cseq (sftpRename h from to) (creturn True)))"

definition pathExists :: "host \<Rightarrow> string \<Rightarrow> string \<Rightarrow> bool tool" where
  "pathExists h sid path = ccatch (cseq (statFile h sid path) (creturn True)) (\<lambda>_. creturn False)"

definition getFileSize :: "host \<Rightarrow> string \<Rightarrow> string \<Rightarrow> int option tool" where
  "getFileSize h sid path = cbind (statFile h sid path) (\<lambda>stats. creturn (fs_size stats))"

definition isDirectory :: "host \<Rightarrow> string \<Rightarrow> string \<Rightarrow> bool tool" where
  "isDirectory h sid path = ccatch (cbind (statFile h sid path) (\<lambda>stats. creturn (fs_type stats = ''directory''))) (\<lambda>_. creturn False)"

definition isFile :: "host \<Rightarrow> string \<Rightarrow> string \<Rightarrow> bool tool" where
  "isFile h sid path = ccatch (cbind (statFile h sid path) (\<lambda>stats. creturn (fs_type stats = ''file''))) (\<lambda>_. creturn False)"

section \<open>What an operation may call\<close>

text \<open>The operations as data, the context each hands to the policy, and the calls it may make: over SFTP
  calls on the paths it was authorised for (and the temporary file beside the target, and what lies below a
  removed directory), without SFTP commands that run one of its scripts.\<close>

datatype fs_op = ReadOp string "string \<Rightarrow> string" "int option" | WriteOp string string "nat option" | StatOp string
  | ListOp string "int option" int | MkdirOp string | RemoveOp nat string | RenameOp string string

fun fs_context :: "fs_op \<Rightarrow> tool_session \<Rightarrow> PolicyContext" where
  "fs_context (ReadOp p d m) s = path_context FsRead s p"
| "fs_context (WriteOp p d m) s = path_context FsWrite s p"
| "fs_context (StatOp p) s = path_context FsStat s p"
| "fs_context (ListOp p n l) s = path_context FsList s p"
| "fs_context (MkdirOp p) s = path_context FsMkdir s p"
| "fs_context (RemoveOp n p) s = (path_context FsRemove s p)\<lparr>ctx_destructive := True\<rparr>"
| "fs_context (RenameOp a b) s = (path_context FsRename s a)\<lparr>ctx_secondaryPath := Some b\<rparr>"

definition drop_result :: "'a tool \<Rightarrow> unit tool" where
  "drop_result m = cbind m (\<lambda>_. creturn ())"

fun run_fs :: "host \<Rightarrow> fs_config \<Rightarrow> string \<Rightarrow> fs_op \<Rightarrow> unit tool" where
  "run_fs h cfg sid (ReadOp p d m) = drop_result (readFile h cfg sid p d m)"
| "run_fs h cfg sid (WriteOp p d m) = drop_result (writeFile h cfg sid p d m)"
| "run_fs h cfg sid (StatOp p) = drop_result (statFile h sid p)"
| "run_fs h cfg sid (ListOp p n l) = drop_result (listDirectory h sid p n l)"
| "run_fs h cfg sid (MkdirOp p) = drop_result (makeDirectories h sid p)"
| "run_fs h cfg sid (RemoveOp n p) = drop_result (removeRecursive n h sid p)"
| "run_fs h cfg sid (RenameOp a b) = drop_result (renameFile h sid a b)"

definition below :: "string \<Rightarrow> string \<Rightarrow> bool" where
  "below p q \<longleftrightarrow> q = p \<or> (\<exists>r. q = p @ ''/'' @ r)"

definition dir_prefix :: "string \<Rightarrow> string \<Rightarrow> bool" where
  "dir_prefix p q \<longleftrightarrow> (\<exists>k. filter (\<lambda>x. x \<noteq> []) (split_on (CHR ''/'') q) = take k ((if startsWith p ''/'' then [] else [''.'']) @ filter (\<lambda>x. x \<noteq> []) (split_on (CHR ''/'') p)))"

fun sftp_footprint :: "fs_op \<Rightarrow> host_call \<Rightarrow> bool" where
  "sftp_footprint (ReadOp p d m) c = (c = SftpStat p \<or> c = SftpReadFile p)"
| "sftp_footprint (WriteOp p d m) c =
     (\<exists>uuid. let t = tempPathFor p uuid in c = SftpWriteFile t d \<or> (\<exists>n. m = Some n \<and> c = SftpChmod t n) \<or> c = SftpRename t p \<or> c = SftpUnlink t)"
| "sftp_footprint (StatOp p) c = (c = SftpStat p)"
| "sftp_footprint (ListOp p n l) c = (c = SftpReaddir p)"
| "sftp_footprint (MkdirOp p) c = (\<exists>q. dir_prefix p q \<and> (c = SftpStat q \<or> c = SftpMkdir q))"
| "sftp_footprint (RemoveOp n p) c =
     (c = SftpStat p \<or> (\<exists>q. below p q \<and> (c = SftpReaddir q \<or> c = SftpUnlink q \<or> c = SftpRmdir q)))"
| "sftp_footprint (RenameOp a b) c = (c = SftpRename a b)"

fun fs_script :: "fs_op \<Rightarrow> string \<Rightarrow> bool" where
  "fs_script (ReadOp p d m) x = (x = ''target='' @ shellQuote p @ ''; '' @ PORTABLE_STAT_COMMAND \<or> x = ''cat '' @ shellQuote p)"
| "fs_script (WriteOp p d m) x = (\<exists>uuid. x = write_fallback_command p d (tempPathFor p uuid) m)"
| "fs_script (StatOp p) x = (x = ''target='' @ shellQuote p @ ''; '' @ PORTABLE_STAT_COMMAND)"
| "fs_script (ListOp p n l) x = (x = list_fallback_command p)"
| "fs_script (MkdirOp p) x = (x = ''mkdir -p '' @ shellQuote p)"
| "fs_script (RemoveOp n p) x = (x = ''rm -rf '' @ shellQuote p)"
| "fs_script (RenameOp a b) x = (x = ''mv '' @ shellQuote a @ '' '' @ shellQuote b)"

definition fs_footprint :: "fs_op \<Rightarrow> host_call \<Rightarrow> bool" where
  "fs_footprint op c \<longleftrightarrow> sftp_footprint op c \<or>
     (\<exists>script os line. fs_script op script \<and> buildRemoteCommand script os None [] = Inr line \<and> c = ExecCommand line)"

subsection \<open>The calls of the parts\<close>

lemma calls_in_option [calls]: "calls_in P m \<Longrightarrow> (\<And>x. v = Some x \<Longrightarrow> calls_in P (f x)) \<Longrightarrow> calls_in P (case v of None \<Rightarrow> m | Some x \<Rightarrow> f x)"
  by (cases v) auto

lemma calls_in_sum [calls]: "(\<And>e. v = Inl e \<Longrightarrow> calls_in P (g e)) \<Longrightarrow> (\<And>x. v = Inr x \<Longrightarrow> calls_in P (f x)) \<Longrightarrow> calls_in P (case v of Inl e \<Rightarrow> g e | Inr x \<Rightarrow> f x)"
  by (cases v) auto

definition runs_script :: "string \<Rightarrow> host_call \<Rightarrow> bool" where
  "runs_script script c \<longleftrightarrow> (\<exists>os line. buildRemoteCommand script os None [] = Inr line \<and> c = ExecCommand line)"

lemma calls_in_execFallback:
  assumes "\<And>c. runs_script command c \<Longrightarrow> P c"
  shows "calls_in P (execFallback h sid command)"
proof -
  have x: "calls_in P (cbind (case buildRemoteCommand command os None [] of Inl m \<Rightarrow> cthrow (JsError None m) | Inr c \<Rightarrow> creturn c) (\<lambda>sc. cbind (ssh_exec h sc) g))"
    if g: "\<And>r. calls_in P (g r)" for os g
  proof (cases "buildRemoteCommand command os None []")
    case (Inl m)
    then show ?thesis by (intro calls_in_fixed) simp
  next
    case (Inr line)
    have "calls_in P (cbind (ssh_exec h line) g)"
      unfolding ssh_exec_def by (intro calls_in_cbind calls_in_host_do g assms) (use Inr in \<open>auto simp: runs_script_def\<close>)
    moreover have "cbind (creturn line) (\<lambda>sc. cbind (ssh_exec h sc) g) = cbind (ssh_exec h line) g"
      by (rule ext) simp
    ultimately show ?thesis using Inr by simp
  qed
  show ?thesis
    unfolding execFallback_def by (intro calls x)
qed

lemma calls_in_stat:
  assumes "P (SftpStat p)" and "\<And>c. runs_script (''target='' @ shellQuote p @ ''; '' @ PORTABLE_STAT_COMMAND) c \<Longrightarrow> P c"
  shows "calls_in P (statFileInternal h sid p)"
  unfolding statFileInternal_def sftpStat_def Let_def by (intro calls calls_in_execFallback assms)

lemma split_on_snoc: "c \<notin> set b \<Longrightarrow> split_on c (a @ c # b) = split_on c a @ [b]"
proof (induction a)
  case Nil
  then show ?case by (simp add: split_on_single)
next
  case (Cons x a)
  then show ?case by (cases "split_on c a") auto
qed

lemma calls_in_mkdir_parts:
  assumes "list_all (\<lambda>p. p \<noteq> [] \<and> CHR ''/'' \<notin> set p) parts"
    and "filter (\<lambda>x. x \<noteq> []) (split_on (CHR ''/'') cur) @ parts = full"
  shows "calls_in (\<lambda>c. \<exists>q. (\<exists>k. filter (\<lambda>x. x \<noteq> []) (split_on (CHR ''/'') q) = take k full) \<and> (c = SftpStat q \<or> c = SftpMkdir q)) (mkdir_parts h cur parts)"
  using assms
proof (induction parts arbitrary: cur)
  case Nil
  show ?case unfolding mkdir_parts.simps by (rule calls)
next
  case (Cons part parts)
  let ?p = "if cur = [] then ''/'' @ part else cur @ ''/'' @ part"
  let ?segs = "\<lambda>q. filter (\<lambda>x. x \<noteq> []) (split_on (CHR ''/'') q)"
  have "?segs ?p = ?segs cur @ [part]" using Cons.prems(1) by (auto simp: split_on_snoc split_on_single)
  then have full: "?segs ?p @ parts = full" and "\<exists>k. ?segs ?p = take k full"
    using Cons.prems(2) by (auto intro!: exI [of _ "length (?segs ?p)"])
  then show ?case
    using Cons.IH [OF _ full] Cons.prems(1)
    unfolding mkdir_parts.simps Let_def sftpStat_def sftpMkdir_def by (intro calls) auto
qed

lemma calls_in_mkdir: "calls_in (sftp_footprint (MkdirOp p)) (sftpMkdirRecursive h p)"
proof -
  let ?parts = "filter (\<lambda>x. x \<noteq> []) (split_on (CHR ''/'') p)"
  have "list_all (\<lambda>q. q \<noteq> [] \<and> CHR ''/'' \<notin> set q) ?parts" by (auto simp: list_all_iff dest: split_on_no_sep)
  from calls_in_mkdir_parts [OF this refl, where h = h and cur = "if startsWith p ''/'' then '''' else ''.''"]
  show ?thesis unfolding sftpMkdirRecursive_def
    by (rule calls_in_weaken) (auto simp: dir_prefix_def split: if_splits)
qed

lemma below_trans: "below p q \<Longrightarrow> below q r \<Longrightarrow> below p r"
  by (auto simp: below_def)

definition rm_call :: "string \<Rightarrow> host_call \<Rightarrow> bool" where
  "rm_call p c \<longleftrightarrow> (\<exists>q. below p q \<and> (c = SftpReaddir q \<or> c = SftpUnlink q \<or> c = SftpRmdir q))"

lemma rm_call_below: "below p q \<Longrightarrow> rm_call q c \<Longrightarrow> rm_call p c"
  unfolding rm_call_def using below_trans by blast

lemma calls_in_rm_entries:
  assumes "\<And>q. calls_in (rm_call q) (rmdir q)"
  shows "calls_in (rm_call p) (rm_entries h rmdir p es)"
proof (induction es)
  case Nil
  show ?case unfolding rm_entries.simps by (rule calls)
next
  case (Cons e es)
  obtain f a where e: "e = (f, a)" by fastforce
  have b: "below p (p @ ''/'' @ f)" by (auto simp: below_def)
  have "calls_in (rm_call p) (rmdir (p @ ''/'' @ f))" by (rule calls_in_weaken [OF assms rm_call_below [OF b]])
  moreover have "calls_in (rm_call p) (sftpUnlink h (p @ ''/'' @ f))"
    unfolding sftpUnlink_def using b by (intro calls) (auto simp: rm_call_def)
  ultimately show ?case using Cons unfolding e rm_entries.simps Let_def by (intro calls) auto
qed

lemma calls_in_rmdir: "calls_in (rm_call p) (sftpRmdirRecursive n h p)"
proof (induction n arbitrary: p)
  case 0
  show ?case unfolding sftpRmdirRecursive.simps by (rule calls)
next
  case (Suc n)
  have "rm_call p (SftpReaddir p)" "rm_call p (SftpRmdir p)" by (auto simp: rm_call_def below_def)
  then show ?case unfolding sftpRmdirRecursive.simps sftpReaddir_def sftpRmdir_def
    by (intro calls calls_in_rm_entries Suc)
qed

lemma calls_in_with_session [calls]: "(\<And>s. calls_in P (body s)) \<Longrightarrow> calls_in P (with_session h sid hint body)"
  unfolding with_session_def by (intro calls)

lemma calls_in_let [calls]: "calls_in P (f v) \<Longrightarrow> calls_in P (Let v f)"
  by simp

lemma fs_script_footprint: "fs_script op script \<Longrightarrow> runs_script script c \<Longrightarrow> fs_footprint op c"
  by (auto simp: fs_footprint_def runs_script_def)

lemma footprint_sftp: "sftp_footprint op c \<Longrightarrow> fs_footprint op c"
  by (simp add: fs_footprint_def)

lemma calls_in_exec_fs: "fs_script op script \<Longrightarrow> calls_in (fs_footprint op) (execFallback h sid script)"
  by (rule calls_in_execFallback) (rule fs_script_footprint)

lemma calls_in_readFile: "calls_in (fs_footprint (ReadOp p d m)) (readFile h cfg sid p d m)"
  unfolding readFile_def sftpReadFile_def check_read_limit_def
  by (intro calls calls_in_stat calls_in_exec_fs) (auto intro: footprint_sftp fs_script_footprint)

lemma calls_in_writeFile: "calls_in (fs_footprint (WriteOp p d m)) (writeFile h cfg sid p d m)"
  unfolding writeFile_def write_via_temp_def sftpWriteFile_def sftpChmod_def sftpRename_def sftpUnlink_def
  by (intro calls calls_in_exec_fs) (auto simp: Let_def intro!: footprint_sftp)

lemma calls_in_statFile: "calls_in (fs_footprint (StatOp p)) (statFile h sid p)"
  unfolding statFile_def by (intro calls calls_in_stat) (auto intro: footprint_sftp fs_script_footprint)

lemma calls_in_listDirectory: "calls_in (fs_footprint (ListOp p n l)) (listDirectory h sid p n l)"
  unfolding listDirectory_def sftpReaddir_def
  by (intro calls calls_in_exec_fs) (auto intro: footprint_sftp fs_script_footprint)

lemma calls_in_makeDirectories: "calls_in (fs_footprint (MkdirOp p)) (makeDirectories h sid p)"
proof -
  have "calls_in (fs_footprint (MkdirOp p)) (sftpMkdirRecursive h p)"
    by (rule calls_in_weaken [OF calls_in_mkdir]) (rule footprint_sftp)
  then show ?thesis unfolding makeDirectories_def
    by (intro calls calls_in_exec_fs) (auto intro: fs_script_footprint)
qed

lemma calls_in_removeRecursive: "calls_in (fs_footprint (RemoveOp n p)) (removeRecursive n h sid p)"
proof -
  have "calls_in (fs_footprint (RemoveOp n p)) (sftpRmdirRecursive n h p)"
    by (rule calls_in_weaken [OF calls_in_rmdir]) (auto simp: rm_call_def fs_footprint_def)
  then show ?thesis unfolding removeRecursive_def sftpStat_def sftpUnlink_def
    by (intro calls calls_in_exec_fs) (auto simp: below_def intro: fs_script_footprint footprint_sftp)
qed

lemma calls_in_renameFile: "calls_in (fs_footprint (RenameOp a b)) (renameFile h sid a b)"
  unfolding renameFile_def sftpRename_def
  by (intro calls calls_in_exec_fs) (auto intro: fs_script_footprint footprint_sftp)

lemmas calls_in_fs_ops = calls_in_readFile calls_in_writeFile calls_in_statFile calls_in_listDirectory
  calls_in_makeDirectories calls_in_removeRecursive calls_in_renameFile

lemma calls_in_run_fs: "calls_in (fs_footprint op) (run_fs h cfg sid op)"
  by (cases op) (simp_all only: run_fs.simps drop_result_def, (intro calls calls_in_fs_ops)+)

subsection \<open>A refused operation\<close>

text \<open>A body that asks the policy first, and is refused.\<close>

lemma refused_session:
  assumes "h_session h (t_calls st) sid = Some s" and "h_policy h ctx = Inl e"
    and "\<And>st. body s st = cbind (assert_allowed h ctx) f st"
  shows "with_session h sid hint body st = (st, Inl (ToolError e))"
  using assms
  by (simp add: with_session_def getSession_def cmap_error_def assert_allowed_def cbind_def wrap_as_def as_thrown_def wrapError_def)

lemma run_fs_refused:
  assumes "h_session h (t_calls st) sid = Some s" and "h_policy h (fs_context op s) = Inl e"
  shows "run_fs h cfg sid op st = (st, Inl (ToolError e))"
  using assms
  by (cases op) (simp_all add: drop_result_def cbind_def readFile_def writeFile_def statFile_def listDirectory_def
      makeDirectories_def removeRecursive_def renameFile_def refused_session [where st = st and s = s] cseq_def Let_def)

section \<open>Properties\<close>

text \<open>The file tools do what the policy allows and no more. On a session in enforce mode, every call an
  operation makes on the host is one of its own (on the paths it was asked about, the temporary file beside the
  target of a write, or what lies below a removed directory; or a command that runs its script), whatever the
  host answers; and when the policy engine denies the operation, there is no call and the error is the policy's.\<close>
theorem fs_policy_enforced:
  assumes "h_policy h = (\<lambda>ctx. snd (assertAllowed rx lenv eng ctx))"
    and "h_session h (t_calls st) sid = Some s" and "ts_mode s = Enforce"
    and "run_fs h cfg sid op st = (st', r)"
  shows "\<exists>cs. t_calls st' = t_calls st @ cs \<and> list_all (fs_footprint op) cs \<and>
    (if allowed (evaluate rx lenv eng (fs_context op s)) then True
     else cs = [] \<and> (\<exists>e. r = Inl (ToolError e) \<and> err_code e = EPOLICY))"
proof (cases "allowed (evaluate rx lenv eng (fs_context op s))")
  case True
  then show ?thesis using calls_inD [OF calls_in_run_fs assms(4)] by simp
next
  case False
  have "ctx_mode (fs_context op s) = Some Enforce" using assms(3) by (cases op) (simp_all add: path_context_def tool_context_def)
  from policy_denied [OF False this] obtain e where e: "h_policy h (fs_context op s) = Inl e" "err_code e = EPOLICY"
    using assms(1) by auto
  then show ?thesis using False run_fs_refused [OF assms(2) e(1)] assms(4) by auto
qed

subsection \<open>Writing\<close>

lemma last_slash_split:
  "(case last_slash s of Some i \<Rightarrow> take (i + 1) s | None \<Rightarrow> '''') @ (case last_slash s of Some i \<Rightarrow> drop (i + 1) s | None \<Rightarrow> s) = s"
  by (auto split: option.splits)

lemma length_replace_all_single: "length (replace_all c [d] s) = length s"
  by (induction s) auto

lemma tempPathFor_longer: "length path < length (tempPathFor path uuid)"
proof -
  let ?n = "replace_all (CHR 0x5C) ''/'' path"
  have "length (case last_slash ?n of Some i \<Rightarrow> take (i + 1) ?n | None \<Rightarrow> '''') +
        length (case last_slash ?n of Some i \<Rightarrow> drop (i + 1) ?n | None \<Rightarrow> ?n) = length path"
    using arg_cong [OF last_slash_split [of ?n], of length] by (simp add: length_replace_all_single)
  then show ?thesis by (auto simp: tempPathFor_def Let_def)
qed

definition write_steps :: "string \<Rightarrow> string \<Rightarrow> string \<Rightarrow> nat option \<Rightarrow> host_call list" where
  "write_steps path t data mode =
     SftpWriteFile t data # (case mode of None \<Rightarrow> [] | Some m \<Rightarrow> [SftpChmod t m]) @ [SftpRename t path]"

lemma host_do_run: "host_do c f st = (st\<lparr>t_calls := t_calls st @ [c]\<rparr>, f (t_calls st))"
  by (simp add: host_do_def)

lemma write_body_steps:
  assumes "cseq (sftpWriteFile h t data)
       (cseq (case mode of None \<Rightarrow> creturn () | Some m \<Rightarrow> sftpChmod h t m)
       (cseq (sftpRename h t path) (record_metric g))) st = (st', r)"
  shows "\<exists>k \<le> length (write_steps path t data mode). 0 < k \<and> t_calls st' = t_calls st @ take k (write_steps path t data mode) \<and>
    (r = Inr () \<longrightarrow> k = length (write_steps path t data mode))"
  using assms
  by (cases mode)
    (auto simp: cseq_def cbind_def sftpWriteFile_def sftpRename_def sftpChmod_def host_do_run record_metric_def write_steps_def
      split: sum.splits intro: exI [of _ "1::nat"] exI [of _ "2::nat"] exI [of _ "3::nat"])

lemma write_via_temp_steps:
  assumes "write_via_temp h path t data mode st = (st', r)"
  shows "\<exists>k \<le> length (write_steps path t data mode). 0 < k \<and>
    t_calls st' = t_calls st @ take k (write_steps path t data mode) @ (if r = Inr () then [] else [SftpUnlink t]) \<and>
    (r = Inr () \<longrightarrow> k = length (write_steps path t data mode))"
proof -
  let ?body = "cseq (sftpWriteFile h t data)
       (cseq (case mode of None \<Rightarrow> creturn () | Some m \<Rightarrow> sftpChmod h t m)
       (cseq (sftpRename h t path) (record_metric (recordFileWrite (int (utf8_length data))))))"
  have unlink: "(cseq (ccatch (sftpUnlink h t) (\<lambda>_. creturn ())) (cthrow e) :: unit tool) s = (s\<lparr>t_calls := t_calls s @ [SftpUnlink t]\<rparr>, Inl e)"
    for e :: tool_error and s
    by (auto simp: cseq_def cbind_def ccatch_def sftpUnlink_def host_do_run split: sum.splits)
  obtain s1 q where b: "?body st = (s1, q)" by fastforce
  show ?thesis
  proof (cases q)
    case (Inr u)
    then have "st' = s1" "r = Inr ()" using assms b by (simp_all add: write_via_temp_def ccatch_def)
    then show ?thesis using write_body_steps [OF b] Inr by auto
  next
    case (Inl e)
    then have "st' = s1\<lparr>t_calls := t_calls s1 @ [SftpUnlink t]\<rparr>" "r = Inl e"
      using assms b unlink [of e s1] by (simp_all add: write_via_temp_def ccatch_def)
    then show ?thesis using write_body_steps [OF b] by auto
  qed
qed

lemma writeFile_writes:
  assumes "writeFile h cfg sid path data mode st = (st', r)"
    and "h_session h (t_calls st) sid = Some s" and "ts_sftp s"
    and "h_policy h (path_context FsWrite s path) = Inr d" and "dec_mode d = Enforce"
    and "int (utf8_length data) \<le> maxFileWriteBytes cfg"
    and "write_via_temp h path (tempPathFor path (h_uuid h (t_calls st))) data mode st = (s1, q)"
  shows "st' = s1 \<and> (case q of Inl e \<Rightarrow> \<exists>e. r = Inl (ToolError e) | Inr u \<Rightarrow> r = Inr True)"
  using assms
  by (cases q) (auto simp: writeFile_def with_session_def getSession_def cmap_error_def assert_allowed_def cbind_def cseq_def
      at_host_def Let_def wrap_as_def)

lemma writeFile_first_call:
  assumes "writeFile h cfg sid path data mode st = (st', r)"
    and "h_session h (t_calls st) sid = Some s" and "ts_sftp s"
    and "h_policy h (path_context FsWrite s path) = Inr d" and "dec_mode d = Enforce"
    and "int (utf8_length data) \<le> maxFileWriteBytes cfg"
  shows "\<exists>t cs. t_calls st' = t_calls st @ SftpWriteFile t data # cs"
proof -
  obtain s1 q where w: "write_via_temp h path (tempPathFor path (h_uuid h (t_calls st))) data mode st = (s1, q)" by fastforce
  from writeFile_writes [OF assms w] have "st' = s1" by simp
  with write_via_temp_steps [OF w] show ?thesis by (auto simp: write_steps_def gr0_conv_Suc)
qed


subsection \<open>Pages\<close>

lemma js_slice_take_drop: "0 \<le> a \<Longrightarrow> a \<le> b \<Longrightarrow> js_slice xs a b = take (nat (b - a)) (drop (nat a) xs)"
proof -
  assume ab: "0 \<le> a" "a \<le> b"
  let ?n = "int (length xs)"
  have "take (nat (min b ?n - min a ?n)) (drop (nat (min a ?n)) xs) = take (nat (b - a)) (drop (nat a) xs)"
  proof (cases "a \<le> ?n")
    case True
    then show ?thesis using ab by (cases "b \<le> ?n") (auto simp: min_def)
  qed (use ab in auto)
  then show ?thesis using ab by (simp add: js_slice_def Let_def)
qed

lemma page_of_nat: "page_of xs (int p) (int l) =
  (take l (drop (p * l) xs), if Suc p * l < length xs then Some (show_int (int p + 1)) else None)"
proof -
  have "js_slice xs (int p * int l) (int p * int l + int l) = take l (drop (p * l) xs)"
    by (subst js_slice_take_drop) (simp_all add: nat_mult_distrib)
  moreover have "int p * int l + int l < int (length xs) \<longleftrightarrow> Suc p * l < length xs"
    by (simp flip: of_nat_mult of_nat_add add: algebra_simps)
  ultimately show ?thesis by (simp add: page_of_def Let_def)
qed

lemma pages_take: "concat (map (\<lambda>p. take l (drop (p * l) xs)) [0..<n]) = take (n * l) xs"
proof (induction n)
  case (Suc n)
  have "take (Suc n * l) xs = take (n * l) xs @ take l (drop (n * l) xs)" by (simp add: add.commute [of l] take_add)
  then show ?case using Suc by simp
qed simp

text \<open>Pages lose and repeat nothing. For a positive limit, the pages \<open>0\<close> to \<open>n\<close> of a listing, where \<open>n\<close> is
  the first page without a token for the next one, are in order exactly the entries; every page before \<open>n\<close> is
  full and names the next one; and there is such an \<open>n\<close>, so a client that follows the tokens comes to an end.\<close>
theorem listing_pages_complete:
  assumes "0 < l"
  shows "\<exists>n. concat (map (\<lambda>p. fst (page_of xs (int p) (int l))) [0..<Suc n]) = xs \<and>
    snd (page_of xs (int n) (int l)) = None \<and>
    list_all (\<lambda>p. snd (page_of xs (int p) (int l)) = Some (show_int (int p + 1)) \<and> length (fst (page_of xs (int p) (int l))) = l) [0..<n]"
proof -
  define n where "n = (length xs - 1) div l"
  have n: "length xs \<le> Suc n * l"
  proof (cases "length xs")
    case (Suc m)
    have "m < Suc (m div l) * l" using assms dividend_less_div_times [of l m] by simp
    then show ?thesis by (simp add: n_def Suc)
  qed simp
  have full: "Suc p * l < length xs \<and> l \<le> length xs - p * l" if "p < n" for p
  proof -
    have "Suc p * l \<le> n * l" using that by (intro mult_le_mono1) simp
    also have "n * l \<le> length xs - 1" by (simp add: n_def)
    finally have "Suc p * l \<le> length xs - 1" .
    moreover have "0 < Suc p * l" using assms by simp
    ultimately have "Suc p * l < length xs" by linarith
    then show ?thesis by simp
  qed
  have "concat (map (\<lambda>p. fst (page_of xs (int p) (int l))) [0..<Suc n]) = take (Suc n * l) xs"
    unfolding page_of_nat fst_conv by (rule pages_take)
  then show ?thesis using n full by (intro exI [of _ n]) (auto simp: page_of_nat list_all_iff)
qed

theorem listing_pages_complete_witness:
  "\<exists>n. concat (map (\<lambda>p. fst (page_of ''abcde'' (int p) (int 2))) [0..<Suc n]) = ''abcde''"
  using listing_pages_complete [of 2 "''abcde''"] by auto

subsection \<open>Removing a tree\<close>

text \<open>A tree of files and directories with their names and attributes, a host that lists it and grants the
  removals, and the calls that remove it, contents first.\<close>

datatype rtree = RFile | RDir "(string \<times> file_attrs \<times> rtree) list"

fun rdepth :: "rtree \<Rightarrow> nat" where
  "rdepth RFile = 0"
| "rdepth (RDir es) = Suc (Max (set (0 # map (\<lambda>(f, a, t). rdepth t) es)))"

fun is_rdir :: "rtree \<Rightarrow> bool" where
  "is_rdir RFile = False"
| "is_rdir (RDir es) = True"

fun holds_tree :: "host \<Rightarrow> string \<Rightarrow> rtree \<Rightarrow> bool" where
  "holds_tree h p RFile = (\<forall>cs. h_unlink h cs p = Inr ())"
| "holds_tree h p (RDir es) =
     ((\<forall>cs. h_readdir h cs p = Inr (map (\<lambda>(f, a, t). (f, a)) es) \<and> h_rmdir h cs p = Inr ()) \<and>
      (\<forall>(f, a, t) \<in> set es. is_dir_mode (or_else (fa_mode a) 0) = is_rdir t \<and> holds_tree h (p @ ''/'' @ f) t))"

fun rm_trace :: "string \<Rightarrow> rtree \<Rightarrow> host_call list" where
  "rm_trace p RFile = [SftpUnlink p]"
| "rm_trace p (RDir es) = SftpReaddir p # concat (map (\<lambda>(f, a, t). rm_trace (p @ ''/'' @ f) t) es) @ [SftpRmdir p]"

definition adds_calls :: "history \<Rightarrow> unit tool \<Rightarrow> bool" where
  "adds_calls cs m \<longleftrightarrow> (\<forall>st. m st = (st\<lparr>t_calls := t_calls st @ cs\<rparr>, Inr ()))"

lemma adds_cseq: "adds_calls cs m \<Longrightarrow> adds_calls ds n \<Longrightarrow> adds_calls (cs @ ds) (cseq m n)"
  by (simp add: adds_calls_def)

lemma rdepth_entry: "(f, a, t) \<in> set es \<Longrightarrow> rdepth (RDir es) \<le> Suc n \<Longrightarrow> rdepth t \<le> n"
  by (auto dest: bspec)

lemma rm_entries_adds:
  assumes "\<forall>(f, a, t) \<in> set es. is_dir_mode (or_else (fa_mode a) 0) = is_rdir t \<and>
      (if is_rdir t then adds_calls (rm_trace (p @ ''/'' @ f) t) (rmdir (p @ ''/'' @ f)) else holds_tree h (p @ ''/'' @ f) t)"
  shows "adds_calls (concat (map (\<lambda>(f, a, t). rm_trace (p @ ''/'' @ f) t) es)) (rm_entries h rmdir p (map (\<lambda>(f, a, t). (f, a)) es))"
  using assms
proof (induction es)
  case Nil
  then show ?case by (simp add: adds_calls_def)
next
  case (Cons e es)
  obtain f a t where e: "e = (f, a, t)" by (cases e)
  have "adds_calls (rm_trace (p @ ''/'' @ f) t)
      (if is_dir_mode (or_else (fa_mode a) 0) then rmdir (p @ ''/'' @ f) else sftpUnlink h (p @ ''/'' @ f))"
    using Cons.prems by (cases t) (auto simp: e adds_calls_def sftpUnlink_def host_do_run)
  from adds_cseq [OF this Cons.IH] Cons.prems
  show ?case unfolding e list.map prod.case concat.simps rm_entries.simps Let_def by simp
qed

lemma sftpRmdirRecursive_adds:
  "rdepth (RDir es) \<le> n \<Longrightarrow> holds_tree h p (RDir es) \<Longrightarrow> adds_calls (rm_trace p (RDir es)) (sftpRmdirRecursive n h p)"
proof (induction n arbitrary: p es)
  case 0
  then show ?case by simp
next
  case (Suc n)
  have "\<forall>(f, a, t) \<in> set es. is_dir_mode (or_else (fa_mode a) 0) = is_rdir t \<and>
      (if is_rdir t then adds_calls (rm_trace (p @ ''/'' @ f) t) (sftpRmdirRecursive n h (p @ ''/'' @ f)) else holds_tree h (p @ ''/'' @ f) t)"
  proof (clarify, intro conjI)
    fix f a t
    assume m: "(f, a, t) \<in> set es"
    show "is_dir_mode (or_else (fa_mode a) 0) = is_rdir t" using Suc.prems(2) m by auto
    show "if is_rdir t then adds_calls (rm_trace (p @ ''/'' @ f) t) (sftpRmdirRecursive n h (p @ ''/'' @ f)) else holds_tree h (p @ ''/'' @ f) t"
    proof (cases t)
      case (RDir ds)
      then show ?thesis using Suc.IH [of ds "p @ ''/'' @ f"] rdepth_entry [OF m Suc.prems(1)] Suc.prems(2) m by auto
    qed (use Suc.prems(2) m in auto)
  qed
  from rm_entries_adds [OF this]
  have "adds_calls (concat (map (\<lambda>(f, a, t). rm_trace (p @ ''/'' @ f) t) es) @ [SftpRmdir p])
      (cseq (rm_entries h (sftpRmdirRecursive n h) p (map (\<lambda>(f, a, t). (f, a)) es)) (sftpRmdir h p))"
    by (rule adds_cseq) (use Suc.prems(2) in \<open>simp add: adds_calls_def sftpRmdir_def host_do_run\<close>)
  then show ?case using Suc.prems(2) by (simp add: adds_calls_def cbind_def sftpReaddir_def host_do_run)
qed

text \<open>C33: Removing a directory tree comes to an end and removes all of it. On a host that lists a tree of some
  depth and grants the removals, an allowed \<open>removeRecursive\<close> on a directory returns, having removed every file
  and directory of the tree once, each directory after its contents.\<close>
theorem removeRecursive_complete:
  assumes "h_session h (t_calls st) sid = Some s" and "ts_sftp s"
    and "h_policy h ((path_context FsRemove s path)\<lparr>ctx_destructive := True\<rparr>) = Inr d" and "dec_mode d = Enforce"
    and "h_stat h (t_calls st) path = Inr a" and "is_dir_mode (or_else (fa_mode a) 0)"
    and "holds_tree h path (RDir es)" and "rdepth (RDir es) \<le> depth"
  shows "\<exists>st'. removeRecursive depth h sid path st = (st', Inr True) \<and>
    t_calls st' = t_calls st @ SftpStat path # rm_trace path (RDir es)"
proof -
  have "sftpRmdirRecursive depth h path st1 = (st1\<lparr>t_calls := t_calls st1 @ rm_trace path (RDir es)\<rparr>, Inr ())" for st1
    using sftpRmdirRecursive_adds [OF assms(8,7)] by (simp add: adds_calls_def)
  then show ?thesis
    using assms(1-6) by (simp add: removeRecursive_def with_session_def getSession_def cmap_error_def assert_allowed_def cbind_def
        cseq_def sftpStat_def host_do_run record_metric_def)
qed

subsection \<open>Witnesses\<close>

definition demo_fs :: fs_config where
  "demo_fs = \<lparr>maxFileSize = 100, maxFileWriteBytes = 100\<rparr>"

theorem fs_policy_enforced_witness:
  "\<exists>cs. t_calls (fst (run_fs demo_host demo_fs ''s'' (WriteOp ''/etc/x'' ''d'' None) demo_tool_state)) = t_calls demo_tool_state @ cs \<and> cs = []"
proof -
  have p: "h_policy demo_host = (\<lambda>ctx. snd (assertAllowed (\<lambda>_. None) sample_env sample_engine ctx))" by (simp add: demo_host_def)
  have "\<not> allowed (evaluate (\<lambda>_. None) sample_env sample_engine (fs_context (WriteOp ''/etc/x'' ''d'' None) demo_session))" by code_simp
  then show ?thesis
    using fs_policy_enforced [OF p demo_host_session _ prod.collapse [symmetric], of demo_fs "WriteOp ''/etc/x'' ''d'' None"] by auto
qed


theorem removeRecursive_complete_witness:
  "\<exists>st'. removeRecursive 1 demo_host ''s'' ''/tmp/d'' demo_tool_state = (st', Inr True) \<and>
    t_calls st' = t_calls demo_tool_state @ SftpStat ''/tmp/d'' # rm_trace ''/tmp/d'' (RDir [(''f'', demo_attrs 32768, RFile)])"
proof -
  have s: "ts_sftp demo_session" by simp
  have p: "h_policy demo_host ((path_context FsRemove demo_session ''/tmp/d'')\<lparr>ctx_destructive := True\<rparr>) = Inr (allowed_decision Enforce FsRemove)"
    by (rule demo_host_policy, code_simp)
  have a: "h_stat demo_host (t_calls demo_tool_state) ''/tmp/d'' = Inr (demo_attrs 16384)" by (simp add: demo_host_def)
  have m: "is_dir_mode (or_else (fa_mode (demo_attrs 16384)) 0)" by (simp add: is_dir_mode_def demo_attrs_def)
  have t: "holds_tree demo_host ''/tmp/d'' (RDir [(''f'', demo_attrs 32768, RFile)])"
    by (simp add: demo_host_def demo_attrs_def is_dir_mode_def)
  show ?thesis by (rule removeRecursive_complete [OF demo_host_session s p dec_mode_allowed a m t]) simp
qed

end
