(* ===== verification/Processes.thy ===== *)
theory Processes
  imports HostTools
begin

text \<open>
  Commands on a session (\<open>src/process.ts\<close>, \<open>src/streaming.ts\<close>): the policy's decision, the time limit, the
  bounds on output, plain and streamed. In explain mode a result holds the plan that the code prints as JSON.
  Durations and timestamps are left out.
\<close>

section \<open>Output bounds\<close>

definition char_bytes :: "char \<Rightarrow> nat" where
  "char_bytes c = (if (of_char c :: nat) < 128 then 1 else 2)"

text \<open>The loop over the characters that fit.\<close>

fun fit_chars :: "nat \<Rightarrow> string \<Rightarrow> string" where
  "fit_chars budget [] = []"
| "fit_chars budget (c # s) = (if budget < char_bytes c then [] else c # fit_chars (budget - char_bytes c) s)"

definition truncation_marker :: "int \<Rightarrow> string" where
  "truncation_marker maxBytes = [CHR 0x0A] @ ''[ssh-mcp-tool: output truncated after '' @ show_int maxBytes @ '' bytes]'' @ [CHR 0x0A]"

definition truncateText :: "string \<Rightarrow> int \<Rightarrow> string" where
  "truncateText value maxBytes =
     (if int (utf8_length value) \<le> maxBytes then value
      else let marker = truncation_marker maxBytes; budget = max 0 (maxBytes - int (utf8_length marker)) in
        fit_chars (nat budget) value @ marker)"

definition appendBounded :: "string \<Rightarrow> string \<Rightarrow> int \<Rightarrow> string \<times> bool" where
  "appendBounded current data maxBytes =
     (let remaining = maxBytes - int (utf8_length current) in
      if remaining \<le> 0 then (current, data \<noteq> [])
      else if int (utf8_length data) \<le> remaining then (current @ data, False)
      else (current @ fit_chars (nat remaining) data, True))"

section \<open>Commands\<close>

record proc_config =
  commandTimeoutMs :: int
  maxCommandOutputBytes :: int
  maxStreamChunks :: nat

datatype exec_result = ExecDone int string string | ExecPlan string bool PolicyDecision

fun result_code :: "exec_result \<Rightarrow> int" where
  "result_code (ExecDone code out err) = code"
| "result_code (ExecPlan command sudo decision) = 0"

fun result_stderr :: "exec_result \<Rightarrow> string" where
  "result_stderr (ExecDone code out err) = err"
| "result_stderr (ExecPlan command sudo decision) = ''''"

definition execWithTimeout :: "host \<Rightarrow> string \<Rightarrow> int \<Rightarrow> string \<Rightarrow> exec_answer tool" where
  "execWithTimeout h command timeoutMs label =
     cbind (at_host (\<lambda>cs. h_late h cs command timeoutMs)) (\<lambda>late.
     if late then cseq (host_do (ExecCommand command) (\<lambda>cs. Inr ()))
       (fail_tool (createTimeoutError (label @ '' timed out after '' @ show_int timeoutMs @ ''ms'') (Some ''Increase timeout or optimize the command'')))
     else ssh_exec h command)"

definition command_context :: "PolicyAction \<Rightarrow> tool_session \<Rightarrow> string \<Rightarrow> PolicyContext" where
  "command_context action s command = (tool_context action (ts_mode s))\<lparr>ctx_command := Some command\<rparr>"

definition lift_result :: "string + 'a \<Rightarrow> 'a tool" where
  "lift_result r = (case r of Inl m \<Rightarrow> cthrow (JsError None m) | Inr x \<Rightarrow> creturn x)"

definition bounded_result :: "proc_config \<Rightarrow> exec_answer \<Rightarrow> exec_result" where
  "bounded_result cfg result =
     ExecDone (or_else (ea_code result) 0) (truncateText (ea_stdout result) (maxCommandOutputBytes cfg))
       (truncateText (ea_stderr result) (maxCommandOutputBytes cfg))"

text \<open>An \<open>ETIMEOUT\<close> error is thrown again, anything else wrapped.\<close>

definition exec_failure :: "tool_error \<Rightarrow> tool_error" where
  "exec_failure e = wrap_as ECONN ''Failed to execute command on remote system'' e"

definition execCommand :: "host \<Rightarrow> proc_config \<Rightarrow> string \<Rightarrow> string \<Rightarrow> string option \<Rightarrow> environment \<Rightarrow> int option \<Rightarrow> exec_result tool" where
  "execCommand h cfg sid command cwd env timeoutMs =
     cbind (getSession h sid) (\<lambda>session.
       case session of
         None \<Rightarrow> cthrow (session_missing sid)
       | Some s \<Rightarrow>
           cbind (assert_allowed h (command_context ProcExec s command)) (\<lambda>decision.
             if dec_mode decision = Explain then creturn (ExecPlan command False decision)
             else
               cbind (getOSInfo h sid) (\<lambda>osInfo.
                 let effectiveTimeoutMs = or_else timeoutMs (commandTimeoutMs cfg) in
                 cmap_error
                   (cbind (lift_result (buildRemoteCommandWithTimeout command osInfo effectiveTimeoutMs cwd env)) (\<lambda>shellCommand.
                    cbind (execWithTimeout h shellCommand effectiveTimeoutMs ''Command'') (\<lambda>result.
                      if or_else (ea_code result) 0 \<in> {124, 137, 143} then
                        fail_tool (createTimeoutError
                          (''Command timed out after '' @ show_int effectiveTimeoutMs @ ''ms and remote termination was requested'')
                          (Some ''Increase timeout or optimize the command''))
                      else creturn (bounded_result cfg result))))
                   exec_failure)))"

record SudoPolicyOptions =
  so_policyAction :: "PolicyAction option"
  so_rawSudo :: "bool option"
  so_path :: "string option"
  so_destructive :: "bool option"

definition sudo_context :: "SudoPolicyOptions \<Rightarrow> tool_session \<Rightarrow> string \<Rightarrow> PolicyContext" where
  "sudo_context opts s command =
     (command_context (or_else (so_policyAction opts) ProcSudo) s command)
       \<lparr>ctx_rawSudo := or_else (so_rawSudo opts) True, ctx_path := (if truthy (so_path opts) then so_path opts else None),
        ctx_destructive := or_else (so_destructive opts) False\<rparr>"

text \<open>The words by which a failed \<open>sudo\<close> is recognised.\<close>

definition sudo_refused :: "string \<Rightarrow> bool" where
  "sudo_refused stderr =
     (let low = toLowerCase stderr in
      js_includes low ''password'' \<or> js_includes low ''authentication'' \<or> js_includes low (''sor'' @ ''ry''))"

definition error_text :: "tool_error \<Rightarrow> string" where
  "error_text e = thrown_message (as_thrown e)"

definition sudo_failure :: "tool_error \<Rightarrow> tool_error" where
  "sudo_failure e =
     (if (case e of ToolError s \<Rightarrow> err_code s = ETIMEOUT | JsError _ _ \<Rightarrow> False) then e
      else if js_includes (error_text e) ''sudo'' then e
      else wrap_as ENOSUDO ''Failed to execute sudo command on remote system'' e)"

definition execSudo :: "host \<Rightarrow> proc_config \<Rightarrow> string \<Rightarrow> string \<Rightarrow> string option \<Rightarrow> string option \<Rightarrow> int option \<Rightarrow> SudoPolicyOptions \<Rightarrow> exec_result tool" where
  "execSudo h cfg sid command password cwd timeoutMs opts =
     cbind (getSession h sid) (\<lambda>session.
       case session of
         None \<Rightarrow> cthrow (session_missing sid)
       | Some s \<Rightarrow>
           cbind (assert_allowed h (sudo_context opts s command)) (\<lambda>decision.
             if dec_mode decision = Explain then creturn (ExecPlan command True decision)
             else
               cbind (getOSInfo h sid) (\<lambda>osInfo.
                 if platform osInfo = Windows then
                   fail_tool (createSudoError ''Sudo is not supported on Windows hosts'' (Some ''Use an elevated session instead of sudo commands''))
                 else
                   let effectiveTimeoutMs = or_else timeoutMs (commandTimeoutMs cfg) in
                   cmap_error
                     (cseq (cthrow_if (password \<noteq> None) (ToolError (createSudoError ''Password-based sudo through MCP inputs is disabled''
                             (Some ''Configure a restricted NOPASSWD sudoers allowlist for approved commands.''))))
                     (cbind (lift_result (buildSudoCommand command osInfo cwd)) (\<lambda>fullCommand.
                      cbind (execWithTimeout h fullCommand effectiveTimeoutMs ''Sudo command'') (\<lambda>result.
                        if or_else (ea_code result) 0 \<noteq> 0 \<and> ea_stderr result \<noteq> [] \<and> sudo_refused (ea_stderr result) then
                          fail_tool (createSudoError ''Sudo authentication failed''
                            (Some ''Configure a restricted NOPASSWD sudoers profile for approved commands.''))
                        else creturn (bounded_result cfg result)))))
                     sudo_failure)))"

definition commandExists :: "host \<Rightarrow> proc_config \<Rightarrow> string \<Rightarrow> string \<Rightarrow> bool tool" where
  "commandExists h cfg sid command =
     ccatch (cbind (execCommand h cfg sid (''which '' @ command) None [] None) (\<lambda>result. creturn (result_code result = 0)))
       (\<lambda>_. creturn False)"

fun first_shell :: "host \<Rightarrow> proc_config \<Rightarrow> string \<Rightarrow> string list \<Rightarrow> string tool" where
  "first_shell h cfg sid [] = creturn ''sh''"
| "first_shell h cfg sid (sh # shells) =
     cbind (commandExists h cfg sid sh) (\<lambda>found. if found then creturn sh else first_shell h cfg sid shells)"

definition getAvailableShell :: "host \<Rightarrow> proc_config \<Rightarrow> string \<Rightarrow> string tool" where
  "getAvailableShell h cfg sid = first_shell h cfg sid [''bash'', ''zsh'', ''sh'']"

section \<open>Streams\<close>

datatype stream_chunk = StdoutChunk string | StderrChunk string | TruncatedChunk string | ExitChunk int

record stream_state =
  st_chunks :: "stream_chunk list"
  st_stdout :: string
  st_stderr :: string
  st_truncated :: bool

definition on_output :: "proc_config \<Rightarrow> bool \<times> string \<Rightarrow> stream_state \<Rightarrow> stream_state" where
  "on_output cfg piece s =
     (let (out, data) = piece;
          bounded = appendBounded (if out then st_stdout s else st_stderr s) data (maxCommandOutputBytes cfg);
          s' = (if out then s\<lparr>st_stdout := fst bounded\<rparr> else s\<lparr>st_stderr := fst bounded\<rparr>)
      in s'\<lparr>st_truncated := (st_truncated s \<or> snd bounded \<or> maxStreamChunks cfg \<le> length (st_chunks s)),
            st_chunks := (if length (st_chunks s) < maxStreamChunks cfg \<and> \<not> snd bounded
                          then st_chunks s @ [if out then StdoutChunk data else StderrChunk data] else st_chunks s)\<rparr>)"

definition new_stream :: stream_state where
  "new_stream = \<lparr>st_chunks = [], st_stdout = [], st_stderr = [], st_truncated = False\<rparr>"

definition stream_end :: "int \<Rightarrow> stream_state \<Rightarrow> stream_state" where
  "stream_end code s =
     s\<lparr>st_chunks := st_chunks s @ (if st_truncated s then [TruncatedChunk ''Output exceeded configured streaming limits''] else []) @ [ExitChunk code]\<rparr>"

datatype stream_result = StreamDone int stream_state | StreamPlan string PolicyDecision

definition execWithStreaming :: "host \<Rightarrow> proc_config \<Rightarrow> string \<Rightarrow> string \<Rightarrow> string option \<Rightarrow> environment \<Rightarrow> int option \<Rightarrow> stream_result tool" where
  "execWithStreaming h cfg sid command cwd env timeoutMs =
     cbind (getSession h sid) (\<lambda>session.
       case session of
         None \<Rightarrow> cthrow (session_missing sid)
       | Some s \<Rightarrow>
           cbind (assert_allowed h (command_context ProcExec s command)) (\<lambda>decision.
             if dec_mode decision = Explain then creturn (StreamPlan command decision)
             else
               cbind (getOSInfo h sid) (\<lambda>osInfo.
               cbind (lift_result (buildRemoteCommand command osInfo cwd env)) (\<lambda>shellCommand.
                 let limit = or_else timeoutMs (commandTimeoutMs cfg) in
                 cbind (at_host (\<lambda>cs. (h_late h cs shellCommand limit, h_chunks h cs shellCommand))) (\<lambda>(late, pieces).
                   if late then cseq (host_do (ExecCommand shellCommand) (\<lambda>cs. Inr ()))
                     (fail_tool (createTimeoutError (''Streaming command timed out after '' @ show_int limit @ ''ms'')
                       (Some ''Increase timeout or use a shorter streaming command.'')))
                   else cbind (ssh_exec h shellCommand) (\<lambda>result.
                     let code = or_else (ea_code result) 0 in
                     creturn (StreamDone code (stream_end code (fold (on_output cfg) pieces new_stream)))))))))"

fun chunk_text :: "stream_chunk \<Rightarrow> string" where
  "chunk_text (StdoutChunk d) = d"
| "chunk_text (StderrChunk d) = d"
| "chunk_text (TruncatedChunk d) = ''''"
| "chunk_text (ExitChunk c) = ''''"

definition formatStreamOutput :: "stream_chunk list \<Rightarrow> string" where
  "formatStreamOutput chunks = concat (map chunk_text chunks)"

section \<open>Lemmas on bounds\<close>

lemma utf8_length_simps [simp]:
  "utf8_length [] = 0"
  "utf8_length (c # s) = char_bytes c + utf8_length s"
  "utf8_length (s @ t) = utf8_length s + utf8_length t"
  by (simp_all add: utf8_length_def char_bytes_def)

lemma fit_chars_bound: "utf8_length (fit_chars n s) \<le> n"
  by (induction n s rule: fit_chars.induct) auto

lemma fit_chars_prefix: "prefix (fit_chars n s) s"
  by (induction n s rule: fit_chars.induct) auto

lemma appendBounded_bound:
  assumes "int (utf8_length cur) \<le> m"
  shows "int (utf8_length (fst (appendBounded cur d m))) \<le> m"
  using fit_chars_bound [of "nat (m - int (utf8_length cur))" d] assms by (auto simp: appendBounded_def Let_def)

lemma appendBounded_full: "snd (appendBounded cur d m) = False \<Longrightarrow> fst (appendBounded cur d m) = cur @ d"
  by (auto simp: appendBounded_def Let_def split: if_splits)

section \<open>Who may run what\<close>

datatype proc_op = ExecOp string "string option" environment "int option"
  | SudoOp string "string option" "string option" "int option" SudoPolicyOptions
  | StreamOp string "string option" environment "int option"

fun proc_context :: "proc_op \<Rightarrow> tool_session \<Rightarrow> PolicyContext" where
  "proc_context (ExecOp c w e t) s = command_context ProcExec s c"
| "proc_context (SudoOp c p w t opts) s = sudo_context opts s c"
| "proc_context (StreamOp c w e t) s = command_context ProcExec s c"

fun run_proc :: "host \<Rightarrow> proc_config \<Rightarrow> string \<Rightarrow> proc_op \<Rightarrow> unit tool" where
  "run_proc h cfg sid (ExecOp c w e t) = cbind (execCommand h cfg sid c w e t) (\<lambda>_. creturn ())"
| "run_proc h cfg sid (SudoOp c p w t opts) = cbind (execSudo h cfg sid c p w t opts) (\<lambda>_. creturn ())"
| "run_proc h cfg sid (StreamOp c w e t) = cbind (execWithStreaming h cfg sid c w e t) (\<lambda>_. creturn ())"

text \<open>The line an operation runs.\<close>

fun proc_line :: "proc_config \<Rightarrow> proc_op \<Rightarrow> string \<Rightarrow> bool" where
  "proc_line cfg (ExecOp c w e t) line = (\<exists>os. buildRemoteCommandWithTimeout c os (or_else t (commandTimeoutMs cfg)) w e = Inr line)"
| "proc_line cfg (SudoOp c p w t opts) line = (p = None \<and> (\<exists>os. platform os \<noteq> Windows \<and> buildSudoCommand c os w = Inr line))"
| "proc_line cfg (StreamOp c w e t) line = (\<exists>os. buildRemoteCommand c os w e = Inr line)"

definition at_most_one :: "(host_call \<Rightarrow> bool) \<Rightarrow> 'a tool \<Rightarrow> bool" where
  "at_most_one P m \<longleftrightarrow> (\<forall>st. t_calls (fst (m st)) = t_calls st \<or> (\<exists>c. P c \<and> t_calls (fst (m st)) = t_calls st @ [c]))"

named_theorems one_call \<open>rules for operations that make at most one call\<close>

lemma at_most_one_bind_pure [one_call]:
  assumes "\<And>st. t_calls (fst (m st)) = t_calls st" and "\<And>x st. snd (m st) = Inr x \<Longrightarrow> at_most_one P (f x)"
  shows "at_most_one P (cbind m f)"
  unfolding at_most_one_def
proof
  fix st
  obtain st' r where m: "m st = (st', r)" by fastforce
  then have c: "t_calls st' = t_calls st" using assms(1) [of st] by simp
  show "t_calls (fst (cbind m f st)) = t_calls st \<or> (\<exists>c. P c \<and> t_calls (fst (cbind m f st)) = t_calls st @ [c])"
  proof (cases r)
    case (Inr x)
    then show ?thesis using m c assms(2) [of st x] by (auto simp: at_most_one_def cbind_def dest!: spec [of _ st'])
  qed (use m c in simp)
qed

lemma at_most_one_last [one_call]:
  assumes "at_most_one P m" and "\<And>x st. t_calls (fst (f x st)) = t_calls st"
  shows "at_most_one P (cbind m f)"
  unfolding at_most_one_def
proof
  fix st
  obtain st' r where m: "m st = (st', r)" by fastforce
  have "t_calls (fst (cbind m f st)) = t_calls st'" using m assms(2) by (cases r) simp_all
  then show "t_calls (fst (cbind m f st)) = t_calls st \<or> (\<exists>c. P c \<and> t_calls (fst (cbind m f st)) = t_calls st @ [c])"
    using assms(1) m by (auto simp: at_most_one_def dest!: spec [of _ st])
qed

lemma at_most_one_fixed: "(\<And>st. t_calls (fst (m st)) = t_calls st) \<Longrightarrow> at_most_one P m"
  by (simp add: at_most_one_def)

lemma at_most_one_map_error [one_call]: "at_most_one P m \<Longrightarrow> at_most_one P (cmap_error m f)"
proof -
  have "fst (cmap_error m f st) = fst (m st)" for st
    by (cases "m st", cases "snd (m st)") (auto simp: cmap_error_def)
  then show "at_most_one P m \<Longrightarrow> at_most_one P (cmap_error m f)" by (simp add: at_most_one_def)
qed

lemma execWithTimeout_one: "P (ExecCommand c) \<Longrightarrow> at_most_one P (execWithTimeout h c t label)"
  by (auto simp: at_most_one_def execWithTimeout_def at_host_def ssh_exec_def host_do_def fail_tool_def cbind_def cseq_def)

lemma pure_calls [simp]:
  "t_calls (fst (getSession h sid st)) = t_calls st" "t_calls (fst (getOSInfo h sid st)) = t_calls st"
  "t_calls (fst (assert_allowed h ctx st)) = t_calls st" "t_calls (fst (lift_result r st)) = t_calls st"
  "t_calls (fst (at_host f st)) = t_calls st" "t_calls (fst (fail_tool e st)) = t_calls st"
  by (auto simp: getSession_def getOSInfo_def assert_allowed_def lift_result_def at_host_def fail_tool_def split: sum.splits)

lemma lift_result_ok [simp]: "snd (lift_result r st) = Inr x \<longleftrightarrow> r = Inr x"
  by (cases r) (simp_all add: lift_result_def)

lemma at_most_one_exec:
  assumes "P (ExecCommand c)" and "\<And>x st. t_calls (fst (f x st)) = t_calls st"
  shows "at_most_one P (cbind (execWithTimeout h c t label) f)"
  using at_most_one_last [OF execWithTimeout_one [of P, OF assms(1)] assms(2)] .

lemma at_most_one_option: "at_most_one P m \<Longrightarrow> (\<And>x. at_most_one P (f x)) \<Longrightarrow> at_most_one P (case v of None \<Rightarrow> m | Some x \<Rightarrow> f x)"
  by (cases v) auto

lemma at_most_one_if: "(b \<Longrightarrow> at_most_one P m) \<Longrightarrow> (\<not> b \<Longrightarrow> at_most_one P n) \<Longrightarrow> at_most_one P (if b then m else n)"
  by simp

lemma at_most_one_pure: "at_most_one P (creturn x)" "at_most_one P (cthrow e)" "at_most_one P (fail_tool s)"
  by (auto intro: at_most_one_fixed)

lemmas one_call_rules = at_most_one_option at_most_one_if at_most_one_pure at_most_one_exec at_most_one_map_error at_most_one_bind_pure

lemma execCommand_one: "at_most_one (\<lambda>x. \<exists>line. proc_line cfg (ExecOp c w e t) line \<and> x = ExecCommand line) (execCommand h cfg sid c w e t)"
  unfolding execCommand_def Let_def by (rule one_call_rules | force)+

lemma execSudo_one:
  "at_most_one (\<lambda>x. \<exists>line. proc_line cfg (SudoOp c p w t opts) line \<and> x = ExecCommand line) (execSudo h cfg sid c p w t opts)"
proof (cases "p = None")
  case True
  show ?thesis unfolding execSudo_def Let_def cseq_def True by (rule one_call_rules | force)+
next
  case False
  then have "t_calls (fst (execSudo h cfg sid c p w t opts st)) = t_calls st" for st
    by (auto simp: execSudo_def getSession_def assert_allowed_def getOSInfo_def cbind_def cseq_def cmap_error_def fail_tool_def Let_def
        split: option.splits sum.splits)
  then show ?thesis by (rule at_most_one_fixed)
qed

lemma stream_exec_one:
  assumes "P (ExecCommand c)" and "\<And>pieces x st. t_calls (fst (g pieces x st)) = t_calls st"
  shows "at_most_one P (cbind (at_host f) (\<lambda>(late, pieces).
    if late then cseq (host_do (ExecCommand c) (\<lambda>cs. Inr ())) (fail_tool e) else cbind (ssh_exec h c) (g pieces)))"
  using assms
  by (auto simp: at_most_one_def at_host_def ssh_exec_def host_do_def fail_tool_def cbind_def cseq_def split: prod.splits sum.splits)

lemma execWithStreaming_one:
  "at_most_one (\<lambda>x. \<exists>line. proc_line cfg (StreamOp c w e t) line \<and> x = ExecCommand line) (execWithStreaming h cfg sid c w e t)"
  unfolding execWithStreaming_def Let_def by (rule stream_exec_one one_call_rules | force)+

lemma run_proc_one: "at_most_one (\<lambda>x. \<exists>line. proc_line cfg op line \<and> x = ExecCommand line) (run_proc h cfg sid op)"
  by (cases op) (auto simp only: run_proc.simps intro!: at_most_one_last execCommand_one execSudo_one execWithStreaming_one creturn_run, simp_all)

lemma run_proc_refused:
  assumes "h_session h (t_calls st) sid = Some s" and "h_policy h (proc_context op s) = Inl e"
  shows "run_proc h cfg sid op st = (st, Inl (ToolError e))"
  using assms
  by (cases op) (simp_all add: cbind_def getSession_def assert_allowed_def execCommand_def execSudo_def execWithStreaming_def)

section \<open>Properties\<close>

text \<open>A command runs on a host only if the policy engine allows it. On a session in enforce mode, running a
  command, a \<open>sudo\<close> command or a streamed command makes at most one call on the host, and that runs the line the
  builder makes of exactly this command; with a password for \<open>sudo\<close> there is none; and when the engine denies
  the context of the operation there is none and the error is the policy's.\<close>
theorem command_policy_enforced:
  assumes "h_policy h = (\<lambda>ctx. snd (assertAllowed rx lenv eng ctx))"
    and "h_session h (t_calls st) sid = Some s" and "ts_mode s = Enforce"
    and "run_proc h cfg sid op st = (st', r)"
  shows "if allowed (evaluate rx lenv eng (proc_context op s))
    then t_calls st' = t_calls st \<or> (\<exists>line. proc_line cfg op line \<and> t_calls st' = t_calls st @ [ExecCommand line])
    else t_calls st' = t_calls st \<and> (\<exists>e. r = Inl (ToolError e) \<and> err_code e = EPOLICY)"
proof (cases "allowed (evaluate rx lenv eng (proc_context op s))")
  case True
  then show ?thesis using run_proc_one [of cfg op h sid] assms(4) by (auto simp: at_most_one_def dest!: spec [of _ st])
next
  case False
  have "ctx_mode (proc_context op s) = Some Enforce"
    using assms(3) by (cases op) (simp_all add: command_context_def sudo_context_def tool_context_def)
  from policy_denied [OF False this] obtain e where e: "h_policy h (proc_context op s) = Inl e" "err_code e = EPOLICY"
    using assms(1) by auto
  then show ?thesis using False run_proc_refused [OF assms(2) e(1)] assms(4) by auto
qed

definition demo_proc :: proc_config where
  "demo_proc = \<lparr>commandTimeoutMs = 1000, maxCommandOutputBytes = 3, maxStreamChunks = 4\<rparr>"

definition demo_opts :: SudoPolicyOptions where
  "demo_opts = \<lparr>so_policyAction = None, so_rawSudo = None, so_path = None, so_destructive = None\<rparr>"

theorem command_policy_enforced_witness:
  "t_calls (fst (run_proc demo_host demo_proc ''s'' (SudoOp ''id'' None None None demo_opts) demo_tool_state)) = t_calls demo_tool_state"
proof -
  have p: "h_policy demo_host = (\<lambda>ctx. snd (assertAllowed (\<lambda>_. None) sample_env sample_engine ctx))" by (simp add: demo_host_def)
  have m: "ts_mode demo_session = Enforce" by simp
  have "\<not> allowed (evaluate (\<lambda>_. None) sample_env sample_engine (proc_context (SudoOp ''id'' None None None demo_opts) demo_session))" by code_simp
  then show ?thesis
    using command_policy_enforced [OF p demo_host_session m prod.collapse [symmetric], where cfg = demo_proc and op = "SudoOp ''id'' None None None demo_opts"] by simp
qed

subsection \<open>Bounds\<close>

text \<open>The text kept of a command's output never exceeds the configured number of bytes (or the marker, where
  that is longer), is the output itself when it fits, and otherwise a prefix of it followed by the marker.\<close>
theorem truncateText_bounded:
  "int (utf8_length (truncateText v m)) \<le> max m (int (utf8_length (truncation_marker m))) \<and>
   (if int (utf8_length v) \<le> m then truncateText v m = v
    else \<exists>p. prefix p v \<and> truncateText v m = p @ truncation_marker m)"
proof -
  let ?k = "nat (max 0 (m - int (utf8_length (truncation_marker m))))"
  have "utf8_length (fit_chars ?k v) \<le> ?k" by (rule fit_chars_bound)
  then have "int (utf8_length (fit_chars ?k v)) \<le> max 0 (m - int (utf8_length (truncation_marker m)))" by simp
  then show ?thesis using fit_chars_prefix [of ?k v] by (auto simp: truncateText_def Let_def)
qed

definition piece_chunk :: "bool \<times> string \<Rightarrow> stream_chunk" where
  "piece_chunk p = (if fst p then StdoutChunk (snd p) else StderrChunk (snd p))"

definition stream_inv :: "proc_config \<Rightarrow> (bool \<times> string) list \<Rightarrow> stream_state \<Rightarrow> bool" where
  "stream_inv cfg ps s \<longleftrightarrow>
     length (st_chunks s) \<le> maxStreamChunks cfg \<and> int (utf8_length (st_stdout s)) \<le> maxCommandOutputBytes cfg \<and>
     int (utf8_length (st_stderr s)) \<le> maxCommandOutputBytes cfg \<and>
     (st_truncated s \<or> (st_chunks s = map piece_chunk ps \<and> st_stdout s = concat (map snd (filter fst ps)) \<and>
        st_stderr s = concat (map snd (filter (\<lambda>p. \<not> fst p) ps))))"

lemma stream_inv_step:
  assumes "stream_inv cfg ps s"
  shows "stream_inv cfg (ps @ [p]) (on_output cfg p s)"
proof -
  obtain out data where p: "p = (out, data)" by fastforce
  have "int (utf8_length (fst (appendBounded (if out then st_stdout s else st_stderr s) data (maxCommandOutputBytes cfg)))) \<le> maxCommandOutputBytes cfg"
    using assms by (intro appendBounded_bound) (simp add: stream_inv_def)
  then show ?thesis
    using assms appendBounded_full [of "if out then st_stdout s else st_stderr s" data "maxCommandOutputBytes cfg"]
    by (cases out) (auto simp: p stream_inv_def on_output_def Let_def piece_chunk_def)
qed

lemma stream_inv_run: "0 \<le> maxCommandOutputBytes cfg \<Longrightarrow> stream_inv cfg ps (fold (on_output cfg) ps new_stream)"
proof (induction ps rule: rev_induct)
  case Nil
  then show ?case by (simp add: stream_inv_def new_stream_def)
next
  case (snoc p ps)
  then show ?case using stream_inv_step by simp
qed

lemma format_pieces: "formatStreamOutput (map piece_chunk ps @ [ExitChunk c]) = concat (map snd ps)"
  by (induction ps) (auto simp: formatStreamOutput_def piece_chunk_def)



text \<open>What is kept of a truncated stream need not be a prefix of it: a character of two bytes that does not
  fit is left out, and a later chunk of one byte is appended behind the gap.\<close>
theorem stream_gap:
  "st_stdout (fold (on_output demo_proc) [(True, ''ab''), (True, [CHR 0xE9]), (True, ''c'')] new_stream) = ''abc'' \<and>
   \<not> prefix ''abc'' (''ab'' @ [CHR 0xE9] @ ''c'')"
  by (simp add: demo_proc_def on_output_def new_stream_def appendBounded_def char_bytes_def)

end
