(* ===== verification/Ensure.thy ===== *)
theory Ensure
  imports FsTools Processes
begin

text \<open>
  The tools that bring a host into a state (\<open>src/ensure.ts\<close>): packages, services, lines of a file, patches.
  They are built from the file tools and the commands of the previous theories.
\<close>

section \<open>Names and errors\<close>

definition alnum :: "char \<Rightarrow> bool" where
  "alnum c = (let n = (of_char c :: nat) in (65 \<le> n \<and> n \<le> 90) \<or> (97 \<le> n \<and> n \<le> 122) \<or> (48 \<le> n \<and> n \<le> 57))"

definition name_matches :: "string \<Rightarrow> string \<Rightarrow> bool" where
  "name_matches extra name = (case name of [] \<Rightarrow> False | c # cs \<Rightarrow> alnum c \<and> list_all (\<lambda>d. alnum d \<or> d \<in> set extra) cs)"

definition dangerous_chars :: string where
  "dangerous_chars = '';&|`$(){}[]<>'' @ [CHR 0x5C, CHR 0x22, CHR 0x27, CHR 0x0A, CHR 0x0D]"

definition sanitizePackageName :: "string \<Rightarrow> SSHMCPError + string" where
  "sanitizePackageName name =
     (if \<not> name_matches ''._+-'' name then
        Inl (createBadRequestError (''Invalid package name: '' @ name)
          (Some ''Package names must start with alphanumeric and contain only letters, numbers, dots, dashes, underscores, or plus signs''))
      else if list_ex (\<lambda>c. c \<in> set dangerous_chars) name then
        Inl (createBadRequestError ''Package name contains potentially dangerous characters''
          (Some ''Remove any shell special characters from the package name''))
      else Inr name)"

definition sanitizeServiceName :: "string \<Rightarrow> SSHMCPError + string" where
  "sanitizeServiceName name =
     (if \<not> name_matches ''_.@:-'' name then
        Inl (createBadRequestError (''Invalid service name: '' @ name)
          (Some ''Service names must contain only letters, numbers, dots, dashes, underscores, colons, @, or path-safe instance names''))
      else Inr name)"

definition lift_error :: "SSHMCPError + 'a \<Rightarrow> 'a tool" where
  "lift_error r = (case r of Inl e \<Rightarrow> fail_tool e | Inr x \<Rightarrow> creturn x)"

fun error_code_name :: "ErrorCode \<Rightarrow> string" where
  "error_code_name EAUTH = ''EAUTH''"
| "error_code_name ECONN = ''ECONN''"
| "error_code_name ETIMEOUT = ''ETIMEOUT''"
| "error_code_name ENOSUDO = ''ENOSUDO''"
| "error_code_name EPMGR = ''EPMGR''"
| "error_code_name EFS = ''EFS''"
| "error_code_name EPATCH = ''EPATCH''"
| "error_code_name EBADREQ = ''EBADREQ''"
| "error_code_name EPOLICY = ''EPOLICY''"
| "error_code_name EHOSTKEY = ''EHOSTKEY''"
| "error_code_name ELIMIT = ''ELIMIT''"
| "error_code_name EUNSUPPORTED = ''EUNSUPPORTED''"

definition describeError :: "tool_error \<Rightarrow> string" where
  "describeError e =
     (if error_text e \<noteq> [] then error_text e
      else case e of
        ToolError s \<Rightarrow> error_code_name (err_code s)
      | JsError (Some c) _ \<Rightarrow> if c = 0 then ''unknown error'' else show_int c
      | JsError None _ \<Rightarrow> ''unknown error'')"

definition word_char :: "char \<Rightarrow> bool" where
  "word_char c = (alnum c \<or> c = CHR ''_'')"

text \<open>\<open>/\b(...)\b/i\<close> for a list of words, tried at every position; \<open>prev\<close> is the character before the position.\<close>

fun word_at :: "char option \<Rightarrow> string list \<Rightarrow> string \<Rightarrow> bool" where
  "word_at prev ws [] = False"
| "word_at prev ws (c # s) =
     ((case prev of None \<Rightarrow> True | Some p \<Rightarrow> \<not> word_char p) \<and>
        list_ex (\<lambda>w. startsWith (c # s) w \<and> (case drop (length w) (c # s) of [] \<Rightarrow> True | d # _ \<Rightarrow> \<not> word_char d)) ws
      \<or> word_at (Some c) ws s)"

definition permission_words :: "string list" where
  "permission_words = [''eacces'', ''eperm'', ''permission'', ''permission denied'', ''access denied'', ''operation not permitted'']"

definition isPermissionError :: "tool_error \<Rightarrow> bool" where
  "isPermissionError e = (failure_code e = Some 13 \<or> failure_code e = Some 1 \<or> word_at None permission_words (toLowerCase (describeError e)))"

section \<open>Packages\<close>

fun pm_name :: "PackageManager \<Rightarrow> string" where
  "pm_name Apt = ''apt''"
| "pm_name Dnf = ''dnf''"
| "pm_name Yum = ''yum''"
| "pm_name Pacman = ''pacman''"
| "pm_name Apk = ''apk''"
| "pm_name Zypper = ''zypper''"
| "pm_name Brew = ''brew''"
| "pm_name Choco = ''choco''"
| "pm_name Winget = ''winget''"
| "pm_name UnknownPackageManager = ''unknown''"

definition getRemoveCommand :: "PackageManager \<Rightarrow> string \<Rightarrow> SSHMCPError + string" where
  "getRemoveCommand pm name =
     (case pm of
        Apt \<Rightarrow> Inr (''apt-get remove -y '' @ name)
      | Dnf \<Rightarrow> Inr (''dnf remove -y '' @ name)
      | Yum \<Rightarrow> Inr (''yum remove -y '' @ name)
      | Pacman \<Rightarrow> Inr (''pacman -R --noconfirm '' @ name)
      | Apk \<Rightarrow> Inr (''apk del '' @ name)
      | Zypper \<Rightarrow> Inr (''zypper remove -y '' @ name)
      | Brew \<Rightarrow> Inr (''brew uninstall '' @ name)
      | _ \<Rightarrow> Inl (createPackageManagerError (''Unsupported package manager: '' @ pm_name pm) None))"

definition getInstallCommand :: "PackageManager \<Rightarrow> string \<Rightarrow> SSHMCPError + string" where
  "getInstallCommand pm name =
     (case pm of
        Apt \<Rightarrow> Inr (''apt-get update && apt-get install -y '' @ name)
      | Dnf \<Rightarrow> Inr (''dnf install -y '' @ name)
      | Yum \<Rightarrow> Inr (''yum install -y '' @ name)
      | Pacman \<Rightarrow> Inr (''pacman -S --noconfirm '' @ name)
      | Apk \<Rightarrow> Inr (''apk add '' @ name)
      | Zypper \<Rightarrow> Inr (''zypper install -y '' @ name)
      | Brew \<Rightarrow> Inr (''brew install '' @ name)
      | _ \<Rightarrow> Inl (createPackageManagerError (''Unsupported package manager: '' @ pm_name pm) None))"

definition package_check :: "PackageManager \<Rightarrow> string \<Rightarrow> string option" where
  "package_check pm name =
     (case pm of
        Apt \<Rightarrow> Some (''dpkg -l '' @ name @ '' | grep -q '' @ [CHR 0x27] @ ''^ii'' @ [CHR 0x27])
      | Dnf \<Rightarrow> Some (''dnf list installed '' @ name)
      | Yum \<Rightarrow> Some (''yum list installed '' @ name)
      | Pacman \<Rightarrow> Some (''pacman -Q '' @ name)
      | Apk \<Rightarrow> Some (''apk info -e '' @ name)
      | Zypper \<Rightarrow> Some (''zypper se -i '' @ name)
      | Brew \<Rightarrow> Some (''brew list --versions '' @ name)
      | _ \<Rightarrow> None)"

definition checkPackageInstalled :: "host \<Rightarrow> proc_config \<Rightarrow> string \<Rightarrow> string \<Rightarrow> PackageManager \<Rightarrow> bool tool" where
  "checkPackageInstalled h cfg sid name pm =
     (case package_check pm name of
        None \<Rightarrow> creturn False
      | Some checkCommand \<Rightarrow>
          ccatch (cbind (execCommand h cfg sid checkCommand None [] None) (\<lambda>result. creturn (result_code result = 0))) (\<lambda>_. creturn False))"

text \<open>\<open>pr_output\<close> holds \<open>stdout\<close> and \<open>stderr\<close>: those of the command, or the plan made of it in explain mode.\<close>

record PackageResult =
  pr_ok :: bool
  pr_pm :: PackageManager
  pr_code :: int
  pr_output :: exec_result

definition package_options :: "bool option \<Rightarrow> SudoPolicyOptions" where
  "package_options destructive = \<lparr>so_policyAction = Some EnsurePackage, so_rawSudo = Some False, so_path = None, so_destructive = destructive\<rparr>"

definition run_package :: "host \<Rightarrow> proc_config \<Rightarrow> string \<Rightarrow> PackageManager \<Rightarrow> string \<Rightarrow> bool option \<Rightarrow> PackageResult tool" where
  "run_package h cfg sid pm command destructive =
     cbind (if pm = Brew then execCommand h cfg sid command None [] None
            else execSudo h cfg sid command None None None (package_options destructive))
       (\<lambda>result. creturn \<lparr>pr_ok = (result_code result = 0), pr_pm = pm, pr_code = result_code result, pr_output = result\<rparr>)"

definition already :: "PackageManager \<Rightarrow> string \<Rightarrow> PackageResult" where
  "already pm text = \<lparr>pr_ok = True, pr_pm = pm, pr_code = 0, pr_output = ExecDone 0 text []\<rparr>"

definition ensurePackage :: "host \<Rightarrow> proc_config \<Rightarrow> string \<Rightarrow> string \<Rightarrow> bool \<Rightarrow> PackageResult tool" where
  "ensurePackage h cfg sid packageName present =
     cbind (lift_error (sanitizePackageName packageName)) (\<lambda>name.
     cbind (getSession h sid) (\<lambda>session.
     cseq (cthrow_if (session = None) (session_missing sid))
    (cbind (getOSInfo h sid) (\<lambda>osInfo.
       let pm = packageManager osInfo in
       if pm = UnknownPackageManager then
         fail_tool (createPackageManagerError ''No supported package manager found''
           (Some ''Supported package managers: apt, dnf, yum, pacman, apk, zypper, brew''))
       else if platform osInfo = Windows then
         fail_tool (createPackageManagerError ''Package management on Windows hosts is not supported by this tool yet''
           (Some ''Use winget/choco manually or install via other Windows package workflows''))
       else
         cbind (checkPackageInstalled h cfg sid name pm) (\<lambda>isInstalled.
           if \<not> present then
             (if \<not> isInstalled then creturn (already pm (''Package '' @ name @ '' is not installed''))
              else cbind (lift_error (getRemoveCommand pm name)) (\<lambda>c. run_package h cfg sid pm c (Some True)))
           else if isInstalled then creturn (already pm (''Package '' @ name @ '' is already installed''))
           else cbind (lift_error (getInstallCommand pm name)) (\<lambda>c. run_package h cfg sid pm c None))))))"

section \<open>Services\<close>

datatype service_state = Started | Stopped | Restarted | Enabled | Disabled

fun systemd_command :: "service_state \<Rightarrow> string \<Rightarrow> string" where
  "systemd_command Started name = ''systemctl start '' @ name"
| "systemd_command Stopped name = ''systemctl stop '' @ name"
| "systemd_command Restarted name = ''systemctl restart '' @ name"
| "systemd_command Enabled name = ''systemctl enable '' @ name"
| "systemd_command Disabled name = ''systemctl disable '' @ name"

fun service_command :: "service_state \<Rightarrow> string \<Rightarrow> string" where
  "service_command Started name = ''service '' @ name @ '' start''"
| "service_command Stopped name = ''service '' @ name @ '' stop''"
| "service_command Restarted name = ''service '' @ name @ '' restart''"
| "service_command Enabled name = ''chkconfig '' @ name @ '' on || update-rc.d '' @ name @ '' enable''"
| "service_command Disabled name = ''chkconfig '' @ name @ '' off || update-rc.d '' @ name @ '' disable''"

definition service_options :: "service_state \<Rightarrow> SudoPolicyOptions" where
  "service_options state = \<lparr>so_policyAction = Some EnsureService, so_rawSudo = Some False, so_path = None,
     so_destructive = Some (state \<in> {Stopped, Restarted, Disabled})\<rparr>"

definition ensureService :: "host \<Rightarrow> proc_config \<Rightarrow> string \<Rightarrow> string \<Rightarrow> service_state \<Rightarrow> bool tool" where
  "ensureService h cfg sid serviceName state =
     cbind (lift_error (sanitizeServiceName serviceName)) (\<lambda>name.
     cbind (getSession h sid) (\<lambda>session.
     cseq (cthrow_if (session = None) (session_missing sid))
    (cbind (getOSInfo h sid) (\<lambda>osInfo.
       if init osInfo = Launchd then
         fail_tool (createSudoError ''launchd services are not managed by this tool'' (Some ''Use launchctl directly on macOS hosts''))
       else if init osInfo = WindowsService then
         fail_tool (createSudoError ''Windows services are not managed by this tool'' (Some ''Use sc.exe or PowerShell to manage Windows services''))
       else if init osInfo = UnknownInit then
         fail_tool (createSudoError ''No supported init system found'' (Some ''Supported init systems: systemd, service''))
       else
         cbind (execSudo h cfg sid (if init osInfo = Systemd then systemd_command state name else service_command state name)
                  None None None (service_options state))
           (\<lambda>result. creturn (result_code result = 0))))))"

section \<open>Lines of a file\<close>

definition base_temp_dir :: "OSInfo \<Rightarrow> string" where
  "base_temp_dir osInfo = rev (dropWhile (\<lambda>c. c = CHR ''/'') (rev (resolveRemoteTempDir osInfo)))"

definition lines_options :: "string \<Rightarrow> bool \<Rightarrow> SudoPolicyOptions" where
  "lines_options path destructive = \<lparr>so_policyAction = Some EnsureLines, so_rawSudo = Some False, so_path = Some path, so_destructive = Some destructive\<rparr>"

definition writeFileWithPrivilegeFallback ::
  "host \<Rightarrow> fs_config \<Rightarrow> proc_config \<Rightarrow> string \<Rightarrow> OSInfo \<Rightarrow> string \<Rightarrow> string \<Rightarrow> bool \<Rightarrow> unit tool" where
  "writeFileWithPrivilegeFallback h fcfg pcfg sid osInfo filePath content destructive =
     ccatch (cseq (writeFile h fcfg sid filePath content None) (creturn ())) (\<lambda>directWriteError.
       if \<not> isPermissionError directWriteError then cthrow directWriteError
       else
         cbind (at_host (h_now h)) (\<lambda>now.
           let tempFile = base_temp_dir osInfo @ ''/ssh-mcp-'' @ show_int now @ ''.tmp'' in
           cseq (ccatch (cseq (writeFile h fcfg sid tempFile content None) (creturn ())) (\<lambda>tempWriteError.
                   fail_tool (createFilesystemError (''Failed to stage temporary file for '' @ filePath)
                     (Some (''Direct write failed with '' @ describeError directWriteError @ ''; temporary write failed with '' @ describeError tempWriteError)))))
          (cbind (execSudo h pcfg sid (''mv '' @ shellQuote tempFile @ '' '' @ shellQuote filePath) None None None (lines_options filePath destructive))
             (\<lambda>moveResult. if result_code moveResult \<noteq> 0 then
                fail_tool (createFilesystemError (''Failed to move temporary file to '' @ filePath) (Some ''Check file permissions and sudo access''))
              else creturn ()))))"

text \<open>What is done to the content: the new content and the number reported, or \<open>None\<close> when nothing is to be
  written.\<close>

definition lines_change :: "bool \<Rightarrow> string list \<Rightarrow> bool \<Rightarrow> string \<Rightarrow> (string \<times> int) option" where
  "lines_change absent lines fileExists fileContent =
     (let existingLines = split_on (CHR 0x0A) fileContent in
      if absent then
        (let filteredLines = filter (\<lambda>l. l \<notin> set lines) existingLines in
         if length filteredLines = length existingLines then None
         else Some (join [CHR 0x0A] filteredLines, - (int (length existingLines) - int (length filteredLines))))
      else
        (let missingLines = filter (\<lambda>l. l \<notin> set existingLines) lines in
         if missingLines = [] then None
         else Some (if fileExists then fileContent @ [CHR 0x0A] @ join [CHR 0x0A] missingLines else join [CHR 0x0A] missingLines,
                    int (length missingLines))))"

definition ensureLinesInFile ::
  "host \<Rightarrow> fs_config \<Rightarrow> proc_config \<Rightarrow> string \<Rightarrow> (string \<Rightarrow> string) \<Rightarrow> string \<Rightarrow> string list \<Rightarrow> bool \<Rightarrow> bool \<Rightarrow> int tool" where
  "ensureLinesInFile h fcfg pcfg sid decode filePath lines createIfMissing absent =
     cbind (getOSInfo h sid) (\<lambda>osInfo.
     cbind (pathExists h sid filePath) (\<lambda>fileExists.
       if \<not> fileExists \<and> absent then creturn 0
       else if \<not> fileExists \<and> \<not> createIfMissing then
         fail_tool (createFilesystemError (''File '' @ filePath @ '' does not exist and createIfMissing is false'') None)
       else
         cbind (if fileExists then readFile h fcfg sid filePath decode None else creturn '''') (\<lambda>fileContent.
           case lines_change absent lines fileExists fileContent of
             None \<Rightarrow> creturn 0
           | Some (newContent, n) \<Rightarrow>
               cseq (writeFileWithPrivilegeFallback h fcfg pcfg sid osInfo filePath newContent True) (creturn n))))"

section \<open>Patches\<close>

definition patch_options :: "string \<Rightarrow> SudoPolicyOptions" where
  "patch_options path = \<lparr>so_policyAction = Some PatchApply, so_rawSudo = Some False, so_path = Some path, so_destructive = Some True\<rparr>"

definition patch_command :: "string \<Rightarrow> string \<Rightarrow> string" where
  "patch_command filePath patchFile = ''patch -p0 '' @ shellQuote filePath @ '' < '' @ shellQuote patchFile"

definition patch_file_name :: "OSInfo \<Rightarrow> int \<Rightarrow> string" where
  "patch_file_name osInfo now = base_temp_dir osInfo @ ''/ssh-mcp-patch-'' @ show_int now @ ''.patch''"

definition patch_body :: "host \<Rightarrow> proc_config \<Rightarrow> string \<Rightarrow> string \<Rightarrow> string \<Rightarrow> bool tool" where
  "patch_body h pcfg sid filePath patchFile =
     cbind (execCommand h pcfg sid (''patch --dry-run -p0 '' @ shellQuote filePath @ '' < '' @ shellQuote patchFile) None [] None) (\<lambda>testResult.
     cseq (cthrow_if (result_code testResult \<noteq> 0) (ToolError (createPatchError ''Patch would fail to apply''
             (Some (''Patch test failed: '' @ result_stderr testResult)))))
    (cbind (execCommand h pcfg sid (patch_command filePath patchFile) None [] None) (\<lambda>directResult.
     cbind (if result_code directResult = 0 then creturn directResult
            else execSudo h pcfg sid (patch_command filePath patchFile) None None None (patch_options filePath)) (\<lambda>result.
       creturn (result_code result = 0)))))"

definition patch_cleanup :: "host \<Rightarrow> proc_config \<Rightarrow> string \<Rightarrow> OSInfo \<Rightarrow> string \<Rightarrow> unit tool" where
  "patch_cleanup h pcfg sid osInfo patchFile =
     ccatch (cseq (execCommand h pcfg sid
         (if platform osInfo = Windows then ''Remove-Item -Path '' @ shellQuote patchFile @ '' -Force -ErrorAction SilentlyContinue''
          else ''rm -f '' @ shellQuote patchFile) None [] None) (creturn ()))
       (\<lambda>_. creturn ())"

definition applyPatch :: "host \<Rightarrow> fs_config \<Rightarrow> proc_config \<Rightarrow> string \<Rightarrow> string \<Rightarrow> string \<Rightarrow> bool tool" where
  "applyPatch h fcfg pcfg sid filePath diff =
     cbind (getOSInfo h sid) (\<lambda>osInfo.
     cbind (commandExists h pcfg sid ''patch'') (\<lambda>hasPatch.
     cseq (cthrow_if (\<not> hasPatch) (ToolError (createPatchError ''patch command not found on remote system'' (Some ''Install patch utility or apply changes manually''))))
    (cbind (at_host (h_now h)) (\<lambda>now.
       let tempPatchFile = patch_file_name osInfo now in
       cseq (writeFile h fcfg sid tempPatchFile diff None)
         (cfinally (patch_body h pcfg sid filePath tempPatchFile) (patch_cleanup h pcfg sid osInfo tempPatchFile))))))"

section \<open>Properties\<close>

subsection \<open>Names cannot inject\<close>

lemma alnum_inert: "alnum c \<Longrightarrow> inert c"
  by (auto simp: alnum_def inert_def sh_meta_def sh_active_def Let_def)

lemma name_inert:
  assumes "name_matches extra name" and "list_all inert extra"
  shows "name \<noteq> [] \<and> list_all inert name"
  using assms alnum_inert by (cases name) (auto simp: name_matches_def list_all_iff)

lemma sanitized_names:
  "sanitizePackageName p = Inr q \<Longrightarrow> q = p \<and> bare_ok (Bare p)"
  "sanitizeServiceName s = Inr t \<Longrightarrow> t = s \<and> bare_ok (Bare s)"
  using name_inert [of "''._+-''" p] name_inert [of "''_.@:-''" s]
  by (auto simp: sanitizePackageName_def sanitizeServiceName_def bare_ok_def inert_def sh_meta_def sh_active_def split: if_splits)

text \<open>The command lines that were meant, as lists of words; \<open>apt\<close> runs two of them, the second when the first
  succeeds.\<close>

fun remove_argv :: "PackageManager \<Rightarrow> string list" where
  "remove_argv Apt = [''apt-get'', ''remove'', ''-y'']"
| "remove_argv Dnf = [''dnf'', ''remove'', ''-y'']"
| "remove_argv Yum = [''yum'', ''remove'', ''-y'']"
| "remove_argv Pacman = [''pacman'', ''-R'', ''--noconfirm'']"
| "remove_argv Apk = [''apk'', ''del'']"
| "remove_argv Zypper = [''zypper'', ''remove'', ''-y'']"
| "remove_argv Brew = [''brew'', ''uninstall'']"
| "remove_argv _ = []"

fun install_argv :: "PackageManager \<Rightarrow> string list" where
  "install_argv Apt = [''apt-get'', ''install'', ''-y'']"
| "install_argv Dnf = [''dnf'', ''install'', ''-y'']"
| "install_argv Yum = [''yum'', ''install'', ''-y'']"
| "install_argv Pacman = [''pacman'', ''-S'', ''--noconfirm'']"
| "install_argv Apk = [''apk'', ''add'']"
| "install_argv Zypper = [''zypper'', ''install'', ''-y'']"
| "install_argv Brew = [''brew'', ''install'']"
| "install_argv _ = []"

fun systemd_verb :: "service_state \<Rightarrow> string" where
  "systemd_verb Started = ''start''"
| "systemd_verb Stopped = ''stop''"
| "systemd_verb Restarted = ''restart''"
| "systemd_verb Enabled = ''enable''"
| "systemd_verb Disabled = ''disable''"

lemma bare_words: "list_all inert w \<Longrightarrow> w \<noteq> [] \<Longrightarrow> bare_ok (Bare w)"
  by (simp add: bare_ok_def)

lemma lex_bare:
  assumes "list_all (\<lambda>w. bare_ok (Bare w)) ws"
  shows "lex_command sh_word (join '' '' ws) = Some (ws, [])"
proof -
  have "list_all bare_ok (map Bare ws)" using assms by (simp add: list_all_iff)
  from sh.lex_command_render [OF this] show ?thesis by (simp add: sh.render_arg_def arg_value_def comp_def)
qed

lemma lex_bare_op:
  assumes "list_all (\<lambda>w. bare_ok (Bare w)) ws" and "sh_meta c" and "c \<noteq> CHR '' ''"
  shows "lex_command sh_word (join '' '' ws @ CHR '' '' # c # t) = Some (ws, c # t)"
proof -
  have "list_all bare_ok (map Bare ws)" using assms(1) by (simp add: list_all_iff)
  from sh.lex_command_render_op [OF this assms(2,3)] show ?thesis by (simp add: sh.render_arg_def arg_value_def comp_def)
qed

lemmas bare_eval = bare_ok_def inert_def sh_meta_def sh_active_def

text \<open>C19: Package and service names cannot inject anything into a command. Whatever name is accepted, a POSIX
  shell reads the remove command as exactly one call of the package manager with this name as last word, the
  install command as the same (for \<open>apt\<close> after the update of its lists), and the \<open>systemctl\<close> command as one call with
  the verb and the name.\<close>
theorem ensure_names_inert:
  assumes "sanitizePackageName name = Inr p" and "getRemoveCommand pm p = Inr rm" and "getInstallCommand pm p = Inr add"
    and "sanitizeServiceName service = Inr s"
  shows "lex_command sh_word rm = Some (remove_argv pm @ [name], []) \<and>
    (if pm = Apt then \<exists>rest. lex_command sh_word add = Some ([''apt-get'', ''update''], ''&& '' @ rest) \<and>
         lex_command sh_word rest = Some (install_argv pm @ [name], [])
     else lex_command sh_word add = Some (install_argv pm @ [name], [])) \<and>
    lex_command sh_word (systemd_command state s) = Some ([''systemctl'', systemd_verb state, service], [])"
proof -
  have n: "p = name" "bare_ok (Bare name)" "s = service" "bare_ok (Bare service)"
    using sanitized_names(1) [OF assms(1)] sanitized_names(2) [OF assms(4)] by auto
  have "lex_command sh_word rm = Some (remove_argv pm @ [name], [])"
    using assms(2) lex_bare [of "remove_argv pm @ [name]"] n
    by (cases pm) (auto simp: getRemoveCommand_def bare_eval)
  moreover have "lex_command sh_word (''apt-get install -y '' @ name) = Some (install_argv Apt @ [name], [])"
    using lex_bare [of "install_argv Apt @ [name]"] n by (auto simp: bare_eval)
  moreover have "lex_command sh_word (''apt-get update && apt-get install -y '' @ name) = Some ([''apt-get'', ''update''], ''&& '' @ ''apt-get install -y '' @ name)"
    using lex_bare_op [of "[''apt-get'', ''update'']" "CHR ''&''" "''& apt-get install -y '' @ name"] by (simp add: bare_eval)
  moreover have "pm \<noteq> Apt \<Longrightarrow> lex_command sh_word add = Some (install_argv pm @ [name], [])"
    using assms(3) lex_bare [of "install_argv pm @ [name]"] n
    by (cases pm) (auto simp: getInstallCommand_def bare_eval)
  moreover have "lex_command sh_word (systemd_command state s) = Some ([''systemctl'', systemd_verb state, service], [])"
    using lex_bare [of "[''systemctl'', systemd_verb state, service]"] n by (cases state) (auto simp: bare_eval)
  ultimately show ?thesis using assms(3) n(1) by (cases "pm = Apt") (auto simp: getInstallCommand_def)
qed

theorem ensure_names_inert_witness:
  "lex_command sh_word ''dnf remove -y g++-12'' = Some ([''dnf'', ''remove'', ''-y'', ''g++-12''], [])"
proof -
  have "sanitizePackageName ''g++-12'' = Inr ''g++-12''" "sanitizeServiceName ''getty@tty1'' = Inr ''getty@tty1''" by code_simp+
  then show ?thesis
    using ensure_names_inert [of "''g++-12''" "''g++-12''" Dnf "''dnf remove -y g++-12''" "''dnf install -y g++-12''" "''getty@tty1''" "''getty@tty1''"]
    by (simp add: getRemoveCommand_def getInstallCommand_def)
qed

subsection \<open>Lines of a file\<close>

definition no_newline :: "string \<Rightarrow> bool" where
  "no_newline l = (CHR 0x0A \<notin> set l)"

lemma split_append_lines:
  assumes "list_all no_newline ls" and "ls \<noteq> []"
  shows "split_on (CHR 0x0A) (s @ [CHR 0x0A] @ join [CHR 0x0A] ls) = split_on (CHR 0x0A) s @ ls"
  using assms
proof (induction ls arbitrary: s)
  case (Cons x ls)
  show ?case
  proof (cases ls)
    case Nil
    then show ?thesis using Cons.prems by (simp add: split_on_snoc no_newline_def)
  next
    case c: (Cons y xs)
    have "split_on (CHR 0x0A) ((s @ [CHR 0x0A] @ x) @ [CHR 0x0A] @ join [CHR 0x0A] ls) = split_on (CHR 0x0A) (s @ [CHR 0x0A] @ x) @ ls"
      using Cons.IH [of "s @ [CHR 0x0A] @ x"] Cons.prems c by simp
    then show ?thesis using Cons.prems c by (simp add: split_on_snoc no_newline_def)
  qed
qed simp

lemma split_join_lines: "list_all no_newline ls \<Longrightarrow> ls \<noteq> [] \<Longrightarrow> split_on (CHR 0x0A) (join [CHR 0x0A] ls) = ls"
  by (rule split_on_join) (auto simp: no_newline_def list_all_iff)



subsection \<open>Patches and the path policy\<close>

text \<open>A host whose session is in enforce mode with SFTP, on which everything succeeds, and a policy that allows
  whatever does not name \<open>path\<close>.\<close>

definition willing :: "host \<Rightarrow> string \<Rightarrow> OSInfo \<Rightarrow> string \<Rightarrow> bool" where
  "willing h sid os path \<longleftrightarrow>
     (\<forall>cs. h_session h cs sid = Some demo_session \<and> h_osInfo h cs sid = Inr os) \<and> platform os \<noteq> Windows \<and>
     (\<forall>cs p d. h_writeFile h cs p d = Inr ()) \<and> (\<forall>cs a b. h_rename h cs a b = Inr ()) \<and>
     (\<forall>cs c t. \<not> h_late h cs c t \<and> h_exec h cs c = Inr \<lparr>ea_code = Some 0, ea_stdout = [], ea_stderr = []\<rparr>) \<and>
     (\<forall>ctx. ctx_path ctx \<noteq> Some path \<longrightarrow> (\<exists>d. h_policy h ctx = Inr d \<and> dec_mode d = Enforce))"

lemma build_no_env: "platform os \<noteq> Windows \<Longrightarrow> \<exists>line. buildRemoteCommandWithTimeout c os t None [] = Inr line"
  by (simp add: buildRemoteCommandWithTimeout_def buildRemoteCommand_def buildPosixCommand_def)

lemma willing_exec:
  assumes "willing h sid os path"
  shows "\<exists>line out err. buildRemoteCommandWithTimeout c os (commandTimeoutMs cfg) None [] = Inr line \<and>
    execCommand h cfg sid c None [] None st = (st\<lparr>t_calls := t_calls st @ [ExecCommand line]\<rparr>, Inr (ExecDone 0 out err))"
proof -
  obtain line where l: "buildRemoteCommandWithTimeout c os (commandTimeoutMs cfg) None [] = Inr line"
    using assms build_no_env [of os c "commandTimeoutMs cfg"] unfolding willing_def by blast
  have "ctx_path (command_context ProcExec demo_session c) \<noteq> Some path" by (simp add: command_context_def tool_context_def)
  then obtain d where "h_policy h (command_context ProcExec demo_session c) = Inr d" "dec_mode d = Enforce"
    using assms by (auto simp: willing_def)
  then have "execCommand h cfg sid c None [] None st = (st\<lparr>t_calls := t_calls st @ [ExecCommand line]\<rparr>,
      Inr (bounded_result cfg \<lparr>ea_code = Some 0, ea_stdout = [], ea_stderr = []\<rparr>))"
    using assms l by (simp add: willing_def execCommand_def getSession_def assert_allowed_def getOSInfo_def cbind_def cmap_error_def
        lift_result_def execWithTimeout_def at_host_def ssh_exec_def host_do_def Let_def)
  then show ?thesis using l by (simp add: bounded_result_def)
qed

lemma willing_write:
  assumes "willing h sid os path" and "p \<noteq> path" and "int (utf8_length data) \<le> maxFileWriteBytes fcfg"
  shows "\<exists>st'. writeFile h fcfg sid p data None st = (st', Inr True)"
proof -
  have "ctx_path (path_context FsWrite demo_session p) \<noteq> Some path" using assms(2) by (simp add: path_context_def)
  then obtain d where "h_policy h (path_context FsWrite demo_session p) = Inr d" "dec_mode d = Enforce"
    using assms by (auto simp: willing_def)
  then show ?thesis
    using assms by (simp add: willing_def writeFile_def with_session_def getSession_def assert_allowed_def cbind_def cseq_def cmap_error_def
        at_host_def Let_def write_via_temp_def ccatch_def sftpWriteFile_def sftpRename_def host_do_def record_metric_def)
qed


text \<open>The sample host with a policy that denies everything about \<open>/etc/hosts\<close>.\<close>

definition patch_host :: host where
  "patch_host = demo_host\<lparr>h_policy := (\<lambda>ctx. if ctx_path ctx = Some ''/etc/hosts'' then Inl (createPolicyError ''denied'' None)
     else Inr (allowed_decision Enforce (ctx_action ctx)))\<rparr>"


end
