(* ===== verification/SessionTools.thy ===== *)
theory SessionTools
  imports Sessions Ensure
begin

text \<open>
  Tools on the sessions of the session manager: the sessions of \<open>Sessions\<close> are the ones the file tools and
  commands of \<open>FsTools\<close> and \<open>Processes\<close> find.
\<close>

definition tool_view :: "SSHSession \<Rightarrow> tool_session" where
  "tool_view s = \<lparr>ts_mode = si_policyMode (ss_info s), ts_sftp = ss_sftp s\<rparr>"

datatype host_op = FsTool fs_op | Command proc_op

fun op_context :: "host_op \<Rightarrow> tool_session \<Rightarrow> PolicyContext" where
  "op_context (FsTool op) = fs_context op"
| "op_context (Command op) = proc_context op"

fun run_op :: "host \<Rightarrow> fs_config \<Rightarrow> proc_config \<Rightarrow> string \<Rightarrow> host_op \<Rightarrow> unit tool" where
  "run_op h fcfg pcfg sid (FsTool op) = run_fs h fcfg sid op"
| "run_op h fcfg pcfg sid (Command op) = run_proc h pcfg sid op"

lemma run_op_refused:
  assumes "h_session h (t_calls st) sid = Some s" and "h_policy h (op_context op s) = Inl e"
  shows "run_op h fcfg pcfg sid op st = (st, Inl (ToolError e))"
  using assms run_fs_refused run_proc_refused by (cases op) simp_all

lemma op_context_mode: "ctx_mode (op_context op s) = Some (ts_mode s)"
proof (cases op)
  case (FsTool f)
  then show ?thesis by (cases f) (simp_all add: path_context_def tool_context_def)
next
  case (Command p)
  then show ?thesis by (cases p) (simp_all add: command_context_def sudo_context_def tool_context_def)
qed

lemma session_enforced:
  assumes "run (session_step cfg (\<lambda>ctx. snd (assertAllowed rx lenv eng ctx)) env dg files denied_error) new_manager es m"
    and "jm_get (sessions m) sid = Some s"
  shows "session_ok cfg (\<lambda>ctx. snd (assertAllowed rx lenv eng ctx)) dg files sid s"
  using session_system.inv_reachable [OF refl assms(1)] jm_get_SomeD [OF assms(2)] by (auto simp: sessions_ok_def)


definition with_mode :: "PolicyMode \<Rightarrow> PolicyEngine \<Rightarrow> PolicyEngine" where
  "with_mode c eng = eng\<lparr>config := (config eng)\<lparr>cfg_mode := c\<rparr>\<rparr>"

lemma with_mode_simps:
  "allow_prefixes (with_mode c eng) = allow_prefixes eng" "pathDenyPrefixes (with_mode c eng) = pathDenyPrefixes eng"
  "localPathAllowPrefixes (with_mode c eng) = localPathAllowPrefixes eng" "localPathDenyPrefixes (with_mode c eng) = localPathDenyPrefixes eng"
  "config (with_mode c eng) = (config eng)\<lparr>cfg_mode := c\<rparr>"
  by (simp_all add: with_mode_def allow_prefixes_def)

lemma evaluate_with_mode:
  assumes "ctx_mode ctx = Some m"
  shows "evaluate rx env (with_mode c eng) ctx = evaluate rx env eng ctx"
proof -
  have e: "effective_mode (with_mode c eng) ctx = effective_mode eng ctx" using assms by (simp add: effective_mode_def)
  have "check_tunnel_ports (with_mode c eng) ctx ps = check_tunnel_ports eng ctx ps" for ps
    by (induction ps) (simp_all add: e with_mode_simps Let_def)
  moreover have "check_remote_paths (with_mode c eng) ctx ps = check_remote_paths eng ctx ps" for ps
    by (induction ps) (simp_all add: e with_mode_simps Let_def split: sum.split)
  moreover have "check_local_paths env (with_mode c eng) ctx ps = check_local_paths env eng ctx ps" for ps
    by (induction ps) (simp_all add: e with_mode_simps Let_def split: sum.split)
  moreover have "allowedHosts (config (with_mode c eng)) = allowedHosts (config eng)"
    "commandDeny (config (with_mode c eng)) = commandDeny (config eng)" "commandAllow (config (with_mode c eng)) = commandAllow (config eng)"
    "allowDestructiveCommands (config (with_mode c eng)) = allowDestructiveCommands (config eng)"
    "allowRootLogin (config (with_mode c eng)) = allowRootLogin (config eng)" "allowRawSudo (config (with_mode c eng)) = allowRawSudo (config eng)"
    "tunnelDenyBindHosts (config (with_mode c eng)) = tunnelDenyBindHosts (config eng)"
    "tunnelAllowBindHosts (config (with_mode c eng)) = tunnelAllowBindHosts (config eng)"
    "tunnelDenyRemoteHosts (config (with_mode c eng)) = tunnelDenyRemoteHosts (config eng)"
    "tunnelAllowRemoteHosts (config (with_mode c eng)) = tunnelAllowRemoteHosts (config eng)"
    by (simp_all add: with_mode_simps)
  ultimately show ?thesis
    unfolding evaluate_def check_host_def check_tunnel_def check_tunnel_host_def check_root_def check_raw_sudo_def
        check_command_def check_paths_def Let_def by (simp only: e)
qed

text \<open>The configured mode has no effect on sessions. Whatever mode the policy is configured with
  (\<open>SSH_MCP_POLICY_MODE\<close>), the decision about any operation on any session is the same, it is made in enforce
  mode, and an allowed write over SFTP is carried out, also when the configuration says to explain only.\<close>
theorem configured_mode_ignored:
  assumes "run (session_step cfg (\<lambda>ctx. snd (assertAllowed rx lenv (with_mode c eng) ctx)) env dg files denied_error) new_manager es m"
    and "jm_get (sessions m) sid = Some s"
    and "h_policy h = (\<lambda>ctx. snd (assertAllowed rx lenv (with_mode c eng) ctx))"
    and "h_session h (t_calls st) sid = Some (tool_view s)" and "ss_sftp s"
    and "allowed (evaluate rx lenv eng (fs_context (WriteOp path data mode) (tool_view s)))"
    and "int (utf8_length data) \<le> maxFileWriteBytes fcfg"
    and "writeFile h fcfg sid path data mode st = (st', r)"
  shows "evaluate rx lenv (with_mode c eng) (op_context op (tool_view s)) = evaluate rx lenv eng (op_context op (tool_view s)) \<and>
    dec_mode (evaluate rx lenv eng (op_context op (tool_view s))) = Enforce \<and>
    (\<exists>t cs. t_calls st' = t_calls st @ SftpWriteFile t data # cs)"
proof -
  have "si_policyMode (ss_info s) = Enforce" using session_enforced [OF assms(1,2)] by (simp add: session_ok_def)
  then have mode: "ctx_mode (op_context op' (tool_view s)) = Some Enforce" for op' by (simp add: op_context_mode tool_view_def)
  then have d: "dec_mode (evaluate rx lenv eng (op_context op' (tool_view s))) = Enforce" for op'
    by (simp add: evaluate_mode effective_mode_def)
  let ?ctx = "path_context FsWrite (tool_view s) path"
  have same: "evaluate rx lenv (with_mode c eng) ?ctx = evaluate rx lenv eng ?ctx"
    using evaluate_with_mode [OF mode, of _ _ c _ "FsTool (WriteOp path data mode)"] by simp
  have p: "h_policy h ?ctx = Inr (evaluate rx lenv eng ?ctx)" "dec_mode (evaluate rx lenv eng ?ctx) = Enforce"
    using assms(3,6) same d [of "FsTool (WriteOp path data mode)"] by (simp_all add: assertAllowed_def Let_def)
  have sf: "ts_sftp (tool_view s)" using assms(5) by (simp add: tool_view_def)
  from writeFile_first_call [OF assms(8,4) sf p assms(7)] evaluate_with_mode [OF mode] d show ?thesis by blast
qed

section \<open>A sample history\<close>

definition sample_tool_host :: host where
  "sample_tool_host = demo_host\<lparr>h_session := (\<lambda>cs sid. map_option tool_view (jm_get (sessions connected_once) sid))\<rparr>"

lemma sample_tool_host_policy: "h_policy sample_tool_host = (\<lambda>ctx. snd (assertAllowed (\<lambda>_. None) sample_env sample_engine ctx))"
  by (simp add: sample_tool_host_def demo_host_def)

lemma connected_once_view: "\<exists>s. jm_get (sessions connected_once) ''ssh-1'' = Some s \<and> tool_view s = demo_session \<and> ss_sftp s"
proof -
  obtain s where s: "jm_get (sessions connected_once) ''ssh-1'' = Some s" using connected_once_has(1) by auto
  have "map_option ss_sftp (jm_get (sessions connected_once) ''ssh-1'') = Some True" by code_simp
  moreover have "si_policyMode (ss_info s) = Enforce" using session_enforced [OF connected_once_run s] by (simp add: session_ok_def)
  ultimately show ?thesis using s by (simp add: tool_view_def)
qed

lemma sample_write_allowed:
  "allowed (evaluate (\<lambda>_. None) sample_env sample_engine (fs_context (WriteOp ''/tmp/a'' ''d'' None) demo_session))"
  by code_simp

lemma sample_write_first:
  "\<exists>t cs. t_calls (fst (writeFile sample_tool_host demo_fs ''ssh-1'' ''/tmp/a'' ''d'' None demo_tool_state)) = t_calls demo_tool_state @ SftpWriteFile t ''d'' # cs"
proof -
  obtain s where s: "jm_get (sessions connected_once) ''ssh-1'' = Some s" "tool_view s = demo_session" using connected_once_view by blast
  have "h_session sample_tool_host (t_calls demo_tool_state) ''ssh-1'' = Some demo_session" by (simp add: sample_tool_host_def s)
  moreover have "h_policy sample_tool_host (path_context FsWrite demo_session ''/tmp/a'') =
      Inr (evaluate (\<lambda>_. None) sample_env sample_engine (path_context FsWrite demo_session ''/tmp/a''))"
    using sample_write_allowed by (simp add: sample_tool_host_policy assertAllowed_def Let_def)
  moreover have "dec_mode (evaluate (\<lambda>_. None) sample_env sample_engine (path_context FsWrite demo_session ''/tmp/a'')) = Enforce"
    by (simp add: evaluate_mode effective_mode_def path_context_def tool_context_def)
  moreover have "int (utf8_length ''d'') \<le> maxFileWriteBytes demo_fs" by (simp add: utf8_length_def demo_fs_def)
  moreover have "ts_sftp demo_session" by simp
  ultimately show ?thesis using writeFile_first_call [OF prod.collapse [symmetric]] by blast
qed


theorem configured_mode_ignored_witness:
  "\<exists>t cs. t_calls (fst (writeFile sample_tool_host demo_fs ''ssh-1'' ''/tmp/a'' ''d'' None demo_tool_state)) = t_calls demo_tool_state @ SftpWriteFile t ''d'' # cs"
proof -
  obtain s where s: "jm_get (sessions connected_once) ''ssh-1'' = Some s" "tool_view s = demo_session" "ss_sftp s"
    using connected_once_view by blast
  have m: "with_mode Enforce sample_engine = sample_engine" by (simp add: with_mode_def sample_engine_def sample_config_def)
  have h: "h_session sample_tool_host (t_calls demo_tool_state) ''ssh-1'' = Some (tool_view s)" by (simp add: sample_tool_host_def s)
  have b: "int (utf8_length ''d'') \<le> maxFileWriteBytes demo_fs" by (simp add: utf8_length_def demo_fs_def)
  note c = configured_mode_ignored [where c = Enforce and eng = sample_engine, unfolded m, OF connected_once_run s(1) sample_tool_host_policy h s(3) _ b prod.collapse [symmetric]]
  show ?thesis using c [unfolded s(2), OF sample_write_allowed] by blast
qed

end
