(* ===== verification/Transfers.thy ===== *)
theory Transfers
  imports Complex_Main FsTools
begin

text \<open>
  File transfers (\<open>src/transfer.ts\<close>): uploads and downloads between the machine of the server and an SSH host,
  with the checks of local paths, the size limit and the verification of what was written. Calls on the local
  file system are recorded with those on the host, and their answers may depend on the calls before them. The
  file system calls, the working directory and SHA-256 are parameters; the clock does not move between calls.
\<close>

section \<open>The local file system\<close>

text \<open>An error of the file system: its code (\<open>ENOENT\<close>) and its message.\<close>

type_synonym local_error = "string \<times> string"

record local_fs =
  l_cwd :: string
  l_realpath :: "history \<Rightarrow> string \<Rightarrow> local_error + string"
  l_stat :: "history \<Rightarrow> string \<Rightarrow> local_error + int"
  l_readFile :: "history \<Rightarrow> string \<Rightarrow> local_error + string"
  l_writeFile :: "history \<Rightarrow> string \<Rightarrow> string \<Rightarrow> local_error + unit"
  l_rename :: "history \<Rightarrow> string \<Rightarrow> string \<Rightarrow> local_error + unit"
  l_rm :: "history \<Rightarrow> string \<Rightarrow> local_error + unit"
  l_sha256 :: "string \<Rightarrow> string"

definition local_thrown :: "local_error + 'a \<Rightarrow> tool_error + 'a" where
  "local_thrown r = (case r of Inl (code, message) \<Rightarrow> Inl (JsError None message) | Inr x \<Rightarrow> Inr x)"

text \<open>\<open>realpath\<close> with its error as a value, since its callers look at the code.\<close>

definition fs_realpath :: "local_fs \<Rightarrow> string \<Rightarrow> (local_error + string) tool" where
  "fs_realpath l p = host_do (LocalRealpath p) (\<lambda>cs. Inr (l_realpath l cs p))"

definition fs_stat :: "local_fs \<Rightarrow> string \<Rightarrow> int tool" where
  "fs_stat l p = host_do (LocalStat p) (\<lambda>cs. local_thrown (l_stat l cs p))"

definition fs_readFile :: "local_fs \<Rightarrow> string \<Rightarrow> string tool" where
  "fs_readFile l p = host_do (LocalReadFile p) (\<lambda>cs. local_thrown (l_readFile l cs p))"

definition fs_writeFile :: "local_fs \<Rightarrow> string \<Rightarrow> string \<Rightarrow> unit tool" where
  "fs_writeFile l p data = host_do (LocalWriteFile p data) (\<lambda>cs. local_thrown (l_writeFile l cs p data))"

definition fs_rename :: "local_fs \<Rightarrow> string \<Rightarrow> string \<Rightarrow> unit tool" where
  "fs_rename l a b = host_do (LocalRename a b) (\<lambda>cs. local_thrown (l_rename l cs a b))"

definition fs_rm :: "local_fs \<Rightarrow> string \<Rightarrow> unit tool" where
  "fs_rm l p = host_do (LocalRm p) (\<lambda>cs. local_thrown (l_rm l cs p))"

lemmas local_defs = fs_realpath_def fs_stat_def fs_readFile_def fs_writeFile_def fs_rename_def fs_rm_def

text \<open>\<open>path.dirname\<close> of a resolved path, and \<open>path.basename\<close>.\<close>

definition path_dirname :: "string \<Rightarrow> string" where
  "path_dirname p = (case last_slash p of None \<Rightarrow> ''.'' | Some i \<Rightarrow> if i = 0 then ''/'' else take i p)"

definition path_basename :: "string \<Rightarrow> string" where
  "path_basename p =
     (let q = rev (dropWhile (\<lambda>c. c = CHR ''/'') (rev p)) in
      case last_slash q of None \<Rightarrow> q | Some i \<Rightarrow> drop (i + 1) q)"

section \<open>Local paths\<close>

record LocalWritePath =
  absolutePath :: string
  canonicalPath :: string
  parentCanonicalPath :: string
  lw_action :: PolicyAction

definition validateLocalPathInput :: "string \<Rightarrow> unit tool" where
  "validateLocalPathInput localPath =
     (if trim localPath = [] then fail_tool (createFilesystemError ''Local path must not be empty'' None)
      else if CHR 0x00 \<in> set localPath then fail_tool (createFilesystemError ''Local path contains NUL byte'' None)
      else creturn ())"

definition resolveAbsoluteLocalPath :: "local_fs \<Rightarrow> string \<Rightarrow> string tool" where
  "resolveAbsoluteLocalPath l localPath = cseq (validateLocalPathInput localPath) (creturn (path_resolve (l_cwd l) localPath))"

definition isMissingPathError :: "local_error \<Rightarrow> bool" where
  "isMissingPathError e = (fst e = ''ENOENT'')"

definition resolveLocalReadPath :: "local_fs \<Rightarrow> string \<Rightarrow> string tool" where
  "resolveLocalReadPath l localPath =
     cbind (resolveAbsoluteLocalPath l localPath) (\<lambda>absolute.
     cbind (fs_realpath l absolute) (\<lambda>r.
       case r of
         Inr p \<Rightarrow> creturn p
       | Inl e \<Rightarrow> fail_tool (createFilesystemError (''Local path '' @ localPath @ '' could not be resolved for reading'') (Some (snd e)))))"

definition resolveLocalWritePath :: "local_fs \<Rightarrow> string \<Rightarrow> LocalWritePath tool" where
  "resolveLocalWritePath l localPath =
     cbind (resolveAbsoluteLocalPath l localPath) (\<lambda>absolute.
     let parentPath = path_dirname absolute in
     cbind (fs_realpath l parentPath) (\<lambda>parent.
       case parent of
         Inl e \<Rightarrow> fail_tool (createFilesystemError (''Local parent directory '' @ parentPath @ '' could not be resolved for writing'') (Some (snd e)))
       | Inr parentCanonical \<Rightarrow>
           cbind (fs_realpath l absolute) (\<lambda>target.
             case target of
               Inr targetCanonical \<Rightarrow>
                 creturn \<lparr>absolutePath = absolute, canonicalPath = targetCanonical, parentCanonicalPath = parentCanonical,
                   lw_action = TransferLocalOverwrite\<rparr>
             | Inl e \<Rightarrow>
                 if \<not> isMissingPathError e then
                   fail_tool (createFilesystemError (''Local path '' @ localPath @ '' could not be resolved for writing'') (Some (snd e)))
                 else
                   creturn \<lparr>absolutePath = absolute,
                     canonicalPath = posix_normalize (parentCanonical @ ''/'' @ path_basename absolute),
                     parentCanonicalPath = parentCanonical, lw_action = TransferLocalCreate\<rparr>)))"

definition local_read_context :: "string \<Rightarrow> PolicyMode \<Rightarrow> PolicyContext" where
  "local_read_context path mode = (tool_context TransferLocalRead mode)\<lparr>ctx_path := Some path\<rparr>"

definition local_write_context :: "LocalWritePath \<Rightarrow> PolicyMode \<Rightarrow> PolicyContext" where
  "local_write_context w mode =
     (tool_context (lw_action w) mode)\<lparr>ctx_path := Some (canonicalPath w), ctx_secondaryPath := Some (parentCanonicalPath w)\<rparr>"

definition authorizeLocalReadPath :: "host \<Rightarrow> local_fs \<Rightarrow> string \<Rightarrow> PolicyMode \<Rightarrow> string tool" where
  "authorizeLocalReadPath h l localPath mode =
     cbind (resolveLocalReadPath l localPath) (\<lambda>canonical.
     cseq (assert_allowed h (local_read_context canonical mode)) (creturn canonical))"

definition authorizeLocalWritePath :: "host \<Rightarrow> local_fs \<Rightarrow> string \<Rightarrow> PolicyMode \<Rightarrow> LocalWritePath tool" where
  "authorizeLocalWritePath h l localPath mode =
     cbind (resolveLocalWritePath l localPath) (\<lambda>resolved.
     cseq (assert_allowed h (local_write_context resolved mode)) (creturn resolved))"

section \<open>Transfers\<close>

record TransferProgress =
  tp_filename :: string
  tp_transferred :: int
  tp_total :: int
  tp_percentage :: int
  tp_bytesPerSecond :: rat
  tp_eta :: int

record TransferResult =
  tr_success :: bool
  tr_filename :: string
  tr_size :: int
  tr_durationMs :: int
  tr_averageSpeed :: rat
  tr_sha256 :: string
  tr_verified :: bool

text \<open>The result of an operation, with what it reported to \<open>onProgress\<close>, when there is one (\<open>reports\<close>).\<close>

type_synonym transferred = "TransferProgress option \<times> TransferResult"

definition explained_result :: "string \<Rightarrow> transferred" where
  "explained_result path =
     (None, \<lparr>tr_success = True, tr_filename = path_basename path, tr_size = 0, tr_durationMs = 0, tr_averageSpeed = 0,
        tr_sha256 = [], tr_verified = False\<rparr>)"

definition progress_report :: "string \<Rightarrow> int \<Rightarrow> int \<Rightarrow> TransferProgress" where
  "progress_report filename totalSize elapsedMs =
     (let elapsed = (if elapsedMs = 0 then 1 else of_int elapsedMs / 1000) in
      \<lparr>tp_filename = filename, tp_transferred = totalSize, tp_total = totalSize, tp_percentage = 100,
       tp_bytesPerSecond = of_int totalSize / elapsed, tp_eta = 0\<rparr>)"

definition completed_result :: "bool \<Rightarrow> string \<Rightarrow> int \<Rightarrow> int \<Rightarrow> string \<Rightarrow> transferred" where
  "completed_result reports filename totalSize durationMs sha =
     (if reports then Some (progress_report filename totalSize durationMs) else None,
      \<lparr>tr_success = True, tr_filename = filename, tr_size = totalSize, tr_durationMs = durationMs,
       tr_averageSpeed = of_int totalSize / (of_int (if durationMs = 0 then 1 else durationMs) / 1000),
       tr_sha256 = sha, tr_verified = True\<rparr>)"

definition transfer_session :: "host \<Rightarrow> string \<Rightarrow> tool_session tool" where
  "transfer_session h sid =
     cbind (getSession h sid) (\<lambda>session.
       case session of
         None \<Rightarrow> fail_tool (createFilesystemError ''Session not found or expired'' None)
       | Some s \<Rightarrow>
           if \<not> ts_sftp s then fail_tool (createFilesystemError ''SFTP subsystem is unavailable for this session'' None)
           else creturn s)"

definition transfer_context :: "PolicyAction \<Rightarrow> tool_session \<Rightarrow> string \<Rightarrow> PolicyContext" where
  "transfer_context action s path = (tool_context action (ts_mode s))\<lparr>ctx_path := Some path\<rparr>"

definition check_transfer_size :: "int \<Rightarrow> int \<Rightarrow> unit tool" where
  "check_transfer_size maxTransferBytes totalSize =
     (if maxTransferBytes < totalSize then
        fail_tool (createFilesystemError (''Transfer exceeds maxTransferBytes ('' @ show_int maxTransferBytes @ '')'')
          (Some ''Use a smaller file or raise SSH_MCP_MAX_TRANSFER_BYTES intentionally.''))
      else creturn ())"

text \<open>\<open>catch (error)\<close>: errors of the server's own class are thrown again, others become a file system error.\<close>

definition transfer_failure :: "string \<Rightarrow> string \<Rightarrow> tool_error \<Rightarrow> tool_error" where
  "transfer_failure what path e =
     (case e of
        ToolError _ \<Rightarrow> e
      | JsError _ message \<Rightarrow>
          ToolError (createFilesystemError
            (''Failed to '' @ what @ '' '' @ path @ '': '' @ (if message = [] then ''Error'' else ''Error: '' @ message)) None))"

definition upload_body :: "host \<Rightarrow> local_fs \<Rightarrow> int \<Rightarrow> bool \<Rightarrow> string \<Rightarrow> string \<Rightarrow> string \<Rightarrow> int \<Rightarrow> transferred tool" where
  "upload_body h l maxTransferBytes reports localPath remotePath canonicalLocalPath startTime =
     cmap_error
       (cbind (fs_stat l canonicalLocalPath) (\<lambda>totalSize.
        cseq (check_transfer_size maxTransferBytes totalSize)
       (cbind (fs_readFile l canonicalLocalPath) (\<lambda>fileContent.
        cseq (sftpWriteFile h remotePath fileContent)
       (cbind (sftpReadFile h remotePath) (\<lambda>remoteContent.
          if l_sha256 l fileContent \<noteq> l_sha256 l remoteContent then
            fail_tool (createFilesystemError (''Transfer verification failed for '' @ remotePath)
              (Some ''Remote SHA-256 does not match the local file after upload''))
          else
            cbind (at_host (h_now h)) (\<lambda>now.
            cseq (record_metric (recordTransfer True totalSize))
              (creturn (completed_result reports (path_basename canonicalLocalPath) totalSize (now - startTime) (l_sha256 l fileContent))))))))))
       (transfer_failure ''upload'' localPath)"

definition uploadFileWithProgress :: "host \<Rightarrow> local_fs \<Rightarrow> int \<Rightarrow> bool \<Rightarrow> string \<Rightarrow> string \<Rightarrow> string \<Rightarrow> transferred tool" where
  "uploadFileWithProgress h l maxTransferBytes reports sid localPath remotePath =
     cbind (transfer_session h sid) (\<lambda>s.
     cbind (assert_allowed h (transfer_context TransferUpload s remotePath)) (\<lambda>decision.
       if dec_mode decision = Explain then creturn (explained_result localPath)
       else
         cbind (authorizeLocalReadPath h l localPath (ts_mode s)) (\<lambda>canonicalLocalPath.
         cbind (at_host (h_now h)) (\<lambda>startTime.
           upload_body h l maxTransferBytes reports localPath remotePath canonicalLocalPath startTime))))"

definition finish_download :: "host \<Rightarrow> local_fs \<Rightarrow> PolicyMode \<Rightarrow> string \<Rightarrow> string \<Rightarrow> string \<Rightarrow> string \<Rightarrow> string \<Rightarrow> unit tool" where
  "finish_download h l mode localPath remotePath temp data localData =
     (if l_sha256 l data \<noteq> l_sha256 l localData then
        cseq (fs_rm l temp)
          (fail_tool (createFilesystemError (''Transfer verification failed for '' @ remotePath)
            (Some ''Local SHA-256 does not match the remote file after download'')))
      else
        cbind (authorizeLocalWritePath h l localPath mode) (\<lambda>finalTargetPath. fs_rename l temp (absolutePath finalTargetPath)))"

text \<open>The local half of a download: the data goes to a temporary file beside the target, is read back and
  compared, and the file is renamed to the target.\<close>

definition store_download :: "host \<Rightarrow> local_fs \<Rightarrow> PolicyMode \<Rightarrow> string \<Rightarrow> string \<Rightarrow> string \<Rightarrow> string \<Rightarrow> unit tool" where
  "store_download h l mode localPath remotePath targetPath data =
     cbind (at_host (h_now h)) (\<lambda>now.
     cbind (authorizeLocalWritePath h l (targetPath @ ''.tmp.'' @ show_int now) mode) (\<lambda>tempPath.
     cseq (fs_writeFile l (absolutePath tempPath) data)
    (cbind (authorizeLocalReadPath h l (absolutePath tempPath) mode) (\<lambda>tempReadPath.
     cbind (fs_readFile l tempReadPath) (finish_download h l mode localPath remotePath (absolutePath tempPath) data)))))"

definition fetch_download :: "host \<Rightarrow> local_fs \<Rightarrow> int \<Rightarrow> bool \<Rightarrow> PolicyMode \<Rightarrow> string \<Rightarrow> string \<Rightarrow> int \<Rightarrow> string \<Rightarrow> transferred tool" where
  "fetch_download h l maxTransferBytes reports mode remotePath localPath startTime targetPath =
     cbind (sftpStat h remotePath) (\<lambda>stats.
     let totalSize = or_else (fa_size stats) 0 in
     cseq (check_transfer_size maxTransferBytes totalSize)
    (cbind (sftpReadFile h remotePath) (\<lambda>data.
     cseq (store_download h l mode localPath remotePath targetPath data)
    (cbind (at_host (h_now h)) (\<lambda>finish.
     cseq (record_metric (recordTransfer False totalSize))
       (creturn (completed_result reports (path_basename remotePath) totalSize (finish - startTime) (l_sha256 l data))))))))"

definition download_body :: "host \<Rightarrow> local_fs \<Rightarrow> int \<Rightarrow> bool \<Rightarrow> PolicyMode \<Rightarrow> string \<Rightarrow> string \<Rightarrow> int \<Rightarrow> transferred tool" where
  "download_body h l maxTransferBytes reports mode remotePath localPath startTime =
     cmap_error
       (cbind (authorizeLocalWritePath h l localPath mode) (\<lambda>targetPath.
          fetch_download h l maxTransferBytes reports mode remotePath localPath startTime (absolutePath targetPath)))
       (transfer_failure ''download'' remotePath)"

definition downloadFileWithProgress :: "host \<Rightarrow> local_fs \<Rightarrow> int \<Rightarrow> bool \<Rightarrow> string \<Rightarrow> string \<Rightarrow> string \<Rightarrow> transferred tool" where
  "downloadFileWithProgress h l maxTransferBytes reports sid remotePath localPath =
     cbind (transfer_session h sid) (\<lambda>s.
     cbind (assert_allowed h (transfer_context TransferDownload s remotePath)) (\<lambda>decision.
       if dec_mode decision = Explain then creturn (explained_result remotePath)
       else
         cbind (at_host (h_now h)) (\<lambda>startTime.
           download_body h l maxTransferBytes reports (ts_mode s) remotePath localPath startTime)))"

section \<open>Paths of transfers\<close>

lemma seg_ok_append: "seg_ok w \<Longrightarrow> CHR ''/'' \<notin> set v \<Longrightarrow> 2 \<le> length v \<Longrightarrow> seg_ok (w @ v)"
  by (cases w) (auto simp: seg_ok_def append_eq_Cons_conv)

lemma join_snoc_append: "join ''/'' (us @ [w]) @ v = join ''/'' (us @ [w @ v])"
  by (cases "us = []") (simp_all add: join_append)

lemma path_resolve_suffix:
  assumes "seg_ok v" and "2 \<le> length v"
  shows "path_resolve cwd (path_resolve cwd p @ v) = path_resolve cwd p @ v"
proof -
  define ws where "ws = abs_segs (if startsWith p ''/'' then p else if p = [] then cwd else cwd @ ''/'' @ p)"
  have ok: "\<forall>w \<in> set ws. seg_ok w" by (auto simp: ws_def intro: abs_segs_ok)
  have r: "path_resolve cwd p = render_abs ws" by (simp add: path_resolve_render ws_def)
  have "\<exists>vs. (\<forall>w \<in> set vs. seg_ok w) \<and> render_abs ws @ v = render_abs vs"
  proof (cases ws rule: rev_cases)
    case Nil
    then show ?thesis using assms by (intro exI [of _ "[v]"]) (simp add: render_abs_def)
  next
    case (snoc us w)
    then have "seg_ok (w @ v)" using ok assms seg_okD(1) by (auto intro: seg_ok_append)
    then show ?thesis using snoc ok
      by (intro exI [of _ "us @ [w @ v]"]) (auto simp: render_abs_def join_snoc_append)
  qed
  then obtain vs where vs: "\<forall>w \<in> set vs. seg_ok w" "render_abs ws @ v = render_abs vs" by blast
  have "path_resolve cwd (render_abs vs) = render_abs vs"
    using abs_segs_render [OF vs(1)] by (simp add: path_resolve_render) (simp add: render_abs_def startsWith_def)
  then show ?thesis using r vs(2) by simp
qed

lemma temp_suffix_ok: "seg_ok (''.tmp.'' @ show_int n)" "2 \<le> length (''.tmp.'' @ show_int n)"
proof -
  have "\<not> is_digit (CHR ''/'')" by (simp add: is_digit_def)
  then have "CHR ''/'' \<notin> set (show_nat k)" for k using show_nat_digits [of k] by (auto simp: list_all_iff)
  then show "seg_ok (''.tmp.'' @ show_int n)" by (auto simp: seg_ok_def show_int_def)
qed simp

definition temp_of :: "local_fs \<Rightarrow> string \<Rightarrow> int \<Rightarrow> string" where
  "temp_of l p n = path_resolve (l_cwd l) p @ ''.tmp.'' @ show_int n"

lemma host_do_eq: "host_do c f st = (st', r) \<longleftrightarrow> st' = st\<lparr>t_calls := t_calls st @ [c]\<rparr> \<and> r = f (t_calls st)"
  by (auto simp: host_do_def)

lemma resolveAbsoluteLocalPath_run:
  "\<exists>q. resolveAbsoluteLocalPath l p st = (st, q) \<and> (q = Inr (path_resolve (l_cwd l) p) \<or> (\<exists>e. q = Inl (ToolError e)))"
  by (auto simp: resolveAbsoluteLocalPath_def validateLocalPathInput_def fail_tool_def cseq_def cbind_def)

lemma authorizeLocalReadPath_run:
  assumes "authorizeLocalReadPath h l p mode st = (st1, q)"
  shows "\<exists>k \<le> 1. st1 = st\<lparr>t_calls := t_calls st @ take k [LocalRealpath (path_resolve (l_cwd l) p)]\<rparr> \<and>
    (case q of Inl e \<Rightarrow> \<exists>x. e = ToolError x | Inr c \<Rightarrow> k = 1 \<and> l_realpath l (t_calls st) (path_resolve (l_cwd l) p) = Inr c \<and>
       (\<exists>d. h_policy h (local_read_context c mode) = Inr d))"
proof -
  obtain q0 where "resolveAbsoluteLocalPath l p st = (st, q0)" "q0 = Inr (path_resolve (l_cwd l) p) \<or> (\<exists>e. q0 = Inl (ToolError e))"
    using resolveAbsoluteLocalPath_run by blast
  then show ?thesis
    using assms
    by (auto simp: authorizeLocalReadPath_def resolveLocalReadPath_def fs_realpath_def host_do_def assert_allowed_def fail_tool_def
        cbind_def cseq_def split: sum.splits intro: exI [of _ "0::nat"] exI [of _ "1::nat"])
qed

definition target_checks :: "local_fs \<Rightarrow> string \<Rightarrow> host_call list" where
  "target_checks l p = (let a = path_resolve (l_cwd l) p in [LocalRealpath (path_dirname a), LocalRealpath a])"

definition write_resolved :: "local_fs \<Rightarrow> history \<Rightarrow> LocalWritePath \<Rightarrow> bool" where
  "write_resolved l cs w \<longleftrightarrow>
     (let parent = path_dirname (absolutePath w) in
      l_realpath l cs parent = Inr (parentCanonicalPath w) \<and>
      (case l_realpath l (cs @ [LocalRealpath parent]) (absolutePath w) of
         Inr target \<Rightarrow> canonicalPath w = target \<and> lw_action w = TransferLocalOverwrite
       | Inl e \<Rightarrow> isMissingPathError e \<and> lw_action w = TransferLocalCreate \<and>
           canonicalPath w = posix_normalize (parentCanonicalPath w @ ''/'' @ path_basename (absolutePath w))))"

definition write_allowed :: "host \<Rightarrow> local_fs \<Rightarrow> history \<Rightarrow> PolicyMode \<Rightarrow> string \<Rightarrow> bool" where
  "write_allowed h l cs mode p \<longleftrightarrow>
     (\<exists>w d. absolutePath w = p \<and> write_resolved l cs w \<and> h_policy h (local_write_context w mode) = Inr d)"

lemma authorizeLocalWritePath_run:
  assumes "authorizeLocalWritePath h l p mode st = (st1, q)"
  shows "\<exists>k \<le> 2. st1 = st\<lparr>t_calls := t_calls st @ take k (target_checks l p)\<rparr> \<and>
    (case q of Inl e \<Rightarrow> \<exists>x. e = ToolError x
     | Inr w \<Rightarrow> k = 2 \<and> absolutePath w = path_resolve (l_cwd l) p \<and> write_resolved l (t_calls st) w \<and>
         (\<exists>d. h_policy h (local_write_context w mode) = Inr d))"
proof -
  obtain q0 where "resolveAbsoluteLocalPath l p st = (st, q0)" "q0 = Inr (path_resolve (l_cwd l) p) \<or> (\<exists>e. q0 = Inl (ToolError e))"
    using resolveAbsoluteLocalPath_run by blast
  then show ?thesis
    using assms
    by (auto simp: authorizeLocalWritePath_def resolveLocalWritePath_def fs_realpath_def host_do_def assert_allowed_def fail_tool_def
        cbind_def cseq_def target_checks_def write_resolved_def Let_def split: sum.splits if_splits
        intro: exI [of _ "0::nat"] exI [of _ "1::nat"] exI [of _ "2::nat"])
qed

section \<open>Uploads\<close>

definition upload_steps :: "local_fs \<Rightarrow> string \<Rightarrow> string \<Rightarrow> string \<Rightarrow> string \<Rightarrow> host_call list" where
  "upload_steps l localPath canonical content remotePath =
     [LocalRealpath (path_resolve (l_cwd l) localPath), LocalStat canonical, LocalReadFile canonical,
      SftpWriteFile remotePath content, SftpReadFile remotePath]"

lemma transfer_session_run:
  "h_session h (t_calls st) sid = Some s \<Longrightarrow>
     transfer_session h sid st = (st, if ts_sftp s then Inr s
       else Inl (ToolError (createFilesystemError ''SFTP subsystem is unavailable for this session'' None)))"
  by (simp add: transfer_session_def getSession_def cbind_def fail_tool_def)

lemma enforced_allowed:
  assumes "h_policy h = (\<lambda>ctx. snd (assertAllowed rx lenv eng ctx))" and "ctx_mode ctx = Some Enforce" and "h_policy h ctx = Inr d"
  shows "allowed (evaluate rx lenv eng ctx) \<and> dec_mode d = Enforce"
  using assms by (auto simp: assertAllowed_def Let_def evaluate_mode effective_mode_def split: if_splits)

lemma transfer_failure_thrown: "\<exists>x. transfer_failure what path e = ToolError x"
  by (cases e) (simp_all add: transfer_failure_def)

lemma upload_body_run:
  assumes "upload_body h l mx rep localPath remotePath c t st = (st', r)"
  shows "\<exists>content k. k \<le> 4 \<and> t_calls st' = t_calls st @ take k (tl (upload_steps l localPath c content remotePath)) \<and>
    (case r of Inl e \<Rightarrow> \<exists>x. e = ToolError x
     | Inr (prog, res) \<Rightarrow> k = 4 \<and> l_readFile l (t_calls st @ [LocalStat c]) c = Inr content \<and>
         (\<exists>back. h_readFile h (butlast (t_calls st')) remotePath = Inr back \<and> l_sha256 l back = l_sha256 l content) \<and>
         tr_verified res \<and> tr_sha256 res = l_sha256 l content \<and> tr_size res \<le> mx)"
proof -
  define content where "content = (case l_readFile l (t_calls st @ [LocalStat c]) c of Inr x \<Rightarrow> x | Inl e \<Rightarrow> [])"
  have "\<exists>k. k \<le> 4 \<and> t_calls st' = t_calls st @ take k (tl (upload_steps l localPath c content remotePath)) \<and>
    (case r of Inl e \<Rightarrow> \<exists>x. e = ToolError x
     | Inr (prog, res) \<Rightarrow> k = 4 \<and> l_readFile l (t_calls st @ [LocalStat c]) c = Inr content \<and>
         (\<exists>back. h_readFile h (butlast (t_calls st')) remotePath = Inr back \<and> l_sha256 l back = l_sha256 l content) \<and>
         tr_verified res \<and> tr_sha256 res = l_sha256 l content \<and> tr_size res \<le> mx)"
    using assms
    by (auto simp: upload_body_def cmap_error_def cbind_def cseq_def fs_stat_def fs_readFile_def sftpWriteFile_def sftpReadFile_def
        host_do_eq local_thrown_def check_transfer_size_def fail_tool_def at_host_def record_metric_def completed_result_def
        upload_steps_def butlast_append transfer_failure_thrown content_def
        split: prod.splits sum.splits if_splits
        intro: exI [of _ "1::nat"] exI [of _ "2::nat"] exI [of _ "3::nat"] exI [of _ "4::nat"])
  then show ?thesis by blast
qed

lemma transfer_start:
  assumes "h_session h (t_calls st) sid = Some s"
  shows "\<not> (ts_sftp s \<and> (\<exists>d. h_policy h (transfer_context a s path) = Inr d)) \<Longrightarrow>
      \<exists>x. cbind (transfer_session h sid) (\<lambda>s. cbind (assert_allowed h (transfer_context a s path)) (f s)) st = (st, Inl (ToolError x))"
    and "ts_sftp s \<Longrightarrow> h_policy h (transfer_context a s path) = Inr d \<Longrightarrow>
      cbind (transfer_session h sid) (\<lambda>s. cbind (assert_allowed h (transfer_context a s path)) (f s)) st = f s d st"
  using transfer_session_run [OF assms]
  by (cases "ts_sftp s"; cases "h_policy h (transfer_context a s path)"; simp add: cbind_def assert_allowed_def)+

lemma uploadFileWithProgress_run:
  assumes "uploadFileWithProgress h l mx rep sid localPath remotePath st = (st', r)" and "h_session h (t_calls st) sid = Some s"
    and "ts_sftp s" and "h_policy h (transfer_context TransferUpload s remotePath) = Inr d" and "dec_mode d = Enforce"
  obtains s1 e where "authorizeLocalReadPath h l localPath (ts_mode s) st = (s1, Inl e)" and "st' = s1" and "r = Inl e"
  | s1 c where "authorizeLocalReadPath h l localPath (ts_mode s) st = (s1, Inr c)"
      and "upload_body h l mx rep localPath remotePath c (h_now h (t_calls s1)) s1 = (st', r)"
proof -
  obtain s1 q where a: "authorizeLocalReadPath h l localPath (ts_mode s) st = (s1, q)" by fastforce
  have "cbind (authorizeLocalReadPath h l localPath (ts_mode s)) (\<lambda>c. cbind (at_host (h_now h)) (upload_body h l mx rep localPath remotePath c)) st = (st', r)"
    using assms(1,5) unfolding uploadFileWithProgress_def transfer_start(2) [OF assms(2,3,4)] by simp
  then show thesis using a that by (cases q) (auto simp: cbind_def at_host_def)
qed

text \<open>An upload is authorised, bounded and verified. On a session in enforce mode, an upload makes the calls: resolve
  the local path, read its size, read it, write exactly its content to the remote path, read that back; it stops at
  the first that fails. Nothing is called unless the policy engine allows the upload to the remote path, and the
  local file is not looked at unless the engine allows reading the resolved path. It succeeds only with all steps
  done, a size within the limit, and the remote content read back with the digest of the local content, which is
  the one it reports; otherwise it throws an error of the server.\<close>
theorem upload_verified:
  assumes "uploadFileWithProgress h l mx rep sid localPath remotePath st = (st', r)"
    and "h_policy h = (\<lambda>ctx. snd (assertAllowed rx lenv eng ctx))"
    and "h_session h (t_calls st) sid = Some s" and "ts_mode s = Enforce"
  shows "\<exists>c content k. k \<le> 5 \<and> t_calls st' = t_calls st @ take k (upload_steps l localPath c content remotePath) \<and>
    (k = 0 \<or> allowed (evaluate rx lenv eng (transfer_context TransferUpload s remotePath))) \<and>
    (k \<le> 1 \<or> (l_realpath l (t_calls st) (path_resolve (l_cwd l) localPath) = Inr c \<and> allowed (evaluate rx lenv eng (local_read_context c Enforce)))) \<and>
    (case r of Inl e \<Rightarrow> \<exists>x. e = ToolError x
     | Inr (prog, res) \<Rightarrow> k = 5 \<and> l_readFile l (t_calls st @ take 2 (upload_steps l localPath c content remotePath)) c = Inr content \<and>
         (\<exists>back. h_readFile h (butlast (t_calls st')) remotePath = Inr back \<and> l_sha256 l back = l_sha256 l content) \<and>
         tr_verified res \<and> tr_sha256 res = l_sha256 l content \<and> tr_size res \<le> mx)"
proof -
  let ?P = "h_policy h (transfer_context TransferUpload s remotePath)"
  have modes: "ctx_mode (transfer_context TransferUpload s remotePath) = Some Enforce" "ctx_mode (local_read_context c Enforce) = Some Enforce" for c
    using assms(4) by (simp_all add: transfer_context_def local_read_context_def tool_context_def)
  show ?thesis
  proof (cases "ts_sftp s \<and> (\<exists>d. ?P = Inr d)")
    case False
    have "\<exists>x. uploadFileWithProgress h l mx rep sid localPath remotePath st = (st, Inl (ToolError x))"
      unfolding uploadFileWithProgress_def by (rule transfer_start(1) [OF assms(3) False])
    then show ?thesis using assms(1) by (intro exI [of _ "[]"] exI [of _ "0::nat"]) auto
  next
    case True
    then obtain d where d: "?P = Inr d" and sf: "ts_sftp s" by blast
    have up: "allowed (evaluate rx lenv eng (transfer_context TransferUpload s remotePath))" "dec_mode d = Enforce"
      using enforced_allowed [OF assms(2) modes(1) d] by auto
    show ?thesis
    proof (cases rule: uploadFileWithProgress_run [OF assms(1,3) sf d up(2)])
      case (1 s1 e)
      from authorizeLocalReadPath_run [OF 1(1)] obtain k x where "k \<le> 1" "e = ToolError x"
        "t_calls s1 = t_calls st @ take k [LocalRealpath (path_resolve (l_cwd l) localPath)]" by auto
      then show ?thesis using 1 up(1) by (intro exI [of _ "[]"] exI [of _ k]) (auto simp: upload_steps_def le_Suc_eq)
    next
      case (2 s1 c)
      have s1: "t_calls s1 = t_calls st @ [LocalRealpath (path_resolve (l_cwd l) localPath)]"
        and rd: "l_realpath l (t_calls st) (path_resolve (l_cwd l) localPath) = Inr c" "allowed (evaluate rx lenv eng (local_read_context c Enforce))"
        using authorizeLocalReadPath_run [OF 2(1)] enforced_allowed [OF assms(2) modes(2)] assms(4) by auto
      from upload_body_run [OF 2(2)] obtain content j where "j \<le> 4"
        "t_calls st' = t_calls s1 @ take j (tl (upload_steps l localPath c content remotePath))"
        "case r of Inl e \<Rightarrow> \<exists>x. e = ToolError x
         | Inr (prog, res) \<Rightarrow> j = 4 \<and> l_readFile l (t_calls s1 @ [LocalStat c]) c = Inr content \<and>
             (\<exists>back. h_readFile h (butlast (t_calls st')) remotePath = Inr back \<and> l_sha256 l back = l_sha256 l content) \<and>
             tr_verified res \<and> tr_sha256 res = l_sha256 l content \<and> tr_size res \<le> mx" by blast
      then show ?thesis
        using s1 up(1) rd
        by (intro exI [of _ c] exI [of _ content] exI [of _ "Suc j"]) (auto simp: upload_steps_def split: sum.splits)
    qed
  qed
qed

section \<open>Downloads\<close>

text \<open>The calls that store the data: check the temporary file, write it, resolve it and read it back, check the
  target again and rename.\<close>

definition store_steps :: "local_fs \<Rightarrow> string \<Rightarrow> string \<Rightarrow> string \<Rightarrow> string \<Rightarrow> host_call list" where
  "store_steps l localPath temp canonical data =
     target_checks l temp @ [LocalWriteFile temp data, LocalRealpath temp, LocalReadFile canonical] @
     target_checks l localPath @ [LocalRename temp (path_resolve (l_cwd l) localPath)]"

lemma target_checks_length: "length (target_checks l p) = 2"
  by (simp add: target_checks_def Let_def)

lemma finish_download_run:
  assumes "finish_download h l mode localPath remotePath temp data localData st = (st', r)"
  shows "\<exists>k rm. k \<le> 3 \<and> rm \<in> {[], [LocalRm temp]} \<and>
    t_calls st' = t_calls st @ take k (target_checks l localPath @ [LocalRename temp (path_resolve (l_cwd l) localPath)]) @ rm \<and>
    (if l_sha256 l localData = l_sha256 l data then rm = [] else k = 0 \<and> rm \<noteq> []) \<and>
    (k \<le> 2 \<or> write_allowed h l (t_calls st) mode (path_resolve (l_cwd l) localPath)) \<and>
    (case r of Inl e \<Rightarrow> True | Inr u \<Rightarrow> k = 3)"
proof (cases "l_sha256 l data = l_sha256 l localData")
  case False
  then show ?thesis using assms
    by (intro exI [of _ 0] exI [of _ "[LocalRm temp]"])
      (auto simp: finish_download_def fs_rm_def host_do_def cseq_def cbind_def fail_tool_def local_thrown_def split: sum.splits)
next
  case True
  obtain s1 q where a: "authorizeLocalWritePath h l localPath mode st = (s1, q)" by fastforce
  from authorizeLocalWritePath_run [OF a] obtain k where k: "k \<le> 2" "s1 = st\<lparr>t_calls := t_calls st @ take k (target_checks l localPath)\<rparr>"
    and q: "case q of Inl e \<Rightarrow> \<exists>x. e = ToolError x | Inr w \<Rightarrow> k = 2 \<and> absolutePath w = path_resolve (l_cwd l) localPath \<and>
      write_resolved l (t_calls st) w \<and> (\<exists>d. h_policy h (local_write_context w mode) = Inr d)" by blast
  show ?thesis
  proof (cases q)
    case (Inl e)
    then have "st' = s1" "r = Inl e" using assms a True by (simp_all add: finish_download_def)
    then show ?thesis using k True Inl by (intro exI [of _ k] exI [of _ "[]"]) (simp add: target_checks_length)
  next
    case (Inr w)
    then have "t_calls st' = t_calls s1 @ [LocalRename temp (path_resolve (l_cwd l) localPath)]"
      using assms a True q by (auto simp: finish_download_def fs_rename_def host_do_def)
    then show ?thesis using k True Inr q
      by (intro exI [of _ 3] exI [of _ "[]"]) (auto simp: target_checks_length write_allowed_def split: sum.splits)
  qed
qed

definition read_back :: "local_fs \<Rightarrow> history \<Rightarrow> string \<Rightarrow> string \<Rightarrow> bool" where
  "read_back l cs p data \<longleftrightarrow> (\<exists>back. l_readFile l cs p = Inr back \<and> l_sha256 l back = l_sha256 l data)"

lemma stored_check:
  assumes "cbind (authorizeLocalReadPath h l temp mode)
      (\<lambda>c. cbind (fs_readFile l c) (finish_download h l mode localPath remotePath temp data)) s2 = (st', r)"
    and s2: "t_calls s2 = cs @ target_checks l temp @ [LocalWriteFile temp data]"
    and res: "path_resolve (l_cwd l) temp = temp" and w: "write_allowed h l cs mode temp"
  shows "\<exists>c k rm. k \<le> 8 \<and> rm \<in> {[], [LocalRm temp]} \<and> t_calls st' = cs @ take k (store_steps l localPath temp c data) @ rm \<and>
    (rm = [] \<or> k = 5) \<and> (k \<le> 2 \<or> write_allowed h l cs mode temp) \<and>
    (k \<le> 5 \<or> read_back l (cs @ take 4 (store_steps l localPath temp c data)) c data) \<and>
    (k \<le> 7 \<or> write_allowed h l (cs @ take 5 (store_steps l localPath temp c data)) mode (path_resolve (l_cwd l) localPath)) \<and>
    (case r of Inl e \<Rightarrow> True | Inr u \<Rightarrow> k = 8)"
    (is "\<exists>c k rm. ?goal c k rm")
proof -
  obtain s3 q where a: "authorizeLocalReadPath h l temp mode s2 = (s3, q)" by fastforce
  from authorizeLocalReadPath_run [OF a] obtain k where k: "k \<le> 1" "s3 = s2\<lparr>t_calls := t_calls s2 @ take k [LocalRealpath temp]\<rparr>"
    and q: "case q of Inl e \<Rightarrow> \<exists>x. e = ToolError x | Inr c \<Rightarrow> k = 1 \<and> l_realpath l (t_calls s2) temp = Inr c \<and> (\<exists>d. h_policy h (local_read_context c mode) = Inr d)"
    unfolding res by blast
  show ?thesis
  proof (cases q)
    case (Inl e)
    then have "st' = s3" "r = Inl e" using assms(1) a by simp_all
    then have "?goal [] (3 + k) []" using k Inl s2 w by (auto simp: store_steps_def target_checks_length le_Suc_eq)
    then show ?thesis by blast
  next
    case (Inr c)
    then have s3: "t_calls s3 = t_calls s2 @ [LocalRealpath temp]" using k q by simp
    define s4 where "s4 = s3\<lparr>t_calls := t_calls s3 @ [LocalReadFile c]\<rparr>"
    have run: "cbind (fs_readFile l c) (finish_download h l mode localPath remotePath temp data) s3 = (st', r)"
      using assms(1) a Inr by simp
    show ?thesis
    proof (cases "l_readFile l (t_calls s3) c")
      case (Inl e)
      then have "st' = s4" "\<exists>x. r = Inl x" using run by (auto simp: fs_readFile_def host_do_def local_thrown_def cbind_def s4_def split: prod.splits)
      then have "?goal c 5 []" using s2 s3 w by (auto simp: s4_def store_steps_def target_checks_length)
      then show ?thesis by blast
    next
      case (Inr b)
      then have "finish_download h l mode localPath remotePath temp data b s4 = (st', r)"
        using run by (simp add: fs_readFile_def host_do_def local_thrown_def cbind_def s4_def)
      from finish_download_run [OF this] obtain j rm where "j \<le> 3" "rm \<in> {[], [LocalRm temp]}"
        "t_calls st' = t_calls s4 @ take j (target_checks l localPath @ [LocalRename temp (path_resolve (l_cwd l) localPath)]) @ rm"
        "if l_sha256 l b = l_sha256 l data then rm = [] else j = 0 \<and> rm \<noteq> []"
        "j \<le> 2 \<or> write_allowed h l (t_calls s4) mode (path_resolve (l_cwd l) localPath)" "case r of Inl e \<Rightarrow> True | Inr u \<Rightarrow> j = 3"
        by blast
      then have "?goal c (5 + j) rm"
        using Inr s2 s3 w by (auto simp: s4_def store_steps_def target_checks_length read_back_def numeral_3_eq_3 split: if_splits sum.splits)
      then show ?thesis by blast
    qed
  qed
qed

lemma store_download_run:
  assumes "store_download h l mode localPath remotePath (path_resolve (l_cwd l) localPath) data st = (st', r)"
    and temp: "temp = path_resolve (l_cwd l) localPath @ ''.tmp.'' @ show_int (h_now h (t_calls st))"
  shows "\<exists>c k rm. k \<le> 8 \<and> rm \<in> {[], [LocalRm temp]} \<and> t_calls st' = t_calls st @ take k (store_steps l localPath temp c data) @ rm \<and>
    (rm = [] \<or> k = 5) \<and> (k \<le> 2 \<or> write_allowed h l (t_calls st) mode temp) \<and>
    (k \<le> 5 \<or> read_back l (t_calls st @ take 4 (store_steps l localPath temp c data)) c data) \<and>
    (k \<le> 7 \<or> write_allowed h l (t_calls st @ take 5 (store_steps l localPath temp c data)) mode (path_resolve (l_cwd l) localPath)) \<and>
    (case r of Inl e \<Rightarrow> True | Inr u \<Rightarrow> k = 8)"
    (is "\<exists>c k rm. ?goal c k rm")
proof -
  have res: "path_resolve (l_cwd l) temp = temp" unfolding temp by (rule path_resolve_suffix [OF temp_suffix_ok])
  let ?rest = "\<lambda>temp tempReadPath. cbind (fs_readFile l tempReadPath) (finish_download h l mode localPath remotePath temp data)"
  obtain s1 q where a: "authorizeLocalWritePath h l temp mode st = (s1, q)" by fastforce
  from authorizeLocalWritePath_run [OF a] obtain k where k: "k \<le> 2" "s1 = st\<lparr>t_calls := t_calls st @ take k (target_checks l temp)\<rparr>"
    and q: "case q of Inl e \<Rightarrow> \<exists>x. e = ToolError x | Inr w \<Rightarrow> k = 2 \<and> absolutePath w = temp \<and>
      write_resolved l (t_calls st) w \<and> (\<exists>d. h_policy h (local_write_context w mode) = Inr d)" unfolding res by blast
  show ?thesis
  proof (cases q)
    case (Inl e)
    then have "st' = s1" "r = Inl e" using assms(1) a by (simp_all add: store_download_def at_host_def temp)
    then have "?goal [] k []" using k Inl by (simp add: store_steps_def target_checks_length)
    then show ?thesis by blast
  next
    case (Inr w)
    then have w: "absolutePath w = temp" "write_allowed h l (t_calls st) mode temp" "k = 2" using q by (auto simp: write_allowed_def)
    define s2 where "s2 = s1\<lparr>t_calls := t_calls s1 @ [LocalWriteFile temp data]\<rparr>"
    have s2: "t_calls s2 = t_calls st @ target_checks l temp @ [LocalWriteFile temp data]"
      using k w(3) by (simp add: s2_def target_checks_length)
    have run: "cseq (fs_writeFile l temp data) (cbind (authorizeLocalReadPath h l temp mode) (?rest temp)) s1 = (st', r)"
      using assms(1) a Inr w(1) by (simp add: store_download_def at_host_def temp)
    show ?thesis
    proof (cases "l_writeFile l (t_calls s1) temp data")
      case (Inl e)
      then have "st' = s2" "\<exists>x. r = Inl x" using run by (auto simp: fs_writeFile_def host_do_def local_thrown_def cseq_def cbind_def s2_def split: prod.splits)
      then have "?goal [] 3 []" using s2 w by (auto simp: store_steps_def target_checks_length)
      then show ?thesis by blast
    next
      case (Inr u)
      then have "cbind (authorizeLocalReadPath h l temp mode) (?rest temp) s2 = (st', r)"
        using run cseq_Inr [of "fs_writeFile l temp data" s1 s2 u]
        by (simp add: fs_writeFile_def host_do_def local_thrown_def s2_def)
      then show ?thesis using stored_check [OF _ s2 res w(2)] by blast
    qed
  qed
qed

definition download_steps :: "local_fs \<Rightarrow> string \<Rightarrow> string \<Rightarrow> string \<Rightarrow> string \<Rightarrow> string \<Rightarrow> host_call list" where
  "download_steps l remotePath localPath temp canonical data =
     target_checks l localPath @ [SftpStat remotePath, SftpReadFile remotePath] @ store_steps l localPath temp canonical data"

text \<open>What a download promises, of the number \<open>k\<close> of steps it made, the removal \<open>rm\<close> and its result.\<close>

definition download_promise ::
  "host \<Rightarrow> local_fs \<Rightarrow> int \<Rightarrow> PolicyMode \<Rightarrow> string \<Rightarrow> string \<Rightarrow> history \<Rightarrow> string \<Rightarrow> string \<Rightarrow> string \<Rightarrow> nat \<Rightarrow> host_call list \<Rightarrow>
     tool_error + transferred \<Rightarrow> bool" where
  "download_promise h l mx mode remotePath localPath cs temp c data k rm r \<longleftrightarrow>
     (let steps = download_steps l remotePath localPath temp c data in
      k \<le> 12 \<and> (rm = [] \<or> (rm = [LocalRm temp] \<and> k = 9)) \<and>
      (k \<le> 6 \<or> write_allowed h l (cs @ take 4 steps) mode temp) \<and>
      (k \<le> 9 \<or> read_back l (cs @ take 8 steps) c data) \<and>
      (k \<le> 11 \<or> write_allowed h l (cs @ take 9 steps) mode (path_resolve (l_cwd l) localPath)) \<and>
      (case r of Inl e \<Rightarrow> \<exists>x. e = ToolError x
       | Inr (prog, res) \<Rightarrow> k = 12 \<and> tr_verified res \<and> tr_sha256 res = l_sha256 l data \<and> tr_size res \<le> mx))"

lemma download_early:
  assumes "k \<le> 4" and "t_calls st' = cs @ take k (target_checks l localPath @ [SftpStat remotePath, SftpReadFile remotePath])"
    and "\<exists>x. r = Inl (ToolError x)"
  shows "\<exists>temp c data k rm. temp \<noteq> path_resolve (l_cwd l) localPath \<and>
    t_calls st' = cs @ take k (download_steps l remotePath localPath temp c data) @ rm \<and>
    download_promise h l mx mode remotePath localPath cs temp c data k rm r"
proof -
  let ?t = "path_resolve (l_cwd l) localPath @ ''x''"
  have "take k (download_steps l remotePath localPath ?t [] []) = take k (target_checks l localPath @ [SftpStat remotePath, SftpReadFile remotePath])"
    using assms(1) by (auto simp: download_steps_def target_checks_length le_Suc_eq numeral_eq_Suc)
  moreover have "download_promise h l mx mode remotePath localPath cs ?t [] [] k [] r"
    using assms(1,3) by (auto simp: download_promise_def Let_def)
  moreover have "?t \<noteq> path_resolve (l_cwd l) localPath" by simp
  ultimately show ?thesis using assms(2) append_Nil2 by metis
qed

lemma download_stored:
  assumes "store_download h l mode localPath remotePath (path_resolve (l_cwd l) localPath) data s1 = (st', q)"
    and s1: "t_calls s1 = cs @ target_checks l localPath @ [SftpStat remotePath, SftpReadFile remotePath]"
    and "temp = path_resolve (l_cwd l) localPath @ ''.tmp.'' @ show_int (h_now h (t_calls s1))"
    and r: "case q of Inl e \<Rightarrow> \<exists>x. r = Inl (ToolError x) | Inr u \<Rightarrow> \<exists>rep f sz t. r = Inr (completed_result rep f sz t (l_sha256 l data)) \<and> sz \<le> mx"
  shows "\<exists>c k rm. t_calls st' = cs @ take k (download_steps l remotePath localPath temp c data) @ rm \<and>
    download_promise h l mx mode remotePath localPath cs temp c data k rm r"
proof -
  from store_download_run [OF assms(1,3)] obtain c k rm where
    k: "k \<le> 8" "rm \<in> {[], [LocalRm temp]}" "t_calls st' = t_calls s1 @ take k (store_steps l localPath temp c data) @ rm"
      "rm = [] \<or> k = 5" "k \<le> 2 \<or> write_allowed h l (t_calls s1) mode temp"
      "k \<le> 5 \<or> read_back l (t_calls s1 @ take 4 (store_steps l localPath temp c data)) c data"
      "k \<le> 7 \<or> write_allowed h l (t_calls s1 @ take 5 (store_steps l localPath temp c data)) mode (path_resolve (l_cwd l) localPath)"
    and kr: "case q of Inl e \<Rightarrow> True | Inr u \<Rightarrow> k = 8" by blast
  have "t_calls st' = cs @ take (4 + k) (download_steps l remotePath localPath temp c data) @ rm"
    using k(3) s1 by (simp add: download_steps_def target_checks_length numeral_3_eq_3 numeral_2_eq_2)
  moreover have "case r of Inl e \<Rightarrow> \<exists>x. e = ToolError x
       | Inr (prog, res) \<Rightarrow> 4 + k = 12 \<and> tr_verified res \<and> tr_sha256 res = l_sha256 l data \<and> tr_size res \<le> mx"
    using r kr by (auto simp: completed_result_def split: sum.splits)
  moreover have "take 4 (download_steps l remotePath localPath temp c data) = target_checks l localPath @ [SftpStat remotePath, SftpReadFile remotePath]"
    "take 8 (download_steps l remotePath localPath temp c data) = target_checks l localPath @ [SftpStat remotePath, SftpReadFile remotePath] @ take 4 (store_steps l localPath temp c data)"
    "take 9 (download_steps l remotePath localPath temp c data) = target_checks l localPath @ [SftpStat remotePath, SftpReadFile remotePath] @ take 5 (store_steps l localPath temp c data)"
    by (simp_all add: download_steps_def target_checks_length)
  ultimately have "download_promise h l mx mode remotePath localPath cs temp c data (4 + k) rm r"
    using k s1 by (auto simp: download_promise_def Let_def)
  then show ?thesis using \<open>t_calls st' = cs @ take (4 + k) _ @ rm\<close> by blast
qed

abbreviation thrown_as :: "string \<Rightarrow> tool_error + 'a \<Rightarrow> tool_error + 'a" where
  "thrown_as remotePath p \<equiv> (case p of Inl e \<Rightarrow> Inl (transfer_failure ''download'' remotePath e) | Inr x \<Rightarrow> Inr x)"

lemma thrown_as_Inl: "\<exists>x. thrown_as remotePath (Inl e) = Inl (ToolError x)"
  using transfer_failure_thrown [of "''download''" remotePath e] by auto

lemma fetch_download_run:
  assumes run: "fetch_download h l mx rep mode remotePath localPath t (path_resolve (l_cwd l) localPath) s1 = (st', p)"
    and s1: "t_calls s1 = cs @ target_checks l localPath"
  shows "\<exists>temp c data k rm. temp \<noteq> path_resolve (l_cwd l) localPath \<and>
    t_calls st' = cs @ take k (download_steps l remotePath localPath temp c data) @ rm \<and>
    download_promise h l mx mode remotePath localPath cs temp c data k rm (thrown_as remotePath p)"
proof -
  define s2 where "s2 = s1\<lparr>t_calls := t_calls s1 @ [SftpStat remotePath]\<rparr>"
  define s3 where "s3 = s2\<lparr>t_calls := t_calls s2 @ [SftpReadFile remotePath]\<rparr>"
  have three: ?thesis if "st' = s2" "p = Inl e" for e
    using that s1 thrown_as_Inl [of remotePath e] by (intro download_early [of 3]) (simp_all add: s2_def target_checks_length)
  have four: ?thesis if "st' = s3" "p = Inl e" for e
    using that s1 thrown_as_Inl [of remotePath e] by (intro download_early [of 4]) (simp_all add: s2_def s3_def target_checks_length)
  show ?thesis
  proof (cases "h_stat h (t_calls s1) remotePath")
    case (Inl e)
    then have "st' = s2 \<and> p = Inl e" using run by (auto simp: fetch_download_def sftpStat_def host_do_def s2_def)
    then show ?thesis using three by blast
  next
    case (Inr a)
    let ?size = "or_else (fa_size a) 0"
    let ?store = "store_download h l mode localPath remotePath (path_resolve (l_cwd l) localPath)"
    have r2: "cseq (check_transfer_size mx ?size) (cbind (sftpReadFile h remotePath) (\<lambda>data. cseq (?store data)
        (cbind (at_host (h_now h)) (\<lambda>finish. cseq (record_metric (recordTransfer False ?size))
          (creturn (completed_result rep (path_basename remotePath) ?size (finish - t) (l_sha256 l data))))))) s2 = (st', p)"
      using run Inr unfolding fetch_download_def by (simp add: sftpStat_def host_do_def s2_def Let_def)
    show ?thesis
    proof (cases "?size \<le> mx")
      case False
      then have "st' = s2 \<and> (\<exists>e. p = Inl e)" using r2 by (auto simp: check_transfer_size_def fail_tool_def)
      then show ?thesis using three by blast
    next
      case True
      show ?thesis
      proof (cases "h_readFile h (t_calls s2) remotePath")
        case (Inl e)
        then have "st' = s3 \<and> p = Inl e" using r2 True by (auto simp: check_transfer_size_def sftpReadFile_def host_do_def s3_def)
        then show ?thesis using four by blast
      next
        case (Inr data)
        obtain s4 q where q: "?store data s3 = (s4, q)" by fastforce
        have r3: "cseq (?store data) (cbind (at_host (h_now h)) (\<lambda>finish. cseq (record_metric (recordTransfer False ?size))
            (creturn (completed_result rep (path_basename remotePath) ?size (finish - t) (l_sha256 l data))))) s3 = (st', p)"
          using r2 True Inr by (simp add: check_transfer_size_def sftpReadFile_def host_do_def s3_def)
        have calls: "t_calls st' = t_calls s4" using r3 q by (cases q) (auto simp: at_host_def record_metric_def cseq_def cbind_def)
        have result: "case q of Inl e \<Rightarrow> \<exists>x. thrown_as remotePath p = Inl (ToolError x)
          | Inr u \<Rightarrow> \<exists>rep f sz t. thrown_as remotePath p = Inr (completed_result rep f sz t (l_sha256 l data)) \<and> sz \<le> mx"
          using r3 q True thrown_as_Inl by (cases q; fastforce simp: at_host_def record_metric_def cseq_def cbind_def)
        have s3: "t_calls s3 = cs @ target_checks l localPath @ [SftpStat remotePath, SftpReadFile remotePath]"
          using s1 by (simp add: s2_def s3_def)
        moreover have "path_resolve (l_cwd l) localPath @ ''.tmp.'' @ show_int (h_now h (t_calls s3)) \<noteq> path_resolve (l_cwd l) localPath" by simp
        ultimately show ?thesis using download_stored [OF q s3 refl result] unfolding calls by blast
      qed
    qed
  qed
qed

lemma download_body_run:
  assumes "download_body h l mx rep mode remotePath localPath t st = (st', r)"
  shows "\<exists>temp c data k rm. temp \<noteq> path_resolve (l_cwd l) localPath \<and>
    t_calls st' = t_calls st @ take k (download_steps l remotePath localPath temp c data) @ rm \<and>
    download_promise h l mx mode remotePath localPath (t_calls st) temp c data k rm r"
proof -
  obtain s1 q where a: "authorizeLocalWritePath h l localPath mode st = (s1, q)" by fastforce
  from authorizeLocalWritePath_run [OF a] obtain k where k: "k \<le> 2" "s1 = st\<lparr>t_calls := t_calls st @ take k (target_checks l localPath)\<rparr>"
    and q: "case q of Inl e \<Rightarrow> \<exists>x. e = ToolError x | Inr w \<Rightarrow> k = 2 \<and> absolutePath w = path_resolve (l_cwd l) localPath \<and>
      write_resolved l (t_calls st) w \<and> (\<exists>d. h_policy h (local_write_context w mode) = Inr d)" by blast
  show ?thesis
  proof (cases q)
    case (Inl e)
    then have "st' = s1" "r = Inl (transfer_failure ''download'' remotePath e)"
      using assms a by (simp_all add: download_body_def cmap_error_def)
    moreover from k have "t_calls s1 = t_calls st @ take k (target_checks l localPath @ [SftpStat remotePath, SftpReadFile remotePath])"
      by (simp add: target_checks_length)
    moreover have "k \<le> 4" using k by simp
    ultimately show ?thesis using transfer_failure_thrown [of "''download''" remotePath e] by (intro download_early [of k]) auto
  next
    case (Inr w)
    have s1: "t_calls s1 = t_calls st @ target_checks l localPath" using k q Inr by (auto simp: target_checks_length)
    obtain p where "fetch_download h l mx rep mode remotePath localPath t (path_resolve (l_cwd l) localPath) s1 = (st', p)" "r = thrown_as remotePath p"
      using assms a Inr q by (auto simp: download_body_def cmap_error_def split: prod.splits sum.splits)
    then show ?thesis using fetch_download_run s1 by metis
  qed
qed


section \<open>Sample transfers\<close>

text \<open>A machine with \<open>/tmp\<close>, the file \<open>/tmp/u\<close> in it, and whatever was written; digests that are the data itself.\<close>

definition demo_local :: local_fs where
  "demo_local =
     \<lparr>l_cwd = ''/tmp'',
      l_realpath = (\<lambda>cs p. if p \<in> {''/tmp'', ''/tmp/u''} \<or> list_ex (\<lambda>c. case c of LocalWriteFile q _ \<Rightarrow> q = p | _ \<Rightarrow> False) cs
        then Inr p else Inl (''ENOENT'', ''missing'')),
      l_stat = (\<lambda>cs p. Inr 3), l_readFile = (\<lambda>cs p. Inr ''abc''), l_writeFile = (\<lambda>cs p d. Inr ()), l_rename = (\<lambda>cs a b. Inr ()),
      l_rm = (\<lambda>cs p. Inr ()), l_sha256 = id\<rparr>"

theorem upload_verified_witness:
  "\<exists>c content k. t_calls (fst (uploadFileWithProgress demo_host demo_local 10 False ''s'' ''u'' ''/tmp/r'' demo_tool_state)) =
     t_calls demo_tool_state @ take k (upload_steps demo_local ''u'' c content ''/tmp/r'')"
proof -
  have p: "h_policy demo_host = (\<lambda>ctx. snd (assertAllowed (\<lambda>_. None) sample_env sample_engine ctx))" by (simp add: demo_host_def)
  have m: "ts_mode demo_session = Enforce" by simp
  from upload_verified [OF prod.collapse [symmetric, of "uploadFileWithProgress demo_host demo_local 10 False ''s'' ''u'' ''/tmp/r'' demo_tool_state"]
      p demo_host_session m]
  show ?thesis by blast
qed


definition busy_local :: local_fs where
  "busy_local = demo_local\<lparr>l_rename := (\<lambda>cs a b. Inl (''EACCES'', ''permission denied''))\<rparr>"

lemma demo_download_policy:
  "h_policy demo_host (transfer_context TransferDownload demo_session ''/tmp/r'') = Inr (allowed_decision Enforce TransferDownload)"
  "h_policy demo_host (local_write_context \<lparr>absolutePath = ''/tmp/f'', canonicalPath = ''/tmp/f'', parentCanonicalPath = ''/tmp'',
     lw_action = TransferLocalCreate\<rparr> Enforce) = Inr (allowed_decision Enforce TransferLocalCreate)"
  "h_policy demo_host (local_write_context \<lparr>absolutePath = ''/tmp/f.tmp.7'', canonicalPath = ''/tmp/f.tmp.7'', parentCanonicalPath = ''/tmp'',
     lw_action = TransferLocalCreate\<rparr> Enforce) = Inr (allowed_decision Enforce TransferLocalCreate)"
  "h_policy demo_host (local_read_context ''/tmp/f.tmp.7'' Enforce) = Inr (allowed_decision Enforce TransferLocalRead)"
  by (rule demo_host_policy, code_simp)+

text \<open>A file name that resolves in \<open>/tmp\<close>, before it is written and after.\<close>

lemma demo_paths:
  "path_resolve ''/tmp'' ''f'' = ''/tmp/f''" "path_resolve ''/tmp'' ''/tmp/f.tmp.7'' = ''/tmp/f.tmp.7''"
  "path_dirname ''/tmp/f'' = ''/tmp''" "path_dirname ''/tmp/f.tmp.7'' = ''/tmp''"
  "posix_normalize ''/tmp/f'' = ''/tmp/f''" "posix_normalize ''/tmp/f.tmp.7'' = ''/tmp/f.tmp.7''"
  "path_basename ''/tmp/f'' = ''f''" "path_basename ''/tmp/f.tmp.7'' = ''f.tmp.7''" "show_int 7 = ''7''"
  "trim ''f'' = ''f''" "trim ''/tmp/f.tmp.7'' = ''/tmp/f.tmp.7''"
  by code_simp+

lemma demo_authorize:
  assumes "list_all (\<lambda>c. \<forall>q d. c = LocalWriteFile q d \<longrightarrow> q \<noteq> ''/tmp/f'') (t_calls st)"
  shows "authorizeLocalWritePath demo_host busy_local ''f'' Enforce st =
    (st\<lparr>t_calls := t_calls st @ [LocalRealpath ''/tmp'', LocalRealpath ''/tmp/f'']\<rparr>,
     Inr \<lparr>absolutePath = ''/tmp/f'', canonicalPath = ''/tmp/f'', parentCanonicalPath = ''/tmp'', lw_action = TransferLocalCreate\<rparr>)"
proof -
  have "\<not> list_ex (\<lambda>c. case c of LocalWriteFile q _ \<Rightarrow> q = ''/tmp/f'' | _ \<Rightarrow> False) (t_calls st)"
    using assms by (auto simp: list_ex_iff list_all_iff split: host_call.splits)
  then show ?thesis
    using demo_download_policy(2)
    by (simp add: authorizeLocalWritePath_def resolveLocalWritePath_def resolveAbsoluteLocalPath_def validateLocalPathInput_def
        fs_realpath_def host_do_def assert_allowed_def cbind_def cseq_def busy_local_def demo_local_def demo_paths isMissingPathError_def Let_def)
qed

lemma demo_authorize_temp:
  assumes "list_all (\<lambda>c. \<forall>q d. c \<noteq> LocalWriteFile q d) (t_calls st)"
  shows "authorizeLocalWritePath demo_host busy_local ''/tmp/f.tmp.7'' Enforce st =
    (st\<lparr>t_calls := t_calls st @ [LocalRealpath ''/tmp'', LocalRealpath ''/tmp/f.tmp.7'']\<rparr>,
     Inr \<lparr>absolutePath = ''/tmp/f.tmp.7'', canonicalPath = ''/tmp/f.tmp.7'', parentCanonicalPath = ''/tmp'', lw_action = TransferLocalCreate\<rparr>)"
proof -
  have "\<not> list_ex (\<lambda>c. case c of LocalWriteFile q _ \<Rightarrow> q = ''/tmp/f.tmp.7'' | _ \<Rightarrow> False) (t_calls st)"
    using assms by (auto simp: list_ex_iff list_all_iff split: host_call.splits)
  then show ?thesis
    using demo_download_policy(3)
    by (simp add: authorizeLocalWritePath_def resolveLocalWritePath_def resolveAbsoluteLocalPath_def validateLocalPathInput_def
        fs_realpath_def host_do_def assert_allowed_def cbind_def cseq_def busy_local_def demo_local_def demo_paths isMissingPathError_def Let_def)
qed

lemma demo_reread:
  assumes "LocalWriteFile ''/tmp/f.tmp.7'' d \<in> set (t_calls st)"
  shows "authorizeLocalReadPath demo_host busy_local ''/tmp/f.tmp.7'' Enforce st =
    (st\<lparr>t_calls := t_calls st @ [LocalRealpath ''/tmp/f.tmp.7'']\<rparr>, Inr ''/tmp/f.tmp.7'')"
proof -
  have "list_ex (\<lambda>c. case c of LocalWriteFile q _ \<Rightarrow> q = ''/tmp/f.tmp.7'' | _ \<Rightarrow> False) (t_calls st)"
    using assms by (auto simp: list_ex_iff intro: bexI [of _ "LocalWriteFile ''/tmp/f.tmp.7'' d"])
  then show ?thesis
    using demo_download_policy(4)
    by (simp add: authorizeLocalReadPath_def resolveLocalReadPath_def resolveAbsoluteLocalPath_def validateLocalPathInput_def
        fs_realpath_def host_do_def assert_allowed_def cbind_def cseq_def busy_local_def demo_local_def demo_paths)
qed

text \<open>A download whose last step fails leaves the temporary file behind: on a machine that refuses the rename,
  the data was written beside the target, the download throws, and nothing removes the file.\<close>
theorem download_leaves_temp:
  "\<exists>st' e. downloadFileWithProgress demo_host busy_local 10 False ''s'' ''/tmp/r'' ''f'' demo_tool_state = (st', Inl e) \<and>
    LocalWriteFile ''/tmp/f.tmp.7'' ''abc'' \<in> set (t_calls st') \<and> \<not> list_ex (\<lambda>c. case c of LocalRm q \<Rightarrow> True | _ \<Rightarrow> False) (t_calls st')"
proof -
  have h: "h_session demo_host cs ''s'' = Some demo_session" "h_now demo_host cs = 7" "h_stat demo_host cs p = Inr (demo_attrs 16384)"
    "h_readFile demo_host cs p = Inr ''abc''" "fa_size (demo_attrs m) = Some 3" for cs p m by (simp_all add: demo_host_def demo_attrs_def)
  have l: "l_cwd busy_local = ''/tmp''" "l_writeFile busy_local cs p d = Inr ()" "l_readFile busy_local cs p = Inr ''abc''" "l_sha256 busy_local = id"
    "l_rename busy_local cs a b = Inl (''EACCES'', ''permission denied'')" for cs p d a b by (simp_all add: busy_local_def demo_local_def)
  show ?thesis
    using demo_download_policy(1)
    by (simp add: downloadFileWithProgress_def transfer_session_def HostTools.getSession_def h l assert_allowed_def dec_mode_allowed at_host_def
        download_body_def fetch_download_def store_download_def finish_download_def cbind_def cseq_def cmap_error_def demo_tool_state_def
        demo_authorize demo_authorize_temp demo_reread [where d = "''abc''"] demo_paths sftpStat_def sftpReadFile_def host_do_def check_transfer_size_def fs_writeFile_def fs_readFile_def
        fs_rename_def local_thrown_def)
qed

end
