(* ===== verification/Tunnels.thy ===== *)
theory Tunnels
  imports HostTools "HOL-Library.Multiset"
begin

text \<open>
  SSH tunnels (\<open>src/tunnel.ts\<close>): the tunnel manager with its two maps, local and remote forwards, and closing.
  Opening a listener or a forward and closing a handle are awaited, so each operation is split there in a
  first and a second half, and the step relation lets the halves of different operations interleave. The SSH
  library and the sockets are left out: their answers (a port, an error) are arguments of the second half, and
  the session an operation finds is an argument of the first.
\<close>

section \<open>State\<close>

datatype TunnelType = LocalTunnel | RemoteTunnel | DynamicTunnel

record TunnelConfig =
  tc_sessionId :: string
  tc_type :: TunnelType
  tc_localHost :: "string option"
  tc_localPort :: int
  tc_remoteHost :: "string option"
  tc_remotePort :: "int option"

record TunnelInfo =
  ti_id :: string
  ti_sessionId :: string
  ti_type :: TunnelType
  ti_localHost :: string
  ti_localPort :: int
  ti_remoteHost :: string
  ti_remotePort :: int
  ti_createdAt :: int
  ti_active :: bool

text \<open>What the handle of a tunnel closes: the listening server, or the forward on the host.\<close>

datatype TunnelHandle = ServerHandle | ForwardHandle

text \<open>A tunnel whose listener or forward is awaited (\<open>opening_tunnels\<close>), and the calls of \<open>closeTunnel\<close> that await the
  handle of a tunnel (\<open>awaiting\<close>).\<close>

record TunnelManager =
  tunnels :: "(string, TunnelInfo) jmap"
  handles :: "(string, TunnelHandle) jmap"
  tunnelCounter :: nat
  tunnel_metrics :: Metrics
  opening_tunnels :: "TunnelInfo list"
  awaiting :: "string list"

definition new_TunnelManager :: "Metrics \<Rightarrow> TunnelManager" where
  "new_TunnelManager metrics =
     \<lparr>tunnels = [], handles = [], tunnelCounter = 0, tunnel_metrics = metrics, opening_tunnels = [], awaiting = []\<rparr>"

section \<open>Creating\<close>

definition tunnel_context :: "TunnelType \<Rightarrow> PolicyMode \<Rightarrow> string \<Rightarrow> int \<Rightarrow> string \<Rightarrow> int \<Rightarrow> PolicyContext" where
  "tunnel_context type mode localHost localPort remoteHost remotePort =
     (tool_context (if type = RemoteTunnel then TunnelRemote else TunnelLocal) mode)
       \<lparr>ctx_host := Some remoteHost, ctx_localBindHost := Some localHost, ctx_localPort := Some localPort,
        ctx_remoteHost := Some remoteHost, ctx_remotePort := Some remotePort\<rparr>"

text \<open>The first half of \<open>createLocalTunnel\<close> and \<open>createRemoteTunnel\<close>, which differ in the type only: an error, the
  plan made in explain mode, or a tunnel that waits for its listener.\<close>

datatype tunnel_start = TunnelRefused SSHMCPError | TunnelPlan TunnelInfo | TunnelOpening TunnelInfo

definition createTunnel_start ::
  "(PolicyContext \<Rightarrow> SSHMCPError + PolicyDecision) \<Rightarrow> TunnelType \<Rightarrow> int \<Rightarrow> tool_session option \<Rightarrow> TunnelConfig \<Rightarrow> TunnelManager \<Rightarrow>
     TunnelManager \<times> tunnel_start" where
  "createTunnel_start policy type now session cfg m =
     (let localPort = tc_localPort cfg; remoteHost = or_else (tc_remoteHost cfg) ''localhost'';
          localHost = or_else (tc_localHost cfg) ''localhost''; targetPort = or_else (tc_remotePort cfg) localPort;
          info = (\<lambda>i active. \<lparr>ti_id = i, ti_sessionId = tc_sessionId cfg, ti_type = type, ti_localHost = localHost,
            ti_localPort = localPort, ti_remoteHost = remoteHost, ti_remotePort = targetPort, ti_createdAt = now, ti_active = active\<rparr>) in
      case session of
        None \<Rightarrow> (m, TunnelRefused (createConnectionError ''Session not found or expired'' None))
      | Some s \<Rightarrow>
          (case policy (tunnel_context type (ts_mode s) localHost localPort remoteHost targetPort) of
             Inl e \<Rightarrow> (m, TunnelRefused e)
           | Inr decision \<Rightarrow>
               if dec_mode decision = Explain then (m, TunnelPlan (info (''tunnel-explain-'' @ show_int now) False))
               else
                 let c = tunnelCounter m + 1; t = info (''tunnel-'' @ show_int now @ ''-'' @ show_nat c) True in
                 (m\<lparr>tunnelCounter := c, opening_tunnels := opening_tunnels m @ [t]\<rparr>, TunnelOpening t)))"

text \<open>The second half: the listener failed, or it listens; a remote forward answers with its port.\<close>

definition register_tunnel :: "TunnelInfo \<Rightarrow> TunnelHandle \<Rightarrow> TunnelManager \<Rightarrow> TunnelManager" where
  "register_tunnel t handle m =
     m\<lparr>tunnels := jm_set (ti_id t) t (tunnels m), handles := jm_set (ti_id t) handle (handles m),
       tunnel_metrics := recordTunnelOpened (tunnel_metrics m)\<rparr>"

definition createTunnel_end :: "TunnelInfo \<Rightarrow> int \<Rightarrow> string + int \<Rightarrow> TunnelManager \<Rightarrow> TunnelManager \<times> (string + TunnelInfo)" where
  "createTunnel_end t now answer m =
     (let m' = m\<lparr>opening_tunnels := remove1 t (opening_tunnels m)\<rparr> in
      case answer of
        Inl e \<Rightarrow> (m', Inl e)
      | Inr port \<Rightarrow>
          let t' = (if ti_type t = RemoteTunnel then t\<lparr>ti_remotePort := port, ti_createdAt := now\<rparr> else t\<lparr>ti_createdAt := now\<rparr>);
              handle = (if ti_type t = RemoteTunnel then ForwardHandle else ServerHandle) in
          (register_tunnel t' handle m', Inr t'))"

definition createLocalTunnel_start ::
  "(PolicyContext \<Rightarrow> SSHMCPError + PolicyDecision) \<Rightarrow> int \<Rightarrow> tool_session option \<Rightarrow> TunnelConfig \<Rightarrow> TunnelManager \<Rightarrow>
     TunnelManager \<times> tunnel_start" where
  "createLocalTunnel_start policy = createTunnel_start policy LocalTunnel"

definition createRemoteTunnel_start ::
  "(PolicyContext \<Rightarrow> SSHMCPError + PolicyDecision) \<Rightarrow> int \<Rightarrow> tool_session option \<Rightarrow> TunnelConfig \<Rightarrow> TunnelManager \<Rightarrow>
     TunnelManager \<times> tunnel_start" where
  "createRemoteTunnel_start policy = createTunnel_start policy RemoteTunnel"

definition createLocalForward ::
  "(PolicyContext \<Rightarrow> SSHMCPError + PolicyDecision) \<Rightarrow> int \<Rightarrow> tool_session option \<Rightarrow> string \<Rightarrow> int \<Rightarrow> string \<Rightarrow> int \<Rightarrow> TunnelManager \<Rightarrow>
     TunnelManager \<times> tunnel_start" where
  "createLocalForward policy now session sessionId localPort remoteHost remotePort =
     createLocalTunnel_start policy now session
       \<lparr>tc_sessionId = sessionId, tc_type = LocalTunnel, tc_localHost = None, tc_localPort = localPort,
        tc_remoteHost = Some remoteHost, tc_remotePort = Some remotePort\<rparr>"

definition createRemoteForward ::
  "(PolicyContext \<Rightarrow> SSHMCPError + PolicyDecision) \<Rightarrow> int \<Rightarrow> tool_session option \<Rightarrow> string \<Rightarrow> int \<Rightarrow> string \<Rightarrow> int \<Rightarrow> TunnelManager \<Rightarrow>
     TunnelManager \<times> tunnel_start" where
  "createRemoteForward policy now session sessionId remotePort localHost localPort =
     createRemoteTunnel_start policy now session
       \<lparr>tc_sessionId = sessionId, tc_type = RemoteTunnel, tc_localHost = Some localHost, tc_localPort = localPort,
        tc_remoteHost = Some ''localhost'', tc_remotePort = Some remotePort\<rparr>"

text \<open>A connection through a tunnel that fails only counts.\<close>

definition tunnel_connection_failed :: "TunnelManager \<Rightarrow> TunnelManager" where
  "tunnel_connection_failed m = m\<lparr>tunnel_metrics := recordTunnelError (tunnel_metrics m)\<rparr>"

section \<open>Closing\<close>

text \<open>The first half of \<open>closeTunnel\<close>: whether there is such a tunnel, and whether its handle is awaited.\<close>

definition drop_tunnel :: "string \<Rightarrow> TunnelManager \<Rightarrow> TunnelManager" where
  "drop_tunnel i m = m\<lparr>tunnels := jm_delete i (tunnels m), tunnel_metrics := recordTunnelClosed (tunnel_metrics m)\<rparr>"

definition closeTunnel_start :: "string \<Rightarrow> TunnelManager \<Rightarrow> TunnelManager \<times> (bool + unit)" where
  "closeTunnel_start i m =
     (case jm_get (tunnels m) i of
        None \<Rightarrow> (m, Inl False)
      | Some t \<Rightarrow>
          let m' = m\<lparr>tunnels := jm_set i (t\<lparr>ti_active := False\<rparr>) (tunnels m)\<rparr> in
          if jm_has (handles m') i then (m'\<lparr>awaiting := awaiting m' @ [i]\<rparr>, Inr ())
          else (drop_tunnel i m', Inl True))"

definition closeTunnel_end :: "string \<Rightarrow> bool \<Rightarrow> TunnelManager \<Rightarrow> TunnelManager" where
  "closeTunnel_end i closed m =
     (let m' = m\<lparr>awaiting := remove1 i (awaiting m)\<rparr> in
      if closed then drop_tunnel i (m'\<lparr>handles := jm_delete i (handles m')\<rparr>) else m')"

definition listTunnels :: "string option \<Rightarrow> TunnelManager \<Rightarrow> TunnelInfo list" where
  "listTunnels sessionId m =
     (if truthy sessionId then filter (\<lambda>t. Some (ti_sessionId t) = sessionId) (map snd (tunnels m)) else map snd (tunnels m))"

text \<open>The whole of \<open>closeTunnel\<close> and \<open>closeSessionTunnels\<close> when nothing happens meanwhile; \<open>answers\<close> says which
  handles close without an error. An error ends the loop.\<close>

definition closeTunnel :: "(string \<Rightarrow> bool) \<Rightarrow> string \<Rightarrow> TunnelManager \<Rightarrow> TunnelManager \<times> (string + bool)" where
  "closeTunnel answers i m =
     (case closeTunnel_start i m of
        (m', Inl b) \<Rightarrow> (m', Inr b)
      | (m', Inr u) \<Rightarrow> (closeTunnel_end i (answers i) m', if answers i then Inr True else Inl i))"

fun close_each :: "(string \<Rightarrow> bool) \<Rightarrow> string list \<Rightarrow> nat \<Rightarrow> TunnelManager \<Rightarrow> TunnelManager \<times> (string + nat)" where
  "close_each answers [] closed m = (m, Inr closed)"
| "close_each answers (i # is) closed m =
     (case closeTunnel answers i m of
        (m', Inl e) \<Rightarrow> (m', Inl e)
      | (m', Inr b) \<Rightarrow> close_each answers is (if b then closed + 1 else closed) m')"

definition closeSessionTunnels :: "(string \<Rightarrow> bool) \<Rightarrow> string \<Rightarrow> TunnelManager \<Rightarrow> TunnelManager \<times> (string + nat)" where
  "closeSessionTunnels answers sessionId m = close_each answers (map ti_id (listTunnels (Some sessionId) m)) 0 m"

section \<open>Steps\<close>

datatype tunnel_event =
    StartLocal int "tool_session option" TunnelConfig
  | StartRemote int "tool_session option" TunnelConfig
  | TunnelReady TunnelInfo int "string + int"
  | TunnelConnectionFailed
  | CloseTunnel string
  | TunnelClosed string bool

inductive tunnel_step :: "(PolicyContext \<Rightarrow> SSHMCPError + PolicyDecision) \<Rightarrow> TunnelManager \<Rightarrow> tunnel_event \<Rightarrow> TunnelManager \<Rightarrow> bool"
  for policy where
  step_local: "tunnel_step policy m (StartLocal now session cfg) (fst (createLocalTunnel_start policy now session cfg m))"
| step_remote: "tunnel_step policy m (StartRemote now session cfg) (fst (createRemoteTunnel_start policy now session cfg m))"
| step_ready: "t \<in> set (opening_tunnels m) \<Longrightarrow> tunnel_step policy m (TunnelReady t now answer) (fst (createTunnel_end t now answer m))"
| step_failed: "tunnel_step policy m TunnelConnectionFailed (tunnel_connection_failed m)"
| step_close: "tunnel_step policy m (CloseTunnel i) (fst (closeTunnel_start i m))"
| step_closed: "i \<in> set (awaiting m) \<Longrightarrow> tunnel_step policy m (TunnelClosed i ok) (closeTunnel_end i ok m)"

section \<open>The invariant\<close>

definition tunnel_no :: "string \<Rightarrow> nat" where
  "tunnel_no i = digits_val (rev (takeWhile is_digit (rev i)))"

lemma tunnel_no_id: "tunnel_no (''tunnel-'' @ show_int now @ ''-'' @ show_nat c) = c"
proof -
  have "takeWhile is_digit (rev (show_nat c) @ CHR ''-'' # w) = rev (show_nat c)" for w
    using show_nat_digits [of c] by (subst takeWhile_append2) (auto simp: list_all_iff is_digit_def)
  from this [of "rev (''tunnel-'' @ show_int now)"] show ?thesis by (simp add: tunnel_no_def digits_val_show_nat)
qed

text \<open>A tunnel was admitted: the policy accepted, in a mode that executes, exactly its hosts and its local port,
  and its remote port; the host may answer a remote forward with another port than it was asked for.\<close>

definition tunnel_admitted :: "(PolicyContext \<Rightarrow> SSHMCPError + PolicyDecision) \<Rightarrow> TunnelInfo \<Rightarrow> bool" where
  "tunnel_admitted policy t \<longleftrightarrow>
     (\<exists>mode d port. policy (tunnel_context (ti_type t) mode (ti_localHost t) (ti_localPort t) (ti_remoteHost t) port) = Inr d \<and>
        dec_mode d = Enforce \<and> (if ti_type t = LocalTunnel then port = ti_remotePort t else ti_type t = RemoteTunnel))"

lemma tunnel_admitted_active [simp]: "tunnel_admitted policy (t\<lparr>ti_active := b\<rparr>) = tunnel_admitted policy t"
  by (simp add: tunnel_admitted_def)

definition tunnels_ok :: "(PolicyContext \<Rightarrow> SSHMCPError + PolicyDecision) \<Rightarrow> TunnelManager \<Rightarrow> bool" where
  "tunnels_ok policy m \<longleftrightarrow>
     jm_wf (tunnels m) \<and> (\<forall>i. jm_has (handles m) i = jm_has (tunnels m) i) \<and>
     (\<forall>(i, t) \<in> set (tunnels m). ti_id t = i \<and> tunnel_admitted policy t) \<and>
     (\<forall>t \<in> set (opening_tunnels m). ti_active t \<and> tunnel_admitted policy t) \<and>
     distinct (map (tunnel_no \<circ> ti_id) (opening_tunnels m) @ map (tunnel_no \<circ> fst) (tunnels m)) \<and>
     (\<forall>n \<in> set (map (tunnel_no \<circ> ti_id) (opening_tunnels m) @ map (tunnel_no \<circ> fst) (tunnels m)). n \<le> tunnelCounter m)"

lemma map_jm_set_keys: "jm_get m k \<noteq> None \<Longrightarrow> map fst (jm_set k v m) = map fst m"
  by (induction k v m rule: jm_set.induct) (auto split: if_splits)

lemma jm_set_pairs: "(i, t) \<in> set (jm_set k v m) \<Longrightarrow> (i, t) = (k, v) \<or> (i, t) \<in> set m"
  by (induction k v m rule: jm_set.induct) (auto split: if_splits)

lemma mode_not_explain: "m \<noteq> Explain \<Longrightarrow> m = Enforce"
  by (cases m) simp_all

lemma createTunnel_start_cases:
  assumes "createTunnel_start policy type now session cfg m = (m', r)"
  obtains "m' = m"
  | t mode d where "m' = m\<lparr>tunnelCounter := Suc (tunnelCounter m), opening_tunnels := opening_tunnels m @ [t]\<rparr>"
      and "ti_active t" and "ti_type t = type" and "ti_id t = ''tunnel-'' @ show_int now @ ''-'' @ show_nat (Suc (tunnelCounter m))"
      and "policy (tunnel_context type mode (ti_localHost t) (ti_localPort t) (ti_remoteHost t) (ti_remotePort t)) = Inr d" and "dec_mode d = Enforce"
proof -
  let ?lh = "or_else (tc_localHost cfg) ''localhost''" and ?rh = "or_else (tc_remoteHost cfg) ''localhost''"
  let ?port = "or_else (tc_remotePort cfg) (tc_localPort cfg)"
  show thesis
  proof (cases "\<exists>s d. session = Some s \<and> policy (tunnel_context type (ts_mode s) ?lh (tc_localPort cfg) ?rh ?port) = Inr d \<and> dec_mode d = Enforce")
    case True
    then obtain s d where s: "session = Some s" "policy (tunnel_context type (ts_mode s) ?lh (tc_localPort cfg) ?rh ?port) = Inr d" "dec_mode d = Enforce"
      by blast
    let ?t = "\<lparr>ti_id = ''tunnel-'' @ show_int now @ ''-'' @ show_nat (Suc (tunnelCounter m)), ti_sessionId = tc_sessionId cfg, ti_type = type,
      ti_localHost = ?lh, ti_localPort = tc_localPort cfg, ti_remoteHost = ?rh, ti_remotePort = ?port, ti_createdAt = now, ti_active = True\<rparr>"
    have "m' = m\<lparr>tunnelCounter := Suc (tunnelCounter m), opening_tunnels := opening_tunnels m @ [?t]\<rparr>"
      using assms s by (auto simp: createTunnel_start_def Let_def)
    then show thesis by (rule that(2) [of ?t "ts_mode s" d]) (simp_all add: s)
  next
    case False
    then have "m' = m" using assms mode_not_explain
      by (auto simp: createTunnel_start_def Let_def split: option.splits sum.splits if_splits)
    then show thesis by (rule that(1))
  qed
qed

lemma start_ok:
  assumes "tunnels_ok policy m" and "type = LocalTunnel \<or> type = RemoteTunnel"
  shows "tunnels_ok policy (fst (createTunnel_start policy type now session cfg m))"
proof -
  obtain m' r where e: "createTunnel_start policy type now session cfg m = (m', r)" by fastforce
  from e have "tunnels_ok policy m'"
  proof (cases rule: createTunnel_start_cases)
    case 1
    then show ?thesis using assms(1) by simp
  next
    case (2 t mode d)
    have "tunnel_admitted policy t"
      unfolding tunnel_admitted_def by (rule exI [of _ mode], rule exI [of _ d], rule exI [of _ "ti_remotePort t"]) (use 2 assms(2) in auto)
    moreover have "tunnel_no (ti_id t) = Suc (tunnelCounter m)" using 2(4) tunnel_no_id by metis
    moreover have "Suc (tunnelCounter m) \<notin> set (map (tunnel_no \<circ> ti_id) (opening_tunnels m) @ map (tunnel_no \<circ> fst) (tunnels m))"
      using assms(1) unfolding tunnels_ok_def by (meson Suc_n_not_le_n)
    ultimately show ?thesis using assms 2(1-3) unfolding tunnels_ok_def by (auto simp: le_Suc_eq)
  qed
  then show ?thesis using e by simp
qed

lemma ready_ok:
  assumes "tunnels_ok policy m" and "t \<in> set (opening_tunnels m)"
  shows "tunnels_ok policy (fst (createTunnel_end t now answer m))"
proof -
  let ?o = "remove1 t (opening_tunnels m)"
  have nos: "distinct (map (tunnel_no \<circ> ti_id) ?o @ tunnel_no (ti_id t) # map (tunnel_no \<circ> fst) (tunnels m))"
    "set (map (tunnel_no \<circ> ti_id) (opening_tunnels m)) = insert (tunnel_no (ti_id t)) (set (map (tunnel_no \<circ> ti_id) ?o))"
  proof -
    have "mset (opening_tunnels m) = mset (t # ?o)" using assms(2) by simp
    then have "mset (map (tunnel_no \<circ> ti_id) (opening_tunnels m)) = mset (map (tunnel_no \<circ> ti_id) (t # ?o))" by (simp only: mset_map)
    from mset_eq_imp_distinct_iff [OF this] mset_eq_setD [OF this] assms(1)
    show "distinct (map (tunnel_no \<circ> ti_id) ?o @ tunnel_no (ti_id t) # map (tunnel_no \<circ> fst) (tunnels m))"
      "set (map (tunnel_no \<circ> ti_id) (opening_tunnels m)) = insert (tunnel_no (ti_id t)) (set (map (tunnel_no \<circ> ti_id) ?o))"
      unfolding tunnels_ok_def by auto
  qed
  show ?thesis
  proof (cases answer)
    case (Inl e)
    then show ?thesis using assms nos set_remove1_subset [of t "opening_tunnels m"]
      unfolding tunnels_ok_def createTunnel_end_def Let_def by auto
  next
    case (Inr port)
    define u where "u = (if ti_type t = RemoteTunnel then t\<lparr>ti_remotePort := port, ti_createdAt := now\<rparr> else t\<lparr>ti_createdAt := now\<rparr>)"
    have "tunnel_admitted policy t" using assms by (auto simp: tunnels_ok_def)
    then have u: "ti_id u = ti_id t" "tunnel_admitted policy u" unfolding tunnel_admitted_def u_def by (simp, fastforce split: if_splits)
    have new: "jm_get (tunnels m) (ti_id t) = None"
      using nos(1) unfolding jm_get_None_iff by (force simp: image_iff)
    define handle where "handle = (if ti_type t = RemoteTunnel then ForwardHandle else ServerHandle)"
    let ?ts = "jm_set (ti_id t) u (tunnels m)"
    have "map (tunnel_no \<circ> fst) ?ts = map (tunnel_no \<circ> fst) (tunnels m) @ [tunnel_no (ti_id t)]" by (simp add: jm_set_absent [OF new])
    with nos assms(1) have "distinct (map (tunnel_no \<circ> ti_id) ?o @ map (tunnel_no \<circ> fst) ?ts)"
      "\<forall>n \<in> set (map (tunnel_no \<circ> ti_id) ?o @ map (tunnel_no \<circ> fst) ?ts). n \<le> tunnelCounter m"
      unfolding tunnels_ok_def by auto
    moreover have "\<forall>i. jm_has (jm_set (ti_id t) handle (handles m)) i = jm_has ?ts i" "jm_wf ?ts"
      using assms(1) by (auto simp: tunnels_ok_def jm_has_def)
    moreover have "\<forall>(i, t) \<in> set ?ts. ti_id t = i \<and> tunnel_admitted policy t"
      using assms(1) u unfolding tunnels_ok_def by (auto dest!: jm_set_pairs)
    moreover have "\<forall>t \<in> set ?o. ti_active t \<and> tunnel_admitted policy t"
      using assms(1) set_remove1_subset [of t "opening_tunnels m"] unfolding tunnels_ok_def by blast
    ultimately have "tunnels_ok policy (m\<lparr>opening_tunnels := ?o, tunnels := ?ts, handles := jm_set (ti_id t) handle (handles m)\<rparr>)"
      unfolding tunnels_ok_def by simp
    moreover have "fst (createTunnel_end t now answer m) = register_tunnel u handle (m\<lparr>opening_tunnels := ?o\<rparr>)"
      by (simp add: createTunnel_end_def Let_def Inr u_def handle_def)
    ultimately show ?thesis by (simp add: register_tunnel_def u(1) tunnels_ok_def)
  qed
qed

lemma tunnels_ok_congs [simp]:
  "tunnels_ok policy (m\<lparr>awaiting := a\<rparr>) = tunnels_ok policy m" "tunnels_ok policy (m\<lparr>tunnel_metrics := x\<rparr>) = tunnels_ok policy m"
  by (simp_all add: tunnels_ok_def)

lemma drop_ok:
  assumes "tunnels_ok policy m"
  shows "tunnels_ok policy (drop_tunnel i (m\<lparr>handles := jm_delete i (handles m)\<rparr>))"
proof -
  let ?ts = "jm_delete i (tunnels m)"
  have sub: "set ?ts \<subseteq> set (tunnels m)" by (auto simp: jm_delete_def)
  have "distinct (map (tunnel_no \<circ> fst) ?ts)" using assms by (auto simp: tunnels_ok_def jm_delete_def intro: distinct_map_filter)
  moreover have "set (map (tunnel_no \<circ> fst) ?ts) \<subseteq> set (map (tunnel_no \<circ> fst) (tunnels m))" using sub by auto
  ultimately have "distinct (map (tunnel_no \<circ> ti_id) (opening_tunnels m) @ map (tunnel_no \<circ> fst) ?ts)"
    "\<forall>n \<in> set (map (tunnel_no \<circ> ti_id) (opening_tunnels m) @ map (tunnel_no \<circ> fst) ?ts). n \<le> tunnelCounter m"
    using assms unfolding tunnels_ok_def distinct_append set_append by blast+
  moreover have "\<forall>j. jm_has (jm_delete i (handles m)) j = jm_has ?ts j" "jm_wf ?ts"
    using assms by (auto simp: tunnels_ok_def jm_has_def)
  moreover have "\<forall>(j, t) \<in> set ?ts. ti_id t = j \<and> tunnel_admitted policy t" using assms sub unfolding tunnels_ok_def by blast
  ultimately show ?thesis using assms unfolding drop_tunnel_def by (simp add: tunnels_ok_def)
qed

lemma close_ok:
  assumes "tunnels_ok policy m"
  shows "tunnels_ok policy (fst (closeTunnel_start i m))"
proof (cases "jm_get (tunnels m) i")
  case None
  then show ?thesis using assms by (simp add: closeTunnel_start_def)
next
  case (Some t)
  then have keys: "map fst (jm_set i v (tunnels m)) = map fst (tunnels m)" for v by (simp add: map_jm_set_keys)
  have nos: "map (tunnel_no \<circ> fst) (jm_set i v (tunnels m)) = map (tunnel_no \<circ> fst) (tunnels m)" for v
    using keys [of v] by (metis map_map)
  have h: "jm_has (handles m) i" using assms Some by (simp add: tunnels_ok_def jm_has_def)
  have t: "ti_id t = i" "tunnel_admitted policy (t\<lparr>ti_active := False\<rparr>)"
    using assms jm_get_SomeD [OF Some] by (auto simp: tunnels_ok_def)
  have "fst (closeTunnel_start i m) = m\<lparr>tunnels := jm_set i (t\<lparr>ti_active := False\<rparr>) (tunnels m), awaiting := awaiting m @ [i]\<rparr>"
    using Some h by (simp add: closeTunnel_start_def Let_def)
  then show ?thesis using assms t keys nos Some
    unfolding tunnels_ok_def by (auto simp: jm_has_def dest!: jm_set_pairs)
qed

lemma closed_ok: "tunnels_ok policy m \<Longrightarrow> tunnels_ok policy (closeTunnel_end i ok m)"
  using drop_ok [of policy "m\<lparr>awaiting := remove1 i (awaiting m)\<rparr>" i] by (simp add: closeTunnel_end_def Let_def)

lemma tunnel_step_ok:
  assumes "tunnel_step policy m e m'" and "tunnels_ok policy m"
  shows "tunnels_ok policy m'"
  using assms(1)
proof (cases rule: tunnel_step.cases)
  case (step_local now session cfg)
  then show ?thesis using start_ok [OF assms(2)] by (simp add: createLocalTunnel_start_def)
next
  case (step_remote now session cfg)
  then show ?thesis using start_ok [OF assms(2)] by (simp add: createRemoteTunnel_start_def)
next
  case step_failed
  then show ?thesis using assms(2) by (simp add: tunnel_connection_failed_def)
qed (simp_all add: assms(2) ready_ok close_ok closed_ok)

interpretation tunnel_system: invariant_system "\<lambda>m. \<exists>metrics. m = new_TunnelManager metrics" "tunnel_step policy" "tunnels_ok policy" for policy
proof
  show "\<exists>metrics. m = new_TunnelManager metrics \<Longrightarrow> tunnels_ok policy m" for m
    by (auto simp: tunnels_ok_def new_TunnelManager_def jm_has_def)
qed (rule tunnel_step_ok)

section \<open>Properties\<close>


lemma closeTunnel_closes:
  assumes "tunnels_ok policy m" and "answers i" and "closeTunnel answers i m = (m', r)"
  shows "tunnels m' = jm_delete i (tunnels m) \<and> r = Inr (jm_has (tunnels m) i) \<and> opening_tunnels m' = opening_tunnels m \<and> tunnels_ok policy m'"
proof (cases "jm_get (tunnels m) i")
  case None
  then have "jm_delete i (tunnels m) = tunnels m" unfolding jm_delete_def jm_get_None_iff by (intro filter_True) force
  then show ?thesis using assms None by (simp add: closeTunnel_def closeTunnel_start_def jm_has_def)
next
  case (Some t)
  have h: "jm_has (handles m) i" using assms(1) Some by (simp add: tunnels_ok_def jm_has_def)
  define m1 where "m1 = fst (closeTunnel_start i m)"
  have s: "closeTunnel_start i m = (m1, Inr ())" using Some h by (simp add: closeTunnel_start_def Let_def m1_def)
  have m1: "tunnels m1 = jm_set i (t\<lparr>ti_active := False\<rparr>) (tunnels m)" "opening_tunnels m1 = opening_tunnels m" "tunnels_ok policy m1"
    using Some h close_ok [OF assms(1), of i] by (simp_all add: m1_def closeTunnel_start_def Let_def)
  have "jm_delete i (jm_set i v ts) = jm_delete i ts" for v and ts :: "(string, TunnelInfo) jmap"
    by (induction i v ts rule: jm_set.induct) (auto simp: jm_delete_def)
  then have "tunnels (closeTunnel_end i True m1) = jm_delete i (tunnels m)" "opening_tunnels (closeTunnel_end i True m1) = opening_tunnels m"
    using m1 by (simp_all add: closeTunnel_end_def drop_tunnel_def Let_def)
  moreover have "m' = closeTunnel_end i True m1" "r = Inr True" using assms(2,3) by (simp_all add: closeTunnel_def s)
  ultimately show ?thesis using closed_ok [OF m1(3)] Some by (simp add: jm_has_def)
qed

lemma close_each_closes:
  assumes "tunnels_ok policy m" and "list_all answers is" and "close_each answers is n m = (m', r)"
    and "distinct is" and "list_all (jm_has (tunnels m)) is"
  shows "tunnels m' = filter (\<lambda>e. fst e \<notin> set is) (tunnels m) \<and> r = Inr (n + length is) \<and> opening_tunnels m' = opening_tunnels m"
  using assms
proof (induction "is" arbitrary: n m)
  case (Cons i "is")
  obtain m1 q where c: "closeTunnel answers i m = (m1, q)" by fastforce
  have q: "tunnels m1 = jm_delete i (tunnels m)" "q = Inr True" "opening_tunnels m1 = opening_tunnels m" "tunnels_ok policy m1"
    using closeTunnel_closes [OF Cons.prems(1) _ c] Cons.prems(2,5) by auto
  have "list_all (jm_has (tunnels m1)) is" using Cons.prems(4,5) q(1) by (auto simp: list_all_iff jm_has_def)
  with Cons.IH [of m1 "n + 1"] Cons.prems c q show ?case
    by (auto simp: jm_delete_def intro: filter_cong)
qed simp

text \<open>When a session closes, its tunnels go with it. In every reachable state, \<open>closeSessionTunnels\<close> that is not
  interrupted, and whose handles close without an error, leaves exactly the tunnels of the other sessions and
  returns the number of those it closed.\<close>
theorem session_tunnels_closed:
  assumes "run (tunnel_step policy) (new_TunnelManager metrics) es m" and "sid \<noteq> []"
    and "list_all answers (map ti_id (listTunnels (Some sid) m))"
  shows "\<exists>m'. closeSessionTunnels answers sid m = (m', Inr (length (listTunnels (Some sid) m))) \<and>
    tunnels m' = filter (\<lambda>e. ti_sessionId (snd e) \<noteq> sid) (tunnels m)"
proof -
  have ok: "tunnels_ok policy m" using tunnel_system.inv_reachable [OF _ assms(1)] by blast
  let ?mine = "filter (\<lambda>e. ti_sessionId (snd e) = sid) (tunnels m)"
  have keys: "map ti_id (listTunnels (Some sid) m) = map fst ?mine"
    using ok assms(2) unfolding tunnels_ok_def by (auto simp: listTunnels_def filter_map o_def intro!: map_cong)
  have wf: "jm_wf (tunnels m)" using ok by (simp add: tunnels_ok_def)
  obtain m' r where c: "closeSessionTunnels answers sid m = (m', r)" by fastforce
  have "distinct (map fst ?mine)" using wf by (auto simp: jm_wf_def intro: distinct_map_filter)
  moreover have "list_all (jm_has (tunnels m)) (map fst ?mine)"
    using wf by (auto simp: list_all_iff jm_has_def dest!: jm_get_SomeI)
  ultimately have "tunnels m' = filter (\<lambda>e. fst e \<notin> set (map fst ?mine)) (tunnels m)" "r = Inr (0 + length (map fst ?mine))"
    using close_each_closes [OF ok, of answers "map fst ?mine" 0 m' r] c assms(3) unfolding closeSessionTunnels_def keys by auto
  moreover have "fst e \<in> set (map fst ?mine) \<longleftrightarrow> ti_sessionId (snd e) = sid" if "e \<in> set (tunnels m)" for e
    using that wf by (auto simp: jm_wf_def distinct_map inj_on_def)
  moreover have "length (listTunnels (Some sid) m) = length (map fst ?mine)" using arg_cong [OF keys, of length] by simp
  ultimately show ?thesis using c by (auto intro!: filter_cong)
qed

lemma close_each_opening: "close_each answers is n m = (m', r) \<Longrightarrow> opening_tunnels m' = opening_tunnels m"
proof (induction answers "is" n m rule: close_each.induct)
  case (2 answers i "is" closed m)
  have "opening_tunnels (fst (closeTunnel answers i m)) = opening_tunnels m"
    by (auto simp: closeTunnel_def closeTunnel_start_def closeTunnel_end_def drop_tunnel_def Let_def split: option.splits)
  then show ?case using 2 by (auto split: prod.splits sum.splits)
qed simp

text \<open>A tunnel can outlive its session. While a tunnel of a session waits for its listener, \<open>closeSessionTunnels\<close>
  (which runs when the session closes) does not see it; when the listener is ready afterwards, the tunnel is
  registered for the closed session and active, and nothing closes it.\<close>
theorem tunnel_outlives_session:
  assumes "p \<in> set (opening_tunnels m)" and "ti_sessionId p = sid" and "sid \<noteq> []" and "ti_active p"
    and "closeSessionTunnels answers sid m = (m', r)"
  shows "p \<in> set (opening_tunnels m') \<and>
    (\<exists>m'' t. createTunnel_end p now (Inr port) m' = (m'', Inr t) \<and> t \<in> set (listTunnels (Some sid) m'') \<and> ti_active t)"
proof -
  have "p \<in> set (opening_tunnels m')" using assms(1,5) close_each_opening unfolding closeSessionTunnels_def by metis
  moreover have "(k, v) \<in> set (jm_set k v ts)" for k v and ts :: "(string, TunnelInfo) jmap"
    by (induction k v ts rule: jm_set.induct) auto
  ultimately show ?thesis
    using assms(2-4) by (force simp: createTunnel_end_def register_tunnel_def listTunnels_def Let_def image_iff)
qed

section \<open>A sample run\<close>

definition tunnel_engine :: PolicyEngine where
  "tunnel_engine = sample_engine\<lparr>config := sample_config\<lparr>tunnelAllowPorts := [], tunnelDenyPorts := []\<rparr>\<rparr>"

definition demo_forward :: "TunnelManager \<Rightarrow> TunnelManager \<times> tunnel_start" where
  "demo_forward = createLocalForward (\<lambda>ctx. snd (assertAllowed (\<lambda>_. None) sample_env tunnel_engine ctx)) 5 (Some demo_session) ''s'' 8443 ''db'' 8443"

definition demo_tunnel :: TunnelInfo where
  "demo_tunnel = \<lparr>ti_id = ''tunnel-5-1'', ti_sessionId = ''s'', ti_type = LocalTunnel, ti_localHost = ''localhost'', ti_localPort = 8443,
     ti_remoteHost = ''db'', ti_remotePort = 8443, ti_createdAt = 5, ti_active = True\<rparr>"

definition demo_started :: TunnelManager where
  "demo_started = (new_TunnelManager (createEmptyMetrics 0))\<lparr>tunnelCounter := 1, opening_tunnels := [demo_tunnel]\<rparr>"

definition demo_open :: TunnelManager where
  "demo_open = fst (createTunnel_end demo_tunnel 6 (Inr 8443) demo_started)"

lemma demo_forward_starts: "fst (demo_forward (new_TunnelManager (createEmptyMetrics 0))) = demo_started"
proof -
  have "evaluate (\<lambda>_. None) sample_env tunnel_engine (tunnel_context LocalTunnel Enforce ''localhost'' 8443 ''db'' 8443) =
    allowed_decision Enforce TunnelLocal" by code_simp
  moreover have "show_int 5 = ''5''" "show_nat 1 = ''1''" by code_simp+
  ultimately show ?thesis
    by (simp add: demo_forward_def createLocalForward_def createLocalTunnel_start_def createTunnel_start_def assertAllowed_def
        allowed_decision_def demo_started_def demo_tunnel_def new_TunnelManager_def Let_def)
qed

lemma demo_run: "run (tunnel_step (\<lambda>ctx. snd (assertAllowed (\<lambda>_. None) sample_env tunnel_engine ctx))) (new_TunnelManager (createEmptyMetrics 0))
  [StartLocal 5 (Some demo_session) \<lparr>tc_sessionId = ''s'', tc_type = LocalTunnel, tc_localHost = None, tc_localPort = 8443,
     tc_remoteHost = Some ''db'', tc_remotePort = Some 8443\<rparr>, TunnelReady demo_tunnel 6 (Inr 8443)] demo_open"
proof -
  have "demo_tunnel \<in> set (opening_tunnels demo_started)" by (simp add: demo_started_def)
  from step_ready [OF this] have "tunnel_step (\<lambda>ctx. snd (assertAllowed (\<lambda>_. None) sample_env tunnel_engine ctx)) demo_started
    (TunnelReady demo_tunnel 6 (Inr 8443)) demo_open" unfolding demo_open_def .
  moreover have "tunnel_step (\<lambda>ctx. snd (assertAllowed (\<lambda>_. None) sample_env tunnel_engine ctx)) (new_TunnelManager (createEmptyMetrics 0))
    (StartLocal 5 (Some demo_session) \<lparr>tc_sessionId = ''s'', tc_type = LocalTunnel, tc_localHost = None, tc_localPort = 8443,
     tc_remoteHost = Some ''db'', tc_remotePort = Some 8443\<rparr>) demo_started"
    using demo_forward_starts step_local by (metis createLocalForward_def demo_forward_def)
  ultimately show ?thesis by (blast intro: run_cons run_nil)
qed

lemma demo_open_tunnels: "tunnels demo_open = [(''tunnel-5-1'', demo_tunnel\<lparr>ti_createdAt := 6\<rparr>)]"
  by (simp add: demo_open_def createTunnel_end_def register_tunnel_def demo_started_def demo_tunnel_def new_TunnelManager_def Let_def)


theorem session_tunnels_closed_witness:
  "\<exists>m'. closeSessionTunnels (\<lambda>_. True) ''s'' demo_open = (m', Inr 1) \<and> tunnels m' = []"
  using session_tunnels_closed [OF demo_run, of "''s''" "\<lambda>_. True"]
  by (simp add: demo_open_tunnels demo_tunnel_def listTunnels_def list_all_iff)

theorem tunnel_outlives_session_witness:
  "\<exists>m'' t. createTunnel_end demo_tunnel 6 (Inr 8443) (fst (closeSessionTunnels (\<lambda>_. True) ''s'' demo_started)) = (m'', Inr t) \<and>
     t \<in> set (listTunnels (Some ''s'') m'')"
  using tunnel_outlives_session [of demo_tunnel demo_started "''s''" "\<lambda>_. True" "fst (closeSessionTunnels (\<lambda>_. True) ''s'' demo_started)"
      "snd (closeSessionTunnels (\<lambda>_. True) ''s'' demo_started)" 6 8443]
  by (auto simp: demo_started_def demo_tunnel_def)

text \<open>Two calls of \<open>closeTunnel\<close> that overlap, both of which see the tunnel, count it twice as closed.\<close>

lemma double_close_counted_twice:
  "m_tunnels_closed (tunnel_metrics (closeTunnel_end ''tunnel-5-1'' True (closeTunnel_end ''tunnel-5-1'' True
     (fst (closeTunnel_start ''tunnel-5-1'' (fst (closeTunnel_start ''tunnel-5-1'' demo_open))))))) = 2 \<and>
   m_tunnels_opened (tunnel_metrics demo_open) = 1"
  by (simp add: demo_open_def createTunnel_end_def register_tunnel_def demo_started_def demo_tunnel_def new_TunnelManager_def Let_def
      closeTunnel_start_def closeTunnel_end_def drop_tunnel_def jm_has_def createEmptyMetrics_def recordTunnelOpened_def recordTunnelClosed_def)

end
