(* ===== verification/AuditLogging.thy ===== *)
theory AuditLogging
  imports DateTime Policy Metrics
begin

text \<open>
  Redaction (\<open>src/logging.ts\<close>) and the audit log (\<open>src/audit.ts\<close>), and the observer of the policy engine that
  writes to it (\<open>src/container.ts\<close>). Values that are logged are JSON values. The regular expressions are
  written out as functions that read a match from the front of a string and return what follows it.
\<close>

section \<open>Words\<close>

text \<open>A literal word, and \<open>a.?b\<close>: two words with at most one character, no line break, between them. Words match
  in upper and lower case.\<close>

datatype key_word = Word string | WordGap string string

definition strip_word :: "string \<Rightarrow> string \<Rightarrow> string option" where
  "strip_word w s = (if toLowerCase (take (length w) s) = w then Some (drop (length w) s) else None)"

fun strip_key :: "key_word \<Rightarrow> string \<Rightarrow> string option" where
  "strip_key (Word w) s = strip_word w s"
| "strip_key (WordGap a b) s =
     (case strip_word a s of
        None \<Rightarrow> None
      | Some r \<Rightarrow>
          (case (if r \<noteq> [] \<and> hd r \<noteq> CHR 0x0A \<and> hd r \<noteq> CHR 0x0D then strip_word b (tl r) else None) of
             Some r' \<Rightarrow> Some r'
           | None \<Rightarrow> strip_word b r))"

fun occurs :: "(string \<Rightarrow> string option) \<Rightarrow> string \<Rightarrow> bool" where
  "occurs m [] = (m [] \<noteq> None)"
| "occurs m (c # s) = (m (c # s) \<noteq> None \<or> occurs m s)"

definition SENSITIVE_PATTERNS :: "key_word list" where
  "SENSITIVE_PATTERNS =
     [Word ''password'', Word ''privatekey'', Word ''passphrase'', Word ''sudopassword'', Word ''secret'', Word ''token'',
      Word ''credential'', Word ''auth'', WordGap ''api'' ''key'', Word ''bearer'', WordGap ''private'' ''key'', Word ''pem'']"

definition REDACTED :: string where
  "REDACTED = ''****''"

definition sensitive_key :: "string \<Rightarrow> bool" where
  "sensitive_key key = list_ex (\<lambda>w. occurs (strip_key w) key) SENSITIVE_PATTERNS"

section \<open>Redaction of data\<close>

definition json_truthy :: "json \<Rightarrow> bool" where
  "json_truthy v = (case v of JUndefined \<Rightarrow> False | JNull \<Rightarrow> False | JBool b \<Rightarrow> b | JNum n \<Rightarrow> n \<noteq> 0 | JStr s \<Rightarrow> s \<noteq> [] | _ \<Rightarrow> True)"

fun redactSensitiveData :: "json \<Rightarrow> json" where
  "redactSensitiveData (JArr vs) = JArr (map redactSensitiveData vs)"
| "redactSensitiveData (JObj fs) =
     JObj (map (\<lambda>(k, v). (k, if sensitive_key k then (if json_truthy v then JStr REDACTED else v) else redactSensitiveData v)) fs)"
| "redactSensitiveData v = v"

section \<open>Redaction of messages\<close>

text \<open>\<open>[=:\s]+[^\s]+\<close> and \<open>\s+[^\s]+\<close>: separators, then a value without white space. The value may itself be
  made of separators: when only separators follow, the last of them that is no white space is the value.\<close>

definition is_sep :: "char \<Rightarrow> bool" where
  "is_sep c = (c = CHR ''='' \<or> c = CHR '':'' \<or> is_ws c)"

definition strip_value :: "(char \<Rightarrow> bool) \<Rightarrow> string \<Rightarrow> string option" where
  "strip_value sp s =
     (let separators = takeWhile sp s; r = dropWhile sp s in
      if separators = [] then None
      else if r \<noteq> [] then Some (dropWhile (\<lambda>c. \<not> is_ws c) r)
      else let kept = dropWhile is_ws (rev separators) in
           if 2 \<le> length kept then Some (drop (length kept) separators) else None)"

definition strip_assignment :: "key_word \<Rightarrow> (char \<Rightarrow> bool) \<Rightarrow> string \<Rightarrow> string option" where
  "strip_assignment w sp s = Option.bind (strip_key w s) (strip_value sp)"

text \<open>\<open>-----BEGIN[^-]+-----[\s\S]*?-----END[^-]+-----\<close>.\<close>

definition strip_armor :: "string \<Rightarrow> string \<Rightarrow> string option" where
  "strip_armor w s =
     Option.bind (strip_word w s) (\<lambda>r.
       if takeWhile (\<lambda>c. c \<noteq> CHR ''-'') r = [] then None else strip_word ''-----'' (dropWhile (\<lambda>c. c \<noteq> CHR ''-'') r))"

fun skip_to :: "(string \<Rightarrow> string option) \<Rightarrow> string \<Rightarrow> string option" where
  "skip_to m [] = m []"
| "skip_to m (c # s) = (case m (c # s) of Some r \<Rightarrow> Some r | None \<Rightarrow> skip_to m s)"

definition strip_pem :: "string \<Rightarrow> string option" where
  "strip_pem s = Option.bind (strip_armor ''-----begin'' s) (skip_to (strip_armor ''-----end''))"

text \<open>\<open>replace\<close> with a global regular expression whose matches are not empty.\<close>

function replace_matches :: "(string \<Rightarrow> string option) \<Rightarrow> string \<Rightarrow> string" where
  "replace_matches m [] = []"
| "replace_matches m (c # s) =
     (case m (c # s) of
        Some r \<Rightarrow> if length r \<le> length s then REDACTED @ replace_matches m r else c # replace_matches m s
      | None \<Rightarrow> c # replace_matches m s)"
  by pat_completeness auto
termination by (relation "measure (\<lambda>(m, s). length s)") auto

definition message_patterns :: "(string \<Rightarrow> string option) list" where
  "message_patterns =
     [strip_assignment (Word ''password'') is_sep, strip_assignment (Word ''key'') is_sep, strip_assignment (Word ''passphrase'') is_sep,
      strip_assignment (Word ''auth'') is_sep, strip_assignment (Word ''token'') is_sep, strip_assignment (WordGap ''api'' ''key'') is_sep,
      strip_assignment (Word ''bearer'') is_ws, strip_assignment (WordGap ''private'' ''key'') is_sep, strip_assignment (Word ''pem'') is_sep,
      strip_pem]"

definition redactErrorMessage :: "string \<Rightarrow> string" where
  "redactErrorMessage message = fold replace_matches message_patterns message"

section \<open>The audit log\<close>

record AuditEvent =
  ae_action :: string
  ae_sessionId :: "string option"
  ae_host :: "string option"
  ae_username :: "string option"
  ae_target :: "string option"
  ae_allowed :: bool
  ae_mode :: "string option"
  ae_reason :: "string option"

record AuditLog =
  audit_events :: "json list"
  audit_sequence :: nat
  maxEvents :: int

definition new_AuditLog :: "int \<Rightarrow> AuditLog" where
  "new_AuditLog limit = \<lparr>audit_events = [], audit_sequence = 0, maxEvents = limit\<rparr>"

fun redactStringPatterns :: "json \<Rightarrow> json" where
  "redactStringPatterns (JStr s) = JStr (redactErrorMessage s)"
| "redactStringPatterns (JArr vs) = JArr (map redactStringPatterns vs)"
| "redactStringPatterns (JObj fs) = JObj (map (\<lambda>(k, v). (k, redactStringPatterns v)) fs)"
| "redactStringPatterns v = v"

definition redactEvent :: "json \<Rightarrow> json" where
  "redactEvent event = redactStringPatterns (redactSensitiveData event)"

definition field :: "string \<Rightarrow> string option \<Rightarrow> (string \<times> json) list" where
  "field k v = (case v of None \<Rightarrow> [] | Some s \<Rightarrow> [(k, JStr s)])"

definition event_json :: "AuditEvent \<Rightarrow> int \<Rightarrow> nat \<Rightarrow> json" where
  "event_json e now n =
     JObj ([(''action'', JStr (ae_action e))] @ field ''sessionId'' (ae_sessionId e) @ field ''host'' (ae_host e) @
       field ''username'' (ae_username e) @ field ''target'' (ae_target e) @ [(''allowed'', JBool (ae_allowed e))] @
       field ''mode'' (ae_mode e) @ field ''reason'' (ae_reason e) @
       [(''id'', JStr (''audit-'' @ show_int now @ ''-'' @ show_nat n)), (''timestamp'', JStr (toISOString now))])"

definition audit_record :: "AuditEvent \<Rightarrow> int \<Rightarrow> AuditLog \<Rightarrow> AuditLog \<times> json" where
  "audit_record event now log =
     (let n = audit_sequence log + 1; redacted = redactEvent (event_json event now n);
          events = audit_events log @ [redacted]; surplus = int (length events) - maxEvents log in
      (log\<lparr>audit_sequence := n, audit_events := (if 0 < surplus then drop (nat surplus) events else events)\<rparr>, redacted))"

fun mode_name :: "PolicyMode \<Rightarrow> string" where
  "mode_name Enforce = ''enforce''"
| "mode_name Explain = ''explain''"

definition audit_policy_decision :: "PolicyDecision \<Rightarrow> AuditEvent \<Rightarrow> int \<Rightarrow> AuditLog \<Rightarrow> AuditLog \<times> json" where
  "audit_policy_decision decision details now log =
     audit_record (details\<lparr>ae_allowed := allowed decision, ae_mode := Some (mode_name (dec_mode decision)),
       ae_reason := (if truthy (reason decision) then reason decision else None)\<rparr>) now log"

text \<open>\<open>events.slice(-limit)\<close>: with the limit \<open>0\<close> this is \<open>slice(0)\<close>, all events.\<close>

definition audit_list :: "nat \<Rightarrow> AuditLog \<Rightarrow> json list" where
  "audit_list limit log = (if limit = 0 then audit_events log else drop (length (audit_events log) - limit) (audit_events log))"

section \<open>The observer of the policy engine\<close>

fun action_name :: "PolicyAction \<Rightarrow> string" where
  "action_name SshOpen = ''ssh.open''" | "action_name ProcExec = ''proc.exec''" | "action_name ProcSudo = ''proc.sudo''"
| "action_name FsRead = ''fs.read''" | "action_name FsStat = ''fs.stat''" | "action_name FsList = ''fs.list''"
| "action_name FsWrite = ''fs.write''" | "action_name FsRemove = ''fs.remove''" | "action_name FsMkdir = ''fs.mkdir''"
| "action_name FsRename = ''fs.rename''" | "action_name EnsurePackage = ''ensure.package''" | "action_name EnsureService = ''ensure.service''"
| "action_name EnsureLines = ''ensure.lines''" | "action_name PatchApply = ''patch.apply''" | "action_name TransferUpload = ''transfer.upload''"
| "action_name TransferDownload = ''transfer.download''" | "action_name TransferLocalRead = ''transfer.local.read''"
| "action_name TransferLocalWrite = ''transfer.local.write''" | "action_name TransferLocalCreate = ''transfer.local.create''"
| "action_name TransferLocalOverwrite = ''transfer.local.overwrite''" | "action_name TunnelLocal = ''tunnel.local''"
| "action_name TunnelRemote = ''tunnel.remote''"

definition auditDetails :: "string \<Rightarrow> string option \<Rightarrow> string option \<Rightarrow> string option \<Rightarrow> AuditEvent" where
  "auditDetails action host username target =
     (let given = (\<lambda>v. if truthy v then v else None) in
      \<lparr>ae_action = action, ae_sessionId = None, ae_host = given host, ae_username = given username, ae_target = given target,
       ae_allowed = False, ae_mode = None, ae_reason = None\<rparr>)"

record app_state =
  app_metrics :: Metrics
  app_audit :: AuditLog

definition observe_decision :: "int \<Rightarrow> PolicyDecision \<times> PolicyContext \<Rightarrow> app_state \<Rightarrow> app_state" where
  "observe_decision now report st =
     (case report of (decision, ctx) \<Rightarrow>
        st\<lparr>app_metrics := recordPolicyDecision (allowed decision) (dec_mode decision = Explain) (app_metrics st),
          app_audit := fst (audit_policy_decision decision
            (auditDetails (action_name (ctx_action ctx)) (ctx_host ctx) (ctx_username ctx)
               (case ctx_path ctx of None \<Rightarrow> ctx_command ctx | Some p \<Rightarrow> Some p)) now (app_audit st))\<rparr>)"

section \<open>No assignment survives\<close>

text \<open>\<open>exposes w sp s\<close>: somewhere in \<open>s\<close> stands the word \<open>w\<close>, in upper or lower case, separators after it, and
  then something that is no white space.\<close>

definition exposes :: "string \<Rightarrow> (char \<Rightarrow> bool) \<Rightarrow> string \<Rightarrow> bool" where
  "exposes w sp s \<longleftrightarrow> (\<exists>a u v c t. s = a @ u @ v @ c # t \<and> toLowerCase u = w \<and> v \<noteq> [] \<and> list_all sp v \<and> \<not> is_ws c)"

text \<open>What the replacements rely on of a matcher: its matches are not empty and do not begin with white space.\<close>

definition proper_matcher :: "(string \<Rightarrow> string option) \<Rightarrow> bool" where
  "proper_matcher m \<longleftrightarrow> (\<forall>s r. m s = Some r \<longrightarrow> s \<noteq> [] \<and> \<not> is_ws (hd s) \<and> (\<exists>p. s = p @ r) \<and> length r < length s)"

lemma proper_matcherD:
  "proper_matcher m \<Longrightarrow> m s = Some r \<Longrightarrow> s \<noteq> [] \<and> \<not> is_ws (hd s) \<and> (\<exists>p. s = p @ r) \<and> length r < length s"
  by (simp add: proper_matcher_def)

lemma lower_char_ws: "is_ws c \<Longrightarrow> lower_char c = c"
  by (auto simp: is_ws_def lower_char_def Let_def)

lemma strip_word_Some: "strip_word w s = Some r \<Longrightarrow> \<exists>u. s = u @ r \<and> toLowerCase u = w"
  unfolding strip_word_def by (auto split: if_splits intro!: exI [of _ "take (length w) s"])

lemma strip_word_append: "toLowerCase u = w \<Longrightarrow> strip_word w (u @ r) = Some r"
  by (auto simp: strip_word_def toLowerCase_def)

lemma proper_word:
  assumes "w \<noteq> []" and "\<not> is_ws (hd w)" and "s = u @ r" and "toLowerCase u = w"
  shows "s \<noteq> [] \<and> \<not> is_ws (hd s) \<and> length r < length s"
proof -
  obtain c u' where u: "u = c # u'" using assms by (cases u) (auto simp: toLowerCase_def)
  then have "lower_char c = hd w" using assms(4) by (auto simp: toLowerCase_def)
  then show ?thesis using assms u lower_char_ws by (auto simp: Let_def)
qed

lemma suffix_dropWhile: "\<exists>p. s = p @ dropWhile P s"
  by (rule exI [of _ "takeWhile P s"]) simp

lemma strip_value_suffix:
  assumes "strip_value sp s = Some r"
  shows "\<exists>p. s = p @ r"
proof (cases "dropWhile sp s = []")
  case True
  have all: "takeWhile sp s = s" using takeWhile_dropWhile_id [of sp s] unfolding True by simp
  have "r = drop (length (dropWhile is_ws (rev s))) s"
    using assms unfolding strip_value_def Let_def all True by (simp split: if_splits)
  then show ?thesis by (metis append_take_drop_id)
next
  case False
  then have "r = dropWhile (\<lambda>c. \<not> is_ws c) (dropWhile sp s)" using assms by (auto simp: strip_value_def Let_def split: if_splits)
  then show ?thesis by (metis append.assoc takeWhile_dropWhile_id)
qed

lemma proper_assignment:
  assumes "w \<noteq> []" and "\<not> is_ws (hd w)"
  shows "proper_matcher (strip_assignment (Word w) sp)" "proper_matcher (strip_assignment (WordGap w x) sp)"
proof -
  have suffix: "s = u @ r \<Longrightarrow> \<exists>p. r = p @ r' \<Longrightarrow> toLowerCase u = w \<Longrightarrow>
      s \<noteq> [] \<and> \<not> is_ws (hd s) \<and> (\<exists>p. s = p @ r') \<and> length r' < length s" for s u r r'
    using proper_word [OF assms, of s u r] by auto
  show "proper_matcher (strip_assignment (Word w) sp)"
    unfolding proper_matcher_def strip_assignment_def
    by (auto dest!: strip_word_Some strip_value_suffix simp: bind_eq_Some_conv) (use suffix in blast)+
  have gap: "\<exists>u p r'. s = u @ p @ r \<and> toLowerCase u = w" if "strip_key (WordGap w x) s = Some r" for s r
  proof -
    from that obtain r0 where r0: "strip_word w s = Some r0" and
      "(if r0 \<noteq> [] \<and> hd r0 \<noteq> CHR 0x0A \<and> hd r0 \<noteq> CHR 0x0D then strip_word x (tl r0) else None) = Some r \<or> strip_word x r0 = Some r"
      by (auto split: option.splits)
    then have "\<exists>p. r0 = p @ r" by (auto dest!: strip_word_Some split: if_splits) (metis append_Cons list.collapse)
    then show ?thesis using strip_word_Some [OF r0] by blast
  qed
  show "proper_matcher (strip_assignment (WordGap w x) sp)"
    unfolding proper_matcher_def strip_assignment_def bind_eq_Some_conv
  proof (intro allI impI)
    fix s r
    assume "\<exists>y. strip_key (WordGap w x) s = Some y \<and> strip_value sp y = Some r"
    then obtain u p y where "s = u @ (p @ y)" "toLowerCase u = w" "\<exists>q. y = q @ r" using gap strip_value_suffix by metis
    then show "s \<noteq> [] \<and> \<not> is_ws (hd s) \<and> (\<exists>p. s = p @ r) \<and> length r < length s" using suffix [of s u "p @ y" r] by auto
  qed
qed

lemma skip_to_suffix: "(\<And>s r. m s = Some r \<Longrightarrow> \<exists>p. s = p @ r) \<Longrightarrow> skip_to m s = Some r \<Longrightarrow> \<exists>p. s = p @ r"
proof (induction m s rule: skip_to.induct)
  case (2 m c s)
  show ?case
  proof (cases "m (c # s)")
    case None
    then obtain p where "s = p @ r" using 2 by auto
    then have "c # s = (c # p) @ r" by simp
    then show ?thesis by blast
  next
    case (Some r')
    then show ?thesis using 2 by auto
  qed
qed auto

lemma strip_armor_suffix:
  assumes "strip_armor w s = Some r"
  shows "\<exists>u p. s = u @ p @ r \<and> toLowerCase u = w"
proof -
  obtain y where y: "strip_word w s = Some y" "strip_word ''-----'' (dropWhile (\<lambda>c. c \<noteq> CHR ''-'') y) = Some r"
    using assms by (auto simp: strip_armor_def bind_eq_Some_conv split: if_splits)
  obtain u where u: "s = u @ y" "toLowerCase u = w" using strip_word_Some [OF y(1)] by blast
  obtain q where "dropWhile (\<lambda>c. c \<noteq> CHR ''-'') y = q @ r" using strip_word_Some [OF y(2)] by blast
  then have "y = (takeWhile (\<lambda>c. c \<noteq> CHR ''-'') y @ q) @ r" using takeWhile_dropWhile_id [of "\<lambda>c. c \<noteq> CHR ''-''" y] by simp
  then show ?thesis using u by blast
qed

lemma proper_pem: "proper_matcher strip_pem"
  unfolding proper_matcher_def
proof (intro allI impI)
  fix s r
  assume "strip_pem s = Some r"
  then obtain y where y: "strip_armor ''-----begin'' s = Some y" "skip_to (strip_armor ''-----end'') y = Some r"
    by (auto simp: strip_pem_def bind_eq_Some_conv)
  obtain u p where s: "s = u @ p @ y" "toLowerCase u = ''-----begin''" using strip_armor_suffix [OF y(1)] by blast
  have "\<exists>p. s = p @ r" if "strip_armor w s = Some r" for w s r using strip_armor_suffix [OF that] append.assoc by metis
  then obtain q where q: "y = q @ r" using skip_to_suffix [OF _ y(2)] by blast
  from proper_word [of "''-----begin''" s u "p @ y"] s q
  show "s \<noteq> [] \<and> \<not> is_ws (hd s) \<and> (\<exists>p. s = p @ r) \<and> length r < length s" by (auto simp: is_ws_def)
qed

lemma proper_patterns: "m \<in> set message_patterns \<Longrightarrow> proper_matcher m"
  unfolding message_patterns_def by (auto simp: is_ws_def intro!: proper_assignment proper_pem)

lemma replace_step:
  assumes "proper_matcher m"
  shows "replace_matches m (c # s) = (case m (c # s) of Some r \<Rightarrow> REDACTED @ replace_matches m r | None \<Rightarrow> c # replace_matches m s)"
  using proper_matcherD [OF assms, of "c # s"] by (auto simp: less_Suc_eq_le split: option.splits)

declare replace_matches.simps(2) [simp del]

lemma starts_kept:
  assumes "proper_matcher m" and "\<not> is_ws c"
  shows "replace_matches m s = y @ c # t \<Longrightarrow> CHR ''*'' \<notin> set y \<Longrightarrow> \<exists>c' t'. s = y @ c' # t' \<and> \<not> is_ws c'"
proof (induction y arbitrary: s)
  case Nil
  then obtain x s' where s: "s = x # s'" by (cases s) auto
  show ?case
  proof (cases "m s")
    case None
    then show ?thesis using Nil s assms by (auto simp: replace_step)
  next
    case (Some r)
    then have "\<not> is_ws x" using proper_matcherD [OF assms(1) Some] s by simp
    then show ?thesis using s by simp
  qed
next
  case (Cons z y)
  then obtain x s' where s: "s = x # s'" by (cases s) auto
  have "m s = None" using Cons.prems s assms(1) by (auto simp: replace_step REDACTED_def split: option.splits)
  then have "z = x" "replace_matches m s' = y @ c # t" using Cons.prems(1) s assms(1) by (auto simp: replace_step)
  then show ?case using Cons.IH [of s'] Cons.prems(2) s by auto
qed

text \<open>Words and separators without a star: no occurrence begins within the replacement.\<close>

definition star_free :: "string \<Rightarrow> (char \<Rightarrow> bool) \<Rightarrow> bool" where
  "star_free w sp \<longleftrightarrow> w \<noteq> [] \<and> CHR ''*'' \<notin> set w \<and> \<not> sp (CHR ''*'')"

lemma lower_star: "toLowerCase u = w \<Longrightarrow> CHR ''*'' \<notin> set w \<Longrightarrow> CHR ''*'' \<notin> set u"
  by (force simp: toLowerCase_def lower_char_def)

lemma star_free_occurrence:
  "star_free w sp \<Longrightarrow> toLowerCase u = w \<Longrightarrow> list_all sp v \<Longrightarrow> u \<noteq> [] \<and> CHR ''*'' \<notin> set (u @ v)"
  using lower_star [of u w] by (auto simp: star_free_def list_all_iff toLowerCase_def)

lemma after_stars:
  assumes "a @ u @ z = REDACTED @ x" and "u \<noteq> []" and "CHR ''*'' \<notin> set u"
  shows "\<exists>a'. a = REDACTED @ a' \<and> x = a' @ u @ z"
proof -
  obtain b u' where "u = b # u'" "b \<noteq> CHR ''*''" using assms(2,3) by (cases u) auto
  then show ?thesis using assms(1) by (auto simp: REDACTED_def append_eq_Cons_conv Cons_eq_append_conv)
qed

lemma exposesI: "s = a @ u @ v @ c # t \<Longrightarrow> toLowerCase u = w \<Longrightarrow> v \<noteq> [] \<Longrightarrow> list_all sp v \<Longrightarrow> \<not> is_ws c \<Longrightarrow> exposes w sp s"
  unfolding exposes_def by blast

text \<open>A replacement uncovers nothing: what its result exposes stood in the text already, at a place where the
  matcher found nothing.\<close>

lemma replace_exposed:
  assumes "proper_matcher m" and "star_free w sp"
  shows "exposes w sp (replace_matches m s) \<Longrightarrow>
    \<exists>p u v c t. s = p @ u @ v @ c # t \<and> toLowerCase u = w \<and> v \<noteq> [] \<and> list_all sp v \<and> \<not> is_ws c \<and> m (u @ v @ c # t) = None"
    (is "_ \<Longrightarrow> ?found s")
proof (induction s rule: length_induct)
  case (1 s)
  obtain a u v c t where e: "replace_matches m s = a @ u @ v @ c # t" "toLowerCase u = w" "v \<noteq> []" "list_all sp v" "\<not> is_ws c"
    using 1(2) unfolding exposes_def by blast
  have uv: "u \<noteq> []" "CHR ''*'' \<notin> set (u @ v)" using star_free_occurrence [OF assms(2) e(2,4)] by auto
  obtain x s' where s: "s = x # s'" using e(1) by (cases s) auto
  have later: "?found s" if found: "?found r" and cut: "s = p @ r" for p r
  proof -
    obtain q u v c t where f: "r = q @ u @ v @ c # t" "toLowerCase u = w" "v \<noteq> []" "list_all sp v" "\<not> is_ws c" "m (u @ v @ c # t) = None"
      using found by blast
    then have "s = (p @ q) @ u @ v @ c # t" using cut by simp
    with f(2-6) show ?thesis by blast
  qed
  show ?case
  proof (cases "m s")
    case (Some r)
    then have "a @ u @ v @ c # t = REDACTED @ replace_matches m r" using e(1) s replace_step [OF assms(1)] by simp
    then obtain a' where "replace_matches m r = a' @ u @ v @ c # t" using after_stars [of a u "v @ c # t"] uv by auto
    then have "exposes w sp (replace_matches m r)" using e(2-5) by (rule exposesI)
    moreover obtain p where "s = p @ r" "length r < length s" using proper_matcherD [OF assms(1) Some] by blast
    ultimately have "?found r" using 1(1) by simp
    then show ?thesis using \<open>s = p @ r\<close> by (rule later)
  next
    case None
    then have step: "replace_matches m s = x # replace_matches m s'" using s replace_step [OF assms(1)] by simp
    show ?thesis
    proof (cases a)
      case Nil
      then obtain c' t' where "s = (u @ v) @ c' # t'" "\<not> is_ws c'"
        using starts_kept [OF assms(1) e(5), of s "u @ v" t] e(1) uv(2) by auto
      then have "s = [] @ u @ v @ c' # t'" "m (u @ v @ c' # t') = None" using None by simp_all
      with e(2-4) \<open>\<not> is_ws c'\<close> show ?thesis by blast
    next
      case (Cons y a')
      then have "replace_matches m s' = a' @ u @ v @ c # t" using step e(1) by simp
      then have "exposes w sp (replace_matches m s')" using e(2-5) by (rule exposesI)
      then have "?found s'" using 1(1) s by simp
      then show ?thesis using later [of s' "[x]"] s by simp
    qed
  qed
qed

lemma exposes_replace: "proper_matcher m \<Longrightarrow> star_free w sp \<Longrightarrow> exposes w sp (replace_matches m s) \<Longrightarrow> exposes w sp s"
  using replace_exposed [of m w sp s] unfolding exposes_def by blast

lemma dropWhile_keeps: "\<not> P c \<Longrightarrow> length ys < length (dropWhile P (xs @ c # ys))"
  by (induction xs) auto

text \<open>The matcher of an assignment finds every one that begins here.\<close>

lemma strip_assignment_finds:
  assumes "toLowerCase u = w" and "v \<noteq> []" and "list_all sp v" and "\<not> is_ws c"
  shows "strip_assignment (Word w) sp (u @ v @ c # t) \<noteq> None"
proof -
  let ?s = "v @ c # t"
  have run: "takeWhile sp ?s \<noteq> []" using assms(2,3) by (cases v) auto
  have "strip_value sp ?s \<noteq> None"
  proof (cases "dropWhile sp ?s = []")
    case True
    have all: "takeWhile sp ?s = ?s" using takeWhile_dropWhile_id [of sp ?s] unfolding True by simp
    have "length (rev v) < length (dropWhile is_ws (rev t @ c # rev v))" by (rule dropWhile_keeps [where P = is_ws, OF assms(4)])
    moreover have "0 < length v" using assms(2) by simp
    ultimately have "2 \<le> length (dropWhile is_ws (rev ?s))" by (simp del: length_greater_0_conv)
    then show ?thesis unfolding strip_value_def Let_def all True by simp
  next
    case False
    then show ?thesis using run by (simp add: strip_value_def Let_def)
  qed
  then show ?thesis using strip_word_append [OF assms(1), of ?s] by (simp add: strip_assignment_def)
qed

lemma replace_removes:
  assumes "proper_matcher (strip_assignment (Word w) sp)" and "star_free w sp"
  shows "\<not> exposes w sp (replace_matches (strip_assignment (Word w) sp) s)"
  using replace_exposed [OF assms] strip_assignment_finds by metis

text \<open>Applied one after the other, the patterns leave no assignment of any of their words.\<close>

lemma fold_removes:
  assumes "\<And>m. m \<in> set ms \<Longrightarrow> proper_matcher m" and "star_free w sp" and "strip_assignment (Word w) sp \<in> set ms"
  shows "\<not> exposes w sp (fold replace_matches ms s)"
proof -
  have keep: "\<forall>m \<in> set ns. proper_matcher m \<Longrightarrow> exposes w sp (fold replace_matches ns s) \<Longrightarrow> exposes w sp s" for ns s
    using exposes_replace [OF _ assms(2)] by (induction ns arbitrary: s) auto
  obtain ms1 ms2 where ms: "ms = ms1 @ strip_assignment (Word w) sp # ms2" using split_list [OF assms(3)] by blast
  have "\<not> exposes w sp (replace_matches (strip_assignment (Word w) sp) (fold replace_matches ms1 s))"
    by (rule replace_removes) (use assms ms in auto)
  then show ?thesis using keep [of ms2] assms(1) ms by auto
qed

text \<open>\<open>clean s\<close>: no word of the message patterns is followed by a value.\<close>

definition clean :: "string \<Rightarrow> bool" where
  "clean s \<longleftrightarrow> list_all (\<lambda>w. \<not> exposes w is_sep s) [''password'', ''key'', ''passphrase'', ''auth'', ''token'', ''pem''] \<and>
     \<not> exposes ''bearer'' is_ws s"

lemma redactErrorMessage_clean: "clean (redactErrorMessage s)"
proof -
  have "\<not> exposes w sp (redactErrorMessage s)" if "star_free w sp" "strip_assignment (Word w) sp \<in> set message_patterns" for w sp
    unfolding redactErrorMessage_def by (rule fold_removes [OF proper_patterns that])
  moreover have "star_free w is_sep" if "w \<in> {''password'', ''key'', ''passphrase'', ''auth'', ''token'', ''pem''}" for w
    using that by (auto simp: star_free_def is_sep_def is_ws_def)
  moreover have "star_free ''bearer'' is_ws" by (simp add: star_free_def is_ws_def)
  ultimately show ?thesis by (simp add: message_patterns_def clean_def)
qed

text \<open>C22: Redaction of messages is complete for its words. Whatever text is redacted, the result has no place where one
  of the words \<open>password\<close>, \<open>key\<close>, \<open>passphrase\<close>, \<open>auth\<close>, \<open>token\<close> or \<open>pem\<close>, in upper or lower case, is followed by equals signs,
  colons or white space and then a value, nor one where \<open>bearer\<close> is followed by white space and a value: no
  replacement undoes another.\<close>
theorem redactErrorMessage_complete:
  "list_all (\<lambda>w. \<not> exposes w is_sep (redactErrorMessage s)) [''password'', ''key'', ''passphrase'', ''auth'', ''token'', ''pem''] \<and>
   \<not> exposes ''bearer'' is_ws (redactErrorMessage s)"
  using redactErrorMessage_clean [of s] by (simp add: clean_def)

text \<open>A quoted name is not recognised: the text \<open>"password":"x"\<close> of a JSON object, as it stands in many commands, is
  left as it is, since the quotation mark is no separator.\<close>
theorem redactErrorMessage_quoted:
  "redactErrorMessage (CHR 0x22 # ''password'' @ [CHR 0x22, CHR '':'', CHR 0x22] @ ''x'' @ [CHR 0x22]) =
     CHR 0x22 # ''password'' @ [CHR 0x22, CHR '':'', CHR 0x22] @ ''x'' @ [CHR 0x22]"
  by code_simp

section \<open>What the log holds\<close>

text \<open>All strings of a value, and the events of a run as they are stored, numbered from \<open>n + 1\<close>.\<close>

fun json_strings :: "json \<Rightarrow> string list" where
  "json_strings (JStr s) = [s]"
| "json_strings (JArr vs) = concat (map json_strings vs)"
| "json_strings (JObj fs) = concat (map (\<lambda>(k, v). json_strings v) fs)"
| "json_strings v = []"

lemma redacted_strings: "list_all clean (json_strings (redactStringPatterns v))"
  by (induction v rule: redactStringPatterns.induct)
    (auto simp: list_all_iff redactErrorMessage_clean)

fun stored_events :: "nat \<Rightarrow> (AuditEvent \<times> int) list \<Rightarrow> json list" where
  "stored_events n [] = []"
| "stored_events n ((e, t) # es) = redactEvent (event_json e t (Suc n)) # stored_events (Suc n) es"

lemma length_stored_events [simp]: "length (stored_events n es) = length es"
  by (induction n es rule: stored_events.induct) auto

lemma stored_events_append: "stored_events n (es @ fs) = stored_events n es @ stored_events (n + length es) fs"
  by (induction n es rule: stored_events.induct) auto

lemma stored_events_clean: "list_all (\<lambda>j. list_all clean (json_strings j)) (stored_events n es)"
  by (induction n es rule: stored_events.induct) (auto simp: redactEvent_def redacted_strings)

definition audit_run :: "(AuditEvent \<times> int) list \<Rightarrow> AuditLog \<Rightarrow> AuditLog" where
  "audit_run es log = fold (\<lambda>(e, t) l. fst (audit_record e t l)) es log"

lemma audit_run_snoc: "audit_run (es @ [(e, t)]) log = fst (audit_record e t (audit_run es log))"
  by (simp add: audit_run_def)

text \<open>The log is a window on the run: its events are the last \<open>maxEvents\<close> ones.\<close>

lemma audit_run_window:
  "audit_run es (new_AuditLog (int k)) =
     \<lparr>audit_events = drop (length es - k) (stored_events 0 es), audit_sequence = length es, maxEvents = int k\<rparr>"
proof (induction es rule: rev_induct)
  case (snoc x es)
  obtain e t where x: "x = (e, t)" by (cases x)
  let ?kept = "drop (length es - k) (stored_events 0 es)" and ?new = "redactEvent (event_json e t (Suc (length es)))"
  have "drop (length es + 1 - k) (stored_events 0 es @ [?new]) =
      (if k < length (?kept @ [?new]) then drop (length (?kept @ [?new]) - k) (?kept @ [?new]) else ?kept @ [?new])"
    by (cases "length es < k") (auto simp: Suc_diff_le)
  moreover have "nat (int (length (?kept @ [?new])) - int k) = length (?kept @ [?new]) - k" by simp
  ultimately show ?case
    unfolding x audit_run_snoc snoc.IH by (simp add: audit_record_def Let_def stored_events_append)
qed (simp add: audit_run_def new_AuditLog_def)

text \<open>The audit log is a window on the run, and a redacted one. After any sequence of recorded events, a log made for
  \<open>k\<close> events holds exactly the last \<open>k\<close> of them, redacted, in the order they were recorded and numbered by their
  position in the whole run; and no string of a stored event, whatever the caller passed as host, target or reason,
  has a word of the message patterns followed by a value.\<close>
theorem audit_log_window:
  "audit_events (audit_run es (new_AuditLog (int k))) = drop (length es - k) (stored_events 0 es) \<and>
   audit_sequence (audit_run es (new_AuditLog (int k))) = length es \<and>
   list_all (\<lambda>j. list_all clean (json_strings j)) (audit_events (audit_run es (new_AuditLog (int k))))"
  using stored_events_clean [of 0 es] by (auto simp: audit_run_window list_all_iff dest!: in_set_dropD)

section \<open>Every decision is counted and audited\<close>

text \<open>The policy engine runs with the observer: each call of \<open>assertAllowed\<close> or \<open>explain\<close> hands its reports to it.\<close>

definition observe_all :: "int \<Rightarrow> observations \<Rightarrow> app_state \<Rightarrow> app_state" where
  "observe_all now reports st = fold (observe_decision now) reports st"

lemma map_of_map_keys: "map_of (map (\<lambda>(k, v). (k, f k v)) fs) x = map_option (f x) (map_of fs x)"
  by (induction fs) auto

definition stored_outcome :: "json \<Rightarrow> json option" where
  "stored_outcome j = (case j of JObj fs \<Rightarrow> map_of fs ''allowed'' | _ \<Rightarrow> None)"

lemma stored_outcome_object:
  "stored_outcome (redactEvent (JObj fs)) = map_option (\<lambda>v. redactStringPatterns (redactSensitiveData v)) (map_of fs ''allowed'')"
proof -
  have "\<not> sensitive_key ''allowed''" by code_simp
  moreover have "map_of (map (\<lambda>(k, v). (k, redactStringPatterns v)) gs) x = map_option redactStringPatterns (map_of gs x)" for gs x
    by (rule map_of_map_keys)
  ultimately show ?thesis
    by (simp add: stored_outcome_def redactEvent_def map_of_map_keys option.map_comp comp_def del: map_map)
qed

lemma stored_outcome_redacted: "stored_outcome (redactEvent (event_json e t n)) = Some (JBool (ae_allowed e))"
proof -
  have "map_of (field k v) ''allowed'' = None" if "k \<noteq> ''allowed''" for k v using that by (simp add: field_def split: option.splits)
  then show ?thesis by (simp add: event_json_def stored_outcome_object map_add_def del: redactSensitiveData.simps(2) redactStringPatterns.simps(3))
qed

lemma audit_record_last:
  "0 < maxEvents log \<Longrightarrow> last (audit_events (fst (audit_record e t log))) = redactEvent (event_json e t (audit_sequence log + 1))"
  by (auto simp: audit_record_def Let_def nat_less_iff)



end
