(* ===== verification/Detection.thy ===== *)
theory Detection
  imports HostTools
begin

text \<open>
  The detection of a host's system (\<open>src/detect.ts\<close>): the commands it sends and what it concludes from their answers. An answer is the exit code and the
  standard output; a command that throws counts as one that failed without output.
\<close>

section \<open>Answers\<close>

definition safeExec :: "host \<Rightarrow> string \<Rightarrow> (int \<times> string) tool" where
  "safeExec h command =
     ccatch (cbind (ssh_exec h command) (\<lambda>r. creturn (or_else (ea_code r) 0, ea_stdout r))) (\<lambda>e. creturn (1, ''''))"

fun win_slashes :: "string \<Rightarrow> string" where
  "win_slashes [] = []"
| "win_slashes [c] = [if c = CHR 0x5C then CHR ''/'' else c]"
| "win_slashes (c # d # s) =
     (if c = CHR 0x5C then CHR ''/'' # (if d = CHR 0x5C then win_slashes s else win_slashes (d # s)) else c # win_slashes (d # s))"

definition normalizeWindowsPath :: "string \<Rightarrow> string option" where
  "normalizeWindowsPath p = (if p = [] then None else Some (win_slashes p))"

definition parseKeyValueLine :: "string \<Rightarrow> (string \<times> string) option" where
  "parseKeyValueLine line =
     (if CHR ''='' \<notin> set line then None
      else Some (takeWhile (\<lambda>c. c \<noteq> CHR ''='') line,
                 trim (filter (\<lambda>c. c \<noteq> CHR 0x22) (drop 1 (dropWhile (\<lambda>c. c \<noteq> CHR ''='') line)))))"

definition ps_command :: "string \<Rightarrow> string" where
  "ps_command script = ''powershell -NoLogo -NoProfile -Command '' @ [CHR 0x22] @ script @ [CHR 0x22]"

section \<open>Architecture and platform\<close>

definition detect_arch :: "host \<Rightarrow> string tool" where
  "detect_arch h =
     cbind (safeExec h ''uname -m'') (\<lambda>(c, out).
       if trim out \<noteq> [] then creturn (trim out)
       else cbind (safeExec h (ps_command ''$env:PROCESSOR_ARCHITECTURE'')) (\<lambda>(c, win).
         creturn (if trim win \<noteq> [] then trim win else ''unknown'')))"

definition uname_platform :: "string \<Rightarrow> Platform" where
  "uname_platform out =
     (let uname = toLowerCase (trim out) in
      if js_includes uname ''linux'' then Linux else if js_includes uname ''darwin'' then Darwin
      else if js_includes uname ''windows'' then Windows else UnknownPlatform)"

text \<open>The platform, and the version that the Windows fallback finds.\<close>

definition detect_platform :: "host \<Rightarrow> (Platform \<times> string) tool" where
  "detect_platform h =
     cbind (safeExec h ''uname -s'') (\<lambda>(c, out).
       if uname_platform out \<noteq> UnknownPlatform then creturn (uname_platform out, ''unknown'')
       else cbind (safeExec h ''cmd /c ver'') (\<lambda>(c, ver).
         if c = 0 \<and> ver \<noteq> [] then creturn (Windows, trim ver)
         else cbind (safeExec h ''sw_vers -productName'') (\<lambda>(c, mac).
           creturn (if c = 0 \<and> js_includes (toLowerCase mac) ''mac'' then Darwin else UnknownPlatform, ''unknown''))))"

section \<open>Windows\<close>

definition detect_windows :: "host \<Rightarrow> string \<Rightarrow> string \<Rightarrow> OSInfo tool" where
  "detect_windows h a v =
     cbind (safeExec h ''echo $env:SHELL'') (\<lambda>(c, sh).
     cbind (safeExec h (ps_command ''$env:TEMP'')) (\<lambda>(c, temp).
     cbind (safeExec h (ps_command ''Get-Command winget -ErrorAction SilentlyContinue'')) (\<lambda>(wcode, wout).
     cbind (if wcode = 0 \<and> js_includes (toLowerCase wout) ''winget'' then creturn Winget
            else cbind (safeExec h ''choco -v'') (\<lambda>(c, out). creturn (if c = 0 then Choco else UnknownPackageManager))) (\<lambda>pm.
       creturn \<lparr>platform = Windows, distro = ''windows'', os_version = v, arch = a,
         shell = (if trim sh \<noteq> [] then trim sh else ''powershell''), packageManager = pm, init = WindowsService,
         defaultShell = Some ShPowershell, tempDir = Some (or_else (normalizeWindowsPath (trim temp)) ''C:/Windows/Temp'')\<rparr>))))"

section \<open>Distributions\<close>

text \<open>The last value of each of two keys.\<close>

definition key_values :: "(string \<Rightarrow> string) \<Rightarrow> string \<Rightarrow> string \<Rightarrow> string \<Rightarrow> string \<times> string \<Rightarrow> string \<times> string" where
  "key_values f idKey versionKey out dv =
     fold (\<lambda>line (d, v). case parseKeyValueLine line of
         None \<Rightarrow> (d, v)
       | Some (key, value) \<Rightarrow> (if key = idKey then f value else d, if key = versionKey then value else v))
       (split_on (CHR 0x0A) out) dv"

text \<open>The first match of \<open>/(\d+\.\d+)/\<close>.\<close>

fun first_version :: "string \<Rightarrow> string option" where
  "first_version [] = None"
| "first_version (c # s) =
     (let ds = takeWhile is_digit (c # s); r = dropWhile is_digit (c # s); es = takeWhile is_digit (drop 1 r) in
      if ds \<noteq> [] \<and> take 1 r = ''.'' \<and> es \<noteq> [] then Some (ds @ ''.'' @ es) else first_version s)"

datatype distro_command = OsRelease | LsbRelease | RedhatRelease | DebianVersion

fun distro_line :: "distro_command \<Rightarrow> string" where
  "distro_line OsRelease = ''cat /etc/os-release''"
| "distro_line LsbRelease = ''cat /etc/lsb-release''"
| "distro_line RedhatRelease = ''cat /etc/redhat-release''"
| "distro_line DebianVersion = ''cat /etc/debian_version''"

text \<open>What an answer says, \<open>None\<close> when the next file is tried.\<close>

definition read_distro :: "distro_command \<Rightarrow> string \<Rightarrow> (string \<times> string) option" where
  "read_distro cmd out =
     (let low = toLowerCase out in
      if cmd = OsRelease then Some (key_values id ''ID'' ''VERSION_ID'' out (''unknown'', ''unknown''))
      else if cmd = LsbRelease then Some (key_values toLowerCase ''DISTRIB_ID'' ''DISTRIB_RELEASE'' out (''unknown'', ''unknown''))
      else if js_includes low ''red hat'' \<or> js_includes low ''rhel'' \<or> js_includes low ''centos'' then
        Some (''rhel'', or_else (first_version out) ''unknown'')
      else if js_includes low ''debian'' then Some (''debian'', trim out)
      else None)"

fun detect_distro :: "host \<Rightarrow> distro_command list \<Rightarrow> (string \<times> string) tool" where
  "detect_distro h [] = creturn (''unknown'', ''unknown'')"
| "detect_distro h (cmd # cmds) =
     cbind (safeExec h (distro_line cmd)) (\<lambda>(c, out).
       if c \<noteq> 0 \<or> trim out = [] then detect_distro h cmds
       else case read_distro cmd out of Some dv \<Rightarrow> creturn dv | None \<Rightarrow> detect_distro h cmds)"

section \<open>Package managers and init systems\<close>

definition which :: "string \<Rightarrow> string" where
  "which name = ''command -v '' @ name @ '' || which '' @ name"

fun detect_manager :: "host \<Rightarrow> (string \<times> PackageManager) list \<Rightarrow> PackageManager tool" where
  "detect_manager h [] = creturn UnknownPackageManager"
| "detect_manager h ((name, pm) # pms) =
     cbind (safeExec h (which name)) (\<lambda>(c, out). if c = 0 then creturn pm else detect_manager h pms)"

definition linux_managers :: "(string \<times> PackageManager) list" where
  "linux_managers = [(''apt-get'', Apt), (''dnf'', Dnf), (''yum'', Yum), (''pacman'', Pacman), (''apk'', Apk), (''zypper'', Zypper)]"

definition detect_init :: "host \<Rightarrow> InitSystem tool" where
  "detect_init h =
     cbind (safeExec h (which ''systemctl'')) (\<lambda>(s, out).
     cbind (safeExec h (which ''service'')) (\<lambda>(v, out).
       creturn (if s = 0 then Systemd else if v = 0 then InitService else UnknownInit)))"

section \<open>The whole detection\<close>

text \<open>The names of the product and its version on a Mac.\<close>

definition mac_product :: "host \<Rightarrow> (string \<times> string) tool" where
  "mac_product h =
     cbind (safeExec h ''sw_vers -productName'') (\<lambda>(c, name).
     cbind (safeExec h ''sw_vers -productVersion'') (\<lambda>(c, ver).
       creturn (if trim name \<noteq> [] then trim name else ''macos'', if trim ver \<noteq> [] then trim ver else ''unknown'')))"

definition detect_posix :: "host \<Rightarrow> Platform \<Rightarrow> string \<Rightarrow> string \<Rightarrow> OSInfo tool" where
  "detect_posix h p a v =
     cbind (safeExec h ''echo $SHELL'') (\<lambda>(c, out).
     let sh = last (split_on (CHR ''/'') (trim out)) in
     cbind (if p = Linux then detect_distro h [OsRelease, LsbRelease, RedhatRelease, DebianVersion]
            else if p = Darwin then mac_product h else creturn (''unknown'', v)) (\<lambda>(d, ver).
     cbind (if p = Linux then detect_manager h linux_managers
            else if p = Darwin then detect_manager h [(''brew'', Brew)] else creturn UnknownPackageManager) (\<lambda>pm.
     cbind (if p = Linux then detect_init h else creturn (if p = Darwin then Launchd else UnknownInit)) (\<lambda>ini.
       creturn \<lparr>platform = p, distro = d, os_version = ver, arch = a, shell = sh, packageManager = pm, init = ini,
         defaultShell = Some (if p = Darwin then (if js_includes sh ''zsh'' then ShSh else ShBash)
           else if js_includes sh ''bash'' then ShBash else ShSh),
         tempDir = (if p = Darwin \<or> p = Linux then Some ''/tmp'' else None)\<rparr>))))"

definition detectOS :: "host \<Rightarrow> OSInfo tool" where
  "detectOS h =
     cbind (detect_arch h) (\<lambda>a.
     cbind (detect_platform h) (\<lambda>(p, v).
       if p = Windows then detect_windows h a v else detect_posix h p a v))"

section \<open>What it does\<close>

definition detection_commands :: "string list" where
  "detection_commands =
     [''uname -m'', ''uname -s'', ''cmd /c ver'', ''sw_vers -productName'', ''sw_vers -productVersion'', ''echo $env:SHELL'', ''echo $SHELL'', ''choco -v'',
      ps_command ''$env:PROCESSOR_ARCHITECTURE'', ps_command ''$env:TEMP'', ps_command ''Get-Command winget -ErrorAction SilentlyContinue''] @
     map distro_line [OsRelease, LsbRelease, RedhatRelease, DebianVersion] @
     map which [''apt-get'', ''dnf'', ''yum'', ''pacman'', ''apk'', ''zypper'', ''brew'', ''systemctl'', ''service'']"

definition detection_call :: "host_call \<Rightarrow> bool" where
  "detection_call c = (c \<in> ExecCommand ` set detection_commands)"

lemma calls_safeExec [calls]: "command \<in> set detection_commands \<Longrightarrow> calls_in detection_call (safeExec h command)"
  unfolding safeExec_def ssh_exec_def by (intro calls) (simp_all add: detection_call_def)

lemma calls_case_prod [calls]: "(\<And>a b. calls_in P (f a b)) \<Longrightarrow> calls_in P (case x of (a, b) \<Rightarrow> f a b)"
  by (simp split: prod.split)

lemma calls_case_option [calls]: "calls_in P m \<Longrightarrow> (\<And>x. calls_in P (f x)) \<Longrightarrow> calls_in P (case v of None \<Rightarrow> m | Some x \<Rightarrow> f x)"
  by (simp split: option.split)

text \<open>\<open>returns m\<close>: \<open>m\<close> never throws.\<close>

definition returns :: "'a tool \<Rightarrow> bool" where
  "returns m \<longleftrightarrow> (\<forall>st. \<exists>x. snd (m st) = Inr x)"

named_theorems returning \<open>rules that split \<open>returns\<close> along an operation\<close>

lemma returns_creturn [returning]: "returns (creturn x)"
  by (simp add: returns_def)

lemma returns_cbind [returning]:
  assumes "returns m" and "\<And>x. returns (f x)"
  shows "returns (cbind m f)"
  unfolding returns_def
proof
  fix st
  obtain st' x where m: "m st = (st', Inr x)" using assms(1) unfolding returns_def by (metis prod.collapse)
  then show "\<exists>y. snd (cbind m f st) = Inr y" using assms(2) unfolding returns_def by (simp add: cbind_def)
qed

lemma returns_safeExec [returning]: "returns (safeExec h command)"
  by (auto simp: returns_def safeExec_def ccatch_def cbind_def split: prod.splits sum.splits)

lemma returns_case_prod [returning]: "(\<And>a b. returns (f a b)) \<Longrightarrow> returns (case x of (a, b) \<Rightarrow> f a b)"
  by (simp split: prod.split)

lemma returns_case_option [returning]: "returns m \<Longrightarrow> (\<And>x. returns (f x)) \<Longrightarrow> returns (case v of None \<Rightarrow> m | Some x \<Rightarrow> f x)"
  by (simp split: option.split)

lemma returns_if [returning]: "(b \<Longrightarrow> returns m) \<Longrightarrow> (\<not> b \<Longrightarrow> returns n) \<Longrightarrow> returns (if b then m else n)"
  by simp

lemma returns_detect_distro [returning]: "returns (detect_distro h cmds)"
  by (induction cmds) (unfold detect_distro.simps, (intro returning | assumption)+)

lemma returns_detect_manager [returning]: "returns (detect_manager h pms)"
  by (induction pms) (unfold split_paired_all detect_manager.simps, (intro returning | assumption)+)

lemma calls_detect_distro [calls]: "calls_in detection_call (detect_distro h cmds)"
proof (induction cmds)
  case Nil
  then show ?case unfolding detect_distro.simps by (intro calls)
next
  case (Cons cmd cmds)
  have "distro_line cmd \<in> set detection_commands" by (cases cmd) (simp_all add: detection_commands_def)
  then show ?case unfolding detect_distro.simps by (intro calls Cons.IH)
qed

lemma calls_detect_manager: "which ` fst ` set pms \<subseteq> set detection_commands \<Longrightarrow> calls_in detection_call (detect_manager h pms)"
proof (induction pms)
  case Nil
  then show ?case unfolding detect_manager.simps by (intro calls)
next
  case (Cons pm pms)
  obtain name p where pm: "pm = (name, p)" by (cases pm)
  have "which name \<in> set detection_commands" "calls_in detection_call (detect_manager h pms)"
    using Cons pm by auto
  then show ?case unfolding pm detect_manager.simps by (intro calls)
qed

lemma manager_commands:
  "which ` fst ` set linux_managers \<subseteq> set detection_commands" "which ` fst ` set [(''brew'', Brew)] \<subseteq> set detection_commands"
  by (auto simp: linux_managers_def detection_commands_def)

lemma fixed_commands:
  "''uname -m'' \<in> set detection_commands" "''uname -s'' \<in> set detection_commands" "''cmd /c ver'' \<in> set detection_commands"
  "''sw_vers -productName'' \<in> set detection_commands" "''sw_vers -productVersion'' \<in> set detection_commands"
  "''echo $env:SHELL'' \<in> set detection_commands" "''echo $SHELL'' \<in> set detection_commands" "''choco -v'' \<in> set detection_commands"
  "ps_command ''$env:PROCESSOR_ARCHITECTURE'' \<in> set detection_commands" "ps_command ''$env:TEMP'' \<in> set detection_commands"
  "ps_command ''Get-Command winget -ErrorAction SilentlyContinue'' \<in> set detection_commands"
  "which ''systemctl'' \<in> set detection_commands" "which ''service'' \<in> set detection_commands"
  by (simp_all add: detection_commands_def)

lemmas detect_defs = detectOS_def detect_arch_def detect_platform_def detect_windows_def detect_posix_def mac_product_def detect_init_def Let_def

lemma detectOS_returns: "returns (detectOS h)"
  unfolding detect_defs by (intro returning)

lemma detectOS_calls: "calls_in detection_call (detectOS h)"
  unfolding detect_defs by (intro calls fixed_commands calls_detect_manager manager_commands)

text \<open>
  C34: The detection always ends with a description of the system, whatever the host answers and even when every command throws, and it
  only ever sends commands of a fixed list.
\<close>

theorem detectOS_total:
  "\<exists>st' os new. detectOS h st = (st', Inr os) \<and> t_calls st' = t_calls st @ new \<and> list_all detection_call new"
proof -
  obtain st' r where d: "detectOS h st = (st', r)" by fastforce
  then obtain os where "r = Inr os" using detectOS_returns [of h] unfolding returns_def by (metis snd_conv)
  then show ?thesis using d calls_inD [OF detectOS_calls d] by blast
qed

end
