(* ===== verification/Configuration.thy ===== *)
theory Configuration
  imports HttpServer Sessions
begin

text \<open>
  The configuration of the server (\<open>src/config.ts\<close>) and of the remote control plane
  (\<open>src/remote/config.ts\<close>). \<open>process.env\<close> is a function from names to values. A policy file is what reading and
  parsing it gives, an error message or a partial policy of the declared types; it is an argument of the model. Partial objects are records of options. The numbers are
  exact integers.
\<close>

section \<open>Data\<close>

type_synonym process_env = "string \<Rightarrow> string option"

datatype ConnectorCredentialProvider = ProviderNone | ProviderAgent | ProviderCommand

fun provider_name :: "ConnectorCredentialProvider \<Rightarrow> string" where
  "provider_name ProviderNone = ''none''"
| "provider_name ProviderAgent = ''agent''"
| "provider_name ProviderCommand = ''command''"

definition CONNECTOR_CREDENTIAL_PROVIDERS :: "ConnectorCredentialProvider list" where
  "CONNECTOR_CREDENTIAL_PROVIDERS = [ProviderNone, ProviderAgent, ProviderCommand]"

record rate_limit_config =
  rl_enabled :: bool
  rl_maxRequests :: int
  rl_windowMs :: int

record security_config =
  se_allowRootLogin :: bool
  se_hostKeyPolicy :: HostKeyPolicy
  se_knownHostsPath :: string
  se_allowedCiphers :: "string list"

record connector_config =
  cc_toolProfile :: ToolProfile
  cc_credentialProvider :: ConnectorCredentialProvider
  cc_credentialCommand :: "string option"
  cc_credentialCommandArgs :: "string list"
  cc_credentialCommandTimeoutMs :: int
  cc_defaultUsername :: "string option"

record ServerConfig =
  sv_maxSessions :: int
  sv_sessionTtlMs :: int
  sv_cleanupIntervalMs :: int
  sv_commandTimeoutMs :: int
  sv_maxCommandOutputBytes :: int
  sv_maxStreamChunks :: int
  sv_maxFileSize :: int
  sv_maxFileWriteBytes :: int
  sv_maxTransferBytes :: int
  sv_debug :: bool
  sv_rateLimit :: rate_limit_config
  sv_security :: security_config
  sv_policy :: PolicyConfig
  sv_http :: http_config
  sv_connector :: connector_config
  sv_auth :: auth_config

text \<open>\<open>Partial\<close> of each of them, as it is given by a policy file and by the caller's overrides.\<close>

record partial_policy =
  pp_mode :: "PolicyMode option"
  pp_allowRootLogin :: "bool option"
  pp_allowRawSudo :: "bool option"
  pp_allowDestructiveCommands :: "bool option"
  pp_allowDestructiveFs :: "bool option"
  pp_allowedHosts :: "string list option"
  pp_commandAllow :: "string list option"
  pp_commandDeny :: "string list option"
  pp_pathAllowPrefixes :: "string list option"
  pp_pathDenyPrefixes :: "string list option"
  pp_localPathAllowPrefixes :: "string list option"
  pp_localPathDenyPrefixes :: "string list option"
  pp_tunnelAllowBindHosts :: "string list option"
  pp_tunnelDenyBindHosts :: "string list option"
  pp_tunnelAllowRemoteHosts :: "string list option"
  pp_tunnelDenyRemoteHosts :: "string list option"
  pp_tunnelAllowPorts :: "string list option"
  pp_tunnelDenyPorts :: "string list option"

record partial_security =
  ps_allowRootLogin :: "bool option"
  ps_hostKeyPolicy :: "HostKeyPolicy option"
  ps_knownHostsPath :: "string option"
  ps_allowedCiphers :: "string list option"

record partial_http =
  ph_host :: "string option"
  ph_port :: "int option"
  ph_allowedOrigins :: "string list option"
  ph_bearerTokenFile :: "string option"
  ph_enableLegacySse :: "bool option"
  ph_maxRequestBodyBytes :: "int option"
  ph_maxSessions :: "int option"
  ph_sessionIdleTtlMs :: "int option"
  ph_publicUrl :: "string option"
  ph_trustProxy :: "bool option"

record partial_connector =
  pc_toolProfile :: "ToolProfile option"
  pc_credentialProvider :: "ConnectorCredentialProvider option"
  pc_credentialCommand :: "string option"
  pc_credentialCommandArgs :: "string list option"
  pc_credentialCommandTimeoutMs :: "int option"
  pc_defaultUsername :: "string option"

record partial_auth =
  pa_oauth :: "bool option"
  pa_issuer :: "string option"
  pa_audience :: "string option"
  pa_jwksUrl :: "string option"
  pa_resource :: "string option"
  pa_requiredScopes :: "string list option"

record partial_config =
  pv_maxSessions :: "int option"
  pv_sessionTtlMs :: "int option"
  pv_cleanupIntervalMs :: "int option"
  pv_commandTimeoutMs :: "int option"
  pv_maxCommandOutputBytes :: "int option"
  pv_maxStreamChunks :: "int option"
  pv_maxFileSize :: "int option"
  pv_maxFileWriteBytes :: "int option"
  pv_maxTransferBytes :: "int option"
  pv_debug :: "bool option"
  pv_rl_enabled :: "bool option"
  pv_rl_maxRequests :: "int option"
  pv_rl_windowMs :: "int option"
  pv_security :: partial_security
  pv_policy :: partial_policy
  pv_http :: partial_http
  pv_connector :: partial_connector
  pv_auth :: partial_auth

definition no_policy :: partial_policy where
  "no_policy = \<lparr>pp_mode = None, pp_allowRootLogin = None, pp_allowRawSudo = None, pp_allowDestructiveCommands = None,
     pp_allowDestructiveFs = None, pp_allowedHosts = None, pp_commandAllow = None, pp_commandDeny = None, pp_pathAllowPrefixes = None,
     pp_pathDenyPrefixes = None, pp_localPathAllowPrefixes = None, pp_localPathDenyPrefixes = None, pp_tunnelAllowBindHosts = None,
     pp_tunnelDenyBindHosts = None, pp_tunnelAllowRemoteHosts = None, pp_tunnelDenyRemoteHosts = None, pp_tunnelAllowPorts = None,
     pp_tunnelDenyPorts = None\<rparr>"

definition no_overrides :: partial_config where
  "no_overrides = \<lparr>pv_maxSessions = None, pv_sessionTtlMs = None, pv_cleanupIntervalMs = None, pv_commandTimeoutMs = None,
     pv_maxCommandOutputBytes = None, pv_maxStreamChunks = None, pv_maxFileSize = None, pv_maxFileWriteBytes = None,
     pv_maxTransferBytes = None, pv_debug = None, pv_rl_enabled = None, pv_rl_maxRequests = None, pv_rl_windowMs = None,
     pv_security = \<lparr>ps_allowRootLogin = None, ps_hostKeyPolicy = None, ps_knownHostsPath = None, ps_allowedCiphers = None\<rparr>,
     pv_policy = no_policy,
     pv_http = \<lparr>ph_host = None, ph_port = None, ph_allowedOrigins = None, ph_bearerTokenFile = None, ph_enableLegacySse = None,
       ph_maxRequestBodyBytes = None, ph_maxSessions = None, ph_sessionIdleTtlMs = None, ph_publicUrl = None, ph_trustProxy = None\<rparr>,
     pv_connector = \<lparr>pc_toolProfile = None, pc_credentialProvider = None, pc_credentialCommand = None,
       pc_credentialCommandArgs = None, pc_credentialCommandTimeoutMs = None, pc_defaultUsername = None\<rparr>,
     pv_auth = \<lparr>pa_oauth = None, pa_issuer = None, pa_audience = None, pa_jwksUrl = None, pa_resource = None, pa_requiredScopes = None\<rparr>\<rparr>"

section \<open>Defaults\<close>

text \<open>\<open>home\<close> and \<open>tmp\<close> are \<open>os.homedir()\<close> and \<open>os.tmpdir()\<close>.\<close>

definition DEFAULT_POLICY :: "string \<Rightarrow> PolicyConfig" where
  "DEFAULT_POLICY tmp =
     \<lparr>cfg_mode = Enforce, allowRootLogin = False, allowRawSudo = False, allowDestructiveCommands = False, allowDestructiveFs = False,
      allowedHosts = [], commandAllow = [], commandDeny = [],
      cfg_pathAllowPrefixes = [''/tmp'', ''/var/tmp'', ''/home'', ''/Users''],
      cfg_pathDenyPrefixes = [''/etc/sudoers'', ''/etc/shadow'', ''/etc/passwd'', ''/boot'', ''/dev'', ''/proc''],
      cfg_localPathAllowPrefixes = [tmp], cfg_localPathDenyPrefixes = [],
      tunnelAllowBindHosts = [''127.0.0.1'', ''localhost'', ''::1''], tunnelDenyBindHosts = [''0.0.0.0'', ''::''],
      tunnelAllowRemoteHosts = [], tunnelDenyRemoteHosts = [], tunnelAllowPorts = [], tunnelDenyPorts = []\<rparr>"

definition DEFAULT_CONFIG :: "string \<Rightarrow> string \<Rightarrow> ServerConfig" where
  "DEFAULT_CONFIG home tmp =
     \<lparr>sv_maxSessions = 20, sv_sessionTtlMs = 900000, sv_cleanupIntervalMs = 10000, sv_commandTimeoutMs = 30000,
      sv_maxCommandOutputBytes = 1024 * 1024, sv_maxStreamChunks = 4096, sv_maxFileSize = 10 * 1024 * 1024,
      sv_maxFileWriteBytes = 10 * 1024 * 1024, sv_maxTransferBytes = 50 * 1024 * 1024, sv_debug = False,
      sv_rateLimit = \<lparr>rl_enabled = True, rl_maxRequests = 100, rl_windowMs = 60000\<rparr>,
      sv_security = \<lparr>se_allowRootLogin = False, se_hostKeyPolicy = Strict,
        se_knownHostsPath = path_join home ''.ssh/known_hosts'', se_allowedCiphers = []\<rparr>,
      sv_policy = DEFAULT_POLICY tmp,
      sv_http = \<lparr>hc_host = ''127.0.0.1'', hc_port = 3000, hc_trustProxy = False,
        hc_allowedOrigins = [''http://127.0.0.1'', ''http://localhost''], hc_bearerTokenFile = None, hc_publicUrl = None,
        hc_maxSessions = 20, hc_sessionIdleTtlMs = 900000, hc_maxRequestBodyBytes = 1024 * 1024, hc_enableLegacySse = False\<rparr>,
      sv_connector = \<lparr>cc_toolProfile = FullProfile, cc_credentialProvider = ProviderNone, cc_credentialCommand = None,
        cc_credentialCommandArgs = [], cc_credentialCommandTimeoutMs = 5000, cc_defaultUsername = None\<rparr>,
      sv_auth = \<lparr>au_oauth = False, au_issuer = None, au_audience = None, au_resource = None, au_jwksUrl = None,
        au_requiredScopes = [''mcp-ssh-tool.read'']\<rparr>\<rparr>"

section \<open>Values of variables\<close>

definition parseBoolean :: "string option \<Rightarrow> bool \<Rightarrow> bool" where
  "parseBoolean value fallback =
     (case value of None \<Rightarrow> fallback | Some v \<Rightarrow> toLowerCase v \<in> set [''1'', ''true'', ''yes'', ''on''])"

text \<open>\<open>Number.parseInt(value, 10)\<close>: white space, a sign, digits; what follows is ignored. \<open>None\<close> is \<open>NaN\<close>. A
  number beyond the range of a double is infinite.\<close>

definition parseInt10 :: "string \<Rightarrow> int option" where
  "parseInt10 s =
     (let t = trimStart s; minus = take 1 t = ''-''; u = (if minus \<or> take 1 t = ''+'' then drop 1 t else t);
          ds = takeWhile is_digit u in
      if ds = [] then None else Some (if minus then - int (digits_val ds) else int (digits_val ds)))"

definition isFinite :: "int \<Rightarrow> bool" where
  "isFinite n = (\<bar>n\<bar> < 2 ^ 1024 - 2 ^ 970)"

definition parseInteger :: "string option \<Rightarrow> int \<Rightarrow> int" where
  "parseInteger value fallback =
     (case value of None \<Rightarrow> fallback | Some v \<Rightarrow>
        (case parseInt10 v of None \<Rightarrow> fallback | Some n \<Rightarrow> if isFinite n then n else fallback))"

definition parseHostKeyPolicy :: "string option \<Rightarrow> HostKeyPolicy \<Rightarrow> HostKeyPolicy" where
  "parseHostKeyPolicy value fallback =
     (if value = Some ''strict'' then Strict else if value = Some ''accept-new'' then AcceptNew
      else if value = Some ''insecure'' then Insecure else fallback)"

definition parseCredentialProvider :: "string option \<Rightarrow> ConnectorCredentialProvider \<Rightarrow> ConnectorCredentialProvider" where
  "parseCredentialProvider value fallback =
     (if \<not> truthy value then fallback
      else or_else (find (\<lambda>p. Some (provider_name p) = value) CONNECTOR_CREDENTIAL_PROVIDERS) fallback)"

definition parseAuthMode :: "string option \<Rightarrow> bool \<Rightarrow> bool" where
  "parseAuthMode value fallback =
     (if value = Some ''oauth'' then True else if value = Some ''bearer'' then False else fallback)"

definition loadPolicyFile :: "(string \<Rightarrow> string + partial_policy) \<Rightarrow> string option \<Rightarrow> string + partial_policy" where
  "loadPolicyFile files filePath =
     (case filePath of
        None \<Rightarrow> Inr no_policy
      | Some p \<Rightarrow>
          if p = [] then Inr no_policy
          else (case files p of
            Inl message \<Rightarrow> Inl (''Invalid SSH_MCP_POLICY_FILE '' @ p @ '': '' @ message)
          | Inr policy \<Rightarrow> Inr policy))"

section \<open>Loading\<close>

text \<open>\<open>a ?? b\<close> of two optional values, \<open>parseList(v).length ? parseList(v) : fallback\<close>, and the values that are
  spread only when they are truthy.\<close>

definition coalesce :: "'a option \<Rightarrow> 'a option \<Rightarrow> 'a option" where
  "coalesce a b = (case a of None \<Rightarrow> b | Some x \<Rightarrow> Some x)"

definition list_or :: "string option \<Rightarrow> string list \<Rightarrow> string list" where
  "list_or value fallback = (if parseList value \<noteq> [] then parseList value else fallback)"

definition spread :: "string option \<Rightarrow> string option \<Rightarrow> string option" where
  "spread value old = (if truthy value then value else old)"

definition load_limits :: "process_env \<Rightarrow> ServerConfig \<Rightarrow> ServerConfig" where
  "load_limits env c =
     c\<lparr>sv_maxSessions := parseInteger (env ''SSH_MCP_MAX_SESSIONS'') (sv_maxSessions c),
       sv_sessionTtlMs := parseInteger (env ''SSH_MCP_SESSION_TTL'') (sv_sessionTtlMs c),
       sv_commandTimeoutMs := parseInteger (env ''SSH_MCP_COMMAND_TIMEOUT'') (sv_commandTimeoutMs c),
       sv_maxCommandOutputBytes := parseInteger (env ''SSH_MCP_MAX_COMMAND_OUTPUT_BYTES'') (sv_maxCommandOutputBytes c),
       sv_maxStreamChunks := parseInteger (env ''SSH_MCP_MAX_STREAM_CHUNKS'') (sv_maxStreamChunks c),
       sv_maxFileSize := parseInteger (env ''SSH_MCP_MAX_FILE_SIZE'') (sv_maxFileSize c),
       sv_maxFileWriteBytes := parseInteger (env ''SSH_MCP_MAX_FILE_WRITE_BYTES'') (sv_maxFileWriteBytes c),
       sv_maxTransferBytes := parseInteger (env ''SSH_MCP_MAX_TRANSFER_BYTES'') (sv_maxTransferBytes c),
       sv_debug := parseBoolean (env ''SSH_MCP_DEBUG'') (sv_debug c),
       sv_rateLimit :=
         \<lparr>rl_enabled = parseBoolean (env ''SSH_MCP_RATE_LIMIT'') (rl_enabled (sv_rateLimit c)),
          rl_maxRequests = parseInteger (env ''SSH_MCP_RATE_LIMIT_MAX'') (rl_maxRequests (sv_rateLimit c)),
          rl_windowMs = parseInteger (env ''SSH_MCP_RATE_LIMIT_WINDOW_MS'') (rl_windowMs (sv_rateLimit c))\<rparr>\<rparr>"

definition load_security :: "process_env \<Rightarrow> security_config \<Rightarrow> security_config" where
  "load_security env s =
     (let strictHostKeyChecking = coalesce (env ''STRICT_HOST_KEY_CHECKING'') (env ''SSH_MCP_STRICT_HOST_KEY'');
          hostKeyPolicy = (if strictHostKeyChecking \<noteq> None
            then (if parseBoolean strictHostKeyChecking True then Strict else Insecure) else se_hostKeyPolicy s) in
      \<lparr>se_allowRootLogin = parseBoolean (env ''SSH_MCP_ALLOW_ROOT_LOGIN'') (se_allowRootLogin s),
       se_hostKeyPolicy = parseHostKeyPolicy (env ''SSH_MCP_HOST_KEY_POLICY'') hostKeyPolicy,
       se_knownHostsPath = or_else (coalesce (env ''KNOWN_HOSTS_PATH'') (env ''SSH_MCP_KNOWN_HOSTS_PATH'')) (se_knownHostsPath s),
       se_allowedCiphers = parseList (env ''SSH_MCP_ALLOWED_CIPHERS'')\<rparr>)"

definition load_policy :: "process_env \<Rightarrow> bool \<Rightarrow> partial_policy \<Rightarrow> PolicyConfig \<Rightarrow> PolicyConfig" where
  "load_policy env rootLogin f p =
     \<lparr>cfg_mode = (if env ''SSH_MCP_POLICY_MODE'' = Some ''explain'' then Explain else or_else (pp_mode f) (cfg_mode p)),
      allowRootLogin = rootLogin,
      allowRawSudo = parseBoolean (env ''SSH_MCP_ALLOW_RAW_SUDO'') (or_else (pp_allowRawSudo f) (allowRawSudo p)),
      allowDestructiveCommands =
        parseBoolean (env ''SSH_MCP_ALLOW_DESTRUCTIVE_COMMANDS'') (or_else (pp_allowDestructiveCommands f) (allowDestructiveCommands p)),
      allowDestructiveFs = parseBoolean (env ''SSH_MCP_ALLOW_DESTRUCTIVE_FS'') (or_else (pp_allowDestructiveFs f) (allowDestructiveFs p)),
      allowedHosts = list_or (env ''SSH_MCP_ALLOWED_HOSTS'') (or_else (pp_allowedHosts f) (allowedHosts p)),
      commandAllow = list_or (env ''SSH_MCP_COMMAND_ALLOW'') (or_else (pp_commandAllow f) (commandAllow p)),
      commandDeny = list_or (env ''SSH_MCP_COMMAND_DENY'') (or_else (pp_commandDeny f) (commandDeny p)),
      cfg_pathAllowPrefixes =
        list_or (env ''SSH_MCP_PATH_ALLOW_PREFIXES'') (or_else (pp_pathAllowPrefixes f) (cfg_pathAllowPrefixes p)),
      cfg_pathDenyPrefixes =
        list_or (env ''SSH_MCP_PATH_DENY_PREFIXES'') (or_else (pp_pathDenyPrefixes f) (cfg_pathDenyPrefixes p)),
      cfg_localPathAllowPrefixes =
        list_or (env ''SSH_MCP_LOCAL_PATH_ALLOW_PREFIXES'') (or_else (pp_localPathAllowPrefixes f) (cfg_localPathAllowPrefixes p)),
      cfg_localPathDenyPrefixes =
        list_or (env ''SSH_MCP_LOCAL_PATH_DENY_PREFIXES'') (or_else (pp_localPathDenyPrefixes f) (cfg_localPathDenyPrefixes p)),
      tunnelAllowBindHosts =
        list_or (env ''SSH_MCP_TUNNEL_ALLOW_BIND_HOSTS'') (or_else (pp_tunnelAllowBindHosts f) (tunnelAllowBindHosts p)),
      tunnelDenyBindHosts =
        list_or (env ''SSH_MCP_TUNNEL_DENY_BIND_HOSTS'') (or_else (pp_tunnelDenyBindHosts f) (tunnelDenyBindHosts p)),
      tunnelAllowRemoteHosts =
        list_or (env ''SSH_MCP_TUNNEL_ALLOW_REMOTE_HOSTS'') (or_else (pp_tunnelAllowRemoteHosts f) (tunnelAllowRemoteHosts p)),
      tunnelDenyRemoteHosts =
        list_or (env ''SSH_MCP_TUNNEL_DENY_REMOTE_HOSTS'') (or_else (pp_tunnelDenyRemoteHosts f) (tunnelDenyRemoteHosts p)),
      tunnelAllowPorts = list_or (env ''SSH_MCP_TUNNEL_ALLOW_PORTS'') (or_else (pp_tunnelAllowPorts f) (tunnelAllowPorts p)),
      tunnelDenyPorts = list_or (env ''SSH_MCP_TUNNEL_DENY_PORTS'') (or_else (pp_tunnelDenyPorts f) (tunnelDenyPorts p))\<rparr>"

definition load_http :: "process_env \<Rightarrow> http_config \<Rightarrow> http_config" where
  "load_http env h =
     h\<lparr>hc_host := or_else (env ''SSH_MCP_HTTP_HOST'') (hc_host h),
       hc_port := parseInteger (coalesce (env ''PORT'') (env ''SSH_MCP_HTTP_PORT'')) (hc_port h),
       hc_allowedOrigins := list_or (env ''SSH_MCP_HTTP_ALLOWED_ORIGINS'') (hc_allowedOrigins h),
       hc_bearerTokenFile := spread (coalesce (env ''SSH_MCP_HTTP_BEARER_TOKEN_FILE'') (hc_bearerTokenFile h)) (hc_bearerTokenFile h),
       hc_enableLegacySse := parseBoolean (env ''SSH_MCP_ENABLE_LEGACY_SSE'') (hc_enableLegacySse h),
       hc_maxRequestBodyBytes := parseInteger (env ''SSH_MCP_HTTP_MAX_REQUEST_BODY_BYTES'') (hc_maxRequestBodyBytes h),
       hc_maxSessions := parseInteger (env ''SSH_MCP_HTTP_MAX_SESSIONS'') (hc_maxSessions h),
       hc_sessionIdleTtlMs := parseInteger (env ''SSH_MCP_HTTP_SESSION_IDLE_TTL_MS'') (hc_sessionIdleTtlMs h),
       hc_trustProxy := parseBoolean (env ''SSH_MCP_HTTP_TRUST_PROXY'') (hc_trustProxy h),
       hc_publicUrl := spread (coalesce (env ''SSH_MCP_HTTP_PUBLIC_URL'') (hc_publicUrl h)) (hc_publicUrl h)\<rparr>"

definition load_connector :: "process_env \<Rightarrow> connector_config \<Rightarrow> connector_config" where
  "load_connector env c =
     \<lparr>cc_toolProfile = parseToolProfile (coalesce (env ''SSH_MCP_TOOL_PROFILE'') (env ''SSH_MCP_CONNECTOR_PROFILE'')) (cc_toolProfile c),
      cc_credentialProvider = parseCredentialProvider (env ''SSH_MCP_CONNECTOR_CREDENTIAL_PROVIDER'') (cc_credentialProvider c),
      cc_credentialCommand =
        spread (coalesce (env ''SSH_MCP_CONNECTOR_CREDENTIAL_COMMAND'') (cc_credentialCommand c)) (cc_credentialCommand c),
      cc_credentialCommandArgs = list_or (env ''SSH_MCP_CONNECTOR_CREDENTIAL_COMMAND_ARGS'') (cc_credentialCommandArgs c),
      cc_credentialCommandTimeoutMs =
        parseInteger (env ''SSH_MCP_CONNECTOR_CREDENTIAL_COMMAND_TIMEOUT_MS'') (cc_credentialCommandTimeoutMs c),
      cc_defaultUsername = spread (coalesce (env ''SSH_MCP_CONNECTOR_DEFAULT_USERNAME'') (cc_defaultUsername c)) (cc_defaultUsername c)\<rparr>"

definition load_auth :: "process_env \<Rightarrow> auth_config \<Rightarrow> auth_config" where
  "load_auth env a =
     \<lparr>au_oauth = parseAuthMode (env ''SSH_MCP_HTTP_AUTH_MODE'') (au_oauth a),
      au_issuer = spread (coalesce (env ''SSH_MCP_OAUTH_ISSUER'') (au_issuer a)) (au_issuer a),
      au_audience = spread (coalesce (env ''SSH_MCP_OAUTH_AUDIENCE'') (au_audience a)) (au_audience a),
      au_resource = spread (coalesce (env ''SSH_MCP_OAUTH_RESOURCE'') (au_resource a)) (au_resource a),
      au_jwksUrl = spread (coalesce (env ''SSH_MCP_OAUTH_JWKS_URL'') (au_jwksUrl a)) (au_jwksUrl a),
      au_requiredScopes = list_or (env ''SSH_MCP_OAUTH_REQUIRED_SCOPES'') (au_requiredScopes a)\<rparr>"

section \<open>Overrides and updates\<close>

definition override_security :: "partial_security \<Rightarrow> security_config \<Rightarrow> security_config" where
  "override_security o' s =
     \<lparr>se_allowRootLogin = or_else (ps_allowRootLogin o') (se_allowRootLogin s),
      se_hostKeyPolicy = or_else (ps_hostKeyPolicy o') (se_hostKeyPolicy s),
      se_knownHostsPath = or_else (ps_knownHostsPath o') (se_knownHostsPath s),
      se_allowedCiphers = or_else (ps_allowedCiphers o') (se_allowedCiphers s)\<rparr>"

definition override_policy :: "partial_policy \<Rightarrow> bool \<Rightarrow> PolicyConfig \<Rightarrow> PolicyConfig" where
  "override_policy o' rootLogin p =
     \<lparr>cfg_mode = or_else (pp_mode o') (cfg_mode p),
      allowRootLogin = or_else (pp_allowRootLogin o') rootLogin,
      allowRawSudo = or_else (pp_allowRawSudo o') (allowRawSudo p),
      allowDestructiveCommands = or_else (pp_allowDestructiveCommands o') (allowDestructiveCommands p),
      allowDestructiveFs = or_else (pp_allowDestructiveFs o') (allowDestructiveFs p),
      allowedHosts = or_else (pp_allowedHosts o') (allowedHosts p),
      commandAllow = or_else (pp_commandAllow o') (commandAllow p),
      commandDeny = or_else (pp_commandDeny o') (commandDeny p),
      cfg_pathAllowPrefixes = or_else (pp_pathAllowPrefixes o') (cfg_pathAllowPrefixes p),
      cfg_pathDenyPrefixes = or_else (pp_pathDenyPrefixes o') (cfg_pathDenyPrefixes p),
      cfg_localPathAllowPrefixes = or_else (pp_localPathAllowPrefixes o') (cfg_localPathAllowPrefixes p),
      cfg_localPathDenyPrefixes = or_else (pp_localPathDenyPrefixes o') (cfg_localPathDenyPrefixes p),
      tunnelAllowBindHosts = or_else (pp_tunnelAllowBindHosts o') (tunnelAllowBindHosts p),
      tunnelDenyBindHosts = or_else (pp_tunnelDenyBindHosts o') (tunnelDenyBindHosts p),
      tunnelAllowRemoteHosts = or_else (pp_tunnelAllowRemoteHosts o') (tunnelAllowRemoteHosts p),
      tunnelDenyRemoteHosts = or_else (pp_tunnelDenyRemoteHosts o') (tunnelDenyRemoteHosts p),
      tunnelAllowPorts = or_else (pp_tunnelAllowPorts o') (tunnelAllowPorts p),
      tunnelDenyPorts = or_else (pp_tunnelDenyPorts o') (tunnelDenyPorts p)\<rparr>"

definition override_http :: "partial_http \<Rightarrow> http_config \<Rightarrow> http_config" where
  "override_http o' h =
     \<lparr>hc_host = or_else (ph_host o') (hc_host h), hc_port = or_else (ph_port o') (hc_port h),
      hc_trustProxy = or_else (ph_trustProxy o') (hc_trustProxy h),
      hc_allowedOrigins = or_else (ph_allowedOrigins o') (hc_allowedOrigins h),
      hc_bearerTokenFile = coalesce (ph_bearerTokenFile o') (hc_bearerTokenFile h),
      hc_publicUrl = coalesce (ph_publicUrl o') (hc_publicUrl h),
      hc_maxSessions = or_else (ph_maxSessions o') (hc_maxSessions h),
      hc_sessionIdleTtlMs = or_else (ph_sessionIdleTtlMs o') (hc_sessionIdleTtlMs h),
      hc_maxRequestBodyBytes = or_else (ph_maxRequestBodyBytes o') (hc_maxRequestBodyBytes h),
      hc_enableLegacySse = or_else (ph_enableLegacySse o') (hc_enableLegacySse h)\<rparr>"

definition override_connector :: "partial_connector \<Rightarrow> connector_config \<Rightarrow> connector_config" where
  "override_connector o' c =
     \<lparr>cc_toolProfile = or_else (pc_toolProfile o') (cc_toolProfile c),
      cc_credentialProvider = or_else (pc_credentialProvider o') (cc_credentialProvider c),
      cc_credentialCommand = coalesce (pc_credentialCommand o') (cc_credentialCommand c),
      cc_credentialCommandArgs = or_else (pc_credentialCommandArgs o') (cc_credentialCommandArgs c),
      cc_credentialCommandTimeoutMs = or_else (pc_credentialCommandTimeoutMs o') (cc_credentialCommandTimeoutMs c),
      cc_defaultUsername = coalesce (pc_defaultUsername o') (cc_defaultUsername c)\<rparr>"

definition override_auth :: "partial_auth \<Rightarrow> auth_config \<Rightarrow> auth_config" where
  "override_auth o' a =
     \<lparr>au_oauth = or_else (pa_oauth o') (au_oauth a),
      au_issuer = coalesce (pa_issuer o') (au_issuer a), au_audience = coalesce (pa_audience o') (au_audience a),
      au_resource = coalesce (pa_resource o') (au_resource a), au_jwksUrl = coalesce (pa_jwksUrl o') (au_jwksUrl a),
      au_requiredScopes = or_else (pa_requiredScopes o') (au_requiredScopes a)\<rparr>"

definition apply_overrides :: "partial_config \<Rightarrow> ServerConfig \<Rightarrow> ServerConfig" where
  "apply_overrides o' c =
     (let security = override_security (pv_security o') (sv_security c) in
      \<lparr>sv_maxSessions = or_else (pv_maxSessions o') (sv_maxSessions c),
       sv_sessionTtlMs = or_else (pv_sessionTtlMs o') (sv_sessionTtlMs c),
       sv_cleanupIntervalMs = or_else (pv_cleanupIntervalMs o') (sv_cleanupIntervalMs c),
       sv_commandTimeoutMs = or_else (pv_commandTimeoutMs o') (sv_commandTimeoutMs c),
       sv_maxCommandOutputBytes = or_else (pv_maxCommandOutputBytes o') (sv_maxCommandOutputBytes c),
       sv_maxStreamChunks = or_else (pv_maxStreamChunks o') (sv_maxStreamChunks c),
       sv_maxFileSize = or_else (pv_maxFileSize o') (sv_maxFileSize c),
       sv_maxFileWriteBytes = or_else (pv_maxFileWriteBytes o') (sv_maxFileWriteBytes c),
       sv_maxTransferBytes = or_else (pv_maxTransferBytes o') (sv_maxTransferBytes c),
       sv_debug = or_else (pv_debug o') (sv_debug c),
       sv_rateLimit =
         \<lparr>rl_enabled = or_else (pv_rl_enabled o') (rl_enabled (sv_rateLimit c)),
          rl_maxRequests = or_else (pv_rl_maxRequests o') (rl_maxRequests (sv_rateLimit c)),
          rl_windowMs = or_else (pv_rl_windowMs o') (rl_windowMs (sv_rateLimit c))\<rparr>,
       sv_security = security,
       sv_policy = override_policy (pv_policy o') (se_allowRootLogin security) (sv_policy c),
       sv_http = override_http (pv_http o') (sv_http c),
       sv_connector = override_connector (pv_connector o') (sv_connector c),
       sv_auth = override_auth (pv_auth o') (sv_auth c)\<rparr>)"

text \<open>\<open>loadConfig\<close>: the defaults, the environment, the policy file, the overrides of the caller.\<close>

definition load_environment :: "process_env \<Rightarrow> partial_policy \<Rightarrow> ServerConfig \<Rightarrow> ServerConfig" where
  "load_environment env filePolicy c =
     (let security = load_security env (sv_security c) in
      (load_limits env c)
        \<lparr>sv_security := security, sv_policy := load_policy env (se_allowRootLogin security) filePolicy (sv_policy c),
         sv_http := load_http env (sv_http c), sv_connector := load_connector env (sv_connector c),
         sv_auth := load_auth env (sv_auth c)\<rparr>)"

definition loadConfig ::
  "string \<Rightarrow> string \<Rightarrow> process_env \<Rightarrow> (string \<Rightarrow> string + partial_policy) \<Rightarrow> partial_config \<Rightarrow> string + ServerConfig" where
  "loadConfig home tmp env files overrides =
     rbind (loadPolicyFile files (env ''SSH_MCP_POLICY_FILE'')) (\<lambda>filePolicy.
       Inr (apply_overrides overrides (load_environment env filePolicy (DEFAULT_CONFIG home tmp))))"

text \<open>\<open>update\<close> does to the current configuration what the constructor does last.\<close>

definition config_update :: "partial_config \<Rightarrow> ServerConfig \<Rightarrow> ServerConfig" where
  "config_update updates c = apply_overrides updates c"

section \<open>The remote configuration\<close>

record remote_settings =
  rs_enabled :: bool
  rs_publicBaseUrl :: string
  rs_mcpResourceUrl :: string
  rs_databaseUrl :: string
  rs_githubClientId :: "string option"
  rs_githubClientSecret :: "string option"
  rs_githubCallbackUrl :: string
  rs_allowAllUsers :: bool
  rs_allowedGitHubLogins :: "string list"
  rs_allowedGitHubIds :: "string list"
  rs_accessTokenTtlSeconds :: int
  rs_authCodeTtlSeconds :: int
  rs_enrollmentTokenTtlSeconds :: int
  rs_controlPlaneSigningKeyPath :: string
  rs_jwtSigningKeyPath :: string
  rs_agentWsPath :: string
  rs_maxActionTimeoutSeconds :: int
  rs_maxOutputBytes :: int
  rs_maxOAuthClients :: int

definition stripTrailingSlash :: "string \<Rightarrow> string" where
  "stripTrailingSlash value = rev (dropWhile (\<lambda>c. c = CHR ''/'') (rev value))"

definition loadRemoteConfig :: "process_env \<Rightarrow> remote_settings" where
  "loadRemoteConfig env =
     (let var = (\<lambda>a b d. or_else (coalesce (env a) (env b)) d);
          publicBaseUrl = stripTrailingSlash (var ''PUBLIC_BASE_URL'' ''SSHAUTOMATOR_PUBLIC_BASE_URL'' ''http://localhost:3000'') in
      \<lparr>rs_enabled = parseBoolean (env ''SSHAUTOMATOR_REMOTE_AGENT_CONTROL_PLANE'') False,
       rs_publicBaseUrl = publicBaseUrl,
       rs_mcpResourceUrl = var ''MCP_RESOURCE_URL'' ''SSHAUTOMATOR_MCP_RESOURCE_URL'' (publicBaseUrl @ ''/mcp''),
       rs_databaseUrl = var ''DATABASE_URL'' ''SSHAUTOMATOR_DATABASE_URL'' ''file:./data/sshautomator.db'',
       rs_githubClientId = env ''GITHUB_CLIENT_ID'',
       rs_githubClientSecret = env ''GITHUB_CLIENT_SECRET'',
       rs_githubCallbackUrl =
         var ''GITHUB_CALLBACK_URL'' ''SSHAUTOMATOR_GITHUB_CALLBACK_URL'' (publicBaseUrl @ ''/oauth/callback/github''),
       rs_allowAllUsers = parseBoolean (env ''AUTH_ALLOW_ALL_USERS'') False,
       rs_allowedGitHubLogins = parseList (env ''AUTH_ALLOWED_GITHUB_LOGINS''),
       rs_allowedGitHubIds = parseList (env ''AUTH_ALLOWED_GITHUB_IDS''),
       rs_accessTokenTtlSeconds = parseInteger (env ''ACCESS_TOKEN_TTL_SECONDS'') 900,
       rs_authCodeTtlSeconds = parseInteger (env ''AUTH_CODE_TTL_SECONDS'') 300,
       rs_enrollmentTokenTtlSeconds = parseInteger (env ''ENROLLMENT_TOKEN_TTL_SECONDS'') 600,
       rs_controlPlaneSigningKeyPath = or_else (env ''CONTROL_PLANE_SIGNING_KEY_PATH'') (path_join ''data'' ''control-plane-ed25519.json''),
       rs_jwtSigningKeyPath = or_else (env ''JWT_SIGNING_KEY_PATH'') (path_join ''data'' ''jwt-ed25519.json''),
       rs_agentWsPath = or_else (env ''AGENT_WS_PATH'') ''/api/agents/connect'',
       rs_maxActionTimeoutSeconds = parseInteger (env ''MAX_ACTION_TIMEOUT_SECONDS'') 120,
       rs_maxOutputBytes = parseInteger (env ''MAX_OUTPUT_BYTES'') 200000,
       rs_maxOAuthClients = parseInteger (env ''OAUTH_DCR_MAX_CLIENTS'') 100\<rparr>)"

text \<open>The configuration that the control plane runs with: these settings and the keys read from the two files.\<close>

definition remote_config :: "string \<Rightarrow> string \<Rightarrow> remote_settings \<Rightarrow> RemoteConfig" where
  "remote_config privateKey publicKey s =
     \<lparr>publicBaseUrl = rs_publicBaseUrl s, mcpResourceUrl = rs_mcpResourceUrl s, githubClientId = rs_githubClientId s,
      githubClientSecret = rs_githubClientSecret s, allowAllUsers = rs_allowAllUsers s,
      allowedGitHubLogins = rs_allowedGitHubLogins s, allowedGitHubIds = rs_allowedGitHubIds s,
      accessTokenTtlSeconds = rs_accessTokenTtlSeconds s, authCodeTtlSeconds = rs_authCodeTtlSeconds s,
      enrollmentTokenTtlSeconds = rs_enrollmentTokenTtlSeconds s, agentWsPath = rs_agentWsPath s,
      cfg_maxActionTimeoutSeconds = rs_maxActionTimeoutSeconds s, cfg_maxOutputBytes = rs_maxOutputBytes s,
      maxOAuthClients = rs_maxOAuthClients s, cp_privateKey = privateKey, cp_publicKey = publicKey\<rparr>"

section \<open>Values\<close>

lemma is_digit_ws: "is_digit c \<Longrightarrow> \<not> is_ws c"
  by (auto simp: is_digit_def is_ws_def Let_def)

lemma takeWhile_digits:
  assumes "rest = [] \<or> \<not> is_digit (hd rest)"
  shows "takeWhile is_digit (show_nat n @ rest) = show_nat n"
proof -
  have "takeWhile is_digit rest = []" using assms by (cases rest) auto
  then show ?thesis using show_nat_digits [of n] by (simp add: takeWhile_append2 list_all_iff)
qed

lemma show_nat_Cons: "\<exists>d ds. show_nat n = d # ds \<and> is_digit d"
  using show_nat_digits [of n] show_nat_nonempty [of n] by (cases "show_nat n") auto

lemma trimStart_append: "list_all is_ws ws \<Longrightarrow> trimStart (ws @ s) = trimStart s"
  by (induction ws) (auto simp: trimStart_def)

text \<open>What a number prints is what is read back, with white space before it and other text after it.\<close>

lemma parseInt10_show:
  assumes ws: "list_all is_ws ws" and rest: "rest = [] \<or> \<not> is_digit (hd rest)"
  shows "parseInt10 (ws @ show_int n @ rest) = Some n"
proof (cases "n < 0")
  case True
  let ?t = "''-'' @ show_nat (nat (- n)) @ rest"
  have "trimStart (ws @ ?t) = ?t" unfolding trimStart_append [OF ws] by (simp add: trimStart_def is_ws_def)
  then show ?thesis using True by (simp add: parseInt10_def show_int_def Let_def takeWhile_digits [OF rest] digits_val_show_nat)
next
  case False
  let ?t = "show_nat (nat n) @ rest"
  obtain d ds where d: "show_nat (nat n) = d # ds" "is_digit d" using show_nat_Cons by blast
  then have "take 1 ?t \<noteq> ''-''" "take 1 ?t \<noteq> ''+''" by (auto simp: is_digit_def)
  moreover have "trimStart (ws @ ?t) = ?t" unfolding trimStart_append [OF ws] using d by (simp add: trimStart_def is_digit_ws)
  ultimately show ?thesis
    using False by (simp add: parseInt10_def show_int_def Let_def takeWhile_digits [OF rest] digits_val_show_nat del: One_nat_def take_append)
qed

definition entry_ok :: "string \<Rightarrow> bool" where
  "entry_ok w \<longleftrightarrow> w \<noteq> [] \<and> trim w = w \<and> CHR '','' \<notin> set w \<and> CHR 0x0A \<notin> set w"

lemma split_any_no_sep: "w \<in> set (split_any cs s) \<Longrightarrow> c \<in> cs \<Longrightarrow> c \<notin> set w"
  by (induction s arbitrary: w) (auto split: list.splits if_splits)

lemma set_trim: "set (trim w) \<subseteq> set w"
  unfolding trim_def by (auto dest!: set_dropWhileD)

lemma parseList_ok: "list_all entry_ok (parseList v)"
  using set_trim by (auto simp: parseList_def list_all_iff entry_ok_def dest: split_any_no_sep)

lemma list_or_ok: "list_all entry_ok d \<Longrightarrow> list_all entry_ok (list_or v d)"
  by (simp add: list_or_def parseList_ok)

lemma parseList_None [simp]: "parseList None = []"
  by (simp add: parseList_def)

lemma env_None [simp]:
  "parseBoolean None b = b" "parseInteger None n = n" "parseHostKeyPolicy None k = k" "parseCredentialProvider None p = p"
  "parseAuthMode None m = m" "parseToolProfile None t = t" "list_or None l = l" "spread v v = v" "coalesce None w = w" "coalesce (Some x) w = Some x"
  by (auto simp: parseBoolean_def parseInteger_def parseHostKeyPolicy_def parseCredentialProvider_def parseAuthMode_def
      parseToolProfile_def list_or_def spread_def coalesce_def)

lemmas load_defs = load_environment_def load_limits_def load_security_def load_policy_def load_http_def load_connector_def
  load_auth_def Let_def

lemmas override_defs = apply_overrides_def override_security_def override_policy_def override_http_def override_connector_def
  override_auth_def Let_def

section \<open>What a loaded configuration satisfies\<close>

text \<open>Without variables, policy file and overrides the configuration is the default one, whatever the files contain.\<close>
theorem loadConfig_defaults: "loadConfig home tmp (\<lambda>_. None) files no_overrides = Inr (DEFAULT_CONFIG home tmp)"
  by (simp add: loadConfig_def loadPolicyFile_def load_defs override_defs no_overrides_def no_policy_def DEFAULT_CONFIG_def DEFAULT_POLICY_def)

text \<open>A policy file that is named and cannot be read or parsed stops the server: there is no configuration, whatever the
  variables and the overrides are; and that is the only error.\<close>
theorem loadConfig_fails_closed:
  "isl (loadConfig home tmp env files overrides) \<longleftrightarrow>
     truthy (env ''SSH_MCP_POLICY_FILE'') \<and> isl (files (or_else (env ''SSH_MCP_POLICY_FILE'') ''''))"
  by (cases "env ''SSH_MCP_POLICY_FILE''") (auto simp: loadConfig_def loadPolicyFile_def split: sum.splits)

text \<open>The policy allows root logins exactly when the SSH layer does, unless the caller overrides the policy.\<close>

lemma loaded_root_login:
  assumes "loadConfig home tmp env files overrides = Inr c" and "pp_allowRootLogin (pv_policy overrides) = None"
  shows "allowRootLogin (sv_policy c) = se_allowRootLogin (sv_security c) \<and>
    se_allowRootLogin (sv_security c) =
      or_else (ps_allowRootLogin (pv_security overrides)) (parseBoolean (env ''SSH_MCP_ALLOW_ROOT_LOGIN'') False)"
proof -
  obtain f where "c = apply_overrides overrides (load_environment env f (DEFAULT_CONFIG home tmp))"
    using assms(1) by (cases "loadPolicyFile files (env ''SSH_MCP_POLICY_FILE'')") (auto simp: loadConfig_def)
  then show ?thesis using assms(2) by (simp add: load_defs override_defs DEFAULT_CONFIG_def)
qed

text \<open>No policy file enables root logins. Unless the caller overrides it, a loaded policy allows them only where the SSH layer
  does, and that only when the caller's overrides say so or the variable \<open>SSH_MCP_ALLOW_ROOT_LOGIN\<close> is set to a true value;
  what the policy file says about root logins has no effect, in either direction.\<close>
theorem loadConfig_root_login:
  assumes "loadConfig home tmp env files overrides = Inr c" and "pp_allowRootLogin (pv_policy overrides) = None"
    and "allowRootLogin (sv_policy c)"
  shows "se_allowRootLogin (sv_security c) \<and>
    (ps_allowRootLogin (pv_security overrides) = Some True \<or>
     (\<exists>v. env ''SSH_MCP_ALLOW_ROOT_LOGIN'' = Some v \<and> toLowerCase v \<in> {''1'', ''true'', ''yes'', ''on''}))"
  using loaded_root_login [OF assms(1,2)] assms(3)
  by (cases "ps_allowRootLogin (pv_security overrides)") (auto simp: parseBoolean_def split: option.splits)

theorem loadConfig_root_login_witness:
  "\<exists>c. loadConfig ''/h'' ''/tmp'' [''SSH_MCP_ALLOW_ROOT_LOGIN'' \<mapsto> ''YES''] (\<lambda>_. Inl ''no file'') no_overrides = Inr c \<and> se_allowRootLogin (sv_security c)"
proof -
  let ?env = "[''SSH_MCP_ALLOW_ROOT_LOGIN'' \<mapsto> ''YES''] :: process_env"
  have yes: "toLowerCase ''YES'' = ''yes''" by code_simp
  have none: "pp_allowRootLogin (pv_policy no_overrides) = None" by (simp add: no_overrides_def no_policy_def)
  obtain c where c: "loadConfig ''/h'' ''/tmp'' ?env (\<lambda>_. Inl ''no file'') no_overrides = Inr c"
    by (simp add: loadConfig_def loadPolicyFile_def)
  have "allowRootLogin (sv_policy c)"
    using loaded_root_login [OF c none] yes by (simp add: parseBoolean_def no_overrides_def)
  then show ?thesis using c loadConfig_root_login [OF c none] by blast
qed

text \<open>The mode of the policy. With the variable \<open>SSH_MCP_POLICY_MODE\<close> set to \<open>enforce\<close>, a policy file that says
  \<open>explain\<close> still wins, and the server only explains what it would deny: the variable is looked at for
  \<open>explain\<close> alone.\<close>
theorem policy_mode_enforce_ignored:
  "\<exists>c. loadConfig home tmp [''SSH_MCP_POLICY_MODE'' \<mapsto> ''enforce'', ''SSH_MCP_POLICY_FILE'' \<mapsto> ''/p'']
       (\<lambda>_. Inr (no_policy\<lparr>pp_mode := Some Explain\<rparr>)) no_overrides = Inr c \<and> cfg_mode (sv_policy c) = Explain"
  by (simp add: loadConfig_def loadPolicyFile_def load_defs override_defs no_overrides_def no_policy_def)

lemma spread_coalesce [simp]: "spread (coalesce v None) None = spread v None"
  by (cases v) auto

lemma loaded_sections:
  assumes "loadConfig home tmp env files no_overrides = Inr c"
  shows "\<exists>f. loadPolicyFile files (env ''SSH_MCP_POLICY_FILE'') = Inr f \<and>
    hc_host (sv_http c) = or_else (env ''SSH_MCP_HTTP_HOST'') ''127.0.0.1'' \<and>
    hc_publicUrl (sv_http c) = spread (env ''SSH_MCP_HTTP_PUBLIC_URL'') None \<and>
    cc_toolProfile (sv_connector c) =
      parseToolProfile (coalesce (env ''SSH_MCP_TOOL_PROFILE'') (env ''SSH_MCP_CONNECTOR_PROFILE'')) FullProfile \<and>
    allowedHosts (sv_policy c) = list_or (env ''SSH_MCP_ALLOWED_HOSTS'') (or_else (pp_allowedHosts f) []) \<and>
    au_oauth (sv_auth c) = parseAuthMode (env ''SSH_MCP_HTTP_AUTH_MODE'') False \<and>
    au_issuer (sv_auth c) = spread (env ''SSH_MCP_OAUTH_ISSUER'') None \<and>
    au_jwksUrl (sv_auth c) = spread (env ''SSH_MCP_OAUTH_JWKS_URL'') None"
proof (cases "loadPolicyFile files (env ''SSH_MCP_POLICY_FILE'')")
  case (Inr f)
  then have "c = apply_overrides no_overrides (load_environment env f (DEFAULT_CONFIG home tmp))"
    using assms by (simp add: loadConfig_def)
  then show ?thesis
    using Inr by (simp add: load_defs override_defs no_overrides_def no_policy_def DEFAULT_CONFIG_def DEFAULT_POLICY_def)
qed (use assms in \<open>simp add: loadConfig_def\<close>)

lemma parseToolProfile_not_full:
  "parseToolProfile v FullProfile \<noteq> FullProfile \<Longrightarrow> \<exists>p. v = Some (toolProfile_name p) \<and> p \<noteq> FullProfile"
  by (auto simp: parseToolProfile_def find_Some_iff or_else_def split: option.splits)

lemma policy_file_hosts:
  assumes "loadPolicyFile files v = Inr f" and "or_else (pp_allowedHosts f) [] \<noteq> []"
  shows "\<exists>path g hosts. v = Some path \<and> files path = Inr g \<and> pp_allowedHosts g = Some hosts \<and> hosts \<noteq> []"
  using assms by (auto simp: loadPolicyFile_def no_policy_def or_else_def split: option.splits if_splits sum.splits)



section \<open>Lists and numbers\<close>

text \<open>A configuration is well formed when the entries of its lists are trimmed, not empty and without separators, and its numbers finite.\<close>

definition lists_ok :: "ServerConfig \<Rightarrow> bool" where
  "lists_ok c \<longleftrightarrow>
     list_all entry_ok (se_allowedCiphers (sv_security c) @ allowedHosts (sv_policy c) @ commandAllow (sv_policy c) @
       commandDeny (sv_policy c) @ cfg_pathAllowPrefixes (sv_policy c) @ cfg_pathDenyPrefixes (sv_policy c) @
       cfg_localPathAllowPrefixes (sv_policy c) @ cfg_localPathDenyPrefixes (sv_policy c) @ tunnelAllowBindHosts (sv_policy c) @
       tunnelDenyBindHosts (sv_policy c) @ tunnelAllowRemoteHosts (sv_policy c) @ tunnelDenyRemoteHosts (sv_policy c) @
       tunnelAllowPorts (sv_policy c) @ tunnelDenyPorts (sv_policy c) @ hc_allowedOrigins (sv_http c) @
       cc_credentialCommandArgs (sv_connector c) @ au_requiredScopes (sv_auth c))"

definition numbers_ok :: "ServerConfig \<Rightarrow> bool" where
  "numbers_ok c \<longleftrightarrow>
     list_all isFinite [sv_maxSessions c, sv_sessionTtlMs c, sv_cleanupIntervalMs c, sv_commandTimeoutMs c, sv_maxCommandOutputBytes c,
       sv_maxStreamChunks c, sv_maxFileSize c, sv_maxFileWriteBytes c, sv_maxTransferBytes c, rl_maxRequests (sv_rateLimit c),
       rl_windowMs (sv_rateLimit c), hc_port (sv_http c), hc_maxSessions (sv_http c), hc_sessionIdleTtlMs (sv_http c),
       hc_maxRequestBodyBytes (sv_http c), cc_credentialCommandTimeoutMs (sv_connector c)]"

lemma parseInteger_finite: "isFinite d \<Longrightarrow> isFinite (parseInteger v d)"
  by (auto simp: parseInteger_def split: option.splits)

lemma isFinite_small: "\<bar>n\<bar> < 1000000000 \<Longrightarrow> isFinite n"
  by (simp add: isFinite_def)

lemma entry_ok_defaults:
  "list_all entry_ok [''127.0.0.1'', ''localhost'', ''::1'', ''0.0.0.0'', ''::'', ''/tmp'', ''/var/tmp'', ''/home'', ''/Users'', ''/etc/sudoers'',
     ''/etc/shadow'', ''/etc/passwd'', ''/boot'', ''/dev'', ''/proc'', ''http://127.0.0.1'', ''http://localhost'', ''mcp-ssh-tool.read'']"
  unfolding entry_ok_def by code_simp

text \<open>C29: Whatever the variables hold, a configuration loaded from them is well formed: no list has an empty entry, one with white
  space around it or one with a separator in it (so no command pattern with a comma comes from the environment), and no
  number is infinite or missing.\<close>
theorem loadConfig_well_formed:
  assumes "env ''SSH_MCP_POLICY_FILE'' = None" and "entry_ok tmp"
  shows "\<exists>c. loadConfig home tmp env files no_overrides = Inr c \<and> lists_ok c \<and> numbers_ok c"
proof -
  let ?c = "apply_overrides no_overrides (load_environment env no_policy (DEFAULT_CONFIG home tmp))"
  have "loadConfig home tmp env files no_overrides = Inr ?c" by (simp add: loadConfig_def loadPolicyFile_def assms(1))
  moreover have "lists_ok ?c"
    using assms(2) entry_ok_defaults
    by (simp add: lists_ok_def load_defs override_defs no_overrides_def no_policy_def DEFAULT_CONFIG_def DEFAULT_POLICY_def parseList_ok list_or_ok)
  moreover have "numbers_ok ?c"
    by (simp add: numbers_ok_def load_defs override_defs no_overrides_def DEFAULT_CONFIG_def parseInteger_finite isFinite_small)
  ultimately show ?thesis by blast
qed

theorem loadConfig_well_formed_witness:
  "\<exists>c. loadConfig ''/h'' ''/tmp'' [''SSH_MCP_ALLOWED_HOSTS'' \<mapsto> '' a, ,b ''] (\<lambda>_. Inl ''no file'') no_overrides = Inr c \<and>
     lists_ok c \<and> allowedHosts (sv_policy c) = [''a'', ''b'']"
proof -
  have "parseList (Some '' a, ,b '') = [''a'', ''b'']" by code_simp
  moreover have "entry_ok ''/tmp''" using entry_ok_defaults by simp
  then obtain c where c: "loadConfig ''/h'' ''/tmp'' [''SSH_MCP_ALLOWED_HOSTS'' \<mapsto> '' a, ,b ''] (\<lambda>_. Inl ''no file'') no_overrides = Inr c"
      "lists_ok c"
    using loadConfig_well_formed [of "[''SSH_MCP_ALLOWED_HOSTS'' \<mapsto> '' a, ,b '']" "''/tmp''" "''/h''" "\<lambda>_. Inl ''no file''"] by auto
  ultimately have "allowedHosts (sv_policy c) = [''a'', ''b'']" using loaded_sections [OF c(1)] by (auto simp: list_or_def)
  then show ?thesis using c by blast
qed

text \<open>Numbers survive the environment: the decimal text of every finite number, with white space before it or text without digits
  after it, is read as that number, and a variable that does not begin with a number leaves the default.\<close>
theorem parseInteger_roundtrip:
  "(list_all is_ws ws \<and> (rest = [] \<or> \<not> is_digit (hd rest)) \<and> isFinite n \<longrightarrow>
      parseInteger (Some (ws @ show_int n @ rest)) d = n) \<and>
   (parseInt10 v = None \<longrightarrow> parseInteger (Some v) d = d)"
  by (simp add: parseInteger_def parseInt10_show)

theorem parseInteger_roundtrip_witness:
  "parseInteger (Some ('' '' @ show_int (- 42) @ '' ms'')) 7 = - 42 \<and> parseInteger (Some ''none'') 7 = 7"
proof -
  have "parseInt10 ''none'' = None" "list_all is_ws '' ''" "\<not> is_digit (hd '' ms'')" by code_simp+
  then show ?thesis using parseInteger_roundtrip [of "'' ''" "'' ms''" "- 42" 7 "''none''"] isFinite_small [of "- 42"] by simp
qed

lemma or_else_idem [simp]: "or_else v (or_else v d) = or_else v d"
  by (cases v) auto

lemma coalesce_idem [simp]: "coalesce v (coalesce v d) = coalesce v d"
  by (cases v) auto

section \<open>Updates\<close>

text \<open>Updating the configuration keeps every setting the update does not name, except that the root login of the policy is set to that of the SSH layer again: even an empty update
  takes back a root login that was granted to the policy alone. Updating twice with the same values
  is updating once.\<close>
theorem config_update_laws:
  "config_update no_overrides c = c\<lparr>sv_policy := (sv_policy c)\<lparr>allowRootLogin := se_allowRootLogin (sv_security c)\<rparr>\<rparr> \<and>
   config_update u (config_update u c) = config_update u c"
  by (simp add: config_update_def override_defs no_overrides_def no_policy_def)

text \<open>Nobody may log in to a control plane whose variables name no user.\<close>

lemma remote_users_named:
  assumes "isGitHubUserAllowed (remote_config privateKey publicKey (loadRemoteConfig env)) ghId login"
  shows "parseBoolean (env ''AUTH_ALLOW_ALL_USERS'') False \<or> ghId \<in> set (parseList (env ''AUTH_ALLOWED_GITHUB_IDS'')) \<or>
    login \<in> set (parseList (env ''AUTH_ALLOWED_GITHUB_LOGINS''))"
  using assms by (simp add: isGitHubUserAllowed_def remote_config_def loadRemoteConfig_def Let_def)

end
