(* ===== verification/SshConfigFile.thy ===== *)
theory SshConfigFile
  imports Configuration
begin

text \<open>
  The parser of SSH configuration files (\<open>src/ssh-config.ts\<close>): the lines of the file, the options of a host, the
  lookup of an alias with its wildcards, and the cache over it. The map of hosts is a list in the order of insertion. The object of the current host is the one that the
  map holds under the last pattern of the last \<open>Host\<close> line, so the parser keeps that pattern. What reading the file
  gives is an argument: \<open>None\<close> when it cannot be read. A port is \<open>Some None\<close> when its text is no
  number (\<open>NaN\<close>).
\<close>

section \<open>Hosts\<close>

record SSHHostConfig =
  sh_host :: string
  sh_hostName :: "string option"
  sh_user :: "string option"
  sh_port :: "int option option"
  sh_identityFile :: "string option"
  sh_proxyJump :: "string option"
  sh_forwardAgent :: "bool option"
  sh_strictHostKeyChecking :: "string option"
  sh_userKnownHostsFile :: "string option"
  sh_connectTimeout :: "int option option"
  sh_other :: "(string, string) jmap"

definition new_host :: "string \<Rightarrow> SSHHostConfig" where
  "new_host pat = \<lparr>sh_host = pat, sh_hostName = None, sh_user = None, sh_port = None, sh_identityFile = None,
     sh_proxyJump = None, sh_forwardAgent = None, sh_strictHostKeyChecking = None, sh_userKnownHostsFile = None,
     sh_connectTimeout = None, sh_other = []\<rparr>"

text \<open>\<open>~/\<close> is joined to the home directory, any other \<open>~\<close> at the front is replaced by it.\<close>

definition expand_home :: "string \<Rightarrow> string \<Rightarrow> string" where
  "expand_home home value =
     (if startsWith value ''~/'' then path_join home (drop 2 value)
      else if startsWith value ''~'' then home @ drop 1 value else value)"

definition setHostOption :: "string \<Rightarrow> string \<Rightarrow> string \<Rightarrow> SSHHostConfig \<Rightarrow> SSHHostConfig" where
  "setHostOption home key value host =
     (if key = ''hostname'' then host\<lparr>sh_hostName := Some value\<rparr>
      else if key = ''user'' then host\<lparr>sh_user := Some value\<rparr>
      else if key = ''port'' then host\<lparr>sh_port := Some (parseInt10 value)\<rparr>
      else if key = ''identityfile'' then host\<lparr>sh_identityFile := Some (expand_home home value)\<rparr>
      else if key = ''proxyjump'' then host\<lparr>sh_proxyJump := Some value\<rparr>
      else if key = ''forwardagent'' then host\<lparr>sh_forwardAgent := Some (toLowerCase value = ''yes'')\<rparr>
      else if key = ''stricthostkeychecking'' then host\<lparr>sh_strictHostKeyChecking := Some value\<rparr>
      else if key = ''userknownhostsfile'' then host\<lparr>sh_userKnownHostsFile := Some (expand_home home value)\<rparr>
      else if key = ''connecttimeout'' then host\<lparr>sh_connectTimeout := Some (parseInt10 value)\<rparr>
      else host\<lparr>sh_other := jm_set key value (sh_other host)\<rparr>)"

section \<open>Lines\<close>

text \<open>\<open>/^(\S+)\s+(.+)$/\<close> on a trimmed line; the point matches no line break.\<close>

definition is_break :: "char \<Rightarrow> bool" where
  "is_break c = (c = CHR 0x0A \<or> c = CHR 0x0D)"

definition match_line :: "string \<Rightarrow> (string \<times> string) option" where
  "match_line line =
     (let key = takeWhile (\<lambda>c. \<not> is_ws c) line; value = dropWhile is_ws (dropWhile (\<lambda>c. \<not> is_ws c) line) in
      if key = [] \<or> value = [] \<or> list_ex is_break value then None else Some (key, value))"

record parser_state =
  ps_hosts :: "(string, SSHHostConfig) jmap"
  ps_current :: "string option"

definition add_pattern :: "string \<Rightarrow> parser_state \<Rightarrow> parser_state" where
  "add_pattern pat st = st\<lparr>ps_hosts := jm_set pat (new_host pat) (ps_hosts st), ps_current := Some pat\<rparr>"

definition set_option :: "string \<Rightarrow> string \<Rightarrow> string \<Rightarrow> parser_state \<Rightarrow> parser_state" where
  "set_option home key value st =
     (case ps_current st of
        None \<Rightarrow> st
      | Some k \<Rightarrow>
          (case jm_get (ps_hosts st) k of
             None \<Rightarrow> st
           | Some host \<Rightarrow> st\<lparr>ps_hosts := jm_set k (setHostOption home key value host) (ps_hosts st)\<rparr>))"

definition parse_line :: "string \<Rightarrow> string \<Rightarrow> parser_state \<Rightarrow> parser_state" where
  "parse_line home rawLine st =
     (let line = trim rawLine in
      if line = [] \<or> startsWith line ''#'' then st
      else case match_line line of
        None \<Rightarrow> st
      | Some (key, value) \<Rightarrow>
          let keyLower = toLowerCase key in
          if keyLower = ''host'' then fold add_pattern (split_ws value) st
          else set_option home keyLower value st)"

definition parseContent :: "string \<Rightarrow> string \<Rightarrow> (string, SSHHostConfig) jmap \<Rightarrow> (string, SSHHostConfig) jmap" where
  "parseContent home content hosts =
     ps_hosts (fold (parse_line home) (split_on (CHR 0x0A) content) \<lparr>ps_hosts = hosts, ps_current = None\<rparr>)"

section \<open>The parser and its cache\<close>

record SSHConfigParser =
  pr_hosts :: "(string, SSHHostConfig) jmap"
  pr_parsed :: bool
  pr_lastParsedAt :: int

definition CACHE_TTL_MS :: int where
  "CACHE_TTL_MS = 300000"

definition new_SSHConfigParser :: SSHConfigParser where
  "new_SSHConfigParser = \<lparr>pr_hosts = [], pr_parsed = False, pr_lastParsedAt = 0\<rparr>"

definition parser_parse :: "string \<Rightarrow> string option \<Rightarrow> int \<Rightarrow> SSHConfigParser \<Rightarrow> SSHConfigParser" where
  "parser_parse home content now p =
     (if pr_parsed p \<and> now - pr_lastParsedAt p < CACHE_TTL_MS then p
      else \<lparr>pr_hosts = (case content of None \<Rightarrow> [] | Some text \<Rightarrow> parseContent home text []),
            pr_parsed = True, pr_lastParsedAt = now\<rparr>)"

definition invalidateCache :: "SSHConfigParser \<Rightarrow> SSHConfigParser" where
  "invalidateCache p = p\<lparr>pr_lastParsedAt := 0\<rparr>"

section \<open>Lookup\<close>

text \<open>The regular expression made of a pattern: a star is any text without line breaks, a question mark one
  character, everything else itself in upper or lower case.\<close>

fun glob_match :: "string \<Rightarrow> string \<Rightarrow> bool" where
  "glob_match [] s = (s = [])"
| "glob_match (p # ps) [] = (p = CHR ''*'' \<and> glob_match ps [])"
| "glob_match (p # ps) (c # s) =
     (if p = CHR ''*'' then glob_match ps (c # s) \<or> (\<not> is_break c \<and> glob_match (p # ps) s)
      else if p = CHR ''?'' then \<not> is_break c \<and> glob_match ps s
      else lower_char p = lower_char c \<and> glob_match ps s)"

definition matchPattern :: "string \<Rightarrow> string \<Rightarrow> bool" where
  "matchPattern pat hostname = (pat = ''*'' \<or> glob_match pat hostname)"

definition getHostConfig :: "string \<Rightarrow> (string, SSHHostConfig) jmap \<Rightarrow> SSHHostConfig option" where
  "getHostConfig hostAlias hosts =
     (if jm_has hosts hostAlias then jm_get hosts hostAlias
      else map_option snd (find (\<lambda>(pat, c). matchPattern pat hostAlias) hosts))"

record resolved_host =
  rh_host :: string
  rh_username :: "string option"
  rh_port :: "int option option"
  rh_privateKeyPath :: "string option"
  rh_proxyJump :: "string option"

definition given :: "string option \<Rightarrow> string option" where
  "given v = (if truthy v then v else None)"

definition resolveHost :: "string \<Rightarrow> (string, SSHHostConfig) jmap \<Rightarrow> resolved_host" where
  "resolveHost hostAlias hosts =
     (case getHostConfig hostAlias hosts of
        None \<Rightarrow> \<lparr>rh_host = hostAlias, rh_username = None, rh_port = None, rh_privateKeyPath = None, rh_proxyJump = None\<rparr>
      | Some c \<Rightarrow> \<lparr>rh_host = or_else (sh_hostName c) hostAlias, rh_username = given (sh_user c), rh_port = sh_port c,
                    rh_privateKeyPath = given (sh_identityFile c), rh_proxyJump = given (sh_proxyJump c)\<rparr>)"

definition getAllHosts :: "(string, SSHHostConfig) jmap \<Rightarrow> string list" where
  "getAllHosts hosts = filter (\<lambda>h. h \<noteq> ''*'') (map fst hosts)"

section \<open>The global parser\<close>

text \<open>The module keeps one parser and the time it was made. A value is at most five minutes old.\<close>

definition CONFIG_CACHE_TTL_MS :: int where
  "CONFIG_CACHE_TTL_MS = 5 * 60 * 1000"

record config_cache =
  globalConfigParser :: "SSHConfigParser option"
  globalConfigParsedAt :: int

definition getSSHConfigParser :: "string \<Rightarrow> string option \<Rightarrow> int \<Rightarrow> config_cache \<Rightarrow> config_cache \<times> SSHConfigParser" where
  "getSSHConfigParser home content now cache =
     (let fresh = parser_parse home content now new_SSHConfigParser in
      case globalConfigParser cache of
        None \<Rightarrow> (\<lparr>globalConfigParser = Some fresh, globalConfigParsedAt = now\<rparr>, fresh)
      | Some p \<Rightarrow>
          if CONFIG_CACHE_TTL_MS < now - globalConfigParsedAt cache
          then (\<lparr>globalConfigParser = Some fresh, globalConfigParsedAt = now\<rparr>, fresh)
          else (cache, p))"

definition invalidateSSHConfigCache :: "config_cache \<Rightarrow> config_cache" where
  "invalidateSSHConfigCache cache = \<lparr>globalConfigParser = None, globalConfigParsedAt = 0\<rparr>"

definition resolveSSHHost :: "string \<Rightarrow> string option \<Rightarrow> int \<Rightarrow> string \<Rightarrow> config_cache \<Rightarrow> config_cache \<times> resolved_host" where
  "resolveSSHHost home content now hostAlias cache =
     (case getSSHConfigParser home content now cache of (cache', parser) \<Rightarrow> (cache', resolveHost hostAlias (pr_hosts parser)))"

definition getConfiguredHosts :: "string \<Rightarrow> string option \<Rightarrow> int \<Rightarrow> config_cache \<Rightarrow> config_cache \<times> string list" where
  "getConfiguredHosts home content now cache =
     (case getSSHConfigParser home content now cache of (cache', parser) \<Rightarrow> (cache', getAllHosts (pr_hosts parser)))"

section \<open>Patterns\<close>

text \<open>What a pattern means, without reference to a matcher.\<close>

inductive matches :: "string \<Rightarrow> string \<Rightarrow> bool" where
  matches_end: "matches [] []"
| matches_star: "matches ps s \<Longrightarrow> \<forall>c \<in> set u. \<not> is_break c \<Longrightarrow> matches (CHR ''*'' # ps) (u @ s)"
| matches_any: "matches ps s \<Longrightarrow> \<not> is_break c \<Longrightarrow> matches (CHR ''?'' # ps) (c # s)"
| matches_char: "matches ps s \<Longrightarrow> p \<noteq> CHR ''*'' \<Longrightarrow> p \<noteq> CHR ''?'' \<Longrightarrow> lower_char p = lower_char c \<Longrightarrow> matches (p # ps) (c # s)"

inductive_cases matches_NilE: "matches [] s"

lemma glob_star: "glob_match ps s \<Longrightarrow> \<forall>c \<in> set u. \<not> is_break c \<Longrightarrow> glob_match (CHR ''*'' # ps) (u @ s)"
proof (induction u)
  case Nil
  then show ?case by (cases s) auto
qed auto

lemma matches_glob: "matches p s \<Longrightarrow> glob_match p s"
  by (induction rule: matches.induct) (auto simp: glob_star)

lemma matches_star_Cons: "matches (CHR ''*'' # ps) s \<Longrightarrow> \<not> is_break c \<Longrightarrow> matches (CHR ''*'' # ps) (c # s)"
proof (induction "CHR ''*'' # ps" s rule: matches.induct)
  case (matches_star s u)
  then show ?case using matches.matches_star [of ps s "c # u"] by simp
qed auto

lemma glob_matches: "glob_match p s \<Longrightarrow> matches p s"
proof (induction p s rule: glob_match.induct)
  case (2 p ps)
  then show ?case using matches_star [of ps "[]" "[]"] by simp
next
  case (3 p ps c s)
  show ?case
  proof (cases "p = CHR ''*''")
    case True
    then show ?thesis using 3 matches_star [of ps "c # s" "[]"] matches_star_Cons by auto
  next
    case False
    then show ?thesis using 3 by (auto intro: matches_any matches_char split: if_splits)
  qed
qed (simp add: matches_end)

lemma find_after: "list_all (\<lambda>y. \<not> P y) before \<Longrightarrow> P x \<Longrightarrow> find P (before @ x # after) = Some x"
  by (induction before) auto

lemma find_hit: "find P xs = Some x \<Longrightarrow> \<exists>before after. xs = before @ x # after \<and> P x \<and> list_all (\<lambda>y. \<not> P y) before"
proof (induction xs)
  case (Cons y ys)
  show ?case
  proof (cases "P y")
    case True
    then have "y # ys = [] @ x # ys \<and> P x \<and> list_all (\<lambda>y. \<not> P y) []" using Cons.prems by simp
    then show ?thesis by blast
  next
    case False
    then obtain before after where "ys = before @ x # after" "P x" "list_all (\<lambda>y. \<not> P y) before" using Cons by auto
    then have "y # ys = (y # before) @ x # after \<and> P x \<and> list_all (\<lambda>y. \<not> P y) (y # before)" using False by simp
    then show ?thesis by blast
  qed
qed simp

lemma find_split: "find P xs = Some x \<longleftrightarrow> (\<exists>before after. xs = before @ x # after \<and> P x \<and> list_all (\<lambda>y. \<not> P y) before)"
  using find_after [of P _ x] find_hit [of P xs x] by blast

text \<open>The lookup of an alias. An entry with the alias itself is taken first, else the first one in the order of the file whose
  pattern matches, in the sense of the meaning of patterns (\<open>*\<close> any text, \<open>?\<close> one character, no difference between
  upper and lower case); without one the alias stands for itself.\<close>
theorem getHostConfig_first_match:
  "getHostConfig hostAlias hosts = Some c \<longleftrightarrow>
     jm_get hosts hostAlias = Some c \<or>
     jm_get hosts hostAlias = None \<and>
       (\<exists>before p after. hosts = before @ (p, c) # after \<and> (p = ''*'' \<or> matches p hostAlias) \<and>
          list_all (\<lambda>(q, d). q \<noteq> ''*'' \<and> \<not> matches q hostAlias) before)"
proof -
  have glob: "glob_match p hostAlias \<longleftrightarrow> matches p hostAlias" for p using matches_glob glob_matches by blast
  show ?thesis
    by (cases "jm_get hosts hostAlias") (auto simp: getHostConfig_def jm_has_def find_split matchPattern_def glob case_prod_unfold)
qed

section \<open>Printed files are read back\<close>

definition word_ok :: "string \<Rightarrow> bool" where
  "word_ok w \<longleftrightarrow> w \<noteq> [] \<and> list_all (\<lambda>c. \<not> is_ws c) w"

definition value_ok :: "string \<Rightarrow> bool" where
  "value_ok v \<longleftrightarrow> v \<noteq> [] \<and> \<not> is_ws (hd v) \<and> \<not> is_ws (last v) \<and> \<not> list_ex is_break v"

definition option_ok :: "string \<times> string \<Rightarrow> bool" where
  "option_ok o' \<longleftrightarrow> word_ok (fst o') \<and> hd (fst o') \<noteq> CHR ''#'' \<and> toLowerCase (fst o') \<noteq> ''host'' \<and> value_ok (snd o')"

type_synonym host_block = "string \<times> (string \<times> string) list"

definition block_ok :: "host_block \<Rightarrow> bool" where
  "block_ok b \<longleftrightarrow> word_ok (fst b) \<and> list_all option_ok (snd b)"

definition block_lines :: "host_block \<Rightarrow> string list" where
  "block_lines b = (''Host '' @ fst b) # map (\<lambda>(k, v). ''  '' @ k @ '' '' @ v) (snd b)"

definition render_config :: "host_block list \<Rightarrow> string" where
  "render_config blocks = join [CHR 0x0A] (concat (map block_lines blocks))"

definition block_host :: "string \<Rightarrow> host_block \<Rightarrow> SSHHostConfig" where
  "block_host home b = fold (\<lambda>(k, v). setHostOption home (toLowerCase k) v) (snd b) (new_host (fst b))"

lemma trim_kept: "s \<noteq> [] \<Longrightarrow> \<not> is_ws (hd s) \<Longrightarrow> \<not> is_ws (last s) \<Longrightarrow> trim s = s"
  by (simp add: trim_def dropWhile_idem_hd hd_rev)

lemma trim_indent: "list_all is_ws w \<Longrightarrow> trim (w @ s) = trim s"
  by (induction w) (auto simp: trim_def)

lemma word_okD: "word_ok w \<Longrightarrow> w \<noteq> [] \<and> \<not> is_ws (hd w) \<and> \<not> is_ws (last w) \<and> value_ok w"
  by (auto simp: word_ok_def value_ok_def list_all_iff list_ex_iff is_break_def is_ws_def Let_def)

lemma match_line_pair:
  assumes "word_ok k" and "value_ok v"
  shows "match_line (k @ '' '' @ v) = Some (k, v)" "trim (k @ '' '' @ v) = k @ '' '' @ v"
proof -
  have k: "takeWhile (\<lambda>c. \<not> is_ws c) (k @ '' '' @ v) = k" "dropWhile (\<lambda>c. \<not> is_ws c) (k @ '' '' @ v) = '' '' @ v"
    using assms(1) by (auto simp: word_ok_def list_all_iff takeWhile_append2 dropWhile_append2 is_ws_def)
  have "dropWhile is_ws ('' '' @ v) = v" using assms(2) by (simp add: value_ok_def dropWhile_idem_hd is_ws_def)
  then show "match_line (k @ '' '' @ v) = Some (k, v)"
    using assms unfolding match_line_def k Let_def by (simp add: word_ok_def value_ok_def)
  show "trim (k @ '' '' @ v) = k @ '' '' @ v"
    by (rule trim_kept) (use assms word_okD [OF assms(1)] in \<open>auto simp: value_ok_def\<close>)
qed

lemma split_ws_single: "word_ok w \<Longrightarrow> split_ws w = [w]"
  by (subst split_ws.simps) (simp add: word_ok_def list_all_iff takeWhile_eq_all_conv [THEN iffD2] dropWhile_eq_Nil_conv [THEN iffD2])

lemma parse_host_line:
  assumes "word_ok a"
  shows "parse_line home (''Host '' @ a) st = add_pattern a st"
proof -
  have "word_ok ''Host''" "toLowerCase ''Host'' = ''host''" by code_simp+
  moreover have "''Host '' @ a = ''Host'' @ '' '' @ a" by simp
  ultimately show ?thesis
    using match_line_pair [of "''Host''" a] word_okD [OF assms] by (simp add: parse_line_def startsWith_def split_ws_single [OF assms])
qed

lemma parse_option_line:
  assumes "option_ok (k, v)"
  shows "parse_line home (''  '' @ k @ '' '' @ v) st = set_option home (toLowerCase k) v st"
proof -
  have ok: "word_ok k" "value_ok v" "hd k \<noteq> CHR ''#''" "toLowerCase k \<noteq> ''host''" using assms by (simp_all add: option_ok_def)
  have "trim (''  '' @ (k @ '' '' @ v)) = k @ '' '' @ v" using trim_indent [of "''  ''"] match_line_pair(2) [OF ok(1,2)] by (simp add: is_ws_def)
  moreover have "\<not> startsWith (k @ '' '' @ v) ''#''" using ok(1,3) by (cases k) (auto simp: startsWith_def word_ok_def)
  ultimately show ?thesis using match_line_pair(1) [OF ok(1,2)] ok by (simp add: parse_line_def)
qed

lemma jm_set_last: "jm_get hs a = None \<Longrightarrow> jm_set a h' (hs @ [(a, h)]) = hs @ [(a, h')]"
  by (induction a h' hs rule: jm_set.induct) (auto split: if_splits)

lemma jm_get_last: "jm_get hs a = None \<Longrightarrow> jm_get (hs @ [(a, h)]) a = Some h"
  by (simp add: jm_get_def map_add_def)

lemma parse_options:
  assumes "jm_get hs a = None" and "list_all option_ok os"
  shows "fold (parse_line home) (map (\<lambda>(k, v). ''  '' @ k @ '' '' @ v) os) \<lparr>ps_hosts = hs @ [(a, h)], ps_current = Some a\<rparr> =
    \<lparr>ps_hosts = hs @ [(a, fold (\<lambda>(k, v). setHostOption home (toLowerCase k) v) os h)], ps_current = Some a\<rparr>"
  using assms(2)
proof (induction os arbitrary: h)
  case (Cons kv os)
  obtain k v where kv: "kv = (k, v)" by (cases kv)
  have "parse_line home (''  '' @ k @ '' '' @ v) \<lparr>ps_hosts = hs @ [(a, h)], ps_current = Some a\<rparr> =
      \<lparr>ps_hosts = hs @ [(a, setHostOption home (toLowerCase k) v h)], ps_current = Some a\<rparr>"
    using parse_option_line [of k v home] Cons.prems
    by (simp add: kv set_option_def jm_get_last [OF assms(1)] jm_set_last [OF assms(1)])
  then show ?case using Cons by (simp add: kv)
qed simp

lemma parse_blocks:
  assumes "list_all block_ok blocks" and "distinct (map fst hs @ map fst blocks)"
  shows "ps_hosts (fold (parse_line home) (concat (map block_lines blocks)) \<lparr>ps_hosts = hs, ps_current = cur\<rparr>) =
    hs @ map (\<lambda>b. (fst b, block_host home b)) blocks"
  using assms
proof (induction blocks arbitrary: hs cur)
  case (Cons b blocks)
  have fresh: "jm_get hs (fst b) = None" using Cons.prems(2) by (auto simp: jm_get_None_iff)
  have ok: "word_ok (fst b)" "list_all option_ok (snd b)" using Cons.prems(1) by (simp_all add: block_ok_def)
  have "fold (parse_line home) (block_lines b) \<lparr>ps_hosts = hs, ps_current = cur\<rparr> =
      \<lparr>ps_hosts = hs @ [(fst b, block_host home b)], ps_current = Some (fst b)\<rparr>"
    using parse_options [OF fresh ok(2)] parse_host_line [OF ok(1), of home]
    by (simp add: block_lines_def add_pattern_def jm_set_absent [OF fresh] block_host_def)
  then show ?case using Cons.IH [of "hs @ [(fst b, block_host home b)]"] Cons.prems by simp
qed simp

lemma block_lines_no_break:
  assumes "block_ok b" and "l \<in> set (block_lines b)"
  shows "CHR 0x0A \<notin> set l"
proof -
  have word: "CHR 0x0A \<notin> set w" if "word_ok w" for w using that by (auto simp: word_ok_def list_all_iff is_ws_def)
  have val: "CHR 0x0A \<notin> set v" if "value_ok v" for v using that by (auto simp: value_ok_def list_ex_iff is_break_def)
  from assms(2) consider "l = ''Host '' @ fst b" | k v where "(k, v) \<in> set (snd b)" "l = ''  '' @ k @ '' '' @ v"
    by (auto simp: block_lines_def)
  then show ?thesis
  proof cases
    case 1
    then show ?thesis using assms(1) word by (simp add: block_ok_def)
  next
    case 2
    then have "option_ok (k, v)" using assms(1) by (auto simp: block_ok_def list_all_iff)
    then show ?thesis using 2 word val by (simp add: option_ok_def)
  qed
qed

lemma block_lines_nonempty [simp]: "block_lines b \<noteq> []"
  by (simp add: block_lines_def)



text \<open>A line with several patterns. The options that follow \<open>Host a b\<close> are set for \<open>b\<close> alone: the alias \<open>a\<close> resolves to itself,
  although the line names both.\<close>
theorem host_line_last_pattern:
  "rh_host (resolveHost ''a'' (parseContent home (''Host a b'' @ [CHR 0x0A] @ ''  HostName x'') [])) = ''a'' \<and>
   rh_host (resolveHost ''b'' (parseContent home (''Host a b'' @ [CHR 0x0A] @ ''  HostName x'') [])) = ''x''"
proof -
  have lines: "split_on (CHR 0x0A) (''Host a b'' @ [CHR 0x0A] @ ''  HostName x'') = [''Host a b'', ''  HostName x'']" by code_simp
  have first: "trim ''Host a b'' = ''Host a b''" "match_line ''Host a b'' = Some (''Host'', ''a b'')" "split_ws ''a b'' = [''a'', ''b'']" by code_simp+
  have second: "trim ''  HostName x'' = ''HostName x''" "match_line ''HostName x'' = Some (''HostName'', ''x'')" by code_simp+
  have lower: "toLowerCase ''Host'' = ''host''" "toLowerCase ''HostName'' = ''hostname''" by code_simp+
  show ?thesis
    unfolding parseContent_def lines
    by (simp add: parse_line_def first second lower startsWith_def add_pattern_def set_option_def setHostOption_def new_host_def
        resolveHost_def getHostConfig_def jm_has_def)
qed

section \<open>The cache\<close>

text \<open>A run of calls of \<open>getSSHConfigParser\<close>, each with the file as it is at that moment and the time.\<close>

fun cache_run :: "string \<Rightarrow> (string option \<times> int) list \<Rightarrow> config_cache \<Rightarrow> SSHConfigParser list" where
  "cache_run home [] cache = []"
| "cache_run home ((content, now) # calls) cache =
     (case getSSHConfigParser home content now cache of (cache', p) \<Rightarrow> p # cache_run home calls cache')"

definition read_config :: "string \<Rightarrow> string option \<times> int \<Rightarrow> SSHConfigParser" where
  "read_config home call = parser_parse home (fst call) (snd call) new_SSHConfigParser"

definition cache_from :: "string \<Rightarrow> (string option \<times> int) list \<Rightarrow> config_cache \<Rightarrow> bool" where
  "cache_from home past cache \<longleftrightarrow>
     (\<forall>p. globalConfigParser cache = Some p \<longrightarrow> (\<exists>call \<in> set past. p = read_config home call \<and> globalConfigParsedAt cache = snd call))"

lemma getSSHConfigParser_step:
  assumes "cache_from home past cache" and "getSSHConfigParser home content now cache = (cache', p)"
  shows "cache_from home (past @ [(content, now)]) cache' \<and>
    (\<exists>call \<in> set (past @ [(content, now)]). p = read_config home call \<and> now - snd call \<le> CONFIG_CACHE_TTL_MS)"
  using assms by (force simp: cache_from_def getSSHConfigParser_def read_config_def Let_def CONFIG_CACHE_TTL_MS_def split: option.splits if_splits)

lemma cache_run_fresh:
  assumes "cache_from home past cache" and "i < length calls"
  shows "\<exists>call \<in> set (past @ take (Suc i) calls). cache_run home calls cache ! i = read_config home call \<and> snd (calls ! i) - snd call \<le> CONFIG_CACHE_TTL_MS"
  using assms
proof (induction calls arbitrary: past cache i)
  case (Cons c calls)
  obtain content now cache' p where c: "c = (content, now)" "getSSHConfigParser home content now cache = (cache', p)"
    by (metis surj_pair)
  note step = getSSHConfigParser_step [OF Cons.prems(1) c(2)]
  show ?case
  proof (cases i)
    case 0
    then show ?thesis using step c by simp
  next
    case (Suc j)
    then show ?thesis using Cons.IH [of "past @ [(content, now)]" cache' j] step Cons.prems(2) c by simp
  qed
qed simp

text \<open>The SSH configuration that is used is a file as it really was, at most five minutes ago: in any run of calls, each
  call returns the hosts read at that call or at an earlier one whose time lies no more than the lifetime of
  the cache before it.\<close>
theorem ssh_config_at_most_stale:
  assumes "i < length calls"
  shows "\<exists>j \<le> i. cache_run home calls \<lparr>globalConfigParser = None, globalConfigParsedAt = 0\<rparr> ! i = read_config home (calls ! j) \<and>
    snd (calls ! i) - snd (calls ! j) \<le> 300000"
proof -
  obtain call where call: "call \<in> set (take (Suc i) calls)" "cache_run home calls \<lparr>globalConfigParser = None, globalConfigParsedAt = 0\<rparr> ! i = read_config home call"
      "snd (calls ! i) - snd call \<le> CONFIG_CACHE_TTL_MS"
    using cache_run_fresh [of home "[]" "\<lparr>globalConfigParser = None, globalConfigParsedAt = 0\<rparr>" i calls] assms by (auto simp: cache_from_def)
  then obtain j where "j \<le> i" "calls ! j = call" by (auto simp: in_set_conv_nth less_Suc_eq_le)
  then show ?thesis using call by (auto simp: CONFIG_CACHE_TTL_MS_def)
qed

theorem ssh_config_at_most_stale_witness:
  "\<exists>j \<le> (1::nat). cache_run ''/h'' [(None, 10), (Some ''Host a'', 20)] \<lparr>globalConfigParser = None, globalConfigParsedAt = 0\<rparr> ! 1 =
     read_config ''/h'' ([(None, 10), (Some ''Host a'', 20)] ! j)"
  using ssh_config_at_most_stale [of 1 "[(None, 10), (Some ''Host a'', 20)]" "''/h''"] by auto

end
