(* ===== verification/Connector.thy ===== *)
theory Connector
  imports SshConfigFile SessionTools
begin

text \<open>
  The tools of the remote connector: where the credentials of an inspection come from
  (\<open>src/connector-credentials.ts\<close>) and what the tools do with them (\<open>src/tools/connector.provider.ts\<close>).

  The outside is an argument: the SSH configuration file, the events of the credential command, the parser of JSON
  texts, the server that is connected to and its answers. A tool changes the sessions, the metrics and the cache of the SSH
  configuration; the state also keeps the commands that were sent to hosts. A port of the configuration file that is no number reaches the session layer as a missing
  one. The numbers of a JSON text are integers.
\<close>

section \<open>The credential command\<close>

record command_credentials =
  cr_host :: "string option"
  cr_username :: "string option"
  cr_port :: "int option"
  cr_auth :: AuthStrategy
  cr_privateKeyPath :: "string option"
  cr_knownHostsPath :: "string option"
  cr_expectedHostKeySha256 :: "string option"
  cr_hostKeyPolicy :: HostKeyPolicy
  cr_readyTimeoutMs :: "int option"
  cr_ttlMs :: "int option"

definition z_range :: "int \<Rightarrow> int \<Rightarrow> json \<Rightarrow> int option" where
  "z_range lo hi v = (case v of JNum n \<Rightarrow> if lo \<le> n \<and> n \<le> hi then Some n else None | _ \<Rightarrow> None)"

definition z_default :: "'a \<Rightarrow> (json \<Rightarrow> 'a option) \<Rightarrow> json \<Rightarrow> 'a option" where
  "z_default d f v = (if v = JUndefined then Some d else f v)"

fun auth_name :: "AuthStrategy \<Rightarrow> string" where
  "auth_name AuthAuto = ''auto''"
| "auth_name AuthPassword = ''password''"
| "auth_name AuthKey = ''key''"
| "auth_name AuthAgent = ''agent''"

fun host_key_name :: "HostKeyPolicy \<Rightarrow> string" where
  "host_key_name Strict = ''strict''"
| "host_key_name AcceptNew = ''accept-new''"
| "host_key_name Insecure = ''insecure''"

definition CommandCredentialResponseSchema :: "json \<Rightarrow> command_credentials option" where
  "CommandCredentialResponseSchema v =
     (case v of
        JObj es \<Rightarrow>
          if \<not> z_strict [''host'', ''username'', ''port'', ''auth'', ''privateKeyPath'', ''knownHostsPath'', ''expectedHostKeySha256'',
                 ''hostKeyPolicy'', ''readyTimeoutMs'', ''ttlMs''] es then None
          else do {
            h \<leftarrow> z_optional (z_string 1 None) (jprop es ''host'');
            u \<leftarrow> z_optional (z_string 1 None) (jprop es ''username'');
            p \<leftarrow> z_optional (z_range 1 65535) (jprop es ''port'');
            a \<leftarrow> z_default AuthAgent (z_enum auth_name [AuthAgent, AuthKey]) (jprop es ''auth'');
            key \<leftarrow> z_optional (z_string 1 None) (jprop es ''privateKeyPath'');
            known \<leftarrow> z_optional (z_string 1 None) (jprop es ''knownHostsPath'');
            expected \<leftarrow> z_optional (z_string 1 None) (jprop es ''expectedHostKeySha256'');
            pol \<leftarrow> z_default Strict (z_enum host_key_name [Strict, AcceptNew]) (jprop es ''hostKeyPolicy'');
            ready \<leftarrow> z_optional (z_range 1000 60000) (jprop es ''readyTimeoutMs'');
            ttl \<leftarrow> z_optional (z_range 10000 900000) (jprop es ''ttlMs'');
            Some \<lparr>cr_host = h, cr_username = u, cr_port = p, cr_auth = a, cr_privateKeyPath = key, cr_knownHostsPath = known,
                  cr_expectedHostKeySha256 = expected, cr_hostKeyPolicy = pol, cr_readyTimeoutMs = ready, cr_ttlMs = ttl\<rparr>
          }
      | _ \<Rightarrow> None)"

text \<open>The events of the child process, in their order; the promise is settled by the first that settles it. \<open>None\<close>
  is a promise that is never settled. A close without a code is one by a signal.\<close>

datatype child_event = ChildData string | ChildTimeout | ChildError string | ChildClose "int option"

fun credential_events :: "(string \<Rightarrow> string + json) \<Rightarrow> (json \<Rightarrow> string) \<Rightarrow> nat \<Rightarrow> string \<Rightarrow> child_event list \<Rightarrow> (string + command_credentials) option" where
  "credential_events parse zod bytes stdout [] = None"
| "credential_events parse zod bytes stdout (ChildData chunk # es) =
     (let n = bytes + utf8_length chunk in
      if 32 * 1024 < n then Some (Inl ''Credential command output exceeded 32 KiB.'')
      else credential_events parse zod n (stdout @ chunk) es)"
| "credential_events parse zod bytes stdout (ChildTimeout # es) = Some (Inl ''Credential command timed out.'')"
| "credential_events parse zod bytes stdout (ChildError e # es) = Some (Inl e)"
| "credential_events parse zod bytes stdout (ChildClose code # es) =
     (if code \<noteq> Some 0 then Some (Inl ''Credential command failed.'')
      else case parse stdout of
        Inl e \<Rightarrow> Some (Inl e)
      | Inr v \<Rightarrow> (case CommandCredentialResponseSchema v of None \<Rightarrow> Some (Inl (zod v)) | Some r \<Rightarrow> Some (Inr r)))"

section \<open>Credentials\<close>

record connector_env =
  ce_home :: string
  ce_config :: "string option"
  ce_child :: "string \<Rightarrow> string list \<Rightarrow> string \<Rightarrow> child_event list"
  ce_parse :: "string \<Rightarrow> string + json"
  ce_zod :: "json \<Rightarrow> string"
  ce_now :: "nat \<Rightarrow> int"
  ce_uuid :: string
  ce_auth :: auth_env
  ce_digests :: host_digests
  ce_files :: "string \<Rightarrow> string option"
  ce_denied :: thrown
  ce_connect :: connect_outcome
  ce_osInfo :: "nat \<Rightarrow> tool_error + OSInfo"
  ce_exec :: "nat \<Rightarrow> string \<Rightarrow> tool_error + exec_answer"
  ce_rx :: regexp_engine
  ce_local :: local_env

record connector_state =
  cs_manager :: session_manager
  cs_metrics :: Metrics
  cs_cache :: config_cache
  cs_calls :: "(string \<times> string) list"

type_synonym 'a ctool = "(connector_state, tool_error, 'a) op"

text \<open>\<open>ConnectionParams\<close> with the two fields that the session layer only hands to the SSH library.\<close>

record connector_params =
  cp_params :: ConnectionParams
  cp_useAgent :: bool
  cp_readyTimeoutMs :: "int option"

definition js_error :: "string \<Rightarrow> tool_error" where
  "js_error message = JsError None message"

definition now_at :: "connector_env \<Rightarrow> connector_state \<Rightarrow> int" where
  "now_at e st = ce_now e (length (cs_calls st))"

definition resolve_alias :: "connector_env \<Rightarrow> string \<Rightarrow> resolved_host ctool" where
  "resolve_alias e hostAlias st =
     (case resolveSSHHost (ce_home e) (ce_config e) (now_at e st) hostAlias (cs_cache st) of
        (cache, r) \<Rightarrow> (st\<lparr>cs_cache := cache\<rparr>, Inr r))"

definition port_number :: "int option option \<Rightarrow> int option" where
  "port_number p = Option.bind p id"

definition resolveAgentCredentials :: "connector_env \<Rightarrow> string \<Rightarrow> ServerConfig \<Rightarrow> connector_params ctool" where
  "resolveAgentCredentials e hostAlias cfg =
     cbind (resolve_alias e hostAlias) (\<lambda>resolved.
     let username = coalesce (rh_username resolved) (cc_defaultUsername (sv_connector cfg)) in
     if \<not> truthy username then
       cthrow (js_error ''Remote connector agent provider requires User in SSH config or SSH_MCP_CONNECTOR_DEFAULT_USERNAME.'')
     else creturn
       \<lparr>cp_params = \<lparr>cn_host = rh_host resolved, cn_policyHost = Some hostAlias, cn_username = or_else username '''',
          cn_port = port_number (rh_port resolved), cn_auth = Some AuthAgent, cn_password = None, cn_privateKey = None,
          cn_privateKeyPath = None, cn_passphrase = None, cn_ttlMs = None, cn_strictHostKeyChecking = None,
          cn_hostKeyPolicy = Some Strict, cn_knownHostsPath = None, cn_expectedHostKeySha256 = None, cn_policyMode = Some Enforce\<rparr>,
        cp_useAgent = True, cp_readyTimeoutMs = None\<rparr>)"

definition runCredentialCommand :: "connector_env \<Rightarrow> string \<Rightarrow> connector_config \<Rightarrow> (string + command_credentials) option" where
  "runCredentialCommand e hostAlias c =
     (if \<not> truthy (cc_credentialCommand c) then Some (Inl ''Credential command is not configured.'')
      else credential_events (ce_parse e) (ce_zod e) 0 ''''
             (ce_child e (or_else (cc_credentialCommand c) '''') (cc_credentialCommandArgs c) hostAlias))"

text \<open>A port that is \<open>0\<close> is not passed on.\<close>

definition nonzero :: "int option \<Rightarrow> int option" where
  "nonzero p = (if p = Some 0 then None else p)"

definition resolveCommandCredentials :: "connector_env \<Rightarrow> string \<Rightarrow> ServerConfig \<Rightarrow> connector_params option ctool" where
  "resolveCommandCredentials e hostAlias cfg =
     (let c = sv_connector cfg in
      if \<not> truthy (cc_credentialCommand c) then
        cthrow (js_error ''Remote connector command provider requires SSH_MCP_CONNECTOR_CREDENTIAL_COMMAND.'')
      else cbind (resolve_alias e hostAlias) (\<lambda>resolved.
        case runCredentialCommand e hostAlias c of
          None \<Rightarrow> creturn None
        | Some (Inl message) \<Rightarrow> cthrow (js_error message)
        | Some (Inr r) \<Rightarrow>
            let username = coalesce (cr_username r) (coalesce (rh_username resolved) (cc_defaultUsername c)) in
            if \<not> truthy username then cthrow (js_error ''Credential command did not return a username and no default is configured.'')
            else if cr_auth r = AuthKey \<and> \<not> truthy (cr_privateKeyPath r) then
              cthrow (js_error ''Credential command auth=key requires privateKeyPath.'')
            else creturn (Some
              \<lparr>cp_params = \<lparr>cn_host = or_else (cr_host r) (rh_host resolved), cn_policyHost = Some hostAlias,
                 cn_username = or_else username '''', cn_port = nonzero (coalesce (cr_port r) (port_number (rh_port resolved))),
                 cn_auth = Some (cr_auth r), cn_password = None, cn_privateKey = None, cn_privateKeyPath = given (cr_privateKeyPath r),
                 cn_passphrase = None, cn_ttlMs = Some (or_else (cr_ttlMs r) 120000), cn_strictHostKeyChecking = None,
                 cn_hostKeyPolicy = Some (cr_hostKeyPolicy r), cn_knownHostsPath = given (cr_knownHostsPath r),
                 cn_expectedHostKeySha256 = given (cr_expectedHostKeySha256 r), cn_policyMode = Some Enforce\<rparr>,
               cp_useAgent = (cr_auth r = AuthAgent), cp_readyTimeoutMs = Some (or_else (cr_readyTimeoutMs r) 20000)\<rparr>)))"

text \<open>\<open>None\<close>: the credential command never ends.\<close>

definition resolveConnectorCredentials :: "connector_env \<Rightarrow> string \<Rightarrow> ServerConfig \<Rightarrow> connector_params option ctool" where
  "resolveConnectorCredentials e hostAlias cfg =
     (case cc_credentialProvider (sv_connector cfg) of
        ProviderAgent \<Rightarrow> cbind (resolveAgentCredentials e hostAlias cfg) (\<lambda>p. creturn (Some p))
      | ProviderCommand \<Rightarrow> resolveCommandCredentials e hostAlias cfg
      | ProviderNone \<Rightarrow>
          cthrow (js_error ''Remote connector credential provider is not configured. Set SSH_MCP_CONNECTOR_CREDENTIAL_PROVIDER=agent or command.''))"

section \<open>The tools\<close>

datatype inspect_check = CheckOs | CheckUptime | CheckDisk | CheckMemory

fun check_name :: "inspect_check \<Rightarrow> string" where
  "check_name CheckOs = ''os''"
| "check_name CheckUptime = ''uptime''"
| "check_name CheckDisk = ''disk''"
| "check_name CheckMemory = ''memory''"

fun commandForCheck :: "inspect_check \<Rightarrow> string" where
  "commandForCheck CheckUptime = ''uptime''"
| "commandForCheck CheckDisk = ''df -h /''"
| "commandForCheck CheckMemory = ''free -m || vm_stat || wmic OS get FreePhysicalMemory,TotalVisibleMemorySize /Value''"
| "commandForCheck CheckOs = ''''"

definition truncate_text :: "string \<Rightarrow> nat \<Rightarrow> string" where
  "truncate_text value limit = (if length value \<le> limit then value else take limit value @ [CHR 0x0A] @ ''[truncated]'')"

datatype explain_action = ExplainInspect | ExplainMutation | ExplainDestructive

fun explain_action_name :: "explain_action \<Rightarrow> string" where
  "explain_action_name ExplainInspect = ''inspect''"
| "explain_action_name ExplainMutation = ''mutation''"
| "explain_action_name ExplainDestructive = ''destructive-mutation''"

definition mapPolicyAction :: "explain_action \<Rightarrow> string option \<Rightarrow> PolicyAction" where
  "mapPolicyAction action path =
     (if action = ExplainInspect then (if truthy path then FsRead else SshOpen) else (if truthy path then FsWrite else ProcExec))"

datatype mutation_category = CatPackage | CatService | CatFile | CatCommand | CatTunnel | CatOther

fun category_name :: "mutation_category \<Rightarrow> string" where
  "category_name CatPackage = ''package''"
| "category_name CatService = ''service''"
| "category_name CatFile = ''file''"
| "category_name CatCommand = ''command''"
| "category_name CatTunnel = ''tunnel''"
| "category_name CatOther = ''other''"

fun mapMutationCategory :: "mutation_category \<Rightarrow> PolicyAction" where
  "mapMutationCategory CatPackage = EnsurePackage"
| "mapMutationCategory CatService = EnsureService"
| "mapMutationCategory CatFile = FsWrite"
| "mapMutationCategory CatTunnel = TunnelLocal"
| "mapMutationCategory CatCommand = ProcExec"
| "mapMutationCategory CatOther = ProcExec"

definition connector_isHostAllowed :: "regexp_engine \<Rightarrow> string \<Rightarrow> string list \<Rightarrow> bool" where
  "connector_isHostAllowed rx hostAlias hosts =
     (if hosts = [] then False
      else list_ex (\<lambda>h. h = hostAlias \<or> (case rx h of None \<Rightarrow> False | Some test \<Rightarrow> test hostAlias)) hosts)"

section \<open>Inputs\<close>

text \<open>\<open>args ?? \{\}\<close>.\<close>

definition tool_args :: "json \<Rightarrow> json" where
  "tool_args args = (if args = JUndefined \<or> args = JNull then JObj [] else args)"

record explain_input =
  xi_hostAlias :: "string option"
  xi_action :: explain_action
  xi_command :: "string option"
  xi_path :: "string option"

definition PolicyExplainSchema :: "json \<Rightarrow> explain_input option" where
  "PolicyExplainSchema v = (case v of
      JObj es \<Rightarrow> do {
        h \<leftarrow> z_optional (z_string 1 None) (jprop es ''hostAlias'');
        a \<leftarrow> z_default ExplainInspect (z_enum explain_action_name [ExplainInspect, ExplainMutation, ExplainDestructive]) (jprop es ''action'');
        c \<leftarrow> z_optional (z_string 0 None) (jprop es ''command'');
        p \<leftarrow> z_optional (z_string 0 None) (jprop es ''path'');
        Some \<lparr>xi_hostAlias = h, xi_action = a, xi_command = c, xi_path = p\<rparr>
      }
    | _ \<Rightarrow> None)"

record plan_input =
  mi_hostAlias :: string
  mi_goal :: string
  mi_category :: mutation_category

definition MutationPlanSchema :: "json \<Rightarrow> plan_input option" where
  "MutationPlanSchema v = (case v of
      JObj es \<Rightarrow> do {
        h \<leftarrow> z_string 1 None (jprop es ''hostAlias'');
        g \<leftarrow> z_string 1 (Some 1000) (jprop es ''goal'');
        c \<leftarrow> z_default CatOther (z_enum category_name [CatPackage, CatService, CatFile, CatCommand, CatTunnel, CatOther]) (jprop es ''category'');
        Some \<lparr>mi_hostAlias = h, mi_goal = g, mi_category = c\<rparr>
      }
    | _ \<Rightarrow> None)"

record inspect_input =
  ii_hostAlias :: string
  ii_checks :: "inspect_check list"

definition z_length :: "nat \<Rightarrow> nat \<Rightarrow> 'a list option \<Rightarrow> 'a list option" where
  "z_length lo hi r = (case r of None \<Rightarrow> None | Some xs \<Rightarrow> if lo \<le> length xs \<and> length xs \<le> hi then Some xs else None)"

definition HostInspectSchema :: "json \<Rightarrow> inspect_input option" where
  "HostInspectSchema v = (case v of
      JObj es \<Rightarrow> do {
        h \<leftarrow> z_string 1 None (jprop es ''hostAlias'');
        cs \<leftarrow> z_default [CheckOs] (\<lambda>w. z_length 1 4 (z_array (z_enum check_name [CheckOs, CheckUptime, CheckDisk, CheckMemory]) w)) (jprop es ''checks'');
        Some \<lparr>ii_hostAlias = h, ii_checks = cs\<rparr>
      }
    | _ \<Rightarrow> None)"

definition schema_input :: "connector_env \<Rightarrow> (json \<Rightarrow> 'a option) \<Rightarrow> json \<Rightarrow> 'a ctool" where
  "schema_input e schema args = crequire (schema (tool_args args)) (js_error (ce_zod e (tool_args args)))"

section \<open>Answers\<close>

record status_answer =
  sa_toolProfile :: ToolProfile
  sa_credentialProvider :: ConnectorCredentialProvider
  sa_credentialBrokerConfigured :: bool
  sa_oauthMode :: bool
  sa_oauthConfigured :: bool
  sa_allowedOriginsConfigured :: bool
  sa_publicUrlConfigured :: bool
  sa_maxHttpSessions :: int
  sa_httpSessionIdleTtlMs :: int
  sa_hostAllowlistConfigured :: bool
  sa_safeRemoteToolsOnly :: bool

definition connector_status :: "ServerConfig \<Rightarrow> status_answer" where
  "connector_status cfg =
     (let c = sv_connector cfg; a = sv_auth cfg; h = sv_http cfg in
      \<lparr>sa_toolProfile = cc_toolProfile c, sa_credentialProvider = cc_credentialProvider c,
       sa_credentialBrokerConfigured = (cc_credentialProvider c = ProviderAgent \<or> cc_credentialProvider c = ProviderCommand \<and> truthy (cc_credentialCommand c)),
       sa_oauthMode = au_oauth a, sa_oauthConfigured = (au_oauth a \<and> truthy (au_issuer a) \<and> truthy (au_jwksUrl a)),
       sa_allowedOriginsConfigured = (hc_allowedOrigins h \<noteq> []), sa_publicUrlConfigured = truthy (hc_publicUrl h),
       sa_maxHttpSessions = hc_maxSessions h, sa_httpSessionIdleTtlMs = hc_sessionIdleTtlMs h,
       sa_hostAllowlistConfigured = (allowedHosts (sv_policy cfg) \<noteq> []), sa_safeRemoteToolsOnly = (cc_toolProfile c \<noteq> FullProfile)\<rparr>)"

text \<open>The hosts of the answer, and whether there is an allow list.\<close>

definition listHosts :: "connector_env \<Rightarrow> ServerConfig \<Rightarrow> (string list \<times> bool) ctool" where
  "listHosts e cfg st =
     (case getConfiguredHosts (ce_home e) (ce_config e) (now_at e st) (cs_cache st) of
        (cache, configuredHosts) \<Rightarrow>
          let hosts = allowedHosts (sv_policy cfg) in
          (st\<lparr>cs_cache := cache\<rparr>, Inr (filter (\<lambda>h. connector_isHostAllowed (ce_rx e) h hosts) configuredHosts, hosts \<noteq> [])))"

text \<open>A context with an action and its host, command and path where they are given.\<close>

definition explain_context :: "PolicyAction \<Rightarrow> string option \<Rightarrow> string option \<Rightarrow> string option \<Rightarrow> bool \<Rightarrow> bool \<Rightarrow> PolicyContext" where
  "explain_context action host command path rawSudo destructive =
     \<lparr>ctx_action = action, ctx_host = given host, ctx_username = None, ctx_command = given command, ctx_path = given path,
      ctx_secondaryPath = None, ctx_localBindHost = None, ctx_localPort = None, ctx_remoteHost = None, ctx_remotePort = None,
      ctx_mode = None, ctx_rawSudo = rawSudo, ctx_destructive = destructive\<rparr>"

definition explainPolicy :: "connector_env \<Rightarrow> PolicyEngine \<Rightarrow> json \<Rightarrow> (PolicyDecision \<times> bool) ctool" where
  "explainPolicy e eng args =
     cbind (schema_input e PolicyExplainSchema args) (\<lambda>input.
       creturn (snd (explain (ce_rx e) (ce_local e) eng
         (explain_context (mapPolicyAction (xi_action input) (xi_path input)) (xi_hostAlias input) (xi_command input) (xi_path input)
            (case xi_command input of None \<Rightarrow> False | Some c \<Rightarrow> startsWith (trimStart c) ''sudo '') (xi_action input = ExplainDestructive))),
         xi_action input \<noteq> ExplainInspect))"

definition planMutation :: "connector_env \<Rightarrow> PolicyEngine \<Rightarrow> json \<Rightarrow> (plan_input \<times> PolicyDecision) ctool" where
  "planMutation e eng args =
     cbind (schema_input e MutationPlanSchema args) (\<lambda>input.
       creturn (input, snd (explain (ce_rx e) (ce_local e) eng
         (explain_context (mapMutationCategory (mi_category input)) (Some (mi_hostAlias input)) None None False
            (mi_category input = CatFile \<or> mi_category input = CatCommand)))))"

section \<open>Inspection\<close>

datatype inspection = InspectOs OSInfo | InspectCommand int string string

record inspect_answer =
  ia_hostAlias :: string
  ia_host :: string
  ia_checks :: "inspect_check list"
  ia_inspection :: "(inspect_check, inspection) jmap"
  ia_strictHostKeys :: bool

definition open_connector_session :: "connector_env \<Rightarrow> session_config \<Rightarrow> PolicyEngine \<Rightarrow> ConnectionParams \<Rightarrow> SessionResult ctool" where
  "open_connector_session e scfg eng params st =
     (case openSession scfg (\<lambda>ctx. snd (assertAllowed (ce_rx e) (ce_local e) eng ctx)) (ce_auth e) (ce_digests e) (ce_files e) (ce_denied e)
             (ce_uuid e) (now_at e st) params (ce_connect e) (cs_manager st) of
        (m, Inl err) \<Rightarrow> (st\<lparr>cs_manager := m\<rparr>, Inl (ToolError err))
      | (m, Inr r) \<Rightarrow> (st\<lparr>cs_manager := m\<rparr>, Inr r))"

definition exec_check :: "connector_env \<Rightarrow> string \<Rightarrow> string \<Rightarrow> exec_answer ctool" where
  "exec_check e sid command st =
     (st\<lparr>cs_calls := cs_calls st @ [(sid, command)]\<rparr>, ce_exec e (length (cs_calls st)) command)"

definition get_connector_session :: "connector_env \<Rightarrow> string \<Rightarrow> SSHSession option ctool" where
  "get_connector_session e sid st =
     (case Sessions.getSession (now_at e st) sid (cs_manager st) of (m, r) \<Rightarrow> (st\<lparr>cs_manager := m\<rparr>, Inr r))"

definition run_check :: "connector_env \<Rightarrow> string \<Rightarrow> inspect_check \<Rightarrow> inspection ctool" where
  "run_check e sid check =
     (if check = CheckOs then (\<lambda>st. (st, case ce_osInfo e (length (cs_calls st)) of Inl err \<Rightarrow> Inl err | Inr os \<Rightarrow> Inr (InspectOs os)))
      else cbind (get_connector_session e sid) (\<lambda>active.
        if active = None then cthrow (js_error ''Inspection session expired unexpectedly.'')
        else cbind (exec_check e sid (commandForCheck check)) (\<lambda>r.
          creturn (InspectCommand (or_else (ea_code r) 0) (truncate_text (ea_stdout r) 4000) (truncate_text (ea_stderr r) 4000)))))"

fun run_checks :: "connector_env \<Rightarrow> string \<Rightarrow> inspect_check list \<Rightarrow> (inspect_check, inspection) jmap \<Rightarrow> (inspect_check, inspection) jmap ctool" where
  "run_checks e sid [] acc = creturn acc"
| "run_checks e sid (check # checks) acc = cbind (run_check e sid check) (\<lambda>r. run_checks e sid checks (jm_set check r acc))"

definition count_session :: "(Metrics \<Rightarrow> Metrics) \<Rightarrow> unit ctool" where
  "count_session f = cmodify (\<lambda>st. st\<lparr>cs_metrics := f (cs_metrics st)\<rparr>)"

definition close_connector_session :: "string \<Rightarrow> unit ctool" where
  "close_connector_session sid =
     cseq (cmodify (\<lambda>st. st\<lparr>cs_manager := fst (closeSession sid (cs_manager st))\<rparr>)) (count_session recordSessionClosed)"

text \<open>\<open>None\<close>: the credential command never ends.\<close>

definition inspectHost :: "connector_env \<Rightarrow> session_config \<Rightarrow> PolicyEngine \<Rightarrow> ServerConfig \<Rightarrow> json \<Rightarrow> inspect_answer option ctool" where
  "inspectHost e scfg eng cfg args =
     cbind (schema_input e HostInspectSchema args) (\<lambda>input.
     cbind (resolveConnectorCredentials e (ii_hostAlias input) cfg) (\<lambda>resolved.
     case resolved of
       None \<Rightarrow> creturn None
     | Some credentials \<Rightarrow>
         cbind (open_connector_session e scfg eng (cp_params credentials)) (\<lambda>session.
         cseq (count_session recordSessionCreated)
         (cfinally
           (cbind (run_checks e (sr_sessionId session) (ii_checks input) []) (\<lambda>r.
              creturn (Some \<lparr>ia_hostAlias = ii_hostAlias input, ia_host = cn_host (cp_params credentials), ia_checks = ii_checks input,
                ia_inspection = r, ia_strictHostKeys = (cn_hostKeyPolicy (cp_params credentials) = Some Strict)\<rparr>)))
           (close_connector_session (sr_sessionId session))))))"

section \<open>What the credentials guarantee\<close>

lemma z_enum_in: "z_enum name xs v = Some x \<Longrightarrow> x \<in> set xs"
  by (auto simp: z_enum_def find_Some_iff split: json.splits)

lemma z_default_enum: "z_default d (z_enum name xs) v = Some x \<Longrightarrow> x = d \<or> x \<in> set xs"
  by (auto simp: z_default_def dest: z_enum_in split: if_splits)

lemma response_schema:
  assumes "CommandCredentialResponseSchema v = Some r"
  shows "cr_hostKeyPolicy r \<in> {Strict, AcceptNew} \<and> cr_auth r \<in> {AuthAgent, AuthKey}"
proof -
  obtain es where "v = JObj es" using assms by (auto simp: CommandCredentialResponseSchema_def split: json.splits)
  then show ?thesis
    using assms by (auto simp: CommandCredentialResponseSchema_def bind_eq_Some_conv split: if_splits dest!: z_default_enum)
qed

lemma credential_events_schema:
  "credential_events parse zod n out es = Some (Inr r) \<Longrightarrow> \<exists>v. CommandCredentialResponseSchema v = Some r"
  by (induction parse zod n out es rule: credential_events.induct) (auto simp: Let_def split: if_splits sum.splits option.splits)

text \<open>Credentials for an alias: no secret of the caller, the policy asked for the alias, in enforce mode.\<close>

definition brokered :: "string \<Rightarrow> ConnectionParams \<Rightarrow> bool" where
  "brokered hostAlias p \<longleftrightarrow> cn_policyHost p = Some hostAlias \<and> cn_policyMode p = Some Enforce \<and> cn_username p \<noteq> [] \<and>
     cn_hostKeyPolicy p \<in> {Some Strict, Some AcceptNew} \<and> cn_auth p \<in> {Some AuthAgent, Some AuthKey} \<and>
     (cn_auth p = Some AuthKey \<longrightarrow> truthy (cn_privateKeyPath p)) \<and> cn_password p = None \<and> cn_privateKey p = None \<and> cn_passphrase p = None"

lemma truthy_or_else: "truthy v \<Longrightarrow> or_else v d \<noteq> []"
  by (cases v) auto

lemma given_truthy [simp]: "truthy (given v) = truthy v"
  by (simp add: given_def)

lemma agent_brokered: "resolveAgentCredentials e hostAlias cfg st = (st', Inr p) \<Longrightarrow> brokered hostAlias (cp_params p)"
  by (auto simp: resolveAgentCredentials_def cbind_def resolve_alias_def brokered_def Let_def truthy_or_else split: if_splits prod.splits)

lemma command_brokered:
  assumes "resolveCommandCredentials e hostAlias cfg st = (st', Inr (Some p))"
  shows "brokered hostAlias (cp_params p)"
proof -
  obtain r where r: "runCredentialCommand e hostAlias (sv_connector cfg) = Some (Inr r)"
    using assms by (auto simp: resolveCommandCredentials_def cbind_def resolve_alias_def Let_def split: if_splits prod.splits option.splits sum.splits)
  then have "\<exists>v. CommandCredentialResponseSchema v = Some r"
    by (intro credential_events_schema) (auto simp: runCredentialCommand_def split: if_splits)
  then have "cr_hostKeyPolicy r \<in> {Strict, AcceptNew}" "cr_auth r \<in> {AuthAgent, AuthKey}" using response_schema by blast+
  then show ?thesis
    using assms r by (auto simp: resolveCommandCredentials_def cbind_def resolve_alias_def brokered_def Let_def truthy_or_else split: if_splits prod.splits)
qed

lemma credentials_brokered:
  "resolveConnectorCredentials e hostAlias cfg st = (st', Inr (Some p)) \<Longrightarrow> brokered hostAlias (cp_params p)"
  using agent_brokered command_brokered
  by (auto simp: resolveConnectorCredentials_def cbind_def split: ConnectorCredentialProvider.splits sum.splits prod.splits)

text \<open>Resolving credentials changes nothing but the cache.\<close>

lemma credentials_frame:
  "resolveConnectorCredentials e hostAlias cfg st = (st', r) \<Longrightarrow> \<exists>cache. st' = st\<lparr>cs_cache := cache\<rparr>"
proof -
  have same: "\<exists>cache. st = st\<lparr>cs_cache := cache\<rparr>" by (rule exI [of _ "cs_cache st"]) simp
  show "resolveConnectorCredentials e hostAlias cfg st = (st', r) \<Longrightarrow> \<exists>cache. st' = st\<lparr>cs_cache := cache\<rparr>"
    using same
    by (auto simp: resolveConnectorCredentials_def resolveAgentCredentials_def resolveCommandCredentials_def resolve_alias_def cbind_def Let_def
        split: ConnectorCredentialProvider.splits sum.splits prod.splits option.splits if_splits)
qed

text \<open>The credential command cannot hang the server or flood it: whatever it writes, once the time is up the call has an
  answer; and an answer that is accepted came in at most 32 KiB of output from a command that ended with code 0,
  and satisfies the schema, which knows no insecure host key policy and no password.\<close>
theorem credential_command_bounded:
  "(ChildTimeout \<in> set es \<longrightarrow> credential_events parse zod n out es \<noteq> None) \<and>
   (credential_events parse zod n out es = Some (Inr r) \<longrightarrow>
      (\<exists>chunks rest v. es = map ChildData chunks @ ChildClose (Some 0) # rest \<and> n + sum_list (map utf8_length chunks) \<le> max n (32 * 1024) \<and>
         parse (out @ concat chunks) = Inr v \<and> CommandCredentialResponseSchema v = Some r))"
proof (induction parse zod n out es rule: credential_events.induct)
  case (2 parse zod bytes stdout chunk es)
  show ?case
  proof (cases "32 * 1024 < bytes + utf8_length chunk")
    case False
    have "\<exists>chunks rest v. ChildData chunk # es = map ChildData chunks @ ChildClose (Some 0) # rest \<and>
        bytes + sum_list (map utf8_length chunks) \<le> max bytes (32 * 1024) \<and> parse (stdout @ concat chunks) = Inr v \<and> CommandCredentialResponseSchema v = Some r"
      if accepted: "credential_events parse zod (bytes + utf8_length chunk) (stdout @ chunk) es = Some (Inr r)"
    proof -
      obtain chunks rest v where "es = map ChildData chunks @ ChildClose (Some 0) # rest"
          "bytes + utf8_length chunk + sum_list (map utf8_length chunks) \<le> max (bytes + utf8_length chunk) (32 * 1024)"
          "parse ((stdout @ chunk) @ concat chunks) = Inr v" "CommandCredentialResponseSchema v = Some r"
        using 2 [OF refl] False accepted by auto
      then show ?thesis using False by (intro exI [of _ "chunk # chunks"] exI [of _ rest] exI [of _ v]) auto
    qed
    then show ?thesis using 2 [OF refl] False by (auto simp: Let_def)
  qed (simp add: Let_def)
next
  case (5 parse zod bytes stdout code es)
  then show ?case by (auto simp: exI [of _ "[]"] split: if_splits sum.splits option.splits)
qed simp_all

section \<open>What an inspection does\<close>

definition check_commands :: "string set" where
  "check_commands = commandForCheck ` {CheckUptime, CheckDisk, CheckMemory}"

lemma run_check_frame:
  assumes "run_check e sid check st = (st', r)"
  shows "cs_metrics st' = cs_metrics st \<and> (\<exists>new. cs_calls st' = cs_calls st @ new \<and> snd ` set new \<subseteq> check_commands)"
proof (cases "check = CheckOs")
  case False
  then have "commandForCheck check \<in> check_commands" by (cases check) (auto simp: check_commands_def)
  then show ?thesis
    using assms False
    by (auto simp: run_check_def cbind_def get_connector_session_def exec_check_def split: if_splits prod.splits sum.splits)
qed (use assms in \<open>auto simp: run_check_def\<close>)

lemma run_checks_frame:
  "run_checks e sid checks acc st = (st', r) \<Longrightarrow>
     cs_metrics st' = cs_metrics st \<and> (\<exists>new. cs_calls st' = cs_calls st @ new \<and> snd ` set new \<subseteq> check_commands)"
proof (induction e sid checks acc arbitrary: st rule: run_checks.induct)
  case (2 e sid check checks acc)
  obtain st1 r1 where one: "run_check e sid check st = (st1, r1)" by (meson surj_pair)
  note frame = run_check_frame [OF one]
  show ?case
  proof (cases r1)
    case (Inl err)
    then show ?thesis using 2(2) one frame by (auto simp: cbind_def)
  next
    case (Inr x)
    then have "run_checks e sid checks (jm_set check x acc) st1 = (st', r)" using 2(2) one by (simp add: cbind_def)
    from 2(1) [OF this] obtain new2 where "cs_metrics st' = cs_metrics st1" "cs_calls st' = cs_calls st1 @ new2" "snd ` set new2 \<subseteq> check_commands"
      by auto
    moreover obtain new1 where "cs_metrics st1 = cs_metrics st" "cs_calls st1 = cs_calls st @ new1" "snd ` set new1 \<subseteq> check_commands"
      using frame by auto
    ultimately have "cs_metrics st' = cs_metrics st" "cs_calls st' = cs_calls st @ (new1 @ new2)" "snd ` set (new1 @ new2) \<subseteq> check_commands"
      by auto
    then show ?thesis by blast
  qed
qed auto

lemma jm_get_filter_None: "jm_get m k = None \<Longrightarrow> jm_get (filter P m) k = None"
  by (auto simp: jm_get_None_iff)

lemma finish_closing_absent: "jm_get (sessions m) sid = None \<Longrightarrow> jm_get (sessions (finish_closing m)) sid = None"
  by (simp add: finish_closing_def close_ends jm_get_filter_None)

lemma evict_sessions: "sessions (evictOldestSession now m) = sessions m"
  by (auto simp: evictOldestSession_def closeSession_start_def split: option.splits)

lemma open_start_sessions: "openSession_start cfg policy env sid now params m = (m', r) \<Longrightarrow> sessions m' = sessions m"
  by (auto simp: openSession_start_def Let_def evict_sessions split: sum.splits if_splits)

text \<open>A session that could not be opened leaves no trace; one that was opened has the new identifier and the permission
  of the policy.\<close>

lemma open_failed_absent:
  assumes "openSession cfg policy env dg files refusal sid now params outcome m = (m', Inl err)" and "jm_get (sessions m) sid = None"
  shows "jm_get (sessions m') sid = None"
proof -
  obtain m1 r1 where one: "openSession_start cfg policy env sid now params m = (m1, r1)" by (meson surj_pair)
  have "jm_get (sessions (finish_closing m1)) sid = None"
    using open_start_sessions [OF one] assms(2) by (simp add: finish_closing_absent)
  then show ?thesis
    using assms(1) one by (auto simp: openSession_def openSession_end_def Let_def split: sum.splits open_reply.splits connect_outcome.splits prod.splits if_splits)
qed

lemma open_started: "openSession_start cfg policy env sid now params m = (m', Inr r) \<Longrightarrow>
    is_ok (policy (open_context params)) \<and> (case r of Explained x \<Rightarrow> sr_sessionId x = sid | Connecting opn \<Rightarrow> op_id opn = sid)"
  by (auto simp: openSession_start_def Let_def is_ok_iff split: sum.splits if_splits)

lemma open_succeeded:
  assumes "openSession cfg policy env dg files refusal sid now params outcome m = (m', Inr r)"
  shows "sr_sessionId r = sid \<and> is_ok (policy (open_context params))"
proof -
  obtain m1 x where one: "openSession_start cfg policy env sid now params m = (m1, Inr x)"
    using assms by (auto simp: openSession_def split: prod.splits sum.splits)
  then show ?thesis
    using assms open_started [OF one]
    by (auto simp: openSession_def openSession_end_def open_result_def Let_def split: open_reply.splits connect_outcome.splits prod.splits if_splits)
qed

text \<open>The identifiers of the sessions, and how the operations change them.\<close>

definition session_ids :: "session_manager \<Rightarrow> string set" where
  "session_ids m = fst ` set (sessions m)"

lemma session_ids_absent: "jm_get (sessions m) sid = None \<longleftrightarrow> sid \<notin> session_ids m"
  by (simp add: session_ids_def jm_get_None_iff)

lemma session_ids_cong: "sessions m' = sessions m \<Longrightarrow> session_ids m' = session_ids m"
  by (simp add: session_ids_def)

lemma session_ids_set: "sessions m' = jm_set sid s (sessions m) \<Longrightarrow> session_ids m' = insert sid (session_ids m)"
  by (simp add: session_ids_def jm_set_keys)

lemma getSession_ids: "session_ids (fst (Sessions.getSession now sid m)) = session_ids m"
proof (cases "jm_get (sessions m) sid")
  case (Some s)
  then have "insert sid (session_ids m) = session_ids m" using session_ids_absent [of m sid] by auto
  moreover have "sessions (fst (Sessions.getSession now sid m)) = sessions m \<or> (\<exists>s'. sessions (fst (Sessions.getSession now sid m)) = jm_set sid s' (sessions m))"
    using Some by (auto simp: Sessions.getSession_def Let_def closeSession_start_def)
  ultimately show ?thesis using session_ids_cong session_ids_set by metis
qed (simp add: Sessions.getSession_def)

lemma run_check_ids:
  assumes "run_check e sid check st = (st', r)"
  shows "session_ids (cs_manager st') = session_ids (cs_manager st)"
proof -
  obtain m active where got: "Sessions.getSession (now_at e st) sid (cs_manager st) = (m, active)" by (meson surj_pair)
  have "cs_manager st' = cs_manager st \<or> cs_manager st' = m"
    using assms by (auto simp: run_check_def cbind_def get_connector_session_def exec_check_def got split: if_splits sum.splits)
  moreover have "session_ids m = session_ids (cs_manager st)" using getSession_ids [of "now_at e st" sid "cs_manager st"] unfolding got by simp
  ultimately show ?thesis by (elim disjE) (simp_all only:)
qed

lemma run_checks_ids: "run_checks e sid checks acc st = (st', r) \<Longrightarrow> session_ids (cs_manager st') = session_ids (cs_manager st)"
proof (induction e sid checks acc arbitrary: st rule: run_checks.induct)
  case (2 e sid check checks acc)
  obtain st1 r1 where one: "run_check e sid check st = (st1, r1)" by (meson surj_pair)
  show ?case
  proof (cases r1)
    case (Inr x)
    then have "run_checks e sid checks (jm_set check x acc) st1 = (st', r)" using 2(2) one by (simp add: cbind_def)
    from 2(1) [OF this] run_check_ids [OF one] show ?thesis by simp
  qed (use 2(2) one run_check_ids [OF one] in \<open>simp add: cbind_def\<close>)
qed simp

lemma openSession_ids:
  assumes "openSession cfg policy env dg files refusal sid now params outcome m = (m', r)"
  shows "session_ids m' \<subseteq> insert sid (session_ids m)"
proof -
  obtain m1 r1 where one: "openSession_start cfg policy env sid now params m = (m1, r1)" by (meson surj_pair)
  have ids: "session_ids (finish_closing m1) \<subseteq> session_ids m"
    using open_start_sessions [OF one] by (auto simp: session_ids_def finish_closing_def close_ends)
  have "sessions m' = sessions (finish_closing m1) \<or> (\<exists>s. sessions m' = jm_set sid s (sessions (finish_closing m1)))"
    using assms one open_started [of cfg policy env sid now params m m1]
    by (auto simp: openSession_def openSession_end_def Let_def split: sum.splits open_reply.splits connect_outcome.splits prod.splits if_splits)
  then show ?thesis using ids session_ids_cong session_ids_set by blast
qed

lemma closeSession_ids: "session_ids (fst (closeSession sid m)) = session_ids m - {sid}"
proof (cases "jm_has (sessions m) sid")
  case True
  then show ?thesis by (auto simp: closeSession_def closeSession_start_def closeSession_end_def jm_delete_def session_ids_def)
next
  case False
  then show ?thesis using session_ids_absent [of m sid] by (simp add: closeSession_def closeSession_start_def jm_has_def)
qed

text \<open>The part of the tool after the credentials.\<close>

definition inspect_session :: "connector_env \<Rightarrow> session_config \<Rightarrow> PolicyEngine \<Rightarrow> ConnectionParams \<Rightarrow> inspect_check list \<Rightarrow>
    ((inspect_check, inspection) jmap \<Rightarrow> 'a) \<Rightarrow> 'a ctool" where
  "inspect_session e scfg eng params checks answer =
     cbind (open_connector_session e scfg eng params) (\<lambda>session.
       cseq (count_session recordSessionCreated)
       (cfinally (cbind (run_checks e (sr_sessionId session) checks []) (\<lambda>r. creturn (answer r)))
          (close_connector_session (sr_sessionId session))))"

lemma inspect_session_confined:
  assumes "inspect_session e scfg eng params checks answer st = (st', r)" and "brokered hostAlias params"
    and "jm_get (sessions (cs_manager st)) (ce_uuid e) = None"
  shows "session_ids (cs_manager st') \<subseteq> session_ids (cs_manager st) \<and>
    m_sessions_created (cs_metrics st') - m_sessions_closed (cs_metrics st') = m_sessions_created (cs_metrics st) - m_sessions_closed (cs_metrics st) \<and>
    (\<exists>new. cs_calls st' = cs_calls st @ new \<and> snd ` set new \<subseteq> check_commands \<and>
       (new \<noteq> [] \<longrightarrow> allowed (evaluate (ce_rx e) (ce_local e) eng (open_context params))))"
proof -
  let ?policy = "\<lambda>ctx. snd (assertAllowed (ce_rx e) (ce_local e) eng ctx)"
  obtain m1 r1 where opened: "openSession scfg ?policy (ce_auth e) (ce_digests e) (ce_files e) (ce_denied e) (ce_uuid e) (now_at e st)
      params (ce_connect e) (cs_manager st) = (m1, r1)" by (meson surj_pair)
  show ?thesis
  proof (cases r1)
    case (Inl err)
    then have "st' = st\<lparr>cs_manager := m1\<rparr>"
      using assms(1) opened by (auto simp: inspect_session_def cbind_def open_connector_session_def)
    moreover have "ce_uuid e \<notin> session_ids m1"
      using open_failed_absent [of scfg ?policy] opened Inl assms(3) by (simp add: session_ids_absent)
    moreover have "session_ids m1 \<subseteq> insert (ce_uuid e) (session_ids (cs_manager st))" by (rule openSession_ids [OF opened])
    ultimately show ?thesis by auto
  next
    case (Inr session)
    have ok: "sr_sessionId session = ce_uuid e" "is_ok (?policy (open_context params))" using open_succeeded opened Inr by blast+
    let ?st1 = "st\<lparr>cs_manager := m1, cs_metrics := recordSessionCreated (cs_metrics st)\<rparr>"
    obtain st2 r2 where checks: "run_checks e (ce_uuid e) checks [] ?st1 = (st2, r2)" by (meson surj_pair)
    have "st' = st2\<lparr>cs_manager := fst (closeSession (ce_uuid e) (cs_manager st2)), cs_metrics := recordSessionClosed (cs_metrics st2)\<rparr>"
      using assms(1) opened Inr ok(1) checks
      by (auto simp: inspect_session_def cbind_def cseq_def open_connector_session_def count_session_def cfinally_def close_connector_session_def
          split: sum.splits)
    moreover obtain new where "cs_metrics st2 = recordSessionCreated (cs_metrics st)" "cs_calls st2 = cs_calls st @ new" "snd ` set new \<subseteq> check_commands"
      using run_checks_frame [OF checks] by auto
    moreover have "allowed (evaluate (ce_rx e) (ce_local e) eng (open_context params))"
      using assertAllowed_enforced [OF ok(2)] assms(2) by (simp add: brokered_def)
    moreover have "session_ids (fst (closeSession (ce_uuid e) (cs_manager st2))) \<subseteq> session_ids (cs_manager st)"
      using openSession_ids [OF opened] run_checks_ids [OF checks] by (auto simp: closeSession_ids)
    ultimately show ?thesis by (simp add: metrics_defs)
  qed
qed

lemma inspectHost_eq:
  "inspectHost e scfg eng cfg args =
     cbind (schema_input e HostInspectSchema args) (\<lambda>input.
     cbind (resolveConnectorCredentials e (ii_hostAlias input) cfg) (\<lambda>resolved.
     case resolved of
       None \<Rightarrow> creturn None
     | Some credentials \<Rightarrow> inspect_session e scfg eng (cp_params credentials) (ii_checks input) (\<lambda>r.
         Some \<lparr>ia_hostAlias = ii_hostAlias input, ia_host = cn_host (cp_params credentials), ia_checks = ii_checks input,
               ia_inspection = r, ia_strictHostKeys = (cn_hostKeyPolicy (cp_params credentials) = Some Strict)\<rparr>)))"
  unfolding inspectHost_def inspect_session_def ..

lemma inspectHost_effects:
  assumes "inspectHost e scfg eng cfg args st = (st', r)" and "jm_get (sessions (cs_manager st)) (ce_uuid e) = None"
  shows "session_ids (cs_manager st') \<subseteq> session_ids (cs_manager st) \<and>
    m_sessions_created (cs_metrics st') - m_sessions_closed (cs_metrics st') = m_sessions_created (cs_metrics st) - m_sessions_closed (cs_metrics st) \<and>
    (\<exists>new. cs_calls st' = cs_calls st @ new \<and> snd ` set new \<subseteq> check_commands \<and>
       (new \<noteq> [] \<longrightarrow> (\<exists>input params. HostInspectSchema (tool_args args) = Some input \<and> brokered (ii_hostAlias input) params \<and>
          ctx_host (open_context params) = Some (ii_hostAlias input) \<and> allowed (evaluate (ce_rx e) (ce_local e) eng (open_context params)))))"
proof (cases "HostInspectSchema (tool_args args)")
  case None
  then have "st' = st" using assms(1) by (simp add: inspectHost_eq cbind_def schema_input_def crequire_def)
  then show ?thesis using assms(2) by simp
next
  case (Some input)
  obtain st1 r1 where cred: "resolveConnectorCredentials e (ii_hostAlias input) cfg st = (st1, r1)" by (meson surj_pair)
  obtain cache where st1: "st1 = st\<lparr>cs_cache := cache\<rparr>" using credentials_frame [OF cred] by blast
  show ?thesis
  proof (cases "\<exists>p. r1 = Inr (Some p)")
    case True
    then obtain p where p: "r1 = Inr (Some p)" by blast
    have b: "brokered (ii_hostAlias input) (cp_params p)" using credentials_brokered cred p by simp
    then have named: "ctx_host (open_context (cp_params p)) = Some (ii_hostAlias input)" by (simp add: open_context_def brokered_def)
    have "inspect_session e scfg eng (cp_params p) (ii_checks input) (\<lambda>r. Some \<lparr>ia_hostAlias = ii_hostAlias input, ia_host = cn_host (cp_params p),
        ia_checks = ii_checks input, ia_inspection = r, ia_strictHostKeys = (cn_hostKeyPolicy (cp_params p) = Some Strict)\<rparr>) st1 = (st', r)"
      using assms(1) cred p by (simp add: inspectHost_eq cbind_def schema_input_def crequire_def Some)
    from inspect_session_confined [OF this b] assms(2) Some b named show ?thesis by (auto simp: st1)
  next
    case False
    then have "st' = st1" using assms(1) cred
      by (auto simp: inspectHost_eq cbind_def schema_input_def crequire_def Some split: sum.splits option.splits)
    then show ?thesis using assms(2) by (simp add: st1)
  qed
qed


theorem credential_command_bounded_witness:
  "credential_events (\<lambda>_. Inr (JObj [])) (\<lambda>_. ''invalid'') 0 '''' [ChildData ''x'', ChildTimeout] \<noteq> None"
  using credential_command_bounded [of "[ChildData ''x'', ChildTimeout]" "\<lambda>_. Inr (JObj [])" "\<lambda>_. ''invalid''" 0 "''''"] by simp

definition sample_connector_env :: connector_env where
  "sample_connector_env = \<lparr>ce_home = ''/home/ada'', ce_config = None, ce_child = (\<lambda>_ _ _. [ChildTimeout]), ce_parse = (\<lambda>_. Inl ''no JSON''),
     ce_zod = (\<lambda>_. ''invalid''), ce_now = (\<lambda>_. 1000), ce_uuid = ''ssh-1'', ce_auth = sample_auth_env, ce_digests = sample_digests,
     ce_files = (\<lambda>_. Some sample_known_hosts), ce_denied = ThrownError ''host denied'', ce_connect = HostKeyShown ''SHA256:fp-AAAA'' True,
     ce_osInfo = (\<lambda>_. Inl (JsError None ''no system'')),
     ce_exec = (\<lambda>_ _. Inr \<lparr>ea_code = Some 0, ea_stdout = ''up'', ea_stderr = ''''\<rparr>), ce_rx = (\<lambda>_. None), ce_local = sample_env\<rparr>"

definition sample_connector_config :: ServerConfig where
  "sample_connector_config = (DEFAULT_CONFIG ''/home/ada'' ''/tmp'')\<lparr>sv_connector :=
     \<lparr>cc_toolProfile = Chatgpt, cc_credentialProvider = ProviderAgent, cc_credentialCommand = None, cc_credentialCommandArgs = [],
      cc_credentialCommandTimeoutMs = 5000, cc_defaultUsername = Some ''ada''\<rparr>\<rparr>"

definition sample_connector_state :: connector_state where
  "sample_connector_state = \<lparr>cs_manager = new_manager, cs_metrics = createEmptyMetrics 0,
     cs_cache = \<lparr>globalConfigParser = None, globalConfigParsedAt = 0\<rparr>, cs_calls = []\<rparr>"

definition sample_inspection :: "connector_state \<times> (tool_error + inspect_answer option)" where
  "sample_inspection = inspectHost sample_connector_env sample_session_config sample_engine sample_connector_config
     (JObj [(''hostAlias'', JStr ''db.lab.example''), (''checks'', JArr [JStr ''uptime''])]) sample_connector_state"

lemma sample_inspection_calls: "cs_calls (fst sample_inspection) = [(''ssh-1'', ''uptime'')]"
  by code_simp


end
