(* ===== verification/ToolSchemas.thy ===== *)
theory ToolSchemas
  imports Connector
begin

text \<open>
  The schemas of the tools' arguments (\<open>src/types.ts\<close>), as the lists of fields the source writes, and what
  \<open>parse\<close> of the schema library makes of a value: every declared field is checked, a missing one may have a default, and
  keys that are not declared are dropped. The numbers of arguments are integers, so that \<open>int()\<close> demands nothing more. Then the parameters of a
  connection that a call of \<open>ssh_open_session\<close> leads to.
\<close>

section \<open>Fields\<close>

datatype z_kind =
    ZString nat
  | ZNumber "int option" "int option"
  | ZBool
  | ZEnum "string list"
  | ZStrings
  | ZEnvMap

datatype presence = Required | Optional | Default json

type_synonym z_schema = "(string \<times> z_kind \<times> presence) list"

fun kind_ok :: "z_kind \<Rightarrow> json \<Rightarrow> bool" where
  "kind_ok (ZString lo) v = (case v of JStr s \<Rightarrow> lo \<le> length s | _ \<Rightarrow> False)"
| "kind_ok (ZNumber lo hi) v = (case v of
     JNum n \<Rightarrow> (case lo of None \<Rightarrow> True | Some l \<Rightarrow> l \<le> n) \<and> (case hi of None \<Rightarrow> True | Some h \<Rightarrow> n \<le> h) | _ \<Rightarrow> False)"
| "kind_ok ZBool v = (case v of JBool _ \<Rightarrow> True | _ \<Rightarrow> False)"
| "kind_ok (ZEnum names) v = (case v of JStr s \<Rightarrow> s \<in> set names | _ \<Rightarrow> False)"
| "kind_ok ZStrings v = (case v of JArr vs \<Rightarrow> list_all (\<lambda>x. asString x \<noteq> None) vs | _ \<Rightarrow> False)"
| "kind_ok ZEnvMap v = (case v of JObj es \<Rightarrow> list_all (\<lambda>(k, x). env_key_ok k \<and> asString x \<noteq> None) es | _ \<Rightarrow> False)"

definition field_value :: "z_kind \<Rightarrow> presence \<Rightarrow> json \<Rightarrow> json option" where
  "field_value kind p v =
     (if v = JUndefined then (case p of Required \<Rightarrow> None | Optional \<Rightarrow> Some JUndefined | Default d \<Rightarrow> Some d)
      else if kind_ok kind v then Some v else None)"

fun parse_fields :: "z_schema \<Rightarrow> (string \<times> json) list \<Rightarrow> (string \<times> json) list option" where
  "parse_fields [] es = Some []"
| "parse_fields ((name, kind, p) # fs) es =
     (case field_value kind p (jprop es name) of
        None \<Rightarrow> None
      | Some v \<Rightarrow> map_option (\<lambda>r. (name, v) # r) (parse_fields fs es))"

definition parse_schema :: "z_schema \<Rightarrow> json \<Rightarrow> (string \<times> json) list option" where
  "parse_schema schema v = (case v of JObj es \<Rightarrow> parse_fields schema es | _ \<Rightarrow> None)"

section \<open>The schemas\<close>

definition ConnectionParamsSchema :: z_schema where
  "ConnectionParamsSchema =
     [(''host'', ZString 1, Required), (''username'', ZString 1, Required), (''port'', ZNumber (Some 1) (Some 65535), Optional),
      (''auth'', ZEnum [''auto'', ''password'', ''key'', ''agent''], Default (JStr ''auto'')),
      (''password'', ZString 0, Optional), (''privateKey'', ZString 0, Optional), (''privateKeyPath'', ZString 0, Optional),
      (''passphrase'', ZString 0, Optional), (''useAgent'', ZBool, Optional),
      (''readyTimeoutMs'', ZNumber (Some 1000) None, Default (JNum 20000)), (''ttlMs'', ZNumber (Some 10000) None, Default (JNum 900000)),
      (''strictHostKeyChecking'', ZBool, Optional),
      (''hostKeyPolicy'', ZEnum [''strict'', ''accept-new'', ''insecure''], Default (JStr ''strict'')),
      (''knownHostsPath'', ZString 0, Optional), (''expectedHostKeySha256'', ZString 0, Optional),
      (''policyMode'', ZEnum [''enforce'', ''explain''], Default (JStr ''enforce''))]"

definition SessionIdSchema :: z_schema where
  "SessionIdSchema = [(''sessionId'', ZString 1, Required)]"

definition ExecSchema :: z_schema where
  "ExecSchema = [(''sessionId'', ZString 1, Required), (''command'', ZString 1, Required), (''cwd'', ZString 0, Optional),
     (''env'', ZEnvMap, Optional), (''timeoutMs'', ZNumber (Some 1000) None, Optional)]"

definition SudoSchema :: z_schema where
  "SudoSchema = [(''sessionId'', ZString 1, Required), (''command'', ZString 1, Required), (''cwd'', ZString 0, Optional),
     (''timeoutMs'', ZNumber (Some 1000) None, Optional)]"

definition FSReadSchema :: z_schema where
  "FSReadSchema = [(''sessionId'', ZString 1, Required), (''path'', ZString 1, Required), (''encoding'', ZString 0, Default (JStr ''utf8'')),
     (''maxBytes'', ZNumber (Some 1) None, Optional)]"

definition FSWriteSchema :: z_schema where
  "FSWriteSchema = [(''sessionId'', ZString 1, Required), (''path'', ZString 1, Required), (''data'', ZString 0, Required),
     (''mode'', ZNumber None None, Optional)]"

definition FSStatSchema :: z_schema where
  "FSStatSchema = [(''sessionId'', ZString 1, Required), (''path'', ZString 1, Required)]"

definition FSListSchema :: z_schema where
  "FSListSchema = [(''sessionId'', ZString 1, Required), (''path'', ZString 1, Required), (''page'', ZNumber (Some 0) None, Optional),
     (''limit'', ZNumber (Some 1) (Some 1000), Default (JNum 100))]"

definition FSPathSchema :: z_schema where
  "FSPathSchema = [(''sessionId'', ZString 1, Required), (''path'', ZString 1, Required)]"

definition FSRenameSchema :: z_schema where
  "FSRenameSchema = [(''sessionId'', ZString 1, Required), (''from'', ZString 1, Required), (''to'', ZString 1, Required)]"

definition EnsurePackageSchema :: z_schema where
  "EnsurePackageSchema = [(''sessionId'', ZString 1, Required), (''name'', ZString 1, Required),
     (''state'', ZEnum [''present'', ''absent''], Default (JStr ''present''))]"

definition EnsureServiceSchema :: z_schema where
  "EnsureServiceSchema = [(''sessionId'', ZString 1, Required), (''name'', ZString 1, Required),
     (''state'', ZEnum [''started'', ''stopped'', ''restarted'', ''enabled'', ''disabled''], Required)]"

definition EnsureLinesSchema :: z_schema where
  "EnsureLinesSchema = [(''sessionId'', ZString 1, Required), (''path'', ZString 1, Required), (''lines'', ZStrings, Required),
     (''state'', ZEnum [''present'', ''absent''], Default (JStr ''present'')), (''createIfMissing'', ZBool, Default (JBool True))]"

definition PatchApplySchema :: z_schema where
  "PatchApplySchema = [(''sessionId'', ZString 1, Required), (''path'', ZString 1, Required), (''diff'', ZString 0, Required)]"

definition HostAliasSchema :: z_schema where
  "HostAliasSchema = [(''hostAlias'', ZString 1, Required)]"

definition MetricsFormatSchema :: z_schema where
  "MetricsFormatSchema = [(''format'', ZEnum [''json'', ''prometheus''], Default (JStr ''json''))]"

definition ExecStreamSchema :: z_schema where
  "ExecStreamSchema = [(''sessionId'', ZString 1, Required), (''command'', ZString 1, Required), (''cwd'', ZString 0, Optional),
     (''env'', ZEnvMap, Optional), (''timeoutMs'', ZNumber (Some 1000) None, Optional)]"

definition FileUploadSchema :: z_schema where
  "FileUploadSchema = [(''sessionId'', ZString 1, Required), (''localPath'', ZString 1, Required), (''remotePath'', ZString 1, Required)]"

definition FileDownloadSchema :: z_schema where
  "FileDownloadSchema = [(''sessionId'', ZString 1, Required), (''remotePath'', ZString 1, Required), (''localPath'', ZString 1, Required)]"

definition TunnelLocalForwardSchema :: z_schema where
  "TunnelLocalForwardSchema = [(''sessionId'', ZString 1, Required), (''localPort'', ZNumber (Some 1) (Some 65535), Required),
     (''remoteHost'', ZString 1, Default (JStr ''localhost'')), (''remotePort'', ZNumber (Some 1) (Some 65535), Required)]"

definition TunnelRemoteForwardSchema :: z_schema where
  "TunnelRemoteForwardSchema = [(''sessionId'', ZString 1, Required), (''remotePort'', ZNumber (Some 1) (Some 65535), Required),
     (''localHost'', ZString 1, Default (JStr ''localhost'')), (''localPort'', ZNumber (Some 1) (Some 65535), Required)]"

definition TunnelCloseSchema :: z_schema where
  "TunnelCloseSchema = [(''tunnelId'', ZString 1, Required)]"

definition TunnelListSchema :: z_schema where
  "TunnelListSchema = [(''sessionId'', ZString 1, Optional)]"

section \<open>What a parsed value satisfies\<close>

lemma parse_fields_names: "parse_fields fs es = Some r \<Longrightarrow> map fst r = map fst fs"
  by (induction fs es arbitrary: r rule: parse_fields.induct) (auto split: option.splits)

lemma parse_fields_value:
  "parse_fields fs es = Some r \<Longrightarrow> distinct (map fst fs) \<Longrightarrow> (name, kind, p) \<in> set fs \<Longrightarrow>
     field_value kind p (jprop es name) = Some (jprop r name)"
proof (induction fs es arbitrary: r rule: parse_fields.induct)
  case (2 n k q fs es)
  obtain v r' where v: "field_value k q (jprop es n) = Some v" "parse_fields fs es = Some r'" "r = (n, v) # r'"
    using 2(2) by (auto split: option.splits)
  show ?case
  proof (cases "(name, kind, p) = (n, k, q)")
    case True
    then show ?thesis using v by (simp add: jprop_def)
  next
    case False
    then have later: "(name, kind, p) \<in> set fs" using 2(4) by auto
    then have "name \<noteq> n" using 2(3) by force
    then show ?thesis using 2(1) [OF v(1,2) _ later] 2(3) v(3) by (simp add: jprop_def)
  qed
qed simp

end
