(* ===== verification/SessionProvider.thy ===== *)
theory SessionProvider
  imports ToolSchemas
begin

text \<open>
  The tools on sessions (\<open>src/tools/session.provider.ts\<close>): opening with parsed and normalised parameters, closing, listing,
  testing, and the two that read the SSH configuration. They run in the state of \<open>Connector\<close>: the sessions,
  the metrics, the cache of the configuration and the commands sent.
\<close>

section \<open>Arguments\<close>

definition num_prop :: "(string \<times> json) list \<Rightarrow> string \<Rightarrow> int option" where
  "num_prop es k = z_int (jprop es k)"

definition bool_prop :: "(string \<times> json) list \<Rightarrow> string \<Rightarrow> bool option" where
  "bool_prop es k = z_bool (jprop es k)"

definition enum_prop :: "('a \<Rightarrow> string) \<Rightarrow> 'a list \<Rightarrow> (string \<times> json) list \<Rightarrow> string \<Rightarrow> 'a option" where
  "enum_prop name xs es k = z_enum name xs (jprop es k)"

definition parsed :: "connector_env \<Rightarrow> z_schema \<Rightarrow> json \<Rightarrow> (string \<times> json) list ctool" where
  "parsed e schema args = crequire (parse_schema schema args) (js_error (ce_zod e args))"

fun policy_mode_name :: "PolicyMode \<Rightarrow> string" where
  "policy_mode_name Enforce = ''enforce''"
| "policy_mode_name Explain = ''explain''"

definition normalizeConnectionParams :: "(string \<times> json) list \<Rightarrow> connector_params" where
  "normalizeConnectionParams r =
     \<lparr>cp_params = \<lparr>cn_host = or_else (str_prop r ''host'') '''', cn_policyHost = None, cn_username = or_else (str_prop r ''username'') '''',
        cn_port = num_prop r ''port'',
        cn_auth = enum_prop auth_name [AuthAuto, AuthPassword, AuthKey, AuthAgent] r ''auth'',
        cn_password = given (str_prop r ''password''), cn_privateKey = given (str_prop r ''privateKey''),
        cn_privateKeyPath = given (str_prop r ''privateKeyPath''), cn_passphrase = given (str_prop r ''passphrase''),
        cn_ttlMs = num_prop r ''ttlMs'', cn_strictHostKeyChecking = bool_prop r ''strictHostKeyChecking'',
        cn_hostKeyPolicy = enum_prop host_key_name [Strict, AcceptNew, Insecure] r ''hostKeyPolicy'',
        cn_knownHostsPath = given (str_prop r ''knownHostsPath''), cn_expectedHostKeySha256 = given (str_prop r ''expectedHostKeySha256''),
        cn_policyMode = enum_prop policy_mode_name [Enforce, Explain] r ''policyMode''\<rparr>,
      cp_useAgent = (bool_prop r ''useAgent'' = Some True), cp_readyTimeoutMs = num_prop r ''readyTimeoutMs''\<rparr>"

section \<open>The tools\<close>

definition openSession_tool :: "connector_env \<Rightarrow> session_config \<Rightarrow> PolicyEngine \<Rightarrow> json \<Rightarrow> SessionResult ctool" where
  "openSession_tool e scfg eng args =
     cbind (parsed e ConnectionParamsSchema args) (\<lambda>r.
     cbind (open_connector_session e scfg eng (cp_params (normalizeConnectionParams r))) (\<lambda>result.
     cseq (count_session recordSessionCreated) (creturn result)))"

definition closeSession_tool :: "connector_env \<Rightarrow> json \<Rightarrow> bool ctool" where
  "closeSession_tool e args =
     cbind (parsed e SessionIdSchema args) (\<lambda>r. \<lambda>st.
       (case closeSession (or_else (str_prop r ''sessionId'') '''') (cs_manager st) of
          (m, closed) \<Rightarrow>
            (st\<lparr>cs_manager := m, cs_metrics := (if closed then recordSessionClosed (cs_metrics st) else cs_metrics st)\<rparr>, Inr closed)))"

record listed_session =
  ls_sessionId :: string
  ls_host :: string
  ls_username :: string
  ls_port :: int
  ls_createdAt :: string
  ls_expiresAt :: string
  ls_lastUsed :: string
  ls_remainingMs :: int

definition listSessions_tool :: "connector_env \<Rightarrow> listed_session list ctool" where
  "listSessions_tool e st =
     (st, Inr (map (\<lambda>s. \<lparr>ls_sessionId = si_sessionId s, ls_host = si_host s, ls_username = si_username s, ls_port = si_port s,
        ls_createdAt = toISOString (si_createdAt s), ls_expiresAt = toISOString (si_expiresAt s), ls_lastUsed = toISOString (si_lastUsed s),
        ls_remainingMs = max 0 (si_expiresAt s - now_at e st)\<rparr>) (getActiveSessions (cs_manager st))))"

datatype ping_answer = PingDead string | PingAnswer bool int string string int

definition ping_tool :: "connector_env \<Rightarrow> json \<Rightarrow> ping_answer ctool" where
  "ping_tool e args =
     cbind (parsed e SessionIdSchema args) (\<lambda>r.
     let sid = or_else (str_prop r ''sessionId'') '''' in
     cbind (get_connector_session e sid) (\<lambda>active.
     case active of
       None \<Rightarrow> creturn (PingDead ''Session not found or expired'')
     | Some s \<Rightarrow>
         ccatch
           (cbind (cget (now_at e)) (\<lambda>startTime.
            cbind (exec_check e sid ''echo pong'') (\<lambda>answer.
            cbind (cget (now_at e)) (\<lambda>later.
              creturn (PingAnswer (or_else (ea_code answer) 0 = 0) (later - startTime) sid (si_host (ss_info s))
                (max 0 (si_expiresAt (ss_info s) - later)))))))
           (\<lambda>_. creturn (PingDead ''Connection test failed''))))"

definition listConfiguredHosts_tool :: "connector_env \<Rightarrow> string list ctool" where
  "listConfiguredHosts_tool e st =
     (case getConfiguredHosts (ce_home e) (ce_config e) (now_at e st) (cs_cache st) of (cache, hosts) \<Rightarrow> (st\<lparr>cs_cache := cache\<rparr>, Inr hosts))"

definition resolveHost_tool :: "connector_env \<Rightarrow> json \<Rightarrow> resolved_host ctool" where
  "resolveHost_tool e args =
     cbind (parsed e HostAliasSchema args) (\<lambda>r. resolve_alias e (or_else (str_prop r ''hostAlias'') ''''))"

section \<open>Defaults of the schema\<close>

lemma connection_defaults:
  assumes "parse_schema ConnectionParamsSchema (JObj es) = Some r"
  shows "(jprop es ''hostKeyPolicy'' = JUndefined \<longrightarrow> jprop r ''hostKeyPolicy'' = JStr ''strict'') \<and>
    (jprop es ''ttlMs'' = JUndefined \<longrightarrow> jprop r ''ttlMs'' = JNum 900000)"
proof -
  have "distinct (map fst ConnectionParamsSchema)" by code_simp
  note field = parse_fields_value [OF assms [unfolded parse_schema_def, simplified] this]
  have "field_value (ZEnum [''strict'', ''accept-new'', ''insecure'']) (Default (JStr ''strict'')) (jprop es ''hostKeyPolicy'') = Some (jprop r ''hostKeyPolicy'')"
    "field_value (ZNumber (Some 10000) None) (Default (JNum 900000)) (jprop es ''ttlMs'') = Some (jprop r ''ttlMs'')"
    by (rule field, simp add: ConnectionParamsSchema_def)+
  then show ?thesis by (auto simp: field_value_def)
qed

text \<open>What the server's settings say about host keys and lifetimes does not reach the sessions of \<open>ssh_open_session\<close>: the schema fills in \<open>strict\<close> and fifteen minutes where
  the call says nothing, so that the host key policy of the configuration, the deprecated alias \<open>strictHostKeyChecking\<close> of the
  call and the default lifetime of the configuration are never used.\<close>
theorem open_session_ignores_settings:
  assumes "parse_schema ConnectionParamsSchema (JObj es) = Some r"
    and "jprop es ''hostKeyPolicy'' = JUndefined" and "jprop es ''ttlMs'' = JUndefined"
  shows "resolveHostKeyPolicy scfg (cp_params (normalizeConnectionParams r)) = Strict \<and>
    or_else (cn_ttlMs (cp_params (normalizeConnectionParams r))) (defaultTtlMs scfg) = 900000"
proof -
  have "jprop r ''hostKeyPolicy'' = JStr ''strict''" "jprop r ''ttlMs'' = JNum 900000" using connection_defaults [OF assms(1)] assms(2,3) by simp_all
  then show ?thesis
    by (simp add: normalizeConnectionParams_def resolveHostKeyPolicy_def enum_prop_def z_enum_def num_prop_def z_int_def)
qed

theorem open_session_ignores_settings_witness:
  "\<exists>r. parse_schema ConnectionParamsSchema (JObj [(''host'', JStr ''h''), (''username'', JStr ''u''), (''strictHostKeyChecking'', JBool False)]) = Some r \<and>
     resolveHostKeyPolicy \<lparr>maxSessions = 2, defaultTtlMs = 5, allowRootLogin' = False, sec_hostKeyPolicy = Insecure, sec_knownHostsPath = ''kh''\<rparr>
       (cp_params (normalizeConnectionParams r)) = Strict"
proof -
  let ?es = "[(''host'', JStr ''h''), (''username'', JStr ''u''), (''strictHostKeyChecking'', JBool False)]"
  have "parse_schema ConnectionParamsSchema (JObj ?es) \<noteq> None \<and> jprop ?es ''hostKeyPolicy'' = JUndefined \<and> jprop ?es ''ttlMs'' = JUndefined"
    by code_simp
  then show ?thesis using open_session_ignores_settings [of ?es] by auto
qed

section \<open>Opening and the metrics\<close>

lemma open_explained:
  assumes "openSession cfg policy env dg files refusal sid now params outcome m = (m', Inr r)" and "cn_policyMode params = Some Explain"
  shows "sessions m' = sessions (finish_closing m)"
  using assms by (auto simp: openSession_def openSession_start_def Let_def split: sum.splits if_splits)

text \<open>The metrics count explanations as sessions. A call of \<open>ssh_open_session\<close> in explain mode that succeeds opens nothing, and yet
  the number of created and of active sessions grows by one, which no close will take back.\<close>
theorem explained_session_counted:
  assumes "openSession_tool e scfg eng args st = (st', Inr result)" and "closing (cs_manager st) = []"
    and "parse_schema ConnectionParamsSchema args = Some r" and "jprop r ''policyMode'' = JStr ''explain''"
  shows "sessions (cs_manager st') = sessions (cs_manager st) \<and>
    m_sessions_created (cs_metrics st') = m_sessions_created (cs_metrics st) + 1 \<and>
    m_sessions_active (cs_metrics st') = m_sessions_active (cs_metrics st) + 1"
proof -
  let ?params = "cp_params (normalizeConnectionParams r)"
  have mode: "cn_policyMode ?params = Some Explain"
    using assms(4) by (simp add: normalizeConnectionParams_def enum_prop_def z_enum_def)
  obtain m where opened: "openSession scfg (\<lambda>ctx. snd (assertAllowed (ce_rx e) (ce_local e) eng ctx)) (ce_auth e) (ce_digests e) (ce_files e) (ce_denied e)
      (ce_uuid e) (now_at e st) ?params (ce_connect e) (cs_manager st) = (m, Inr result)"
    and st': "st' = st\<lparr>cs_manager := m, cs_metrics := recordSessionCreated (cs_metrics st)\<rparr>"
    using assms(1,3)
    by (auto simp: openSession_tool_def parsed_def crequire_def cbind_def cseq_def open_connector_session_def count_session_def
        split: prod.splits sum.splits)
  have "sessions (finish_closing (cs_manager st)) = sessions (cs_manager st)" using assms(2) by (simp add: finish_closing_def)
  then show ?thesis using open_explained [OF opened mode] by (simp add: st' metrics_defs)
qed

definition sample_explain_args :: json where
  "sample_explain_args = JObj [(''host'', JStr ''db.lab.example''), (''username'', JStr ''ada''), (''policyMode'', JStr ''explain'')]"

lemma sample_explain:
  "snd (openSession_tool sample_connector_env sample_session_config sample_engine sample_explain_args sample_connector_state) =
     Inr \<lparr>sr_sessionId = ''ssh-1'', sr_host = ''db.lab.example'', sr_username = ''ada'', sr_sftpAvailable = False, sr_expiresInMs = 900000,
       sr_policyMode = Explain, sr_hostKeyPolicy = Strict, sr_wouldConnect = Some True\<rparr>"
  "map_option (\<lambda>r. jprop r ''policyMode'') (parse_schema ConnectionParamsSchema sample_explain_args) = Some (JStr ''explain'')"
  by code_simp+

theorem explained_session_counted_witness:
  "sessions (cs_manager (fst (openSession_tool sample_connector_env sample_session_config sample_engine sample_explain_args sample_connector_state))) = [] \<and>
   m_sessions_active (cs_metrics (fst (openSession_tool sample_connector_env sample_session_config sample_engine sample_explain_args sample_connector_state))) = 1"
proof -
  obtain st' where run: "openSession_tool sample_connector_env sample_session_config sample_engine sample_explain_args sample_connector_state =
      (st', Inr \<lparr>sr_sessionId = ''ssh-1'', sr_host = ''db.lab.example'', sr_username = ''ada'', sr_sftpAvailable = False, sr_expiresInMs = 900000,
         sr_policyMode = Explain, sr_hostKeyPolicy = Strict, sr_wouldConnect = Some True\<rparr>)"
    using sample_explain(1) by (cases "openSession_tool sample_connector_env sample_session_config sample_engine sample_explain_args sample_connector_state") simp
  obtain r where "parse_schema ConnectionParamsSchema sample_explain_args = Some r" "jprop r ''policyMode'' = JStr ''explain''"
    using sample_explain(2) by auto
  from explained_session_counted [OF run _ this] have "sessions (cs_manager st') = []" "m_sessions_active (cs_metrics st') = 1"
    by (simp_all add: sample_connector_state_def new_manager_def createEmptyMetrics_def)
  then show ?thesis unfolding run by simp
qed

end
