(* ===== verification/ToolCatalog.thy ===== *)
theory ToolCatalog
  imports SessionProvider
begin

text \<open>
  What the server tells its clients about its tools: the \<open>getTools\<close> of the eight providers (\<open>src/tools/*.provider.ts\<close>)
  with the names, annotations and declared arguments of every tool (\<open>src/tools/metadata.ts\<close>). The descriptions, which
  only people read, are left out. The lemmas compare the declarations with the schemas that check the arguments.
\<close>

section \<open>Tools\<close>

datatype prop_type =
    PString
  | PStringMax nat
  | PEnum "string list"
  | PNumber
  | PBoolean
  | PObject
  | PStrings
  | PEnums "string list" nat nat

record tool_annotations =
  an_title :: string
  an_readOnlyHint :: bool
  an_destructiveHint :: bool
  an_idempotentHint :: bool
  an_openWorldHint :: bool

record tool_info =
  tl_name :: string
  tl_annotations :: tool_annotations
  tl_properties :: "(string \<times> prop_type) list"
  tl_required :: "string list"

definition annotate :: "string \<Rightarrow> bool \<Rightarrow> bool option \<Rightarrow> bool option \<Rightarrow> bool option \<Rightarrow> tool_annotations" where
  "annotate title readOnly destructive idempotent openWorld =
     \<lparr>an_title = title, an_readOnlyHint = readOnly, an_destructiveHint = or_else destructive (\<not> readOnly),
      an_idempotentHint = or_else idempotent False, an_openWorldHint = or_else openWorld True\<rparr>"

definition tool :: "string \<Rightarrow> tool_annotations \<Rightarrow> (string \<times> prop_type) list \<Rightarrow> string list \<Rightarrow> tool_info" where
  "tool name annotations properties req = \<lparr>tl_name = name, tl_annotations = annotations, tl_properties = properties, tl_required = req\<rparr>"

section \<open>The tools of the providers\<close>

definition connector_tools :: "tool_info list" where
  "connector_tools =
     [tool ''connector_status'' (annotate ''Connector Status'' True None (Some True) (Some False))
        []
        [],
      tool ''ssh_hosts_list'' (annotate ''List Safe SSH Host Aliases'' True None (Some True) (Some False))
        []
        [],
      tool ''ssh_policy_explain'' (annotate ''Explain SSH Policy'' True None (Some True) (Some False))
        [(''hostAlias'', PString), (''action'', PEnum [''inspect'', ''mutation'', ''destructive-mutation'']), (''command'', PString),
         (''path'', PString)]
        [],
      tool ''ssh_host_inspect'' (annotate ''Inspect SSH Host'' True None (Some False) (Some False))
        [(''hostAlias'', PString), (''checks'', PEnums [''os'', ''uptime'', ''disk'', ''memory''] 1 4)]
        [''hostAlias''],
      tool ''ssh_mutation_plan'' (annotate ''Plan SSH Mutation'' True (Some False) (Some True) (Some False))
        [(''hostAlias'', PString), (''goal'', PStringMax 1000),
         (''category'', PEnum [''package'', ''service'', ''file'', ''command'', ''tunnel'', ''other''])]
        [''hostAlias'', ''goal'']]"

definition session_tools :: "tool_info list" where
  "session_tools =
     [tool ''ssh_open_session'' (annotate ''Open SSH Session'' False (Some False) (Some False) None)
        [(''host'', PString), (''username'', PString), (''port'', PNumber), (''auth'', PEnum [''auto'', ''password'', ''key'', ''agent'']),
         (''password'', PString), (''privateKey'', PString), (''privateKeyPath'', PString), (''passphrase'', PString),
         (''useAgent'', PBoolean), (''readyTimeoutMs'', PNumber), (''ttlMs'', PNumber), (''strictHostKeyChecking'', PBoolean),
         (''hostKeyPolicy'', PEnum [''strict'', ''accept-new'', ''insecure'']), (''knownHostsPath'', PString),
         (''expectedHostKeySha256'', PString), (''policyMode'', PEnum [''enforce'', ''explain''])]
        [''host'', ''username''],
      tool ''ssh_close_session'' (annotate ''Close SSH Session'' False (Some False) (Some True) None)
        [(''sessionId'', PString)]
        [''sessionId''],
      tool ''ssh_list_sessions'' (annotate ''List SSH Sessions'' True None (Some True) None)
        []
        [],
      tool ''ssh_ping'' (annotate ''Ping SSH Session'' True None (Some True) None)
        [(''sessionId'', PString)]
        [''sessionId''],
      tool ''ssh_list_configured_hosts'' (annotate ''List Configured Hosts'' True None (Some True) (Some False))
        []
        [],
      tool ''ssh_resolve_host'' (annotate ''Resolve SSH Host'' True None (Some True) (Some False))
        [(''hostAlias'', PString)]
        [''hostAlias'']]"

definition process_tools :: "tool_info list" where
  "process_tools =
     [tool ''proc_exec'' (annotate ''Execute Remote Command'' False (Some False) (Some False) None)
        [(''sessionId'', PString), (''command'', PString), (''cwd'', PString), (''env'', PObject), (''timeoutMs'', PNumber)]
        [''sessionId'', ''command''],
      tool ''proc_sudo'' (annotate ''Execute Sudo Command'' False (Some True) (Some False) None)
        [(''sessionId'', PString), (''command'', PString), (''cwd'', PString), (''timeoutMs'', PNumber)]
        [''sessionId'', ''command''],
      tool ''proc_exec_stream'' (annotate ''Execute Streaming Command'' False (Some False) (Some False) None)
        [(''sessionId'', PString), (''command'', PString), (''cwd'', PString), (''env'', PObject), (''timeoutMs'', PNumber)]
        [''sessionId'', ''command'']]"

definition fs_tools :: "tool_info list" where
  "fs_tools =
     [tool ''fs_read'' (annotate ''Read Remote File'' True None (Some True) None)
        [(''sessionId'', PString), (''path'', PString), (''encoding'', PString), (''maxBytes'', PNumber)]
        [''sessionId'', ''path''],
      tool ''fs_write'' (annotate ''Write Remote File'' False (Some True) (Some False) None)
        [(''sessionId'', PString), (''path'', PString), (''data'', PString), (''mode'', PNumber)]
        [''sessionId'', ''path'', ''data''],
      tool ''fs_stat'' (annotate ''Stat Remote Path'' True None (Some True) None)
        [(''sessionId'', PString), (''path'', PString)]
        [''sessionId'', ''path''],
      tool ''fs_list'' (annotate ''List Remote Directory'' True None (Some True) None)
        [(''sessionId'', PString), (''path'', PString), (''page'', PNumber), (''limit'', PNumber)]
        [''sessionId'', ''path''],
      tool ''fs_mkdirp'' (annotate ''Create Remote Directories'' False (Some False) (Some True) None)
        [(''sessionId'', PString), (''path'', PString)]
        [''sessionId'', ''path''],
      tool ''fs_rmrf'' (annotate ''Remove Remote Path Recursively'' False (Some True) (Some False) None)
        [(''sessionId'', PString), (''path'', PString)]
        [''sessionId'', ''path''],
      tool ''fs_rename'' (annotate ''Rename Remote Path'' False (Some True) (Some False) None)
        [(''sessionId'', PString), (''from'', PString), (''to'', PString)]
        [''sessionId'', ''from'', ''to'']]"

definition ensure_tools :: "tool_info list" where
  "ensure_tools =
     [tool ''ensure_package'' (annotate ''Ensure Package State'' False (Some True) (Some True) None)
        [(''sessionId'', PString), (''name'', PString), (''state'', PEnum [''present'', ''absent''])]
        [''sessionId'', ''name''],
      tool ''ensure_service'' (annotate ''Ensure Service State'' False (Some True) (Some True) None)
        [(''sessionId'', PString), (''name'', PString),
         (''state'', PEnum [''started'', ''stopped'', ''restarted'', ''enabled'', ''disabled''])]
        [''sessionId'', ''name'', ''state''],
      tool ''ensure_lines_in_file'' (annotate ''Ensure Lines In File'' False (Some True) (Some True) None)
        [(''sessionId'', PString), (''path'', PString), (''lines'', PStrings), (''state'', PEnum [''present'', ''absent'']),
         (''createIfMissing'', PBoolean)]
        [''sessionId'', ''path'', ''lines''],
      tool ''patch_apply'' (annotate ''Apply Patch'' False (Some True) (Some False) None)
        [(''sessionId'', PString), (''path'', PString), (''diff'', PString)]
        [''sessionId'', ''path'', ''diff'']]"

definition system_tools :: "tool_info list" where
  "system_tools =
     [tool ''os_detect'' (annotate ''Detect Remote OS'' True None (Some True) None)
        [(''sessionId'', PString)]
        [''sessionId''],
      tool ''get_metrics'' (annotate ''Get Runtime Metrics'' True None (Some True) (Some False))
        [(''format'', PEnum [''json'', ''prometheus''])]
        []]"

definition transfer_tools :: "tool_info list" where
  "transfer_tools =
     [tool ''file_upload'' (annotate ''Upload File'' False (Some True) (Some False) None)
        [(''sessionId'', PString), (''localPath'', PString), (''remotePath'', PString)]
        [''sessionId'', ''localPath'', ''remotePath''],
      tool ''file_download'' (annotate ''Download File'' True None (Some False) None)
        [(''sessionId'', PString), (''remotePath'', PString), (''localPath'', PString)]
        [''sessionId'', ''remotePath'', ''localPath'']]"

definition tunnel_tools :: "tool_info list" where
  "tunnel_tools =
     [tool ''tunnel_local_forward'' (annotate ''Create Local SSH Tunnel'' False (Some False) (Some False) None)
        [(''sessionId'', PString), (''localPort'', PNumber), (''remoteHost'', PString), (''remotePort'', PNumber)]
        [''sessionId'', ''localPort'', ''remoteHost'', ''remotePort''],
      tool ''tunnel_remote_forward'' (annotate ''Create Remote SSH Tunnel'' False (Some False) (Some False) None)
        [(''sessionId'', PString), (''remotePort'', PNumber), (''localHost'', PString), (''localPort'', PNumber)]
        [''sessionId'', ''remotePort'', ''localHost'', ''localPort''],
      tool ''tunnel_close'' (annotate ''Close SSH Tunnel'' False (Some False) (Some True) None)
        [(''tunnelId'', PString)]
        [''tunnelId''],
      tool ''tunnel_list'' (annotate ''List SSH Tunnels'' True None (Some True) None)
        [(''sessionId'', PString)]
        []]"

definition all_tools :: "tool_info list" where
  "all_tools = connector_tools @ session_tools @ process_tools @ fs_tools @ ensure_tools @ system_tools @ transfer_tools @ tunnel_tools"

section \<open>Declarations and schemas\<close>

text \<open>The schema that a tool of \<open>src/types.ts\<close> checks its arguments with.\<close>

definition tool_schemas :: "(string \<times> z_schema) list" where
  "tool_schemas =
     [(''ssh_open_session'', ConnectionParamsSchema), (''ssh_close_session'', SessionIdSchema), (''ssh_ping'', SessionIdSchema),
      (''ssh_resolve_host'', HostAliasSchema), (''proc_exec'', ExecSchema), (''proc_sudo'', SudoSchema), (''proc_exec_stream'', ExecStreamSchema),
      (''fs_read'', FSReadSchema), (''fs_write'', FSWriteSchema), (''fs_stat'', FSStatSchema), (''fs_list'', FSListSchema),
      (''fs_mkdirp'', FSPathSchema), (''fs_rmrf'', FSPathSchema), (''fs_rename'', FSRenameSchema), (''ensure_package'', EnsurePackageSchema),
      (''ensure_service'', EnsureServiceSchema), (''ensure_lines_in_file'', EnsureLinesSchema), (''patch_apply'', PatchApplySchema),
      (''os_detect'', SessionIdSchema), (''get_metrics'', MetricsFormatSchema), (''file_upload'', FileUploadSchema),
      (''file_download'', FileDownloadSchema), (''tunnel_local_forward'', TunnelLocalForwardSchema),
      (''tunnel_remote_forward'', TunnelRemoteForwardSchema), (''tunnel_close'', TunnelCloseSchema), (''tunnel_list'', TunnelListSchema)]"

fun kind_matches :: "z_kind \<Rightarrow> prop_type \<Rightarrow> bool" where
  "kind_matches (ZString lo) PString = True"
| "kind_matches (ZNumber lo hi) PNumber = True"
| "kind_matches ZBool PBoolean = True"
| "kind_matches (ZEnum names) (PEnum names') = (names = names')"
| "kind_matches ZStrings PStrings = True"
| "kind_matches ZEnvMap PObject = True"
| "kind_matches k p = False"

text \<open>A declaration fits its schema: the same names with the same types, and every field without which the schema fails is declared as required.\<close>

definition declaration_fits :: "tool_info \<Rightarrow> z_schema \<Rightarrow> bool" where
  "declaration_fits t schema \<longleftrightarrow>
     set (map fst (tl_properties t)) = set (map fst schema) \<and>
     list_all (\<lambda>(name, kind, p). (case map_of (tl_properties t) name of None \<Rightarrow> False | Some d \<Rightarrow> kind_matches kind d) \<and>
       (p = Required \<longrightarrow> name \<in> set (tl_required t))) schema"

text \<open>Declarations are honest. Every tool whose arguments are checked by a schema is declared exactly once, with exactly the fields of the schema, their types and the values of their
  enumerations, and a client that gives every argument declared as required never lacks one that the schema
  demands.\<close>
theorem tool_declarations_fit:
  "distinct (map tl_name all_tools) \<and>
   list_all (\<lambda>(name, schema). (case find (\<lambda>t. tl_name t = name) all_tools of None \<Rightarrow> False | Some t \<Rightarrow> declaration_fits t schema)) tool_schemas"
  unfolding declaration_fits_def by code_simp

text \<open>Remote clients see tools that only read. All tools that the restricted profiles expose exist, carry the read-only and not the destructive
  annotation, and stay inside the server's own hosts; of the others, one that writes a local file, \<open>file_download\<close>, is annotated as
  read-only too.\<close>
theorem remote_tools_read_only:
  "list_all (\<lambda>name. case find (\<lambda>t. tl_name t = name) all_tools of
       None \<Rightarrow> False
     | Some t \<Rightarrow> an_readOnlyHint (tl_annotations t) \<and> \<not> an_destructiveHint (tl_annotations t) \<and> \<not> an_openWorldHint (tl_annotations t))
     REMOTE_CONNECTOR_TOOLS \<and>
   map_option (\<lambda>t. an_readOnlyHint (tl_annotations t)) (find (\<lambda>t. tl_name t = ''file_download'') all_tools) = Some True"
  by code_simp

end
