(* ===== verification/ToolProviders.thy ===== *)
theory ToolProviders
  imports ToolCatalog Transfers Tunnels
begin

text \<open>
  The methods of the tool providers (\<open>src/tools/*.provider.ts\<close>): each checks its arguments and calls the service that
  the previous theories model. The world they share holds the calls to hosts, the state of the connector and session
  tools, and the tunnels; there is one collector of metrics, the one in the state of the session tools. What the services need of the outside, and the duration that a
  command result reports, are arguments. The arguments of a tool are JSON values; a file mode is a natural number.
\<close>

section \<open>The world\<close>

record world =
  w_calls :: history
  w_conn :: connector_state
  w_tunnels :: TunnelManager

type_synonym 'a wtool = "(world, tool_error, 'a) op"

record tool_env =
  te_conn :: connector_env
  te_sessions :: session_config
  te_engine :: PolicyEngine
  te_config :: ServerConfig
  te_host :: host
  te_fs :: fs_config
  te_proc :: proc_config
  te_local :: local_fs
  te_maxTransferBytes :: int
  te_decode :: "string \<Rightarrow> string \<Rightarrow> string"
  te_depth :: nat
  te_duration :: "history \<Rightarrow> int"
  te_listen :: "TunnelInfo \<Rightarrow> string + int"
  te_closes :: "string \<Rightarrow> bool"

text \<open>The listener that the container adds to the session manager closes the tunnels of a session that is being closed. It runs at the end of the
  call in which the closing began; its time limit is left out.\<close>

definition started_closes :: "session_manager \<Rightarrow> session_manager \<Rightarrow> string list" where
  "started_closes m m' =
     filter (\<lambda>sid. count_list (closing m @ disposed m) sid < count_list (closing m' @ disposed m') sid) (remdups (closing m' @ disposed m'))"

definition session_closed :: "tool_env \<Rightarrow> string \<Rightarrow> world \<Rightarrow> world" where
  "session_closed te sid w =
     (case closeSessionTunnels (te_closes te) sid ((w_tunnels w)\<lparr>tunnel_metrics := cs_metrics (w_conn w)\<rparr>) of
        (m, r) \<Rightarrow> w\<lparr>w_tunnels := m, w_conn := (w_conn w)\<lparr>cs_metrics := tunnel_metrics m\<rparr>\<rparr>)"

definition lift_conn :: "tool_env \<Rightarrow> 'a ctool \<Rightarrow> 'a wtool" where
  "lift_conn te m w =
     (case m (w_conn w) of
        (c, r) \<Rightarrow> (fold (session_closed te) (started_closes (cs_manager (w_conn w)) (cs_manager c)) (w\<lparr>w_conn := c\<rparr>), r))"

definition lift_tool :: "'a HostTools.tool \<Rightarrow> 'a wtool" where
  "lift_tool m w =
     (case m \<lparr>t_calls = w_calls w, t_metrics = cs_metrics (w_conn w)\<rparr> of
        (st, r) \<Rightarrow> (w\<lparr>w_calls := t_calls st, w_conn := (w_conn w)\<lparr>cs_metrics := t_metrics st\<rparr>\<rparr>, r))"

definition lift_tunnels :: "(TunnelManager \<Rightarrow> TunnelManager \<times> (tool_error + 'a)) \<Rightarrow> 'a wtool" where
  "lift_tunnels f w =
     (case f ((w_tunnels w)\<lparr>tunnel_metrics := cs_metrics (w_conn w)\<rparr>) of
        (m, r) \<Rightarrow> (w\<lparr>w_tunnels := m, w_conn := (w_conn w)\<lparr>cs_metrics := tunnel_metrics m\<rparr>\<rparr>, r))"

definition arguments :: "tool_env \<Rightarrow> z_schema \<Rightarrow> json \<Rightarrow> (string \<times> json) list wtool" where
  "arguments te schema args = crequire (parse_schema schema args) (js_error (ce_zod (te_conn te) args))"

abbreviation sarg :: "(string \<times> json) list \<Rightarrow> string \<Rightarrow> string" where
  "sarg r k \<equiv> or_else (str_prop r k) ''''"

abbreviation narg :: "(string \<times> json) list \<Rightarrow> string \<Rightarrow> int" where
  "narg r k \<equiv> or_else (num_prop r k) 0"

section \<open>Answers\<close>

datatype reply =
    RStatus status_answer
  | RHosts "string list" bool
  | RExplained PolicyDecision bool
  | RPlan plan_input PolicyDecision
  | RInspected "inspect_answer option"
  | ROpened SessionResult
  | RDone bool
  | RSessions "listed_session list"
  | RPing ping_answer
  | RConfigured "string list"
  | RResolved resolved_host
  | RExec exec_result "SafetyCheckResult option"
  | RStream stream_result "SafetyCheckResult option"
  | RText string
  | RStat FileStatInfo
  | REntries "DirEntry list" "string option"
  | RPackage PackageResult
  | RLines int
  | ROs OSInfo
  | RMetrics Metrics int
  | RTransfer transferred
  | RTunnel TunnelInfo
  | RTunnels "TunnelInfo list"

definition with_reply :: "('a \<Rightarrow> reply) \<Rightarrow> 'a wtool \<Rightarrow> reply wtool" where
  "with_reply f m = cbind m (\<lambda>x. creturn (f x))"

section \<open>Commands\<close>

text \<open>\<open>addSafetyWarningToResult\<close>: the result of the check goes with the result when it is not safe; its text, with
  pictographs in it, is left out.\<close>

definition addSafetyWarningToResult :: "string \<Rightarrow> SafetyCheckResult option" where
  "addSafetyWarningToResult command = (let check = checkCommandSafety command in if safe check then None else Some check)"

fun stream_code :: "stream_result \<Rightarrow> int" where
  "stream_code (StreamDone code s) = code"
| "stream_code (StreamPlan c d) = 0"

definition count_command :: "tool_env \<Rightarrow> int \<Rightarrow> unit HostTools.tool" where
  "count_command te code = cbind (at_host (te_duration te)) (\<lambda>durationMs. record_metric (recordCommand durationMs (code = 0)))"

definition env_arg :: "(string \<times> json) list \<Rightarrow> environment" where
  "env_arg r = (case jprop r ''env'' of JObj es \<Rightarrow> map (\<lambda>(k, v). (k, or_else (asString v) '''')) es | _ \<Rightarrow> [])"

definition exec_tool :: "tool_env \<Rightarrow> json \<Rightarrow> reply wtool" where
  "exec_tool te args =
     cbind (arguments te ExecSchema args) (\<lambda>r. lift_tool
       (cbind (execCommand (te_host te) (te_proc te) (sarg r ''sessionId'') (sarg r ''command'') (str_prop r ''cwd'') (env_arg r)
          (num_prop r ''timeoutMs'')) (\<lambda>result.
        cseq (count_command te (result_code result)) (creturn (RExec result (addSafetyWarningToResult (sarg r ''command'')))))))"

definition sudo_tool :: "tool_env \<Rightarrow> json \<Rightarrow> reply wtool" where
  "sudo_tool te args =
     cbind (arguments te SudoSchema args) (\<lambda>r. lift_tool
       (cbind (execSudo (te_host te) (te_proc te) (sarg r ''sessionId'') (sarg r ''command'') None (str_prop r ''cwd'')
          (num_prop r ''timeoutMs'') \<lparr>so_policyAction = None, so_rawSudo = None, so_path = None, so_destructive = None\<rparr>) (\<lambda>result.
        cseq (count_command te (result_code result)) (creturn (RExec result (addSafetyWarningToResult (sarg r ''command'')))))))"

definition stream_tool :: "tool_env \<Rightarrow> json \<Rightarrow> reply wtool" where
  "stream_tool te args =
     cbind (arguments te ExecStreamSchema args) (\<lambda>r. lift_tool
       (cbind (execWithStreaming (te_host te) (te_proc te) (sarg r ''sessionId'') (sarg r ''command'') (given (str_prop r ''cwd'')) (env_arg r)
          (nonzero (num_prop r ''timeoutMs''))) (\<lambda>result.
        cseq (count_command te (stream_code result)) (creturn (RStream result (addSafetyWarningToResult (sarg r ''command'')))))))"

definition process_handleTool :: "tool_env \<Rightarrow> string \<Rightarrow> json \<Rightarrow> reply wtool option" where
  "process_handleTool te name args =
     (if name = ''proc_exec'' then Some (exec_tool te args)
      else if name = ''proc_sudo'' then Some (sudo_tool te args)
      else if name = ''proc_exec_stream'' then Some (stream_tool te args)
      else None)"

section \<open>Files\<close>

definition fs_read_tool :: "tool_env \<Rightarrow> json \<Rightarrow> reply wtool" where
  "fs_read_tool te args =
     cbind (arguments te FSReadSchema args) (\<lambda>r.
       with_reply RText (lift_tool (readFile (te_host te) (te_fs te) (sarg r ''sessionId'') (sarg r ''path'')
         (te_decode te (sarg r ''encoding'')) (num_prop r ''maxBytes''))))"

definition fs_write_tool :: "tool_env \<Rightarrow> json \<Rightarrow> reply wtool" where
  "fs_write_tool te args =
     cbind (arguments te FSWriteSchema args) (\<lambda>r.
       with_reply RDone (lift_tool (writeFile (te_host te) (te_fs te) (sarg r ''sessionId'') (sarg r ''path'') (sarg r ''data'')
         (map_option nat (num_prop r ''mode'')))))"

definition fs_stat_tool :: "tool_env \<Rightarrow> json \<Rightarrow> reply wtool" where
  "fs_stat_tool te args =
     cbind (arguments te FSStatSchema args) (\<lambda>r. with_reply RStat (lift_tool (statFile (te_host te) (sarg r ''sessionId'') (sarg r ''path''))))"

definition fs_list_tool :: "tool_env \<Rightarrow> json \<Rightarrow> reply wtool" where
  "fs_list_tool te args =
     cbind (arguments te FSListSchema args) (\<lambda>r.
       with_reply (\<lambda>(es, t). REntries es t) (lift_tool (listDirectory (te_host te) (sarg r ''sessionId'') (sarg r ''path'') (num_prop r ''page'') (narg r ''limit''))))"

definition fs_mkdirp_tool :: "tool_env \<Rightarrow> json \<Rightarrow> reply wtool" where
  "fs_mkdirp_tool te args =
     cbind (arguments te FSPathSchema args) (\<lambda>r. with_reply RDone (lift_tool (makeDirectories (te_host te) (sarg r ''sessionId'') (sarg r ''path''))))"

definition fs_rmrf_tool :: "tool_env \<Rightarrow> json \<Rightarrow> reply wtool" where
  "fs_rmrf_tool te args =
     cbind (arguments te FSPathSchema args) (\<lambda>r.
       with_reply RDone (lift_tool (removeRecursive (te_depth te) (te_host te) (sarg r ''sessionId'') (sarg r ''path''))))"

definition fs_rename_tool :: "tool_env \<Rightarrow> json \<Rightarrow> reply wtool" where
  "fs_rename_tool te args =
     cbind (arguments te FSRenameSchema args) (\<lambda>r.
       with_reply RDone (lift_tool (renameFile (te_host te) (sarg r ''sessionId'') (sarg r ''from'') (sarg r ''to''))))"

definition fs_handleTool :: "tool_env \<Rightarrow> string \<Rightarrow> json \<Rightarrow> reply wtool option" where
  "fs_handleTool te name args =
     (if name = ''fs_read'' then Some (fs_read_tool te args)
      else if name = ''fs_write'' then Some (fs_write_tool te args)
      else if name = ''fs_stat'' then Some (fs_stat_tool te args)
      else if name = ''fs_list'' then Some (fs_list_tool te args)
      else if name = ''fs_mkdirp'' then Some (fs_mkdirp_tool te args)
      else if name = ''fs_rmrf'' then Some (fs_rmrf_tool te args)
      else if name = ''fs_rename'' then Some (fs_rename_tool te args)
      else None)"

section \<open>States of a host\<close>

fun service_state_name :: "service_state \<Rightarrow> string" where
  "service_state_name Started = ''started''"
| "service_state_name Stopped = ''stopped''"
| "service_state_name Restarted = ''restarted''"
| "service_state_name Enabled = ''enabled''"
| "service_state_name Disabled = ''disabled''"

definition ensure_package_tool :: "tool_env \<Rightarrow> json \<Rightarrow> reply wtool" where
  "ensure_package_tool te args =
     cbind (arguments te EnsurePackageSchema args) (\<lambda>r.
       with_reply RPackage (lift_tool (ensurePackage (te_host te) (te_proc te) (sarg r ''sessionId'') (sarg r ''name'') (sarg r ''state'' = ''present''))))"

definition ensure_service_tool :: "tool_env \<Rightarrow> json \<Rightarrow> reply wtool" where
  "ensure_service_tool te args =
     cbind (arguments te EnsureServiceSchema args) (\<lambda>r.
       with_reply RDone (lift_tool (ensureService (te_host te) (te_proc te) (sarg r ''sessionId'') (sarg r ''name'')
         (or_else (enum_prop service_state_name [Started, Stopped, Restarted, Enabled, Disabled] r ''state'') Started))))"

definition ensure_lines_tool :: "tool_env \<Rightarrow> json \<Rightarrow> reply wtool" where
  "ensure_lines_tool te args =
     cbind (arguments te EnsureLinesSchema args) (\<lambda>r.
       with_reply RLines (lift_tool (ensureLinesInFile (te_host te) (te_fs te) (te_proc te) (sarg r ''sessionId'') (te_decode te ''utf8'') (sarg r ''path'')
         (asStringArray (jprop r ''lines'')) (or_else (bool_prop r ''createIfMissing'') True) (sarg r ''state'' = ''absent''))))"

definition patch_tool :: "tool_env \<Rightarrow> json \<Rightarrow> reply wtool" where
  "patch_tool te args =
     cbind (arguments te PatchApplySchema args) (\<lambda>r.
       with_reply RDone (lift_tool (applyPatch (te_host te) (te_fs te) (te_proc te) (sarg r ''sessionId'') (sarg r ''path'') (sarg r ''diff''))))"

definition ensure_handleTool :: "tool_env \<Rightarrow> string \<Rightarrow> json \<Rightarrow> reply wtool option" where
  "ensure_handleTool te name args =
     (if name = ''ensure_package'' then Some (ensure_package_tool te args)
      else if name = ''ensure_service'' then Some (ensure_service_tool te args)
      else if name = ''ensure_lines_in_file'' then Some (ensure_lines_tool te args)
      else if name = ''patch_apply'' then Some (patch_tool te args)
      else None)"

section \<open>Transfers, tunnels, the system\<close>

definition upload_tool :: "tool_env \<Rightarrow> json \<Rightarrow> reply wtool" where
  "upload_tool te args =
     cbind (arguments te FileUploadSchema args) (\<lambda>r.
       with_reply RTransfer (lift_tool (uploadFileWithProgress (te_host te) (te_local te) (te_maxTransferBytes te) False (sarg r ''sessionId'')
         (sarg r ''localPath'') (sarg r ''remotePath''))))"

definition download_tool :: "tool_env \<Rightarrow> json \<Rightarrow> reply wtool" where
  "download_tool te args =
     cbind (arguments te FileDownloadSchema args) (\<lambda>r.
       with_reply RTransfer (lift_tool (downloadFileWithProgress (te_host te) (te_local te) (te_maxTransferBytes te) False (sarg r ''sessionId'')
         (sarg r ''remotePath'') (sarg r ''localPath''))))"

definition transfer_handleTool :: "tool_env \<Rightarrow> string \<Rightarrow> json \<Rightarrow> reply wtool option" where
  "transfer_handleTool te name args =
     (if name = ''file_upload'' then Some (upload_tool te args)
      else if name = ''file_download'' then Some (download_tool te args)
      else None)"

text \<open>The creation of a tunnel with the answer of its listener, when nothing happens in between.\<close>

definition finish_tunnel :: "tool_env \<Rightarrow> int \<Rightarrow> TunnelManager \<times> tunnel_start \<Rightarrow> TunnelManager \<times> (tool_error + reply)" where
  "finish_tunnel te now started =
     (case started of
        (m, TunnelRefused e) \<Rightarrow> (m, Inl (ToolError e))
      | (m, TunnelPlan t) \<Rightarrow> (m, Inr (RTunnel t))
      | (m, TunnelOpening t) \<Rightarrow>
          (case createTunnel_end t now (te_listen te t) m of
             (m', Inl e) \<Rightarrow> (m', Inl (js_error e))
           | (m', Inr t') \<Rightarrow> (m', Inr (RTunnel t'))))"

definition local_forward_tool :: "tool_env \<Rightarrow> json \<Rightarrow> reply wtool" where
  "local_forward_tool te args =
     cbind (arguments te TunnelLocalForwardSchema args) (\<lambda>r. cbind (cget w_calls) (\<lambda>cs.
       let h = te_host te; sid = sarg r ''sessionId'' in
       lift_tunnels (\<lambda>m. finish_tunnel te (h_now h cs) (createLocalForward (h_policy h) (h_now h cs) (h_session h cs sid) sid
         (narg r ''localPort'') (sarg r ''remoteHost'') (narg r ''remotePort'') m))))"

definition remote_forward_tool :: "tool_env \<Rightarrow> json \<Rightarrow> reply wtool" where
  "remote_forward_tool te args =
     cbind (arguments te TunnelRemoteForwardSchema args) (\<lambda>r. cbind (cget w_calls) (\<lambda>cs.
       let h = te_host te; sid = sarg r ''sessionId'' in
       lift_tunnels (\<lambda>m. finish_tunnel te (h_now h cs) (createRemoteForward (h_policy h) (h_now h cs) (h_session h cs sid) sid
         (narg r ''remotePort'') (sarg r ''localHost'') (narg r ''localPort'') m))))"

definition close_tunnel_tool :: "tool_env \<Rightarrow> json \<Rightarrow> reply wtool" where
  "close_tunnel_tool te args =
     cbind (arguments te TunnelCloseSchema args) (\<lambda>r.
       lift_tunnels (\<lambda>m. case closeTunnel (te_closes te) (sarg r ''tunnelId'') m of
          (m', Inl e) \<Rightarrow> (m', Inl (js_error e))
        | (m', Inr b) \<Rightarrow> (m', Inr (RDone b))))"

definition list_tunnels_tool :: "tool_env \<Rightarrow> json \<Rightarrow> reply wtool" where
  "list_tunnels_tool te args =
     cbind (arguments te TunnelListSchema (tool_args args)) (\<lambda>r.
       lift_tunnels (\<lambda>m. (m, Inr (RTunnels (listTunnels (str_prop r ''sessionId'') m)))))"

definition tunnel_handleTool :: "tool_env \<Rightarrow> string \<Rightarrow> json \<Rightarrow> reply wtool option" where
  "tunnel_handleTool te name args =
     (if name = ''tunnel_local_forward'' then Some (local_forward_tool te args)
      else if name = ''tunnel_remote_forward'' then Some (remote_forward_tool te args)
      else if name = ''tunnel_close'' then Some (close_tunnel_tool te args)
      else if name = ''tunnel_list'' then Some (list_tunnels_tool te args)
      else None)"

definition os_detect_tool :: "tool_env \<Rightarrow> json \<Rightarrow> reply wtool" where
  "os_detect_tool te args =
     cbind (arguments te SessionIdSchema args) (\<lambda>r. with_reply ROs (lift_tool (getOSInfo (te_host te) (sarg r ''sessionId''))))"

definition metrics_tool :: "tool_env \<Rightarrow> json \<Rightarrow> reply wtool" where
  "metrics_tool te args =
     cbind (arguments te MetricsFormatSchema (tool_args args)) (\<lambda>r. cget (\<lambda>w.
       let now = h_now (te_host te) (w_calls w); m = cs_metrics (w_conn w) in
       if sarg r ''format'' = ''prometheus'' then RText (exportPrometheus now m) else RMetrics m (metrics_uptime now m)))"

definition system_handleTool :: "tool_env \<Rightarrow> string \<Rightarrow> json \<Rightarrow> reply wtool option" where
  "system_handleTool te name args =
     (if name = ''os_detect'' then Some (os_detect_tool te args)
      else if name = ''get_metrics'' then Some (metrics_tool te args)
      else None)"

section \<open>Sessions and the connector\<close>

definition session_handleTool :: "tool_env \<Rightarrow> string \<Rightarrow> json \<Rightarrow> reply wtool option" where
  "session_handleTool te name args =
     (let e = te_conn te in
      if name = ''ssh_open_session'' then Some (with_reply ROpened (lift_conn te (openSession_tool e (te_sessions te) (te_engine te) args)))
      else if name = ''ssh_close_session'' then Some (with_reply RDone (lift_conn te (closeSession_tool e args)))
      else if name = ''ssh_list_sessions'' then Some (with_reply RSessions (lift_conn te (listSessions_tool e)))
      else if name = ''ssh_ping'' then Some (with_reply RPing (lift_conn te (ping_tool e args)))
      else if name = ''ssh_list_configured_hosts'' then Some (with_reply RConfigured (lift_conn te (listConfiguredHosts_tool e)))
      else if name = ''ssh_resolve_host'' then Some (with_reply RResolved (lift_conn te (resolveHost_tool e args)))
      else None)"

definition connector_handleTool :: "tool_env \<Rightarrow> string \<Rightarrow> json \<Rightarrow> reply wtool option" where
  "connector_handleTool te name args =
     (let e = te_conn te; cfg = te_config te; eng = te_engine te in
      if name = ''connector_status'' then Some (creturn (RStatus (connector_status cfg)))
      else if name = ''ssh_hosts_list'' then Some (with_reply (\<lambda>(hosts, listed). RHosts hosts listed) (lift_conn te (listHosts e cfg)))
      else if name = ''ssh_policy_explain'' then Some (with_reply (\<lambda>(d, confirm). RExplained d confirm) (lift_conn te (explainPolicy e eng args)))
      else if name = ''ssh_host_inspect'' then Some (with_reply RInspected (lift_conn te (inspectHost e (te_sessions te) eng cfg args)))
      else if name = ''ssh_mutation_plan'' then Some (with_reply (\<lambda>(input, d). RPlan input d) (lift_conn te (planMutation e eng args)))
      else None)"

end
