(* ===== verification/ToolRegistry.thy ===== *)
theory ToolRegistry
  imports ToolProviders
begin

text \<open>
  The registry of the tools (\<open>src/tools/registry.ts\<close>) and how the server fills it (\<open>src/tools/index.ts\<close>): aliases, the profile, the first provider that handles a name, and the answer made of its
  result or its error. The interface of a provider is the locale \<open>tool_provider\<close>: it handles exactly the tools it
  lists. An answer is the structured content; the text, the same value printed, is left out. Names that
  every JavaScript object has as properties (\<open>constructor\<close> and the like) are not considered.
\<close>

section \<open>The registry\<close>

definition TOOL_ALIASES :: "(string \<times> string) list" where
  "TOOL_ALIASES =
     [(''ssh.openSession'', ''ssh_open_session''), (''ssh.closeSession'', ''ssh_close_session''), (''proc.exec'', ''proc_exec''),
      (''proc.sudo'', ''proc_sudo''), (''fs.read'', ''fs_read''), (''fs.write'', ''fs_write''), (''fs.stat'', ''fs_stat''),
      (''fs.list'', ''fs_list''), (''fs.mkdirp'', ''fs_mkdirp''), (''fs.rmrf'', ''fs_rmrf''), (''fs.rename'', ''fs_rename''),
      (''ensure.package'', ''ensure_package''), (''ensure.service'', ''ensure_service''),
      (''ensure.linesInFile'', ''ensure_lines_in_file''), (''patch.apply'', ''patch_apply''), (''os.detect'', ''os_detect''),
      (''ssh.listSessions'', ''ssh_list_sessions''), (''ssh.ping'', ''ssh_ping''),
      (''ssh.listConfiguredHosts'', ''ssh_list_configured_hosts''), (''ssh.resolveHost'', ''ssh_resolve_host''),
      (''connector.status'', ''connector_status''), (''ssh.hostsList'', ''ssh_hosts_list''),
      (''ssh.policyExplain'', ''ssh_policy_explain''), (''ssh.hostInspect'', ''ssh_host_inspect''),
      (''ssh.mutationPlan'', ''ssh_mutation_plan'')]"

record 'm provider =
  prov_namespace :: string
  prov_tools :: "tool_info list"
  prov_handle :: "string \<Rightarrow> json \<Rightarrow> 'm option"

record 'm registry =
  reg_providers :: "(string, 'm provider) jmap"
  reg_profile :: ToolProfile

definition new_registry :: "ToolProfile \<Rightarrow> 'm registry" where
  "new_registry profile = \<lparr>reg_providers = [], reg_profile = profile\<rparr>"

definition register :: "'m provider \<Rightarrow> 'm registry \<Rightarrow> string + 'm registry" where
  "register p reg =
     (if jm_has (reg_providers reg) (prov_namespace p) then
        Inl (''ToolRegistry: namespace '' @ [CHR 0x22] @ prov_namespace p @ [CHR 0x22] @ '' is already registered'')
      else Inr (reg\<lparr>reg_providers := jm_set (prov_namespace p) p (reg_providers reg)\<rparr>))"

definition getAllTools :: "'m registry \<Rightarrow> tool_info list" where
  "getAllTools reg = filterToolsForProfile tl_name (concat (map (\<lambda>(n, p). prov_tools p) (reg_providers reg))) (reg_profile reg)"

datatype 'r tool_result = ToolOk 'r | ToolFailed "(string \<times> json) list"

definition errorResult :: "(string \<times> json) list \<Rightarrow> 'r tool_result" where
  "errorResult payload = ToolFailed ((''error'', JBool True) # payload)"

fun errorcode_name :: "ErrorCode \<Rightarrow> string" where
  "errorcode_name EAUTH = ''EAUTH''" | "errorcode_name ECONN = ''ECONN''" | "errorcode_name ETIMEOUT = ''ETIMEOUT''"
| "errorcode_name ENOSUDO = ''ENOSUDO''" | "errorcode_name EPMGR = ''EPMGR''" | "errorcode_name EFS = ''EFS''"
| "errorcode_name EPATCH = ''EPATCH''" | "errorcode_name EBADREQ = ''EBADREQ''" | "errorcode_name EPOLICY = ''EPOLICY''"
| "errorcode_name EHOSTKEY = ''EHOSTKEY''" | "errorcode_name ELIMIT = ''ELIMIT''" | "errorcode_name EUNSUPPORTED = ''EUNSUPPORTED''"

definition optional_json :: "string option \<Rightarrow> json" where
  "optional_json v = (case v of None \<Rightarrow> JUndefined | Some s \<Rightarrow> JStr s)"

definition error_toJSON :: "SSHMCPError \<Rightarrow> (string \<times> json) list" where
  "error_toJSON e =
     [(''code'', JStr (errorcode_name (err_code e))), (''message'', JStr (err_message e)), (''hint'', optional_json (err_hint e)),
      (''userFriendlyMessage'', optional_json (userFriendlyMessage e)), (''recoverable'', JBool (recoverable e)),
      (''suggestedAction'', optional_json (suggestedAction e))]"

definition error_payload :: "tool_error \<Rightarrow> (string \<times> json) list" where
  "error_payload e = (case e of ToolError s \<Rightarrow> error_toJSON s | JsError c message \<Rightarrow> [(''message'', JStr message)])"

fun first_handler :: "(string, 'm provider) jmap \<Rightarrow> string \<Rightarrow> json \<Rightarrow> 'm option" where
  "first_handler [] name args = None"
| "first_handler ((n, p) # ps) name args = (case prov_handle p name args of Some m \<Rightarrow> Some m | None \<Rightarrow> first_handler ps name args)"

definition tool_name :: "string \<Rightarrow> string" where
  "tool_name rawToolName = or_else (map_of TOOL_ALIASES rawToolName) rawToolName"

definition dispatch :: "('s, tool_error, 'r) op registry \<Rightarrow> string \<Rightarrow> json \<Rightarrow> 's \<Rightarrow> 's \<times> 'r tool_result" where
  "dispatch reg rawToolName args w =
     (let toolName = tool_name rawToolName in
      if \<not> isToolAllowedForProfile toolName (reg_profile reg) then
        (w, errorResult [(''code'', JStr ''ETOOLPROFILE''),
          (''message'', JStr (''Tool '' @ toolName @ '' is not exposed by the '' @ toolProfile_name (reg_profile reg) @ '' connector profile''))])
      else case first_handler (reg_providers reg) toolName args of
        None \<Rightarrow> (w, errorResult [(''message'', JStr (''Unknown tool: '' @ toolName))])
      | Some handler \<Rightarrow>
          (case handler w of
             (w', Inr r) \<Rightarrow> (w', ToolOk r)
           | (w', Inl e) \<Rightarrow> (w', errorResult (error_payload e))))"

section \<open>The server's registry\<close>

definition connector_provider :: "tool_env \<Rightarrow> reply wtool provider" where
  "connector_provider te = \<lparr>prov_namespace = ''connector'', prov_tools = connector_tools, prov_handle = connector_handleTool te\<rparr>"

definition session_provider :: "tool_env \<Rightarrow> reply wtool provider" where
  "session_provider te = \<lparr>prov_namespace = ''session'', prov_tools = session_tools, prov_handle = session_handleTool te\<rparr>"

definition process_provider :: "tool_env \<Rightarrow> reply wtool provider" where
  "process_provider te = \<lparr>prov_namespace = ''process'', prov_tools = process_tools, prov_handle = process_handleTool te\<rparr>"

definition fs_provider :: "tool_env \<Rightarrow> reply wtool provider" where
  "fs_provider te = \<lparr>prov_namespace = ''fs'', prov_tools = fs_tools, prov_handle = fs_handleTool te\<rparr>"

definition ensure_provider :: "tool_env \<Rightarrow> reply wtool provider" where
  "ensure_provider te = \<lparr>prov_namespace = ''ensure'', prov_tools = ensure_tools, prov_handle = ensure_handleTool te\<rparr>"

definition system_provider :: "tool_env \<Rightarrow> reply wtool provider" where
  "system_provider te = \<lparr>prov_namespace = ''system'', prov_tools = system_tools, prov_handle = system_handleTool te\<rparr>"

definition transfer_provider :: "tool_env \<Rightarrow> reply wtool provider" where
  "transfer_provider te = \<lparr>prov_namespace = ''transfer'', prov_tools = transfer_tools, prov_handle = transfer_handleTool te\<rparr>"

definition tunnel_provider :: "tool_env \<Rightarrow> reply wtool provider" where
  "tunnel_provider te = \<lparr>prov_namespace = ''tunnel'', prov_tools = tunnel_tools, prov_handle = tunnel_handleTool te\<rparr>"

definition providers :: "tool_env \<Rightarrow> reply wtool provider list" where
  "providers te = [connector_provider te, session_provider te, process_provider te, fs_provider te, ensure_provider te, system_provider te,
     transfer_provider te, tunnel_provider te]"

definition createToolRegistry :: "tool_env \<Rightarrow> string + reply wtool registry" where
  "createToolRegistry te =
     fold (\<lambda>p r. rbind r (register p)) (providers te) (Inr (new_registry (cc_toolProfile (sv_connector (te_config te)))))"

lemma createToolRegistry_eq:
  "createToolRegistry te =
     Inr \<lparr>reg_providers = map (\<lambda>p. (prov_namespace p, p)) (providers te), reg_profile = cc_toolProfile (sv_connector (te_config te))\<rparr>"
  by (simp add: createToolRegistry_def providers_def register_def new_registry_def jm_has_def connector_provider_def session_provider_def
      process_provider_def fs_provider_def ensure_provider_def system_provider_def transfer_provider_def tunnel_provider_def)

section \<open>Providers handle what they list\<close>

locale tool_provider =
  fixes tools :: "tool_info list" and handle :: "string \<Rightarrow> json \<Rightarrow> 'm option"
  assumes handles_listed: "handle name args \<noteq> None \<longleftrightarrow> name \<in> set (map tl_name tools)"
begin

lemma handler_of: "t \<in> set tools \<Longrightarrow> \<exists>m. handle (tl_name t) args = Some m"
  using handles_listed [of "tl_name t" args] by auto

lemma silent: "name \<notin> set (map tl_name tools) \<Longrightarrow> handle name args = None"
  using handles_listed [of name args] by auto

end

interpretation connector: tool_provider connector_tools "connector_handleTool te"
  by unfold_locales (simp add: connector_tools_def tool_def connector_handleTool_def Let_def)

interpretation session: tool_provider session_tools "session_handleTool te"
  by unfold_locales (simp add: session_tools_def tool_def session_handleTool_def Let_def)

interpretation process: tool_provider process_tools "process_handleTool te"
  by unfold_locales (simp add: process_tools_def tool_def process_handleTool_def)

interpretation fs: tool_provider fs_tools "fs_handleTool te"
  by unfold_locales (simp add: fs_tools_def tool_def fs_handleTool_def)

interpretation ensure: tool_provider ensure_tools "ensure_handleTool te"
  by unfold_locales (simp add: ensure_tools_def tool_def ensure_handleTool_def)

interpretation system: tool_provider system_tools "system_handleTool te"
  by unfold_locales (simp add: system_tools_def tool_def system_handleTool_def)

interpretation transfer: tool_provider transfer_tools "transfer_handleTool te"
  by unfold_locales (simp add: transfer_tools_def tool_def transfer_handleTool_def)

interpretation tunnel: tool_provider tunnel_tools "tunnel_handleTool te"
  by unfold_locales (simp add: tunnel_tools_def tool_def tunnel_handleTool_def)

text \<open>A registry of such providers finds a handler exactly for the tools that one of them lists.\<close>

lemma first_handler_listed:
  "(\<And>n p. (n, p) \<in> set ps \<Longrightarrow> tool_provider (prov_tools p) (prov_handle p)) \<Longrightarrow>
     first_handler ps name args \<noteq> None \<longleftrightarrow> (\<exists>(n, p) \<in> set ps. name \<in> set (map tl_name (prov_tools p)))"
proof (induction ps)
  case (Cons x ps)
  obtain n p where x: "x = (n, p)" by (cases x)
  have "tool_provider (prov_tools p) (prov_handle p)" using Cons.prems [of n p] x by simp
  note listed = tool_provider.handles_listed [OF this, of name args]
  have "first_handler ps name args \<noteq> None \<longleftrightarrow> (\<exists>(n, p) \<in> set ps. name \<in> set (map tl_name (prov_tools p)))"
    using Cons.prems by (intro Cons.IH) auto
  moreover have "first_handler (x # ps) name args \<noteq> None \<longleftrightarrow> prov_handle p name args \<noteq> None \<or> first_handler ps name args \<noteq> None"
    by (simp add: x split: option.split)
  ultimately show ?case using listed by (simp add: x)
qed simp

lemma providers_ok: "p \<in> set (providers te) \<Longrightarrow> tool_provider (prov_tools p) (prov_handle p)"
  using connector.tool_provider_axioms session.tool_provider_axioms process.tool_provider_axioms fs.tool_provider_axioms ensure.tool_provider_axioms
    system.tool_provider_axioms transfer.tool_provider_axioms tunnel.tool_provider_axioms
  by (auto simp: providers_def connector_provider_def session_provider_def process_provider_def fs_provider_def ensure_provider_def
      system_provider_def transfer_provider_def tunnel_provider_def)

lemma registry_handlers:
  "first_handler (map (\<lambda>p. (prov_namespace p, p)) (providers te)) name args \<noteq> None \<longleftrightarrow> name \<in> set (map tl_name all_tools)"
proof -
  have "first_handler (map (\<lambda>p. (prov_namespace p, p)) (providers te)) name args \<noteq> None \<longleftrightarrow>
      (\<exists>p \<in> set (providers te). name \<in> set (map tl_name (prov_tools p)))"
    by (subst first_handler_listed) (auto intro: providers_ok)
  also have "\<dots> \<longleftrightarrow> name \<in> set (map tl_name all_tools)"
    by (auto simp: all_tools_def providers_def connector_provider_def session_provider_def process_provider_def fs_provider_def ensure_provider_def
        system_provider_def transfer_provider_def tunnel_provider_def)
  finally show ?thesis .
qed

text \<open>A call is run when the profile allows its tool and a provider handles it; else the world stays as it is.\<close>

definition runs :: "('s, tool_error, 'r) op registry \<Rightarrow> string \<Rightarrow> json \<Rightarrow> bool" where
  "runs reg rawToolName args \<longleftrightarrow>
     isToolAllowedForProfile (tool_name rawToolName) (reg_profile reg) \<and> first_handler (reg_providers reg) (tool_name rawToolName) args \<noteq> None"


section \<open>The remote profiles\<close>

definition tunnel_ids :: "TunnelManager \<Rightarrow> string set" where
  "tunnel_ids m = fst ` set (tunnels m)"

text \<open>What a call under a remote profile may change: the cache of the SSH configuration, the metrics, and sessions, whose tunnels may close; hosts are sent
  the commands of the checks only.\<close>

definition confined :: "world \<Rightarrow> world \<Rightarrow> bool" where
  "confined w w' \<longleftrightarrow>
     w_calls w' = w_calls w \<and> tunnel_ids (w_tunnels w') \<subseteq> tunnel_ids (w_tunnels w) \<and>
     opening_tunnels (w_tunnels w') = opening_tunnels (w_tunnels w) \<and>
     (\<exists>new. cs_calls (w_conn w') = cs_calls (w_conn w) @ new \<and> snd ` set new \<subseteq> check_commands) \<and>
     m_sessions_created (cs_metrics (w_conn w')) - m_sessions_closed (cs_metrics (w_conn w')) =
       m_sessions_created (cs_metrics (w_conn w)) - m_sessions_closed (cs_metrics (w_conn w)) \<and>
     session_ids (cs_manager (w_conn w')) \<subseteq> session_ids (cs_manager (w_conn w))"

lemma confined_cache: "confined w (w\<lparr>w_conn := (w_conn w)\<lparr>cs_cache := cache\<rparr>\<rparr>)"
  by (auto simp: confined_def)

lemma confined_refl: "confined w w"
  by (auto simp: confined_def)

lemma confined_trans: "confined u v \<Longrightarrow> confined v w \<Longrightarrow> confined u w"
  unfolding confined_def by (auto simp: image_Un)

lemma started_closes_same [simp]: "started_closes m m = []"
  by (simp add: started_closes_def)

lemma tunnel_ids_steps:
  "tunnel_ids (drop_tunnel i m) \<subseteq> tunnel_ids m" "tunnel_ids (closeTunnel_end i ok m) \<subseteq> tunnel_ids m"
  "tunnel_ids (fst (closeTunnel_start i m)) \<subseteq> tunnel_ids m"
proof -
  have dropped: "tunnel_ids (drop_tunnel i m) \<subseteq> tunnel_ids m" for m
    unfolding drop_tunnel_def tunnel_ids_def by (auto simp: jm_delete_def)
  then show "tunnel_ids (drop_tunnel i m) \<subseteq> tunnel_ids m" .
  have same: "tunnel_ids (m\<lparr>awaiting := ws\<rparr>) = tunnel_ids m" "tunnel_ids (m\<lparr>handles := hs\<rparr>) = tunnel_ids m" for m ws hs
    by (simp_all add: tunnel_ids_def)
  show "tunnel_ids (closeTunnel_end i ok m) \<subseteq> tunnel_ids m"
    using dropped [of "m\<lparr>awaiting := remove1 i (awaiting m), handles := jm_delete i (handles m)\<rparr>"] same
    by (simp add: closeTunnel_end_def Let_def)
  show "tunnel_ids (fst (closeTunnel_start i m)) \<subseteq> tunnel_ids m"
  proof (cases "jm_get (tunnels m) i")
    case (Some t)
    let ?m = "m\<lparr>tunnels := jm_set i (t\<lparr>ti_active := False\<rparr>) (tunnels m)\<rparr>"
    have "i \<in> fst ` set (tunnels m)" using Some jm_get_None_iff [of "tunnels m" i] by simp
    then have "tunnel_ids ?m = tunnel_ids m" by (simp add: tunnel_ids_def jm_set_keys insert_absorb)
    then show ?thesis using Some dropped [of ?m] same by (simp add: closeTunnel_start_def Let_def)
  qed (simp add: closeTunnel_start_def)
qed

lemma closeTunnel_frame:
  "tunnel_ids (fst (closeTunnel answers i m)) \<subseteq> tunnel_ids m"
  "m_sessions_created (tunnel_metrics (fst (closeTunnel answers i m))) = m_sessions_created (tunnel_metrics m)"
  "m_sessions_closed (tunnel_metrics (fst (closeTunnel answers i m))) = m_sessions_closed (tunnel_metrics m)"
proof -
  obtain m' r where start: "closeTunnel_start i m = (m', r)" by fastforce
  have "tunnel_ids m' \<subseteq> tunnel_ids m" using tunnel_ids_steps(3) [of i m] start by simp
  moreover have "tunnel_ids (closeTunnel_end i ok m') \<subseteq> tunnel_ids m'" for ok by (rule tunnel_ids_steps(2))
  ultimately show "tunnel_ids (fst (closeTunnel answers i m)) \<subseteq> tunnel_ids m"
    by (cases r) (auto simp only: closeTunnel_def start prod.case sum.case fst_conv)
qed (auto simp: closeTunnel_def closeTunnel_start_def closeTunnel_end_def drop_tunnel_def recordTunnelClosed_def Let_def split: option.splits)

lemma close_each_frame:
  "close_each answers is n m = (m', r) \<Longrightarrow>
     tunnel_ids m' \<subseteq> tunnel_ids m \<and> m_sessions_created (tunnel_metrics m') = m_sessions_created (tunnel_metrics m) \<and>
     m_sessions_closed (tunnel_metrics m') = m_sessions_closed (tunnel_metrics m)"
proof (induction answers "is" n m rule: close_each.induct)
  case (2 answers i "is" closed m)
  obtain m1 r1 where c: "closeTunnel answers i m = (m1, r1)" by fastforce
  have frame: "tunnel_ids m1 \<subseteq> tunnel_ids m" "m_sessions_created (tunnel_metrics m1) = m_sessions_created (tunnel_metrics m)"
    "m_sessions_closed (tunnel_metrics m1) = m_sessions_closed (tunnel_metrics m)"
    using closeTunnel_frame [of answers i m] c by simp_all
  show ?case
  proof (cases r1)
    case (Inl e)
    then show ?thesis using 2(2) c frame by simp
  next
    case (Inr b)
    then show ?thesis using 2(1) [OF c [symmetric] Inr] 2(2) c frame by simp blast
  qed
qed simp

lemma closeSessionTunnels_frame:
  assumes "closeSessionTunnels answers sid m = (m', r)"
  shows "tunnel_ids m' \<subseteq> tunnel_ids m \<and> opening_tunnels m' = opening_tunnels m \<and>
    m_sessions_created (tunnel_metrics m') = m_sessions_created (tunnel_metrics m) \<and>
    m_sessions_closed (tunnel_metrics m') = m_sessions_closed (tunnel_metrics m)"
  using assms close_each_frame close_each_opening unfolding closeSessionTunnels_def by metis

lemma confined_listeners: "confined w w' \<Longrightarrow> confined w (fold (session_closed te) sids w')"
proof (induction sids arbitrary: w')
  case (Cons sid sids)
  obtain m r where c: "closeSessionTunnels (te_closes te) sid ((w_tunnels w')\<lparr>tunnel_metrics := cs_metrics (w_conn w')\<rparr>) = (m, r)"
    by fastforce
  have "confined w' (session_closed te sid w')"
    using closeSessionTunnels_frame [OF c] by (simp add: confined_def session_closed_def c tunnel_ids_def)
  then show ?case using Cons.IH [OF confined_trans [OF Cons.prems]] by simp
qed simp

lemma explain_frame: "explainPolicy e eng args st = (st', r) \<Longrightarrow> st' = st" "planMutation e eng args st = (st'', r') \<Longrightarrow> st'' = st"
  by (auto simp: explainPolicy_def planMutation_def cbind_def schema_input_def crequire_def split: option.splits)

lemma listHosts_frame: "listHosts e cfg st = (st', r) \<Longrightarrow> \<exists>cache. st' = st\<lparr>cs_cache := cache\<rparr>"
  by (auto simp: listHosts_def Let_def split: prod.splits)

lemma with_reply_state: "fst (with_reply f m w) = fst (m w)"
  by (auto simp: with_reply_def cbind_def split: prod.splits sum.splits)

lemma connector_confined:
  assumes "connector_handleTool te name args = Some m" and "jm_get (sessions (cs_manager (w_conn w))) (ce_uuid (te_conn te)) = None"
  shows "confined w (fst (m w))"
proof -
  let ?e = "te_conn te"
  consider "m = creturn (RStatus (connector_status (te_config te)))"
    | "m = with_reply (\<lambda>(hosts, listed). RHosts hosts listed) (lift_conn te (listHosts ?e (te_config te)))"
    | "m = with_reply (\<lambda>(d, confirm). RExplained d confirm) (lift_conn te (explainPolicy ?e (te_engine te) args))"
    | "m = with_reply RInspected (lift_conn te (inspectHost ?e (te_sessions te) (te_engine te) (te_config te) args))"
    | "m = with_reply (\<lambda>(input, d). RPlan input d) (lift_conn te (planMutation ?e (te_engine te) args))"
    using assms(1) by (auto simp: connector_handleTool_def Let_def split: if_splits)
  then show ?thesis
  proof cases
    case 2
    obtain st' r where run: "listHosts ?e (te_config te) (w_conn w) = (st', r)" by (meson surj_pair)
    then show ?thesis using listHosts_frame [OF run] confined_cache by (auto simp: 2 with_reply_state lift_conn_def)
  next
    case 4
    obtain st' r where run: "inspectHost ?e (te_sessions te) (te_engine te) (te_config te) args (w_conn w) = (st', r)" by (meson surj_pair)
    then have "confined w (w\<lparr>w_conn := st'\<rparr>)" using inspectHost_effects [OF run assms(2)] by (auto simp: confined_def)
    then show ?thesis using run confined_listeners by (simp add: 4 with_reply_state lift_conn_def)
  qed (use confined_refl in \<open>auto simp: with_reply_state lift_conn_def dest!: explain_frame split: prod.splits\<close>)
qed

lemma remote_tool_handler:
  assumes "name \<in> set REMOTE_CONNECTOR_TOOLS"
  shows "first_handler (map (\<lambda>p. (prov_namespace p, p)) (providers te)) name args = connector_handleTool te name args"
proof -
  have "name \<in> set (map tl_name connector_tools)" using assms by (auto simp: REMOTE_CONNECTOR_TOOLS_def connector_tools_def tool_def)
  then obtain m where "connector_handleTool te name args = Some m" using connector.handles_listed [of te name args] by auto
  then show ?thesis by (simp add: providers_def connector_provider_def)
qed

lemma remote_dispatch_confined:
  assumes "createToolRegistry te = Inr reg" and "cc_toolProfile (sv_connector (te_config te)) \<noteq> FullProfile"
    and "jm_get (sessions (cs_manager (w_conn w))) (ce_uuid (te_conn te)) = None"
  shows "confined w (fst (dispatch reg rawToolName args w))"
proof -
  have reg: "reg = \<lparr>reg_providers = map (\<lambda>p. (prov_namespace p, p)) (providers te), reg_profile = cc_toolProfile (sv_connector (te_config te))\<rparr>"
    using assms(1) createToolRegistry_eq by auto
  show ?thesis
  proof (cases "tool_name rawToolName \<in> set REMOTE_CONNECTOR_TOOLS")
    case False
    then have "fst (dispatch reg rawToolName args w) = w" using assms(2) by (simp add: dispatch_def Let_def reg isToolAllowedForProfile_def)
    then show ?thesis using confined_refl by simp
  next
    case True
    note handler = remote_tool_handler [OF True, of te args]
    show ?thesis
    proof (cases "connector_handleTool te (tool_name rawToolName) args")
      case None
      then have "fst (dispatch reg rawToolName args w) = w" using True handler by (simp add: dispatch_def Let_def reg isToolAllowedForProfile_def)
      then show ?thesis using confined_refl by simp
    next
      case (Some m)
      then have "fst (dispatch reg rawToolName args w) = fst (m w)"
        using True handler by (simp add: dispatch_def Let_def reg isToolAllowedForProfile_def split: prod.splits sum.splits)
      then show ?thesis using connector_confined [OF Some assms(3)] by simp
    qed
  qed
qed

text \<open>A run of calls, the \<open>i\<close>-th in its own environment: the clock, the answers of hosts and the identifier of a new session change.\<close>

fun dispatch_all :: "(nat \<Rightarrow> tool_env) \<Rightarrow> (string \<times> json) list \<Rightarrow> nat \<Rightarrow> world \<Rightarrow> world" where
  "dispatch_all te [] i w = w"
| "dispatch_all te ((name, args) # calls) i w =
     (case createToolRegistry (te i) of
        Inl e \<Rightarrow> w
      | Inr reg \<Rightarrow> dispatch_all te calls (i + 1) (fst (dispatch reg name args w)))"



end
