(* ===== verification/McpServer.thy ===== *)
theory McpServer
  imports ToolRegistry AuditLogging RateLimiter
begin

text \<open>
  The server as a client sees it (\<open>src/mcp.ts\<close>): tool calls behind the rate limiter, resources (\<open>src/resources.ts\<close>) and prompts
  (\<open>src/prompts.ts\<close>); and the command line that starts it (\<open>src/index.ts\<close>). The MCP SDK hands a request to one handler and sends back what it
  returns; spans of the tracing library are left out. The suggestions of \<open>src/prompts.ts\<close> that only a person reads are left out.
\<close>

section \<open>Tool calls\<close>

record mcp_server =
  ms_world :: world
  ms_logs :: logs
  ms_audit :: AuditLog

definition server_limiter :: "ServerConfig \<Rightarrow> RateLimiterConfig" where
  "server_limiter cfg =
     new_RateLimiterConfig (Some (rl_maxRequests (sv_rateLimit cfg))) (Some (rl_windowMs (sv_rateLimit cfg))) (Some True)"

datatype call_result = CallLimited "(string \<times> json) list" | CallAnswered "reply tool_result"

definition limited_payload :: "string \<Rightarrow> int \<Rightarrow> (string \<times> json) list" where
  "limited_payload name ms =
     [(''error'', JBool True), (''code'', JStr ''ERATELIMIT''), (''message'', JStr (''Rate limit exceeded for tool: '' @ name)), (''resetIn'', JNum ms)]"

definition run_tool :: "reply wtool registry \<Rightarrow> string \<Rightarrow> json option \<Rightarrow> mcp_server \<Rightarrow> mcp_server \<times> call_result" where
  "run_tool reg name args s =
     (case dispatch reg name (or_else args (JObj [])) (ms_world s) of (w, r) \<Rightarrow> (s\<lparr>ms_world := w\<rparr>, CallAnswered r))"

definition call_tool :: "ServerConfig \<Rightarrow> reply wtool registry \<Rightarrow> int \<Rightarrow> string \<Rightarrow> json option \<Rightarrow> mcp_server \<Rightarrow> mcp_server \<times> call_result" where
  "call_tool cfg reg now name args s =
     (if rl_enabled (sv_rateLimit cfg) then
        (case check (server_limiter cfg) now ''global'' (ms_logs s) of
           (ls, rateCheck) \<Rightarrow>
             if \<not> rl_allowed rateCheck then (s\<lparr>ms_logs := ls\<rparr>, CallLimited (limited_payload name (resetIn rateCheck)))
             else run_tool reg name args (s\<lparr>ms_logs := ls\<rparr>))
      else run_tool reg name args s)"

section \<open>Resources\<close>

definition RESOURCE_DEFINITIONS :: "(string \<times> string) list" where
  "RESOURCE_DEFINITIONS =
     [(''mcp-ssh-tool://sessions/active'', ''application/json''), (''mcp-ssh-tool://metrics/json'', ''application/json''),
      (''mcp-ssh-tool://metrics/prometheus'', ''text/plain''), (''mcp-ssh-tool://ssh-config/hosts'', ''application/json''),
      (''mcp-ssh-tool://policy/effective'', ''application/json''), (''mcp-ssh-tool://audit/recent'', ''application/json''),
      (''mcp-ssh-tool://capabilities/support-matrix'', ''application/json'')]"

definition listResources :: "ToolProfile \<Rightarrow> (string \<times> string) list" where
  "listResources profile = filterResourcesForProfile fst RESOURCE_DEFINITIONS profile"

text \<open>The value that a resource prints.\<close>

datatype resource =
    ActiveSessions "SessionInfo list"
  | MetricsSnapshot Metrics int
  | PrometheusText string
  | ConfiguredHosts "string list"
  | EffectivePolicy PolicyConfig
  | RecentAudit "json list"
  | SupportMatrix "(string \<times> string) list"

definition support_matrix :: "(string \<times> string) list" where
  "support_matrix =
     [(''linux'', ''full''), (''macos'', ''session/process/fs/transfer; package/service helpers limited to tested managers''),
      (''BusyBox/dropbear'', ''experimental: session/process/basic fs without SFTP''),
      (''windows'', ''experimental: session/process/fs/transfer; sudo and ensure tools unsupported'')]"

definition readResource :: "tool_env \<Rightarrow> int \<Rightarrow> string \<Rightarrow> ToolProfile \<Rightarrow> mcp_server \<Rightarrow> mcp_server \<times> (string + resource)" where
  "readResource te now uri profile s =
     (let c = w_conn (ms_world s); e = te_conn te in
      if \<not> isResourceAllowedForProfile uri profile then
        (s, Inl (''Resource '' @ uri @ '' is not exposed by the '' @ toolProfile_name profile @ '' connector profile''))
      else if uri = ''mcp-ssh-tool://sessions/active'' then (s, Inr (ActiveSessions (getActiveSessions (cs_manager c))))
      else if uri = ''mcp-ssh-tool://metrics/json'' then (s, Inr (MetricsSnapshot (cs_metrics c) (metrics_uptime now (cs_metrics c))))
      else if uri = ''mcp-ssh-tool://metrics/prometheus'' then (s, Inr (PrometheusText (exportPrometheus now (cs_metrics c))))
      else if uri = ''mcp-ssh-tool://ssh-config/hosts'' then
        (case getConfiguredHosts (ce_home e) (ce_config e) now (cs_cache c) of
           (cache, hosts) \<Rightarrow> (s\<lparr>ms_world := (ms_world s)\<lparr>w_conn := c\<lparr>cs_cache := cache\<rparr>\<rparr>\<rparr>, Inr (ConfiguredHosts hosts)))
      else if uri = ''mcp-ssh-tool://policy/effective'' then (s, Inr (EffectivePolicy (getEffectivePolicy (te_engine te))))
      else if uri = ''mcp-ssh-tool://audit/recent'' then (s, Inr (RecentAudit (audit_list 100 (ms_audit s))))
      else if uri = ''mcp-ssh-tool://capabilities/support-matrix'' then (s, Inr (SupportMatrix support_matrix))
      else (s, Inl (''Unknown resource: '' @ uri)))"

section \<open>Prompts\<close>

record prompt_definition =
  pd_name :: string
  pd_description :: string
  pd_arguments :: "(string \<times> bool) list"

definition MCP_PROMPTS :: "prompt_definition list" where
  "MCP_PROMPTS =
     [\<lparr>pd_name = ''safe-connect'',
       pd_description = ''Open an SSH session using strict host-key verification and explain the safety posture.'',
       pd_arguments = [(''host'', True), (''username'', True)]\<rparr>,
      \<lparr>pd_name = ''inspect-host-capabilities'',
       pd_description = ''Detect OS, package manager, init system, SFTP availability, and active policy.'', pd_arguments = []\<rparr>,
      \<lparr>pd_name = ''plan-mutation'',
       pd_description = ''Use explain mode and policy resources to summarize a risky remote change first.'', pd_arguments = [(''goal'', True)]\<rparr>,
      \<lparr>pd_name = ''managed-config-change'',
       pd_description = ''Read a config, produce a minimal patch, dry-run it, and apply only if policy allows it.'',
       pd_arguments = [(''path'', True)]\<rparr>]"

definition listMCPPrompts :: "ToolProfile \<Rightarrow> prompt_definition list" where
  "listMCPPrompts profile = filterPromptsForProfile pd_name MCP_PROMPTS profile"

definition renderPrompt :: "string \<Rightarrow> (string \<Rightarrow> string option) \<Rightarrow> string" where
  "renderPrompt name args =
     (if name = ''safe-connect'' then
        join [CHR 0x0A] [''Open a safe SSH session using mcp-ssh-tool.'', ''Host: '' @ or_else (args ''host'') ''<host>'',
          ''Username: '' @ or_else (args ''username'') ''<username>'',
          ''Prefer hostKeyPolicy=strict, verify known_hosts, and do not request root login unless policy explicitly allows it.'']
      else if name = ''inspect-host-capabilities'' then
        join [CHR 0x0A] [''Inspect the current SSH MCP environment.'',
          ''List active sessions, read the effective policy resource, then run os_detect for the chosen session.'',
          ''Summarize supported tools, SFTP availability, package manager, init system, and any policy restrictions.'']
      else if name = ''plan-mutation'' then
        join [CHR 0x0A] [''Goal: '' @ or_else (args ''goal'') ''<describe change>'',
          ''Before executing, use explain mode or read policy resources to produce a concise action plan.'',
          ''Call out destructive operations, sudo needs, path policy, rollback, and commands/files that would change.'']
      else if name = ''managed-config-change'' then
        join [CHR 0x0A] [''Remote file: '' @ or_else (args ''path'') ''<path>'',
          ''Read the file, propose a minimal unified diff, dry-run the patch, then apply only if policy permits.'',
          ''If the path is denied or the file is too large, stop and explain the safer alternative.'']
      else ''Use mcp-ssh-tool safely and prefer explain mode before mutations.'')"

definition getMCPPrompt :: "string \<Rightarrow> (string \<Rightarrow> string option) \<Rightarrow> ToolProfile \<Rightarrow> string + (string \<times> string)" where
  "getMCPPrompt name args profile =
     (if \<not> isPromptAllowedForProfile name profile then
        Inl (''Prompt '' @ name @ '' is not exposed by the '' @ toolProfile_name profile @ '' connector profile'')
      else case find (\<lambda>p. pd_name p = name) MCP_PROMPTS of
        None \<Rightarrow> Inl (''Unknown prompt: '' @ name)
      | Some p \<Rightarrow> Inr (pd_description p, renderPrompt name args))"

section \<open>The command line\<close>

record CliOptions =
  cli_help :: bool
  cli_version :: bool
  cli_forceStdio :: bool
  cli_http :: bool
  cli_host :: "string option"
  cli_port :: "string option"
  cli_bearerTokenFile :: "string option"
  cli_enableLegacySse :: bool
  cli_toolProfile :: "string option"
  cli_connectorCredentialProvider :: "string option"
  cli_agentArgs :: "string list option"

definition no_options :: CliOptions where
  "no_options = \<lparr>cli_help = False, cli_version = False, cli_forceStdio = False, cli_http = False, cli_host = None, cli_port = None,
     cli_bearerTokenFile = None, cli_enableLegacySse = False, cli_toolProfile = None, cli_connectorCredentialProvider = None,
     cli_agentArgs = None\<rparr>"

text \<open>An option that takes the next argument as its value.\<close>

definition value_option :: "string \<Rightarrow> (string \<Rightarrow> CliOptions \<Rightarrow> CliOptions) option" where
  "value_option a =
     (if a = ''--host'' then Some (\<lambda>v o'. o'\<lparr>cli_host := Some v\<rparr>)
      else if a = ''--port'' then Some (\<lambda>v o'. o'\<lparr>cli_port := Some v\<rparr>)
      else if a = ''--bearer-token-file'' then Some (\<lambda>v o'. o'\<lparr>cli_bearerTokenFile := Some v\<rparr>)
      else if a = ''--tool-profile'' then Some (\<lambda>v o'. o'\<lparr>cli_toolProfile := Some v\<rparr>)
      else if a = ''--connector-credential-provider'' then Some (\<lambda>v o'. o'\<lparr>cli_connectorCredentialProvider := Some v\<rparr>)
      else None)"

definition flag_option :: "string \<Rightarrow> CliOptions \<Rightarrow> CliOptions" where
  "flag_option a o' =
     (if a = ''http'' \<or> a = ''--transport=http'' then o'\<lparr>cli_http := True\<rparr>
      else if a = ''stdio'' \<or> a = ''--transport=stdio'' then o'\<lparr>cli_http := False\<rparr>
      else if a = ''--help'' \<or> a = ''-h'' then o'\<lparr>cli_help := True\<rparr>
      else if a = ''--version'' \<or> a = ''-v'' then o'\<lparr>cli_version := True\<rparr>
      else if a = ''--stdio'' then o'\<lparr>cli_forceStdio := True, cli_http := False\<rparr>
      else if a = ''--enable-legacy-sse'' then o'\<lparr>cli_enableLegacySse := True\<rparr>
      else o')"

text \<open>\<open>Inl\<close>: the process exits with this code while it reads its arguments.\<close>

fun parseArgs :: "string list \<Rightarrow> CliOptions \<Rightarrow> int + CliOptions" where
  "parseArgs [] o' = Inr o'"
| "parseArgs (a # argv) o' =
     (if a = ''agent'' then Inr (o'\<lparr>cli_agentArgs := Some argv\<rparr>)
      else if a = ''--no-stdio'' then Inl 2
      else case value_option a of
        Some f \<Rightarrow> (case argv of [] \<Rightarrow> Inr o' | v # rest \<Rightarrow> parseArgs rest (f v o'))
      | None \<Rightarrow> parseArgs argv (flag_option a o'))"

datatype launch = Exit int | PrintHelp | PrintVersion | RunAgent "string list" | StartHttp process_env | StartStdio

definition set_env :: "string \<Rightarrow> string option \<Rightarrow> process_env \<Rightarrow> process_env" where
  "set_env name value env = (if truthy value then env(name := value) else env)"

definition http_env :: "CliOptions \<Rightarrow> process_env \<Rightarrow> process_env" where
  "http_env o' env =
     set_env ''SSH_MCP_CONNECTOR_CREDENTIAL_PROVIDER'' (cli_connectorCredentialProvider o')
      (set_env ''SSH_MCP_TOOL_PROFILE'' (cli_toolProfile o')
       (set_env ''SSH_MCP_ENABLE_LEGACY_SSE'' (if cli_enableLegacySse o' then Some ''true'' else None)
        (set_env ''SSH_MCP_HTTP_BEARER_TOKEN_FILE'' (cli_bearerTokenFile o')
         (set_env ''SSH_MCP_HTTP_PORT'' (cli_port o')
          (set_env ''SSH_MCP_HTTP_HOST'' (cli_host o') env)))))"

definition main :: "process_env \<Rightarrow> string list \<Rightarrow> launch" where
  "main env argv =
     (case parseArgs argv no_options of
        Inl code \<Rightarrow> Exit code
      | Inr o' \<Rightarrow>
          if cli_help o' then PrintHelp
          else if cli_version o' then PrintVersion
          else case cli_agentArgs o' of
            Some args \<Rightarrow> RunAgent args
          | None \<Rightarrow> if cli_http o' then StartHttp (http_env o' env) else StartStdio)"

section \<open>The rate limit holds for tool calls\<close>

text \<open>A run of the server: tool calls, each with the environment it finds, and the timer that cleans the limiter. The result has the times of the
  calls that were handed to the tools.\<close>

datatype mcp_event = ToolCall tool_env int string "json option" | CleanupTick int

fun limited :: "call_result \<Rightarrow> bool" where
  "limited (CallLimited p) = True"
| "limited (CallAnswered r) = False"

fun event_time :: "mcp_event \<Rightarrow> int" where
  "event_time (ToolCall te now name args) = now"
| "event_time (CleanupTick now) = now"

fun serve :: "ServerConfig \<Rightarrow> mcp_event list \<Rightarrow> mcp_server \<Rightarrow> mcp_server \<times> int list" where
  "serve cfg [] s = (s, [])"
| "serve cfg (CleanupTick now # es) s = serve cfg es (s\<lparr>ms_logs := pruneExpiredLogs (server_limiter cfg) now (ms_logs s)\<rparr>)"
| "serve cfg (ToolCall te now name args # es) s =
     (case createToolRegistry te of
        Inl e \<Rightarrow> (s, [])
      | Inr reg \<Rightarrow>
          (case call_tool cfg reg now name args s of
             (s', r) \<Rightarrow> (case serve cfg es s' of (s'', ts) \<Rightarrow> (s'', if limited r then ts else now # ts))))"

lemma call_tool_limited:
  assumes "rl_enabled (sv_rateLimit cfg)" and "check (server_limiter cfg) now ''global'' (ms_logs s) = (ls, c)"
    and "call_tool cfg reg now name args s = (s', r)"
  shows "ms_logs s' = ls" and "limited r \<longleftrightarrow> \<not> rl_allowed c" and "limited r \<Longrightarrow> ms_world s' = ms_world s"
  using assms by (auto simp: call_tool_def run_tool_def split: if_splits prod.splits)

lemma serve_runs:
  assumes "rl_enabled (sv_rateLimit cfg)" and "sorted (clock # map event_time es)" and "serve cfg es s = (s', ts)"
  shows "\<exists>rs clock'. run (rl_step (server_limiter cfg)) \<lparr>rl_logs = ms_logs s, rl_clock = clock, granted = g\<rparr> rs
     \<lparr>rl_logs = ms_logs s', rl_clock = clock', granted = g @ map (Pair ''global'') ts\<rparr>"
  using assms(2,3)
proof (induction es arbitrary: clock s g ts)
  case Nil
  then show ?case by (auto intro: run_nil)
next
  case (Cons e es)
  show ?case
  proof (cases e)
    case (CleanupTick now)
    let ?s = "s\<lparr>ms_logs := pruneExpiredLogs (server_limiter cfg) now (ms_logs s)\<rparr>"
    have "rl_step (server_limiter cfg) \<lparr>rl_logs = ms_logs s, rl_clock = clock, granted = g\<rparr> (Prune now)
        \<lparr>rl_logs = ms_logs ?s, rl_clock = now, granted = g\<rparr>"
      using rl_prune [of "\<lparr>rl_logs = ms_logs s, rl_clock = clock, granted = g\<rparr>" now] Cons.prems CleanupTick by simp
    then show ?thesis using Cons.IH [of now ?s ts g] Cons.prems CleanupTick by (auto intro: run_cons)
  next
    case (ToolCall te now name args)
    obtain reg where reg: "createToolRegistry te = Inr reg" using createToolRegistry_eq by blast
    obtain ls c where c: "check (server_limiter cfg) now ''global'' (ms_logs s) = (ls, c)" by fastforce
    obtain s1 r where call: "call_tool cfg reg now name args s = (s1, r)" by fastforce
    obtain ts1 where rest: "serve cfg es s1 = (s', ts1)" and ts: "ts = (if limited r then ts1 else now # ts1)"
      using Cons.prems(2) by (auto simp: ToolCall reg call split: prod.splits)
    have later: "sorted (now # map event_time es)" using Cons.prems(1) by (simp add: ToolCall)
    note lim = call_tool_limited [OF assms(1) c call]
    define h where "h = (if rl_allowed c then g @ [(''global'', now)] else g)"
    have "rl_step (server_limiter cfg) \<lparr>rl_logs = ms_logs s, rl_clock = clock, granted = g\<rparr> (Check ''global'' now c)
        \<lparr>rl_logs = ms_logs s1, rl_clock = now, granted = h\<rparr>"
      using rl_check [of "\<lparr>rl_logs = ms_logs s, rl_clock = clock, granted = g\<rparr>" now "server_limiter cfg" "''global''" ls c] c Cons.prems(1)
      by (cases "rl_allowed c") (simp_all add: ToolCall lim(1) h_def)
    moreover obtain rs clock' where "run (rl_step (server_limiter cfg)) \<lparr>rl_logs = ms_logs s1, rl_clock = now, granted = h\<rparr> rs
        \<lparr>rl_logs = ms_logs s', rl_clock = clock', granted = h @ map (Pair ''global'') ts1\<rparr>"
      using Cons.IH [OF later rest, of h] by (elim exE that)
    moreover have "h @ map (Pair ''global'') ts1 = g @ map (Pair ''global'') ts" using lim(2) by (simp add: ts h_def)
    ultimately show ?thesis by (metis run_cons)
  qed
qed


section \<open>Resources and prompts\<close>

text \<open>What is listed can be read, and nothing else. Under every profile a resource is read exactly when it is in the list the client gets,
  and a prompt is given exactly when it is in its list; reading changes nothing but the cache of the SSH configuration; and
  under a remote profile no resource shows sessions, metrics, hosts, the policy or the audit log.\<close>
theorem resources_and_prompts_listed:
  "(isl (snd (readResource te now uri profile s)) \<longleftrightarrow> uri \<notin> set (map fst (listResources profile))) \<and>
   (isl (getMCPPrompt name args profile) \<longleftrightarrow> name \<notin> set (map pd_name (listMCPPrompts profile))) \<and>
   (\<exists>cache. fst (readResource te now uri profile s) = s\<lparr>ms_world := (ms_world s)\<lparr>w_conn := (w_conn (ms_world s))\<lparr>cs_cache := cache\<rparr>\<rparr>\<rparr>) \<and>
   (profile = FullProfile \<or> snd (readResource te now uri profile s) = Inr (SupportMatrix support_matrix) \<or> isl (snd (readResource te now uri profile s)))"
proof -
  have "isl (snd (readResource te now uri profile s)) \<longleftrightarrow> uri \<notin> set (map fst (listResources profile))"
    by (auto simp: readResource_def listResources_def filterResourcesForProfile_def isResourceAllowedForProfile_def RESOURCE_DEFINITIONS_def
        REMOTE_CONNECTOR_RESOURCES_def Let_def split: prod.splits)
  moreover have "isl (getMCPPrompt name args profile) \<longleftrightarrow> name \<notin> set (map pd_name (listMCPPrompts profile))"
    by (auto simp: getMCPPrompt_def listMCPPrompts_def filterPromptsForProfile_def isPromptAllowedForProfile_def MCP_PROMPTS_def
        REMOTE_CONNECTOR_PROMPTS_def)
  moreover have "\<exists>cache. fst (readResource te now uri profile s) =
      s\<lparr>ms_world := (ms_world s)\<lparr>w_conn := (w_conn (ms_world s))\<lparr>cs_cache := cache\<rparr>\<rparr>\<rparr>"
  proof -
    have "s = s\<lparr>ms_world := (ms_world s)\<lparr>w_conn := (w_conn (ms_world s))\<lparr>cs_cache := cs_cache (w_conn (ms_world s))\<rparr>\<rparr>\<rparr>" by simp
    then have same: "\<exists>cache. s = s\<lparr>ms_world := (ms_world s)\<lparr>w_conn := (w_conn (ms_world s))\<lparr>cs_cache := cache\<rparr>\<rparr>\<rparr>" by blast
    obtain cache hosts where h: "getConfiguredHosts (ce_home (te_conn te)) (ce_config (te_conn te)) now (cs_cache (w_conn (ms_world s))) = (cache, hosts)"
      by fastforce
    show ?thesis
    proof (cases "isResourceAllowedForProfile uri profile \<and> uri = ''mcp-ssh-tool://ssh-config/hosts''")
      case True
      then have "fst (readResource te now uri profile s) = s\<lparr>ms_world := (ms_world s)\<lparr>w_conn := (w_conn (ms_world s))\<lparr>cs_cache := cache\<rparr>\<rparr>\<rparr>"
        by (elim conjE) (simp add: readResource_def Let_def h)
      then show ?thesis by blast
    next
      case False
      then have "fst (readResource te now uri profile s) = s"
        by (cases "isResourceAllowedForProfile uri profile")
          (simp_all only: readResource_def Let_def if_distrib [of fst] fst_conv if_cancel if_False if_True simp_thms)
      then show ?thesis using same by (simp only:)
    qed
  qed
  moreover have "profile = FullProfile \<or> snd (readResource te now uri profile s) = Inr (SupportMatrix support_matrix) \<or>
      isl (snd (readResource te now uri profile s))"
    by (auto simp: readResource_def isResourceAllowedForProfile_def REMOTE_CONNECTOR_RESOURCES_def Let_def)
  ultimately show ?thesis by blast
qed

section \<open>The command line and the configuration\<close>

lemma set_env_other: "n \<noteq> m \<Longrightarrow> set_env n v env m = env m"
  by (simp add: set_env_def)

lemma set_env_same: "set_env n v env n = coalesce (given v) (env n)"
  by (cases v) (auto simp: set_env_def coalesce_def given_def truthy_def)

text \<open>How options and variables decide together: an option wins over the variable of the same setting, with one exception: the variable
  \<open>PORT\<close> wins over \<open>--port\<close>. A profile that does not exist counts as the full profile.\<close>
theorem cli_options_reach_config:
  assumes "parseArgs argv no_options = Inr o'" and "main env argv = StartHttp env'" and "loadConfig home tmp env' files no_overrides = Inr c"
  shows "hc_host (sv_http c) = or_else (coalesce (given (cli_host o')) (env ''SSH_MCP_HTTP_HOST'')) ''127.0.0.1'' \<and>
    hc_port (sv_http c) = parseInteger (coalesce (env ''PORT'') (coalesce (given (cli_port o')) (env ''SSH_MCP_HTTP_PORT''))) 3000 \<and>
    cc_toolProfile (sv_connector c) = parseToolProfile
      (coalesce (coalesce (given (cli_toolProfile o')) (env ''SSH_MCP_TOOL_PROFILE'')) (env ''SSH_MCP_CONNECTOR_PROFILE'')) FullProfile"
proof -
  have env': "env' = http_env o' env" using assms(1,2) by (auto simp: main_def split: if_splits option.splits)
  have vars: "env' ''SSH_MCP_HTTP_HOST'' = coalesce (given (cli_host o')) (env ''SSH_MCP_HTTP_HOST'')" "env' ''PORT'' = env ''PORT''"
    "env' ''SSH_MCP_HTTP_PORT'' = coalesce (given (cli_port o')) (env ''SSH_MCP_HTTP_PORT'')"
    "env' ''SSH_MCP_TOOL_PROFILE'' = coalesce (given (cli_toolProfile o')) (env ''SSH_MCP_TOOL_PROFILE'')"
    "env' ''SSH_MCP_CONNECTOR_PROFILE'' = env ''SSH_MCP_CONNECTOR_PROFILE''"
    by (simp_all add: env' http_env_def set_env_other set_env_same)
  obtain f where "c = apply_overrides no_overrides (load_environment env' f (DEFAULT_CONFIG home tmp))"
    using assms(3) by (auto simp: loadConfig_def split: sum.splits)
  then show ?thesis
    by (simp add: load_defs override_defs no_overrides_def DEFAULT_CONFIG_def vars)
qed

definition sample_args :: "string list" where
  "sample_args = [''http'', ''--port'', ''8080'', ''--tool-profile'', ''remote-safe'']"

definition sample_options :: CliOptions where
  "sample_options = no_options\<lparr>cli_http := True, cli_port := Some ''8080'', cli_toolProfile := Some ''remote-safe''\<rparr>"

lemma sample_parse: "parseArgs sample_args no_options = Inr sample_options"
  by (simp add: sample_args_def sample_options_def no_options_def value_option_def flag_option_def)

theorem cli_options_reach_config_witness:
  "\<exists>c. loadConfig ''/h'' ''/tmp'' (http_env sample_options [''PORT'' \<mapsto> ''3001'']) (\<lambda>_. Inl ''no file'') no_overrides = Inr c \<and>
     hc_port (sv_http c) = 3001 \<and> cc_toolProfile (sv_connector c) = RemoteSafe"
proof -
  let ?env = "http_env sample_options [''PORT'' \<mapsto> ''3001'']"
  have main: "main [''PORT'' \<mapsto> ''3001''] sample_args = StartHttp ?env"
    by (simp add: main_def sample_parse) (simp add: sample_options_def no_options_def)
  have "?env ''SSH_MCP_POLICY_FILE'' = None" by (simp add: http_env_def set_env_other)
  then obtain c where c: "loadConfig ''/h'' ''/tmp'' ?env (\<lambda>_. Inl ''no file'') no_overrides = Inr c"
    by (simp add: loadConfig_def loadPolicyFile_def)
  have "parseInteger (Some ''3001'') 3000 = 3001" by code_simp
  moreover have "parseToolProfile (Some ''remote-safe'') FullProfile = RemoteSafe" by code_simp
  ultimately show ?thesis
    using c cli_options_reach_config [OF sample_parse main c] by (auto simp: sample_options_def no_options_def coalesce_def given_def)
qed

text \<open>A configuration for two calls in a second, a tool that does not exist called three times.\<close>

definition limited_config :: ServerConfig where
  "limited_config = (DEFAULT_CONFIG ''/h'' ''/tmp'')\<lparr>sv_rateLimit := \<lparr>rl_enabled = True, rl_maxRequests = 2, rl_windowMs = 1000\<rparr>\<rparr>"

definition sample_tool_env :: tool_env where
  "sample_tool_env = \<lparr>te_conn = sample_connector_env, te_sessions = sample_session_config, te_engine = sample_engine, te_config = limited_config,
     te_host = demo_host, te_fs = demo_fs, te_proc = demo_proc, te_local = demo_local, te_maxTransferBytes = 10, te_decode = (\<lambda>_ s. s),
     te_depth = 3, te_duration = (\<lambda>_. 1), te_listen = (\<lambda>_. Inr 1), te_closes = (\<lambda>_. True)\<rparr>"

definition sample_server :: mcp_server where
  "sample_server = \<lparr>ms_world = \<lparr>w_calls = [], w_conn = sample_connector_state, w_tunnels = new_TunnelManager (createEmptyMetrics 0)\<rparr>,
     ms_logs = [], ms_audit = new_AuditLog 500\<rparr>"


end
