(* ===== verification/Spec2Isabelle.thy ===== *)
theory Spec2Isabelle
  imports Policy Shell RateLimiter Retry EndToEnd WebSocket Sessions HttpServer SessionTools Transfers Tunnels AuditLogging Detection McpServer
begin

text \<open>
  \<^bold>\<open>The program.\<close> The repository is an MCP server that lets an AI client work on SSH hosts. It has four
  parts. (1) The local server: tools open SSH sessions (\<open>src/session.ts\<close>) and run commands and file
  operations on them; before anything touches a host, the policy engine (\<open>src/policy.ts\<close>) decides, command
  lines are built by \<open>src/shell.ts\<close>, calls are counted by \<open>src/rate-limiter.ts\<close> and repeated by
  \<open>src/retry.ts\<close>. (2) The HTTP endpoint (\<open>src/server-http.ts\<close>) that serves the same tools over HTTP behind
  origin checks, bearer tokens or OAuth. (3) The remote control plane (\<open>src/remote/control-plane.ts\<close>): an
  OAuth server, an enrollment service and a dispatcher that sends signed actions over a web socket to agents.
  (4) The agent (\<open>src/remote/agent-cli.ts\<close>, \<open>src/remote/agent-executor.ts\<close>): it verifies an action against
  its own policy, runs it and signs the result.

  \<^bold>\<open>Theories.\<close> Each theory names the source it models; a definition keeps the name of the function it
  translates.

  \<^item> \<open>Prelude\<close>: results (\<open>'e + 'a\<close>), JavaScript strings, \<open>Map\<close> objects (\<open>jm_get\<close>, \<open>jm_set\<close>, \<open>jm_delete\<close>, with
    the locale \<open>map_object\<close>), runs of step relations (the locale \<open>invariant_system\<close>). \<open>Effects\<close>: operations
    that change a state and may throw, with rules for invariants and for pre- and postconditions.
  \<^item> \<open>Paths\<close>, \<open>Safety\<close>, \<open>Policy\<close> (\<open>src/policy.ts\<close>, \<open>src/safety.ts\<close>): path normalisation, the regular expressions
    of the command checker, and \<open>evaluate\<close> as the source's chain of early returns. Its specification is an
    abstract policy over path segments; \<open>evaluate\<close> refines it.
  \<^item> \<open>Shell\<close> (\<open>src/shell.ts\<close>): quoting and command builders. The locale \<open>quoting\<close> is the contract between a
    quoting function and a shell's reader of words; it has an interpretation for each of the five quoting
    functions of the program.
  \<^item> \<open>Errors\<close>, \<open>RateLimiter\<close>, \<open>Retry\<close>: error values, the sliding window as a state machine, the retry loop.
  \<^item> \<open>KnownHosts\<close>, \<open>Sessions\<close> (\<open>src/session.ts\<close>): host keys, authentication, and the session manager as a step
    relation in which opens and closes overlap; a session is only ever open to a host the policy allowed.
  \<^item> \<open>HostTools\<close>, \<open>Metrics\<close>: what the tools on a session share: recorded calls on the host, whose answers are a
    function of the calls before, errors, and the rules \<open>calls\<close> that bound the calls of an operation. On it stand
    \<open>FsTools\<close> (\<open>src/fs-tools.ts\<close>), \<open>Processes\<close> (\<open>src/process.ts\<close>, \<open>src/streaming.ts\<close>), \<open>Ensure\<close> (\<open>src/ensure.ts\<close>)
    and \<open>Transfers\<close> (\<open>src/transfer.ts\<close>), each function with its policy check, its SFTP and its shell variant and
    its error paths. \<open>Tunnels\<close> (\<open>src/tunnel.ts\<close>) is a step relation of its own. \<open>SessionTools\<close> runs the tools on the
    sessions of \<open>Sessions\<close>: whatever reaches a host was allowed when its session was opened and when it was called.
  \<^item> \<open>Detection\<close> (\<open>src/detect.ts\<close>): the probes of a host's system, which always end in a description of it.
  \<^item> \<open>AuditLogging\<close> (\<open>src/logging.ts\<close>, \<open>src/audit.ts\<close>, the observer of \<open>src/container.ts\<close>): redaction of data and messages, and
    the log in which every policy decision leaves one redacted event.
  \<^item> \<open>Configuration\<close> (\<open>src/config.ts\<close>, \<open>src/remote/config.ts\<close>): defaults, variables, policy file and overrides; with the
    startup check of \<open>HttpServer\<close>, what a public server must have been told. \<open>SshConfigFile\<close> (\<open>src/ssh-config.ts\<close>): the
    parser of SSH configurations, its patterns and its caches.
  \<^item> \<open>Connector\<close> (\<open>src/connector-credentials.ts\<close>, \<open>src/tools/connector.provider.ts\<close>), \<open>ToolSchemas\<close> (the schemas of \<open>src/types.ts\<close>),
    \<open>SessionProvider\<close>, \<open>ToolCatalog\<close>, \<open>ToolProviders\<close> (\<open>src/tools/*.provider.ts\<close>) and \<open>ToolRegistry\<close> (\<open>src/tools/registry.ts\<close>,
    \<open>src/tools/index.ts\<close>): declarations, arguments and methods of every tool, and their dispatch. The locale \<open>tool_provider\<close> is the
    contract of a provider with the registry, interpreted for all eight; under a remote profile any sequence of
    calls is confined to looking.
  \<^item> \<open>McpServer\<close> (\<open>src/mcp.ts\<close>, \<open>src/resources.ts\<close>, \<open>src/prompts.ts\<close>, \<open>src/index.ts\<close>): tool calls behind the rate limiter, resources and prompts
    under a profile, and the command line with the variables it sets.
  \<^item> \<open>OAuth\<close>, \<open>HttpServer\<close> (\<open>src/oauth.ts\<close>, \<open>src/auth.ts\<close>, \<open>src/http-security.ts\<close>, \<open>src/connector-profile.ts\<close>,
    \<open>src/server-http.ts\<close>): startup check, authorisation of requests, sessions with their limit and idle time.
  \<^item> \<open>RemoteTypes\<close>, \<open>RemotePolicy\<close>, \<open>RemoteCrypto\<close>, \<open>RemoteStore\<close>, \<open>Envelopes\<close>, \<open>DateTime\<close>: capabilities, scopes, the
    agent's policy, canonical JSON and signatures, the tables of the store (locale \<open>one_time\<close> for tables of
    one-time secrets), the schemas of messages, and dates that travel as text.
  \<^item> \<open>ControlPlane\<close>, \<open>Authorize\<close>, \<open>AgentLink\<close>, \<open>RemoteTools\<close>, \<open>ControlSystem\<close>: the state of the control plane, its
    handlers, and \<open>cp_step\<close>, the interleaving of requests, agent messages, socket events, timers and the
    continuations of awaited promises. \<open>ControlInvariants\<close> proves once, in the locales \<open>quiet_inv\<close> and
    \<open>store_inv\<close>, that an invariant of the store operations is one of every handler; \<open>ControlProperties\<close>,
    \<open>ControlDispatch\<close>, \<open>ControlReplay\<close>, \<open>ControlIsolation\<close> and \<open>ControlEnrollment\<close> hold what follows.
  \<^item> \<open>WebSocket\<close> (\<open>src/remote/websocket.ts\<close>): frames as bytes, the buffer and the loop that drains it.
  \<^item> \<open>AgentExecutor\<close>, \<open>AgentCli\<close>, \<open>EndToEnd\<close>: the agent's checks and actions, the handling of its messages, and
    both sides together: an action that is dispatched is run and settles with the agent's result.

  \<^bold>\<open>What the theorems show.\<close> Safety: what reaches a host, an agent or a transport was authorised (policy,
  scopes, tokens, signatures, host keys), secrets work once, revocation is final, users are isolated, command
  lines are read as the arguments they were built from. Invariants and bounds: the store's constraints, the
  limits of sessions, requests, buffers and output; a configuration loaded from variables is well formed. Functional behaviour:
  token endpoint, lines of files, expiry, audited decisions.
  Writes and downloads replace their target by one rename; listings and removals come to an end and are complete.
  Equivalence and round trips: canonical JSON, frames under every chunking, access tokens, signatures, SSH
  configurations, the tools that are listed and those that run. Some
  theorems show where the code falls short of its intent; they are the error properties.

  \<^bold>\<open>Modelling choices.\<close> Time, random draws and the platform (\<open>node:crypto\<close>, \<open>URL\<close>, file system, processes, the
  SSH and JOSE libraries) are parameters, with what is relied on as a named hypothesis where one is needed. A
  string is a list of code units below 256. An awaited promise splits a handler where other code can run in
  between. Numbers are unbounded integers (rationals in the retry loop), as no computation of the code comes near
  \<open>2 ^ 53\<close>; the bytes of frames are words. Bounds of the code that the model keeps: 10 000 remembered actions of
  an agent, 4 096 nonces per window, frames and messages of at most one mebibyte, bodies of at most a million
  bytes. Dates are exact for the years 1970 to 9999. Every loop is a total function. One definition has a bound
  of its own: the recursion of \<open>sftpRmdirRecursive\<close> into directories, whose end depends on the host, takes a
  depth; \<open>removeRecursive_complete\<close> shows that the depth of the tree on the host is enough.

  \<^bold>\<open>Not modelled.\<close> The MCP SDK and its transports, which are code of a library; texts for people (help,
  suggestions, descriptions of tools, HTML pages, the warning of the command checker) and lines written to the
  log, which nothing reads back; telemetry, process signals and process start. For the tools on a
  session \<open>getOSInfo\<close> may answer anything, so that their theorems do not depend on what \<open>Detection\<close> concludes. In
  \<open>ToolProviders\<close> a tool runs to its end before the next one; overlapping calls are the subject of the step relations of
  \<open>Sessions\<close>, \<open>Tunnels\<close> and \<open>HttpServer\<close>. The maintenance scripts under \<open>scripts\<close> are no part of the server.
\<close>

end
